(* ===== verification/Prelude.thy ===== *)
theory Prelude
  imports Main "HOL-Library.Word" "HOL-Library.State_Monad"
begin

text \<open>
  Shared vocabulary of the development: the machine-integer types of the firmware, the
  state-monad operations every stateful component is written in, the loop combinators that
  stand for the C++ \<open>for\<close> loops, and the collections of rewrite rules the component
  theories fill. Nothing here models a particular function of the program.
\<close>

unbundle bit_operations_syntax

section \<open>Machine integers\<close>

type_synonym u8 = "8 word"
type_synonym u16 = "16 word"
type_synonym u32 = "32 word"
type_synonym u64 = "64 word"

named_theorems step_defs
  \<open>definitions of the imperative operations, unfolded to execute a step symbolically\<close>

named_theorems frame
  \<open>what an operation leaves unchanged\<close>

section \<open>State passing\<close>

text \<open>
  A C++ function that reads and writes the firmware's globals is a value of type
  \<open>('s, 'a) state\<close>: given the globals it returns its result and the globals afterwards.
\<close>

abbreviation ret :: "'a \<Rightarrow> ('s, 'a) state" where
  "ret \<equiv> State_Monad.return"

definition gets :: "('s \<Rightarrow> 'a) \<Rightarrow> ('s, 'a) state" where
  "gets f = State (\<lambda>s. (f s, s))"

definition modify :: "('s \<Rightarrow> 's) \<Rightarrow> ('s, unit) state" where
  "modify f = State (\<lambda>s. ((), f s))"

lemma run_gets [simp]: "run_state (gets f) s = (f s, s)"
  by (simp add: gets_def)

lemma run_modify [simp]: "run_state (modify f) s = ((), f s)"
  by (simp add: modify_def)

lemma run_if [simp]:
  "run_state (if c then p else q) s = (if c then run_state p s else run_state q s)"
  by simp

text \<open>The state after a step and the value it returns.\<close>

definition exec :: "('s, 'a) state \<Rightarrow> 's \<Rightarrow> 's" where
  "exec p s = snd (run_state p s)"

definition val_of :: "('s, 'a) state \<Rightarrow> 's \<Rightarrow> 'a" where
  "val_of p s = fst (run_state p s)"

lemma exec_simps [simp]:
  "exec (ret x) s = s"
  "exec (gets f) s = s"
  "exec (modify g) s = g s"
  "exec (State_Monad.bind p k) s = exec (k (val_of p s)) (exec p s)"
  by (simp_all add: exec_def val_of_def split_beta)

lemma val_of_simps [simp]:
  "val_of (ret x) s = x"
  "val_of (gets f) s = f s"
  "val_of (modify g) s = ()"
  "val_of (State_Monad.bind p k) s = val_of (k (val_of p s)) (exec p s)"
  by (simp_all add: exec_def val_of_def split_beta)

lemma exec_if [simp]: "exec (if c then p else q) s = (if c then exec p s else exec q s)"
  by simp

lemma val_of_if [simp]: "val_of (if c then p else q) s = (if c then val_of p s else val_of q s)"
  by simp

lemma run_state_split: "run_state p s = (val_of p s, exec p s)"
  by (simp add: exec_def val_of_def)

text \<open>\<open>when\<close> is an \<open>if\<close> without \<open>else\<close>; \<open>for_each\<close> is a \<open>for\<close> loop over the listed
  values of its counter.\<close>

definition when_do :: "bool \<Rightarrow> ('s, unit) state \<Rightarrow> ('s, unit) state" where
  "when_do c p = (if c then p else ret ())"

lemma exec_when [simp]: "exec (when_do c p) s = (if c then exec p s else s)"
  by (simp add: when_do_def)

primrec for_each :: "'i list \<Rightarrow> ('i \<Rightarrow> ('s, unit) state) \<Rightarrow> ('s, unit) state" where
  "for_each [] body = ret ()"
| "for_each (i # is) body = do { body i; for_each is body }"

primrec map_each :: "'i list \<Rightarrow> ('i \<Rightarrow> ('s, 'a) state) \<Rightarrow> ('s, 'a list) state" where
  "map_each [] body = ret []"
| "map_each (i # is) body = do { x \<leftarrow> body i; xs \<leftarrow> map_each is body; ret (x # xs) }"

text \<open>An invariant every iteration keeps holds after the loop.\<close>

lemma exec_for_each_invariant:
  assumes "I s" and "\<And>i t. i \<in> set is \<Longrightarrow> I t \<Longrightarrow> I (exec (body i) t)"
  shows "I (exec (for_each is body) s)"
  using assms by (induction "is" arbitrary: s) auto

lemma exec_for_each_append:
  "exec (for_each (is @ js) body) s = exec (for_each js body) (exec (for_each is body) s)"
  by (induction "is" arbitrary: s) auto

lemma exec_map_each_invariant:
  assumes "I s" and "\<And>i t. i \<in> set is \<Longrightarrow> I t \<Longrightarrow> I (exec (body i) t)"
  shows "I (exec (map_each is body) s)"
  using assms by (induction "is" arbitrary: s) auto

text \<open>An operation on a part of the state, run on the whole of it.\<close>

definition zoom :: "('s \<Rightarrow> 'p) \<Rightarrow> ('p \<Rightarrow> 's \<Rightarrow> 's) \<Rightarrow> ('p, 'a) state \<Rightarrow> ('s, 'a) state" where
  "zoom g u p = State (\<lambda>s. case run_state p (g s) of (a, q) \<Rightarrow> (a, u q s))"

lemma exec_zoom [simp]: "exec (zoom g u p) s = u (exec p (g s)) s"
  by (simp add: zoom_def exec_def split: prod.splits)

lemma val_of_zoom [simp]: "val_of (zoom g u p) s = val_of p (g s)"
  by (simp add: zoom_def val_of_def split: prod.splits)

section \<open>Facts on machine words\<close>

lemma mask_8: "(0xFF :: 'a::len word) = mask 8"
  by (simp add: mask_eq_exp_minus_1)

lemma mask_4: "(0x0F :: 'a::len word) = mask 4"
  by (simp add: mask_eq_exp_minus_1)

lemma uint_not_minus_one [simp]: "uint w \<noteq> -1" "- 1 \<noteq> uint w" for w :: "'a::len word"
  using uint_ge_0 [of w] by linarith+

lemma uint_same_iff [simp]: "uint v = uint w \<longleftrightarrow> v = w" for v w :: "'a::len word"
  by (simp add: word_uint_eq_iff)

lemma low_byte_of_word: "ucast (w AND 0xFF) = (ucast w :: u8)" for w :: u16
  unfolding mask_8 by (rule bit_word_eqI) (auto simp: bit_simps)

lemma bus_byte_roundtrip: "ucast (drop_bit 40 (push_bit 40 (ucast v :: u64))) = (v :: u8)"
  by (rule bit_word_eqI) (auto simp: bit_simps)

lemma hi_in_roundtrip:
  "(ucast (drop_bit 8 (push_bit 8 (ucast v :: u32)) AND 0xFF) :: u8) = v"
  unfolding mask_8 by (rule bit_word_eqI) (auto simp: bit_simps simp del: push_bit_numeral)

lemma join_bytes:
  "push_bit 8 (ucast (ucast (drop_bit 8 a) :: u8)) OR ucast (ucast a :: u8) = (a :: u16)"
  by (rule bit_word_eqI) (auto simp: bit_simps)

end
