(* ===== verification/Board.thy ===== *)
theory Board
  imports Prelude
begin

text \<open>
  The edge of the firmware: the GPIO register accesses of \<open>pins.h\<close>, \<open>control.cpp\<close>,
  \<open>neobus.cpp\<close>, \<open>mmu.cpp\<close> and \<open>p6502.cpp\<close> as a datatype of events, and the board they
  act on as a parameter. The board (latches, MMU table RAM, 512 KB of memory, the 65C02) is
  hardware and not code of the repository, so every operation of the firmware takes a
  \<open>board\<close> argument: how a register access changes the board, and what the firmware reads
  back. \<open>ref_board\<close> is one board, written from the pin comments and the README; the
  locale \<open>neo_bus\<close> states what the firmware relies on, namely that the real board shows
  through some view the behaviour of the reference board.
\<close>

section \<open>Pins\<close>

datatype pin =
    pRW | mRW | pMMUIO | pMMUARegHLatch | pMMUDRegOE
  | p6502SYNC | p6502PHI2 | p6502RESET | p6502RW | p6502BE | p6502RDY | p6502IRQ
  | pCPUARegLLatch | pCPUARegHLatch | pCPUARegOE | pCPUABufLOE | pCPUABufHOE | pCPUDBufOE
  | pDebug

fun gpio_of :: "pin \<Rightarrow> nat" where
  "gpio_of pRW = 4"
| "gpio_of mRW = 5"
| "gpio_of pMMUIO = 7"
| "gpio_of pMMUARegHLatch = 22"
| "gpio_of pMMUDRegOE = 23"
| "gpio_of p6502SYNC = 20"
| "gpio_of p6502PHI2 = 26"
| "gpio_of p6502RESET = 27"
| "gpio_of p6502RW = 28"
| "gpio_of p6502BE = 29"
| "gpio_of p6502RDY = 30"
| "gpio_of p6502IRQ = 31"
| "gpio_of pCPUARegLLatch = 32"
| "gpio_of pCPUARegHLatch = 33"
| "gpio_of pCPUARegOE = 34"
| "gpio_of pCPUABufLOE = 35"
| "gpio_of pCPUABufHOE = 36"
| "gpio_of pCPUDBufOE = 37"
| "gpio_of pDebug = 38"

text \<open>
  \<open>FastPin<Pin>::high\<close> and \<open>low\<close> write a one-bit mask to the set or clear register of
  the bank that holds the pin: bank 0 for pins below 32, bank 1 above.
\<close>

datatype gpio_bank = Bank0 | Bank1

definition fast_pin_bank :: "nat \<Rightarrow> gpio_bank" where
  "fast_pin_bank n = (if n div 32 = 0 then Bank0 else Bank1)"

definition fast_pin_mask :: "nat \<Rightarrow> u32" where
  "fast_pin_mask n = push_bit (n mod 32) 1"

text \<open>The data bus of the board hangs on pins 40 to 47.\<close>

definition DATA_BUS_MASK :: u64 where
  "DATA_BUS_MASK = 0xFF0000000000"

section \<open>Register accesses and the board\<close>

datatype gpio_io =
    GpioInit nat
  | GpioDir nat bool            \<comment> \<open>\<open>True\<close>: output\<close>
  | GpioPullUp nat
  | GpioPwm pin
  | GpioSio pin
  | PinSet pin bool             \<comment> \<open>\<open>FastPin::high\<close> / \<open>low\<close>\<close>
  | DirMasked u64 u64           \<comment> \<open>\<open>gpio_set_dir_masked64\<close>: mask, directions\<close>
  | PutMasked u64 u64           \<comment> \<open>\<open>gpio_put_masked64\<close>: mask, levels\<close>
  | Delay nat                   \<comment> \<open>nanoseconds\<close>
  | PwmStart u32                \<comment> \<open>PHI2 free running, at the requested frequency\<close>
  | PwmStop
  | IrqAck pin
  | IrqBank bool
  | IrqPin pin bool

record 'b board =
  b_io :: "'b \<Rightarrow> gpio_io \<Rightarrow> 'b"
  b_hi_in :: "'b \<Rightarrow> u32"           \<comment> \<open>\<open>sio_hw->gpio_hi_in\<close>\<close>
  b_get :: "'b \<Rightarrow> pin \<Rightarrow> bool"     \<comment> \<open>\<open>gpio_get\<close>\<close>
  b_millis :: "'b \<Rightarrow> u32"

section \<open>The reference board\<close>

text \<open>
  \<open>lv\<close> are the levels the firmware drives, \<open>bus_out\<close> and \<open>bus_val\<close> its side of the
  data bus. Two 8-bit latches hold the address register AREG, one holds the MMU context.
  The MMU table maps (context, A15..A12) to a page byte whose low seven bits select one of
  128 pages of 4 KB. All output enables are active low and every latch captures on the
  rising edge. \<open>cpu_addr\<close>, \<open>cpu_data\<close>, \<open>cpu_regs\<close>, \<open>in_pin\<close> and \<open>clock_ms\<close> belong to the 65C02 and
  the world around the board.
\<close>

record ref =
  lv :: "pin \<Rightarrow> bool"
  bus_out :: bool
  bus_val :: u8
  areg_h :: u8
  areg_l :: u8
  ctx_reg :: u8
  mmu_ram :: "u8 \<Rightarrow> u8 \<Rightarrow> u8"
  ram :: "u8 \<Rightarrow> u16 \<Rightarrow> u8"
  cpu_addr :: u16
  cpu_data :: u8
  cpu_regs :: nat
  in_pin :: "pin \<Rightarrow> bool"
  clock_ms :: u32

definition on_bus :: "ref \<Rightarrow> u8" where
  "on_bus h = (if bus_out h then bus_val h else 0xFF)"

definition areg :: "ref \<Rightarrow> u16" where
  "areg h = push_bit 8 (ucast (areg_h h)) OR ucast (areg_l h)"

definition addr_bus :: "ref \<Rightarrow> u16" where
  "addr_bus h = (if lv h pCPUARegOE then cpu_addr h else areg h)"

definition page_index :: "u16 \<Rightarrow> u8" where
  "page_index a = ucast (drop_bit 12 a)"

definition page_offset :: "u16 \<Rightarrow> u16" where
  "page_offset a = a AND 0x0FFF"

definition phys_page :: "ref \<Rightarrow> u8 \<Rightarrow> u16 \<Rightarrow> u8" where
  "phys_page h c a = mmu_ram h c (page_index a) AND 0x7F"

text \<open>The byte the 6502 address space holds at \<open>a\<close> under context \<open>c\<close>.\<close>

definition cell :: "ref \<Rightarrow> u8 \<Rightarrow> u16 \<Rightarrow> u8" where
  "cell h c a = ram h (phys_page h c a) (page_offset a)"

definition poke :: "u8 \<Rightarrow> u16 \<Rightarrow> u8 \<Rightarrow> ref \<Rightarrow> ref" where
  "poke c a v h = h\<lparr>ram := (ram h)(phys_page h c a :=
     (ram h (phys_page h c a))(page_offset a := v))\<rparr>"

definition set_entry :: "u8 \<Rightarrow> u8 \<Rightarrow> u8 \<Rightarrow> ref \<Rightarrow> ref" where
  "set_entry c i v h = h\<lparr>mmu_ram := (mmu_ram h)(c := (mmu_ram h c)(i := v))\<rparr>"

text \<open>What a rising edge of a pin captures; the levels of \<open>h\<close> are those before the edge.\<close>

definition rising :: "pin \<Rightarrow> ref \<Rightarrow> ref" where
  "rising p h = (case p of
     pMMUARegHLatch \<Rightarrow> h\<lparr>ctx_reg := on_bus h\<rparr>
   | pCPUARegHLatch \<Rightarrow> h\<lparr>areg_h := on_bus h\<rparr>
   | pCPUARegLLatch \<Rightarrow> h\<lparr>areg_l := on_bus h\<rparr>
   | pRW \<Rightarrow> if \<not> lv h pMMUDRegOE
            then set_entry (ctx_reg h) (page_index (addr_bus h)) (on_bus h) h else h
   | p6502RW \<Rightarrow> if \<not> lv h pCPUDBufOE \<and> \<not> lv h mRW
            then poke (ctx_reg h) (addr_bus h) (on_bus h) h else h
   | _ \<Rightarrow> h)"

definition drive :: "pin \<Rightarrow> bool \<Rightarrow> ref \<Rightarrow> ref" where
  "drive p b h = (let h' = (if b \<and> \<not> lv h p then rising p h else h)
                  in h'\<lparr>lv := (lv h')(p := b)\<rparr>)"

text \<open>
  The 65C02 itself is an arbitrary function \<open>cpu\<close>. It acts when its clock does: on a step of
  PHI2, and, for the whole of a free-running period, when that period is stopped. Then its bus
  outputs, its registers, the input pins, the clock of the world and the memory it wrote are
  what \<open>cpu\<close> says; the latches and the MMU table are out of its reach.
\<close>

type_synonym cpu = "ref \<Rightarrow> ref"

definition cpu_acts :: "cpu \<Rightarrow> ref \<Rightarrow> ref" where
  "cpu_acts cpu h = h\<lparr>ram := ram (cpu h), cpu_addr := cpu_addr (cpu h),
     cpu_data := cpu_data (cpu h), cpu_regs := cpu_regs (cpu h), in_pin := in_pin (cpu h),
     clock_ms := clock_ms (cpu h)\<rparr>"

fun ref_io :: "cpu \<Rightarrow> ref \<Rightarrow> gpio_io \<Rightarrow> ref" where
  "ref_io cpu h (PinSet p b) =
     (if p = p6502PHI2 then cpu_acts cpu (drive p b h) else drive p b h)"
| "ref_io cpu h (DirMasked m d) =
     (if m = DATA_BUS_MASK then h\<lparr>bus_out := (d \<noteq> 0)\<rparr> else h)"
| "ref_io cpu h (PutMasked m d) =
     (if m = DATA_BUS_MASK then h\<lparr>bus_val := ucast (drop_bit 40 d)\<rparr> else h)"
| "ref_io cpu h PwmStop = cpu_acts cpu h"
| "ref_io cpu h (Delay n) = h"
| "ref_io cpu h (GpioInit n) = h"
| "ref_io cpu h (GpioDir n out) = h"
| "ref_io cpu h (GpioPullUp n) = h"
| "ref_io cpu h (GpioPwm p) = h"
| "ref_io cpu h (GpioSio p) = h"
| "ref_io cpu h (PwmStart f) = h"
| "ref_io cpu h (IrqAck p) = h"
| "ref_io cpu h (IrqBank b) = h"
| "ref_io cpu h (IrqPin p b) = h"

text \<open>The byte the enabled buffer puts on pins 40 to 47; nothing enabled reads as pulled up.\<close>

definition ref_bus :: "ref \<Rightarrow> u8" where
  "ref_bus h =
     (if \<not> lv h pMMUDRegOE \<and> lv h pRW then mmu_ram h (ctx_reg h) (page_index (addr_bus h))
      else if \<not> lv h pCPUDBufOE \<and> lv h mRW then
        (if lv h pCPUARegOE then cpu_data h else cell h (ctx_reg h) (addr_bus h))
      else if \<not> lv h pCPUABufHOE then ucast (drop_bit 8 (addr_bus h))
      else if \<not> lv h pCPUABufLOE then ucast (addr_bus h)
      else 0xFF)"

definition ref_board :: "cpu \<Rightarrow> ref board" where
  "ref_board cpu = \<lparr>b_io = ref_io cpu,
     b_hi_in = (\<lambda>h. push_bit 8 (ucast (ref_bus h))),
     b_get = in_pin, b_millis = clock_ms\<rparr>"

text \<open>
  The contract of the firmware with its board: through \<open>view\<close> it does what the reference
  board does, and the data bus shows on bits 8 to 15 of the high input register.
\<close>

locale neo_bus =
  fixes bd :: "'b board" and view :: "'b \<Rightarrow> ref" and cpu :: cpu
  assumes view_io [simp]: "view (b_io bd h e) = ref_io cpu (view h) e"
    and view_bus: "(ucast (drop_bit 8 (b_hi_in bd h) AND 0xFF) :: u8) = ref_bus (view h)"
    and view_pin: "b_get bd h p = in_pin (view h) p"
    and view_millis: "b_millis bd h = clock_ms (view h)"

interpretation ref_sim: neo_bus "ref_board cpu" id cpu for cpu
  by unfold_locales (simp_all add: ref_board_def hi_in_roundtrip del: push_bit_numeral)

section \<open>Facts on pins and on address translation\<close>

lemma gpio_of_inject: "gpio_of p = gpio_of q \<longleftrightarrow> p = q"
  by (cases p; cases q) simp_all

lemma gpio_of_below_bus: "gpio_of p < 40"
  by (cases p) simp_all

lemma fast_pin_mask_bit: "bit (fast_pin_mask n) i \<longleftrightarrow> i = n mod 32"
proof -
  define k where "k = n mod 32"
  have "k < 32" by (simp add: k_def)
  then show ?thesis
    unfolding fast_pin_mask_def k_def [symmetric] by (auto simp: bit_exp_iff)
qed

lemma fast_pin_separates:
  assumes "m < 64" "n < 64"
  shows "fast_pin_bank m = fast_pin_bank n \<and> fast_pin_mask m = fast_pin_mask n \<longleftrightarrow> m = n"
proof
  assume eq: "fast_pin_bank m = fast_pin_bank n \<and> fast_pin_mask m = fast_pin_mask n"
  have "bit (fast_pin_mask m) (m mod 32)" by (simp add: fast_pin_mask_bit)
  then have "m mod 32 = n mod 32" using eq by (simp add: fast_pin_mask_bit)
  moreover have "(m div 32 = 0) = (n div 32 = 0)"
    using eq unfolding fast_pin_bank_def by (metis gpio_bank.distinct(1))
  moreover have "m div 32 < 2" and "n div 32 < 2"
    using assms by (simp_all add: div_less_iff_less_mult)
  ultimately have "m div 32 = n div 32" by linarith
  with \<open>m mod 32 = n mod 32\<close> show "m = n" by (metis div_mult_mod_eq)
qed simp

lemma page_offset_bound: "unat (page_offset a) < 4096"
proof -
  have "page_offset a \<le> 0x0FFF" by (simp add: page_offset_def word_and_le1)
  then show ?thesis by (simp add: word_le_nat_alt)
qed

lemma areg_of_bytes: "push_bit 8 (ucast (ucast (drop_bit 8 a) :: u8)) OR ucast (ucast a :: u8) = (a :: u16)"
  by (rule join_bytes)

lemma cell_poke: "cell (poke c a v h) c b =
   (if phys_page h c a = phys_page h c b \<and> page_offset a = page_offset b then v else cell h c b)"
  by (auto simp: cell_def poke_def phys_page_def)

lemma cell_poke_at: "cell (poke c a v h) d x =
   (if phys_page h c a = phys_page h d x \<and> page_offset a = page_offset x then v else cell h d x)"
  by (simp add: cell_def poke_def phys_page_def)

end
