(* ===== verification/Control.thy ===== *)
theory Control
  imports Board
begin

text \<open>
  The globals of the bus-level firmware as one record, and \<open>control.cpp\<close>: who controls the
  6502 bus, and the byte-wide NEO data bus on pins 40 to 47.
\<close>

datatype controlmode = mRPI | mCPU

datatype rw = mWRITE | mREAD

datatype direction = mOUTPUT | mINPUT | mUNKNOWN

datatype sysstate = sSTARTUP | sBOOT | sRESET | sHALTED | sRUNNING | sREAD | sRPI

datatype busstate = eDISABLED | eENABLED

datatype clockstate = eOFF | eON

definition rw_level :: "rw \<Rightarrow> bool" where
  "rw_level d = (d = mREAD)"

definition rw_code :: "rw \<Rightarrow> u8" where
  "rw_code d = (if d = mREAD then 1 else 0)"

record 'b machine =
  hw :: 'b
  gControlMode :: controlmode
  gBusDir :: u8
  gCurrentContext :: int
  gCurrentIndex :: int
  gMMUIOCount :: u32
  gMMUIOTrigger :: bool
  gClockFrequency :: u32
  gSysState :: sysstate
  gBusState :: busstate
  gDir6502RW :: direction
  gClockState :: clockstate

text \<open>The same globals over another board: what \<open>f\<close> sees of the hardware state.\<close>

definition absm :: "('b \<Rightarrow> 'c) \<Rightarrow> 'b machine \<Rightarrow> 'c machine" where
  "absm f m = \<lparr>hw = f (hw m), gControlMode = gControlMode m, gBusDir = gBusDir m,
     gCurrentContext = gCurrentContext m, gCurrentIndex = gCurrentIndex m,
     gMMUIOCount = gMMUIOCount m, gMMUIOTrigger = gMMUIOTrigger m,
     gClockFrequency = gClockFrequency m, gSysState = gSysState m, gBusState = gBusState m,
     gDir6502RW = gDir6502RW m, gClockState = gClockState m\<rparr>"

lemma absm_simps [simp]:
  "hw (absm f m) = f (hw m)"
  "gControlMode (absm f m) = gControlMode m"
  "gBusDir (absm f m) = gBusDir m"
  "gCurrentContext (absm f m) = gCurrentContext m"
  "gCurrentIndex (absm f m) = gCurrentIndex m"
  "gMMUIOCount (absm f m) = gMMUIOCount m"
  "gMMUIOTrigger (absm f m) = gMMUIOTrigger m"
  "gClockFrequency (absm f m) = gClockFrequency m"
  "gSysState (absm f m) = gSysState m"
  "gBusState (absm f m) = gBusState m"
  "gDir6502RW (absm f m) = gDir6502RW m"
  "gClockState (absm f m) = gClockState m"
  by (simp_all add: absm_def)

lemma absm_updates [simp]:
  "absm f (m\<lparr>hw := h\<rparr>) = (absm f m)\<lparr>hw := f h\<rparr>"
  "absm f (m\<lparr>gControlMode := a1\<rparr>) = (absm f m)\<lparr>gControlMode := a1\<rparr>"
  "absm f (m\<lparr>gBusDir := a2\<rparr>) = (absm f m)\<lparr>gBusDir := a2\<rparr>"
  "absm f (m\<lparr>gCurrentContext := a3\<rparr>) = (absm f m)\<lparr>gCurrentContext := a3\<rparr>"
  "absm f (m\<lparr>gCurrentIndex := a4\<rparr>) = (absm f m)\<lparr>gCurrentIndex := a4\<rparr>"
  "absm f (m\<lparr>gMMUIOCount := a5\<rparr>) = (absm f m)\<lparr>gMMUIOCount := a5\<rparr>"
  "absm f (m\<lparr>gMMUIOTrigger := a6\<rparr>) = (absm f m)\<lparr>gMMUIOTrigger := a6\<rparr>"
  "absm f (m\<lparr>gClockFrequency := a7\<rparr>) = (absm f m)\<lparr>gClockFrequency := a7\<rparr>"
  "absm f (m\<lparr>gSysState := a8\<rparr>) = (absm f m)\<lparr>gSysState := a8\<rparr>"
  "absm f (m\<lparr>gBusState := a9\<rparr>) = (absm f m)\<lparr>gBusState := a9\<rparr>"
  "absm f (m\<lparr>gDir6502RW := a10\<rparr>) = (absm f m)\<lparr>gDir6502RW := a10\<rparr>"
  "absm f (m\<lparr>gClockState := a11\<rparr>) = (absm f m)\<lparr>gClockState := a11\<rparr>"
  by (simp_all add: absm_def)

lemma absm_id [simp]: "absm id m = m"
  by (simp add: absm_def)

section \<open>Register access\<close>

definition io :: "'b board \<Rightarrow> gpio_io \<Rightarrow> ('b machine, unit) state" where
  "io bd e = modify (\<lambda>m. m\<lparr>hw := b_io bd (hw m) e\<rparr>)"

definition high :: "'b board \<Rightarrow> pin \<Rightarrow> ('b machine, unit) state" where
  "high bd p = io bd (PinSet p True)"

definition low :: "'b board \<Rightarrow> pin \<Rightarrow> ('b machine, unit) state" where
  "low bd p = io bd (PinSet p False)"

definition delayNs :: "'b board \<Rightarrow> nat \<Rightarrow> ('b machine, unit) state" where
  "delayNs bd n = io bd (Delay n)"

definition gpio_get :: "'b board \<Rightarrow> pin \<Rightarrow> ('b machine, bool) state" where
  "gpio_get bd p = gets (\<lambda>m. b_get bd (hw m) p)"

section \<open>control.cpp\<close>

definition getControlMode :: "('b machine, controlmode) state" where
  "getControlMode = gets gControlMode"

definition setControlMode :: "controlmode \<Rightarrow> ('b machine, unit) state" where
  "setControlMode v = modify (\<lambda>m. m\<lparr>gControlMode := v\<rparr>)"

definition setNEOBusDir :: "'b board \<Rightarrow> rw \<Rightarrow> ('b machine, unit) state" where
  "setNEOBusDir bd d = do {
     cur \<leftarrow> gets gBusDir;
     when_do (rw_code d \<noteq> cur) (do {
       (case d of
          mWRITE \<Rightarrow> io bd (DirMasked DATA_BUS_MASK DATA_BUS_MASK)
        | mREAD \<Rightarrow> io bd (DirMasked DATA_BUS_MASK 0));
       modify (\<lambda>m. m\<lparr>gBusDir := rw_code d\<rparr>)
     })
   }"

definition readNEOBus :: "'b board \<Rightarrow> ('b machine, u8) state" where
  "readNEOBus bd = do {
     setNEOBusDir bd mREAD;
     delayNs bd 60;
     lData \<leftarrow> gets (\<lambda>m. b_hi_in bd (hw m));
     ret (ucast (drop_bit 8 lData AND 0xFF))
   }"

definition writeNEOBus :: "'b board \<Rightarrow> u8 \<Rightarrow> ('b machine, unit) state" where
  "writeNEOBus bd vData = do {
     setNEOBusDir bd mWRITE;
     let lData = push_bit 40 (ucast vData :: u64);
     io bd (PutMasked DATA_BUS_MASK lData);
     delayNs bd 60
   }"

definition resetNEOBus :: "'b board \<Rightarrow> ('b machine, unit) state" where
  "resetNEOBus bd = setNEOBusDir bd mREAD"

definition setupControl :: "'b board \<Rightarrow> ('b machine, unit) state" where
  "setupControl bd = do {
     for_each [40..<48] (\<lambda>i. do {
       io bd (GpioInit i);
       io bd (GpioDir i False);
       io bd (GpioPullUp i)
     });
     setNEOBusDir bd mREAD;
     io bd (GpioInit (gpio_of mRW));
     io bd (GpioDir (gpio_of mRW) True);
     high bd mRW;
     io bd (GpioInit (gpio_of pDebug));
     io bd (GpioDir (gpio_of pDebug) True);
     high bd pDebug
   }"

lemmas pin_defs = io_def high_def low_def delayNs_def gpio_get_def

declare setNEOBusDir_def [step_defs] getControlMode_def [step_defs] setControlMode_def [step_defs]
  pin_defs [step_defs]

section \<open>Simulation by the reference board\<close>

text \<open>
  \<open>sim view p q\<close>: running \<open>p\<close> on a board and then looking through \<open>view\<close> is running \<open>q\<close> on
  what \<open>view\<close> sees, with the same result. It is closed under sequencing, branching and loops,
  so every operation of the firmware inherits it from the register accesses.
\<close>

definition sim :: "('b \<Rightarrow> 'c) \<Rightarrow> ('b machine, 'a) state \<Rightarrow> ('c machine, 'a) state \<Rightarrow> bool" where
  "sim f p q \<longleftrightarrow> (\<forall>m. absm f (exec p m) = exec q (absm f m) \<and> val_of p m = val_of q (absm f m))"

named_theorems sim_rules \<open>operations that run alike on a board and on the reference board\<close>

lemma simD:
  assumes "sim f p q"
  shows "absm f (exec p m) = exec q (absm f m)" and "val_of p m = val_of q (absm f m)"
  using assms by (auto simp: sim_def)

lemma sim_ret [sim_rules]: "sim f (ret x) (ret x)"
  by (simp add: sim_def)

lemma sim_gets [sim_rules]: "(\<And>m. g m = g' (absm f m)) \<Longrightarrow> sim f (gets g) (gets g')"
  by (simp add: sim_def)

lemma sim_modify [sim_rules]: "(\<And>m. absm f (u m) = u' (absm f m)) \<Longrightarrow> sim f (modify u) (modify u')"
  by (simp add: sim_def)

lemma sim_bind [sim_rules]:
  assumes "sim f p q" and "\<And>x. sim f (k x) (l x)"
  shows "sim f (State_Monad.bind p k) (State_Monad.bind q l)"
  using assms by (simp add: sim_def)

lemma sim_if [sim_rules]:
  "sim f p q \<Longrightarrow> sim f p' q' \<Longrightarrow> sim f (if c then p else p') (if c then q else q')"
  by simp

lemma sim_when [sim_rules]: "sim f p q \<Longrightarrow> sim f (when_do c p) (when_do c q)"
  by (simp add: when_do_def sim_ret)

lemma sim_for_each [sim_rules]:
  "(\<And>i. sim f (body i) (body' i)) \<Longrightarrow> sim f (for_each is body) (for_each is body')"
  by (induction "is") (auto intro!: sim_rules)

lemma sim_map_each [sim_rules]:
  "(\<And>i. sim f (body i) (body' i)) \<Longrightarrow> sim f (map_each is body) (map_each is body')"
  by (induction "is") (auto intro!: sim_rules)

lemma sim_let [sim_rules]: "(sim f (k x) (l x)) \<Longrightarrow> sim f (let y = x in k y) (let y = x in l y)"
  by simp

lemma sim_rw [sim_rules]:
  "sim f p p' \<Longrightarrow> sim f q q' \<Longrightarrow>
   sim f (case d of mWRITE \<Rightarrow> p | mREAD \<Rightarrow> q) (case d of mWRITE \<Rightarrow> p' | mREAD \<Rightarrow> q')"
  by (cases d) simp_all

lemma sim_getControlMode [sim_rules]: "sim f getControlMode getControlMode"
  by (simp add: sim_def getControlMode_def)

lemma sim_setControlMode [sim_rules]: "sim f (setControlMode v) (setControlMode v)"
  by (simp add: sim_def setControlMode_def)

context neo_bus
begin

lemma sim_io [sim_rules]: "sim view (io bd e) (io (ref_board cpu) e)"
  by (simp add: sim_def io_def ref_board_def)

lemma sim_pins [sim_rules]:
  "sim view (high bd p) (high (ref_board cpu) p)"
  "sim view (low bd p) (low (ref_board cpu) p)"
  "sim view (delayNs bd n) (delayNs (ref_board cpu) n)"
  by (simp_all add: high_def low_def delayNs_def sim_io)

lemma sim_gpio_get [sim_rules]: "sim view (gpio_get bd p) (gpio_get (ref_board cpu) p)"
  by (simp add: gpio_get_def sim_def ref_board_def view_pin)

lemma sim_setNEOBusDir [sim_rules]: "sim view (setNEOBusDir bd d) (setNEOBusDir (ref_board cpu) d)"
  unfolding setNEOBusDir_def by (intro sim_rules) simp_all

lemma sim_readNEOBus [sim_rules]: "sim view (readNEOBus bd) (readNEOBus (ref_board cpu))"
proof -
  have "sim view (do {l \<leftarrow> gets (\<lambda>m. b_hi_in bd (hw m)); ret (ucast (drop_bit 8 l AND 0xFF) :: u8)})
     (do {l \<leftarrow> gets (\<lambda>m. b_hi_in (ref_board cpu) (hw m)); ret (ucast (drop_bit 8 l AND 0xFF) :: u8)})"
    using view_bus ref_sim.view_bus by (simp add: sim_def)
  then show ?thesis
    unfolding readNEOBus_def
    by (rule sim_bind [OF sim_setNEOBusDir sim_bind [OF sim_pins(3)]])
qed

lemma sim_writeNEOBus [sim_rules]: "sim view (writeNEOBus bd v) (writeNEOBus (ref_board cpu) v)"
  unfolding writeNEOBus_def by (intro sim_rules)

lemma sim_resetNEOBus [sim_rules]: "sim view (resetNEOBus bd) (resetNEOBus (ref_board cpu))"
  unfolding resetNEOBus_def by (intro sim_rules)

lemma sim_setupControl [sim_rules]: "sim view (setupControl bd) (setupControl (ref_board cpu))"
  unfolding setupControl_def by (intro sim_rules)

end

text \<open>The globals as the C++ static initialisers leave them.\<close>

definition initial_machine :: "'b \<Rightarrow> 'b machine" where
  "initial_machine h = \<lparr>hw = h, gControlMode = mRPI, gBusDir = 99, gCurrentContext = -1,
     gCurrentIndex = -1, gMMUIOCount = 0, gMMUIOTrigger = False, gClockFrequency = 4000000,
     gSysState = sSTARTUP, gBusState = eDISABLED, gDir6502RW = mUNKNOWN, gClockState = eOFF\<rparr>"

end
