(* ===== verification/Neobus_Latch.thy ===== *)
theory Neobus_Latch
  imports Control
begin

text \<open>
  The address half of \<open>neobus.cpp\<close>: the pins of the bus transceivers, the read-back of the
  6502 address bus, and the latching of AREG, the firmware's address register.
\<close>

definition setup_out_pin :: "'b board \<Rightarrow> pin \<Rightarrow> ('b machine, unit) state" where
  "setup_out_pin bd p = do {
     io bd (GpioInit (gpio_of p));
     io bd (GpioDir (gpio_of p) True);
     high bd p
   }"

definition setupNEOBus :: "'b board \<Rightarrow> ('b machine, unit) state" where
  "setupNEOBus bd = do {
     setup_out_pin bd pCPUARegLLatch;
     setup_out_pin bd pCPUARegHLatch;
     setup_out_pin bd pCPUABufLOE;
     setup_out_pin bd pCPUABufHOE;
     setup_out_pin bd pCPUARegOE;
     setup_out_pin bd pCPUDBufOE
   }"

definition readCPUBusAddress :: "'b board \<Rightarrow> ('b machine, u16) state" where
  "readCPUBusAddress bd = do {
     low bd pCPUABufHOE;
     hi \<leftarrow> readNEOBus bd;
     let laddress = push_bit 8 (ucast hi :: u16);
     high bd pCPUABufHOE;
     low bd pCPUABufLOE;
     lo \<leftarrow> readNEOBus bd;
     let laddress = laddress OR ucast lo;
     high bd pCPUABufLOE;
     ret laddress
   }"

definition readCPUAddress :: "'b board \<Rightarrow> ('b machine, u16) state" where
  "readCPUAddress bd = do {
     mode \<leftarrow> getControlMode;
     when_do (mode = mRPI) (low bd pCPUARegOE);
     low bd pCPUABufHOE;
     hi \<leftarrow> readNEOBus bd;
     let laddress = push_bit 8 (ucast hi :: u16);
     high bd pCPUABufHOE;
     low bd pCPUABufLOE;
     lo \<leftarrow> readNEOBus bd;
     let laddress = laddress OR ucast lo;
     high bd pCPUABufLOE;
     mode' \<leftarrow> getControlMode;
     when_do (mode' = mRPI) (high bd pCPUARegOE);
     ret laddress
   }"

definition writeCPUAddressH :: "'b board \<Rightarrow> u8 \<Rightarrow> ('b machine, unit) state" where
  "writeCPUAddressH bd vAddress = do {
     writeNEOBus bd vAddress;
     low bd pCPUARegHLatch;
     delayNs bd 60;
     high bd pCPUARegHLatch;
     resetNEOBus bd
   }"

definition writeCPUAddressL :: "'b board \<Rightarrow> u8 \<Rightarrow> ('b machine, unit) state" where
  "writeCPUAddressL bd vAddress = do {
     writeNEOBus bd vAddress;
     low bd pCPUARegLLatch;
     delayNs bd 60;
     high bd pCPUARegLLatch;
     resetNEOBus bd
   }"

text \<open>Outside RPI control the address is not latched and an error is printed.\<close>

definition writeCPUAddress :: "'b board \<Rightarrow> u16 \<Rightarrow> ('b machine, unit) state" where
  "writeCPUAddress bd vAddress = do {
     mode \<leftarrow> getControlMode;
     when_do (mode = mRPI) (do {
       writeCPUAddressH bd (ucast (drop_bit 8 vAddress));
       writeCPUAddressL bd (ucast (vAddress AND 0xFF))
     })
   }"

section \<open>The idle bus\<close>

text \<open>
  Between two operations of the firmware every output enable and latch pin is high and both
  write strobes are high, and \<open>gBusDir\<close> tells the true direction of the data bus.
\<close>

definition idle_pins :: "pin set" where
  "idle_pins = {pMMUARegHLatch, pMMUDRegOE, pCPUARegLLatch, pCPUARegHLatch,
                pCPUARegOE, pCPUABufLOE, pCPUABufHOE, pCPUDBufOE, pRW, mRW}"

definition idle :: "ref \<Rightarrow> bool" where
  "idle h \<longleftrightarrow> (\<forall>p\<in>idle_pins. lv h p)"

definition dir_known :: "u8 \<Rightarrow> ref \<Rightarrow> bool" where
  "dir_known d h \<longleftrightarrow> (d = 0 \<and> bus_out h) \<or> (d = 1 \<and> \<not> bus_out h) \<or> d \<notin> {0, 1}"

lemma idleD: "idle h \<Longrightarrow> lv h pMMUARegHLatch \<and> lv h pMMUDRegOE \<and> lv h pCPUARegLLatch
   \<and> lv h pCPUARegHLatch \<and> lv h pCPUARegOE \<and> lv h pCPUABufLOE \<and> lv h pCPUABufHOE
   \<and> lv h pCPUDBufOE \<and> lv h pRW \<and> lv h mRW"
  by (auto simp: idle_def idle_pins_def)

lemma idleI: "lv h pMMUARegHLatch \<Longrightarrow> lv h pMMUDRegOE \<Longrightarrow> lv h pCPUARegLLatch \<Longrightarrow>
   lv h pCPUARegHLatch \<Longrightarrow> lv h pCPUARegOE \<Longrightarrow> lv h pCPUABufLOE \<Longrightarrow> lv h pCPUABufHOE \<Longrightarrow>
   lv h pCPUDBufOE \<Longrightarrow> lv h pRW \<Longrightarrow> lv h mRW \<Longrightarrow> idle h"
  by (auto simp: idle_def idle_pins_def)

lemma bus_mask_nonzero [simp]: "DATA_BUS_MASK \<noteq> 0"
  by (simp add: DATA_BUS_MASK_def)

context neo_bus
begin

lemma sim_setup_out_pin [sim_rules]: "sim view (setup_out_pin bd p) (setup_out_pin (ref_board cpu) p)"
  unfolding setup_out_pin_def by (intro sim_rules)

lemma sim_setupNEOBus [sim_rules]: "sim view (setupNEOBus bd) (setupNEOBus (ref_board cpu))"
  unfolding setupNEOBus_def by (intro sim_rules)

lemma sim_readCPUBusAddress [sim_rules]: "sim view (readCPUBusAddress bd) (readCPUBusAddress (ref_board cpu))"
  unfolding readCPUBusAddress_def by (intro sim_rules)

lemma sim_readCPUAddress [sim_rules]: "sim view (readCPUAddress bd) (readCPUAddress (ref_board cpu))"
  unfolding readCPUAddress_def by (intro sim_rules)

lemma sim_writeCPUAddress_bytes [sim_rules]:
  "sim view (writeCPUAddressH bd b) (writeCPUAddressH (ref_board cpu) b)"
  "sim view (writeCPUAddressL bd b) (writeCPUAddressL (ref_board cpu) b)"
  unfolding writeCPUAddressH_def writeCPUAddressL_def by (intro sim_rules)+

lemma sim_writeCPUAddress [sim_rules]: "sim view (writeCPUAddress bd a) (writeCPUAddress (ref_board cpu) a)"
  unfolding writeCPUAddress_def by (intro sim_rules)

end

section \<open>The bus operations on the reference board\<close>

lemma io_ref: "exec (io (ref_board cpu) e) m = m\<lparr>hw := ref_io cpu (hw m) e\<rparr>"
  by (simp add: io_def ref_board_def)

lemmas ref_pin_defs = io_ref high_def low_def delayNs_def drive_def

lemma setNEOBusDir_ref:
  "dir_known (gBusDir m) (hw m) \<Longrightarrow>
   exec (setNEOBusDir (ref_board cpu) d) m =
     m\<lparr>hw := (hw m)\<lparr>bus_out := (d = mWRITE)\<rparr>, gBusDir := rw_code d\<rparr>"
  by (cases m; cases "hw m"; cases d)
    (auto simp: setNEOBusDir_def when_do_def io_ref dir_known_def rw_code_def)

lemma readNEOBus_ref:
  assumes "dir_known (gBusDir m) (hw m)"
  shows "exec (readNEOBus (ref_board cpu)) m = m\<lparr>hw := (hw m)\<lparr>bus_out := False\<rparr>, gBusDir := 1\<rparr>"
    and "val_of (readNEOBus (ref_board cpu)) m = ref_bus ((hw m)\<lparr>bus_out := False\<rparr>)"
  using ref_sim.view_bus
  by (simp_all add: readNEOBus_def setNEOBusDir_ref [OF assms] ref_pin_defs rw_code_def)

lemma writeNEOBus_ref:
  "dir_known (gBusDir m) (hw m) \<Longrightarrow>
   exec (writeNEOBus (ref_board cpu) v) m =
     m\<lparr>hw := (hw m)\<lparr>bus_out := True, bus_val := v\<rparr>, gBusDir := 0\<rparr>"
  by (simp add: writeNEOBus_def setNEOBusDir_ref ref_pin_defs rw_code_def bus_byte_roundtrip
      del: push_bit_numeral)

lemma resetNEOBus_ref:
  "dir_known (gBusDir m) (hw m) \<Longrightarrow>
   exec (resetNEOBus (ref_board cpu)) m = m\<lparr>hw := (hw m)\<lparr>bus_out := False\<rparr>, gBusDir := 1\<rparr>"
  by (simp add: resetNEOBus_def setNEOBusDir_ref rw_code_def)

lemmas neo_bus_ref = readNEOBus_ref writeNEOBus_ref resetNEOBus_ref

lemma dir_known_simps [simp]: "dir_known 0 (h\<lparr>bus_out := True\<rparr>)" "dir_known 1 (h\<lparr>bus_out := False\<rparr>)"
  by (simp_all add: dir_known_def)

text \<open>A pin that is driven back to the level it had leaves the levels as they were.\<close>

lemma lv_restored: "lv h p \<Longrightarrow> (lv h)(p := True) = lv h"
  by (rule fun_upd_idem) simp

lemma writeCPUAddressH_ref:
  assumes "dir_known (gBusDir m) (hw m)" and "idle (hw m)"
  shows "exec (writeCPUAddressH (ref_board cpu) v) m =
     m\<lparr>hw := (hw m)\<lparr>bus_out := False, bus_val := v, areg_h := v\<rparr>, gBusDir := 1\<rparr>"
  using assms idleD [OF assms(2)]
  by (simp add: writeCPUAddressH_def neo_bus_ref ref_pin_defs dir_known_def rising_def on_bus_def
      Let_def lv_restored)

lemma writeCPUAddressL_ref:
  assumes "dir_known (gBusDir m) (hw m)" and "idle (hw m)"
  shows "exec (writeCPUAddressL (ref_board cpu) v) m =
     m\<lparr>hw := (hw m)\<lparr>bus_out := False, bus_val := v, areg_l := v\<rparr>, gBusDir := 1\<rparr>"
  using assms idleD [OF assms(2)]
  by (simp add: writeCPUAddressL_def neo_bus_ref ref_pin_defs dir_known_def rising_def on_bus_def
      Let_def lv_restored)

end
