(* ===== verification/Mmu.thy ===== *)
theory Mmu
  imports Neobus_Latch
begin

text \<open>
  \<open>mmu.cpp\<close>: the I/O-page interrupt and its trigger flag, the context and index latches with
  their software caches, and the reading and writing of MMU table entries.
\<close>

definition NUM_CONTEXTS :: nat where "NUM_CONTEXTS = 128"

definition NUM_TOTAL_PAGES :: nat where "NUM_TOTAL_PAGES = 128"

definition NUM_CONTEXT_PAGES :: nat where "NUM_CONTEXT_PAGES = 16"

definition DEFAULT_CONTEXT :: u8 where "DEFAULT_CONTEXT = 0"

definition gDefaultMMU :: "u8 list" where
  "gDefaultMMU = [0x00, 0x01, 0x02, 0x03, 0x04, 0x05, 0x06, 0x07,
                  0x08, 0x09, 0x0A, 0x0B, 0x0C, 0x0D, 0x8E, 0x0F]"

section \<open>The I/O interrupt\<close>

definition getMMUIOCount :: "('b machine, u32) state" where
  "getMMUIOCount = gets gMMUIOCount"

definition getMMUIO :: "'b board \<Rightarrow> ('b machine, bool) state" where
  "getMMUIO bd = gpio_get bd pMMUIO"

definition intrMMUIO :: "'b board \<Rightarrow> ('b machine, unit) state" where
  "intrMMUIO bd = do {
     io bd (IrqAck pMMUIO);
     modify (\<lambda>m. m\<lparr>gMMUIOCount := gMMUIOCount m + 1\<rparr>);
     modify (\<lambda>m. m\<lparr>gMMUIOTrigger := True\<rparr>)
   }"

definition ackMMUIO :: "('b machine, unit) state" where
  "ackMMUIO = modify (\<lambda>m. m\<lparr>gMMUIOTrigger := False\<rparr>)"

definition triggerMMUIO :: "('b machine, bool) state" where
  "triggerMMUIO = gets gMMUIOTrigger"

definition setupMMU :: "'b board \<Rightarrow> ('b machine, unit) state" where
  "setupMMU bd = do {
     setup_out_pin bd pRW;
     setup_out_pin bd pMMUARegHLatch;
     setup_out_pin bd pMMUDRegOE;
     io bd (GpioInit (gpio_of pMMUIO));
     io bd (GpioDir (gpio_of pMMUIO) False);
     io bd (GpioPullUp (gpio_of pMMUIO));
     ackMMUIO
   }"

definition enableMMUInterrupt :: "'b board \<Rightarrow> ('b machine, unit) state" where
  "enableMMUInterrupt bd = do {
     ackMMUIO;
     io bd (IrqAck pMMUIO);
     io bd (IrqBank True);
     io bd (IrqPin pMMUIO True)
   }"

definition disableMMUInterrupt :: "'b board \<Rightarrow> ('b machine, unit) state" where
  "disableMMUInterrupt bd = do {
     ackMMUIO;
     io bd (IrqPin pMMUIO False);
     io bd (IrqAck pMMUIO);
     io bd (IrqBank False)
   }"

definition initMMUInterrupt :: "'b board \<Rightarrow> ('b machine, unit) state" where
  "initMMUInterrupt bd = disableMMUInterrupt bd"

section \<open>Latches\<close>

definition readMMUIndex :: "'b board \<Rightarrow> ('b machine, u8) state" where
  "readMMUIndex bd = do {
     mode \<leftarrow> getControlMode;
     if mode = mRPI then do {
       a \<leftarrow> readCPUAddress bd;
       ret (ucast (drop_bit 12 a) AND 0x0F)
     } else ret 0
   }"

definition writeMMUIndex :: "'b board \<Rightarrow> u8 \<Rightarrow> ('b machine, unit) state" where
  "writeMMUIndex bd vIndex = do {
     cur \<leftarrow> gets gCurrentIndex;
     when_do (uint vIndex \<noteq> cur) (do {
       writeCPUAddressH bd (push_bit 4 (vIndex AND 0x0F));
       modify (\<lambda>m. m\<lparr>gCurrentIndex := uint vIndex\<rparr>)
     })
   }"

definition getMMUContext :: "('b machine, u8) state" where
  "getMMUContext = gets (\<lambda>m. word_of_int (gCurrentContext m))"

definition setMMUContext :: "'b board \<Rightarrow> u8 \<Rightarrow> ('b machine, unit) state" where
  "setMMUContext bd vContext = do {
     cur \<leftarrow> gets gCurrentContext;
     when_do (uint vContext \<noteq> cur) (do {
       writeNEOBus bd vContext;
       low bd pMMUARegHLatch;
       delayNs bd 100;
       high bd pMMUARegHLatch;
       resetNEOBus bd;
       modify (\<lambda>m. m\<lparr>gCurrentContext := uint vContext\<rparr>)
     })
   }"

section \<open>Table entries\<close>

definition readMMUPage :: "'b board \<Rightarrow> u8 \<Rightarrow> u8 \<Rightarrow> ('b machine, u8) state" where
  "readMMUPage bd vContext vIndex = do {
     setMMUContext bd vContext;
     writeMMUIndex bd vIndex;
     low bd pCPUARegOE;
     high bd pRW;
     low bd pMMUDRegOE;
     delayNs bd 100;
     lPage \<leftarrow> readNEOBus bd;
     high bd pMMUDRegOE;
     high bd pCPUARegOE;
     ret lPage
   }"

text \<open>\<open>USE_VALIDATION\<close> is 0 in \<open>config.h\<close>: the entry is not read back.\<close>

definition writeMMUPage :: "'b board \<Rightarrow> u8 \<Rightarrow> u8 \<Rightarrow> u8 \<Rightarrow> ('b machine, bool) state" where
  "writeMMUPage bd vContext vIndex vPage = do {
     setMMUContext bd vContext;
     writeMMUIndex bd vIndex;
     low bd pCPUARegOE;
     writeNEOBus bd vPage;
     low bd pMMUDRegOE;
     low bd pRW;
     delayNs bd 100;
     high bd pRW;
     delayNs bd 20;
     high bd pMMUDRegOE;
     high bd pCPUARegOE;
     resetNEOBus bd;
     ret True
   }"

text \<open>\<open>vMMU\<close> must have 16 entries: the C++ reads past a shorter array.\<close>

definition defMMUContext :: "'b board \<Rightarrow> u8 \<Rightarrow> u8 list \<Rightarrow> ('b machine, bool) state" where
  "defMMUContext bd vContext vMMU = do {
     oks \<leftarrow> map_each [0..<NUM_CONTEXT_PAGES]
       (\<lambda>lPage. writeMMUPage bd vContext (of_nat lPage) (vMMU ! lPage));
     ret (length (filter Not oks) = 0)
   }"

definition mapMMUPage :: "'b board \<Rightarrow> u8 \<Rightarrow> u8 \<Rightarrow> ('b machine, unit) state" where
  "mapMMUPage bd vContext vIndex = do {
     lPage \<leftarrow> readMMUPage bd vContext vIndex;
     writeMMUPage bd DEFAULT_CONTEXT vIndex lPage;
     ret ()
   }"

text \<open>\<open>dumpMMUContextCompact\<close> prints the sixteen entries; the model returns them.\<close>

definition dumpMMUContextCompact :: "'b board \<Rightarrow> u8 \<Rightarrow> ('b machine, u8 list) state" where
  "dumpMMUContextCompact bd vContext =
     map_each [0..<NUM_CONTEXT_PAGES] (\<lambda>lPage. readMMUPage bd vContext (of_nat lPage))"

definition initMMU :: "'b board \<Rightarrow> ('b machine, bool) state" where
  "initMMU bd = do {
     initMMUInterrupt bd;
     oks \<leftarrow> map_each [0..<NUM_CONTEXTS] (\<lambda>lContext. defMMUContext bd (of_nat lContext) gDefaultMMU);
     setMMUContext bd DEFAULT_CONTEXT;
     let lErrCount = length (filter Not oks);
     when_do (lErrCount = 0) (enableMMUInterrupt bd);
     ret (lErrCount = 0)
   }"

section \<open>Simulation\<close>

lemma sim_acks [sim_rules]:
  "sim f ackMMUIO ackMMUIO" "sim f triggerMMUIO triggerMMUIO" "sim f getMMUContext getMMUContext"
  by (simp_all add: sim_def ackMMUIO_def triggerMMUIO_def getMMUContext_def)

context neo_bus
begin

lemma sim_interrupts [sim_rules]:
  "sim view (intrMMUIO bd) (intrMMUIO (ref_board cpu))"
  "sim view (enableMMUInterrupt bd) (enableMMUInterrupt (ref_board cpu))"
  "sim view (disableMMUInterrupt bd) (disableMMUInterrupt (ref_board cpu))"
  "sim view (setupMMU bd) (setupMMU (ref_board cpu))"
  unfolding intrMMUIO_def enableMMUInterrupt_def disableMMUInterrupt_def setupMMU_def
  by ((intro sim_rules; simp)+)

lemma sim_mmu_latches [sim_rules]:
  "sim view (readMMUIndex bd) (readMMUIndex (ref_board cpu))"
  "sim view (writeMMUIndex bd i) (writeMMUIndex (ref_board cpu) i)"
  "sim view (setMMUContext bd c) (setMMUContext (ref_board cpu) c)"
  unfolding readMMUIndex_def writeMMUIndex_def setMMUContext_def
  by ((intro sim_rules; simp)+)

lemma sim_mmu_pages [sim_rules]:
  "sim view (readMMUPage bd c i) (readMMUPage (ref_board cpu) c i)"
  "sim view (writeMMUPage bd c i v) (writeMMUPage (ref_board cpu) c i v)"
  unfolding readMMUPage_def writeMMUPage_def by (intro sim_rules)+

lemma sim_mmu_contexts [sim_rules]:
  "sim view (defMMUContext bd c t) (defMMUContext (ref_board cpu) c t)"
  "sim view (mapMMUPage bd c i) (mapMMUPage (ref_board cpu) c i)"
  "sim view (dumpMMUContextCompact bd c) (dumpMMUContextCompact (ref_board cpu) c)"
  unfolding defMMUContext_def mapMMUPage_def dumpMMUContextCompact_def by (intro sim_rules)+

lemma sim_initMMU [sim_rules]: "sim view (initMMU bd) (initMMU (ref_board cpu))"
  unfolding initMMU_def initMMUInterrupt_def by (intro sim_rules)

end

end
