(* ===== verification/Mmu_Table.thy ===== *)
theory Mmu_Table
  imports Mmu
begin

text \<open>
  What the MMU operations do to the table of the reference board, the caches they keep of
  the context and index latches, and the invariants those caches need.
\<close>

section \<open>Invariants\<close>

text \<open>
  \<open>bus_ok\<close>: the bus is at rest, the direction cache is right, and the context cache, once
  set, equals the context latch. \<open>index_ok\<close>: the index cache, once set, equals A15..A12 of
  the address register.
\<close>

definition bus_ok :: "ref machine \<Rightarrow> bool" where
  "bus_ok m \<longleftrightarrow> idle (hw m) \<and> dir_known (gBusDir m) (hw m) \<and>
     (gCurrentContext m = -1 \<or> gCurrentContext m = uint (ctx_reg (hw m)))"

definition latched_index :: "ref \<Rightarrow> u8" where
  "latched_index h = drop_bit 4 (areg_h h)"

definition index_ok :: "ref machine \<Rightarrow> bool" where
  "index_ok m \<longleftrightarrow> gCurrentIndex m = -1 \<or>
     (\<exists>i. gCurrentIndex m = uint (i :: u8) \<and> latched_index (hw m) = i AND 0x0F)"

text \<open>The globals and the board inputs no bus operation touches.\<close>

definition frame_of where
  "frame_of m = (gControlMode m, gMMUIOCount m, gMMUIOTrigger m, gClockFrequency m,
     gSysState m, gBusState m, gDir6502RW m, gClockState m)"

definition env_of :: "ref \<Rightarrow> (pin \<Rightarrow> bool) \<times> u16 \<times> u8 \<times> (pin \<Rightarrow> bool) \<times> u32" where
  "env_of h = (lv h, cpu_addr h, cpu_data h, in_pin h, clock_ms h)"

lemma frame_of_simps [simp]:
  "frame_of (m\<lparr>hw := h\<rparr>) = frame_of m"
  "frame_of (m\<lparr>gBusDir := d\<rparr>) = frame_of m"
  "frame_of (m\<lparr>gCurrentContext := c\<rparr>) = frame_of m"
  "frame_of (m\<lparr>gCurrentIndex := c\<rparr>) = frame_of m"
  by (simp_all add: frame_of_def)

lemma env_of_simps [simp]:
  "env_of (h\<lparr>bus_out := b\<rparr>) = env_of h"
  "env_of (h\<lparr>bus_val := v\<rparr>) = env_of h"
  "env_of (h\<lparr>areg_h := v\<rparr>) = env_of h"
  "env_of (h\<lparr>areg_l := v\<rparr>) = env_of h"
  "env_of (h\<lparr>ctx_reg := v\<rparr>) = env_of h"
  "env_of (h\<lparr>mmu_ram := f\<rparr>) = env_of h"
  "env_of (h\<lparr>ram := g\<rparr>) = env_of h"
  by (simp_all add: env_of_def)

lemma idle_upd [simp]:
  "idle (h\<lparr>bus_out := b\<rparr>) = idle h"
  "idle (h\<lparr>bus_val := v\<rparr>) = idle h"
  "idle (h\<lparr>areg_h := v\<rparr>) = idle h"
  "idle (h\<lparr>areg_l := v\<rparr>) = idle h"
  "idle (h\<lparr>ctx_reg := v\<rparr>) = idle h"
  "idle (h\<lparr>mmu_ram := f\<rparr>) = idle h"
  "idle (h\<lparr>ram := g\<rparr>) = idle h"
  by (simp_all add: idle_def)

lemma dir_known_upd [simp]:
  "dir_known d (h\<lparr>bus_val := v\<rparr>) = dir_known d h"
  "dir_known d (h\<lparr>areg_h := v\<rparr>) = dir_known d h"
  "dir_known d (h\<lparr>areg_l := v\<rparr>) = dir_known d h"
  "dir_known d (h\<lparr>ctx_reg := v\<rparr>) = dir_known d h"
  "dir_known d (h\<lparr>mmu_ram := f\<rparr>) = dir_known d h"
  "dir_known d (h\<lparr>ram := g\<rparr>) = dir_known d h"
  "dir_known d (h\<lparr>lv := l\<rparr>) = dir_known d h"
  by (simp_all add: dir_known_def)

lemma bus_okD:
  assumes "bus_ok m"
  shows "idle (hw m)" and "dir_known (gBusDir m) (hw m)"
    and "gCurrentContext m = -1 \<or> gCurrentContext m = uint (ctx_reg (hw m))"
  using assms by (auto simp: bus_ok_def)

section \<open>Latches\<close>

lemma setMMUContext_ref:
  assumes "bus_ok m"
  shows "exec (setMMUContext (ref_board cpu) c) m =
     (if uint c = gCurrentContext m then m
      else m\<lparr>hw := (hw m)\<lparr>bus_out := False, bus_val := c, ctx_reg := c\<rparr>, gBusDir := 1,
             gCurrentContext := uint c\<rparr>)"
  using bus_okD [OF assms] idleD [OF bus_okD(1) [OF assms]]
  by (simp add: setMMUContext_def when_do_def neo_bus_ref ref_pin_defs dir_known_def rising_def
      on_bus_def Let_def lv_restored)

lemma setMMUContext_spec:
  fixes c :: u8 and cpu :: cpu
  assumes "bus_ok m"
  defines "m' \<equiv> exec (setMMUContext (ref_board cpu) c) m"
  shows "bus_ok m'" and "gCurrentContext m' = uint c" and "ctx_reg (hw m') = c"
    and "frame_of m' = frame_of m" and "env_of (hw m') = env_of (hw m)"
    and "mmu_ram (hw m') = mmu_ram (hw m)" and "ram (hw m') = ram (hw m)"
    and "areg_h (hw m') = areg_h (hw m)" and "gCurrentIndex m' = gCurrentIndex m"
    and "lv (hw m') = lv (hw m)"
  using bus_okD [OF assms(1)] unfolding m'_def setMMUContext_ref [OF assms(1)]
  by (auto simp: bus_ok_def dir_known_def)

lemma writeMMUIndex_ref:
  assumes "bus_ok m"
  shows "exec (writeMMUIndex (ref_board cpu) i) m =
     (if uint i = gCurrentIndex m then m
      else m\<lparr>hw := (hw m)\<lparr>bus_out := False, bus_val := push_bit 4 (i AND 0x0F),
               areg_h := push_bit 4 (i AND 0x0F)\<rparr>, gBusDir := 1, gCurrentIndex := uint i\<rparr>)"
  using bus_okD [OF assms]
  by (simp add: writeMMUIndex_def when_do_def writeCPUAddressH_ref)

lemma index_byte: "drop_bit 4 (push_bit 4 (i AND 0x0F)) = (i AND 0x0F :: u8)"
  unfolding mask_4 by (auto intro!: bit_word_eqI simp: bit_simps simp del: push_bit_numeral)

lemma writeMMUIndex_spec:
  fixes i :: u8 and cpu :: cpu
  assumes "bus_ok m" and "index_ok m"
  defines "m' \<equiv> exec (writeMMUIndex (ref_board cpu) i) m"
  shows "bus_ok m'" and "latched_index (hw m') = i AND 0x0F" and "index_ok m'"
    and "frame_of m' = frame_of m" and "env_of (hw m') = env_of (hw m)"
    and "mmu_ram (hw m') = mmu_ram (hw m)" and "ram (hw m') = ram (hw m)"
    and "gCurrentContext m' = gCurrentContext m" and "ctx_reg (hw m') = ctx_reg (hw m)"
    and "gCurrentIndex m' = uint i" and "lv (hw m') = lv (hw m)"
  using bus_okD [OF assms(1)] assms(2) unfolding m'_def writeMMUIndex_ref [OF assms(1)]
  by (auto simp: bus_ok_def dir_known_def index_ok_def latched_index_def index_byte
      simp del: push_bit_numeral push_bit_and drop_bit_and)

section \<open>Reading and writing entries\<close>

lemma page_index_areg: "page_index (areg h) = latched_index h"
  by (rule bit_word_eqI)
    (auto simp: page_index_def areg_def latched_index_def bit_simps dest: bit_imp_le_length
      simp del: push_bit_numeral)

text \<open>
  The pulse that follows the latching: what \<open>readMMUPage\<close> and \<open>writeMMUPage\<close> do when the
  latched index is whatever it is.
\<close>

lemma readMMUPage_ref:
  fixes c i :: u8 and cpu :: cpu
  assumes ok: "bus_ok m"
  defines "m1 \<equiv> exec (writeMMUIndex (ref_board cpu) i) (exec (setMMUContext (ref_board cpu) c) m)"
  shows "val_of (readMMUPage (ref_board cpu) c i) m = mmu_ram (hw m) c (latched_index (hw m1))"
    and "exec (readMMUPage (ref_board cpu) c i) m = m1\<lparr>hw := (hw m1)\<lparr>bus_out := False\<rparr>, gBusDir := 1\<rparr>"
proof -
  let ?m0 = "exec (setMMUContext (ref_board cpu) c) m"
  note s0 = setMMUContext_spec [OF ok, of cpu c]
  have ok1: "bus_ok m1" and c1: "ctx_reg (hw m1) = c" and r1: "mmu_ram (hw m1) = mmu_ram (hw m)"
    using bus_okD [OF s0(1)] s0 unfolding m1_def writeMMUIndex_ref [OF s0(1)]
    by (auto simp: bus_ok_def dir_known_def)
  note lvs = idleD [OF bus_okD(1) [OF ok1]] bus_okD(2) [OF ok1]
  show "val_of (readMMUPage (ref_board cpu) c i) m = mmu_ram (hw m) c (latched_index (hw m1))"
    using lvs c1 r1
    by (simp add: readMMUPage_def m1_def [symmetric] ref_pin_defs Let_def neo_bus_ref rising_def
        ref_bus_def addr_bus_def areg_def page_index_areg [unfolded areg_def])
  show "exec (readMMUPage (ref_board cpu) c i) m = m1\<lparr>hw := (hw m1)\<lparr>bus_out := False\<rparr>, gBusDir := 1\<rparr>"
    using lvs c1 r1
    by (simp add: readMMUPage_def m1_def [symmetric] ref_pin_defs Let_def neo_bus_ref rising_def
        lv_restored fun_upd_twist)
qed

lemma readMMUPage_spec:
  fixes c i :: u8 and cpu :: cpu
  assumes "bus_ok m" and "index_ok m"
  defines "m' \<equiv> exec (readMMUPage (ref_board cpu) c i) m"
  shows "val_of (readMMUPage (ref_board cpu) c i) m = mmu_ram (hw m) c (i AND 0x0F)"
    and "bus_ok m'" and "index_ok m'" and "gCurrentContext m' = uint c"
    and "frame_of m' = frame_of m" and "env_of (hw m') = env_of (hw m)"
    and "mmu_ram (hw m') = mmu_ram (hw m)" and "ram (hw m') = ram (hw m)"
proof -
  define m0 where "m0 = exec (setMMUContext (ref_board cpu) c) m"
  note s0 = setMMUContext_spec [OF assms(1), of cpu c, folded m0_def]
  have i0: "index_ok m0" using assms(2) s0 by (simp add: index_ok_def latched_index_def)
  note s1 = writeMMUIndex_spec [OF s0(1) i0, of cpu i]
  note r = readMMUPage_ref [OF assms(1), of cpu c i, folded m0_def]
  show "val_of (readMMUPage (ref_board cpu) c i) m = mmu_ram (hw m) c (i AND 0x0F)"
    using r(1) s1(2) by simp
  show "bus_ok m'" "index_ok m'" "gCurrentContext m' = uint c" "frame_of m' = frame_of m"
    "env_of (hw m') = env_of (hw m)" "mmu_ram (hw m') = mmu_ram (hw m)" "ram (hw m') = ram (hw m)"
    using s0 s1 bus_okD [OF s1(1)] unfolding m'_def r(2)
    by (auto simp: bus_ok_def index_ok_def latched_index_def)
qed

lemma writeMMUPage_ref:
  fixes c i v :: u8 and cpu :: cpu
  assumes ok: "bus_ok m"
  defines "m1 \<equiv> exec (writeMMUIndex (ref_board cpu) i) (exec (setMMUContext (ref_board cpu) c) m)"
  shows "val_of (writeMMUPage (ref_board cpu) c i v) m"
    and "exec (writeMMUPage (ref_board cpu) c i v) m =
      m1\<lparr>hw := set_entry c (latched_index (hw m1)) v ((hw m1)\<lparr>bus_out := False, bus_val := v\<rparr>),
         gBusDir := 1\<rparr>"
proof -
  let ?m0 = "exec (setMMUContext (ref_board cpu) c) m"
  note s0 = setMMUContext_spec [OF ok, of cpu c]
  have ok1: "bus_ok m1" and c1: "ctx_reg (hw m1) = c" and r1: "mmu_ram (hw m1) = mmu_ram (hw m)"
    using bus_okD [OF s0(1)] s0 unfolding m1_def writeMMUIndex_ref [OF s0(1)]
    by (auto simp: bus_ok_def dir_known_def)
  note lvs = idleD [OF bus_okD(1) [OF ok1]] bus_okD(2) [OF ok1]
  show "val_of (writeMMUPage (ref_board cpu) c i v) m"
    by (simp add: writeMMUPage_def)
  show "exec (writeMMUPage (ref_board cpu) c i v) m =
      m1\<lparr>hw := set_entry c (latched_index (hw m1)) v ((hw m1)\<lparr>bus_out := False, bus_val := v\<rparr>),
         gBusDir := 1\<rparr>"
    using lvs c1 r1
    by (simp add: writeMMUPage_def m1_def [symmetric] ref_pin_defs Let_def neo_bus_ref rising_def
        lv_restored fun_upd_twist set_entry_def addr_bus_def areg_def on_bus_def
        page_index_areg [unfolded areg_def])
qed

lemma writeMMUPage_spec:
  fixes c i v :: u8 and cpu :: cpu
  assumes "bus_ok m" and "index_ok m"
  defines "m' \<equiv> exec (writeMMUPage (ref_board cpu) c i v) m"
  shows "val_of (writeMMUPage (ref_board cpu) c i v) m"
    and "bus_ok m'" and "index_ok m'" and "gCurrentContext m' = uint c"
    and "frame_of m' = frame_of m" and "env_of (hw m') = env_of (hw m)"
    and "mmu_ram (hw m') = (mmu_ram (hw m))(c := (mmu_ram (hw m) c)(i AND 0x0F := v))"
    and "ram (hw m') = ram (hw m)"
proof -
  define m0 where "m0 = exec (setMMUContext (ref_board cpu) c) m"
  note s0 = setMMUContext_spec [OF assms(1), of cpu c, folded m0_def]
  have i0: "index_ok m0" using assms(2) s0 by (simp add: index_ok_def latched_index_def)
  note s1 = writeMMUIndex_spec [OF s0(1) i0, of cpu i]
  note r = writeMMUPage_ref [OF assms(1), of cpu c i, folded m0_def]
  show "val_of (writeMMUPage (ref_board cpu) c i v) m" by (rule r(1))
  show "bus_ok m'" "index_ok m'" "gCurrentContext m' = uint c" "frame_of m' = frame_of m"
    "env_of (hw m') = env_of (hw m)"
    "mmu_ram (hw m') = (mmu_ram (hw m))(c := (mmu_ram (hw m) c)(i AND 0x0F := v))"
    "ram (hw m') = ram (hw m)"
    using s0 s1 bus_okD [OF s1(1)] unfolding m'_def r(2)
    by (auto simp: bus_ok_def index_ok_def latched_index_def set_entry_def)
qed

section \<open>Whole contexts\<close>

text \<open>The table after the sixteen entries of \<open>t\<close> are stored under context \<open>c\<close>.\<close>

definition table_with :: "u8 \<Rightarrow> u8 list \<Rightarrow> (u8 \<Rightarrow> u8 \<Rightarrow> u8) \<Rightarrow> u8 \<Rightarrow> u8 \<Rightarrow> u8" where
  "table_with c t T = T(c := (\<lambda>i. if unat i < 16 then t ! unat i else T c i))"

definition table_inv :: "ref machine \<Rightarrow> ref machine \<Rightarrow> bool" where
  "table_inv m m' \<longleftrightarrow> bus_ok m' \<and> index_ok m' \<and> frame_of m' = frame_of m \<and>
     env_of (hw m') = env_of (hw m) \<and> ram (hw m') = ram (hw m)"

lemma nibble_id: "n < 16 \<Longrightarrow> (of_nat n :: u8) AND 0x0F = of_nat n"
  unfolding mask_4 by (simp add: take_bit_eq_mask [symmetric] take_bit_of_nat take_bit_nat_eq_self)

lemma of_nat_u8_eq: "n < 256 \<Longrightarrow> (i = (of_nat n :: u8)) = (unat i = n)"
  by (auto simp: unat_of_nat)

lemma write_entries:
  assumes "set ks \<subseteq> {..<16}" and "bus_ok m" and "index_ok m"
  shows "table_inv m (exec (map_each ks (\<lambda>k. writeMMUPage (ref_board cpu) c (of_nat k) (t ! k))) m)"
    and "\<forall>ok\<in>set (val_of (map_each ks (\<lambda>k. writeMMUPage (ref_board cpu) c (of_nat k) (t ! k))) m). ok"
    and "mmu_ram (hw (exec (map_each ks (\<lambda>k. writeMMUPage (ref_board cpu) c (of_nat k) (t ! k))) m)) =
       (mmu_ram (hw m))(c := (\<lambda>i. if unat i \<in> set ks then t ! unat i else mmu_ram (hw m) c i))"
    and "ks \<noteq> [] \<Longrightarrow>
      gCurrentContext (exec (map_each ks (\<lambda>k. writeMMUPage (ref_board cpu) c (of_nat k) (t ! k))) m) = uint c"
  using assms
proof (induction ks arbitrary: m)
  case Nil
  {
    case 1 then show ?case by (simp add: table_inv_def)
  next
    case 2 then show ?case by simp
  next
    case 3 then show ?case by simp
  next
    case 4 then show ?case by simp
  }
next
  case (Cons k ks)
  {
    case 1
    note w = writeMMUPage_spec [OF 1(2,3), of cpu c "of_nat k" "t ! k"]
    from 1 Cons.IH(1) [OF _ w(2,3)] w show ?case by (simp add: table_inv_def)
  next
    case 2
    note w = writeMMUPage_spec [OF 2(2,3), of cpu c "of_nat k" "t ! k"]
    from 2 Cons.IH(2) [OF _ w(2,3)] w show ?case by simp
  next
    case 3
    note w = writeMMUPage_spec [OF 3(2,3), of cpu c "of_nat k" "t ! k"]
    from 3 Cons.IH(3) [OF _ w(2,3)] w show ?case
      by (auto simp: nibble_id fun_eq_iff of_nat_u8_eq)
  next
    case 4
    note w = writeMMUPage_spec [OF 4(3,4), of cpu c "of_nat k" "t ! k"]
    from 4 Cons.IH(4) [OF _ _ w(2,3)] w show ?case by (cases "ks = []") simp_all
  }
qed

lemma defMMUContext_spec:
  assumes "bus_ok m" and "index_ok m"
  shows "table_inv m (exec (defMMUContext (ref_board cpu) c t) m)"
    and "val_of (defMMUContext (ref_board cpu) c t) m"
    and "mmu_ram (hw (exec (defMMUContext (ref_board cpu) c t) m)) = table_with c t (mmu_ram (hw m))"
    and "gCurrentContext (exec (defMMUContext (ref_board cpu) c t) m) = uint c"
proof -
  have ks: "set [0..<16] \<subseteq> {..<16}" by auto
  note w = write_entries [OF ks assms, of cpu c t]
  show "table_inv m (exec (defMMUContext (ref_board cpu) c t) m)"
    using w(1) by (simp add: defMMUContext_def NUM_CONTEXT_PAGES_def)
  show "val_of (defMMUContext (ref_board cpu) c t) m"
    using w(2) by (simp add: defMMUContext_def NUM_CONTEXT_PAGES_def filter_empty_conv)
  show "mmu_ram (hw (exec (defMMUContext (ref_board cpu) c t) m)) = table_with c t (mmu_ram (hw m))"
    using w(3) by (simp add: defMMUContext_def NUM_CONTEXT_PAGES_def table_with_def)
  show "gCurrentContext (exec (defMMUContext (ref_board cpu) c t) m) = uint c"
    using w(4) by (simp add: defMMUContext_def NUM_CONTEXT_PAGES_def upt_conv_Cons)
qed

lemma map_each_contexts:
  assumes "set cs \<subseteq> {..<256}" and "bus_ok m" and "index_ok m"
  shows "table_inv m (exec (map_each cs (\<lambda>c. defMMUContext (ref_board cpu) (of_nat c) t)) m)"
    and "\<forall>ok\<in>set (val_of (map_each cs (\<lambda>c. defMMUContext (ref_board cpu) (of_nat c) t)) m). ok"
    and "mmu_ram (hw (exec (map_each cs (\<lambda>c. defMMUContext (ref_board cpu) (of_nat c) t)) m)) =
       (\<lambda>c i. if unat c \<in> set cs \<and> unat i < 16 then t ! unat i else mmu_ram (hw m) c i)"
  using assms
proof (induction cs arbitrary: m)
  case Nil
  {
    case 1 then show ?case by (simp add: table_inv_def)
  next
    case 2 then show ?case by simp
  next
    case 3 then show ?case by simp
  }
next
  case (Cons c cs)
  {
    case 1
    note w = defMMUContext_spec [OF 1(2,3), of cpu "of_nat c" t]
    then have ok: "bus_ok (exec (defMMUContext (ref_board cpu) (of_nat c) t) m)"
      "index_ok (exec (defMMUContext (ref_board cpu) (of_nat c) t) m)" by (simp_all add: table_inv_def)
    from 1 Cons.IH(1) [OF _ ok] w show ?case by (simp add: table_inv_def)
  next
    case 2
    note w = defMMUContext_spec [OF 2(2,3), of cpu "of_nat c" t]
    then have ok: "bus_ok (exec (defMMUContext (ref_board cpu) (of_nat c) t) m)"
      "index_ok (exec (defMMUContext (ref_board cpu) (of_nat c) t) m)" by (simp_all add: table_inv_def)
    from 2 Cons.IH(2) [OF _ ok] w show ?case by simp
  next
    case 3
    note w = defMMUContext_spec [OF 3(2,3), of cpu "of_nat c" t]
    then have ok: "bus_ok (exec (defMMUContext (ref_board cpu) (of_nat c) t) m)"
      "index_ok (exec (defMMUContext (ref_board cpu) (of_nat c) t) m)" by (simp_all add: table_inv_def)
    from 3 Cons.IH(3) [OF _ ok] w show ?case
      by (auto simp: table_with_def fun_eq_iff of_nat_u8_eq)
  }
qed

section \<open>Interrupt control\<close>

lemma bus_ok_trigger [simp]: "bus_ok (m\<lparr>gMMUIOTrigger := b\<rparr>) = bus_ok m"
  "index_ok (m\<lparr>gMMUIOTrigger := b\<rparr>) = index_ok m"
  by (simp_all add: bus_ok_def index_ok_def)

lemma hw_same [simp]: "m\<lparr>hw := hw m\<rparr> = m" for m :: "'b machine"
  by simp

lemma interrupts_ref:
  "exec (enableMMUInterrupt (ref_board cpu)) m = m\<lparr>gMMUIOTrigger := False\<rparr>"
  "exec (disableMMUInterrupt (ref_board cpu)) m = m\<lparr>gMMUIOTrigger := False\<rparr>"
  by (cases m; simp add: enableMMUInterrupt_def disableMMUInterrupt_def ackMMUIO_def io_ref)+

lemma initMMU_ref:
  fixes m :: "ref machine" and cpu :: cpu
  assumes "bus_ok m" and "index_ok m"
  defines "m' \<equiv> exec (initMMU (ref_board cpu)) m"
  shows "val_of (initMMU (ref_board cpu)) m" and "bus_ok m'" and "index_ok m'"
    and "gCurrentContext m' = 0" and "\<not> gMMUIOTrigger m'" and "ram (hw m') = ram (hw m)"
    and "unat c < 128 \<Longrightarrow> unat i < 16 \<Longrightarrow> mmu_ram (hw m') c i = gDefaultMMU ! unat i"
    and "frame_of m' = frame_of (m\<lparr>gMMUIOTrigger := False\<rparr>)" and "lv (hw m') = lv (hw m)"
proof -
  define m0 where "m0 = m\<lparr>gMMUIOTrigger := False\<rparr>"
  have ok0: "bus_ok m0" "index_ok m0" using assms(1,2) by (simp_all add: m0_def)
  have cs: "set [0..<128] \<subseteq> {..<256}" by auto
  define p where "p = map_each [0..<128] (\<lambda>c. defMMUContext (ref_board cpu) (of_nat c) gDefaultMMU)"
  note w = map_each_contexts [OF cs ok0, of cpu gDefaultMMU, folded p_def]
  define m1 where "m1 = exec p m0"
  have ok1: "bus_ok m1" "index_ok m1" and r1: "ram (hw m1) = ram (hw m0)"
    using w(1) by (simp_all add: m1_def table_inv_def)
  note s = setMMUContext_spec [OF ok1(1), of cpu 0]
  have errs: "filter Not (val_of p m0) = []" using w(2) by (simp add: filter_empty_conv)
  have m': "m' = (exec (setMMUContext (ref_board cpu) 0) m1)\<lparr>gMMUIOTrigger := False\<rparr>"
    using errs unfolding m'_def m1_def p_def
    by (simp add: initMMU_def initMMUInterrupt_def interrupts_ref m0_def [symmetric]
        NUM_CONTEXTS_def DEFAULT_CONTEXT_def Let_def)
  show "val_of (initMMU (ref_board cpu)) m"
    using errs unfolding p_def
    by (simp add: initMMU_def initMMUInterrupt_def interrupts_ref m0_def [symmetric]
        NUM_CONTEXTS_def Let_def)
  show "bus_ok m'" "index_ok m'" "gCurrentContext m' = 0" "\<not> gMMUIOTrigger m'"
    "ram (hw m') = ram (hw m)"
    using s ok1 r1 unfolding m' by (simp_all add: m0_def index_ok_def latched_index_def)
  show "mmu_ram (hw m') c i = gDefaultMMU ! unat i" if "unat c < 128" "unat i < 16"
    using s(6) w(3) that unfolding m' m1_def by simp
  show "frame_of m' = frame_of (m\<lparr>gMMUIOTrigger := False\<rparr>)" "lv (hw m') = lv (hw m)"
    using s(4,10) w(1) unfolding m' by (simp_all add: m1_def m0_def table_inv_def frame_of_def env_of_def)
qed

section \<open>The index cache and the address register\<close>

text \<open>
  \<open>writeCPUAddressH\<close> is also the first half of \<open>writeCPUAddress\<close>, which latches the high
  byte of a memory address into the same register but leaves \<open>gCurrentIndex\<close> alone. A table
  access under the cached index then goes to the entry of the last memory access.
\<close>

lemma readMMUPage_cached_index:
  fixes c i :: u8 and cpu :: cpu
  assumes "bus_ok m" and "gCurrentIndex m = uint i"
  shows "val_of (readMMUPage (ref_board cpu) c i) m = mmu_ram (hw m) c (latched_index (hw m))"
proof -
  note s = setMMUContext_spec [OF assms(1), of cpu c]
  have "exec (writeMMUIndex (ref_board cpu) i) (exec (setMMUContext (ref_board cpu) c) m) =
      exec (setMMUContext (ref_board cpu) c) m"
    using writeMMUIndex_ref [OF s(1), of cpu i] s(9) assms(2) by simp
  then show ?thesis
    using readMMUPage_ref(1) [OF assms(1), of cpu c i] s(8) by (simp add: latched_index_def)
qed

end
