(* ===== verification/P6502.thy ===== *)
theory P6502
  imports Mmu_Table
begin

text \<open>
  \<open>p6502.cpp\<close>: the pins that hold, halt, reset and clock the 65C02, and the system state
  machine that sequences them. The divider and wrap values that \<open>set6502Clock\<close> computes in
  floating point are not modelled; its event \<open>PwmStart\<close> carries the frequency they are
  computed from.
\<close>

section \<open>RW pin\<close>

definition set6502RW :: "'b board \<Rightarrow> rw \<Rightarrow> ('b machine, unit) state" where
  "set6502RW bd vHL = do {
     dir \<leftarrow> gets gDir6502RW;
     when_do (dir = mOUTPUT) (io bd (PinSet p6502RW (rw_level vHL)))
   }"

definition get6502RW :: "'b board \<Rightarrow> ('b machine, rw) state" where
  "get6502RW bd = do {
     dir \<leftarrow> gets gDir6502RW;
     if dir = mINPUT then do {
       b \<leftarrow> gpio_get bd p6502RW;
       ret (if b then mREAD else mWRITE)
     } else ret mREAD
   }"

definition dir6502RW :: "'b board \<Rightarrow> direction \<Rightarrow> ('b machine, unit) state" where
  "dir6502RW bd vDir = do {
     dir \<leftarrow> gets gDir6502RW;
     (case vDir of
       mINPUT \<Rightarrow> when_do (dir \<noteq> mINPUT) (do {
         io bd (GpioPullUp (gpio_of p6502RW));
         io bd (GpioDir (gpio_of p6502RW) False);
         modify (\<lambda>m. m\<lparr>gDir6502RW := mINPUT\<rparr>)
       })
     | mOUTPUT \<Rightarrow> when_do (dir \<noteq> mOUTPUT) (do {
         modify (\<lambda>m. m\<lparr>gDir6502RW := mOUTPUT\<rparr>);
         set6502RW bd mREAD;
         io bd (GpioDir (gpio_of p6502RW) True);
         set6502RW bd mREAD
       })
     | mUNKNOWN \<Rightarrow> ret ())
   }"

section \<open>Clock\<close>

definition get6502ClockFrequency :: "('b machine, u32) state" where
  "get6502ClockFrequency = gets gClockFrequency"

definition set6502Clockfrequency :: "u32 \<Rightarrow> ('b machine, unit) state" where
  "set6502Clockfrequency freq = modify (\<lambda>m. m\<lparr>gClockFrequency := freq\<rparr>)"

definition set6502Clock :: "'b board \<Rightarrow> ('b machine, unit) state" where
  "set6502Clock bd = do {
     io bd (GpioPwm p6502PHI2);
     freq \<leftarrow> gets gClockFrequency;
     io bd (PwmStart freq);
     modify (\<lambda>m. m\<lparr>gClockState := eON\<rparr>)
   }"

definition ss6502ClockStep :: "'b board \<Rightarrow> ('b machine, unit) state" where
  "ss6502ClockStep bd = do {
     low bd p6502PHI2;
     delayNs bd 125;
     high bd p6502PHI2;
     delayNs bd 125
   }"

text \<open>
  The loop of \<open>advance6502clock\<close> from counter value \<open>lTry\<close>; it returns the counter after the
  loop. The counter is incremented by the failing test too, so a loop that gives up returns 9.
\<close>

function advance_loop :: "'b board \<Rightarrow> nat \<Rightarrow> ('b machine, nat) state" where
  "advance_loop bd lTry = do {
     rw \<leftarrow> get6502RW bd;
     if rw = mWRITE then
       (if lTry < 8 then do { ss6502ClockStep bd; advance_loop bd (Suc lTry) }
        else ret (Suc lTry))
     else ret lTry
   }"
  by pat_completeness auto
termination
  by (relation "measure (\<lambda>(bd, n). 8 - n)") auto

declare advance_loop.simps [simp del]

definition advance6502clock :: "'b board \<Rightarrow> ('b machine, bool) state" where
  "advance6502clock bd = do {
     ck \<leftarrow> gets gClockState;
     if ck = eON then ret False
     else do {
       lTry \<leftarrow> advance_loop bd 0;
       ret (lTry < 8)
     }
   }"

definition halt6502clock :: "'b board \<Rightarrow> bool \<Rightarrow> ('b machine, bool) state" where
  "halt6502clock bd vToRead = do {
     ck \<leftarrow> gets gClockState;
     if ck = eOFF then ret True
     else do {
       io bd PwmStop;
       delayNs bd 125;
       io bd (GpioSio p6502PHI2);
       high bd p6502PHI2;
       io bd (GpioDir (gpio_of p6502PHI2) True);
       modify (\<lambda>m. m\<lparr>gClockState := eOFF\<rparr>);
       if vToRead then advance6502clock bd else ret True
     }
   }"

section \<open>System states\<close>

definition get6502State :: "('b machine, sysstate) state" where
  "get6502State = gets gSysState"

definition enter6502State :: "'b board \<Rightarrow> sysstate \<Rightarrow> ('b machine, unit) state" where
  "enter6502State bd vSysState = (case vSysState of
     sSTARTUP \<Rightarrow> ret ()
   | sBOOT \<Rightarrow> do {
       high bd p6502IRQ;
       low bd p6502RESET;
       halt6502clock bd True;
       low bd p6502RDY;
       low bd p6502BE;
       dir6502RW bd mOUTPUT;
       setControlMode mRPI
     }
   | sRESET \<Rightarrow> do {
       high bd p6502IRQ;
       high bd pDebug;
       low bd p6502RESET;
       set6502Clock bd;
       low bd p6502RDY;
       high bd p6502BE;
       dir6502RW bd mINPUT;
       setControlMode mCPU;
       setMMUContext bd DEFAULT_CONTEXT
     }
   | sHALTED \<Rightarrow> do {
       halt6502clock bd True;
       low bd p6502RDY;
       high bd p6502BE;
       dir6502RW bd mINPUT;
       setControlMode mCPU
     }
   | sRUNNING \<Rightarrow> do {
       dir6502RW bd mINPUT;
       high bd p6502BE;
       set6502Clock bd;
       high bd p6502RDY;
       high bd p6502RESET;
       setControlMode mCPU
     }
   | sREAD \<Rightarrow> do {
       high bd p6502RESET;
       halt6502clock bd True;
       high bd p6502RDY;
       high bd p6502BE;
       dir6502RW bd mINPUT;
       setControlMode mRPI
     }
   | sRPI \<Rightarrow> do {
       halt6502clock bd True;
       low bd p6502RDY;
       low bd p6502BE;
       dir6502RW bd mOUTPUT;
       setControlMode mRPI
     })"

definition set6502State :: "'b board \<Rightarrow> sysstate \<Rightarrow> ('b machine, bool) state" where
  "set6502State bd vSysState = do {
     cur \<leftarrow> gets gSysState;
     if vSysState = cur then ret True
     else if vSysState = sSTARTUP then ret False
     else do {
       enter6502State bd vSysState;
       modify (\<lambda>m. m\<lparr>gSysState := vSysState\<rparr>);
       ret True
     }
   }"

definition setup6502 :: "'b board \<Rightarrow> ('b machine, unit) state" where
  "setup6502 bd = do {
     io bd (GpioInit (gpio_of p6502RESET));
     io bd (GpioDir (gpio_of p6502RESET) True);
     low bd p6502RESET;
     io bd (GpioInit (gpio_of p6502BE));
     io bd (GpioDir (gpio_of p6502BE) True);
     low bd p6502BE;
     modify (\<lambda>m. m\<lparr>gBusState := eDISABLED\<rparr>);
     io bd (GpioInit (gpio_of p6502RDY));
     io bd (GpioDir (gpio_of p6502RDY) True);
     low bd p6502RDY;
     io bd (GpioInit (gpio_of p6502RW));
     io bd (GpioDir (gpio_of p6502RW) True);
     modify (\<lambda>m. m\<lparr>gDir6502RW := mOUTPUT\<rparr>);
     set6502RW bd mREAD;
     io bd (GpioInit (gpio_of p6502SYNC));
     io bd (GpioDir (gpio_of p6502SYNC) False);
     io bd (GpioInit (gpio_of p6502IRQ));
     io bd (GpioDir (gpio_of p6502IRQ) True);
     high bd p6502IRQ;
     io bd (GpioInit (gpio_of p6502PHI2));
     io bd (GpioDir (gpio_of p6502PHI2) True);
     high bd p6502PHI2;
     modify (\<lambda>m. m\<lparr>gClockState := eOFF\<rparr>);
     modify (\<lambda>m. m\<lparr>gSysState := sSTARTUP\<rparr>)
   }"

definition init6502 :: "'b board \<Rightarrow> ('b machine, unit) state" where
  "init6502 bd = do { set6502State bd sBOOT; ret () }"

text \<open>The pin set-up of \<open>setup()\<close>, in its order.\<close>

definition setup_pins :: "'b board \<Rightarrow> ('b machine, unit) state" where
  "setup_pins bd = do {
     setupControl bd;
     setupNEOBus bd;
     setupMMU bd;
     setup6502 bd
   }"

section \<open>Simulation\<close>

lemma sim_case_direction [sim_rules]:
  "sim f p1 q1 \<Longrightarrow> sim f p2 q2 \<Longrightarrow> sim f p3 q3 \<Longrightarrow>
   sim f (case d of mOUTPUT \<Rightarrow> p1 | mINPUT \<Rightarrow> p2 | mUNKNOWN \<Rightarrow> p3)
         (case d of mOUTPUT \<Rightarrow> q1 | mINPUT \<Rightarrow> q2 | mUNKNOWN \<Rightarrow> q3)"
  by (cases d) simp_all

context neo_bus
begin

lemma sim_rw_pin [sim_rules]:
  "sim view (set6502RW bd d) (set6502RW (ref_board cpu) d)"
  "sim view (get6502RW bd) (get6502RW (ref_board cpu))"
  unfolding set6502RW_def get6502RW_def by ((intro sim_rules; simp)+)

lemma sim_dir6502RW [sim_rules]: "sim view (dir6502RW bd d) (dir6502RW (ref_board cpu) d)"
  unfolding dir6502RW_def by (intro sim_rules; simp)

lemma sim_clock_step [sim_rules]:
  "sim view (set6502Clock bd) (set6502Clock (ref_board cpu))"
  "sim view (ss6502ClockStep bd) (ss6502ClockStep (ref_board cpu))"
  unfolding set6502Clock_def ss6502ClockStep_def by ((intro sim_rules; simp)+)

lemma sim_advance_loop [sim_rules]: "sim view (advance_loop bd n) (advance_loop (ref_board cpu) n)"
proof (induction "8 - n" arbitrary: n rule: less_induct)
  case less
  show ?case
  proof (cases "n < 8")
    case True
    then have "sim view (advance_loop bd (Suc n)) (advance_loop (ref_board cpu) (Suc n))"
      by (intro less) simp
    then show ?thesis
      unfolding advance_loop.simps [of _ n] by (intro sim_rules; simp)
  next
    case False
    then show ?thesis
      unfolding advance_loop.simps [of _ n] by simp (intro sim_rules)
  qed
qed

lemma sim_halt6502clock [sim_rules]:
  "sim view (advance6502clock bd) (advance6502clock (ref_board cpu))"
  "sim view (halt6502clock bd b) (halt6502clock (ref_board cpu) b)"
  unfolding halt6502clock_def advance6502clock_def by ((intro sim_rules; simp)+)

lemma sim_enter6502State [sim_rules]: "sim view (enter6502State bd s) (enter6502State (ref_board cpu) s)"
  unfolding enter6502State_def by (cases s; simp only: sysstate.case; intro sim_rules)

lemma sim_set6502State [sim_rules]: "sim view (set6502State bd s) (set6502State (ref_board cpu) s)"
  unfolding set6502State_def by (intro sim_rules; simp)

lemma sim_setup6502 [sim_rules]: "sim view (setup6502 bd) (setup6502 (ref_board cpu))"
  unfolding setup6502_def by (intro sim_rules; simp)

lemma sim_setup_pins [sim_rules]: "sim view (setup_pins bd) (setup_pins (ref_board cpu))"
  unfolding setup_pins_def by (intro sim_rules)

lemma sim_get6502State [sim_rules]: "sim view get6502State get6502State"
  by (simp add: sim_def get6502State_def)

end

end
