(* ===== verification/P6502_States.thy ===== *)
theory P6502_States
  imports P6502
begin

text \<open>
  The table of \<open>p6502.h\<close> (control, clock, bus and RW direction of every system state) as an
  invariant of the state machine, what stopping the clock leaves alone, and the bound on the
  loop that walks the processor to a read cycle.
\<close>

section \<open>Stopping the clock\<close>

text \<open>Everything but PHI2, the memory and the 65C02 itself.\<close>

definition cpu_only :: "ref \<Rightarrow> ref \<Rightarrow> bool" where
  "cpu_only h h' \<longleftrightarrow> (\<forall>p. p \<noteq> p6502PHI2 \<longrightarrow> lv h' p = lv h p) \<and> bus_out h' = bus_out h \<and>
     bus_val h' = bus_val h \<and> areg_h h' = areg_h h \<and> areg_l h' = areg_l h \<and>
     ctx_reg h' = ctx_reg h \<and> mmu_ram h' = mmu_ram h"

definition clock_rel :: "ref machine \<Rightarrow> ref machine \<Rightarrow> bool" where
  "clock_rel m m' \<longleftrightarrow> m' = m\<lparr>hw := hw m'\<rparr> \<and> cpu_only (hw m) (hw m')"

lemma cpu_only_refl [simp]: "cpu_only h h"
  by (simp add: cpu_only_def)

lemma cpu_only_trans: "cpu_only h h' \<Longrightarrow> cpu_only h' h'' \<Longrightarrow> cpu_only h h''"
  by (simp add: cpu_only_def)

lemma cpu_only_acts: "cpu_only h (cpu_acts cpu h)"
  by (simp add: cpu_only_def cpu_acts_def)

lemma cpu_only_phi2: "cpu_only h (ref_io cpu h (PinSet p6502PHI2 b))"
proof -
  have "cpu_only h (drive p6502PHI2 b h)"
    by (simp add: cpu_only_def drive_def rising_def Let_def)
  then show ?thesis using cpu_only_trans cpu_only_acts by simp
qed

lemma clock_rel_refl [simp]: "clock_rel m m"
  by (simp add: clock_rel_def)

lemma clock_rel_trans: "clock_rel m m' \<Longrightarrow> clock_rel m' m'' \<Longrightarrow> clock_rel m m''"
proof -
  assume r1: "clock_rel m m'" and r2: "clock_rel m' m''"
  have "m'' = m'\<lparr>hw := hw m''\<rparr>" using r2 by (simp only: clock_rel_def)
  also have "\<dots> = (m\<lparr>hw := hw m'\<rparr>)\<lparr>hw := hw m''\<rparr>"
    using r1 unfolding clock_rel_def by (metis (no_types))
  also have "\<dots> = m\<lparr>hw := hw m''\<rparr>" by simp
  finally have "m'' = m\<lparr>hw := hw m''\<rparr>" .
  moreover have "cpu_only (hw m) (hw m'')"
    using r1 r2 cpu_only_trans by (auto simp only: clock_rel_def)
  ultimately show "clock_rel m m''" by (simp only: clock_rel_def)
qed

lemma clock_rel_io:
  assumes "cpu_only (hw m) (ref_io cpu (hw m) e)"
  shows "clock_rel m (exec (io (ref_board cpu) e) m)"
  using assms by (simp add: clock_rel_def io_ref)

lemma clock_step_rel: "clock_rel m (exec (ss6502ClockStep (ref_board cpu)) m)"
proof -
  have l: "clock_rel n (exec (low (ref_board cpu) p6502PHI2) n)"
    and h: "clock_rel n (exec (high (ref_board cpu) p6502PHI2) n)"
    and d: "exec (delayNs (ref_board cpu) t) n = n" for n t
    unfolding low_def high_def
    by (rule clock_rel_io, rule cpu_only_phi2)+ (simp add: delayNs_def io_ref)
  show ?thesis
    by (simp add: ss6502ClockStep_def d) (rule clock_rel_trans [OF l h])
qed

lemma exec_get6502RW [simp]: "exec (get6502RW bd) m = m"
  by (simp add: get6502RW_def gpio_get_def)

lemma advance_loop_rel: "clock_rel m (exec (advance_loop (ref_board cpu) n) m)"
proof (induction "8 - n" arbitrary: n m rule: less_induct)
  case less
  let ?m' = "exec (ss6502ClockStep (ref_board cpu)) m"
  show ?case
  proof (cases "val_of (get6502RW (ref_board cpu)) m = mWRITE \<and> n < 8")
    case True
    then have "clock_rel ?m' (exec (advance_loop (ref_board cpu) (Suc n)) ?m')"
      by (intro less) arith
    with True clock_step_rel [of m cpu] show ?thesis
      by (subst advance_loop.simps) (auto intro: clock_rel_trans)
  next
    case False
    then show ?thesis by (subst advance_loop.simps) auto
  qed
qed

lemma halt_clock_off:
  "gClockState m = eOFF \<Longrightarrow> exec (halt6502clock bd b) m = m"
  by (simp add: halt6502clock_def)

lemma halt_clock_rel:
  fixes m :: "ref machine" and cpu :: cpu and b :: bool
  defines "m' \<equiv> exec (halt6502clock (ref_board cpu) b) m"
  shows "gClockState m' = eOFF" and "clock_rel (m\<lparr>gClockState := eOFF\<rparr>) m'"
proof -
  have "gClockState m' = eOFF \<and> clock_rel (m\<lparr>gClockState := eOFF\<rparr>) m'"
  proof (cases "gClockState m = eOFF")
    case True
    have "m\<lparr>gClockState := eOFF\<rparr> = m" by (rule machine.equality) (simp_all add: True)
    moreover have "m' = m" unfolding m'_def using True by (rule halt_clock_off)
    ultimately show ?thesis using True clock_rel_refl [of m] by metis
  next
    case False
    define h1 where "h1 = cpu_acts cpu (hw m)"
    define h2 where "h2 = ref_io cpu h1 (PinSet p6502PHI2 True)"
    define m1 where "m1 = m\<lparr>hw := h2, gClockState := eOFF\<rparr>"
    have "cpu_only (hw m) h2"
      unfolding h1_def h2_def by (rule cpu_only_trans [OF cpu_only_acts cpu_only_phi2])
    then have r1: "clock_rel (m\<lparr>gClockState := eOFF\<rparr>) m1"
      by (simp add: clock_rel_def m1_def)
    have "m' = (if b then exec (advance_loop (ref_board cpu) 0) m1 else m1)"
      using False unfolding m'_def m1_def h2_def h1_def
      by (simp add: halt6502clock_def advance6502clock_def io_ref delayNs_def high_def)
    moreover have "clock_rel m1 (exec (advance_loop (ref_board cpu) 0) m1)"
      by (rule advance_loop_rel)
    ultimately have "clock_rel m1 m'" by simp
    with r1 have r: "clock_rel (m\<lparr>gClockState := eOFF\<rparr>) m'" by (rule clock_rel_trans)
    then have "gClockState m' = eOFF"
      unfolding clock_rel_def by (metis machine.select_convs(12) machine.surjective
          machine.update_convs(1) machine.update_convs(12))
    with r show ?thesis by simp
  qed
  then show "gClockState m' = eOFF" and "clock_rel (m\<lparr>gClockState := eOFF\<rparr>) m'" by simp_all
qed

section \<open>The loop that looks for a read cycle\<close>

text \<open>
  On any board at all the loop stops: it is entered at most nine times and the clock is
  stepped at most eight times; the counter it returns tells which.
\<close>

lemma advance_loop_bound: "n \<le> 8 \<Longrightarrow> val_of (advance_loop bd n) m \<le> 9"
proof (induction "8 - n" arbitrary: n m rule: less_induct)
  case less
  show ?case
  proof (cases "n < 8")
    case True
    then have "val_of (advance_loop bd (Suc n)) m' \<le> 9" for m'
      by (intro less) simp_all
    with True less.prems show ?thesis by (subst advance_loop.simps) simp
  next
    case False
    with less.prems show ?thesis by (subst advance_loop.simps) simp
  qed
qed

section \<open>Effect of the steps on the reference board\<close>

definition halt_hw :: "cpu \<Rightarrow> bool \<Rightarrow> ref machine \<Rightarrow> ref" where
  "halt_hw cpu b m = hw (exec (halt6502clock (ref_board cpu) b) m)"

lemma halt_ref:
  "exec (halt6502clock (ref_board cpu) b) m = m\<lparr>gClockState := eOFF, hw := halt_hw cpu b m\<rparr>"
  using halt_clock_rel(2) [of m cpu b] unfolding clock_rel_def halt_hw_def by simp

lemma halt_hw_frame [simp]:
  "p \<noteq> p6502PHI2 \<Longrightarrow> lv (halt_hw cpu b m) p = lv (hw m) p"
  "bus_out (halt_hw cpu b m) = bus_out (hw m)"
  "bus_val (halt_hw cpu b m) = bus_val (hw m)"
  "areg_h (halt_hw cpu b m) = areg_h (hw m)"
  "areg_l (halt_hw cpu b m) = areg_l (hw m)"
  "ctx_reg (halt_hw cpu b m) = ctx_reg (hw m)"
  "mmu_ram (halt_hw cpu b m) = mmu_ram (hw m)"
  "gClockState m = eOFF \<Longrightarrow> halt_hw cpu b m = hw m"
  using halt_clock_rel(2) [of m cpu b]
  by (auto simp: clock_rel_def cpu_only_def halt_hw_def halt_clock_off)

lemma drive_ctl:
  "lv h pCPUDBufOE \<Longrightarrow> p \<in> {p6502IRQ, pDebug, p6502RESET, p6502RDY, p6502BE, p6502RW} \<Longrightarrow>
   drive p b h = h\<lparr>lv := (lv h)(p := b)\<rparr>"
  by (auto simp: drive_def rising_def Let_def)

lemma dir6502RW_ref:
  "exec (dir6502RW (ref_board cpu) mINPUT) m = m\<lparr>gDir6502RW := mINPUT\<rparr>"
  "lv (hw m) pCPUDBufOE \<Longrightarrow> exec (dir6502RW (ref_board cpu) mOUTPUT) m =
     (if gDir6502RW m = mOUTPUT then m
      else m\<lparr>gDir6502RW := mOUTPUT, hw := (hw m)\<lparr>lv := (lv (hw m))(p6502RW := True)\<rparr>\<rparr>)"
proof -
  show "exec (dir6502RW (ref_board cpu) mINPUT) m = m\<lparr>gDir6502RW := mINPUT\<rparr>"
    by (cases m) (simp add: dir6502RW_def io_ref)
  show "exec (dir6502RW (ref_board cpu) mOUTPUT) m =
     (if gDir6502RW m = mOUTPUT then m
      else m\<lparr>gDir6502RW := mOUTPUT, hw := (hw m)\<lparr>lv := (lv (hw m))(p6502RW := True)\<rparr>\<rparr>)"
    if "lv (hw m) pCPUDBufOE"
    using that by (simp add: dir6502RW_def io_ref set6502RW_def rw_level_def drive_ctl)
qed

lemma set6502Clock_ref: "exec (set6502Clock (ref_board cpu)) m = m\<lparr>gClockState := eON\<rparr>"
  by (cases m) (simp add: set6502Clock_def io_ref)

section \<open>The table of system states\<close>

text \<open>
  Per state: who controls the bus, the clock, the RW direction, and the levels of BE, RDY and
  RESET; \<open>None\<close> where the transition leaves RESET as it was.
\<close>

fun row_of :: "sysstate \<Rightarrow> controlmode \<times> clockstate \<times> direction \<times> bool \<times> bool \<times> bool option" where
  "row_of sSTARTUP = (mRPI, eOFF, mOUTPUT, False, False, Some False)"
| "row_of sBOOT = (mRPI, eOFF, mOUTPUT, False, False, Some False)"
| "row_of sRESET = (mCPU, eON, mINPUT, True, False, Some False)"
| "row_of sHALTED = (mCPU, eOFF, mINPUT, True, False, None)"
| "row_of sRUNNING = (mCPU, eON, mINPUT, True, True, Some True)"
| "row_of sREAD = (mRPI, eOFF, mINPUT, True, True, Some True)"
| "row_of sRPI = (mRPI, eOFF, mOUTPUT, False, False, None)"

definition in_row :: "ref machine \<Rightarrow> bool" where
  "in_row m = (case row_of (gSysState m) of (ctl, ck, dir, be, rdy, rst) \<Rightarrow>
     gControlMode m = ctl \<and> gClockState m = ck \<and> gDir6502RW m = dir \<and>
     lv (hw m) p6502BE = be \<and> lv (hw m) p6502RDY = rdy \<and>
     (case rst of None \<Rightarrow> True | Some b \<Rightarrow> lv (hw m) p6502RESET = b) \<and>
     (dir = mOUTPUT \<longrightarrow> lv (hw m) p6502RW))"

definition machine_ok :: "ref machine \<Rightarrow> bool" where
  "machine_ok m \<longleftrightarrow> bus_ok m \<and> in_row m"

lemma in_row_cong:
  assumes "gSysState m' = gSysState m" and "gControlMode m' = gControlMode m"
    and "gClockState m' = gClockState m" and "gDir6502RW m' = gDir6502RW m"
    and "lv (hw m') = lv (hw m)"
  shows "in_row m' = in_row m"
  unfolding in_row_def assms ..

lemma machine_ok_bus:
  assumes "machine_ok m" and "lv h = lv (hw m)" and "dir_known d h"
    and "ctx_reg h = ctx_reg (hw m)"
  shows "machine_ok (m\<lparr>hw := h, gBusDir := d\<rparr>)"
proof -
  have "in_row (m\<lparr>hw := h, gBusDir := d\<rparr>) = in_row m"
    using assms(2) by (intro in_row_cong) simp_all
  then show ?thesis
    using assms by (simp add: machine_ok_def bus_ok_def idle_def)
qed

lemma machine_ok_trigger [simp]: "machine_ok (m\<lparr>gMMUIOTrigger := b\<rparr>) = machine_ok m"
  using in_row_cong [of "m\<lparr>gMMUIOTrigger := b\<rparr>" m] by (simp add: machine_ok_def)

text \<open>What no state change touches, the context apart (\<open>sRESET\<close> selects the default one).\<close>

definition bus_kept :: "ref machine \<Rightarrow> ref machine \<Rightarrow> bool" where
  "bus_kept m m' \<longleftrightarrow> mmu_ram (hw m') = mmu_ram (hw m) \<and> areg_h (hw m') = areg_h (hw m) \<and>
     areg_l (hw m') = areg_l (hw m) \<and> gCurrentIndex m' = gCurrentIndex m \<and>
     gMMUIOCount m' = gMMUIOCount m \<and> gMMUIOTrigger m' = gMMUIOTrigger m \<and>
     gClockFrequency m' = gClockFrequency m \<and> gBusState m' = gBusState m \<and>
     (gClockState m = eOFF \<longrightarrow> ram (hw m') = ram (hw m))"

lemma idle_other [simp]:
  "p \<notin> idle_pins \<Longrightarrow> idle (h\<lparr>lv := (lv h')(p := b)\<rparr>) = idle (h\<lparr>lv := lv h'\<rparr>)"
  by (auto simp: idle_def)

lemma high_ref: "exec (high (ref_board cpu) p) m = m\<lparr>hw := ref_io cpu (hw m) (PinSet p True)\<rparr>"
  and low_ref: "exec (low (ref_board cpu) p) m = m\<lparr>hw := ref_io cpu (hw m) (PinSet p False)\<rparr>"
  by (simp_all add: high_def low_def io_ref)

lemmas state_step_refs = high_ref low_ref halt_ref dir6502RW_ref set6502Clock_ref drive_ctl
  setControlMode_def

lemma bus_ok_ctl:
  assumes "bus_ok m" and "\<forall>p\<in>idle_pins. lv (hw m') p = lv (hw m) p"
    and "bus_out (hw m') = bus_out (hw m)" and "ctx_reg (hw m') = ctx_reg (hw m)"
    and "gBusDir m' = gBusDir m" and "gCurrentContext m' = gCurrentContext m"
  shows "bus_ok m'"
  using assms by (simp add: bus_ok_def idle_def dir_known_def)

lemma enter6502State_simple:
  fixes cpu :: cpu
  assumes "bus_ok m" and "s \<notin> {sSTARTUP, sRESET}" and "in_row m"
  defines "m' \<equiv> (exec (enter6502State (ref_board cpu) s) m)\<lparr>gSysState := s\<rparr>"
  shows "in_row m'" and "bus_ok m'" and "bus_kept m m'"
    and "gCurrentContext m' = gCurrentContext m" and "ctx_reg (hw m') = ctx_reg (hw m)"
proof -
  note lvs = idleD [OF bus_okD(1) [OF assms(1)]]
  show "in_row m'" "bus_kept m m'" "gCurrentContext m' = gCurrentContext m"
    "ctx_reg (hw m') = ctx_reg (hw m)"
    using lvs assms(2,3) unfolding m'_def
    by (cases s; auto simp: enter6502State_def state_step_refs in_row_def bus_kept_def
        split: sysstate.splits)+
  show "bus_ok m'"
    using lvs assms(2) unfolding m'_def
    by (intro bus_ok_ctl [OF assms(1)])
      (cases s; auto simp: enter6502State_def state_step_refs idle_pins_def)+
qed

lemma enter6502State_reset:
  fixes cpu :: cpu
  assumes "bus_ok m"
  defines "m' \<equiv> (exec (enter6502State (ref_board cpu) sRESET) m)\<lparr>gSysState := sRESET\<rparr>"
  shows "in_row m'" and "bus_ok m'" and "gCurrentContext m' = 0" and "bus_kept m m'"
proof -
  define m0 where "m0 = m\<lparr>gClockState := eON, hw := (hw m)\<lparr>lv := (lv (hw m))(p6502IRQ := True,
      pDebug := True, p6502RESET := False, p6502RDY := False, p6502BE := True)\<rparr>,
      gDir6502RW := mINPUT, gControlMode := mCPU\<rparr>"
  note lvs = idleD [OF bus_okD(1) [OF assms(1)]]
  have ok0: "bus_ok m0"
    by (rule bus_ok_ctl [OF assms(1)]) (simp_all add: m0_def idle_pins_def)
  have "exec (enter6502State (ref_board cpu) sRESET) m = exec (setMMUContext (ref_board cpu) 0) m0"
    using lvs by (simp add: enter6502State_def state_step_refs m0_def DEFAULT_CONTEXT_def)
  then have m': "m' = (exec (setMMUContext (ref_board cpu) 0) m0)\<lparr>gSysState := sRESET\<rparr>"
    by (simp add: m'_def)
  note s = setMMUContext_spec [OF ok0, of cpu 0]
  have f: "frame_of m' = frame_of (m0\<lparr>gSysState := sRESET\<rparr>)"
    using s(4) by (simp add: m' frame_of_def)
  show "in_row m'"
    using f s(10) by (simp add: in_row_def m' frame_of_def m0_def)
  show "bus_ok m'" using s(1) by (simp add: m' bus_ok_def)
  show "gCurrentContext m' = 0" using s(2) by (simp add: m')
  have "areg_l (hw m') = areg_l (hw m0)"
    by (simp add: m' setMMUContext_ref [OF ok0])
  then show "bus_kept m m'"
    using f s by (simp add: bus_kept_def m' frame_of_def m0_def)
qed

text \<open>The whole transition, from any machine in order.\<close>

definition context_after :: "sysstate \<Rightarrow> ref machine \<Rightarrow> int" where
  "context_after s m = (if s = sRESET \<and> gSysState m \<noteq> sRESET then 0 else gCurrentContext m)"

lemma set6502State_spec:
  fixes cpu :: cpu and s :: sysstate
  assumes "machine_ok m"
  defines "m' \<equiv> exec (set6502State (ref_board cpu) s) m"
  shows "machine_ok m'"
    and "val_of (set6502State (ref_board cpu) s) m \<longleftrightarrow> s = gSysState m \<or> s \<noteq> sSTARTUP"
    and "gSysState m' = (if s = sSTARTUP then gSysState m else s)"
    and "bus_kept m m'" and "gCurrentContext m' = context_after s m"
proof -
  have row: "in_row m" and ok: "bus_ok m" using assms(1) by (simp_all add: machine_ok_def)
  consider (same) "s = gSysState m" | (start) "s = sSTARTUP" "s \<noteq> gSysState m"
    | (reset) "s = sRESET" "s \<noteq> gSysState m"
    | (other) "s \<notin> {sSTARTUP, sRESET}" "s \<noteq> gSysState m" by blast
  then have all: "machine_ok m' \<and> gSysState m' = (if s = sSTARTUP then gSysState m else s) \<and>
      bus_kept m m' \<and> gCurrentContext m' = context_after s m"
  proof cases
    case same
    then show ?thesis
      using assms(1) by (auto simp: m'_def set6502State_def bus_kept_def context_after_def)
  next
    case start
    then show ?thesis
      using assms(1) by (auto simp: m'_def set6502State_def bus_kept_def context_after_def)
  next
    case reset
    then have "m' = (exec (enter6502State (ref_board cpu) sRESET) m)\<lparr>gSysState := sRESET\<rparr>"
      by (simp add: m'_def set6502State_def)
    with enter6502State_reset [OF ok, of cpu] reset show ?thesis
      by (auto simp: machine_ok_def context_after_def)
  next
    case other
    then have "m' = (exec (enter6502State (ref_board cpu) s) m)\<lparr>gSysState := s\<rparr>"
      by (simp add: m'_def set6502State_def)
    with enter6502State_simple [OF ok other(1) row, of cpu] other show ?thesis
      by (auto simp: machine_ok_def context_after_def)
  qed
  then show "machine_ok m'" "gSysState m' = (if s = sSTARTUP then gSysState m else s)"
    "bus_kept m m'" "gCurrentContext m' = context_after s m" by simp_all
  show "val_of (set6502State (ref_board cpu) s) m \<longleftrightarrow> s = gSysState m \<or> s \<noteq> sSTARTUP"
    by (auto simp: set6502State_def)
qed

section \<open>Start-up\<close>

text \<open>
  \<open>setup()\<close> first sets up the pins, in the order control, bus, MMU, processor; this brings the
  board into the bus discipline whatever the levels were, and the machine into the first row.
\<close>

lemma for_each_io_ref:
  "exec (for_each [40..<48] (\<lambda>i. do {io (ref_board cpu) (GpioInit i);
     io (ref_board cpu) (GpioDir i False); io (ref_board cpu) (GpioPullUp i)})) m = m"
  by (rule exec_for_each_invariant [where I = "\<lambda>s. s = m"]) (simp_all add: io_ref)

lemma setup_out_pin_ref:
  "exec (setup_out_pin (ref_board cpu) p) m = m\<lparr>hw := ref_io cpu (hw m) (PinSet p True)\<rparr>"
  by (simp add: setup_out_pin_def io_ref high_ref)

lemma drive_levels [simp]:
  "lv (drive p b h) q = (if q = p then b else lv h q)"
  "bus_out (drive p b h) = bus_out h"
  by (auto simp: drive_def rising_def set_entry_def poke_def Let_def split: pin.splits)

lemma setup_pins_ref:
  fixes cpu :: cpu and h :: ref
  defines "m' \<equiv> exec (setup_pins (ref_board cpu)) (initial_machine h)"
  shows "machine_ok m'" and "gSysState m' = sSTARTUP" and "index_ok m'"
    and "\<not> gMMUIOTrigger m'"
proof -
  show "machine_ok m'"
    unfolding m'_def machine_ok_def bus_ok_def idle_def idle_pins_def in_row_def
    by (simp add: setup_pins_def setupControl_def for_each_io_ref setup_out_pin_ref
        setupNEOBus_def setupMMU_def setup6502_def initial_machine_def setNEOBusDir_def
        when_do_def rw_code_def io_ref high_ref low_ref set6502RW_def rw_level_def ackMMUIO_def
        cpu_acts_def dir_known_def)
  show "gSysState m' = sSTARTUP" "index_ok m'" "\<not> gMMUIOTrigger m'"
    unfolding m'_def index_ok_def
    by (simp_all add: setup_pins_def setupControl_def for_each_io_ref setup_out_pin_ref
        setupNEOBus_def setupMMU_def setup6502_def initial_machine_def setNEOBusDir_def
        when_do_def rw_code_def io_ref high_ref low_ref set6502RW_def rw_level_def ackMMUIO_def)
qed

end
