(* ===== verification/Neobus_Memory.thy ===== *)
theory Neobus_Memory
  imports P6502_States
begin

text \<open>
  The memory half of \<open>neobus.cpp\<close>: single bus cycles on the 6502 memory, and the \<open>snoop\<close>
  accesses that take the bus from a possibly running processor and give it back.
\<close>

definition read6502Data :: "'b board \<Rightarrow> ('b machine, u8) state" where
  "read6502Data bd = do {
     high bd mRW;
     low bd pCPUDBufOE;
     delayNs bd 60;
     ldata \<leftarrow> readNEOBus bd;
     high bd pCPUDBufOE;
     ret ldata
   }"

definition read6502Memory :: "'b board \<Rightarrow> u16 \<Rightarrow> ('b machine, u8) state" where
  "read6502Memory bd vAddress = do {
     mode \<leftarrow> getControlMode;
     if mode = mRPI then do {
       set6502RW bd mREAD;
       writeCPUAddress bd vAddress;
       low bd pCPUARegOE;
       ldata \<leftarrow> read6502Data bd;
       high bd pCPUARegOE;
       ret ldata
     } else ret 0
   }"

definition write6502Memory :: "'b board \<Rightarrow> u16 \<Rightarrow> u8 \<Rightarrow> ('b machine, unit) state" where
  "write6502Memory bd vAddress vData = do {
     mode \<leftarrow> getControlMode;
     when_do (mode = mRPI) (do {
       disableMMUInterrupt bd;
       writeCPUAddress bd vAddress;
       low bd pCPUARegOE;
       writeNEOBus bd vData;
       low bd mRW;
       set6502RW bd mWRITE;
       low bd pCPUDBufOE;
       delayNs bd 60;
       set6502RW bd mREAD;
       high bd mRW;
       high bd pCPUDBufOE;
       high bd pCPUARegOE;
       enableMMUInterrupt bd
     })
   }"

definition snoop_read6502MemoryLoc :: "'b board \<Rightarrow> u16 \<Rightarrow> ('b machine, u8) state" where
  "snoop_read6502MemoryLoc bd vAddress = do {
     lState \<leftarrow> get6502State;
     set6502State bd sRPI;
     loc \<leftarrow> read6502Memory bd vAddress;
     set6502State bd lState;
     ret loc
   }"

definition snoop_write6502MemoryLoc :: "'b board \<Rightarrow> u16 \<Rightarrow> u8 \<Rightarrow> ('b machine, unit) state" where
  "snoop_write6502MemoryLoc bd vAddress vData = do {
     lState \<leftarrow> get6502State;
     set6502State bd sRPI;
     write6502Memory bd vAddress vData;
     set6502State bd lState;
     ret ()
   }"

text \<open>
  The block accesses count in a 16-bit \<open>m\<close> against a 32-bit \<open>vBytes\<close>, so a request for 65536
  bytes or more never ends; the model covers the requests below that, as its argument type
  says. The address wraps at 64 KB.
\<close>

definition snoop_read6502Memory :: "'b board \<Rightarrow> u16 \<Rightarrow> u16 \<Rightarrow> ('b machine, u8 list) state" where
  "snoop_read6502Memory bd vAddress vBytes = do {
     lState \<leftarrow> get6502State;
     set6502State bd sRPI;
     lBuf \<leftarrow> map_each [0..<unat vBytes] (\<lambda>m. read6502Memory bd (vAddress + of_nat m));
     set6502State bd lState;
     ret lBuf
   }"

definition snoop_write6502Memory :: "'b board \<Rightarrow> u16 \<Rightarrow> u8 list \<Rightarrow> ('b machine, unit) state" where
  "snoop_write6502Memory bd vAddress vBuffer = do {
     lState \<leftarrow> get6502State;
     set6502State bd sRPI;
     for_each [0..<length vBuffer]
       (\<lambda>m. write6502Memory bd (vAddress + of_nat m) (vBuffer ! m));
     set6502State bd lState;
     ret ()
   }"

section \<open>Stepping the processor\<close>

text \<open>
  The display arguments of the two stepping commands print the bus and are evaluated for
  their effect on it. \<open>singleCycle6502\<close> returns before restoring the state when it is asked
  for no step.
\<close>

definition show_bus :: "'b board \<Rightarrow> bool \<Rightarrow> ('b machine, unit) state" where
  "show_bus bd vDisplay = when_do vDisplay (do {
     readCPUBusAddress bd;
     read6502Data bd;
     ret ()
   })"

definition singleCycle6502 :: "'b board \<Rightarrow> u8 \<Rightarrow> bool \<Rightarrow> ('b machine, unit) state" where
  "singleCycle6502 bd vSteps vDisplay = do {
     lState \<leftarrow> get6502State;
     set6502State bd sREAD;
     if vSteps = 0 then show_bus bd vDisplay
     else do {
       for_each [0..<unat vSteps] (\<lambda>s. do {
         ss6502ClockStep bd;
         show_bus bd vDisplay;
         delayNs bd 70
       });
       set6502State bd lState;
       ret ()
     }
   }"

text \<open>The do-while loop of \<open>singleStep6502\<close> with its counter; it returns the final counter.\<close>

function step_loop :: "'b board \<Rightarrow> bool \<Rightarrow> nat \<Rightarrow> ('b machine, nat) state" where
  "step_loop bd vDisplay ss_wait = do {
     ss6502ClockStep bd;
     sync \<leftarrow> gpio_get bd p6502SYNC;
     when_do sync (show_bus bd vDisplay);
     delayNs bd 1000;
     if Suc ss_wait < 8 then do {
       sync' \<leftarrow> gpio_get bd p6502SYNC;
       if \<not> sync' then step_loop bd vDisplay (Suc ss_wait) else ret (Suc ss_wait)
     } else ret (Suc ss_wait)
   }"
  by pat_completeness auto
termination
  by (relation "measure (\<lambda>(bd, d, n). 8 - n)") auto

declare step_loop.simps [simp del]

definition singleStep6502 :: "'b board \<Rightarrow> bool \<Rightarrow> ('b machine, unit) state" where
  "singleStep6502 bd vDisplay = do {
     lState \<leftarrow> get6502State;
     set6502State bd sHALTED;
     set6502State bd sREAD;
     step_loop bd vDisplay 0;
     set6502State bd lState;
     ret ()
   }"

section \<open>Simulation\<close>

context neo_bus
begin

lemma sim_memory [sim_rules]:
  "sim view (read6502Data bd) (read6502Data (ref_board cpu))"
  "sim view (read6502Memory bd a) (read6502Memory (ref_board cpu) a)"
  "sim view (write6502Memory bd a v) (write6502Memory (ref_board cpu) a v)"
  unfolding read6502Memory_def read6502Data_def write6502Memory_def by (intro sim_rules)+

lemma sim_snoop [sim_rules]:
  "sim view (snoop_read6502MemoryLoc bd a) (snoop_read6502MemoryLoc (ref_board cpu) a)"
  "sim view (snoop_write6502MemoryLoc bd a v) (snoop_write6502MemoryLoc (ref_board cpu) a v)"
  "sim view (snoop_read6502Memory bd a n) (snoop_read6502Memory (ref_board cpu) a n)"
  "sim view (snoop_write6502Memory bd a vs) (snoop_write6502Memory (ref_board cpu) a vs)"
  unfolding snoop_read6502MemoryLoc_def snoop_write6502MemoryLoc_def
    snoop_read6502Memory_def snoop_write6502Memory_def
  by (intro sim_rules)+

end

section \<open>Single cycles on the reference board\<close>

definition rpi_owns :: "'b machine \<Rightarrow> bool" where
  "rpi_owns m \<longleftrightarrow> gSysState m \<in> {sSTARTUP, sBOOT, sRPI}"

lemma rpi_ownsD:
  assumes "machine_ok m" and "rpi_owns m"
  shows "gControlMode m = mRPI" and "gDir6502RW m = mOUTPUT" and "gClockState m = eOFF"
    and "lv (hw m) p6502RW"
  using assms by (auto simp: machine_ok_def in_row_def rpi_owns_def)

text \<open>The board after the address and the data of a cycle went over the bus.\<close>

definition latched :: "u16 \<Rightarrow> ref \<Rightarrow> ref" where
  "latched a h = h\<lparr>bus_out := False, bus_val := ucast a, areg_h := ucast (drop_bit 8 a),
     areg_l := ucast a\<rparr>"

lemma areg_latched [simp]: "areg (latched a h) = a"
  by (simp add: latched_def areg_def join_bytes del: push_bit_numeral)

lemma writeCPUAddress_ref:
  assumes "machine_ok m" and "gControlMode m = mRPI"
  shows "exec (writeCPUAddress (ref_board cpu) a) m =
     m\<lparr>hw := latched a (hw m), gBusDir := 1\<rparr>"
proof -
  have ok: "bus_ok m" using assms(1) by (simp add: machine_ok_def)
  define m1 where "m1 = m\<lparr>hw := (hw m)\<lparr>bus_out := False, bus_val := ucast (drop_bit 8 a),
      areg_h := ucast (drop_bit 8 a)\<rparr>, gBusDir := 1\<rparr>"
  have "dir_known (gBusDir m1) (hw m1)" and "idle (hw m1)"
    using bus_okD [OF ok] by (simp_all add: m1_def dir_known_def)
  moreover have "exec (writeCPUAddressH (ref_board cpu) (ucast (drop_bit 8 a))) m = m1"
    using bus_okD [OF ok] by (simp add: m1_def writeCPUAddressH_ref)
  ultimately show ?thesis
    using assms(2)
    by (simp add: writeCPUAddress_def getControlMode_def low_byte_of_word writeCPUAddressL_ref)
      (simp add: m1_def latched_def)
qed

lemma set6502RW_ref: "gDir6502RW m = mOUTPUT \<Longrightarrow>
   exec (set6502RW (ref_board cpu) d) m = m\<lparr>hw := drive p6502RW (rw_level d) (hw m)\<rparr>"
  by (simp add: set6502RW_def io_ref)

lemma read6502Memory_ref:
  assumes "machine_ok m" and "rpi_owns m"
  shows "exec (read6502Memory (ref_board cpu) a) m = m\<lparr>hw := latched a (hw m), gBusDir := 1\<rparr>"
    and "val_of (read6502Memory (ref_board cpu) a) m = cell (hw m) (ctx_reg (hw m)) a"
proof -
  note own = rpi_ownsD [OF assms]
  have ok: "bus_ok m" using assms(1) by (simp add: machine_ok_def)
  note lvs = idleD [OF bus_okD(1) [OF ok]]
  have rw: "exec (set6502RW (ref_board cpu) mREAD) m = m"
    using own lvs by (simp add: set6502RW_ref rw_level_def drive_def lv_restored Let_def)
  define m1 where "m1 = m\<lparr>hw := latched a (hw m), gBusDir := 1\<rparr>"
  have m1: "exec (writeCPUAddress (ref_board cpu) a) m = m1"
    unfolding m1_def by (rule writeCPUAddress_ref [OF assms(1) own(1)])
  have d1: "dir_known (gBusDir m1) (hw m1)" by (simp add: m1_def latched_def dir_known_def)
  have l1: "lv (hw m1) = lv (hw m)" "areg (hw m1) = a" "mmu_ram (hw m1) = mmu_ram (hw m)"
    "ram (hw m1) = ram (hw m)" "ctx_reg (hw m1) = ctx_reg (hw m)" "bus_out (hw m1) = False"
    unfolding m1_def by (simp, simp add: latched_def, simp, simp_all add: latched_def)
  have upd: "(hw m1)\<lparr>bus_out := False\<rparr> = hw m1"
    by (rule ref.equality) (simp_all add: l1)
  have g1: "m1\<lparr>gBusDir := 1\<rparr> = m1" by (simp add: m1_def)
  show "exec (read6502Memory (ref_board cpu) a) m = m\<lparr>hw := latched a (hw m), gBusDir := 1\<rparr>"
    using own lvs d1 l1 upd g1
    by (simp add: read6502Memory_def getControlMode_def rw m1 read6502Data_def ref_pin_defs
        neo_bus_ref rising_def Let_def lv_restored fun_upd_twist m1_def [symmetric])
  show "val_of (read6502Memory (ref_board cpu) a) m = cell (hw m) (ctx_reg (hw m)) a"
    using own lvs d1 l1
    by (simp add: read6502Memory_def getControlMode_def rw m1 read6502Data_def ref_pin_defs
        neo_bus_ref rising_def Let_def ref_bus_def addr_bus_def areg_def cell_def phys_page_def)
qed

definition written :: "u16 \<Rightarrow> u8 \<Rightarrow> ref \<Rightarrow> ref" where
  "written a v h = poke (ctx_reg h) a v ((latched a h)\<lparr>bus_out := True, bus_val := v\<rparr>)"

lemma write6502Memory_ref:
  assumes "machine_ok m" and "rpi_owns m"
  shows "exec (write6502Memory (ref_board cpu) a v) m =
     m\<lparr>hw := written a v (hw m), gBusDir := 0, gMMUIOTrigger := False\<rparr>"
proof -
  define m0 where "m0 = m\<lparr>gMMUIOTrigger := False\<rparr>"
  have ok0: "machine_ok m0" and own0: "rpi_owns m0"
    using assms by (simp_all add: m0_def rpi_owns_def)
  note own = rpi_ownsD [OF ok0 own0]
  have ok: "bus_ok m0" using ok0 by (simp add: machine_ok_def)
  note lvs = idleD [OF bus_okD(1) [OF ok]]
  define m1 where "m1 = m0\<lparr>hw := latched a (hw m0), gBusDir := 1\<rparr>"
  have m1: "exec (writeCPUAddress (ref_board cpu) a) m0 = m1"
    unfolding m1_def by (rule writeCPUAddress_ref [OF ok0 own(1)])
  have d1: "dir_known (gBusDir m1) (hw m1)" by (simp add: m1_def latched_def dir_known_def)
  have l1: "lv (hw m1) = lv (hw m)" "areg (hw m1) = a" "mmu_ram (hw m1) = mmu_ram (hw m)"
    "ram (hw m1) = ram (hw m)" "ctx_reg (hw m1) = ctx_reg (hw m)"
    "gDir6502RW m1 = mOUTPUT" "\<not> gMMUIOTrigger m1"
    unfolding m1_def using own by (simp add: latched_def m0_def, simp,
        simp_all add: latched_def m0_def)
  have g: "gControlMode m = mRPI" using own(1) by (simp add: m0_def)
  have lvm: "lv (hw m0) = lv (hw m)" by (simp add: m0_def)
  show ?thesis
    using own lvs d1 l1 g
    by (simp add: write6502Memory_def getControlMode_def interrupts_ref m0_def [symmetric] m1
        ref_pin_defs neo_bus_ref set6502RW_def rw_level_def rising_def Let_def poke_def
        lv_restored fun_upd_twist addr_bus_def areg_def on_bus_def phys_page_def lvm)
      (simp add: m1_def m0_def written_def poke_def latched_def phys_page_def)
qed

lemma machine_ok_written:
  assumes "machine_ok m"
  shows "machine_ok (m\<lparr>hw := written a v (hw m), gBusDir := 0, gMMUIOTrigger := False\<rparr>)"
proof -
  have "machine_ok (m\<lparr>hw := written a v (hw m), gBusDir := 0\<rparr>)"
    by (rule machine_ok_bus [OF assms])
      (simp_all add: written_def poke_def latched_def dir_known_def)
  then show ?thesis
    using machine_ok_trigger [of False "m\<lparr>hw := written a v (hw m), gBusDir := 0\<rparr>"] by simp
qed

lemma machine_ok_latched:
  assumes "machine_ok m"
  shows "machine_ok (m\<lparr>hw := latched a (hw m), gBusDir := 1\<rparr>)"
  by (rule machine_ok_bus [OF assms]) (simp_all add: latched_def dir_known_def)

end
