(* ===== verification/Memory_Port.thy ===== *)
theory Memory_Port
  imports Neobus_Memory
begin

text \<open>
  The 6502 memory as the rest of the firmware sees it through the \<open>snoop\<close> accesses: a map
  from addresses to bytes under the current MMU context, kept by every state change as far as
  the 65C02 itself does not write, and the locale \<open>served_bus\<close> in which the client components
  prove their lemmas.
\<close>

section \<open>Memory under the current context\<close>

definition mem :: "ref machine \<Rightarrow> u16 \<Rightarrow> u8" where
  "mem m a = cell (hw m) (ctx_reg (hw m)) a"

definition pages_inj :: "ref \<Rightarrow> u8 \<Rightarrow> bool" where
  "pages_inj h c \<longleftrightarrow> (\<forall>i j. unat i < 16 \<longrightarrow> unat j < 16 \<longrightarrow>
     mmu_ram h c i AND 0x7F = mmu_ram h c j AND 0x7F \<longrightarrow> i = j)"

definition port_ok :: "ref machine \<Rightarrow> bool" where
  "port_ok m \<longleftrightarrow> machine_ok m \<and> gCurrentContext m = uint (ctx_reg (hw m)) \<and>
     pages_inj (hw m) (ctx_reg (hw m)) \<and> gSysState m \<noteq> sSTARTUP \<and>
     (gSysState m = sRESET \<longrightarrow> gCurrentContext m = 0)"

text \<open>
  The protocol assumption on the processor: what it does between two accesses of the RP does
  not write the cells in \<open>R\<close>.
\<close>

definition cpu_leaves :: "cpu \<Rightarrow> u16 set \<Rightarrow> bool" where
  "cpu_leaves cpu R \<longleftrightarrow> (\<forall>h c a. a \<in> R \<longrightarrow> cell (cpu_acts cpu h) c a = cell h c a)"

lemma page_split: "page_index a = page_index b \<Longrightarrow> page_offset a = page_offset b \<Longrightarrow> a = b"
proof (rule bit_word_eqI)
  fix n assume i: "page_index a = page_index b" and p: "page_offset a = page_offset b"
    and n: "n < LENGTH(16)"
  have m: "(0x0FFF :: u16) = mask 12" by (simp add: mask_eq_exp_minus_1)
  show "bit a n = bit b n"
  proof (cases "n < 12")
    case True
    have "bit (page_offset a) n = bit (page_offset b) n" using p by simp
    with True n show ?thesis unfolding page_offset_def m by (simp add: bit_simps)
  next
    case False
    have "bit (page_index a) (n - 12) = bit (page_index b) (n - 12)" using i by simp
    moreover have "n - 12 < 8" using n by simp
    ultimately show ?thesis using False n unfolding page_index_def by (simp add: bit_simps)
  qed
qed

lemma page_index_bound: "unat (page_index a) < 16"
proof -
  have "unat (drop_bit 12 a) = unat a div 2 ^ 12" by (simp add: drop_bit_eq_div unat_div)
  also have "\<dots> < 16" using unsigned_less [of a, where 'a = nat] by (simp add: div_less_iff_less_mult)
  finally show ?thesis by (simp add: page_index_def unsigned_ucast_eq take_bit_nat_eq_self)
qed

lemma cell_poke_inj:
  assumes "pages_inj h c"
  shows "cell (poke c a v h) c b = (if a = b then v else cell h c b)"
proof -
  have "phys_page h c a = phys_page h c b \<and> page_offset a = page_offset b \<longleftrightarrow> a = b"
    using assms page_index_bound [of a] page_index_bound [of b] page_split [of a b]
    by (auto simp: pages_inj_def phys_page_def)
  then show ?thesis by (simp add: cell_poke)
qed

lemma cell_upd [simp]:
  "cell (h\<lparr>lv := l\<rparr>) = cell h"
  "cell (h\<lparr>bus_out := b\<rparr>) = cell h"
  "cell (h\<lparr>bus_val := v\<rparr>) = cell h"
  "cell (h\<lparr>areg_h := v\<rparr>) = cell h"
  "cell (h\<lparr>areg_l := v\<rparr>) = cell h"
  "cell (h\<lparr>ctx_reg := v\<rparr>) = cell h"
  by (simp_all add: cell_def phys_page_def fun_eq_iff)

lemma cell_latched [simp]: "cell (latched a h) = cell h"
  by (simp add: latched_def)

lemma pages_inj_cong: "mmu_ram h' = mmu_ram h \<Longrightarrow> pages_inj h' = pages_inj h"
  by (simp add: pages_inj_def fun_eq_iff)

section \<open>Stopping the clock keeps what the processor leaves alone\<close>

lemma advance_loop_invariant:
  assumes "\<And>m. I m \<Longrightarrow> I (exec (ss6502ClockStep bd) m)" and "I m"
  shows "I (exec (advance_loop bd n) m)"
  using assms(2)
proof (induction "8 - n" arbitrary: n m rule: less_induct)
  case less
  show ?case
  proof (cases "n < 8")
    case True
    then have "I (exec (advance_loop bd (Suc n)) (exec (ss6502ClockStep bd) m))"
      using assms(1) [OF less.prems] by (intro less) simp_all
    with less.prems show ?thesis by (subst advance_loop.simps) simp
  next
    case False
    with less.prems show ?thesis by (subst advance_loop.simps) simp
  qed
qed

lemma cell_drive_phi2 [simp]: "cell (drive p6502PHI2 b h) = cell h"
  by (simp add: drive_def rising_def Let_def)

lemma cell_halt_hw:
  assumes "cpu_leaves cpu R" and "a \<in> R"
  shows "cell (halt_hw cpu b m) c a = cell (hw m) c a"
proof -
  have acts: "cell (cpu_acts cpu h) c a = cell h c a" for h
    using assms by (simp add: cpu_leaves_def)
  let ?I = "\<lambda>n. cell (hw n) c a = cell (hw m) c a"
  have step: "?I (exec (ss6502ClockStep (ref_board cpu)) n)" if "?I n" for n
    using that by (simp add: ss6502ClockStep_def high_ref low_ref delayNs_def io_ref acts)
  show ?thesis
    unfolding halt_hw_def halt6502clock_def advance6502clock_def
    by (auto simp: io_ref high_ref delayNs_def acts intro!: advance_loop_invariant [where I = ?I] step)
qed

lemma set6502State_cell:
  assumes "cpu_leaves cpu R" and "a \<in> R" and "bus_ok m"
  shows "cell (hw (exec (set6502State (ref_board cpu) s) m)) c a = cell (hw m) c a"
proof -
  note lvs = idleD [OF bus_okD(1) [OF assms(3)]]
  have ctx: "cell (hw (exec (setMMUContext (ref_board cpu) d) n)) c a = cell (hw n) c a"
    if "bus_ok n" for d n
    using that by (simp add: setMMUContext_ref)
  show ?thesis
  proof (cases "s = sRESET")
    case True
    define m0 where "m0 = m\<lparr>gClockState := eON, hw := (hw m)\<lparr>lv := (lv (hw m))(p6502IRQ := True,
      pDebug := True, p6502RESET := False, p6502RDY := False, p6502BE := True)\<rparr>,
      gDir6502RW := mINPUT, gControlMode := mCPU\<rparr>"
    have ok0: "bus_ok m0"
      by (rule bus_ok_ctl [OF assms(3)]) (simp_all add: m0_def idle_pins_def)
    have "exec (enter6502State (ref_board cpu) sRESET) m = exec (setMMUContext (ref_board cpu) 0) m0"
      using lvs by (simp add: enter6502State_def state_step_refs m0_def DEFAULT_CONTEXT_def)
    with True ctx [OF ok0] show ?thesis by (simp add: set6502State_def m0_def)
  next
    case False
    then show ?thesis
      using lvs
      by (cases s) (auto simp: set6502State_def enter6502State_def state_step_refs
          cell_halt_hw [OF assms(1,2)])
  qed
qed

section \<open>Snoop accesses on the reference board\<close>

definition keeps_port :: "u16 set \<Rightarrow> ref machine \<Rightarrow> ref machine \<Rightarrow> bool" where
  "keeps_port R m m' \<longleftrightarrow> port_ok m' \<and> gSysState m' = gSysState m \<and>
     gCurrentContext m' = gCurrentContext m \<and> mmu_ram (hw m') = mmu_ram (hw m) \<and>
     gMMUIOCount m' = gMMUIOCount m \<and> gClockFrequency m' = gClockFrequency m"

lemma take_bus:
  assumes "cpu_leaves cpu R" and "port_ok m"
  defines "m' \<equiv> exec (set6502State (ref_board cpu) sRPI) m"
  shows "machine_ok m'" and "gSysState m' = sRPI" and "rpi_owns m'"
    and "ctx_reg (hw m') = ctx_reg (hw m)" and "gCurrentContext m' = gCurrentContext m"
    and "bus_kept m m'" and "a \<in> R \<Longrightarrow> cell (hw m') c a = cell (hw m) c a"
proof -
  have ok: "machine_ok m" using assms(2) by (simp add: port_ok_def)
  note s = set6502State_spec [OF ok, of cpu sRPI]
  show "machine_ok m'" "gSysState m' = sRPI" "bus_kept m m'"
    "gCurrentContext m' = gCurrentContext m"
    using s unfolding m'_def by (simp_all add: context_after_def)
  then show "rpi_owns m'" by (simp add: rpi_owns_def)
  show "ctx_reg (hw m') = ctx_reg (hw m)"
    using \<open>machine_ok m'\<close> \<open>gCurrentContext m' = gCurrentContext m\<close> assms(2)
    by (auto simp: machine_ok_def bus_ok_def port_ok_def)
  show "cell (hw m') c a = cell (hw m) c a" if "a \<in> R"
    using ok set6502State_cell [OF assms(1) that, of m sRPI c] by (simp add: m'_def machine_ok_def)
qed

lemma give_bus_back:
  assumes "cpu_leaves cpu R" and "port_ok m"
    and "machine_ok m1" and "gSysState m1 = sRPI" and "gCurrentContext m1 = gCurrentContext m"
    and "mmu_ram (hw m1) = mmu_ram (hw m)"
  defines "m' \<equiv> exec (set6502State (ref_board cpu) (gSysState m)) m1"
  shows "port_ok m'" and "gSysState m' = gSysState m" and "gCurrentContext m' = gCurrentContext m"
    and "bus_kept m1 m'" and "a \<in> R \<Longrightarrow> cell (hw m') c a = cell (hw m1) c a"
    and "ctx_reg (hw m') = ctx_reg (hw m)"
proof -
  note s = set6502State_spec [OF assms(3), of cpu "gSysState m"]
  have ctx: "gCurrentContext m' = gCurrentContext m"
    using s assms(2,4,5) unfolding m'_def by (auto simp: context_after_def port_ok_def)
  have reg: "ctx_reg (hw m') = ctx_reg (hw m)"
    using s(1) ctx assms(2) unfolding m'_def by (auto simp: machine_ok_def bus_ok_def port_ok_def)
  have mmu: "mmu_ram (hw m') = mmu_ram (hw m)"
    using s(4) assms(6) unfolding m'_def by (simp add: bus_kept_def)
  show "gCurrentContext m' = gCurrentContext m" "ctx_reg (hw m') = ctx_reg (hw m)" by fact+
  show "gSysState m' = gSysState m" "bus_kept m1 m'"
    using s assms(2) unfolding m'_def by (simp_all add: port_ok_def)
  moreover have "machine_ok m'" using s(1) by (simp add: m'_def)
  ultimately show "port_ok m'"
    using assms(2) ctx reg pages_inj_cong [OF mmu] by (auto simp: port_ok_def)
  show "cell (hw m') c a = cell (hw m1) c a" if "a \<in> R"
    using assms(3) set6502State_cell [OF assms(1) that, of m1] unfolding m'_def
    by (simp add: machine_ok_def)
qed

lemma snoop_read_ref:
  fixes a :: u16
  assumes "cpu_leaves cpu R" and "port_ok m"
  defines "m' \<equiv> exec (snoop_read6502MemoryLoc (ref_board cpu) a) m"
  shows "a \<in> R \<Longrightarrow> val_of (snoop_read6502MemoryLoc (ref_board cpu) a) m = mem m a"
    and "keeps_port R m m'" and "x \<in> R \<Longrightarrow> mem m' x = mem m x"
    and "gMMUIOTrigger m' = gMMUIOTrigger m"
proof -
  define m0 where "m0 = exec (set6502State (ref_board cpu) sRPI) m"
  note t = take_bus [OF assms(1,2), folded m0_def]
  define m1 where "m1 = m0\<lparr>hw := latched a (hw m0), gBusDir := 1\<rparr>"
  have r: "exec (read6502Memory (ref_board cpu) a) m0 = m1"
    unfolding m1_def by (rule read6502Memory_ref(1) [OF t(1,3)])
  have ok1: "machine_ok m1" unfolding m1_def by (rule machine_ok_latched [OF t(1)])
  have m1: "gSysState m1 = sRPI" "gCurrentContext m1 = gCurrentContext m"
    "mmu_ram (hw m1) = mmu_ram (hw m)"
    using t by (simp_all add: m1_def latched_def bus_kept_def)
  note g = give_bus_back [OF assms(1,2) ok1 m1]
  have m': "m' = exec (set6502State (ref_board cpu) (gSysState m)) m1"
    unfolding m'_def by (simp add: snoop_read6502MemoryLoc_def get6502State_def m0_def [symmetric] r)
  show "val_of (snoop_read6502MemoryLoc (ref_board cpu) a) m = mem m a" if "a \<in> R"
    using read6502Memory_ref(2) [OF t(1,3)] t(4) t(7) [OF that]
    by (simp add: snoop_read6502MemoryLoc_def get6502State_def m0_def [symmetric] mem_def)
  show "keeps_port R m m'" "gMMUIOTrigger m' = gMMUIOTrigger m"
    using g t(6) unfolding m' keeps_port_def bus_kept_def by (simp_all add: m1_def latched_def)
  show "mem m' x = mem m x" if "x \<in> R"
    using g(5,6) that t(7) [OF that] unfolding m' mem_def by (simp add: m1_def)
qed

lemma snoop_write_ref:
  fixes a :: u16 and v :: u8
  assumes "cpu_leaves cpu R" and "port_ok m"
  defines "m' \<equiv> exec (snoop_write6502MemoryLoc (ref_board cpu) a v) m"
  shows "keeps_port R m m'" and "x \<in> R \<Longrightarrow> mem m' x = (if x = a then v else mem m x)"
    and "\<not> gMMUIOTrigger m'"
proof -
  define m0 where "m0 = exec (set6502State (ref_board cpu) sRPI) m"
  note t = take_bus [OF assms(1,2), folded m0_def]
  define m1 where "m1 = m0\<lparr>hw := written a v (hw m0), gBusDir := 0, gMMUIOTrigger := False\<rparr>"
  have r: "exec (write6502Memory (ref_board cpu) a v) m0 = m1"
    unfolding m1_def by (rule write6502Memory_ref [OF t(1,3)])
  have ok1: "machine_ok m1" unfolding m1_def by (rule machine_ok_written [OF t(1)])
  have m1: "gSysState m1 = sRPI" "gCurrentContext m1 = gCurrentContext m"
    "mmu_ram (hw m1) = mmu_ram (hw m)"
    using t by (simp_all add: m1_def written_def poke_def latched_def bus_kept_def)
  note g = give_bus_back [OF assms(1,2) ok1 m1]
  have m': "m' = exec (set6502State (ref_board cpu) (gSysState m)) m1"
    unfolding m'_def
    by (simp add: snoop_write6502MemoryLoc_def get6502State_def m0_def [symmetric] r)
  show "keeps_port R m m'" "\<not> gMMUIOTrigger m'"
    using g t(6) unfolding m' keeps_port_def bus_kept_def
    by (simp_all add: m1_def written_def poke_def latched_def)
  have inj: "pages_inj ((latched a (hw m0))\<lparr>bus_out := True, bus_val := v\<rparr>) (ctx_reg (hw m))"
    using assms(2) t(6) by (simp add: port_ok_def pages_inj_def latched_def bus_kept_def)
  show "mem m' x = (if x = a then v else mem m x)" if "x \<in> R"
    using g(5,6) that t(4) t(7) [OF that] cell_poke_inj [OF inj, of a v x]
    unfolding m' mem_def by (simp add: m1_def written_def)
qed

section \<open>Block accesses\<close>

lemma rpi_owns_bus [simp]:
  "rpi_owns (m\<lparr>hw := h, gBusDir := d\<rparr>) = rpi_owns m"
  "rpi_owns (m\<lparr>hw := h, gBusDir := d, gMMUIOTrigger := b\<rparr>) = rpi_owns m"
  by (simp_all add: rpi_owns_def)

text \<open>\<open>bus_frame\<close>: what a run of single cycles keeps while the RP owns the bus.\<close>

definition bus_frame :: "ref machine \<Rightarrow> ref machine \<Rightarrow> bool" where
  "bus_frame m m' \<longleftrightarrow> machine_ok m' \<and> gSysState m' = gSysState m \<and>
     gCurrentContext m' = gCurrentContext m \<and> ctx_reg (hw m') = ctx_reg (hw m) \<and>
     mmu_ram (hw m') = mmu_ram (hw m) \<and> gMMUIOCount m' = gMMUIOCount m \<and>
     gClockFrequency m' = gClockFrequency m \<and> gBusState m' = gBusState m \<and>
     gCurrentIndex m' = gCurrentIndex m"

lemma read_block:
  assumes "machine_ok m" and "rpi_owns m"
  shows "val_of (map_each ks (\<lambda>k. read6502Memory (ref_board cpu) (f k))) m = map (\<lambda>k. mem m (f k)) ks"
    and "bus_frame m (exec (map_each ks (\<lambda>k. read6502Memory (ref_board cpu) (f k))) m)"
    and "cell (hw (exec (map_each ks (\<lambda>k. read6502Memory (ref_board cpu) (f k))) m)) = cell (hw m)"
    and "gMMUIOTrigger (exec (map_each ks (\<lambda>k. read6502Memory (ref_board cpu) (f k))) m) = gMMUIOTrigger m"
  using assms
proof (induction ks arbitrary: m)
  case Nil
  {
    case 1 then show ?case by simp
  next
    case 2 then show ?case by (simp add: bus_frame_def)
  next
    case 3 then show ?case by simp
  next
    case 4 then show ?case by simp
  }
next
  case (Cons k ks)
  have step: "machine_ok (m\<lparr>hw := latched (f k) (hw m), gBusDir := 1\<rparr>)"
    "rpi_owns (m\<lparr>hw := latched (f k) (hw m), gBusDir := 1\<rparr>)"
    if "machine_ok m" "rpi_owns m" for m
    using that machine_ok_latched by simp_all
  have frame: "ctx_reg (latched (f k) h) = ctx_reg h" "mmu_ram (latched (f k) h) = mmu_ram h" for h
    by (simp_all add: latched_def)
  {
    case 1
    then show ?case
      using Cons.IH(1) [OF step [OF 1]] read6502Memory_ref [OF 1, of cpu "f k"]
      by (simp add: mem_def frame)
  next
    case 2
    then show ?case
      using Cons.IH(2) [OF step [OF 2]] read6502Memory_ref [OF 2, of cpu "f k"]
      by (simp add: bus_frame_def frame)
  next
    case 3
    then show ?case
      using Cons.IH(3) [OF step [OF 3]] read6502Memory_ref [OF 3, of cpu "f k"] by simp
  next
    case 4
    then show ?case
      using Cons.IH(4) [OF step [OF 4]] read6502Memory_ref [OF 4, of cpu "f k"] by simp
  }
qed

text \<open>Storing \<open>n\<close> bytes from an address on, one after the other; the address wraps.\<close>

primrec store_bytes :: "u16 \<Rightarrow> u8 list \<Rightarrow> (u16 \<Rightarrow> u8) \<Rightarrow> u16 \<Rightarrow> u8" where
  "store_bytes a [] M = M"
| "store_bytes a (v # vs) M = store_bytes (a + 1) vs (M(a := v))"

lemma upt_nth_shift: "for_each [0..<length (v # vs)] (\<lambda>m. g (a + of_nat m) ((v # vs) ! m)) =
   do { g a v; for_each [0..<length vs] (\<lambda>m. g (a + 1 + of_nat m) (vs ! m)) }" for a :: u16
proof -
  have "for_each (map Suc js) (\<lambda>m. g (a + of_nat m) ((v # vs) ! m)) =
      for_each js (\<lambda>m. g (a + 1 + of_nat m) (vs ! m))" for js
    by (induction js) (simp_all add: add.assoc)
  moreover have "[0..<length (v # vs)] = 0 # map Suc [0..<length vs]"
    by (simp add: upt_conv_Cons map_Suc_upt del: upt_Suc)
  ultimately show ?thesis by simp
qed

lemma write_block:
  fixes cpu :: cpu
  assumes "machine_ok m" and "rpi_owns m" and "pages_inj (hw m) (ctx_reg (hw m))"
  defines "p \<equiv> \<lambda>a vs. for_each [0..<length vs]
       (\<lambda>i. write6502Memory (ref_board cpu) (a + of_nat i) (vs ! i))"
  shows "bus_frame m (exec (p a vs) m)" and "mem (exec (p a vs) m) = store_bytes a vs (mem m)"
    and "vs \<noteq> [] \<Longrightarrow> \<not> gMMUIOTrigger (exec (p a vs) m)"
    and "vs = [] \<Longrightarrow> exec (p a vs) m = m"
proof -
  have "bus_frame m (exec (p a vs) m) \<and> mem (exec (p a vs) m) = store_bytes a vs (mem m) \<and>
      (vs \<noteq> [] \<longrightarrow> \<not> gMMUIOTrigger (exec (p a vs) m))"
    using assms(1-3)
  proof (induction vs arbitrary: a m)
    case Nil
    then show ?case by (simp add: p_def bus_frame_def)
  next
    case (Cons v vs)
    define m1 where "m1 = m\<lparr>hw := written a v (hw m), gBusDir := 0, gMMUIOTrigger := False\<rparr>"
    have p1: "exec (p a (v # vs)) m = exec (p (a + 1) vs) m1"
      unfolding p_def upt_nth_shift m1_def
      by (simp add: write6502Memory_ref [OF Cons.prems(1,2)])
    have fr: "ctx_reg (hw m1) = ctx_reg (hw m)" "mmu_ram (hw m1) = mmu_ram (hw m)"
      by (simp_all add: m1_def written_def poke_def latched_def)
    have ok1: "machine_ok m1" "rpi_owns m1" "pages_inj (hw m1) (ctx_reg (hw m1))"
      using Cons.prems machine_ok_written pages_inj_cong [OF fr(2)] fr
      by (simp_all add: m1_def)
    have inj: "pages_inj ((latched a (hw m))\<lparr>bus_out := True, bus_val := v\<rparr>) (ctx_reg (hw m))"
      using Cons.prems(3) by (simp add: pages_inj_def latched_def)
    have M1: "mem m1 = (mem m)(a := v)"
      unfolding mem_def fr(1)
      by (rule ext) (use cell_poke_inj [OF inj, of a v] in \<open>simp add: m1_def written_def\<close>)
    have f1: "bus_frame m m1"
      using ok1(1) fr by (simp add: bus_frame_def m1_def)
    have last: "\<not> gMMUIOTrigger (exec (p (a + 1) []) m1)"
      by (simp add: p_def m1_def)
    note IH = Cons.IH [OF ok1, of "a + 1"]
    have "bus_frame m (exec (p a (v # vs)) m)"
      using IH f1 unfolding p1 by (simp add: bus_frame_def)
    moreover have "mem (exec (p a (v # vs)) m) = store_bytes a (v # vs) (mem m)"
      using IH by (simp only: p1 M1 store_bytes.simps)
    moreover have "\<not> gMMUIOTrigger (exec (p a (v # vs)) m)"
      using IH last unfolding p1 by (cases "vs = []") blast+
    ultimately show ?case by blast
  qed
  then show "bus_frame m (exec (p a vs) m)" "mem (exec (p a vs) m) = store_bytes a vs (mem m)"
    "vs \<noteq> [] \<Longrightarrow> \<not> gMMUIOTrigger (exec (p a vs) m)" by blast+
  show "exec (p a vs) m = m" if "vs = []" using that by (simp add: p_def)
qed

lemma store_bytes_other: "(\<And>k. k < length vs \<Longrightarrow> x \<noteq> a + of_nat k) \<Longrightarrow> store_bytes a vs M x = M x"
proof (induction vs arbitrary: a M)
  case Nil then show ?case by simp
next
  case (Cons v vs)
  have "x \<noteq> a" using Cons.prems [of 0] by simp
  moreover have "x \<noteq> a + 1 + of_nat k" if "k < length vs" for k
    using Cons.prems [of "Suc k"] that by (simp add: add.assoc)
  ultimately show ?case using Cons.IH [of "a + 1"] by simp
qed

lemma store_bytes_cong:
  "M x = N x \<Longrightarrow> store_bytes a vs M x = store_bytes a vs N x"
proof (induction vs arbitrary: a M N)
  case Nil then show ?case by simp
next
  case (Cons v vs)
  have "(M(a := v)) x = (N(a := v)) x" using Cons.prems by simp
  then show ?case unfolding store_bytes.simps by (rule Cons.IH)
qed

lemma u16_shift_neq:
  assumes pos: "0 < n" and bound: "n < 65536" shows "a + of_nat n \<noteq> (a :: u16)"
proof (rule notI)
  assume same: "a + of_nat n = a"
  from same have z: "(of_nat n :: u16) = 0" by (simp only: add_cancel_left_right)
  from z have d: "2 ^ LENGTH(16) dvd n" by (simp only: word_of_nat_eq_0_iff)
  from d have "2 ^ LENGTH(16) \<le> n" using pos by (rule dvd_imp_le)
  with bound show False by simp
qed

lemma store_bytes_head:
  assumes "length vs < 65536"
  shows "store_bytes a (v # vs) M a = v"
proof -
  have "a \<noteq> a + 1 + of_nat k" if "k < length vs" for k
  proof -
    have "a + of_nat (Suc k) \<noteq> a" using that assms by (intro u16_shift_neq) linarith+
    then show ?thesis by (metis add.assoc of_nat_Suc)
  qed
  then have "store_bytes (a + 1) vs (M(a := v)) a = (M(a := v)) a"
    by (rule store_bytes_other)
  then show ?thesis by simp
qed

lemma store_bytes_at:
  assumes "k < length vs" and "length vs \<le> 65536"
  shows "store_bytes a vs M (a + of_nat k) = vs ! k"
  using assms
proof (induction vs arbitrary: a M k)
  case Nil then show ?case by simp
next
  case (Cons v vs)
  show ?case
  proof (cases k)
    case 0
    then show ?thesis using store_bytes_head [of vs a v M] Cons.prems by (simp del: store_bytes.simps)
  next
    case (Suc j)
    have "a + of_nat k = a + 1 + of_nat j" unfolding Suc of_nat_Suc by (rule add.assoc [symmetric])
    with Cons.IH [of j "a + 1"] Cons.prems Suc show ?thesis by (simp only: store_bytes.simps nth_Cons_Suc list.size)
  qed
qed

lemma snoop_read_block_ref:
  fixes a n :: u16
  assumes "cpu_leaves cpu R" and "port_ok m"
  defines "m' \<equiv> exec (snoop_read6502Memory (ref_board cpu) a n) m"
  shows "(\<And>k. k < unat n \<Longrightarrow> a + of_nat k \<in> R) \<Longrightarrow>
      val_of (snoop_read6502Memory (ref_board cpu) a n) m = map (\<lambda>k. mem m (a + of_nat k)) [0..<unat n]"
    and "keeps_port R m m'" and "x \<in> R \<Longrightarrow> mem m' x = mem m x"
    and "gMMUIOTrigger m' = gMMUIOTrigger m"
proof -
  define m0 where "m0 = exec (set6502State (ref_board cpu) sRPI) m"
  note t = take_bus [OF assms(1,2), folded m0_def]
  let ?p = "map_each [0..<unat n] (\<lambda>k. read6502Memory (ref_board cpu) (a + of_nat k))"
  note rb = read_block [OF t(1,3), where cpu = cpu and f = "\<lambda>k. a + of_nat k" and ks = "[0..<unat n]"]
  define m1 where "m1 = exec ?p m0"
  have m1: "machine_ok m1" "gSysState m1 = sRPI" "gCurrentContext m1 = gCurrentContext m"
    "mmu_ram (hw m1) = mmu_ram (hw m)"
    using rb(2) t by (simp_all add: m1_def bus_frame_def bus_kept_def)
  note g = give_bus_back [OF assms(1,2) m1]
  have m': "m' = exec (set6502State (ref_board cpu) (gSysState m)) m1"
    unfolding m'_def
    by (simp add: snoop_read6502Memory_def get6502State_def m0_def [symmetric] m1_def)
  show "val_of (snoop_read6502Memory (ref_board cpu) a n) m =
      map (\<lambda>k. mem m (a + of_nat k)) [0..<unat n]"
    if "\<And>k. k < unat n \<Longrightarrow> a + of_nat k \<in> R"
  proof -
    have "map (\<lambda>k. mem m0 (a + of_nat k)) [0..<unat n] = map (\<lambda>k. mem m (a + of_nat k)) [0..<unat n]"
      using t(4) t(7) that by (simp add: mem_def)
    then show ?thesis
      using rb(1) by (simp add: snoop_read6502Memory_def get6502State_def m0_def [symmetric])
  qed
  show "keeps_port R m m'" "gMMUIOTrigger m' = gMMUIOTrigger m"
    using g t(6) rb(2,4) unfolding m' keeps_port_def bus_kept_def
    by (simp_all add: m1_def bus_frame_def)
  show "mem m' x = mem m x" if "x \<in> R"
    using g(5,6) that t(7) [OF that] rb(3) unfolding m' mem_def by (simp add: m1_def)
qed

lemma snoop_write_block_ref:
  fixes a :: u16 and vs :: "u8 list"
  assumes "cpu_leaves cpu R" and "port_ok m"
  defines "m' \<equiv> exec (snoop_write6502Memory (ref_board cpu) a vs) m"
  shows "keeps_port R m m'" and "x \<in> R \<Longrightarrow> mem m' x = store_bytes a vs (mem m) x"
proof -
  define m0 where "m0 = exec (set6502State (ref_board cpu) sRPI) m"
  note t = take_bus [OF assms(1,2), folded m0_def]
  let ?p = "for_each [0..<length vs] (\<lambda>i. write6502Memory (ref_board cpu) (a + of_nat i) (vs ! i))"
  have inj: "pages_inj (hw m0) (ctx_reg (hw m0))"
    using assms(2) t(4,6) by (simp add: port_ok_def pages_inj_def bus_kept_def)
  note wb = write_block [OF t(1,3) inj, where cpu = cpu and a = a and vs = vs]
  define m1 where "m1 = exec ?p m0"
  have m1: "machine_ok m1" "gSysState m1 = sRPI" "gCurrentContext m1 = gCurrentContext m"
    "mmu_ram (hw m1) = mmu_ram (hw m)"
    using wb(1) t by (simp_all add: m1_def bus_frame_def bus_kept_def)
  note g = give_bus_back [OF assms(1,2) m1]
  have m': "m' = exec (set6502State (ref_board cpu) (gSysState m)) m1"
    unfolding m'_def
    by (simp add: snoop_write6502Memory_def get6502State_def m0_def [symmetric] m1_def)
  show "keeps_port R m m'"
    using g t(6) wb(1) unfolding m' keeps_port_def bus_kept_def by (simp add: m1_def bus_frame_def)
  show "mem m' x = store_bytes a vs (mem m) x" if "x \<in> R"
  proof -
    have "mem m' x = mem m1 x"
      using g(5,6) that wb(1) t(4) unfolding m' mem_def by (simp add: m1_def bus_frame_def)
    also have "\<dots> = store_bytes a vs (mem m0) x" using wb(2) by (simp add: m1_def)
    also have "mem m0 x = mem m x" using t(4) t(7) [OF that] by (simp add: mem_def)
    then have "store_bytes a vs (mem m0) x = store_bytes a vs (mem m) x" by (rule store_bytes_cong)
    finally show ?thesis .
  qed
qed

section \<open>The served bus\<close>

text \<open>
  What the client components rely on: a board of the reference behaviour with a processor that
  leaves the cells in \<open>R\<close> alone while it is served.
\<close>

locale served_bus = neo_bus bd view cpu for bd :: "'b board" and view and cpu +
  fixes R :: "u16 set"
  assumes leaves: "cpu_leaves cpu R"
begin

lemma snoop_read:
  assumes "port_ok (absm view m)"
  shows "a \<in> R \<Longrightarrow> val_of (snoop_read6502MemoryLoc bd a) m = mem (absm view m) a"
    and "keeps_port R (absm view m) (absm view (exec (snoop_read6502MemoryLoc bd a) m))"
    and "x \<in> R \<Longrightarrow> mem (absm view (exec (snoop_read6502MemoryLoc bd a) m)) x = mem (absm view m) x"
    and "gMMUIOTrigger (exec (snoop_read6502MemoryLoc bd a) m) = gMMUIOTrigger m"
  using snoop_read_ref [OF leaves assms, where a = a] simD [OF sim_snoop(1) [of a], of m]
  by (metis absm_simps(7))+

lemma snoop_write:
  assumes "port_ok (absm view m)"
  shows "keeps_port R (absm view m) (absm view (exec (snoop_write6502MemoryLoc bd a v) m))"
    and "x \<in> R \<Longrightarrow> mem (absm view (exec (snoop_write6502MemoryLoc bd a v) m)) x =
      (if x = a then v else mem (absm view m) x)"
    and "\<not> gMMUIOTrigger (exec (snoop_write6502MemoryLoc bd a v) m)"
  using snoop_write_ref [OF leaves assms, where a = a and v = v] simD [OF sim_snoop(2) [of a v], of m]
  by (metis absm_simps(7))+

lemma snoop_read_block:
  assumes "port_ok (absm view m)"
  shows "(\<And>k. k < unat n \<Longrightarrow> a + of_nat k \<in> R) \<Longrightarrow>
      val_of (snoop_read6502Memory bd a n) m =
        map (\<lambda>k. mem (absm view m) (a + of_nat k)) [0..<unat n]"
    and "keeps_port R (absm view m) (absm view (exec (snoop_read6502Memory bd a n) m))"
    and "x \<in> R \<Longrightarrow> mem (absm view (exec (snoop_read6502Memory bd a n) m)) x = mem (absm view m) x"
    and "gMMUIOTrigger (exec (snoop_read6502Memory bd a n) m) = gMMUIOTrigger m"
proof -
  note r = snoop_read_block_ref [OF leaves assms, where a = a and n = n]
  note s = simD [OF sim_snoop(3) [of a n], of m]
  show "val_of (snoop_read6502Memory bd a n) m =
      map (\<lambda>k. mem (absm view m) (a + of_nat k)) [0..<unat n]"
    if "\<And>k. k < unat n \<Longrightarrow> a + of_nat k \<in> R"
    using r(1) [OF that] s(2) by simp
  show "keeps_port R (absm view m) (absm view (exec (snoop_read6502Memory bd a n) m))"
    using r(2) s(1) by simp
  show "mem (absm view (exec (snoop_read6502Memory bd a n) m)) x = mem (absm view m) x" if "x \<in> R"
    using r(3) [OF that] s(1) by simp
  show "gMMUIOTrigger (exec (snoop_read6502Memory bd a n) m) = gMMUIOTrigger m"
    using r(4) s(1) by (metis absm_simps(7))
qed

lemma snoop_write_block:
  assumes "port_ok (absm view m)"
  shows "keeps_port R (absm view m) (absm view (exec (snoop_write6502Memory bd a vs) m))"
    and "x \<in> R \<Longrightarrow> mem (absm view (exec (snoop_write6502Memory bd a vs) m)) x =
      store_bytes a vs (mem (absm view m)) x"
  using snoop_write_block_ref [OF leaves assms, where a = a and vs = vs]
    simD [OF sim_snoop(4) [of a vs], of m]
  by simp_all

end

text \<open>
  Every processor gives one that leaves \<open>R\<close> alone: let its writes into the cells that some
  context maps an address of \<open>R\<close> to have no effect.
\<close>

definition guard :: "u16 set \<Rightarrow> cpu \<Rightarrow> cpu" where
  "guard R cpu h = (cpu h)\<lparr>ram := (\<lambda>p off.
     if \<exists>a\<in>R. \<exists>c. phys_page h c a = p \<and> page_offset a = off then ram h p off
     else ram (cpu h) p off)\<rparr>"

lemma cpu_leaves_guard: "cpu_leaves (guard R cpu) R"
  by (auto simp: cpu_leaves_def cpu_acts_def guard_def cell_def phys_page_def)

interpretation guarded: served_bus "ref_board (guard R cpu)" id "guard R cpu" R for R cpu
  by unfold_locales (rule cpu_leaves_guard)

text \<open>A processor that writes nothing at all leaves every cell alone.\<close>

lemma cpu_leaves_id: "cpu_leaves id R"
  by (simp add: cpu_leaves_def cpu_acts_def cell_def phys_page_def)

lemma keeps_portD:
  assumes "keeps_port R m m'"
  shows "port_ok m'" and "gSysState m' = gSysState m" and "gCurrentContext m' = gCurrentContext m"
    and "mmu_ram (hw m') = mmu_ram (hw m)"
  using assms by (simp_all add: keeps_port_def)

lemma keeps_port_trans: "keeps_port R m m' \<Longrightarrow> keeps_port R m' m'' \<Longrightarrow> keeps_port R m m''"
  by (simp add: keeps_port_def)

lemma keeps_port_refl: "port_ok m \<Longrightarrow> keeps_port R m m"
  by (simp add: keeps_port_def)

end
