(* ===== verification/Bring_Up.thy ===== *)
theory Bring_Up
  imports Memory_Port
begin

text \<open>
  The first part of \<open>setup()\<close>: pins, boot state, MMU table; and the properties of the
  bus-level components (pins, system states, MMU, memory accesses), each on any board that
  meets the contract \<open>neo_bus\<close>.
\<close>

section \<open>From reset to a served bus\<close>

definition bring_up :: "'b board \<Rightarrow> ('b machine, bool) state" where
  "bring_up bd = do {
     setup_pins bd;
     init6502 bd;
     initMMU bd
   }"

context neo_bus
begin

lemma sim_bring_up [sim_rules]: "sim view (bring_up bd) (bring_up (ref_board cpu))"
  unfolding bring_up_def init6502_def by (intro sim_rules)

end

text \<open>Some state of the board when the power comes on.\<close>

definition cold_board :: ref where
  "cold_board = \<lparr>lv = (\<lambda>p. False), bus_out = False, bus_val = 0, areg_h = 0x5A, areg_l = 0xA5,
     ctx_reg = 0x33, mmu_ram = (\<lambda>c i. 0xFF), ram = (\<lambda>p off. 0xEA), cpu_addr = 0xFFFC,
     cpu_data = 0, cpu_regs = 0, in_pin = (\<lambda>p. True), clock_ms = 0\<rparr>"

definition powered_up :: "cpu \<Rightarrow> ref machine" where
  "powered_up cpu = exec (bring_up (ref_board cpu)) (initial_machine cold_board)"

lemma default_map_page:
  "k < 16 \<Longrightarrow> gDefaultMMU ! k AND 0x7F = of_nat k"
proof -
  have "\<forall>k\<in>set [0..<16]. gDefaultMMU ! k AND 0x7F = of_nat k"
    unfolding gDefaultMMU_def by code_simp
  then show "k < 16 \<Longrightarrow> gDefaultMMU ! k AND 0x7F = of_nat k" by simp
qed

lemma default_pages_inj:
  assumes "\<And>i. unat i < 16 \<Longrightarrow> mmu_ram h c i = gDefaultMMU ! unat i"
  shows "pages_inj h c"
  using assms default_map_page by (auto simp: pages_inj_def)

lemma bring_up_ref:
  fixes cpu :: cpu and h :: ref
  defines "m' \<equiv> exec (bring_up (ref_board cpu)) (initial_machine h)"
  shows "val_of (bring_up (ref_board cpu)) (initial_machine h)"
    and "port_ok m'" and "index_ok m'" and "gSysState m' = sBOOT" and "\<not> gMMUIOTrigger m'"
    and "gCurrentContext m' = 0"
    and "unat c < 128 \<Longrightarrow> unat i < 16 \<Longrightarrow> mmu_ram (hw m') c i = gDefaultMMU ! unat i"
proof -
  define m1 where "m1 = exec (setup_pins (ref_board cpu)) (initial_machine h)"
  note p = setup_pins_ref [of cpu h, folded m1_def]
  define m2 where "m2 = exec (set6502State (ref_board cpu) sBOOT) m1"
  note s = set6502State_spec [OF p(1), of cpu sBOOT, folded m2_def]
  have ok2: "bus_ok m2" "index_ok m2"
    using s p(3) by (simp_all add: machine_ok_def bus_kept_def index_ok_def latched_index_def)
  have m': "m' = exec (initMMU (ref_board cpu)) m2"
    by (simp add: m'_def bring_up_def init6502_def m1_def m2_def)
  note t = initMMU_ref [OF ok2, where cpu = cpu, folded m']
  show "val_of (bring_up (ref_board cpu)) (initial_machine h)"
    using t(1) by (simp add: bring_up_def init6502_def m1_def m2_def)
  show "index_ok m'" "\<not> gMMUIOTrigger m'" "gCurrentContext m' = 0" by (rule t)+
  show tab: "mmu_ram (hw m') c i = gDefaultMMU ! unat i" if "unat c < 128" "unat i < 16" for c i
    using t(7) that .
  have f: "in_row m' = in_row m2 \<and> gSysState m' = gSysState m2"
    using t(8,9) in_row_cong [of m' m2] by (simp add: frame_of_def)
  then show "gSysState m' = sBOOT" using s(3) by simp
  have "ctx_reg (hw m') = 0"
    using bus_okD(3) [OF t(2)] t(4) by (simp add: word_uint_eq_iff [where 'a = 8])
  moreover from this have "pages_inj (hw m') (ctx_reg (hw m'))"
    by (intro default_pages_inj tab) simp_all
  ultimately show "port_ok m'"
    using s(1,3) f t(2,4) by (simp add: port_ok_def machine_ok_def)
qed

lemma powered_up_ok:
  "port_ok (powered_up cpu)" "machine_ok (powered_up cpu)" "bus_ok (powered_up cpu)"
  "index_ok (powered_up cpu)" "gSysState (powered_up cpu) = sBOOT"
  using bring_up_ref [where cpu = cpu and h = cold_board]
  by (simp_all add: powered_up_def port_ok_def machine_ok_def)

lemma powered_up_table:
  "unat c < 128 \<Longrightarrow> unat i < 16 \<Longrightarrow> mmu_ram (hw (powered_up cpu)) c i = gDefaultMMU ! unat i"
  using bring_up_ref(7) [where cpu = cpu and h = cold_board] by (simp add: powered_up_def)

lemma ref_contract: "neo_bus (ref_board cpu) id cpu"
  by (rule ref_sim.neo_bus_axioms)

section \<open>Properties\<close>

text \<open>
  C1: From whatever state the board powers up in, the first part of \<open>setup()\<close> succeeds: the 6502 is
  held in the boot state, all pins are in the order of the table in \<open>p6502.h\<close>, the bus is
  idle, no I/O trigger is pending, and every one of the 128 contexts maps its sixteen pages as
  \<open>gDefaultMMU\<close> says.
\<close>

theorem bring_up_ready:
  assumes "neo_bus bd view cpu"
  shows "let m' = exec (bring_up bd) (initial_machine h) in
    val_of (bring_up bd) (initial_machine h) \<and> port_ok (absm view m') \<and>
    gSysState m' = sBOOT \<and> \<not> gMMUIOTrigger m' \<and> gCurrentContext m' = 0 \<and>
    (\<forall>c i. unat c < NUM_CONTEXTS \<longrightarrow> unat i < NUM_CONTEXT_PAGES \<longrightarrow>
      mmu_ram (view (hw m')) c i = gDefaultMMU ! unat i)"
proof -
  note s = simD [OF neo_bus.sim_bring_up [OF assms], of "initial_machine h"]
  have i: "absm view (initial_machine h) = initial_machine (view h)"
    by (simp add: absm_def initial_machine_def)
  show ?thesis
    using bring_up_ref [where cpu = cpu and h = "view h"]
    by (simp add: s [unfolded i, symmetric] NUM_CONTEXTS_def NUM_CONTEXT_PAGES_def Let_def)
qed

theorem bring_up_ready_witness:
  "val_of (bring_up (ref_board id)) (initial_machine cold_board) \<and>
   mmu_ram (hw (powered_up id)) 127 14 = 0x8E"
  using bring_up_ready [OF ref_contract, of id cold_board]
  by (simp add: Let_def powered_up_def NUM_CONTEXTS_def NUM_CONTEXT_PAGES_def gDefaultMMU_def)



end
