(* ===== verification/Bus_Properties.thy ===== *)
theory Bus_Properties
  imports Bring_Up
begin

text \<open>
  The properties of the bus-level components: MMU table entries, 6502 memory through the
  \<open>snoop\<close> accesses, the clock, single steps and the pins.
\<close>

section \<open>Helper lemmas\<close>

lemma latched_index_latched: "latched_index (latched a h) = page_index a"
  unfolding latched_index_def latched_def page_index_def
  by (rule bit_word_eqI) (auto simp: bit_simps dest: bit_imp_le_length)

lemma of_page_index: "page_index a AND 0x0F = page_index a"
proof -
  have "unat (page_index a AND 0x0F) = unat (page_index a)"
    using page_index_bound [of a]
    unfolding mask_4 by (simp add: take_bit_eq_mask [symmetric] unsigned_take_bit_eq take_bit_nat_eq_self)
  then show ?thesis by (simp add: word_unat_eq_iff)
qed

lemma writeMMUPage_cached_index:
  fixes c i v :: u8 and cpu :: cpu
  assumes "bus_ok m" and "gCurrentIndex m = uint i"
  shows "mmu_ram (hw (exec (writeMMUPage (ref_board cpu) c i v) m)) =
    (mmu_ram (hw m))(c := (mmu_ram (hw m) c)(latched_index (hw m) := v))"
proof -
  note s = setMMUContext_spec [OF assms(1), of cpu c]
  have "exec (writeMMUIndex (ref_board cpu) i) (exec (setMMUContext (ref_board cpu) c) m) =
      exec (setMMUContext (ref_board cpu) c) m"
    using writeMMUIndex_ref [OF s(1), of cpu i] s(9) assms(2) by simp
  then show ?thesis
    using writeMMUPage_ref(2) [OF assms(1), of cpu c i v] s(6,8)
    by (simp add: latched_index_def set_entry_def)
qed

lemma intrMMUIO_ref:
  "exec (intrMMUIO (ref_board cpu)) m = m\<lparr>gMMUIOCount := gMMUIOCount m + 1, gMMUIOTrigger := True\<rparr>"
  by (simp add: intrMMUIO_def io_ref)

lemma port_ok_interrupt: "port_ok m \<Longrightarrow> port_ok (m\<lparr>gMMUIOCount := n, gMMUIOTrigger := b\<rparr>)"
  using in_row_cong [of "m\<lparr>gMMUIOCount := n, gMMUIOTrigger := b\<rparr>" m]
  by (auto simp: port_ok_def machine_ok_def bus_ok_def)

lemma set6502State_sysstate:
  "gSysState (exec (set6502State bd s) m) = (if s = sSTARTUP then gSysState m else s)"
  by (simp add: set6502State_def)

lemma sysstate_bus [simp]:
  "gSysState (exec (io bd e) m) = gSysState m"
  "gSysState (exec (high bd p) m) = gSysState m"
  "gSysState (exec (low bd p) m) = gSysState m"
  "gSysState (exec (delayNs bd n) m) = gSysState m"
  "gSysState (exec (readNEOBus bd) m) = gSysState m"
  by (simp_all add: pin_defs readNEOBus_def setNEOBusDir_def split: rw.splits)

lemma sysstate_show_bus [simp]: "gSysState (exec (show_bus bd d) m) = gSysState m"
  by (simp add: show_bus_def readCPUBusAddress_def read6502Data_def Let_def)

lemma readMMUPage_machine_ok:
  assumes "machine_ok m" and "index_ok m"
  shows "machine_ok (exec (readMMUPage (ref_board cpu) c i) m)"
    and "gCurrentIndex (exec (readMMUPage (ref_board cpu) c i) m) = uint i"
proof -
  have ok: "bus_ok m" using assms(1) by (simp add: machine_ok_def)
  note r = readMMUPage_spec [OF ok assms(2), of cpu c i]
  show "machine_ok (exec (readMMUPage (ref_board cpu) c i) m)"
    using assms(1) r(2,5,6) in_row_cong [of "exec (readMMUPage (ref_board cpu) c i) m" m]
    by (simp add: machine_ok_def frame_of_def env_of_def)
  show "gCurrentIndex (exec (readMMUPage (ref_board cpu) c i) m) = uint i"
    using setMMUContext_spec(1) [OF ok, of cpu c]
    unfolding readMMUPage_ref(2) [OF ok] by (simp add: writeMMUIndex_ref)
qed

lemma quiet_bus: "served_bus (ref_board id) id id R"
  by (intro served_bus.intro served_bus_axioms.intro ref_contract cpu_leaves_id)

section \<open>Memory management\<close>



text \<open>
  The cache of the latched index is not told when a memory access latches another address. If
  the entry with the cached index is accessed after a memory access at \<open>a\<close>, the read returns
  and the write changes the entry for the page of \<open>a\<close>.
\<close>

theorem index_cache_stale:
  assumes "neo_bus bd view cpu" and "machine_ok (absm view m)" and "rpi_owns m"
    and "gCurrentIndex m = uint i"
  shows "val_of (do {read6502Memory bd a; readMMUPage bd c i}) m =
      mmu_ram (view (hw m)) c (page_index a) \<and>
    mmu_ram (view (hw (exec (do {read6502Memory bd a; writeMMUPage bd c i v}) m))) =
      (mmu_ram (view (hw m)))(c := (mmu_ram (view (hw m)) c)(page_index a := v))"
proof -
  let ?m = "absm view m"
  have own: "rpi_owns ?m" using assms(3) by (simp add: rpi_owns_def)
  define m1 where "m1 = ?m\<lparr>hw := latched a (hw ?m), gBusDir := 1\<rparr>"
  have r: "exec (read6502Memory (ref_board cpu) a) ?m = m1"
    unfolding m1_def by (rule read6502Memory_ref(1) [OF assms(2) own])
  have m1: "bus_ok m1" "gCurrentIndex m1 = uint i" "latched_index (hw m1) = page_index a"
    "mmu_ram (hw m1) = mmu_ram (view (hw m))"
    using machine_ok_latched [OF assms(2), of a] assms(4)
    by (simp_all add: m1_def machine_ok_def latched_index_latched latched_def [of a "view (hw m)"])
      (simp add: latched_index_latched [unfolded latched_def])
  note s = simD [OF neo_bus.sim_mmu_pages(1) [OF assms(1)]]
    simD [OF neo_bus.sim_mmu_pages(2) [OF assms(1)]] simD [OF neo_bus.sim_memory(2) [OF assms(1)]]
  have h: "view (hw n) = hw (absm view n)" for n by simp
  show ?thesis
    using readMMUPage_cached_index [OF m1(1,2), of cpu c]
      writeMMUPage_cached_index [OF m1(1,2), of cpu c v] m1(3,4)
    unfolding h by (simp add: s r)
qed

theorem index_cache_stale_witness:
  "val_of (do {read6502Memory (ref_board id) 0x2000; readMMUPage (ref_board id) 0 15})
     (exec (readMMUPage (ref_board id) 0 15) (powered_up id)) = 0x02"
proof -
  let ?m = "exec (readMMUPage (ref_board id) 0 15) (powered_up id)"
  have "mmu_ram (hw ?m) 0 2 = 0x02"
    using powered_up_table [of 0 2 id] readMMUPage_spec(7) [OF powered_up_ok(3,4)]
    by (simp add: gDefaultMMU_def)
  moreover have "page_index 0x2000 = 2" by (simp add: page_index_def)
  moreover have "gSysState ?m = sBOOT"
    using readMMUPage_spec(5) [OF powered_up_ok(3,4)] powered_up_ok(5) by (simp add: frame_of_def)
  ultimately show ?thesis
    using index_cache_stale [OF ref_contract, where m = ?m and i = 15 and a = "0x2000" and c = 0]
      readMMUPage_machine_ok [OF powered_up_ok(2,4)]
    by (simp add: rpi_owns_def)
qed

section \<open>Memory\<close>

text \<open>
  C6: Memory as the RP sees it: on a board whose processor leaves the cells \<open>R\<close> alone, a byte
  written through \<open>snoop_write6502MemoryLoc\<close> is read back, every other cell of \<open>R\<close> keeps its
  byte, and the processor is given the bus back in the state and context it was in.
\<close>

theorem snoop_read_after_write:
  assumes "served_bus bd view cpu R" and "port_ok (absm view m)" and "a \<in> R" and "b \<in> R"
  shows "val_of (do {snoop_write6502MemoryLoc bd a v; snoop_read6502MemoryLoc bd b}) m =
      (if b = a then v else val_of (snoop_read6502MemoryLoc bd b) m) \<and>
    gSysState (exec (snoop_write6502MemoryLoc bd a v) m) = gSysState m \<and>
    gCurrentContext (exec (snoop_write6502MemoryLoc bd a v) m) = gCurrentContext m"
proof -
  note w = served_bus.snoop_write [OF assms(1,2), where a = a and v = v]
  note k = keeps_portD [OF w(1)]
  show ?thesis
    using served_bus.snoop_read(1) [OF assms(1) k(1) assms(4)] w(2) [OF assms(4)]
      served_bus.snoop_read(1) [OF assms(1,2,4)] k(2,3) by simp
qed

theorem snoop_read_after_write_witness:
  "val_of (do {snoop_write6502MemoryLoc (ref_board id) 0xB002 1;
     snoop_read6502MemoryLoc (ref_board id) 0xB002}) (powered_up id) = 1"
  using snoop_read_after_write [OF quiet_bus, where m = "powered_up id" and a = "0xB002" and b = "0xB002" and v = 1 and R = UNIV]
    powered_up_ok(1) by simp

text \<open>
  A block written through \<open>snoop_write6502Memory\<close> is read back by \<open>snoop_read6502Memory\<close> at
  the same address, also when it wraps around the end of the address space.
\<close>

theorem snoop_block_roundtrip:
  assumes "served_bus bd view cpu R" and "port_ok (absm view m)" and "length vs < 65536"
    and "\<And>k. k < length vs \<Longrightarrow> a + of_nat k \<in> R"
  shows "val_of (do {snoop_write6502Memory bd a vs;
     snoop_read6502Memory bd a (of_nat (length vs))}) m = vs"
proof -
  let ?m' = "exec (snoop_write6502Memory bd a vs) m"
  note w = served_bus.snoop_write_block [OF assms(1,2), where a = a and vs = vs]
  have n: "unat (of_nat (length vs) :: u16) = length vs"
    using assms(3) by (simp add: unat_of_nat)
  have "val_of (snoop_read6502Memory bd a (of_nat (length vs))) ?m' =
      map (\<lambda>k. mem (absm view ?m') (a + of_nat k)) [0..<length vs]"
    using served_bus.snoop_read_block(1) [OF assms(1) keeps_portD(1) [OF w(1)],
        where n = "of_nat (length vs)" and a = a] assms(4) by (simp add: n)
  also have "\<dots> = map (\<lambda>k. vs ! k) [0..<length vs]"
    using w(2) assms(3,4) by (intro map_cong) (simp_all add: store_bytes_at)
  finally show ?thesis by (simp add: map_nth)
qed

theorem snoop_block_roundtrip_witness:
  "val_of (do {snoop_write6502Memory (ref_board id) 0xFFFE [0x4E, 0x45, 0x4F];
     snoop_read6502Memory (ref_board id) 0xFFFE 3}) (powered_up id) = [0x4E, 0x45, 0x4F]"
  using snoop_block_roundtrip [OF quiet_bus, where m = "powered_up id" and vs = "[0x4E, 0x45, 0x4F]" and a = "0xFFFE" and R = UNIV]
    powered_up_ok(1) by simp

text \<open>
  A write to 6502 memory clears the I/O trigger: an interrupt the 6502 raised before it is
  counted, but the flag \<open>triggerMMUIO\<close> would tell the main loop about it is gone.
\<close>

theorem write_loses_trigger:
  assumes "served_bus bd view cpu R" and "port_ok (absm view m)"
  shows "let m' = exec (do {intrMMUIO bd; snoop_write6502MemoryLoc bd a v}) m in
    gMMUIOCount m' = gMMUIOCount m + 1 \<and> \<not> val_of triggerMMUIO m'"
proof -
  let ?m1 = "exec (intrMMUIO bd) m"
  have nb: "neo_bus bd view cpu" using assms(1) by (simp add: served_bus_def)
  have a1: "absm view ?m1 = (absm view m)\<lparr>gMMUIOCount := gMMUIOCount m + 1, gMMUIOTrigger := True\<rparr>"
    using simD(1) [OF neo_bus.sim_interrupts(1) [OF nb], of m] by (simp add: intrMMUIO_ref)
  have p: "port_ok (absm view ?m1)" unfolding a1 by (rule port_ok_interrupt [OF assms(2)])
  note w = served_bus.snoop_write [OF assms(1) p, where a = a and v = v]
  have "gMMUIOCount (exec (snoop_write6502MemoryLoc bd a v) ?m1) = gMMUIOCount ?m1"
    using w(1) by (simp add: keeps_port_def)
  then show ?thesis
    using w(3) by (simp add: Let_def triggerMMUIO_def) (simp add: intrMMUIO_def io_def)
qed

theorem write_loses_trigger_witness:
  "\<not> val_of triggerMMUIO (exec (do {intrMMUIO (ref_board id);
     snoop_write6502MemoryLoc (ref_board id) 0xB002 1}) (powered_up id))"
  using write_loses_trigger [OF quiet_bus, where m = "powered_up id" and a = "0xB002" and v = 1] powered_up_ok(1)
  by (simp add: Let_def)

text \<open>
  A \<open>snoop\<close> access is not transparent in reset and before start-up: from \<open>sRESET\<close> it ends with
  MMU context 0 selected whatever context was, and from \<open>sSTARTUP\<close> it ends in \<open>sRPI\<close>.
\<close>

theorem snoop_not_transparent:
  assumes "neo_bus bd view cpu" and "machine_ok (absm view m)"
    and "gSysState m \<in> {sRESET, sSTARTUP}"
  shows "let m' = exec (snoop_read6502MemoryLoc bd a) m in
    (gSysState m = sRESET \<longrightarrow> gSysState m' = sRESET \<and> gCurrentContext m' = 0) \<and>
    (gSysState m = sSTARTUP \<longrightarrow> gSysState m' = sRPI)"
proof -
  let ?m = "absm view m"
  define m0 where "m0 = exec (set6502State (ref_board cpu) sRPI) ?m"
  note s0 = set6502State_spec [OF assms(2), of cpu sRPI, folded m0_def]
  have own: "rpi_owns m0" using s0(3) by (simp add: rpi_owns_def)
  define m1 where "m1 = m0\<lparr>hw := latched a (hw m0), gBusDir := 1\<rparr>"
  have r: "exec (read6502Memory (ref_board cpu) a) m0 = m1"
    unfolding m1_def by (rule read6502Memory_ref(1) [OF s0(1) own])
  have ok1: "machine_ok m1" unfolding m1_def by (rule machine_ok_latched [OF s0(1)])
  note s1 = set6502State_spec [OF ok1, of cpu "gSysState m"]
  have "exec (snoop_read6502MemoryLoc (ref_board cpu) a) ?m =
      exec (set6502State (ref_board cpu) (gSysState m)) m1"
    by (simp add: snoop_read6502MemoryLoc_def get6502State_def m0_def [symmetric] r)
  then have a: "absm view (exec (snoop_read6502MemoryLoc bd a) m) =
      exec (set6502State (ref_board cpu) (gSysState m)) m1"
    by (simp add: simD [OF neo_bus.sim_snoop(1) [OF assms(1)]])
  have "gSysState m1 = sRPI" using s0(3) by (simp add: m1_def)
  then show ?thesis
    using s1(3,5) unfolding a [symmetric] by (auto simp: Let_def context_after_def)
qed

theorem snoop_not_transparent_witness:
  "gCurrentContext (exec (snoop_read6502MemoryLoc (ref_board id) 0)
     (exec (setMMUContext (ref_board id) 5)
       (exec (set6502State (ref_board id) sRESET) (powered_up id)))) = 0"
proof -
  let ?m = "exec (set6502State (ref_board id) sRESET) (powered_up id)"
  note s = set6502State_spec [OF powered_up_ok(2), where cpu = id and s = sRESET]
  have ok: "bus_ok ?m" using s(1) by (simp add: machine_ok_def)
  note c = setMMUContext_spec [OF ok, where cpu = id and c = 5]
  have "machine_ok (exec (setMMUContext (ref_board id) 5) ?m)"
    using s(1) c in_row_cong [of "exec (setMMUContext (ref_board id) 5) ?m" ?m]
    by (simp add: machine_ok_def frame_of_def)
  moreover have "gSysState (exec (setMMUContext (ref_board id) 5) ?m) = sRESET"
    using s(3) c(4) by (simp add: frame_of_def)
  ultimately show ?thesis
    using snoop_not_transparent [OF ref_contract, where a = 0] by (simp add: Let_def)
qed

section \<open>Clock and steps\<close>

lemma advance_loop_steps:
  assumes "n \<le> 8"
  shows "\<exists>k. n + k \<le> 8 \<and>
    exec (advance_loop bd n) m = (exec (ss6502ClockStep bd) ^^ k) m \<and>
    (\<forall>j<k. val_of (get6502RW bd) ((exec (ss6502ClockStep bd) ^^ j) m) = mWRITE) \<and>
    (val_of (advance_loop bd n) m < 8 \<longleftrightarrow> n + k < 8) \<and>
    (n + k < 8 \<longrightarrow> val_of (get6502RW bd) ((exec (ss6502ClockStep bd) ^^ k) m) = mREAD)"
  using assms
proof (induction "8 - n" arbitrary: n m rule: less_induct)
  case less
  let ?st = "exec (ss6502ClockStep bd)"
  consider (read) "val_of (get6502RW bd) m = mREAD"
    | (last) "val_of (get6502RW bd) m = mWRITE" "n = 8"
    | (more) "val_of (get6502RW bd) m = mWRITE" "n < 8"
    using less.prems by (cases "val_of (get6502RW bd) m"; cases "n < 8") auto
  then show ?case
  proof cases
    case read
    then have "advance_loop bd n = advance_loop bd n \<and> exec (advance_loop bd n) m = m \<and>
        val_of (advance_loop bd n) m = n"
      by (subst (3 4) advance_loop.simps) simp
    with read less.prems show ?thesis by (intro exI [of _ 0]) auto
  next
    case last
    then have "exec (advance_loop bd n) m = m \<and> val_of (advance_loop bd n) m = 9"
      by (subst (1 2) advance_loop.simps) simp
    with last show ?thesis by (intro exI [of _ 0]) auto
  next
    case more
    then have lt: "8 - Suc n < 8 - n" and le: "Suc n \<le> 8" by simp_all
    obtain k where k: "Suc n + k \<le> 8"
      "exec (advance_loop bd (Suc n)) (?st m) = (?st ^^ k) (?st m)"
      "\<forall>j<k. val_of (get6502RW bd) ((?st ^^ j) (?st m)) = mWRITE"
      "val_of (advance_loop bd (Suc n)) (?st m) < 8 \<longleftrightarrow> Suc n + k < 8"
      "Suc n + k < 8 \<longrightarrow> val_of (get6502RW bd) ((?st ^^ k) (?st m)) = mREAD"
      using less.hyps [OF lt le, of "?st m"] by blast
    have "exec (advance_loop bd n) m = (?st ^^ k) (?st m)"
      "val_of (advance_loop bd n) m = val_of (advance_loop bd (Suc n)) (?st m)"
      using more k(2) by (subst advance_loop.simps, simp)+
    moreover have "\<forall>j<Suc k. val_of (get6502RW bd) ((?st ^^ j) m) = mWRITE"
      using more(1) k(3) by (auto simp: less_Suc_eq_0_disj funpow_swap1)
    ultimately show ?thesis
      using k by (intro exI [of _ "Suc k"]) (simp add: funpow_swap1)
  qed
qed

text \<open>
  On any board at all, \<open>advance6502clock\<close> stops after at most eight clock steps: it steps while the
  processor is in a write cycle and answers true exactly if fewer than eight steps led to a
  read cycle; with the clock running it does nothing and answers false.
\<close>

theorem advance6502clock_bounded:
  shows "if gClockState m = eON
    then run_state (advance6502clock bd) m = (False, m)
    else \<exists>k\<le>8. exec (advance6502clock bd) m = (exec (ss6502ClockStep bd) ^^ k) m \<and>
      (\<forall>j<k. val_of (get6502RW bd) ((exec (ss6502ClockStep bd) ^^ j) m) = mWRITE) \<and>
      (val_of (advance6502clock bd) m \<longleftrightarrow> k < 8) \<and>
      (k < 8 \<longrightarrow> val_of (get6502RW bd) (exec (advance6502clock bd) m) = mREAD)"
proof (cases "gClockState m = eON")
  case True
  then show ?thesis by (simp add: advance6502clock_def)
next
  case False
  then show ?thesis
    using advance_loop_steps [of 0 bd m] by (auto simp: advance6502clock_def)
qed

theorem advance6502clock_bounded_witness:
  "val_of (advance6502clock (ref_board id)) (powered_up id) \<and>
   exec (advance6502clock (ref_board id)) (powered_up id) = powered_up id"
proof -
  have off: "gClockState (powered_up id) \<noteq> eON" and dir: "gDir6502RW (powered_up id) \<noteq> mINPUT"
    using powered_up_ok(2,5) [of id] by (auto simp: machine_ok_def in_row_def)
  have "val_of (get6502RW (ref_board id)) (powered_up id) = mREAD"
    using dir by (simp add: get6502RW_def)
  then have zero: "(\<forall>j<k. val_of (get6502RW (ref_board id))
      ((exec (ss6502ClockStep (ref_board id)) ^^ j) (powered_up id)) = mWRITE) \<longleftrightarrow> k = 0" for k
    by (cases k) (auto intro: exI [of _ 0])
  show ?thesis
    using advance6502clock_bounded [where bd = "ref_board id" and m = "powered_up id"] off
    by (auto simp: zero)
qed

text \<open>
  \<open>singleCycle6502\<close> returns to the state it was called in, except when it is asked for no
  cycle: then it leaves the processor in \<open>sREAD\<close>.
\<close>

theorem singleCycle6502_state:
  assumes "gSysState m \<noteq> sSTARTUP"
  shows "gSysState (exec (singleCycle6502 bd n d) m) = (if n = 0 then sREAD else gSysState m)"
  using assms by (simp add: singleCycle6502_def get6502State_def set6502State_sysstate)

theorem singleCycle6502_state_witness:
  "gSysState (exec (singleCycle6502 (ref_board id) 0 True) (powered_up id)) = sREAD \<and>
   gSysState (exec (singleCycle6502 (ref_board id) 3 True) (powered_up id)) = sBOOT"
  using singleCycle6502_state [of "powered_up id"] powered_up_ok(5) by simp

section \<open>Pins\<close>

text \<open>
  The register write of \<open>FastPin\<close> for one pin of \<open>pins.h\<close> moves that pin alone: two
  pins with the same bank and mask are the same pin, and no control pin lies under the mask
  of the data bus.
\<close>

theorem fast_pins_disjoint:
  "(fast_pin_bank (gpio_of p) = fast_pin_bank (gpio_of q) \<and>
    fast_pin_mask (gpio_of p) = fast_pin_mask (gpio_of q) \<longleftrightarrow> p = q) \<and>
   \<not> bit DATA_BUS_MASK (gpio_of p)"
proof -
  have b: "gpio_of r < 64" for r using gpio_of_below_bus [of r] by simp
  have "DATA_BUS_MASK = push_bit 40 (mask 8)"
    by (simp add: DATA_BUS_MASK_def mask_eq_exp_minus_1)
  moreover have "\<not> bit (push_bit 40 (mask 8 :: u64)) (gpio_of p)"
    using gpio_of_below_bus [of p] by (simp add: bit_simps del: push_bit_numeral push_bit_mask_eq)
  ultimately have "\<not> bit DATA_BUS_MASK (gpio_of p)" by simp
  with fast_pin_separates [OF b b] show ?thesis by (simp add: gpio_of_inject)
qed

end
