(* ===== verification/Fifo.thy ===== *)
theory Fifo
  imports Prelude
begin

text \<open>
  \<open>fifo.h\<close>: a ring buffer of \<open>SIZE\<close> slots, a power of two, with 32-bit head and tail
  counters masked into range; one slot always stays free. The buffer's length stands for
  \<open>SIZE\<close>. The locale \<open>bounded_queue\<close> states what the clients of a queue rely on.
\<close>

section \<open>The ring buffer\<close>

record 'a fifo =
  head :: u32
  tail :: u32
  buffer :: "'a list"

definition MASK :: "'a fifo \<Rightarrow> u32" where
  "MASK q = of_nat (length (buffer q)) - 1"

definition capacity :: "'a fifo \<Rightarrow> nat" where
  "capacity q = length (buffer q) - 1"

definition clear :: "'a fifo \<Rightarrow> 'a fifo" where
  "clear q = q\<lparr>head := 0, tail := 0\<rparr>"

definition isEmpty :: "'a fifo \<Rightarrow> bool" where
  "isEmpty q \<longleftrightarrow> head q = tail q"

definition isFull :: "'a fifo \<Rightarrow> bool" where
  "isFull q \<longleftrightarrow> (head q + 1) AND MASK q = tail q"

definition count :: "'a fifo \<Rightarrow> u32" where
  "count q = (head q - tail q) AND MASK q"

definition EMPTY :: u8 where "EMPTY = 1"
definition FULL :: u8 where "FULL = 2"
definition DATA :: u8 where "DATA = 4"
definition SPACE :: u8 where "SPACE = 8"

definition status :: "'a fifo \<Rightarrow> u8" where
  "status q =
     (let s = 0;
          s = (if head q = tail q then s OR EMPTY else s OR DATA);
          s = (if (head q + 1) AND MASK q = tail q then s OR FULL else s OR SPACE)
      in s)"

definition push :: "'a \<Rightarrow> 'a fifo \<Rightarrow> bool \<times> 'a fifo" where
  "push value q =
     (let h = head q; nxt = (h + 1) AND MASK q
      in if nxt = tail q then (False, q)
         else (True, q\<lparr>buffer := (buffer q)[unat h := value], head := nxt\<rparr>))"

text \<open>\<open>pop\<close> and \<open>peek\<close> return the byte they store through their reference argument.\<close>

definition pop :: "'a fifo \<Rightarrow> 'a option \<times> 'a fifo" where
  "pop q =
     (let t = tail q
      in if t = head q then (None, q)
         else (Some (buffer q ! unat t), q\<lparr>tail := (t + 1) AND MASK q\<rparr>))"

definition peek :: "'a fifo \<Rightarrow> 'a option" where
  "peek q = (if head q = tail q then None else Some (buffer q ! unat (tail q)))"

definition unpush :: "'a fifo \<Rightarrow> bool \<times> 'a fifo" where
  "unpush q =
     (if head q = tail q then (False, q) else (True, q\<lparr>head := (head q - 1) AND MASK q\<rparr>))"

definition unpop :: "'a \<Rightarrow> 'a fifo \<Rightarrow> bool \<times> 'a fifo" where
  "unpop value q =
     (let prev = (tail q - 1) AND MASK q
      in if prev = head q then (False, q)
         else (True, q\<lparr>tail := prev, buffer := (buffer q)[unat prev := value]\<rparr>))"

section \<open>Invariant and abstraction\<close>

text \<open>\<open>SIZE\<close> is a power of two that fits the counters; both counters are slot numbers.\<close>

definition fifo_ok :: "'a fifo \<Rightarrow> bool" where
  "fifo_ok q \<longleftrightarrow> (\<exists>k\<le>31. length (buffer q) = 2 ^ k) \<and>
     unat (head q) < length (buffer q) \<and> unat (tail q) < length (buffer q)"

definition used :: "'a fifo \<Rightarrow> nat" where
  "used q = (unat (head q) + length (buffer q) - unat (tail q)) mod length (buffer q)"

definition slot :: "'a fifo \<Rightarrow> nat \<Rightarrow> nat" where
  "slot q i = (unat (tail q) + i) mod length (buffer q)"

definition contents :: "'a fifo \<Rightarrow> 'a list" where
  "contents q = map (\<lambda>i. buffer q ! slot q i) [0..<used q]"

lemma fifo_okE:
  assumes "fifo_ok q"
  obtains k where "k \<le> 31" "length (buffer q) = 2 ^ k" "MASK q = mask k"
    "unat (head q) < 2 ^ k" "unat (tail q) < 2 ^ k"
proof -
  obtain k where k: "k \<le> 31" "length (buffer q) = 2 ^ k" using assms by (auto simp: fifo_ok_def)
  moreover have "MASK q = mask k" using k(2) by (simp add: MASK_def mask_eq_exp_minus_1)
  ultimately show ?thesis using assms by (intro that [of k]) (simp_all add: fifo_ok_def)
qed

lemma unat_and_mask: "unat (w AND mask k) = unat w mod 2 ^ k" for w :: "'a::len word"
  by (simp only: take_bit_eq_mask [symmetric] unsigned_take_bit_eq take_bit_eq_mod [where 'a = nat])

lemma small_pow: "k \<le> 31 \<Longrightarrow> (2::nat) ^ k < 2 ^ 32"
  by (rule power_strict_increasing) simp_all

lemma unat_succ_mask:
  fixes w :: u32
  assumes "k \<le> 31" and "unat w < 2 ^ k"
  shows "unat ((w + 1) AND mask k) = (unat w + 1) mod 2 ^ k"
proof -
  have "unat (w + 1) = unat w + 1"
    using assms small_pow [OF assms(1)] by (simp add: unat_word_ariths)
  then show ?thesis by (simp add: unat_and_mask)
qed

lemma pow_dvd_word: "k \<le> 31 \<Longrightarrow> (2::nat) ^ k dvd 2 ^ 32"
  by (rule le_imp_power_dvd) simp

lemma unat_diff_mask:
  fixes v w :: u32
  assumes "k \<le> 31" and "unat w \<le> 2 ^ k"
  shows "unat ((v - w) AND mask k) = (unat v + 2 ^ k - unat w) mod 2 ^ k"
proof -
  have "v - w = word_of_nat (unat v + 2 ^ 32 - unat w)"
    using unsigned_less [of w, where 'a = nat] by (simp add: of_nat_diff)
  then have "unat (v - w) mod 2 ^ k = (unat v + 2 ^ 32 - unat w) mod 2 ^ k"
    using pow_dvd_word [OF assms(1)] by (simp add: unat_of_nat mod_mod_cancel)
  also have "\<dots> = (unat v + 2 ^ k - unat w) mod 2 ^ k"
  proof -
    obtain c where c: "(2::nat) ^ 32 = 2 ^ k * c" using pow_dvd_word [OF assms(1)] by (elim dvdE)
    then have "c > 0" by (cases c) simp_all
    then have "(2::nat) ^ 32 = 2 ^ k + 2 ^ k * (c - 1)"
      using c by (cases c) simp_all
    then have "unat v + 2 ^ 32 - unat w = (unat v + 2 ^ k - unat w) + 2 ^ k * (c - 1)"
      using assms(2) by linarith
    then show ?thesis by simp
  qed
  finally show ?thesis by (simp add: unat_and_mask)
qed

text \<open>Slot arithmetic without \<open>mod\<close>.\<close>

lemma ring_diff: "h < N \<Longrightarrow> t < N \<Longrightarrow> (h + N - t) mod N = (if t \<le> h then h - t else h + N - t)"
  for N :: nat
  by (auto simp: mod_if)

lemma ring_succ: "h < N \<Longrightarrow> (h + 1) mod N = (if Suc h = N then 0 else Suc h)" for N :: nat
  by auto

lemma ring_pred: "h < N \<Longrightarrow> (h + N - 1) mod N = (if h = 0 then N - 1 else h - 1)" for N :: nat
  by (auto simp: mod_if)

lemma ring_slot: "t < N \<Longrightarrow> i < N \<Longrightarrow> (t + i) mod N = (if t + i < N then t + i else t + i - N)"
  for N :: nat
  by (auto simp: mod_if)

lemma fifo_arith:
  assumes "fifo_ok q"
  shows "unat (head q) < length (buffer q)" and "unat (tail q) < length (buffer q)"
    and "unat ((head q + 1) AND MASK q) =
      (if Suc (unat (head q)) = length (buffer q) then 0 else Suc (unat (head q)))"
    and "unat ((tail q + 1) AND MASK q) =
      (if Suc (unat (tail q)) = length (buffer q) then 0 else Suc (unat (tail q)))"
    and "unat ((head q - 1) AND MASK q) =
      (if unat (head q) = 0 then length (buffer q) - 1 else unat (head q) - 1)"
    and "unat ((tail q - 1) AND MASK q) =
      (if unat (tail q) = 0 then length (buffer q) - 1 else unat (tail q) - 1)"
    and "unat (count q) = used q"
    and "used q < length (buffer q)"
proof -
  from assms obtain k where k: "k \<le> 31" "length (buffer q) = 2 ^ k" "MASK q = mask k"
    "unat (head q) < 2 ^ k" "unat (tail q) < 2 ^ k" by (rule fifo_okE)
  show "unat (head q) < length (buffer q)" "unat (tail q) < length (buffer q)"
    using k by simp_all
  show "unat ((head q + 1) AND MASK q) =
      (if Suc (unat (head q)) = length (buffer q) then 0 else Suc (unat (head q)))"
    "unat ((tail q + 1) AND MASK q) =
      (if Suc (unat (tail q)) = length (buffer q) then 0 else Suc (unat (tail q)))"
    using k unat_succ_mask [OF k(1)] ring_succ [of _ "2 ^ k"] by simp_all
  show "unat ((head q - 1) AND MASK q) =
      (if unat (head q) = 0 then length (buffer q) - 1 else unat (head q) - 1)"
    "unat ((tail q - 1) AND MASK q) =
      (if unat (tail q) = 0 then length (buffer q) - 1 else unat (tail q) - 1)"
    using k unat_diff_mask [OF k(1), of 1] ring_pred [of _ "2 ^ k"] by simp_all
  show "unat (count q) = used q"
    using k unat_diff_mask [OF k(1), of "tail q" "head q"] by (simp add: count_def used_def)
  show "used q < length (buffer q)" using k by (simp add: used_def)
qed

lemma used_alt:
  assumes "fifo_ok q"
  shows "used q = (if unat (tail q) \<le> unat (head q) then unat (head q) - unat (tail q)
     else unat (head q) + length (buffer q) - unat (tail q))"
  using ring_diff [OF fifo_arith(1,2) [OF assms]] by (simp add: used_def)

lemma slot_alt:
  assumes "fifo_ok q" and "i < length (buffer q)"
  shows "slot q i = (if unat (tail q) + i < length (buffer q) then unat (tail q) + i
     else unat (tail q) + i - length (buffer q))"
  using ring_slot [OF fifo_arith(2) [OF assms(1)] assms(2)] by (simp add: slot_def)

lemma length_contents [simp]: "length (contents q) = used q"
  by (simp add: contents_def)

lemma nth_contents [simp]: "i < used q \<Longrightarrow> contents q ! i = buffer q ! slot q i"
  by (simp add: contents_def)

lemma word_eq_unat: "v = w \<longleftrightarrow> unat v = unat w" for v w :: "'a::len word"
  by (rule word_unat_eq_iff)

section \<open>The operations on the contents\<close>

lemma isEmpty_contents: "fifo_ok q \<Longrightarrow> isEmpty q \<longleftrightarrow> contents q = []"
  using fifo_arith(1,2) [of q]
  by (auto simp: isEmpty_def contents_def used_alt word_eq_unat split: if_splits)

lemma isFull_contents: "fifo_ok q \<Longrightarrow> isFull q \<longleftrightarrow> length (contents q) = capacity q"
  using fifo_arith(1-3) [of q]
  by (auto simp: isFull_def capacity_def used_alt word_eq_unat split: if_splits)

lemma count_contents: "fifo_ok q \<Longrightarrow> unat (count q) = length (contents q)"
  using fifo_arith(7) by simp

lemma contents_bound: "fifo_ok q \<Longrightarrow> length (contents q) \<le> capacity q"
  using fifo_arith(8) by (fastforce simp: capacity_def)

lemma fifo_ok_clear: "fifo_ok q \<Longrightarrow> fifo_ok (clear q) \<and> contents (clear q) = []"
  by (auto simp: fifo_ok_def clear_def contents_def used_def)

lemma push_full: "isFull q \<Longrightarrow> push v q = (False, q)"
  by (simp add: push_def isFull_def Let_def)

lemma push_room:
  assumes "fifo_ok q" and "\<not> isFull q"
  shows "fst (push v q)" and "fifo_ok (snd (push v q))"
    and "contents (snd (push v q)) = contents q @ [v]"
    and "length (buffer (snd (push v q))) = length (buffer q)"
proof -
  let ?q = "snd (push v q)"
  note ar = fifo_arith [OF assms(1)]
  have q: "?q = q\<lparr>buffer := (buffer q)[unat (head q) := v], head := (head q + 1) AND MASK q\<rparr>"
    using assms(2) by (simp add: push_def isFull_def Let_def)
  show "fst (push v q)" using assms(2) by (simp add: push_def isFull_def Let_def)
  show "length (buffer ?q) = length (buffer q)" unfolding q by simp
  show ok: "fifo_ok ?q"
    using assms(1) ar(3) by (auto simp: q fifo_ok_def)
  have room: "used q + 1 < length (buffer q)"
    using assms ar(8) isFull_contents [OF assms(1)] by (auto simp: capacity_def)
  have u: "used ?q = used q + 1"
    using room ar(1-3) used_alt [OF ok] used_alt [OF assms(1)]
    by (auto simp: q split: if_splits)
  show "contents ?q = contents q @ [v]"
  proof (rule nth_equalityI)
    fix i assume "i < length (contents ?q)"
    then have i: "i < used q + 1" using u by simp
    have sl: "slot ?q i = slot q i" by (simp add: slot_def q)
    have last: "slot q (used q) = unat (head q)"
      using room slot_alt [OF assms(1), of "used q"] used_alt [OF assms(1)] ar(1,2)
      by (auto split: if_splits)
    have ne: "slot q i \<noteq> unat (head q)" if "i < used q"
      using that room slot_alt [OF assms(1), of i] used_alt [OF assms(1)] ar(1,2)
      by (auto split: if_splits)
    show "contents ?q ! i = (contents q @ [v]) ! i"
      using i u sl last ne ar(1) by (auto simp: nth_append q less_Suc_eq)
  qed (simp add: u)
qed

lemma pop_empty: "isEmpty q \<Longrightarrow> pop q = (None, q)"
  by (simp add: pop_def isEmpty_def)

lemma pop_some:
  assumes "fifo_ok q" and "\<not> isEmpty q"
  shows "fst (pop q) = Some (hd (contents q))" and "fifo_ok (snd (pop q))"
    and "contents (snd (pop q)) = tl (contents q)"
    and "length (buffer (snd (pop q))) = length (buffer q)"
proof -
  let ?q = "snd (pop q)"
  note ar = fifo_arith [OF assms(1)]
  have q: "?q = q\<lparr>tail := (tail q + 1) AND MASK q\<rparr>"
    using assms(2) by (auto simp: pop_def isEmpty_def Let_def)
  have pos: "0 < used q"
    using assms isEmpty_contents [OF assms(1)] by (simp add: contents_def)
  show "fst (pop q) = Some (hd (contents q))"
    using assms(2) pos ar(2)
    by (auto simp: pop_def isEmpty_def Let_def contents_def hd_map slot_def)
  show ok: "fifo_ok ?q"
    using assms(1) ar(4) by (auto simp: q fifo_ok_def)
  show "length (buffer ?q) = length (buffer q)" by (simp add: q)
  have u: "used ?q = used q - 1"
    using pos ar(1,2,4) used_alt [OF ok] used_alt [OF assms(1)]
    by (auto simp: q split: if_splits)
  show "contents ?q = tl (contents q)"
  proof (rule nth_equalityI)
    fix i assume "i < length (contents ?q)"
    then have i: "Suc i < used q" using u by simp
    have "slot ?q i = slot q (Suc i)"
      using ar(2,4) by (auto simp: slot_def q) (metis add_Suc mod_add_self1)
    then show "contents ?q ! i = tl (contents q) ! i"
      using i u by (simp add: nth_tl q)
  qed (simp add: u)
qed

lemma peek_contents: "fifo_ok q \<Longrightarrow> peek q = (if contents q = [] then None else Some (hd (contents q)))"
  using isEmpty_contents [of q] pop_some(1) [of q] by (auto simp: peek_def pop_def isEmpty_def Let_def)

lemma unpush_some:
  assumes "fifo_ok q" and "\<not> isEmpty q"
  shows "fst (unpush q)" and "fifo_ok (snd (unpush q))"
    and "contents (snd (unpush q)) = butlast (contents q)"
proof -
  let ?q = "snd (unpush q)"
  note ar = fifo_arith [OF assms(1)]
  have q: "?q = q\<lparr>head := (head q - 1) AND MASK q\<rparr>"
    using assms(2) by (simp add: unpush_def isEmpty_def)
  have pos: "0 < used q"
    using assms isEmpty_contents [OF assms(1)] by (simp add: contents_def)
  show "fst (unpush q)" using assms(2) by (simp add: unpush_def isEmpty_def)
  show ok: "fifo_ok ?q"
    using assms(1) ar(1,5) by (auto simp: q fifo_ok_def)
  have u: "used ?q = used q - 1"
    using pos ar(1,2,5) used_alt [OF ok] used_alt [OF assms(1)]
    by (auto simp: q split: if_splits)
  show "contents ?q = butlast (contents q)"
  proof (rule nth_equalityI)
    fix i assume "i < length (contents ?q)"
    then have i: "i < used q - 1" using u by simp
    then show "contents ?q ! i = butlast (contents q) ! i"
      using u by (simp add: nth_butlast) (simp add: slot_def q)
  qed (simp add: u)
qed

lemma unpop_room:
  assumes "fifo_ok q" and "\<not> isFull q"
  shows "fst (unpop v q)" and "fifo_ok (snd (unpop v q))"
    and "contents (snd (unpop v q)) = v # contents q"
proof -
  let ?q = "snd (unpop v q)"
  note ar = fifo_arith [OF assms(1)]
  have room: "used q + 1 < length (buffer q)"
    using assms ar(8) isFull_contents [OF assms(1)] by (auto simp: capacity_def)
  have ne: "(tail q - 1) AND MASK q \<noteq> head q"
    using room ar(1,2,6) used_alt [OF assms(1)] by (auto simp: word_eq_unat split: if_splits)
  then have q: "?q = q\<lparr>tail := (tail q - 1) AND MASK q,
      buffer := (buffer q)[unat ((tail q - 1) AND MASK q) := v]\<rparr>"
    and "fst (unpop v q)"
    by (simp_all add: unpop_def Let_def)
  then show "fst (unpop v q)" by simp
  show ok: "fifo_ok ?q"
    using assms(1) ar(2,6) by (auto simp: q fifo_ok_def)
  have u: "used ?q = used q + 1"
    using room ar(1,2,6) used_alt [OF ok] used_alt [OF assms(1)]
    by (auto simp: q split: if_splits)
  have t: "unat (tail ?q) < length (buffer q)" "slot ?q 0 = unat (tail ?q)"
    using fifo_arith(2) [OF ok] by (simp_all add: q slot_def)
  show "contents ?q = v # contents q"
  proof (rule nth_equalityI)
    fix i assume "i < length (contents ?q)"
    then have i: "i < used q + 1" using u by simp
    show "contents ?q ! i = (v # contents q) ! i"
    proof (cases i)
      case 0
      then show ?thesis using u t by (simp add: q)
    next
      case (Suc j)
      have j: "j < used q" "Suc j < length (buffer q)" using Suc i room by simp_all
      have "slot ?q (Suc j) = slot q j"
        using slot_alt [OF ok, of "Suc j"] slot_alt [OF assms(1), of j] j ar(2,6)
        by (auto simp: q split: if_splits)
      moreover have "slot q j \<noteq> unat (tail ?q)"
        using slot_alt [OF assms(1), of j] j ar(1,2,6) room used_alt [OF assms(1)]
        by (auto simp: q split: if_splits)
      ultimately show ?thesis using Suc j u by (simp add: q)
    qed
  qed (simp add: u)
qed

lemma status_contents:
  assumes "fifo_ok q"
  shows "status q =
    (if contents q = [] then EMPTY else DATA) OR
    (if length (contents q) = capacity q then FULL else SPACE)"
  using isEmpty_contents [OF assms] isFull_contents [OF assms]
  by (simp add: status_def isEmpty_def isFull_def Let_def or.commute)

section \<open>The interface of a bounded queue\<close>

locale bounded_queue =
  fixes enq :: "'a \<Rightarrow> 'q \<Rightarrow> bool \<times> 'q" and deq :: "'q \<Rightarrow> 'a option \<times> 'q"
    and items :: "'q \<Rightarrow> 'a list" and ok :: "'q \<Rightarrow> bool" and room :: "'q \<Rightarrow> nat"
  assumes items_bound: "ok q \<Longrightarrow> length (items q) \<le> room q"
    and enq_room: "ok q \<Longrightarrow> length (items q) < room q \<Longrightarrow>
      fst (enq v q) \<and> ok (snd (enq v q)) \<and> items (snd (enq v q)) = items q @ [v] \<and>
      room (snd (enq v q)) = room q"
    and enq_full: "ok q \<Longrightarrow> length (items q) = room q \<Longrightarrow> enq v q = (False, q)"
    and deq_nil: "ok q \<Longrightarrow> items q = [] \<Longrightarrow> deq q = (None, q)"
    and deq_cons: "ok q \<Longrightarrow> items q \<noteq> [] \<Longrightarrow>
      fst (deq q) = Some (hd (items q)) \<and> ok (snd (deq q)) \<and> items (snd (deq q)) = tl (items q) \<and>
      room (snd (deq q)) = room q"
begin

lemma enq_ok: "ok q \<Longrightarrow> ok (snd (enq v q))" and enq_keeps_room: "ok q \<Longrightarrow> room (snd (enq v q)) = room q"
  and enq_fst: "ok q \<Longrightarrow> fst (enq v q) \<longleftrightarrow> length (items q) < room q"
  and enq_items: "ok q \<Longrightarrow> items (snd (enq v q)) = take (room q) (items q @ [v])"
  using enq_room [of q v] enq_full [of q v] items_bound [of q]
  by (cases "length (items q) < room q"; fastforce)+

text \<open>A burst of pushes keeps what fits and drops the rest; order is arrival order.\<close>

lemma enq_burst:
  assumes "ok q"
  shows "ok (fold (\<lambda>v q. snd (enq v q)) vs q) \<and>
    room (fold (\<lambda>v q. snd (enq v q)) vs q) = room q \<and>
    items (fold (\<lambda>v q. snd (enq v q)) vs q) = take (room q) (items q @ vs)"
  using assms
proof (induction vs arbitrary: q)
  case Nil
  then show ?case using items_bound by simp
next
  case (Cons v vs)
  from Cons.IH [OF enq_ok [OF Cons.prems, of v]] show ?case
    using enq_items [OF Cons.prems, of v] enq_keeps_room [OF Cons.prems, of v] items_bound [OF Cons.prems]
    by (simp add: take_Cons' min_def)
qed

end

interpretation ring: bounded_queue push pop contents fifo_ok capacity
proof unfold_locales
  fix q :: "'a fifo" and v :: 'a
  assume ok: "fifo_ok q"
  show "length (contents q) \<le> capacity q" by (rule contents_bound [OF ok])
  show "fst (push v q) \<and> fifo_ok (snd (push v q)) \<and> contents (snd (push v q)) = contents q @ [v] \<and>
      capacity (snd (push v q)) = capacity q" if "length (contents q) < capacity q"
    using push_room [OF ok, of v] isFull_contents [OF ok] that by (simp add: capacity_def)
  show "push v q = (False, q)" if "length (contents q) = capacity q"
    using push_full [of q v] isFull_contents [OF ok] that by simp
  show "pop q = (None, q)" if "contents q = []"
    using pop_empty [of q] isEmpty_contents [OF ok] that by simp
  show "fst (pop q) = Some (hd (contents q)) \<and> fifo_ok (snd (pop q)) \<and>
      contents (snd (pop q)) = tl (contents q) \<and> capacity (snd (pop q)) = capacity q"
    if "contents q \<noteq> []"
    using pop_some [OF ok] isEmpty_contents [OF ok] that by (simp add: capacity_def)
qed

section \<open>Properties\<close>



end
