(* ===== verification/Input.thy ===== *)
theory Input
  imports Fifo
begin

text \<open>
  \<open>input.cpp\<close>: the two queues between the 6502 and the user, 128 slots each, and the task that
  drains the output queue into the display. \<open>vduPutc\<close> acts on the display alone and is an
  argument here.
\<close>

record queues =
  cpu_tx_fifo :: "u8 fifo"
  vdu_tx_fifo :: "u8 fifo"

definition queue_size :: nat where "queue_size = 128"

definition empty_fifo :: "u8 fifo" where
  "empty_fifo = \<lparr>head = 0, tail = 0, buffer = replicate queue_size 0\<rparr>"

definition initial_queues :: queues where
  "initial_queues = \<lparr>cpu_tx_fifo = empty_fifo, vdu_tx_fifo = empty_fifo\<rparr>"

definition writeCPUQ :: "u8 \<Rightarrow> (queues, bool) state" where
  "writeCPUQ c = do {
     full \<leftarrow> gets (\<lambda>s. isFull (cpu_tx_fifo s));
     if \<not> full then do {
       modify (\<lambda>s. s\<lparr>cpu_tx_fifo := snd (push c (cpu_tx_fifo s))\<rparr>);
       ret True
     } else ret False
   }"

definition readCPUQ :: "(queues, u8) state" where
  "readCPUQ = do {
     empty \<leftarrow> gets (\<lambda>s. isEmpty (cpu_tx_fifo s));
     if \<not> empty then do {
       r \<leftarrow> gets (\<lambda>s. fst (pop (cpu_tx_fifo s)));
       modify (\<lambda>s. s\<lparr>cpu_tx_fifo := snd (pop (cpu_tx_fifo s))\<rparr>);
       ret (case r of None \<Rightarrow> 0 | Some c \<Rightarrow> c)
     } else ret 0
   }"

definition isEmptyCPUQ :: "(queues, bool) state" where
  "isEmptyCPUQ = gets (\<lambda>s. isEmpty (cpu_tx_fifo s))"

text \<open>The result of the push is ignored: a full queue loses the byte and \<open>True\<close> is returned.\<close>

definition writeVDUQ :: "u8 \<Rightarrow> (queues, bool) state" where
  "writeVDUQ c = do {
     when_do (c \<noteq> 0) (modify (\<lambda>s. s\<lparr>vdu_tx_fifo := snd (push c (vdu_tx_fifo s))\<rparr>));
     ret True
   }"

definition isFullVDUQ :: "(queues, bool) state" where
  "isFullVDUQ = gets (\<lambda>s. isFull (vdu_tx_fifo s))"

text \<open>The loop of \<open>processVDUoutQ\<close>; \<open>None\<close> would be a loop that never ends.\<close>

partial_function (option) processVDUoutQ ::
  "(u8 \<Rightarrow> 'v \<Rightarrow> 'v) \<Rightarrow> u8 fifo \<Rightarrow> 'v \<Rightarrow> (u8 fifo \<times> 'v) option" where
  [code]: "processVDUoutQ vduPutc q v =
     (if isEmpty q then Some (q, v)
      else let data = (case fst (pop q) of None \<Rightarrow> 0 | Some c \<Rightarrow> c)
           in processVDUoutQ vduPutc (snd (pop q)) (vduPutc data v))"

definition initInput :: "(queues, unit) state" where
  "initInput = do {
     modify (\<lambda>s. s\<lparr>cpu_tx_fifo := clear (cpu_tx_fifo s)\<rparr>);
     modify (\<lambda>s. s\<lparr>vdu_tx_fifo := clear (vdu_tx_fifo s)\<rparr>)
   }"

definition taskInput :: "(u8 \<Rightarrow> 'v \<Rightarrow> 'v) \<Rightarrow> queues \<Rightarrow> 'v \<Rightarrow> (queues \<times> 'v) option" where
  "taskInput vduPutc s v =
     (case processVDUoutQ vduPutc (vdu_tx_fifo s) v of None \<Rightarrow> None
      | Some (q, v') \<Rightarrow> Some (s\<lparr>vdu_tx_fifo := q\<rparr>, v'))"

section \<open>Invariant\<close>

definition queues_ok :: "queues \<Rightarrow> bool" where
  "queues_ok s \<longleftrightarrow> fifo_ok (cpu_tx_fifo s) \<and> fifo_ok (vdu_tx_fifo s) \<and>
     capacity (cpu_tx_fifo s) = 127 \<and> capacity (vdu_tx_fifo s) = 127"

text \<open>What waits in the two queues.\<close>

abbreviation "to_cpu s \<equiv> contents (cpu_tx_fifo s)"
abbreviation "to_vdu s \<equiv> contents (vdu_tx_fifo s)"

lemma empty_fifo_ok: "fifo_ok empty_fifo" "contents empty_fifo = []" "capacity empty_fifo = 127"
proof -
  have "length (buffer empty_fifo) = 2 ^ 7" by (simp add: empty_fifo_def queue_size_def)
  then show "fifo_ok empty_fifo"
    unfolding fifo_ok_def by (intro conjI exI [of _ 7]) (simp_all add: empty_fifo_def queue_size_def)
qed (simp_all add: empty_fifo_def contents_def used_def capacity_def queue_size_def)

lemma queues_ok_initial: "queues_ok initial_queues"
  by (simp add: queues_ok_def initial_queues_def empty_fifo_ok)

lemma capacity_clear [simp]: "capacity (clear q) = capacity q"
  by (simp add: capacity_def clear_def)

lemma initInput_spec:
  "queues_ok s \<Longrightarrow> queues_ok (exec initInput s) \<and> to_cpu (exec initInput s) = [] \<and>
   to_vdu (exec initInput s) = []"
  using fifo_ok_clear by (auto simp: initInput_def queues_ok_def)

lemma writeCPUQ_spec:
  assumes "queues_ok s"
  shows "val_of (writeCPUQ c) s \<longleftrightarrow> length (to_cpu s) < 127"
    and "queues_ok (exec (writeCPUQ c) s)"
    and "to_cpu (exec (writeCPUQ c) s) = take 127 (to_cpu s @ [c])"
    and "to_vdu (exec (writeCPUQ c) s) = to_vdu s"
  using assms ring.items_bound [of "cpu_tx_fifo s"] ring.enq_room [of "cpu_tx_fifo s" c]
    isFull_contents [of "cpu_tx_fifo s"]
  by (auto simp: writeCPUQ_def queues_ok_def)

lemma readCPUQ_spec:
  assumes "queues_ok s"
  shows "val_of readCPUQ s = (case to_cpu s of [] \<Rightarrow> 0 | c # _ \<Rightarrow> c)"
    and "queues_ok (exec readCPUQ s)"
    and "to_cpu (exec readCPUQ s) = tl (to_cpu s)"
    and "to_vdu (exec readCPUQ s) = to_vdu s"
  using assms ring.deq_cons [of "cpu_tx_fifo s"] isEmpty_contents [of "cpu_tx_fifo s"]
  by (auto simp: readCPUQ_def queues_ok_def split: list.splits)

lemma writeVDUQ_spec:
  assumes "queues_ok s"
  shows "queues_ok (exec (writeVDUQ c) s)"
    and "to_vdu (exec (writeVDUQ c) s) = (if c = 0 then to_vdu s else take 127 (to_vdu s @ [c]))"
    and "to_cpu (exec (writeVDUQ c) s) = to_cpu s"
  using assms ring.enq_ok [of "vdu_tx_fifo s" c] ring.enq_items [of "vdu_tx_fifo s" c]
    ring.enq_keeps_room [of "vdu_tx_fifo s" c]
  by (auto simp: writeVDUQ_def queues_ok_def)

lemma processVDUoutQ_drains:
  "fifo_ok q \<Longrightarrow> \<exists>q'. processVDUoutQ vduPutc q v = Some (q', fold vduPutc (contents q) v) \<and>
     fifo_ok q' \<and> contents q' = [] \<and> capacity q' = capacity q"
proof (induction "contents q" arbitrary: q v)
  case Nil
  then show ?case
    using isEmpty_contents [of q] by (subst processVDUoutQ.simps) auto
next
  case (Cons x xs)
  have ne: "contents q \<noteq> []" using Cons.hyps(2) by (metis list.distinct(1))
  note d = ring.deq_cons [OF Cons.prems ne]
  have "xs = contents (snd (pop q))" using d Cons.hyps(2) by (metis list.sel(3))
  then obtain q' where "processVDUoutQ vduPutc (snd (pop q)) (vduPutc x v) =
      Some (q', fold vduPutc xs (vduPutc x v))" "fifo_ok q'" "contents q' = []"
      "capacity q' = capacity (snd (pop q))"
    using Cons.hyps(1) [of "snd (pop q)" "vduPutc x v"] d by blast
  moreover have "fst (pop q) = Some x" using d Cons.hyps(2) by (metis list.sel(1))
  ultimately show ?case
    using ne isEmpty_contents [OF Cons.prems] d Cons.hyps(2) [symmetric]
    by (subst processVDUoutQ.simps) (simp add: Let_def)
qed

section \<open>Properties\<close>

text \<open>
  The output task ends, and it has then sent every queued byte to the display, in order of
  arrival and once each; the queue to the 6502 is untouched.
\<close>

theorem taskInput_drains:
  assumes "queues_ok s"
  shows "\<exists>s'. taskInput vduPutc s v = Some (s', fold vduPutc (to_vdu s) v) \<and>
    queues_ok s' \<and> to_vdu s' = [] \<and> cpu_tx_fifo s' = cpu_tx_fifo s"
proof -
  obtain q' where "processVDUoutQ vduPutc (vdu_tx_fifo s) v =
      Some (q', fold vduPutc (to_vdu s) v)" "fifo_ok q'" "contents q' = []"
      "capacity q' = capacity (vdu_tx_fifo s)"
    using processVDUoutQ_drains [of "vdu_tx_fifo s" vduPutc v] assms unfolding queues_ok_def by blast
  then show ?thesis
    using assms by (simp add: taskInput_def queues_ok_def)
qed

theorem taskInput_drains_witness:
  "\<exists>s'. taskInput (\<lambda>c cs. cs @ [c]) (exec (writeVDUQ 0x42) (exec (writeVDUQ 0x41) initial_queues)) [] =
     Some (s', [0x41, 0x42])"
proof -
  let ?s = "exec (writeVDUQ 0x41) initial_queues"
  note a = writeVDUQ_spec [OF queues_ok_initial, of "0x41"]
  note b = writeVDUQ_spec [OF a(1), of "0x42"]
  have "to_vdu initial_queues = []" by (simp add: initial_queues_def empty_fifo_ok)
  with a b have "to_vdu (exec (writeVDUQ 0x42) ?s) = [0x41, 0x42]" by simp
  with taskInput_drains [OF b(1), of "\<lambda>c cs. cs @ [c]" "[]"] show ?thesis by auto
qed

text \<open>
  Bytes for the 6502 arrive in order: a burst written while \<open>n\<close> bytes wait is kept up to the 127
  bytes the queue holds, and reading then returns them oldest first.
\<close>

theorem cpu_queue_order:
  assumes "queues_ok s"
  shows "to_cpu (fold (\<lambda>c s. exec (writeCPUQ c) s) cs s) = take 127 (to_cpu s @ cs) \<and>
    (\<forall>c rest. to_cpu s = c # rest \<longrightarrow> val_of readCPUQ s = c \<and> to_cpu (exec readCPUQ s) = rest)"
proof -
  have "queues_ok (fold (\<lambda>c s. exec (writeCPUQ c) s) cs s) \<and>
      to_cpu (fold (\<lambda>c s. exec (writeCPUQ c) s) cs s) = take 127 (to_cpu s @ cs)"
    using assms
  proof (induction cs arbitrary: s)
    case Nil
    then show ?case using ring.items_bound [of "cpu_tx_fifo s"] by (simp add: queues_ok_def)
  next
    case (Cons c cs)
    have "length (to_cpu s) \<le> 127"
      using Cons.prems ring.items_bound [of "cpu_tx_fifo s"] by (simp add: queues_ok_def)
    with Cons.IH [OF writeCPUQ_spec(2) [OF Cons.prems, of c]] writeCPUQ_spec(3) [OF Cons.prems, of c]
    show ?case by (simp add: take_Cons' min_def)
  qed
  with readCPUQ_spec [OF assms] show ?thesis by simp
qed

theorem cpu_queue_order_witness:
  "val_of readCPUQ (exec (writeCPUQ 0x42) (exec (writeCPUQ 0x41) initial_queues)) = 0x41"
proof -
  have "queues_ok (exec (writeCPUQ 0x42) (exec (writeCPUQ 0x41) initial_queues))"
    using writeCPUQ_spec(2) queues_ok_initial by blast
  moreover have "to_cpu initial_queues = []" by (simp add: initial_queues_def empty_fifo_ok)
  moreover have "to_cpu (exec (writeCPUQ 0x42) (exec (writeCPUQ 0x41) initial_queues)) = [0x41, 0x42]"
    using cpu_queue_order [OF queues_ok_initial, of "[0x41, 0x42]"] \<open>to_cpu initial_queues = []\<close>
    by simp
  ultimately show ?thesis by (simp add: readCPUQ_spec(1))
qed

end
