(* ===== verification/Rp_Fs_Path.thy ===== *)
theory Rp_Fs_Path
  imports Prelude "HOL-Library.Char_ord"
begin

text \<open>
  \<open>rp_fs_path.cpp\<close>: validation of 8.3 path components, the table of current directories, one
  per process, and the resolution of a caller's path against it. A NUL-terminated \<open>char\<close> array
  is the list of the characters before the NUL; a buffer's size appears where the code
  checks it.
\<close>

section \<open>Strings\<close>

abbreviation code_of :: "char \<Rightarrow> nat" where
  "code_of c \<equiv> of_char c"

definition slash :: char where "slash = CHR ''/''"

definition RP_FS_NEOX_MAX_PROCS :: nat where "RP_FS_NEOX_MAX_PROCS = 8"
definition RP_FS_NEOX_PATH_MAX :: nat where "RP_FS_NEOX_PATH_MAX = 64"
definition RP_FS_NEOX_CWD_MAX :: nat where "RP_FS_NEOX_CWD_MAX = 32"
definition USB_STORAGE_MAX_DEVICES :: u8 where "USB_STORAGE_MAX_DEVICES = 4"

datatype rp_fs_path_result =
    RP_FS_PATH_OK | RP_FS_PATH_INVALID_PID | RP_FS_PATH_INVALID_DEVICE
  | RP_FS_PATH_INVALID_PATH | RP_FS_PATH_TOO_LONG

record resolved_path =
  rp_device :: u8
  rp_path :: string

definition is_digit :: "char \<Rightarrow> bool" where
  "is_digit c \<longleftrightarrow> 48 \<le> code_of c \<and> code_of c \<le> 57"

fun rp_fs_path_has_drive_prefix :: "string \<Rightarrow> u8 option" where
  "rp_fs_path_has_drive_prefix (c0 # c1 # c2 # cs) =
     (if is_digit c0 \<and> c1 = CHR '':'' \<and> c2 = slash then Some (of_nat (code_of c0 - 48)) else None)"
| "rp_fs_path_has_drive_prefix _ = None"

text \<open>\<open>strrchr\<close> of the C library: the index of the last occurrence.\<close>

fun strrchr :: "string \<Rightarrow> char \<Rightarrow> nat option" where
  "strrchr [] x = None"
| "strrchr (c # cs) x =
     (case strrchr cs x of Some i \<Rightarrow> Some (Suc i) | None \<Rightarrow> if c = x then Some 0 else None)"

definition rp_fs_path_pop_component :: "string \<Rightarrow> string" where
  "rp_fs_path_pop_component path =
     (if path = [] then path
      else case strrchr path slash of None \<Rightarrow> [] | Some i \<Rightarrow> take i path)"

definition rp_fs_path_append_component :: "string \<Rightarrow> nat \<Rightarrow> string \<Rightarrow> string option" where
  "rp_fs_path_append_component path path_len component =
     (if path_len = 0 \<or> component = [] then None
      else let current_len = length path; separator_len = (if current_len = 0 then 0 else 1)
        in if current_len + separator_len + length component \<ge> path_len then None
           else Some (path @ (if separator_len \<noteq> 0 then [slash] else []) @ component))"

section \<open>Validation\<close>

definition rp_fs_path_device_valid :: "u8 \<Rightarrow> bool" where
  "rp_fs_path_device_valid device \<longleftrightarrow> device < USB_STORAGE_MAX_DEVICES \<and> device \<le> 9"

text \<open>One character of the loop: \<open>None\<close> is the early return, else the three locals.\<close>

definition component_step :: "char \<Rightarrow> nat \<times> nat \<times> bool \<Rightarrow> (nat \<times> nat \<times> bool) option" where
  "component_step c = (\<lambda>(base_len, ext_len, in_ext).
     let x = code_of c in
     if x = 47 \<or> x = 92 \<or> x = 58 \<or> x < 33 \<or> x \<ge> 127 then None
     else if 97 \<le> x \<and> x \<le> 122 then None
     else if x = 46 then
       (if in_ext \<or> base_len = 0 then None else Some (base_len, ext_len, True))
     else if \<not> (65 \<le> x \<and> x \<le> 90) \<and> \<not> (48 \<le> x \<and> x \<le> 57) \<and> x \<noteq> 95 \<and> x \<noteq> 45 \<and> x \<noteq> 36 \<and> x \<noteq> 126 then None
     else if in_ext then
       (if ext_len + 1 > 3 then None else Some (base_len, ext_len + 1, in_ext))
     else
       (if base_len + 1 > 8 then None else Some (base_len + 1, ext_len, in_ext)))"

fun component_loop :: "string \<Rightarrow> nat \<times> nat \<times> bool \<Rightarrow> bool" where
  "component_loop [] (base_len, ext_len, in_ext) = (base_len \<noteq> 0 \<and> (\<not> in_ext \<or> ext_len \<noteq> 0))"
| "component_loop (c # cs) st =
     (case component_step c st of None \<Rightarrow> False | Some st' \<Rightarrow> component_loop cs st')"

definition rp_fs_path_component_valid_83 :: "string \<Rightarrow> bool" where
  "rp_fs_path_component_valid_83 start \<longleftrightarrow> start \<noteq> [] \<and> component_loop start (0, 0, False)"

text \<open>The loop over a path: the component read so far, then the rest.\<close>

fun path_loop :: "string \<Rightarrow> string \<Rightarrow> bool" where
  "path_loop component [] = rp_fs_path_component_valid_83 component"
| "path_loop component (c # p) =
     (if c = slash then rp_fs_path_component_valid_83 component \<and> p \<noteq> [] \<and> path_loop [] p
      else path_loop (component @ [c]) p)"

definition logical_valid :: "string \<Rightarrow> bool" where
  "logical_valid logical =
     (if logical = [] then True
      else let logical' = (if hd logical = slash then tl logical else logical)
        in if hd logical = slash \<and> logical' = [] then True else path_loop [] logical')"

definition rp_fs_path_valid_83 :: "string \<Rightarrow> bool" where
  "rp_fs_path_valid_83 path =
     (case rp_fs_path_has_drive_prefix path of
        Some d \<Rightarrow> rp_fs_path_device_valid d \<and> logical_valid (drop 3 path)
      | None \<Rightarrow> logical_valid path)"

section \<open>The table of current directories\<close>

record process_cwd =
  cwd_valid :: bool
  cwd_device :: u8
  cwd_path :: string

type_synonym cwd_table = "process_cwd list"

definition no_cwd :: process_cwd where
  "no_cwd = \<lparr>cwd_valid = False, cwd_device = 0, cwd_path = []\<rparr>"

text \<open>The zero-initialised static table.\<close>

definition initial_cwds :: cwd_table where
  "initial_cwds = replicate RP_FS_NEOX_MAX_PROCS no_cwd"

definition root_cwd :: "u8 \<Rightarrow> process_cwd" where
  "root_cwd device = \<lparr>cwd_valid = True, cwd_device = device, cwd_path = []\<rparr>"

definition rp_fs_cwd_slot :: "u8 \<Rightarrow> nat option" where
  "rp_fs_cwd_slot pid = (if unat pid < RP_FS_NEOX_MAX_PROCS then Some (unat pid) else None)"

definition rp_fs_cwd_reset_all :: "cwd_table \<Rightarrow> cwd_table" where
  "rp_fs_cwd_reset_all t =
     fold (\<lambda>pid t. t[pid := root_cwd 0]) [0..<RP_FS_NEOX_MAX_PROCS] t"

definition rp_fs_cwd_init_root :: "u8 \<Rightarrow> u8 \<Rightarrow> cwd_table \<Rightarrow> bool \<times> cwd_table" where
  "rp_fs_cwd_init_root pid device t =
     (case rp_fs_cwd_slot pid of None \<Rightarrow> (False, t)
      | Some i \<Rightarrow> if \<not> rp_fs_path_device_valid device then (False, t)
                 else (True, t[i := root_cwd device]))"

definition rp_fs_cwd_clone :: "u8 \<Rightarrow> u8 \<Rightarrow> cwd_table \<Rightarrow> bool \<times> cwd_table" where
  "rp_fs_cwd_clone child_pid parent_pid t =
     (case (rp_fs_cwd_slot child_pid, rp_fs_cwd_slot parent_pid) of
        (Some c, Some p) \<Rightarrow> if \<not> cwd_valid (t ! p) then (False, t) else (True, t[c := t ! p])
      | _ \<Rightarrow> (False, t))"

definition shown_path :: "string \<Rightarrow> string" where
  "shown_path p = (if p = [] then [slash] else p)"

definition rp_fs_cwd_get :: "u8 \<Rightarrow> cwd_table \<Rightarrow> resolved_path option" where
  "rp_fs_cwd_get pid t =
     (case rp_fs_cwd_slot pid of None \<Rightarrow> None
      | Some i \<Rightarrow> if \<not> cwd_valid (t ! i) then None
                 else Some \<lparr>rp_device = cwd_device (t ! i), rp_path = shown_path (cwd_path (t ! i))\<rparr>)"

definition rp_fs_cwd_set :: "u8 \<Rightarrow> resolved_path \<Rightarrow> cwd_table \<Rightarrow> bool \<times> cwd_table" where
  "rp_fs_cwd_set pid cwd t =
     (case rp_fs_cwd_slot pid of None \<Rightarrow> (False, t)
      | Some i \<Rightarrow>
         if \<not> rp_fs_path_device_valid (rp_device cwd) then (False, t)
         else if rp_fs_path_has_drive_prefix (rp_path cwd) \<noteq> None then (False, t)
         else if \<not> rp_fs_path_valid_83 (rp_path cwd) then (False, t)
         else let source = rp_path cwd;
                  source = (if source \<noteq> [] \<and> hd source = slash then tl source else source)
           in if length source \<ge> RP_FS_NEOX_CWD_MAX then (False, t)
              else (True, t[i := \<lparr>cwd_valid = True, cwd_device = rp_device cwd, cwd_path = source\<rparr>]))"

text \<open>The characters written to \<open>out\<close>; their number is \<open>*result_len\<close>.\<close>

definition rp_fs_cwd_format :: "u8 \<Rightarrow> nat \<Rightarrow> cwd_table \<Rightarrow> string option" where
  "rp_fs_cwd_format pid out_len t =
     (case rp_fs_cwd_slot pid of None \<Rightarrow> None
      | Some i \<Rightarrow>
         if \<not> cwd_valid (t ! i) \<or> \<not> rp_fs_path_device_valid (cwd_device (t ! i)) then None
         else if 3 + length (cwd_path (t ! i)) + 1 > out_len then None
         else Some (char_of (48 + unat (cwd_device (t ! i))) # CHR '':'' # slash # cwd_path (t ! i)))"

section \<open>Resolution\<close>

text \<open>
  The main loop: skip separators, cut the next component, interpret it. It returns the error
  of an early return or the canonical path.
\<close>

function resolve_loop :: "string \<Rightarrow> string \<Rightarrow> rp_fs_path_result + string" where
  "resolve_loop cursor canonical =
     (let cursor = dropWhile (\<lambda>c. c = slash) cursor in
      if cursor = [] then Inr canonical
      else let component = takeWhile (\<lambda>c. c \<noteq> slash) cursor;
               rest = dropWhile (\<lambda>c. c \<noteq> slash) cursor in
        if component = ''.'' then resolve_loop rest canonical
        else if component = ''..'' then resolve_loop rest (rp_fs_path_pop_component canonical)
        else if \<not> rp_fs_path_component_valid_83 component then Inl RP_FS_PATH_INVALID_PATH
        else case rp_fs_path_append_component canonical RP_FS_NEOX_PATH_MAX component of
               None \<Rightarrow> Inl RP_FS_PATH_TOO_LONG
             | Some canonical' \<Rightarrow> resolve_loop rest canonical')"
  by pat_completeness auto

lemma rest_shorter:
  assumes "dropWhile (\<lambda>c. c = slash) cursor \<noteq> []"
  shows "length (dropWhile (\<lambda>c. c \<noteq> slash) (dropWhile (\<lambda>c. c = slash) cursor)) < length cursor"
proof -
  obtain c cs where c: "dropWhile (\<lambda>c. c = slash) cursor = c # cs"
    using assms by (cases "dropWhile (\<lambda>c. c = slash) cursor") auto
  then have "c \<noteq> slash" using hd_dropWhile [OF assms] by simp
  then have "length (dropWhile (\<lambda>c. c \<noteq> slash) (c # cs)) < length (c # cs)"
    using length_dropWhile_le [of "\<lambda>c. c \<noteq> slash" cs] by (simp add: less_Suc_eq_le)
  also have "\<dots> \<le> length cursor" using length_dropWhile_le [of "\<lambda>c. c = slash" cursor] c by simp
  finally show ?thesis using c by simp
qed

termination resolve_loop
  by (relation "measure (\<lambda>(cursor, _). length cursor)") (simp_all del: dropWhile_eq_Nil_conv add: rest_shorter)

declare resolve_loop.simps [simp del]

definition rp_fs_resolve_process_path ::
  "u8 \<Rightarrow> u8 \<Rightarrow> string \<Rightarrow> cwd_table \<Rightarrow> rp_fs_path_result + resolved_path" where
  "rp_fs_resolve_process_path pid fallback_device input t =
     (if unat pid \<ge> RP_FS_NEOX_MAX_PROCS then Inl RP_FS_PATH_INVALID_PID
      else if input = [] then Inl RP_FS_PATH_INVALID_PATH
      else let cwd = t ! unat pid;
        start = (case rp_fs_path_has_drive_prefix input of
            Some d \<Rightarrow> Inr (d, drop 3 input, [])
          | None \<Rightarrow>
             if hd input = slash then
               Inr (if cwd_valid cwd then cwd_device cwd else fallback_device, tl input, [])
             else if cwd_valid cwd then
               (if length (cwd_path cwd) \<ge> RP_FS_NEOX_PATH_MAX then Inl RP_FS_PATH_TOO_LONG
                else Inr (cwd_device cwd, input, cwd_path cwd))
             else Inr (fallback_device, input, []))
        in case start of Inl e \<Rightarrow> Inl e
           | Inr (device, cursor, canonical) \<Rightarrow>
              if \<not> rp_fs_path_device_valid device then Inl RP_FS_PATH_INVALID_DEVICE
              else case resolve_loop cursor canonical of Inl e \<Rightarrow> Inl e
                 | Inr canonical' \<Rightarrow> Inr \<lparr>rp_device = device, rp_path = shown_path canonical'\<rparr>)"

end
