(* ===== verification/Rp_Fs_Path_Spec.thy ===== *)
theory Rp_Fs_Path_Spec
  imports Rp_Fs_Path
begin

text \<open>
  The meaning of the path engine over lists of components: a canonical path is a list of
  valid 8.3 names, resolution walks the pieces of the input over it, and the table of current
  directories only ever holds canonical paths.
\<close>

section \<open>Canonical paths\<close>

fun join :: "string list \<Rightarrow> string" where
  "join [] = []"
| "join [c] = c"
| "join (c # cs) = c @ slash # join cs"

definition names :: "string list \<Rightarrow> bool" where
  "names cs \<longleftrightarrow> (\<forall>c\<in>set cs. rp_fs_path_component_valid_83 c)"

lemma names_simps [simp]:
  "names []" "names (c # cs) \<longleftrightarrow> rp_fs_path_component_valid_83 c \<and> names cs"
  "names (cs @ ds) \<longleftrightarrow> names cs \<and> names ds"
  by (auto simp: names_def)

lemma names_butlast: "names cs \<Longrightarrow> names (butlast cs)"
  by (auto simp: names_def dest: in_set_butlastD)

lemma component_step_chars:
  "component_step c st \<noteq> None \<Longrightarrow> c \<noteq> slash \<and> c \<noteq> CHR '':'' \<and> c \<noteq> CHR 0x00"
  by (auto simp: component_step_def slash_def Let_def split: prod.splits)

lemma component_loop_chars:
  "component_loop cs st \<Longrightarrow> c \<in> set cs \<Longrightarrow> c \<noteq> slash \<and> c \<noteq> CHR '':'' \<and> c \<noteq> CHR 0x00"
proof (induction cs arbitrary: st)
  case (Cons x xs)
  then show ?case
    using component_step_chars [of x st] by (auto split: option.splits)
qed simp

lemma valid_component_chars:
  "rp_fs_path_component_valid_83 cs \<Longrightarrow> c \<in> set cs \<Longrightarrow> c \<noteq> slash \<and> c \<noteq> CHR '':'' \<and> c \<noteq> CHR 0x00"
  unfolding rp_fs_path_component_valid_83_def using component_loop_chars by blast

lemma valid_component_nonempty: "rp_fs_path_component_valid_83 cs \<Longrightarrow> cs \<noteq> []"
  by (simp add: rp_fs_path_component_valid_83_def)

lemma dots_invalid: "\<not> rp_fs_path_component_valid_83 ''.''" "\<not> rp_fs_path_component_valid_83 ''..''"
  by (simp_all add: rp_fs_path_component_valid_83_def component_step_def)

lemma component_step_bounds:
  "component_step c (b, e, x) = Some (b', e', x') \<Longrightarrow> b \<le> 8 \<and> e \<le> 3 \<Longrightarrow>
   b' \<le> 8 \<and> e' \<le> 3 \<and> b' + e' + of_bool x' = b + e + of_bool x + 1"
  by (auto simp: component_step_def Let_def split: if_splits)

lemma component_loop_length:
  "component_loop cs (b, e, x) \<Longrightarrow> b \<le> 8 \<Longrightarrow> e \<le> 3 \<Longrightarrow> length cs + b + e + of_bool x \<le> 12"
proof (induction cs arbitrary: b e x)
  case (Cons c cs)
  obtain b' e' x' where s: "component_step c (b, e, x) = Some (b', e', x')"
    using Cons.prems(1) by (cases "component_step c (b, e, x)") auto
  with component_step_bounds [OF s] Cons show ?case by fastforce
qed auto

lemma valid_component_length: "rp_fs_path_component_valid_83 cs \<Longrightarrow> length cs \<le> 12"
  using component_loop_length [of cs 0 0 False] by (simp add: rp_fs_path_component_valid_83_def)

lemma join_Cons: "join (c # cs) = (if cs = [] then c else c @ slash # join cs)"
  by (cases cs) simp_all

lemma join_snoc: "join (cs @ [c]) = (if cs = [] then c else join cs @ slash # c)"
  by (induction cs) (auto simp: join_Cons)

lemma join_empty: "names cs \<Longrightarrow> join cs = [] \<longleftrightarrow> cs = []"
  by (cases cs) (auto simp: join_Cons dest: valid_component_nonempty)

lemma names_slash: "names cs \<Longrightarrow> c \<in> set cs \<Longrightarrow> slash \<notin> set c"
  using valid_component_chars by (auto simp: names_def)

lemma hd_join:
  assumes "names cs" and "cs \<noteq> []"
  shows "hd (join cs) \<noteq> slash" and "join cs \<noteq> []"
proof -
  obtain c ds where cs: "cs = c # ds" using assms(2) by (cases cs) auto
  then obtain x xs where c: "c = x # xs"
    using assms(1) valid_component_nonempty by (cases c) auto
  then have "x \<noteq> slash" using names_slash [OF assms(1), of c] cs by auto
  then show "hd (join cs) \<noteq> slash" "join cs \<noteq> []" using cs c by (simp_all add: join_Cons)
qed

text \<open>A component has no colon, so a canonical path carries no drive prefix.\<close>

lemma join_no_colon:
  assumes "names cs"
  shows "CHR '':'' \<notin> set (join cs)" and "CHR 0x00 \<notin> set (join cs)"
  using assms by (induction cs) (auto simp: join_Cons slash_def dest: valid_component_chars)

lemma no_prefix: "CHR '':'' \<notin> set p \<Longrightarrow> rp_fs_path_has_drive_prefix p = None"
  by (cases p rule: rp_fs_path_has_drive_prefix.cases) auto

section \<open>The buffer operations\<close>

lemma strrchr_none: "x \<notin> set s \<Longrightarrow> strrchr s x = None"
  by (induction s) auto

lemma strrchr_last: "x \<notin> set t \<Longrightarrow> strrchr (s @ x # t) x = Some (length s)"
  by (induction s) (auto simp: strrchr_none)

lemma pop_component_join:
  assumes "names cs"
  shows "rp_fs_path_pop_component (join cs) = join (butlast cs)"
proof (cases cs rule: rev_cases)
  case Nil
  then show ?thesis by (simp add: rp_fs_path_pop_component_def)
next
  case (snoc ds c)
  then have "slash \<notin> set c" using names_slash [OF assms, of c] by simp
  then show ?thesis
    using snoc by (auto simp: rp_fs_path_pop_component_def join_snoc strrchr_none strrchr_last)
qed

lemma append_component_join:
  assumes "names cs" and "rp_fs_path_component_valid_83 c" and "n \<noteq> 0"
  shows "rp_fs_path_append_component (join cs) n c =
    (if length (join (cs @ [c])) \<ge> n then None else Some (join (cs @ [c])))"
proof (cases "cs = []")
  case True
  then show ?thesis
    using assms valid_component_nonempty by (auto simp: rp_fs_path_append_component_def Let_def)
next
  case False
  then have "join cs \<noteq> []" using hd_join [OF assms(1)] by blast
  then show ?thesis
    using assms False valid_component_nonempty [OF assms(2)]
    by (auto simp: rp_fs_path_append_component_def Let_def join_snoc)
qed

section \<open>Validation\<close>

lemma path_loop_prefix: "slash \<notin> set c \<Longrightarrow> path_loop acc (c @ p) = path_loop (acc @ c) p"
  by (induction c arbitrary: acc) auto

lemma path_loop_join: "names cs \<Longrightarrow> cs \<noteq> [] \<Longrightarrow> path_loop [] (join cs)"
proof (induction cs)
  case (Cons c ds)
  have c: "slash \<notin> set c" "rp_fs_path_component_valid_83 c"
    using names_slash [OF Cons.prems(1)] Cons.prems(1) by simp_all
  show ?case
  proof (cases "ds = []")
    case True
    then show ?thesis using c path_loop_prefix [of c "[]" "[]"] by simp
  next
    case False
    then have "join ds \<noteq> []" "path_loop [] (join ds)"
      using Cons hd_join [of ds] by simp_all
    then show ?thesis using False c path_loop_prefix [of c "[]"] by (simp add: join_Cons)
  qed
qed simp

lemma path_loop_names:
  "path_loop acc p \<Longrightarrow> slash \<notin> set acc \<Longrightarrow> \<exists>cs. names cs \<and> cs \<noteq> [] \<and> acc @ p = join cs"
proof (induction acc p rule: path_loop.induct)
  case (1 acc)
  then show ?case by (intro exI [of _ "[acc]"]) simp
next
  case (2 acc c p)
  show ?case
  proof (cases "c = slash")
    case True
    then obtain cs where "names cs" "cs \<noteq> []" "p = join cs" using 2 by auto
    then show ?thesis
      using True 2(3) by (intro exI [of _ "acc # cs"]) (simp add: join_Cons)
  next
    case False
    then show ?thesis using 2 by auto
  qed
qed

definition canonical :: "string \<Rightarrow> bool" where
  "canonical p \<longleftrightarrow> (\<exists>cs. names cs \<and> p = join cs)"

lemma canonical_empty [simp]: "canonical []"
  unfolding canonical_def by (intro exI [of _ "[]"]) simp

lemma shown_valid:
  assumes "canonical p"
  shows "rp_fs_path_valid_83 (shown_path p)" and "rp_fs_path_has_drive_prefix (shown_path p) = None"
proof -
  obtain cs where cs: "names cs" "p = join cs" using assms by (auto simp: canonical_def)
  have colon: "CHR '':'' \<notin> set (shown_path p)"
    using join_no_colon [OF cs(1)] cs(2) by (simp add: shown_path_def slash_def)
  then show none: "rp_fs_path_has_drive_prefix (shown_path p) = None" by (rule no_prefix)
  show "rp_fs_path_valid_83 (shown_path p)"
  proof (cases "cs = []")
    case True
    then show ?thesis using cs none by (simp add: rp_fs_path_valid_83_def shown_path_def logical_valid_def)
  next
    case False
    then show ?thesis
      using none hd_join [OF cs(1) False] path_loop_join [OF cs(1) False] cs(2)
      by (simp add: rp_fs_path_valid_83_def shown_path_def logical_valid_def)
  qed
qed

lemma logical_valid_canonical:
  assumes "logical_valid p"
  shows "canonical (if p \<noteq> [] \<and> hd p = slash then tl p else p)"
proof -
  let ?q = "if p \<noteq> [] \<and> hd p = slash then tl p else p"
  have "?q = [] \<or> path_loop [] ?q"
    using assms by (auto simp: logical_valid_def Let_def split: if_splits)
  then show ?thesis
  proof
    assume "path_loop [] ?q"
    then show ?thesis using path_loop_names [of "[]" ?q] unfolding canonical_def by auto
  qed (simp only: canonical_empty)
qed

section \<open>The table of current directories\<close>

definition cwd_ok :: "process_cwd \<Rightarrow> bool" where
  "cwd_ok w \<longleftrightarrow> (cwd_valid w \<longrightarrow> rp_fs_path_device_valid (cwd_device w) \<and>
     canonical (cwd_path w) \<and> length (cwd_path w) < RP_FS_NEOX_CWD_MAX)"

definition cwds_ok :: "cwd_table \<Rightarrow> bool" where
  "cwds_ok t \<longleftrightarrow> length t = RP_FS_NEOX_MAX_PROCS \<and> (\<forall>w\<in>set t. cwd_ok w)"

lemma cwds_ok_update: "cwds_ok t \<Longrightarrow> cwd_ok w \<Longrightarrow> cwds_ok (t[i := w])"
  by (auto simp: cwds_ok_def dest: set_update_subset_insert [THEN subsetD])

lemma cwds_ok_nth: "cwds_ok t \<Longrightarrow> i < RP_FS_NEOX_MAX_PROCS \<Longrightarrow> cwd_ok (t ! i)"
  by (auto simp: cwds_ok_def)

lemma cwd_ok_root: "rp_fs_path_device_valid d \<Longrightarrow> cwd_ok (root_cwd d)"
  by (simp add: cwd_ok_def root_cwd_def RP_FS_NEOX_CWD_MAX_def)

lemma device_0_valid [simp]: "rp_fs_path_device_valid 0"
  by (simp add: rp_fs_path_device_valid_def USB_STORAGE_MAX_DEVICES_def)

lemma slot_bound: "rp_fs_cwd_slot pid = Some i \<Longrightarrow> i = unat pid \<and> i < RP_FS_NEOX_MAX_PROCS"
  by (auto simp: rp_fs_cwd_slot_def split: if_splits)

lemma cwds_ok_initial: "cwds_ok initial_cwds"
  by (simp add: cwds_ok_def initial_cwds_def no_cwd_def cwd_ok_def)

lemma cwds_ok_reset: "cwds_ok t \<Longrightarrow> cwds_ok (rp_fs_cwd_reset_all t)"
  unfolding rp_fs_cwd_reset_all_def
  by (rule fold_invariant [where P = cwds_ok and Q = "\<lambda>_. True"])
    (simp_all add: cwds_ok_update cwd_ok_root)

lemma cwds_ok_init_root: "cwds_ok t \<Longrightarrow> cwds_ok (snd (rp_fs_cwd_init_root pid d t))"
  by (simp add: rp_fs_cwd_init_root_def cwds_ok_update cwd_ok_root split: option.splits)

lemma cwds_ok_clone: "cwds_ok t \<Longrightarrow> cwds_ok (snd (rp_fs_cwd_clone c p t))"
  by (auto simp: rp_fs_cwd_clone_def cwds_ok_update cwds_ok_nth split: option.splits dest!: slot_bound)

lemma cwds_ok_set: "cwds_ok t \<Longrightarrow> cwds_ok (snd (rp_fs_cwd_set pid w t))"
  using logical_valid_canonical [of "rp_path w"]
  by (auto simp: rp_fs_cwd_set_def Let_def cwd_ok_def rp_fs_path_valid_83_def
      intro!: cwds_ok_update split: option.splits)

section \<open>Resolution over component lists\<close>

text \<open>The nonempty pieces between separators, and the walk over them.\<close>

fun pieces :: "string \<Rightarrow> string \<Rightarrow> string list" where
  "pieces acc [] = [acc]"
| "pieces acc (c # s) = (if c = slash then acc # pieces [] s else pieces (acc @ [c]) s)"

definition parts :: "string \<Rightarrow> string list" where
  "parts s = filter (\<lambda>p. p \<noteq> []) (pieces [] s)"

fun walk :: "string list \<Rightarrow> string list \<Rightarrow> rp_fs_path_result + string list" where
  "walk [] cs = Inr cs"
| "walk (p # ps) cs =
     (if p = ''.'' then walk ps cs
      else if p = ''..'' then walk ps (butlast cs)
      else if \<not> rp_fs_path_component_valid_83 p then Inl RP_FS_PATH_INVALID_PATH
      else if length (join (cs @ [p])) \<ge> RP_FS_NEOX_PATH_MAX then Inl RP_FS_PATH_TOO_LONG
      else walk ps (cs @ [p]))"

lemma pieces_span:
  "pieces acc s = (acc @ takeWhile (\<lambda>c. c \<noteq> slash) s) #
     (case dropWhile (\<lambda>c. c \<noteq> slash) s of [] \<Rightarrow> [] | _ # r \<Rightarrow> pieces [] r)"
  by (induction acc s rule: pieces.induct) auto

lemma parts_slash: "parts (slash # s) = parts s"
  by (simp add: parts_def)

lemma parts_skip: "parts (dropWhile (\<lambda>c. c = slash) s) = parts s"
  by (induction s) (auto simp: parts_slash)

lemma parts_Nil [simp]: "parts [] = []"
  by (simp add: parts_def)

lemma parts_component:
  assumes "s \<noteq> []" and "hd s \<noteq> slash"
  shows "parts s = takeWhile (\<lambda>c. c \<noteq> slash) s # parts (dropWhile (\<lambda>c. c \<noteq> slash) s)"
proof -
  have ne: "takeWhile (\<lambda>c. c \<noteq> slash) s \<noteq> []" using assms by (cases s) auto
  show ?thesis
  proof (cases "dropWhile (\<lambda>c. c \<noteq> slash) s")
    case Nil
    then show ?thesis
      using ne unfolding parts_def pieces_span [of "[]" s] by (simp del: dropWhile_eq_Nil_conv)
  next
    case (Cons x r)
    then have "x = slash" using hd_dropWhile [of "\<lambda>c. c \<noteq> slash" s] by simp
    with Cons ne parts_slash [of r] show ?thesis
      unfolding parts_def pieces_span [of "[]" s] by simp
  qed
qed

lemma join_length_pos: "RP_FS_NEOX_PATH_MAX \<noteq> 0"
  by (simp add: RP_FS_NEOX_PATH_MAX_def)

lemma resolve_loop_walk:
  "names cs \<Longrightarrow> resolve_loop s (join cs) = map_sum id join (walk (parts s) cs)"
proof (induction "length s" arbitrary: s cs rule: less_induct)
  case less
  define s' where "s' = dropWhile (\<lambda>c. c = slash) s"
  have skip: "parts s = parts s'" by (simp add: s'_def parts_skip)
  show ?case
  proof (cases "s' = []")
    case True
    then show ?thesis
      by (subst resolve_loop.simps) (simp only: s'_def [symmetric] Let_def skip, simp)
  next
    case False
    define p where "p = takeWhile (\<lambda>c. c \<noteq> slash) s'"
    define r where "r = dropWhile (\<lambda>c. c \<noteq> slash) s'"
    have hd: "hd s' \<noteq> slash"
      using hd_dropWhile [of "\<lambda>c. c = slash" s] False unfolding s'_def by simp
    have parts: "parts s = p # parts r"
      using parts_component [OF False hd] by (simp add: skip p_def r_def)
    have shorter: "length r < length s"
      using rest_shorter [of s] False by (simp add: r_def s'_def del: dropWhile_eq_Nil_conv)
    note ih = less.hyps [OF shorter]
    have step: "resolve_loop s (join cs) =
       (if p = ''.'' then resolve_loop r (join cs)
        else if p = ''..'' then resolve_loop r (rp_fs_path_pop_component (join cs))
        else if \<not> rp_fs_path_component_valid_83 p then Inl RP_FS_PATH_INVALID_PATH
        else case rp_fs_path_append_component (join cs) RP_FS_NEOX_PATH_MAX p of
               None \<Rightarrow> Inl RP_FS_PATH_TOO_LONG
             | Some c \<Rightarrow> resolve_loop r c)"
      using False
      by (subst resolve_loop.simps) (simp only: s'_def [symmetric] Let_def p_def r_def if_False)
    show ?thesis
      unfolding step parts
      using ih [OF less.prems] ih [OF names_butlast [OF less.prems]] ih [of "cs @ [p]"]
        pop_component_join [OF less.prems] append_component_join [OF less.prems _ join_length_pos]
        less.prems
      by simp
  qed
qed

lemma walk_names:
  "walk ps cs = Inr ds \<Longrightarrow> names cs \<Longrightarrow> length (join cs) < RP_FS_NEOX_PATH_MAX \<Longrightarrow>
   names ds \<and> length (join ds) < RP_FS_NEOX_PATH_MAX"
proof (induction ps arbitrary: cs)
  case (Cons p ps)
  have "length (join (butlast cs)) \<le> length (join cs)"
    by (cases cs rule: rev_cases) (auto simp: join_snoc)
  then show ?case
    using Cons by (auto simp: names_butlast split: if_splits)
qed simp

lemma parts_join: "names cs \<Longrightarrow> parts (join cs) = cs"
proof (induction cs)
  case (Cons c ds)
  have c: "\<forall>x\<in>set c. x \<noteq> slash" "c \<noteq> []"
    using names_slash [OF Cons.prems, of c] Cons.prems valid_component_nonempty by auto
  then have hd: "join (c # ds) \<noteq> []" "hd (join (c # ds)) \<noteq> slash"
    using hd_join [OF Cons.prems] by simp_all
  have "takeWhile (\<lambda>c. c \<noteq> slash) (join (c # ds)) = c"
    "dropWhile (\<lambda>c. c \<noteq> slash) (join (c # ds)) = (if ds = [] then [] else slash # join ds)"
    using c by (auto simp: join_Cons takeWhile_append dropWhile_append)
  with parts_component [OF hd] Cons show ?case by (auto simp: parts_slash)
qed simp

lemma walk_append:
  "names cs \<Longrightarrow> names (ds @ cs) \<Longrightarrow> length (join (ds @ cs)) < RP_FS_NEOX_PATH_MAX \<Longrightarrow>
   walk cs ds = Inr (ds @ cs)"
proof (induction cs arbitrary: ds)
  case (Cons c cs)
  have dots: "c \<noteq> ''.''" "c \<noteq> ''..''" using Cons.prems(1) dots_invalid by auto
  have "length (join (ds @ [c])) \<le> length (join (ds @ c # cs))"
  proof (induction ds)
    case Nil
    then show ?case by (cases cs) simp_all
  next
    case (Cons d ds)
    then show ?case by (simp add: join_Cons)
  qed
  then show ?case using Cons dots by simp
qed simp

lemma cwd_components:
  assumes "cwds_ok t" and "i < RP_FS_NEOX_MAX_PROCS" and "cwd_valid (t ! i)"
  obtains cs where "names cs" and "cwd_path (t ! i) = join cs" and "length (join cs) < RP_FS_NEOX_CWD_MAX"
    and "rp_fs_path_device_valid (cwd_device (t ! i))"
  using cwds_ok_nth [OF assms(1,2)] assms(3) that by (auto simp: cwd_ok_def canonical_def)

lemma cwd_fits_path: "n < RP_FS_NEOX_CWD_MAX \<Longrightarrow> n < RP_FS_NEOX_PATH_MAX"
  by (simp add: RP_FS_NEOX_CWD_MAX_def RP_FS_NEOX_PATH_MAX_def)

text \<open>Where a path starts: the device, the text to walk, and the components to walk from.\<close>

definition start_of :: "process_cwd \<Rightarrow> u8 \<Rightarrow> string \<Rightarrow> u8 \<times> string \<times> string list" where
  "start_of w fallback input =
     (case rp_fs_path_has_drive_prefix input of
        Some d \<Rightarrow> (d, drop 3 input, [])
      | None \<Rightarrow> if cwd_valid w
          then (cwd_device w, input, if hd input = slash then [] else parts (cwd_path w))
          else (fallback, input, []))"

lemma resolve_process_path_walks_aux:
  assumes "cwds_ok t" and "unat pid < RP_FS_NEOX_MAX_PROCS" and "input \<noteq> []"
  shows "rp_fs_resolve_process_path pid fallback input t =
    (case start_of (t ! unat pid) fallback input of (device, text, from) \<Rightarrow>
       if \<not> rp_fs_path_device_valid device then Inl RP_FS_PATH_INVALID_DEVICE
       else map_sum id (\<lambda>cs. \<lparr>rp_device = device, rp_path = shown_path (join cs)\<rparr>)
              (walk (parts text) from))"
proof -
  let ?w = "t ! unat pid"
  have go: "(case resolve_loop s (join cs) of Inl e \<Rightarrow> Inl e
      | Inr c \<Rightarrow> Inr \<lparr>rp_device = d, rp_path = shown_path c\<rparr>) =
    map_sum id (\<lambda>cs. \<lparr>rp_device = d, rp_path = shown_path (join cs)\<rparr>) (walk (parts s) cs)"
    if "names cs" for s cs d
    using resolve_loop_walk [OF that, of s] by (cases "walk (parts s) cs") simp_all
  have tl: "parts (tl input) = parts input" if "hd input = slash"
    using that assms(3) parts_slash [of "tl input"] by (cases input) simp_all
  show ?thesis
  proof (cases "cwd_valid ?w")
    case False
    then show ?thesis
      using assms(2,3) go [of "[]"] tl
      by (auto simp: rp_fs_resolve_process_path_def start_of_def Let_def split: option.splits)
  next
    case True
    then obtain cs where cs: "names cs" "cwd_path ?w = join cs" "length (join cs) < RP_FS_NEOX_CWD_MAX"
      using cwd_components [OF assms(1,2)] by blast
    then have "\<not> length (cwd_path ?w) \<ge> RP_FS_NEOX_PATH_MAX" using cwd_fits_path by (simp add: not_le)
    with True show ?thesis
      using assms(2,3) go [of "[]"] go [OF cs(1)] tl cs(2) parts_join [OF cs(1)]
      by (auto simp: rp_fs_resolve_process_path_def start_of_def Let_def split: option.splits)
  qed
qed

section \<open>Properties\<close>

text \<open>
  C17: The character-level resolution is the walk over path components: from the drive root, the
  root of the current drive, or the current directory, \<open>.\<close> stays, \<open>..\<close> drops the last
  component and never leaves the root, and a name is appended if it is a valid 8.3 name and
  the path stays below 64 characters.
\<close>

theorem resolve_process_path_walks:
  assumes "cwds_ok t" and "unat pid < RP_FS_NEOX_MAX_PROCS" and "input \<noteq> []"
  shows "rp_fs_resolve_process_path pid fallback input t =
    (case start_of (t ! unat pid) fallback input of (device, text, from) \<Rightarrow>
       if \<not> rp_fs_path_device_valid device then Inl RP_FS_PATH_INVALID_DEVICE
       else map_sum id (\<lambda>cs. \<lparr>rp_device = device, rp_path = shown_path (join cs)\<rparr>)
              (walk (parts text) from))"
  by (rule resolve_process_path_walks_aux [OF assms])

theorem resolve_process_path_walks_witness:
  "rp_fs_resolve_process_path 1 0 ''/BIN/../A.TXT'' (rp_fs_cwd_reset_all initial_cwds) =
     Inr \<lparr>rp_device = 0, rp_path = ''A.TXT''\<rparr>"
proof -
  have ok: "cwds_ok (rp_fs_cwd_reset_all initial_cwds)" by (rule cwds_ok_reset [OF cwds_ok_initial])
  have w: "rp_fs_cwd_reset_all initial_cwds ! 1 = root_cwd 0"
    by (simp add: rp_fs_cwd_reset_all_def initial_cwds_def RP_FS_NEOX_MAX_PROCS_def numeral_eq_Suc)
  have v: "rp_fs_path_component_valid_83 ''BIN''" "rp_fs_path_component_valid_83 ''A.TXT''"
    by (simp_all add: rp_fs_path_component_valid_83_def component_step_def)
  show ?thesis
    using resolve_process_path_walks [OF ok, of 1 "''/BIN/../A.TXT''" 0] v w
    by (simp add: RP_FS_NEOX_MAX_PROCS_def start_of_def root_cwd_def is_digit_def parts_def slash_def
        RP_FS_NEOX_PATH_MAX_def shown_path_def)
qed

lemma walk_start:
  assumes "cwds_ok t" and "i < RP_FS_NEOX_MAX_PROCS"
    and "start_of (t ! i) fallback input = (device, text, from)"
  shows "names from" and "length (join from) < RP_FS_NEOX_PATH_MAX"
proof -
  have "from = [] \<or> from = parts (cwd_path (t ! i)) \<and> cwd_valid (t ! i)"
    using assms(3) by (auto simp: start_of_def split: option.splits if_splits)
  then have "names from \<and> length (join from) < RP_FS_NEOX_PATH_MAX"
  proof
    assume f: "from = parts (cwd_path (t ! i)) \<and> cwd_valid (t ! i)"
    then obtain cs where "names cs" "cwd_path (t ! i) = join cs" "length (join cs) < RP_FS_NEOX_CWD_MAX"
      using cwd_components [OF assms(1,2)] by blast
    then show ?thesis using f parts_join cwd_fits_path by simp
  qed (simp add: RP_FS_NEOX_PATH_MAX_def)
  then show "names from" "length (join from) < RP_FS_NEOX_PATH_MAX" by simp_all
qed

lemma resolved_canonical:
  assumes "cwds_ok t" and "rp_fs_resolve_process_path pid fallback input t = Inr r"
  obtains cs where "names cs" and "rp_path r = shown_path (join cs)"
    and "length (join cs) < RP_FS_NEOX_PATH_MAX" and "rp_fs_path_device_valid (rp_device r)"
proof -
  have pid: "unat pid < RP_FS_NEOX_MAX_PROCS" and input: "input \<noteq> []"
    using assms(2) by (auto simp: rp_fs_resolve_process_path_def split: if_splits)
  obtain d s "from" where st: "start_of (t ! unat pid) fallback input = (d, s, from)"
    by (cases "start_of (t ! unat pid) fallback input")
  obtain cs where "rp_fs_path_device_valid d" "walk (parts s) from = Inr cs"
    "r = \<lparr>rp_device = d, rp_path = shown_path (join cs)\<rparr>"
    using assms(2) resolve_process_path_walks_aux [OF assms(1) pid input, of fallback] st
    by (cases "walk (parts s) from") (auto split: if_splits)
  with walk_names [OF _ walk_start [OF assms(1) pid st]] that show ?thesis by auto
qed

text \<open>
  C18: What resolution hands to the file system is safe: the device exists, the path is a valid 8.3
  path without drive prefix, it fits the 64-byte buffer with its NUL, and it is the root or
  relative without \<open>.\<close> or \<open>..\<close>.
\<close>

theorem resolved_path_safe:
  assumes "cwds_ok t" and "rp_fs_resolve_process_path pid fallback input t = Inr r"
  shows "rp_fs_path_device_valid (rp_device r) \<and> rp_fs_path_valid_83 (rp_path r) \<and>
    rp_fs_path_has_drive_prefix (rp_path r) = None \<and> length (rp_path r) < RP_FS_NEOX_PATH_MAX \<and>
    (rp_path r = [slash] \<or> hd (rp_path r) \<noteq> slash) \<and>
    ''..'' \<notin> set (parts (rp_path r)) \<and> ''.'' \<notin> set (parts (rp_path r))"
proof -
  obtain cs where cs: "names cs" "rp_path r = shown_path (join cs)"
    "length (join cs) < RP_FS_NEOX_PATH_MAX" "rp_fs_path_device_valid (rp_device r)"
    using resolved_canonical [OF assms] .
  have "canonical (join cs)" using cs(1) by (auto simp: canonical_def)
  note v = shown_valid [OF this]
  have "parts (rp_path r) = cs"
    using cs(1,2) parts_join [OF cs(1)] join_empty [OF cs(1)]
    by (auto simp: shown_path_def parts_slash [of "[]", simplified])
  moreover have "''..'' \<notin> set cs" "''.'' \<notin> set cs"
    using cs(1) dots_invalid by (auto simp: names_def)
  ultimately show ?thesis
    using cs v hd_join(1) [OF cs(1)] join_empty [OF cs(1)]
    by (auto simp: shown_path_def RP_FS_NEOX_PATH_MAX_def)
qed

lemma after_reset: "cwds_ok (rp_fs_cwd_reset_all initial_cwds)"
  by (rule cwds_ok_reset [OF cwds_ok_initial])

theorem resolved_path_safe_witness:
  "length (rp_path \<lparr>rp_device = 2, rp_path = ''A/B''\<rparr>) < RP_FS_NEOX_PATH_MAX \<and>
   rp_fs_resolve_process_path 3 0 ''2:/A/./B/'' (rp_fs_cwd_reset_all initial_cwds) =
     Inr \<lparr>rp_device = 2, rp_path = ''A/B''\<rparr>"
proof -
  have "rp_fs_resolve_process_path 3 0 ''2:/A/./B/'' (rp_fs_cwd_reset_all initial_cwds) =
      Inr \<lparr>rp_device = 2, rp_path = ''A/B''\<rparr>"
    by code_simp
  with resolved_path_safe [OF after_reset this] show ?thesis by simp
qed

text \<open>
  C34: Every operation on the table of current directories keeps it well formed (a valid slot has an
  existing device and a canonical path of fewer than 32 characters), starting from the
  zero-initialised table.
\<close>

theorem cwd_operations_keep_table:
  "cwds_ok initial_cwds \<and>
   (\<forall>t. cwds_ok t \<longrightarrow> cwds_ok (rp_fs_cwd_reset_all t) \<and>
     (\<forall>pid d. cwds_ok (snd (rp_fs_cwd_init_root pid d t))) \<and>
     (\<forall>c p. cwds_ok (snd (rp_fs_cwd_clone c p t))) \<and>
     (\<forall>pid w. cwds_ok (snd (rp_fs_cwd_set pid w t))))"
  using cwds_ok_initial cwds_ok_reset cwds_ok_init_root cwds_ok_clone cwds_ok_set by blast

theorem cwd_operations_keep_table_witness:
  "cwds_ok (snd (rp_fs_cwd_set 2 \<lparr>rp_device = 1, rp_path = ''/DIR''\<rparr> initial_cwds))"
  using cwd_operations_keep_table by blast

text \<open>
  \<open>chdir\<close> and \<open>getcwd\<close> agree: a resolved directory that \<open>rp_fs_cwd_set\<close> accepts (exactly
  those of fewer than 32 characters) is what \<open>rp_fs_cwd_get\<close> returns afterwards, and no other
  process's directory changes.
\<close>

theorem chdir_then_getcwd:
  assumes "cwds_ok t" and "rp_fs_resolve_process_path pid fallback input t = Inr r"
  shows "let (done, t') = rp_fs_cwd_set pid r t in
    (done \<longleftrightarrow> length (rp_path r) < RP_FS_NEOX_CWD_MAX) \<and>
    (done \<longrightarrow> rp_fs_cwd_get pid t' = Some r) \<and>
    (\<forall>other. other \<noteq> pid \<longrightarrow> rp_fs_cwd_get other t' = rp_fs_cwd_get other t)"
proof -
  obtain cs where cs: "names cs" "rp_path r = shown_path (join cs)"
    "length (join cs) < RP_FS_NEOX_PATH_MAX" "rp_fs_path_device_valid (rp_device r)"
    using resolved_canonical [OF assms] .
  have "canonical (join cs)" using cs(1) by (auto simp: canonical_def)
  note v = shown_valid [OF this]
  have pid: "rp_fs_cwd_slot pid = Some (unat pid)" "unat pid < RP_FS_NEOX_MAX_PROCS"
    using assms(2) by (auto simp: rp_fs_resolve_process_path_def rp_fs_cwd_slot_def split: if_splits)
  have len: "length t = RP_FS_NEOX_MAX_PROCS" using assms(1) by (simp add: cwds_ok_def)
  have source: "(let s = rp_path r in if s \<noteq> [] \<and> hd s = slash then tl s else s) = join cs"
    using cs(2) hd_join [OF cs(1)] join_empty [OF cs(1)] by (auto simp: shown_path_def Let_def)
  have other: "rp_fs_cwd_get q (t[unat pid := w]) = rp_fs_cwd_get q t" if "q \<noteq> pid" for q w
  proof -
    have "unat pid \<noteq> unat q" using that by (simp add: word_unat_eq_iff [symmetric])
    then show ?thesis by (simp add: rp_fs_cwd_get_def rp_fs_cwd_slot_def)
  qed
  have set: "rp_fs_cwd_set pid r t = (if length (join cs) \<ge> RP_FS_NEOX_CWD_MAX then (False, t)
      else (True, t[unat pid := \<lparr>cwd_valid = True, cwd_device = rp_device r, cwd_path = join cs\<rparr>]))"
    using source pid cs v by (simp add: rp_fs_cwd_set_def Let_def)
  have r: "r = \<lparr>rp_device = rp_device r, rp_path = shown_path (join cs)\<rparr>"
    using cs(2) by (metis resolved_path.surjective old.unit.exhaust)
  show ?thesis
    unfolding set using other pid len cs(2) r hd_join [OF cs(1)]
    by (auto simp: rp_fs_cwd_get_def shown_path_def RP_FS_NEOX_CWD_MAX_def)
qed

theorem chdir_then_getcwd_witness:
  "rp_fs_cwd_get 3 (snd (rp_fs_cwd_set 3 \<lparr>rp_device = 2, rp_path = ''A/B''\<rparr>
     (rp_fs_cwd_reset_all initial_cwds))) = Some \<lparr>rp_device = 2, rp_path = ''A/B''\<rparr>"
proof -
  have "rp_fs_resolve_process_path 3 0 ''2:/A/./B/'' (rp_fs_cwd_reset_all initial_cwds) =
      Inr \<lparr>rp_device = 2, rp_path = ''A/B''\<rparr>"
    by code_simp
  from chdir_then_getcwd [OF after_reset this] show ?thesis
    by (simp add: split_beta Let_def RP_FS_NEOX_CWD_MAX_def)
qed

text \<open>
  What \<open>getcwd\<close> shows the caller names the same directory: the formatted \<open>N:/PATH\<close>, resolved by
  any process, gives back the device and path of the current directory, and it always fits a
  64-byte buffer.
\<close>

theorem formatted_cwd_resolves:
  assumes "cwds_ok t" and "rp_fs_cwd_get pid t = Some r" and "unat pid' < RP_FS_NEOX_MAX_PROCS"
  shows "\<exists>text. rp_fs_cwd_format pid RP_FS_NEOX_PATH_MAX t = Some text \<and>
    rp_fs_resolve_process_path pid' fallback text t = Inr r"
proof -
  have pid: "rp_fs_cwd_slot pid = Some (unat pid)" "unat pid < RP_FS_NEOX_MAX_PROCS"
    and valid: "cwd_valid (t ! unat pid)"
    using assms(2) by (auto simp: rp_fs_cwd_get_def rp_fs_cwd_slot_def split: if_splits)
  let ?w = "t ! unat pid"
  obtain cs where cs: "names cs" "cwd_path ?w = join cs" "length (join cs) < RP_FS_NEOX_CWD_MAX"
    "rp_fs_path_device_valid (cwd_device ?w)"
    using cwd_components [OF assms(1) pid(2) valid] .
  define s where "s = char_of (48 + unat (cwd_device ?w)) # CHR '':'' # slash # join cs"
  have dev: "unat (cwd_device ?w) < 4"
    using cs(4) by (simp add: rp_fs_path_device_valid_def USB_STORAGE_MAX_DEVICES_def word_less_nat_alt)
  have fmt: "rp_fs_cwd_format pid RP_FS_NEOX_PATH_MAX t = Some s"
    using pid valid cs by (simp add: rp_fs_cwd_format_def s_def RP_FS_NEOX_CWD_MAX_def RP_FS_NEOX_PATH_MAX_def)
  have pre: "rp_fs_path_has_drive_prefix s = Some (cwd_device ?w)"
    using dev by (simp add: s_def is_digit_def)
  have st: "start_of (t ! unat pid') fallback s = (cwd_device ?w, join cs, [])"
    using pre by (simp add: start_of_def) (simp add: s_def)
  have walk: "walk (parts (join cs)) [] = Inr cs"
    using walk_append [of cs "[]"] cs parts_join [OF cs(1)] cwd_fits_path by simp
  have ne: "s \<noteq> []" by (simp add: s_def)
  have "rp_fs_resolve_process_path pid' fallback s t =
      Inr \<lparr>rp_device = cwd_device ?w, rp_path = shown_path (join cs)\<rparr>"
    using resolve_process_path_walks_aux [OF assms(1,3) ne, of fallback] st walk cs(4) by simp
  moreover have "r = \<lparr>rp_device = cwd_device ?w, rp_path = shown_path (join cs)\<rparr>"
    using assms(2) pid valid cs(2) by (simp add: rp_fs_cwd_get_def)
  ultimately show ?thesis using fmt by blast
qed

theorem formatted_cwd_resolves_witness:
  "\<exists>text. rp_fs_cwd_format 2 64 (rp_fs_cwd_reset_all initial_cwds) = Some text \<and>
     rp_fs_resolve_process_path 5 3 text (rp_fs_cwd_reset_all initial_cwds) =
       Inr \<lparr>rp_device = 0, rp_path = ''/''\<rparr>"
proof -
  have "rp_fs_cwd_get 2 (rp_fs_cwd_reset_all initial_cwds) = Some \<lparr>rp_device = 0, rp_path = ''/''\<rparr>"
    by code_simp
  from formatted_cwd_resolves [OF after_reset this, of 5 3] show ?thesis
    by (simp add: RP_FS_NEOX_MAX_PROCS_def RP_FS_NEOX_PATH_MAX_def)
qed

end
