(* ===== verification/Storage.thy ===== *)
theory Storage
  imports Rp_Fs_Path_Spec
begin

text \<open>
  The USB storage slots of \<open>usb_storage.cpp\<close> and the mount state of \<open>usb_fatfs.cpp\<close>. FatFs and
  TinyUSB are libraries outside the repository: FatFs is the argument \<open>fatfs\<close>, a record of
  its calls on a file object, a directory object and its own state; what TinyUSB reports
  about a device are arguments of the callbacks.
\<close>

section \<open>FatFs as the code calls it\<close>

type_synonym fresult = nat

definition FR_OK :: fresult where "FR_OK = 0"

definition FA_READ :: u8 where "FA_READ = 0x01"
definition FA_WRITE :: u8 where "FA_WRITE = 0x02"
definition FA_OPEN_EXISTING :: u8 where "FA_OPEN_EXISTING = 0x00"
definition FA_CREATE_ALWAYS :: u8 where "FA_CREATE_ALWAYS = 0x08"
definition FA_OPEN_ALWAYS :: u8 where "FA_OPEN_ALWAYS = 0x10"

record filinfo =
  fname :: string
  altname :: string
  fattrib :: u8
  fsize :: u32

record ('f, 'd, 'k) fatfs =
  f_mount :: "string \<Rightarrow> bool \<Rightarrow> 'k \<Rightarrow> fresult \<times> 'k"      \<comment> \<open>\<open>False\<close>: null file system object\<close>
  f_open :: "string \<Rightarrow> u8 \<Rightarrow> 'k \<Rightarrow> fresult \<times> 'f \<times> 'k"
  f_close :: "'f \<Rightarrow> 'k \<Rightarrow> fresult \<times> 'k"
  f_read :: "'f \<Rightarrow> nat \<Rightarrow> 'k \<Rightarrow> fresult \<times> u8 list \<times> 'f \<times> 'k"
  f_write :: "'f \<Rightarrow> u8 list \<Rightarrow> 'k \<Rightarrow> fresult \<times> nat \<times> 'f \<times> 'k"
  f_lseek :: "'f \<Rightarrow> u32 \<Rightarrow> 'k \<Rightarrow> fresult \<times> 'f \<times> 'k"
  f_size :: "'f \<Rightarrow> u32"
  f_tell :: "'f \<Rightarrow> u32"
  f_unlink :: "string \<Rightarrow> 'k \<Rightarrow> fresult \<times> 'k"
  f_rename :: "string \<Rightarrow> string \<Rightarrow> 'k \<Rightarrow> fresult \<times> 'k"
  f_mkdir :: "string \<Rightarrow> 'k \<Rightarrow> fresult \<times> 'k"
  f_opendir :: "string \<Rightarrow> 'k \<Rightarrow> fresult \<times> 'd \<times> 'k"
  f_readdir :: "'d \<Rightarrow> 'k \<Rightarrow> fresult \<times> filinfo \<times> 'd \<times> 'k"
  f_closedir :: "'d \<Rightarrow> 'k \<Rightarrow> fresult \<times> 'k"

section \<open>State\<close>

record storage_slot =
  present :: bool
  mount_pending :: bool
  dev_addr :: u8
  lun :: u8
  block_count :: u32
  block_size :: u32
  mount_pending_since_ms :: u32

record 'f fs_handle =
  in_use :: bool
  h_device :: u8
  h_flags :: u8
  h_file :: 'f

record 'd dir_handle =
  d_in_use :: bool
  d_device :: u8
  d_dir :: 'd

record ('f, 'd, 'k) fs =
  gUSBStorageSlots :: "storage_slot list"
  gUSBFatFsMounted :: "bool list"
  gRPFSHandles :: "'f fs_handle list"
  gRPFSDirHandles :: "'d dir_handle list"
  fat_state :: 'k
  gStorageMountEnableMs :: u32
  gNextFatFsMountAllowedMs :: u32
  gUSBStorageInitialized :: bool

definition MAX_DEVICES :: nat where "MAX_DEVICES = unat USB_STORAGE_MAX_DEVICES"

definition no_slot :: storage_slot where
  "no_slot = \<lparr>present = False, mount_pending = False, dev_addr = 0, lun = 0, block_count = 0,
     block_size = 0, mount_pending_since_ms = 0\<rparr>"

section \<open>Slots\<close>

definition usb_storage_valid_device :: "u8 \<Rightarrow> bool" where
  "usb_storage_valid_device device \<longleftrightarrow> device < USB_STORAGE_MAX_DEVICES"

definition usb_storage_slot :: "u8 \<Rightarrow> ('f, 'd, 'k) fs \<Rightarrow> storage_slot option" where
  "usb_storage_slot device s =
     (if \<not> usb_storage_valid_device device then None else Some (gUSBStorageSlots s ! unat device))"

text \<open>The index of the first slot that satisfies a test, as the search loops return it.\<close>

fun find_index_from :: "nat \<Rightarrow> ('a \<Rightarrow> bool) \<Rightarrow> 'a list \<Rightarrow> nat option" where
  "find_index_from i P [] = None"
| "find_index_from i P (x # xs) = (if P x then Some i else find_index_from (Suc i) P xs)"

definition usb_storage_find_slot_by_dev_addr :: "u8 \<Rightarrow> ('f, 'd, 'k) fs \<Rightarrow> nat option" where
  "usb_storage_find_slot_by_dev_addr a s =
     find_index_from 0 (\<lambda>sl. present sl \<and> dev_addr sl = a) (gUSBStorageSlots s)"

definition usb_storage_find_free_slot :: "('f, 'd, 'k) fs \<Rightarrow> nat option" where
  "usb_storage_find_free_slot s = find_index_from 0 (\<lambda>sl. \<not> present sl) (gUSBStorageSlots s)"

definition usb_storage_clear_slot :: "u8 \<Rightarrow> (('f, 'd, 'k) fs, unit) state" where
  "usb_storage_clear_slot device =
     when_do (usb_storage_valid_device device)
       (modify (\<lambda>s. s\<lparr>gUSBStorageSlots := (gUSBStorageSlots s)[unat device := no_slot]\<rparr>))"

definition usb_storage_device_mounted :: "u8 \<Rightarrow> ('f, 'd, 'k) fs \<Rightarrow> bool" where
  "usb_storage_device_mounted device s =
     (case usb_storage_slot device s of None \<Rightarrow> False | Some sl \<Rightarrow> present sl)"

definition usb_storage_block_count :: "u8 \<Rightarrow> ('f, 'd, 'k) fs \<Rightarrow> u32" where
  "usb_storage_block_count device s =
     (case usb_storage_slot device s of None \<Rightarrow> 0 | Some sl \<Rightarrow> block_count sl)"

definition usb_storage_block_size :: "u8 \<Rightarrow> ('f, 'd, 'k) fs \<Rightarrow> u32" where
  "usb_storage_block_size device s =
     (case usb_storage_slot device s of None \<Rightarrow> 0 | Some sl \<Rightarrow> block_size sl)"

definition usb_storage_mounted_count :: "('f, 'd, 'k) fs \<Rightarrow> u8" where
  "usb_storage_mounted_count s =
     fold (\<lambda>d count. if usb_storage_device_mounted (of_nat d) s then count + 1 else count)
       [0..<MAX_DEVICES] 0"

definition usb_storage_sync :: "u8 \<Rightarrow> ('f, 'd, 'k) fs \<Rightarrow> bool" where
  "usb_storage_sync device s = usb_storage_device_mounted device s"

section \<open>Mounting\<close>

definition usb_fatfs_valid_device :: "u8 \<Rightarrow> bool" where
  "usb_fatfs_valid_device device \<longleftrightarrow> device < USB_STORAGE_MAX_DEVICES"

definition usb_fatfs_drive_name :: "u8 \<Rightarrow> string option" where
  "usb_fatfs_drive_name device =
     (if \<not> usb_fatfs_valid_device device \<or> device > 9 then None
      else Some [char_of (48 + unat device), CHR '':''])"

definition usb_fatfs_mounted :: "u8 \<Rightarrow> ('f, 'd, 'k) fs \<Rightarrow> bool" where
  "usb_fatfs_mounted device s \<longleftrightarrow> usb_fatfs_valid_device device \<and> gUSBFatFsMounted s ! unat device"

definition usb_fatfs_mounted_mask :: "('f, 'd, 'k) fs \<Rightarrow> u8" where
  "usb_fatfs_mounted_mask s =
     fold (\<lambda>d mask. if usb_fatfs_mounted (of_nat d) s then mask OR push_bit d 1 else mask)
       [0..<min MAX_DEVICES 8] 0"

definition usb_fatfs_mounted_count :: "('f, 'd, 'k) fs \<Rightarrow> u8" where
  "usb_fatfs_mounted_count s =
     fold (\<lambda>d count. if usb_fatfs_mounted (of_nat d) s then count + 1 else count) [0..<MAX_DEVICES] 0"

definition usb_storage_ready :: "u8 \<Rightarrow> ('f, 'd, 'k) fs \<Rightarrow> bool" where
  "usb_storage_ready device s \<longleftrightarrow> usb_storage_device_mounted device s \<and> usb_fatfs_mounted device s"

definition usb_storage_ready_mask :: "('f, 'd, 'k) fs \<Rightarrow> u8" where
  "usb_storage_ready_mask s =
     fold (\<lambda>d mask. if usb_storage_ready (of_nat d) s then mask OR push_bit d 1 else mask)
       [0..<min MAX_DEVICES 8] 0"

definition usb_storage_ready_count :: "('f, 'd, 'k) fs \<Rightarrow> u8" where
  "usb_storage_ready_count s =
     fold (\<lambda>d count. if usb_storage_ready (of_nat d) s then count + 1 else count) [0..<MAX_DEVICES] 0"

definition fat_call :: "('k \<Rightarrow> 'r \<times> 'k) \<Rightarrow> (('f, 'd, 'k) fs, 'r) state" where
  "fat_call g = do {
     r \<leftarrow> gets (\<lambda>s. fst (g (fat_state s)));
     modify (\<lambda>s. s\<lparr>fat_state := snd (g (fat_state s))\<rparr>);
     ret r
   }"

definition usb_fatfs_mount :: "('f, 'd, 'k) fatfs \<Rightarrow> u8 \<Rightarrow> (('f, 'd, 'k) fs, bool) state" where
  "usb_fatfs_mount ff device =
     (if \<not> usb_fatfs_valid_device device then ret False
      else do {
        already \<leftarrow> gets (\<lambda>s. gUSBFatFsMounted s ! unat device);
        if already then ret True
        else do {
          plugged \<leftarrow> gets (usb_storage_device_mounted device);
          if \<not> plugged then ret False
          else case usb_fatfs_drive_name device of
              None \<Rightarrow> ret False
            | Some drive \<Rightarrow> do {
                fr \<leftarrow> fat_call (f_mount ff drive True);
                if fr \<noteq> FR_OK then ret False
                else do {
                  modify (\<lambda>s. s\<lparr>gUSBFatFsMounted := (gUSBFatFsMounted s)[unat device := True]\<rparr>);
                  ret True
                }
              }
        }
      })"

end
