(* ===== verification/Rp_Fs.thy ===== *)
theory Rp_Fs
  imports Storage
begin

text \<open>
  \<open>rp_fs.cpp\<close>: four file handles and four directory handles over FatFs, with the checks of names,
  devices and permitted operations. The overloads without a device call the others with
  device 0 and are not repeated; a handle number or -1 is an option; the bytes read are a list.
\<close>

definition RP_FS_MAX_HANDLES :: nat where "RP_FS_MAX_HANDLES = 4"
definition RP_FS_MAX_DIR_HANDLES :: nat where "RP_FS_MAX_DIR_HANDLES = 4"
definition RP_FS_HANDLE_READ :: u8 where "RP_FS_HANDLE_READ = 0x01"
definition RP_FS_HANDLE_WRITE :: u8 where "RP_FS_HANDLE_WRITE = 0x02"
definition RP_FS_DIRENT_SIZE :: nat where "RP_FS_DIRENT_SIZE = 18"

section \<open>Handles\<close>

definition rp_fs_valid_handle :: "u8 \<Rightarrow> ('f, 'd, 'k) fs \<Rightarrow> bool" where
  "rp_fs_valid_handle handle s \<longleftrightarrow>
     unat handle < RP_FS_MAX_HANDLES \<and> in_use (gRPFSHandles s ! unat handle)"

definition rp_fs_valid_dir_handle :: "u8 \<Rightarrow> ('f, 'd, 'k) fs \<Rightarrow> bool" where
  "rp_fs_valid_dir_handle handle s \<longleftrightarrow>
     unat handle < RP_FS_MAX_DIR_HANDLES \<and> d_in_use (gRPFSDirHandles s ! unat handle)"

definition rp_fs_is_open :: "u8 \<Rightarrow> ('f, 'd, 'k) fs \<Rightarrow> bool" where
  "rp_fs_is_open handle s = rp_fs_valid_handle handle s"

definition rp_fs_dir_is_open :: "u8 \<Rightarrow> ('f, 'd, 'k) fs \<Rightarrow> bool" where
  "rp_fs_dir_is_open handle s = rp_fs_valid_dir_handle handle s"

definition rp_fs_free_handle_count :: "('f, 'd, 'k) fs \<Rightarrow> u8" where
  "rp_fs_free_handle_count s =
     fold (\<lambda>i count. if \<not> in_use (gRPFSHandles s ! i) then count + 1 else count) [0..<RP_FS_MAX_HANDLES] 0"

definition rp_fs_free_dir_handle_count :: "('f, 'd, 'k) fs \<Rightarrow> u8" where
  "rp_fs_free_dir_handle_count s =
     fold (\<lambda>i count. if \<not> d_in_use (gRPFSDirHandles s ! i) then count + 1 else count)
       [0..<RP_FS_MAX_DIR_HANDLES] 0"

definition rp_fs_valid_device :: "u8 \<Rightarrow> bool" where
  "rp_fs_valid_device device \<longleftrightarrow> device < USB_STORAGE_MAX_DEVICES"

definition rp_fs_handle_device :: "u8 \<Rightarrow> ('f, 'd, 'k) fs \<Rightarrow> u8" where
  "rp_fs_handle_device handle s =
     (if \<not> rp_fs_valid_handle handle s then 0xFF else h_device (gRPFSHandles s ! unat handle))"

section \<open>Names and paths\<close>

text \<open>The \<open>N:/\<close> test as this file writes it; short strings fail it at their NUL.\<close>

fun drive_qualified :: "string \<Rightarrow> bool" where
  "drive_qualified (c0 # c1 # c2 # cs) \<longleftrightarrow> is_digit c0 \<and> c1 = CHR '':'' \<and> c2 = slash"
| "drive_qualified _ \<longleftrightarrow> False"

text \<open>This copy of the character loop does not list the slash among the forbidden characters.\<close>

definition name_step :: "char \<Rightarrow> nat \<times> nat \<times> bool \<Rightarrow> (nat \<times> nat \<times> bool) option" where
  "name_step c = (\<lambda>(base_len, ext_len, in_ext).
     let x = code_of c in
     if x = 92 \<or> x = 58 \<or> x < 33 \<or> x \<ge> 127 then None
     else if 97 \<le> x \<and> x \<le> 122 then None
     else if x = 46 then
       (if in_ext \<or> base_len = 0 then None else Some (base_len, ext_len, True))
     else if \<not> (65 \<le> x \<and> x \<le> 90) \<and> \<not> (48 \<le> x \<and> x \<le> 57) \<and> x \<noteq> 95 \<and> x \<noteq> 45 \<and> x \<noteq> 36 \<and> x \<noteq> 126 then None
     else if in_ext then
       (if ext_len + 1 > 3 then None else Some (base_len, ext_len + 1, in_ext))
     else
       (if base_len + 1 > 8 then None else Some (base_len + 1, ext_len, in_ext)))"

fun name_loop :: "string \<Rightarrow> nat \<times> nat \<times> bool \<Rightarrow> bool" where
  "name_loop [] (base_len, ext_len, in_ext) = (base_len \<noteq> 0 \<and> (\<not> in_ext \<or> ext_len \<noteq> 0))"
| "name_loop (c # cs) st = (case name_step c st of None \<Rightarrow> False | Some st' \<Rightarrow> name_loop cs st')"

definition rp_fs_is_valid_83_component :: "string \<Rightarrow> bool" where
  "rp_fs_is_valid_83_component start \<longleftrightarrow> start \<noteq> [] \<and> name_loop start (0, 0, False)"

text \<open>Names of directory entries; this loop lists the slash as \<open>component_step\<close> does.\<close>

definition rp_fs_is_valid_83_name :: "string \<Rightarrow> bool" where
  "rp_fs_is_valid_83_name filename \<longleftrightarrow>
     filename \<noteq> [] \<and>
     component_loop (if drive_qualified filename then drop 3 filename else filename) (0, 0, False)"

fun name_path_loop :: "string \<Rightarrow> string \<Rightarrow> bool" where
  "name_path_loop component [] = rp_fs_is_valid_83_component component"
| "name_path_loop component (c # p) =
     (if c = slash then rp_fs_is_valid_83_component component \<and> p \<noteq> [] \<and> name_path_loop [] p
      else name_path_loop (component @ [c]) p)"

definition rp_fs_is_valid_83_path :: "string \<Rightarrow> bool" where
  "rp_fs_is_valid_83_path path =
     (let name = (if drive_qualified path then drop 3 path else path) in
      if name = [] then True
      else let name' = (if hd name = slash then tl name else name)
        in if hd name = slash \<and> name' = [] then True else name_path_loop [] name')"

definition drive_root :: "u8 \<Rightarrow> string" where
  "drive_root device = [char_of (48 + unat device), CHR '':'', slash]"

definition rp_fs_make_path :: "u8 \<Rightarrow> string \<Rightarrow> nat \<Rightarrow> string option" where
  "rp_fs_make_path device filename out_len =
     (if filename = [] \<or> out_len = 0 then None
      else if \<not> rp_fs_valid_device device \<or> device > 9 \<or> out_len < 4 then None
      else if \<not> rp_fs_is_valid_83_path filename then None
      else if drive_qualified filename \<and> of_nat (code_of (hd filename) - 48) \<noteq> device then None
      else let logical = (if drive_qualified filename then drop 3 filename else filename) in
        if logical = [] \<or> logical = [slash] then None
        else if drive_qualified filename then
          (if length filename \<ge> out_len then None else Some filename)
        else let logical = (if hd logical = slash then tl logical else logical) in
          if length logical = 0 \<or> 3 + length logical \<ge> out_len then None
          else Some (drive_root device @ logical))"

definition rp_fs_make_dir_path :: "u8 \<Rightarrow> string \<Rightarrow> nat \<Rightarrow> string option" where
  "rp_fs_make_dir_path device dirname out_len =
     (if out_len = 0 then None
      else if \<not> rp_fs_valid_device device \<or> device > 9 \<or> out_len < 4 then None
      else if \<not> rp_fs_is_valid_83_path dirname then None
      else if drive_qualified dirname then
        (if of_nat (code_of (hd dirname) - 48) \<noteq> device then None
         else if length dirname \<ge> out_len then None
         else Some dirname)
      else if dirname = [] \<or> dirname = [slash] then Some (drive_root device)
      else let source = (if hd dirname = slash then tl dirname else dirname) in
        if 3 + length source \<ge> out_len then None
        else Some (drive_root device @ source))"

definition rp_fs_ready_any :: "('f, 'd, 'k) fs \<Rightarrow> bool" where
  "rp_fs_ready_any s \<longleftrightarrow> usb_fatfs_mounted_mask s \<noteq> 0"

definition rp_fs_ready :: "u8 \<Rightarrow> ('f, 'd, 'k) fs \<Rightarrow> bool" where
  "rp_fs_ready device s \<longleftrightarrow> rp_fs_valid_device device \<and> usb_fatfs_mounted device s"

definition PATH_BUF :: nat where "PATH_BUF = 96"

definition rp_fs_is_root_dir_path :: "string \<Rightarrow> bool" where
  "rp_fs_is_root_dir_path path \<longleftrightarrow> drive_qualified path \<and> length path = 3"

section \<open>Opening and closing files\<close>

text \<open>The check that starts every operation by name: the device exists and is mounted, or can be.\<close>

definition mount_on_demand :: "('f, 'd, 'k) fatfs \<Rightarrow> u8 \<Rightarrow> (('f, 'd, 'k) fs, bool) state" where
  "mount_on_demand ff device =
     (if \<not> rp_fs_valid_device device then ret False
      else do {
        mounted \<leftarrow> gets (usb_fatfs_mounted device);
        if \<not> mounted then usb_fatfs_mount ff device else ret True
      })"

definition rp_fs_open_mode_83 ::
  "('f, 'd, 'k) fatfs \<Rightarrow> u8 \<Rightarrow> string \<Rightarrow> u8 \<Rightarrow> u8 \<Rightarrow> (('f, 'd, 'k) fs, nat option) state" where
  "rp_fs_open_mode_83 ff device filename fatfs_mode handle_flags = do {
     ok \<leftarrow> mount_on_demand ff device;
     if \<not> ok then ret None
     else do {
       found \<leftarrow> gets (\<lambda>s. find_index_from 0 (\<lambda>h. \<not> in_use h) (gRPFSHandles s));
       case found of None \<Rightarrow> ret None
       | Some slot \<Rightarrow>
           (case rp_fs_make_path device filename PATH_BUF of None \<Rightarrow> ret None
            | Some path \<Rightarrow> do {
                r \<leftarrow> fat_call (\<lambda>k. case f_open ff path fatfs_mode k of (fr, f, k') \<Rightarrow> ((fr, f), k'));
                modify (\<lambda>s. s\<lparr>gRPFSHandles := (gRPFSHandles s)
                   [slot := (gRPFSHandles s ! slot)\<lparr>h_file := snd r\<rparr>]\<rparr>);
                if fst r \<noteq> FR_OK then ret None
                else do {
                  modify (\<lambda>s. s\<lparr>gRPFSHandles := (gRPFSHandles s)
                    [slot := (gRPFSHandles s ! slot)\<lparr>h_device := device, h_flags := handle_flags,
                              in_use := True\<rparr>]\<rparr>);
                  ret (Some slot)
                }
              })
     }
   }"

definition rp_fs_open_readonly_83 ::
  "('f, 'd, 'k) fatfs \<Rightarrow> u8 \<Rightarrow> string \<Rightarrow> (('f, 'd, 'k) fs, nat option) state" where
  "rp_fs_open_readonly_83 ff device filename =
     rp_fs_open_mode_83 ff device filename FA_READ RP_FS_HANDLE_READ"

definition rp_fs_open_write_truncate_83 ::
  "('f, 'd, 'k) fatfs \<Rightarrow> u8 \<Rightarrow> string \<Rightarrow> (('f, 'd, 'k) fs, nat option) state" where
  "rp_fs_open_write_truncate_83 ff device filename =
     rp_fs_open_mode_83 ff device filename (FA_WRITE OR FA_CREATE_ALWAYS) RP_FS_HANDLE_WRITE"

definition rp_fs_open_write_existing_83 ::
  "('f, 'd, 'k) fatfs \<Rightarrow> u8 \<Rightarrow> string \<Rightarrow> (('f, 'd, 'k) fs, nat option) state" where
  "rp_fs_open_write_existing_83 ff device filename =
     rp_fs_open_mode_83 ff device filename (FA_READ OR FA_WRITE OR FA_OPEN_EXISTING) RP_FS_HANDLE_WRITE"

definition rp_fs_open_rw_existing_83 ::
  "('f, 'd, 'k) fatfs \<Rightarrow> u8 \<Rightarrow> string \<Rightarrow> (('f, 'd, 'k) fs, nat option) state" where
  "rp_fs_open_rw_existing_83 ff device filename =
     rp_fs_open_mode_83 ff device filename (FA_READ OR FA_WRITE OR FA_OPEN_EXISTING)
       (RP_FS_HANDLE_READ OR RP_FS_HANDLE_WRITE)"

definition rp_fs_open_rw_create_83 ::
  "('f, 'd, 'k) fatfs \<Rightarrow> u8 \<Rightarrow> string \<Rightarrow> (('f, 'd, 'k) fs, nat option) state" where
  "rp_fs_open_rw_create_83 ff device filename =
     rp_fs_open_mode_83 ff device filename (FA_READ OR FA_WRITE OR FA_OPEN_ALWAYS)
       (RP_FS_HANDLE_READ OR RP_FS_HANDLE_WRITE)"

text \<open>Closing releases the slot whatever FatFs answers.\<close>

definition release_handle :: "nat \<Rightarrow> (('f, 'd, 'k) fs, unit) state" where
  "release_handle i = modify (\<lambda>s. s\<lparr>gRPFSHandles := (gRPFSHandles s)
     [i := (gRPFSHandles s ! i)\<lparr>in_use := False, h_device := 0, h_flags := 0\<rparr>]\<rparr>)"

definition release_dir_handle :: "nat \<Rightarrow> (('f, 'd, 'k) fs, unit) state" where
  "release_dir_handle i = modify (\<lambda>s. s\<lparr>gRPFSDirHandles := (gRPFSDirHandles s)
     [i := (gRPFSDirHandles s ! i)\<lparr>d_in_use := False, d_device := 0\<rparr>]\<rparr>)"

definition rp_fs_close :: "('f, 'd, 'k) fatfs \<Rightarrow> u8 \<Rightarrow> (('f, 'd, 'k) fs, bool) state" where
  "rp_fs_close ff handle = do {
     valid \<leftarrow> gets (rp_fs_valid_handle handle);
     if \<not> valid then ret False
     else do {
       f \<leftarrow> gets (\<lambda>s. h_file (gRPFSHandles s ! unat handle));
       fr \<leftarrow> fat_call (f_close ff f);
       release_handle (unat handle);
       ret (fr = FR_OK)
     }
   }"

section \<open>Transfers\<close>

text \<open>A FatFs call on the file object of a handle.\<close>

definition file_call :: "u8 \<Rightarrow> ('f \<Rightarrow> 'k \<Rightarrow> 'r \<times> 'f \<times> 'k) \<Rightarrow> (('f, 'd, 'k) fs, 'r) state" where
  "file_call handle g = do {
     r \<leftarrow> gets (\<lambda>s. g (h_file (gRPFSHandles s ! unat handle)) (fat_state s));
     modify (\<lambda>s. s\<lparr>gRPFSHandles := (gRPFSHandles s)
         [unat handle := (gRPFSHandles s ! unat handle)\<lparr>h_file := fst (snd r)\<rparr>],
       fat_state := snd (snd r)\<rparr>);
     ret (fst r)
   }"

definition rp_fs_read ::
  "('f, 'd, 'k) fatfs \<Rightarrow> u8 \<Rightarrow> u16 \<Rightarrow> (('f, 'd, 'k) fs, u8 list option) state" where
  "rp_fs_read ff handle len = do {
     valid \<leftarrow> gets (rp_fs_valid_handle handle);
     flags \<leftarrow> gets (\<lambda>s. h_flags (gRPFSHandles s ! unat handle));
     if \<not> valid then ret None
     else if flags AND RP_FS_HANDLE_READ = 0 then ret None
     else if len = 0 then ret (Some [])
     else do {
       r \<leftarrow> file_call handle (\<lambda>f k. case f_read ff f (unat len) k of
              (fr, data, f', k') \<Rightarrow> ((fr, data), f', k'));
       if fst r \<noteq> FR_OK then ret None else ret (Some (snd r))
     }
   }"

definition rp_fs_write ::
  "('f, 'd, 'k) fatfs \<Rightarrow> u8 \<Rightarrow> u8 list \<Rightarrow> (('f, 'd, 'k) fs, nat option) state" where
  "rp_fs_write ff handle src = do {
     valid \<leftarrow> gets (rp_fs_valid_handle handle);
     flags \<leftarrow> gets (\<lambda>s. h_flags (gRPFSHandles s ! unat handle));
     if \<not> valid then ret None
     else if flags AND RP_FS_HANDLE_WRITE = 0 then ret None
     else if length src = 0 then ret (Some 0)
     else do {
       r \<leftarrow> file_call handle (\<lambda>f k. case f_write ff f src k of
              (fr, bw, f', k') \<Rightarrow> ((fr, bw), f', k'));
       if fst r \<noteq> FR_OK then ret None else ret (Some (snd r))
     }
   }"

definition rp_fs_seek :: "('f, 'd, 'k) fatfs \<Rightarrow> u8 \<Rightarrow> u32 \<Rightarrow> (('f, 'd, 'k) fs, bool) state" where
  "rp_fs_seek ff handle position = do {
     valid \<leftarrow> gets (rp_fs_valid_handle handle);
     if \<not> valid then ret False
     else do {
       fr \<leftarrow> file_call handle (\<lambda>f k. f_lseek ff f position k);
       ret (fr = FR_OK)
     }
   }"

definition rp_fs_size :: "('f, 'd, 'k) fatfs \<Rightarrow> u8 \<Rightarrow> ('f, 'd, 'k) fs \<Rightarrow> u32" where
  "rp_fs_size ff handle s =
     (if \<not> rp_fs_valid_handle handle s then 0 else f_size ff (h_file (gRPFSHandles s ! unat handle)))"

definition rp_fs_position :: "('f, 'd, 'k) fatfs \<Rightarrow> u8 \<Rightarrow> ('f, 'd, 'k) fs \<Rightarrow> u32" where
  "rp_fs_position ff handle s =
     (if \<not> rp_fs_valid_handle handle s then 0 else f_tell ff (h_file (gRPFSHandles s ! unat handle)))"

section \<open>Operations by name\<close>

definition rp_fs_delete_83 :: "('f, 'd, 'k) fatfs \<Rightarrow> u8 \<Rightarrow> string \<Rightarrow> (('f, 'd, 'k) fs, bool) state" where
  "rp_fs_delete_83 ff device filename = do {
     ok \<leftarrow> mount_on_demand ff device;
     if \<not> ok then ret False
     else case rp_fs_make_path device filename PATH_BUF of
         None \<Rightarrow> ret False
       | Some path \<Rightarrow> do { fr \<leftarrow> fat_call (f_unlink ff path); ret (fr = FR_OK) }
   }"

definition rp_fs_rename_83 ::
  "('f, 'd, 'k) fatfs \<Rightarrow> u8 \<Rightarrow> string \<Rightarrow> string \<Rightarrow> (('f, 'd, 'k) fs, bool) state" where
  "rp_fs_rename_83 ff device old_filename new_filename = do {
     ok \<leftarrow> mount_on_demand ff device;
     if \<not> ok then ret False
     else case (rp_fs_make_path device old_filename PATH_BUF, rp_fs_make_path device new_filename PATH_BUF) of
         (Some old_path, Some new_path) \<Rightarrow> do {
           fr \<leftarrow> fat_call (f_rename ff old_path new_path); ret (fr = FR_OK) }
       | _ \<Rightarrow> ret False
   }"

definition rp_fs_mkdir_83 :: "('f, 'd, 'k) fatfs \<Rightarrow> u8 \<Rightarrow> string \<Rightarrow> (('f, 'd, 'k) fs, bool) state" where
  "rp_fs_mkdir_83 ff device dirname = do {
     ok \<leftarrow> mount_on_demand ff device;
     if \<not> ok then ret False
     else case rp_fs_make_dir_path device dirname PATH_BUF of
         None \<Rightarrow> ret False
       | Some path \<Rightarrow>
           if rp_fs_is_root_dir_path path then ret False
           else do { fr \<leftarrow> fat_call (f_mkdir ff path); ret (fr = FR_OK) }
   }"

definition rp_fs_rmdir_83 :: "('f, 'd, 'k) fatfs \<Rightarrow> u8 \<Rightarrow> string \<Rightarrow> (('f, 'd, 'k) fs, bool) state" where
  "rp_fs_rmdir_83 ff device dirname = do {
     ok \<leftarrow> mount_on_demand ff device;
     if \<not> ok then ret False
     else case rp_fs_make_dir_path device dirname PATH_BUF of
         None \<Rightarrow> ret False
       | Some path \<Rightarrow>
           if rp_fs_is_root_dir_path path then ret False
           else do { fr \<leftarrow> fat_call (f_unlink ff path); ret (fr = FR_OK) }
   }"

section \<open>Directories\<close>

definition rp_fs_opendir_83 ::
  "('f, 'd, 'k) fatfs \<Rightarrow> u8 \<Rightarrow> string \<Rightarrow> (('f, 'd, 'k) fs, nat option) state" where
  "rp_fs_opendir_83 ff device dirname = do {
     ok \<leftarrow> mount_on_demand ff device;
     if \<not> ok then ret None
     else do {
       found \<leftarrow> gets (\<lambda>s. find_index_from 0 (\<lambda>h. \<not> d_in_use h) (gRPFSDirHandles s));
       case found of None \<Rightarrow> ret None
       | Some slot \<Rightarrow>
           (case rp_fs_make_dir_path device dirname PATH_BUF of None \<Rightarrow> ret None
            | Some path \<Rightarrow> do {
                r \<leftarrow> fat_call (\<lambda>k. case f_opendir ff path k of (fr, d, k') \<Rightarrow> ((fr, d), k'));
                modify (\<lambda>s. s\<lparr>gRPFSDirHandles := (gRPFSDirHandles s)
                   [slot := (gRPFSDirHandles s ! slot)\<lparr>d_dir := snd r\<rparr>]\<rparr>);
                if fst r \<noteq> FR_OK then ret None
                else do {
                  modify (\<lambda>s. s\<lparr>gRPFSDirHandles := (gRPFSDirHandles s)
                    [slot := (gRPFSDirHandles s ! slot)\<lparr>d_device := device, d_in_use := True\<rparr>]\<rparr>);
                  ret (Some slot)
                }
              })
     }
   }"

text \<open>The outcome of \<open>rp_fs_readdir\<close>: 1 with an entry, 0, or -1.\<close>

datatype readdir_result = Entry string u8 u32 | End_Of_Dir | Readdir_Error

text \<open>
  The loop \<open>for (;;)\<close> ends when FatFs reports an error or the end of the directory or gives an
  entry that is shown. A FAT directory has at most 65536 entries of 32 bytes, so
  \<open>DIR_FUEL\<close> rounds are enough; running out of them counts as an error.
\<close>

definition DIR_FUEL :: nat where "DIR_FUEL = 65537"

text \<open>\<open>FF_USE_LFN\<close> is 1: a long name is replaced by its 8.3 alias if it has a valid one.\<close>

definition shown_name :: "filinfo \<Rightarrow> string option" where
  "shown_name info =
     (if fname info = ''.'' \<or> fname info = ''..'' then None
      else if rp_fs_is_valid_83_name (fname info) then Some (fname info)
      else if altname info \<noteq> [] \<and> rp_fs_is_valid_83_name (altname info) then Some (altname info)
      else None)"

fun readdir_loop ::
  "('f, 'd, 'k) fatfs \<Rightarrow> nat \<Rightarrow> nat \<Rightarrow> 'd \<Rightarrow> 'k \<Rightarrow> readdir_result \<times> 'd \<times> 'k" where
  "readdir_loop ff 0 name_len d k = (Readdir_Error, d, k)"
| "readdir_loop ff (Suc n) name_len d k =
     (case f_readdir ff d k of (fr, info, d', k') \<Rightarrow>
       if fr \<noteq> FR_OK then (Readdir_Error, d', k')
       else if fname info = [] then (End_Of_Dir, d', k')
       else case shown_name info of
           None \<Rightarrow> readdir_loop ff n name_len d' k'
         | Some entry_name \<Rightarrow>
             if length entry_name \<ge> name_len then (Readdir_Error, d', k')
             else (Entry entry_name (fattrib info) (fsize info), d', k'))"

definition rp_fs_readdir ::
  "('f, 'd, 'k) fatfs \<Rightarrow> u8 \<Rightarrow> nat \<Rightarrow> (('f, 'd, 'k) fs, readdir_result) state" where
  "rp_fs_readdir ff handle name_len = do {
     valid \<leftarrow> gets (rp_fs_valid_dir_handle handle);
     if \<not> valid \<or> name_len < 13 then ret Readdir_Error
     else do {
       r \<leftarrow> gets (\<lambda>s. readdir_loop ff DIR_FUEL name_len
              (d_dir (gRPFSDirHandles s ! unat handle)) (fat_state s));
       modify (\<lambda>s. s\<lparr>gRPFSDirHandles := (gRPFSDirHandles s)
           [unat handle := (gRPFSDirHandles s ! unat handle)\<lparr>d_dir := fst (snd r)\<rparr>],
         fat_state := snd (snd r)\<rparr>);
       ret (fst r)
     }
   }"

definition rp_fs_closedir :: "('f, 'd, 'k) fatfs \<Rightarrow> u8 \<Rightarrow> (('f, 'd, 'k) fs, bool) state" where
  "rp_fs_closedir ff handle = do {
     valid \<leftarrow> gets (rp_fs_valid_dir_handle handle);
     if \<not> valid then ret False
     else do {
       d \<leftarrow> gets (\<lambda>s. d_dir (gRPFSDirHandles s ! unat handle));
       fr \<leftarrow> fat_call (f_closedir ff d);
       release_dir_handle (unat handle);
       ret (fr = FR_OK)
     }
   }"

section \<open>Closing everything\<close>

text \<open>Both loops close the handles that satisfy a test: all in use, or those of one device.\<close>

definition close_file_body ::
  "('f, 'd, 'k) fatfs \<Rightarrow> ('f fs_handle \<Rightarrow> bool) \<Rightarrow> nat \<Rightarrow> (('f, 'd, 'k) fs, unit) state" where
  "close_file_body ff P i = do {
     h \<leftarrow> gets (\<lambda>s. gRPFSHandles s ! i);
     when_do (in_use h \<and> P h) (do {
       fat_call (f_close ff (h_file h));
       release_handle i
     })
   }"

definition close_dir_body ::
  "('f, 'd, 'k) fatfs \<Rightarrow> ('d dir_handle \<Rightarrow> bool) \<Rightarrow> nat \<Rightarrow> (('f, 'd, 'k) fs, unit) state" where
  "close_dir_body ff P i = do {
     h \<leftarrow> gets (\<lambda>s. gRPFSDirHandles s ! i);
     when_do (d_in_use h \<and> P h) (do {
       fat_call (f_closedir ff (d_dir h));
       release_dir_handle i
     })
   }"

definition close_files_where ::
  "('f, 'd, 'k) fatfs \<Rightarrow> ('f fs_handle \<Rightarrow> bool) \<Rightarrow> (('f, 'd, 'k) fs, unit) state" where
  "close_files_where ff P = for_each [0..<RP_FS_MAX_HANDLES] (close_file_body ff P)"

definition close_dirs_where ::
  "('f, 'd, 'k) fatfs \<Rightarrow> ('d dir_handle \<Rightarrow> bool) \<Rightarrow> (('f, 'd, 'k) fs, unit) state" where
  "close_dirs_where ff P = for_each [0..<RP_FS_MAX_DIR_HANDLES] (close_dir_body ff P)"

definition rp_fs_close_all :: "('f, 'd, 'k) fatfs \<Rightarrow> (('f, 'd, 'k) fs, unit) state" where
  "rp_fs_close_all ff = do {
     close_files_where ff (\<lambda>h. True);
     close_dirs_where ff (\<lambda>h. True)
   }"

definition rp_fs_close_all_for_device ::
  "('f, 'd, 'k) fatfs \<Rightarrow> u8 \<Rightarrow> (('f, 'd, 'k) fs, unit) state" where
  "rp_fs_close_all_for_device ff device =
     when_do (rp_fs_valid_device device) (do {
       close_files_where ff (\<lambda>h. h_device h = device);
       close_dirs_where ff (\<lambda>h. d_device h = device)
     })"

end
