(* ===== verification/Rp_Fs_Spec.thy ===== *)
theory Rp_Fs_Spec
  imports Rp_Fs
begin

text \<open>
  The handle discipline of the file layer: no handle on a device that is not mounted, no file
  system on a device that is not there, paths that always fit their buffer, and the agreement
  of the two copies of the name validation.
\<close>

section \<open>The two validators\<close>

lemma name_step_same: "name_step c st = component_step c st"
  by (cases st) (simp add: name_step_def component_step_def Let_def)

lemma name_loop_same: "name_loop cs st = component_loop cs st"
  by (induction cs arbitrary: st) (auto simp: name_step_same split: option.splits)

lemma component_same: "rp_fs_is_valid_83_component c = rp_fs_path_component_valid_83 c"
  by (simp add: rp_fs_is_valid_83_component_def rp_fs_path_component_valid_83_def name_loop_same)

lemma path_loop_same: "name_path_loop acc p = path_loop acc p"
  by (induction acc p rule: path_loop.induct) (simp_all add: component_same)

lemma drive_qualified_iff: "drive_qualified p \<longleftrightarrow> rp_fs_path_has_drive_prefix p \<noteq> None"
  by (cases p rule: drive_qualified.cases) auto

lemma is_valid_path_logical:
  "rp_fs_is_valid_83_path p = logical_valid (if drive_qualified p then drop 3 p else p)"
  by (simp add: rp_fs_is_valid_83_path_def logical_valid_def path_loop_same Let_def)

text \<open>
  The copy of the path validation in \<open>rp_fs.cpp\<close> and the one in \<open>rp_fs_path.cpp\<close> accept the same
  components, and the same paths as far as the drive they name exists.
\<close>

theorem path_validators_agree:
  "rp_fs_is_valid_83_component c = rp_fs_path_component_valid_83 c \<and>
   (rp_fs_path_valid_83 p \<longleftrightarrow> rp_fs_is_valid_83_path p \<and>
      (case rp_fs_path_has_drive_prefix p of None \<Rightarrow> True | Some d \<Rightarrow> rp_fs_path_device_valid d))"
  using drive_qualified_iff [of p]
  by (auto simp: component_same is_valid_path_logical rp_fs_path_valid_83_def split: option.splits)

section \<open>Paths for FatFs\<close>

lemma device_valid_same:
  "rp_fs_path_device_valid d \<longleftrightarrow> rp_fs_valid_device d"
  "rp_fs_valid_device d \<Longrightarrow> \<not> d > 9"
  by (auto simp: rp_fs_path_device_valid_def rp_fs_valid_device_def USB_STORAGE_MAX_DEVICES_def
      word_less_nat_alt word_le_nat_alt)

lemma resolved_is_valid:
  assumes "names cs"
  shows "rp_fs_is_valid_83_path (shown_path (join cs))" and "\<not> drive_qualified (shown_path (join cs))"
proof -
  have "canonical (join cs)" using assms by (auto simp: canonical_def)
  note v = shown_valid [OF this]
  show "\<not> drive_qualified (shown_path (join cs))" using v(2) by (simp add: drive_qualified_iff)
  then show "rp_fs_is_valid_83_path (shown_path (join cs))"
    using v by (simp add: is_valid_path_logical rp_fs_path_valid_83_def)
qed

lemma make_path_resolved:
  assumes "names cs" and "cs \<noteq> []" and "length (join cs) < RP_FS_NEOX_PATH_MAX"
    and "rp_fs_path_device_valid d"
  shows "rp_fs_make_path d (join cs) PATH_BUF = Some (drive_root d @ join cs)"
  using resolved_is_valid [OF assms(1)] hd_join [OF assms(1,2)] assms(3,4) device_valid_same
  by (auto simp: rp_fs_make_path_def Let_def shown_path_def PATH_BUF_def RP_FS_NEOX_PATH_MAX_def)

lemma make_dir_path_resolved:
  assumes "names cs" and "length (join cs) < RP_FS_NEOX_PATH_MAX"
    and "rp_fs_path_device_valid d"
  shows "rp_fs_make_dir_path d (shown_path (join cs)) PATH_BUF = Some (drive_root d @ join cs)"
proof (cases "cs = []")
  case True
  then show ?thesis
    using resolved_is_valid [OF assms(1)] assms(3) device_valid_same
    by (simp add: rp_fs_make_dir_path_def Let_def shown_path_def PATH_BUF_def)
next
  case False
  then show ?thesis
    using resolved_is_valid [OF assms(1)] hd_join [OF assms(1) False] assms(2,3) device_valid_same
    by (auto simp: rp_fs_make_dir_path_def Let_def shown_path_def PATH_BUF_def RP_FS_NEOX_PATH_MAX_def)
qed

lemma resolved_path_both:
  assumes "cwds_ok t" and "rp_fs_resolve_process_path pid fallback input t = Inr r"
  shows "rp_fs_make_dir_path (rp_device r) (rp_path r) PATH_BUF =
      Some (drive_root (rp_device r) @ (if rp_path r = [slash] then [] else rp_path r)) \<and>
    rp_fs_make_path (rp_device r) (rp_path r) PATH_BUF =
      (if rp_path r = [slash] then None else Some (drive_root (rp_device r) @ rp_path r))"
proof -
  obtain cs where cs: "names cs" "rp_path r = shown_path (join cs)"
    "length (join cs) < RP_FS_NEOX_PATH_MAX" "rp_fs_path_device_valid (rp_device r)"
    using resolved_canonical [OF assms] .
  show ?thesis
  proof (cases "cs = []")
    case True
    then show ?thesis
      using cs make_dir_path_resolved [OF cs(1,3,4)] resolved_is_valid [OF cs(1)]
      by (simp add: shown_path_def rp_fs_make_path_def Let_def)
  next
    case False
    then have "join cs \<noteq> [slash]" "join cs \<noteq> []"
      using hd_join [OF cs(1) False] by (auto dest: arg_cong [of _ _ hd])
    with False show ?thesis
      using cs make_dir_path_resolved [OF cs(1,3,4)] make_path_resolved [OF cs(1) False cs(3,4)]
      by (simp add: shown_path_def)
  qed
qed

text \<open>
  The path engine and the file layer fit together: what resolution returns is always accepted as a
  directory, and as a file unless it is the root, and FatFs then gets the path \<open>N:/\<close>
  followed by its components; the 96-byte buffers are never too short.
\<close>

theorem resolved_path_reaches_fatfs:
  assumes "cwds_ok t" and "rp_fs_resolve_process_path pid fallback input t = Inr r"
  shows "rp_fs_make_dir_path (rp_device r) (rp_path r) PATH_BUF =
      Some (drive_root (rp_device r) @ (if rp_path r = [slash] then [] else rp_path r)) \<and>
    rp_fs_make_path (rp_device r) (rp_path r) PATH_BUF =
      (if rp_path r = [slash] then None else Some (drive_root (rp_device r) @ rp_path r))"
  using assms by (rule resolved_path_both)

theorem resolved_path_reaches_fatfs_witness:
  "rp_fs_make_path 2 ''A/B'' PATH_BUF = Some ''2:/A/B''"
proof -
  have r: "rp_fs_resolve_process_path 3 0 ''2:/A/./B/'' (rp_fs_cwd_reset_all initial_cwds) =
      Inr \<lparr>rp_device = 2, rp_path = ''A/B''\<rparr>"
    by code_simp
  have "drive_root 2 = ''2:/''" by code_simp
  with resolved_path_reaches_fatfs [OF after_reset r] show ?thesis by (simp add: slash_def)
qed

section \<open>The handle invariant\<close>

lemma find_index_from_Some:
  "find_index_from n P xs = Some i \<Longrightarrow> n \<le> i \<and> i - n < length xs \<and> P (xs ! (i - n)) \<and>
     (\<forall>j<i - n. \<not> P (xs ! j))"
proof (induction xs arbitrary: n)
  case (Cons x xs)
  show ?case
  proof (cases "P x")
    case False
    then have "find_index_from (Suc n) P xs = Some i" using Cons.prems by simp
    note ih = Cons.IH [OF this]
    then have "i - n = Suc (i - Suc n)" by linarith
    with ih False show ?thesis by (auto simp: less_Suc_eq_0_disj)
  qed (use Cons.prems in auto)
qed simp

definition handles_ok :: "(u8 \<Rightarrow> bool) \<Rightarrow> 'f fs_handle list \<Rightarrow> bool" where
  "handles_ok m hs \<longleftrightarrow> length hs = RP_FS_MAX_HANDLES \<and> (\<forall>h\<in>set hs. in_use h \<longrightarrow> m (h_device h))"

definition dirs_ok :: "(u8 \<Rightarrow> bool) \<Rightarrow> 'd dir_handle list \<Rightarrow> bool" where
  "dirs_ok m ds \<longleftrightarrow> length ds = RP_FS_MAX_DIR_HANDLES \<and> (\<forall>h\<in>set ds. d_in_use h \<longrightarrow> m (d_device h))"

definition storage_ok :: "('f, 'd, 'k) fs \<Rightarrow> bool" where
  "storage_ok s \<longleftrightarrow>
     length (gUSBStorageSlots s) = 4 \<and> length (gUSBFatFsMounted s) = 4 \<and>
     handles_ok (\<lambda>d. usb_fatfs_mounted d s) (gRPFSHandles s) \<and>
     dirs_ok (\<lambda>d. usb_fatfs_mounted d s) (gRPFSDirHandles s) \<and>
     (\<forall>d. usb_fatfs_mounted d s \<longrightarrow> usb_storage_device_mounted d s)"

lemma handles_ok_update:
  "handles_ok m hs \<Longrightarrow> (in_use h \<longrightarrow> m (h_device h)) \<Longrightarrow> handles_ok m (hs[i := h])"
  by (auto simp: handles_ok_def dest!: set_update_subset_insert [THEN subsetD])

lemma dirs_ok_update:
  "dirs_ok m ds \<Longrightarrow> (d_in_use h \<longrightarrow> m (d_device h)) \<Longrightarrow> dirs_ok m (ds[i := h])"
  by (auto simp: dirs_ok_def dest!: set_update_subset_insert [THEN subsetD])

text \<open>Changes that the predicates above do not look at.\<close>

lemma mounted_upd [simp]:
  "usb_fatfs_mounted d (s\<lparr>gRPFSHandles := hs\<rparr>) = usb_fatfs_mounted d s"
  "usb_fatfs_mounted d (s\<lparr>gRPFSDirHandles := ds\<rparr>) = usb_fatfs_mounted d s"
  "usb_fatfs_mounted d (s\<lparr>fat_state := k\<rparr>) = usb_fatfs_mounted d s"
  "usb_fatfs_mounted d (s\<lparr>gUSBStorageSlots := sl\<rparr>) = usb_fatfs_mounted d s"
  "usb_storage_device_mounted d (s\<lparr>gRPFSHandles := hs\<rparr>) = usb_storage_device_mounted d s"
  "usb_storage_device_mounted d (s\<lparr>gRPFSDirHandles := ds\<rparr>) = usb_storage_device_mounted d s"
  "usb_storage_device_mounted d (s\<lparr>fat_state := k\<rparr>) = usb_storage_device_mounted d s"
  "usb_storage_device_mounted d (s\<lparr>gUSBFatFsMounted := m\<rparr>) = usb_storage_device_mounted d s"
  by (simp_all add: usb_fatfs_mounted_def usb_storage_device_mounted_def usb_storage_slot_def)

lemma storage_ok_fat [simp]: "storage_ok (s\<lparr>fat_state := k\<rparr>) = storage_ok s"
  by (simp add: storage_ok_def)

lemma fat_call_ok [simp]:
  "exec (fat_call g) s = s\<lparr>fat_state := snd (g (fat_state s))\<rparr>"
  "val_of (fat_call g) s = fst (g (fat_state s))"
  by (simp_all add: fat_call_def)

lemma storage_ok_handles [simp]:
  "storage_ok s \<Longrightarrow> storage_ok (s\<lparr>gRPFSHandles := hs\<rparr>) = handles_ok (\<lambda>d. usb_fatfs_mounted d s) hs"
  "storage_ok s \<Longrightarrow> storage_ok (s\<lparr>gRPFSDirHandles := ds\<rparr>) = dirs_ok (\<lambda>d. usb_fatfs_mounted d s) ds"
  by (auto simp: storage_ok_def)

lemma storage_ok_parts:
  "storage_ok s \<Longrightarrow> handles_ok (\<lambda>d. usb_fatfs_mounted d s) (gRPFSHandles s)"
  "storage_ok s \<Longrightarrow> dirs_ok (\<lambda>d. usb_fatfs_mounted d s) (gRPFSDirHandles s)"
  by (auto simp: storage_ok_def)

lemma storage_ok_nth:
  "storage_ok s \<Longrightarrow> i < 4 \<Longrightarrow> in_use (gRPFSHandles s ! i) \<Longrightarrow> usb_fatfs_mounted (h_device (gRPFSHandles s ! i)) s"
  "storage_ok s \<Longrightarrow> i < 4 \<Longrightarrow> d_in_use (gRPFSDirHandles s ! i) \<Longrightarrow>
   usb_fatfs_mounted (d_device (gRPFSDirHandles s ! i)) s"
  by (auto simp: storage_ok_def handles_ok_def dirs_ok_def RP_FS_MAX_HANDLES_def RP_FS_MAX_DIR_HANDLES_def)

lemma valid_device_bound: "usb_fatfs_valid_device d \<longleftrightarrow> unat d < 4"
  by (simp add: usb_fatfs_valid_device_def USB_STORAGE_MAX_DEVICES_def word_less_nat_alt)

lemma unat_same_iff: "unat v = unat w \<longleftrightarrow> v = w" for v w :: "'a::len word"
  by (simp add: word_unat_eq_iff)

lemma mounted_set:
  assumes "length (gUSBFatFsMounted s) = 4" and "unat d < 4"
  shows "usb_fatfs_mounted d' (s\<lparr>gUSBFatFsMounted := (gUSBFatFsMounted s)[unat d := b]\<rparr>) \<longleftrightarrow>
     (if d' = d then b else usb_fatfs_mounted d' s)"
  using assms by (auto simp: usb_fatfs_mounted_def valid_device_bound nth_list_update unat_same_iff)

lemma handles_ok_mono:
  "handles_ok m hs \<Longrightarrow> (\<And>d. m d \<Longrightarrow> m' d) \<Longrightarrow> handles_ok m' hs"
  "dirs_ok m ds \<Longrightarrow> (\<And>d. m d \<Longrightarrow> m' d) \<Longrightarrow> dirs_ok m' ds"
  by (auto simp: handles_ok_def dirs_ok_def)

lemma storage_ok_mounted:
  assumes "storage_ok s" and "unat d < 4" and "usb_storage_device_mounted d s"
  shows "storage_ok (s\<lparr>fat_state := k, gUSBFatFsMounted := (gUSBFatFsMounted s)[unat d := True]\<rparr>)"
proof -
  let ?s = "s\<lparr>fat_state := k, gUSBFatFsMounted := (gUSBFatFsMounted s)[unat d := True]\<rparr>"
  have len: "length (gUSBFatFsMounted s) = 4" using assms(1) by (simp add: storage_ok_def)
  have m: "usb_fatfs_mounted d' ?s \<longleftrightarrow> d' = d \<or> usb_fatfs_mounted d' s" for d'
    using mounted_set [OF _ assms(2), of "s\<lparr>fat_state := k\<rparr>" d' True] len by simp
  have p: "usb_storage_device_mounted d' ?s = usb_storage_device_mounted d' s" for d' by simp
  have up: "\<And>d'. usb_fatfs_mounted d' s \<Longrightarrow> usb_fatfs_mounted d' ?s" by (simp only: m simp_thms)
  have hs: "gRPFSHandles ?s = gRPFSHandles s" "gRPFSDirHandles ?s = gRPFSDirHandles s"
    "gUSBStorageSlots ?s = gUSBStorageSlots s" by simp_all
  have h: "handles_ok (\<lambda>d'. usb_fatfs_mounted d' ?s) (gRPFSHandles ?s)"
    "dirs_ok (\<lambda>d'. usb_fatfs_mounted d' ?s) (gRPFSDirHandles ?s)"
    unfolding hs
    by (rule handles_ok_mono(1) [OF storage_ok_parts(1) [OF assms(1)] up], assumption)
      (rule handles_ok_mono(2) [OF storage_ok_parts(2) [OF assms(1)] up], assumption)
  have dev: "usb_storage_device_mounted d' ?s" if "usb_fatfs_mounted d' ?s" for d'
    using that m [of d'] p [of d'] assms(1,3) unfolding storage_ok_def by blast
  have l: "length (gUSBStorageSlots ?s) = 4" "length (gUSBFatFsMounted ?s) = 4"
    using assms(1) len by (simp_all add: storage_ok_def)
  show ?thesis unfolding storage_ok_def using h dev l by blast
qed

lemma mount_ok:
  assumes "storage_ok s"
  shows "storage_ok (exec (usb_fatfs_mount ff d) s)"
    and "val_of (usb_fatfs_mount ff d) s \<Longrightarrow> usb_fatfs_mounted d (exec (usb_fatfs_mount ff d) s)"
proof -
  have len: "length (gUSBFatFsMounted s) = 4" using assms by (simp add: storage_ok_def)
  show "storage_ok (exec (usb_fatfs_mount ff d) s)"
  proof (cases "unat d < 4 \<and> \<not> gUSBFatFsMounted s ! unat d \<and> usb_storage_device_mounted d s")
    case True
    then have "storage_ok (s\<lparr>fat_state := k, gUSBFatFsMounted := (gUSBFatFsMounted s)[unat d := True]\<rparr>)" for k
      by (intro storage_ok_mounted [OF assms]) simp_all
    with True show ?thesis
      using assms by (cases "usb_fatfs_drive_name d") (simp_all add: usb_fatfs_mount_def valid_device_bound)
  next
    case False
    then show ?thesis using assms by (auto simp: usb_fatfs_mount_def valid_device_bound)
  qed
  show "usb_fatfs_mounted d (exec (usb_fatfs_mount ff d) s)" if "val_of (usb_fatfs_mount ff d) s"
    using that len
    by (cases "usb_fatfs_drive_name d")
      (simp_all add: usb_fatfs_mount_def valid_device_bound usb_fatfs_mounted_def split: if_splits)
qed

lemma mount_on_demand_ok:
  assumes "storage_ok s"
  shows "storage_ok (exec (mount_on_demand ff d) s)"
    and "val_of (mount_on_demand ff d) s \<Longrightarrow> usb_fatfs_mounted d (exec (mount_on_demand ff d) s)"
  using assms mount_ok [OF assms, of ff d] by (auto simp: mount_on_demand_def split: if_splits)

lemma storage_ok_open:
  assumes "storage_ok s"
  shows "storage_ok (exec (rp_fs_open_mode_83 ff d name mode flags) s)"
proof -
  let ?m = "exec (mount_on_demand ff d) s"
  note m = mount_on_demand_ok [OF assms, of ff d]
  have free: "\<not> in_use (gRPFSHandles ?m ! i)"
    if "find_index_from 0 (\<lambda>h. \<not> in_use h) (gRPFSHandles ?m) = Some i" for i
    using find_index_from_Some [OF that] by simp
  show ?thesis
    using m free
    by (auto simp: rp_fs_open_mode_83_def split_beta storage_ok_parts intro!: handles_ok_update split: option.splits)
qed

lemma storage_ok_opendir:
  assumes "storage_ok s"
  shows "storage_ok (exec (rp_fs_opendir_83 ff d name) s)"
proof -
  let ?m = "exec (mount_on_demand ff d) s"
  note m = mount_on_demand_ok [OF assms, of ff d]
  have free: "\<not> d_in_use (gRPFSDirHandles ?m ! i)"
    if "find_index_from 0 (\<lambda>h. \<not> d_in_use h) (gRPFSDirHandles ?m) = Some i" for i
    using find_index_from_Some [OF that] by simp
  show ?thesis
    using m free
    by (auto simp: rp_fs_opendir_83_def split_beta storage_ok_parts intro!: dirs_ok_update split: option.splits)
qed

lemma storage_ok_release:
  "storage_ok s \<Longrightarrow> storage_ok (exec (release_handle i) s)"
  "storage_ok s \<Longrightarrow> storage_ok (exec (release_dir_handle i) s)"
  by (simp_all add: release_handle_def release_dir_handle_def handles_ok_update dirs_ok_update storage_ok_parts)

lemma storage_ok_close:
  "storage_ok s \<Longrightarrow> storage_ok (exec (rp_fs_close ff h) s)"
  "storage_ok s \<Longrightarrow> storage_ok (exec (rp_fs_closedir ff h) s)"
  by (simp_all add: rp_fs_close_def rp_fs_closedir_def storage_ok_release)

lemma storage_ok_file_call:
  assumes "storage_ok s" and "rp_fs_valid_handle h s"
  shows "storage_ok (exec (file_call h g) s)"
proof -
  have "usb_fatfs_mounted (h_device (gRPFSHandles s ! unat h)) s"
    using assms storage_ok_nth(1) [OF assms(1)] by (simp add: rp_fs_valid_handle_def RP_FS_MAX_HANDLES_def)
  then show ?thesis
    using assms(1) by (simp add: file_call_def handles_ok_update storage_ok_parts)
qed

lemma storage_ok_transfer:
  assumes "storage_ok s"
  shows "storage_ok (exec (rp_fs_read ff h len) s)" and "storage_ok (exec (rp_fs_write ff h src) s)"
    and "storage_ok (exec (rp_fs_seek ff h pos) s)"
  using assms
  by (simp_all add: rp_fs_read_def rp_fs_write_def rp_fs_seek_def storage_ok_file_call)

lemma storage_ok_readdir:
  assumes "storage_ok s"
  shows "storage_ok (exec (rp_fs_readdir ff h n) s)"
proof (cases "rp_fs_valid_dir_handle h s")
  case True
  then have "usb_fatfs_mounted (d_device (gRPFSDirHandles s ! unat h)) s"
    using storage_ok_nth(2) [OF assms]
    by (simp add: rp_fs_valid_dir_handle_def RP_FS_MAX_DIR_HANDLES_def)
  then show ?thesis
    using assms by (simp add: rp_fs_readdir_def dirs_ok_update storage_ok_parts)
next
  case False
  then show ?thesis using assms by (simp add: rp_fs_readdir_def)
qed

lemma storage_ok_by_name:
  assumes "storage_ok s"
  shows "storage_ok (exec (rp_fs_delete_83 ff d p) s)" and "storage_ok (exec (rp_fs_rename_83 ff d p q) s)"
    and "storage_ok (exec (rp_fs_mkdir_83 ff d p) s)" and "storage_ok (exec (rp_fs_rmdir_83 ff d p) s)"
  using mount_on_demand_ok(1) [OF assms, of ff d]
  by (auto simp: rp_fs_delete_83_def rp_fs_rename_83_def rp_fs_mkdir_83_def rp_fs_rmdir_83_def
      split: option.splits)

section \<open>Closing by test\<close>

text \<open>Which handles the loop leaves open, and that nothing else changes.\<close>

definition close_if :: "('f fs_handle \<Rightarrow> bool) \<Rightarrow> 'f fs_handle \<Rightarrow> 'f fs_handle" where
  "close_if P h = (if in_use h \<and> P h then h\<lparr>in_use := False, h_device := 0, h_flags := 0\<rparr> else h)"

definition close_dir_if :: "('d dir_handle \<Rightarrow> bool) \<Rightarrow> 'd dir_handle \<Rightarrow> 'd dir_handle" where
  "close_dir_if P h = (if d_in_use h \<and> P h then h\<lparr>d_in_use := False, d_device := 0\<rparr> else h)"

definition only_files :: "('f, 'd, 'k) fs \<Rightarrow> ('f, 'd, 'k) fs \<Rightarrow> bool" where
  "only_files s s' \<longleftrightarrow> (\<exists>hs k. s' = s\<lparr>fat_state := k, gRPFSHandles := hs\<rparr>)"

definition only_dirs :: "('f, 'd, 'k) fs \<Rightarrow> ('f, 'd, 'k) fs \<Rightarrow> bool" where
  "only_dirs s s' \<longleftrightarrow> (\<exists>ds k. s' = s\<lparr>fat_state := k, gRPFSDirHandles := ds\<rparr>)"

lemma only_files_trans: "only_files s s' \<Longrightarrow> only_files s' s'' \<Longrightarrow> only_files s s''"
  unfolding only_files_def by (elim exE) (intro exI, simp)

lemma only_dirs_trans: "only_dirs s s' \<Longrightarrow> only_dirs s' s'' \<Longrightarrow> only_dirs s s''"
  unfolding only_dirs_def by (elim exE) (intro exI, simp)

lemma list_update_take_map:
  "i < length xs \<Longrightarrow> (map f (take i xs) @ drop i xs)[i := f (xs ! i)] = map f (take (Suc i) xs) @ drop (Suc i) xs"
  by (simp add: list_update_append take_Suc_conv_app_nth Cons_nth_drop_Suc [symmetric])

lemma only_same: "only_files s s" "only_dirs s s"
proof -
  have "s = s\<lparr>fat_state := fat_state s, gRPFSHandles := gRPFSHandles s\<rparr>" by simp
  then show "only_files s s" unfolding only_files_def by blast
  have "s = s\<lparr>fat_state := fat_state s, gRPFSDirHandles := gRPFSDirHandles s\<rparr>" by simp
  then show "only_dirs s s" unfolding only_dirs_def by blast
qed

lemma close_file_body_spec:
  "gRPFSHandles (exec (close_file_body ff P i) s) = (gRPFSHandles s)[i := close_if P (gRPFSHandles s ! i)]"
  "only_files s (exec (close_file_body ff P i) s)"
proof -
  show "gRPFSHandles (exec (close_file_body ff P i) s) = (gRPFSHandles s)[i := close_if P (gRPFSHandles s ! i)]"
    by (simp add: close_file_body_def close_if_def release_handle_def)
  show "only_files s (exec (close_file_body ff P i) s)"
  proof (cases "in_use (gRPFSHandles s ! i) \<and> P (gRPFSHandles s ! i)")
    case True
    then show ?thesis
      unfolding only_files_def by (intro exI) (simp add: close_file_body_def release_handle_def)
  qed (auto simp: close_file_body_def only_same)
qed

lemma close_dir_body_spec:
  "gRPFSDirHandles (exec (close_dir_body ff P i) s) =
     (gRPFSDirHandles s)[i := close_dir_if P (gRPFSDirHandles s ! i)]"
  "only_dirs s (exec (close_dir_body ff P i) s)"
proof -
  show "gRPFSDirHandles (exec (close_dir_body ff P i) s) =
     (gRPFSDirHandles s)[i := close_dir_if P (gRPFSDirHandles s ! i)]"
    by (simp add: close_dir_body_def close_dir_if_def release_dir_handle_def)
  show "only_dirs s (exec (close_dir_body ff P i) s)"
  proof (cases "d_in_use (gRPFSDirHandles s ! i) \<and> P (gRPFSDirHandles s ! i)")
    case True
    then show ?thesis
      unfolding only_dirs_def by (intro exI) (simp add: close_dir_body_def release_dir_handle_def)
  qed (auto simp: close_dir_body_def only_same)
qed

lemma close_files_upto:
  "n \<le> length (gRPFSHandles s) \<Longrightarrow>
   gRPFSHandles (exec (for_each [0..<n] (close_file_body ff P)) s) =
     map (close_if P) (take n (gRPFSHandles s)) @ drop n (gRPFSHandles s) \<and>
   only_files s (exec (for_each [0..<n] (close_file_body ff P)) s)"
proof (induction n)
  case 0
  then show ?case by (simp add: only_same)
next
  case (Suc n)
  let ?s = "exec (for_each [0..<n] (close_file_body ff P)) s"
  have ih: "gRPFSHandles ?s = map (close_if P) (take n (gRPFSHandles s)) @ drop n (gRPFSHandles s)"
    "only_files s ?s" using Suc by simp_all
  have "gRPFSHandles ?s ! n = gRPFSHandles s ! n"
    using Suc.prems by (simp add: ih nth_append)
  then show ?case
    using close_file_body_spec [where i = n and s = ?s] ih list_update_take_map [of n "gRPFSHandles s" "close_if P"]
      Suc.prems only_files_trans [OF ih(2)]
    by (simp add: exec_for_each_append)
qed

lemma close_dirs_upto:
  "n \<le> length (gRPFSDirHandles s) \<Longrightarrow>
   gRPFSDirHandles (exec (for_each [0..<n] (close_dir_body ff P)) s) =
     map (close_dir_if P) (take n (gRPFSDirHandles s)) @ drop n (gRPFSDirHandles s) \<and>
   only_dirs s (exec (for_each [0..<n] (close_dir_body ff P)) s)"
proof (induction n)
  case 0
  then show ?case by (simp add: only_same)
next
  case (Suc n)
  let ?s = "exec (for_each [0..<n] (close_dir_body ff P)) s"
  have ih: "gRPFSDirHandles ?s = map (close_dir_if P) (take n (gRPFSDirHandles s)) @ drop n (gRPFSDirHandles s)"
    "only_dirs s ?s" using Suc by simp_all
  have "gRPFSDirHandles ?s ! n = gRPFSDirHandles s ! n"
    using Suc.prems by (simp add: ih nth_append)
  then show ?case
    using close_dir_body_spec [where i = n and s = ?s] ih list_update_take_map [of n "gRPFSDirHandles s" "close_dir_if P"]
      Suc.prems only_dirs_trans [OF ih(2)]
    by (simp add: exec_for_each_append)
qed

lemma close_where_spec:
  assumes "storage_ok s"
  shows "gRPFSHandles (exec (close_files_where ff P) s) = map (close_if P) (gRPFSHandles s)"
    and "only_files s (exec (close_files_where ff P) s)"
    and "gRPFSDirHandles (exec (close_dirs_where ff Q) s) = map (close_dir_if Q) (gRPFSDirHandles s)"
    and "only_dirs s (exec (close_dirs_where ff Q) s)"
  using close_files_upto [of RP_FS_MAX_HANDLES s ff P] close_dirs_upto [of RP_FS_MAX_DIR_HANDLES s ff Q] assms
  by (simp_all add: close_files_where_def close_dirs_where_def storage_ok_def handles_ok_def dirs_ok_def)

lemma storage_ok_only_files:
  assumes "storage_ok s" and "only_files s s'" and "gRPFSHandles s' = map (close_if P) (gRPFSHandles s)"
  shows "storage_ok s'"
  using assms by (auto simp: only_files_def close_if_def storage_ok_def handles_ok_def)

lemma storage_ok_only_dirs:
  assumes "storage_ok s" and "only_dirs s s'" and "gRPFSDirHandles s' = map (close_dir_if P) (gRPFSDirHandles s)"
  shows "storage_ok s'"
  using assms by (auto simp: only_dirs_def close_dir_if_def storage_ok_def dirs_ok_def)

lemma close_where_both:
  fixes ff :: "('f, 'd, 'k) fatfs" and P Q
  assumes "storage_ok s"
  defines "s' \<equiv> exec (do { close_files_where ff P; close_dirs_where ff Q }) s"
  shows "storage_ok s'" and "gRPFSHandles s' = map (close_if P) (gRPFSHandles s)"
    and "gRPFSDirHandles s' = map (close_dir_if Q) (gRPFSDirHandles s)"
    and "usb_fatfs_mounted d s' = usb_fatfs_mounted d s"
    and "usb_storage_device_mounted d s' = usb_storage_device_mounted d s"
    and "gUSBFatFsMounted s' = gUSBFatFsMounted s" and "gUSBStorageSlots s' = gUSBStorageSlots s"
proof -
  define s1 where "s1 = exec (close_files_where ff P) s"
  note f = close_where_spec(1,2) [OF assms(1), of ff P, folded s1_def]
  have ok1: "storage_ok s1" by (rule storage_ok_only_files [OF assms(1) f(2) f(1)])
  have s': "s' = exec (close_dirs_where ff Q) s1" by (simp add: s'_def s1_def)
  note d = close_where_spec(3,4) [OF ok1, of ff Q, folded s']
  show "storage_ok s'" by (rule storage_ok_only_dirs [OF ok1 d(2) d(1)])
  show "gRPFSHandles s' = map (close_if P) (gRPFSHandles s)"
    "gRPFSDirHandles s' = map (close_dir_if Q) (gRPFSDirHandles s)"
    "usb_fatfs_mounted d s' = usb_fatfs_mounted d s"
    "usb_storage_device_mounted d s' = usb_storage_device_mounted d s"
    "gUSBFatFsMounted s' = gUSBFatFsMounted s" "gUSBStorageSlots s' = gUSBStorageSlots s"
    using f d by (auto simp: only_files_def only_dirs_def)
qed

lemma storage_ok_close_all:
  "storage_ok s \<Longrightarrow> storage_ok (exec (rp_fs_close_all ff) s)"
  "storage_ok s \<Longrightarrow> storage_ok (exec (rp_fs_close_all_for_device ff d) s)"
  using close_where_both(1) [of s] by (simp_all add: rp_fs_close_all_def rp_fs_close_all_for_device_def)

end
