(* ===== verification/Storage_Events.thy ===== *)
theory Storage_Events
  imports Rp_Fs_Spec
begin

text \<open>
  USB devices coming and going (\<open>usb_storage.cpp\<close>, \<open>usb_fatfs.cpp\<close>), the mount task, and the block
  transfers FatFs asks for (\<open>usb_msc_diskio.cpp\<close>). What TinyUSB does is an argument: the
  callbacks it makes while its task runs, and the outcome of a transfer.
\<close>

section \<open>Devices come and go\<close>

definition USB_STORAGE_BOOT_MOUNT_GRACE_MS :: u32 where "USB_STORAGE_BOOT_MOUNT_GRACE_MS = 2000"
definition USB_STORAGE_PENDING_MOUNT_MIN_AGE_MS :: int where "USB_STORAGE_PENDING_MOUNT_MIN_AGE_MS = 500"
definition USB_STORAGE_MOUNT_STAGGER_MS :: u32 where "USB_STORAGE_MOUNT_STAGGER_MS = 1000"

definition usb_fatfs_unmount :: "('f, 'd, 'k) fatfs \<Rightarrow> u8 \<Rightarrow> (('f, 'd, 'k) fs, unit) state" where
  "usb_fatfs_unmount ff device =
     when_do (usb_fatfs_valid_device device) (do {
       mounted \<leftarrow> gets (\<lambda>s. gUSBFatFsMounted s ! unat device);
       when_do mounted (do {
         rp_fs_close_all_for_device ff device;
         (case usb_fatfs_drive_name device of None \<Rightarrow> ret ()
          | Some drive \<Rightarrow> do { fat_call (f_mount ff drive False); ret () });
         modify (\<lambda>s. s\<lparr>gUSBFatFsMounted := (gUSBFatFsMounted s)[unat device := False]\<rparr>)
       })
     })"

text \<open>The callback of an attached device, with the block count and size TinyUSB reports.\<close>

definition tuh_msc_mount_cb :: "u8 \<Rightarrow> u32 \<Rightarrow> u32 \<Rightarrow> u32 \<Rightarrow> (('f, 'd, 'k) fs, unit) state" where
  "tuh_msc_mount_cb a blocks bsize now = do {
     known \<leftarrow> gets (usb_storage_find_slot_by_dev_addr a);
     free \<leftarrow> gets usb_storage_find_free_slot;
     case (case known of None \<Rightarrow> free | Some i \<Rightarrow> Some i) of
       None \<Rightarrow> ret ()
     | Some i \<Rightarrow> modify (\<lambda>s. s\<lparr>gUSBStorageSlots := (gUSBStorageSlots s)
         [i := \<lparr>present = True, mount_pending = True, dev_addr = a, lun = 0, block_count = blocks,
                block_size = bsize, mount_pending_since_ms = now\<rparr>]\<rparr>)
   }"

definition tuh_msc_umount_cb :: "('f, 'd, 'k) fatfs \<Rightarrow> u8 \<Rightarrow> (('f, 'd, 'k) fs, unit) state" where
  "tuh_msc_umount_cb ff a = do {
     known \<leftarrow> gets (usb_storage_find_slot_by_dev_addr a);
     case known of None \<Rightarrow> ret ()
     | Some i \<Rightarrow> do {
         usb_fatfs_unmount ff (of_nat i);
         usb_storage_clear_slot (of_nat i)
       }
   }"

datatype usb_event = Attach u8 u32 u32 u32 | Detach u8

primrec on_event :: "('f, 'd, 'k) fatfs \<Rightarrow> usb_event \<Rightarrow> (('f, 'd, 'k) fs, unit) state" where
  "on_event ff (Attach a blocks bsize now) = tuh_msc_mount_cb a blocks bsize now"
| "on_event ff (Detach a) = tuh_msc_umount_cb ff a"

definition initUSBStorage :: "u32 \<Rightarrow> (('f, 'd, 'k) fs, unit) state" where
  "initUSBStorage now = do {
     already \<leftarrow> gets gUSBStorageInitialized;
     when_do (\<not> already) (modify (\<lambda>s. s\<lparr>
       gStorageMountEnableMs := now + USB_STORAGE_BOOT_MOUNT_GRACE_MS,
       gNextFatFsMountAllowedMs := now + USB_STORAGE_BOOT_MOUNT_GRACE_MS,
       gUSBStorageInitialized := True\<rparr>))
   }"

text \<open>The first device whose mount is pending for long enough; the subtraction is 32-bit signed.\<close>

definition mount_due :: "u32 \<Rightarrow> storage_slot \<Rightarrow> bool" where
  "mount_due now sl \<longleftrightarrow> mount_pending sl \<and>
     \<not> sint (now - mount_pending_since_ms sl) < USB_STORAGE_PENDING_MOUNT_MIN_AGE_MS"

text \<open>
  One run of the task: \<open>start\<close>, \<open>now\<close> and \<open>now'\<close> are the readings of the clock, the first by the
  set-up that an uninitialised layer makes up for, \<open>events\<close> the callbacks made by
  \<open>gUSBHost.task()\<close>.
\<close>

definition taskUSBStorage ::
  "('f, 'd, 'k) fatfs \<Rightarrow> u32 \<Rightarrow> usb_event list \<Rightarrow> u32 \<Rightarrow> u32 \<Rightarrow> (('f, 'd, 'k) fs, unit) state" where
  "taskUSBStorage ff start events now now' = do {
     initUSBStorage start;
     for_each events (on_event ff);
     enable \<leftarrow> gets gStorageMountEnableMs;
     nxt \<leftarrow> gets gNextFatFsMountAllowedMs;
     if sint (now - enable) < 0 then ret ()
     else if sint (now - nxt) < 0 then ret ()
     else do {
       due \<leftarrow> gets (\<lambda>s. find_index_from 0 (mount_due now) (gUSBStorageSlots s));
       case due of None \<Rightarrow> ret ()
       | Some i \<Rightarrow> do {
           modify (\<lambda>s. s\<lparr>gUSBStorageSlots := (gUSBStorageSlots s)
             [i := (gUSBStorageSlots s ! i)\<lparr>mount_pending := False\<rparr>]\<rparr>);
           plugged \<leftarrow> gets (\<lambda>s. present (gUSBStorageSlots s ! i));
           mounted \<leftarrow> gets (usb_fatfs_mounted (of_nat i));
           when_do (plugged \<and> \<not> mounted) (do { usb_fatfs_mount ff (of_nat i); ret () });
           modify (\<lambda>s. s\<lparr>gNextFatFsMountAllowedMs := now' + USB_STORAGE_MOUNT_STAGGER_MS\<rparr>)
         }
     }
   }"

section \<open>Block transfers\<close>

datatype xfer = Read10 u8 u8 u32 u16 | Write10 u8 u8 u32 u16

record tusb =
  tuh_ready :: "u8 \<Rightarrow> bool"
  tuh_xfer :: "xfer \<Rightarrow> bool"       \<comment> \<open>queued, completed in time and with good status\<close>

text \<open>
  The checks both directions share, then the transfer; the result is the success and the
  transfers handed to TinyUSB.
\<close>

definition usb_storage_blocks ::
  "tusb \<Rightarrow> (u8 \<Rightarrow> u8 \<Rightarrow> u32 \<Rightarrow> u16 \<Rightarrow> xfer) \<Rightarrow> u8 \<Rightarrow> u32 \<Rightarrow> u16 \<Rightarrow> ('f, 'd, 'k) fs \<Rightarrow> bool \<times> xfer list" where
  "usb_storage_blocks tu mk device lba cnt s =
     (case usb_storage_slot device s of None \<Rightarrow> (False, [])
      | Some sl \<Rightarrow>
         if cnt = 0 then (False, [])
         else if \<not> present sl then (False, [])
         else if block_size sl \<noteq> 512 then (False, [])
         else if lba \<ge> block_count sl \<or> ucast cnt > block_count sl - lba then (False, [])
         else if \<not> tuh_ready tu (dev_addr sl) then (False, [])
         else let x = mk (dev_addr sl) (lun sl) lba cnt in (tuh_xfer tu x, [x]))"

definition usb_storage_read_blocks ::
  "tusb \<Rightarrow> u8 \<Rightarrow> u32 \<Rightarrow> u16 \<Rightarrow> ('f, 'd, 'k) fs \<Rightarrow> bool \<times> xfer list" where
  "usb_storage_read_blocks tu = usb_storage_blocks tu Read10"

definition usb_storage_write_blocks ::
  "tusb \<Rightarrow> u8 \<Rightarrow> u32 \<Rightarrow> u16 \<Rightarrow> ('f, 'd, 'k) fs \<Rightarrow> bool \<times> xfer list" where
  "usb_storage_write_blocks tu = usb_storage_blocks tu Write10"

datatype dresult = RES_OK | RES_ERROR | RES_WRPRT | RES_NOTRDY | RES_PARERR

definition STA_NOINIT :: u8 where "STA_NOINIT = 0x01"
definition STA_NODISK :: u8 where "STA_NODISK = 0x02"

definition valid_drive :: "u8 \<Rightarrow> bool" where
  "valid_drive pdrv \<longleftrightarrow> pdrv < USB_STORAGE_MAX_DEVICES"

definition disk_status :: "u8 \<Rightarrow> ('f, 'd, 'k) fs \<Rightarrow> u8" where
  "disk_status pdrv s =
     (if \<not> valid_drive pdrv then STA_NOINIT
      else if \<not> usb_storage_device_mounted pdrv s then STA_NOINIT OR STA_NODISK
      else if usb_storage_block_size pdrv s \<noteq> 512 \<or> usb_storage_block_count pdrv s = 0 then STA_NOINIT
      else 0)"

definition disk_initialize :: "u8 \<Rightarrow> ('f, 'd, 'k) fs \<Rightarrow> u8" where
  "disk_initialize pdrv s =
     (if \<not> valid_drive pdrv then STA_NOINIT
      else if \<not> usb_storage_device_mounted pdrv s then STA_NOINIT OR STA_NODISK
      else if usb_storage_block_size pdrv s \<noteq> 512 \<or> usb_storage_block_count pdrv s = 0 then STA_NOINIT
      else 0)"

text \<open>The block count is cut to sixteen bits on the way to the storage layer.\<close>

definition disk_read :: "tusb \<Rightarrow> u8 \<Rightarrow> u32 \<Rightarrow> u32 \<Rightarrow> ('f, 'd, 'k) fs \<Rightarrow> dresult \<times> xfer list" where
  "disk_read tu pdrv sector cnt s =
     (if \<not> valid_drive pdrv \<or> cnt = 0 then (RES_PARERR, [])
      else if \<not> usb_storage_device_mounted pdrv s then (RES_NOTRDY, [])
      else if usb_storage_block_size pdrv s \<noteq> 512 then (RES_ERROR, [])
      else let block_count = usb_storage_block_count pdrv s in
        if sector \<ge> block_count \<or> cnt > block_count - sector then (RES_PARERR, [])
        else case usb_storage_read_blocks tu pdrv sector (ucast cnt) s of
               (ok, xs) \<Rightarrow> (if ok then RES_OK else RES_ERROR, xs))"

definition disk_write :: "tusb \<Rightarrow> u8 \<Rightarrow> u32 \<Rightarrow> u32 \<Rightarrow> ('f, 'd, 'k) fs \<Rightarrow> dresult \<times> xfer list" where
  "disk_write tu pdrv sector cnt s =
     (if \<not> valid_drive pdrv \<or> cnt = 0 then (RES_PARERR, [])
      else if \<not> usb_storage_device_mounted pdrv s then (RES_NOTRDY, [])
      else if usb_storage_block_size pdrv s \<noteq> 512 then (RES_ERROR, [])
      else let block_count = usb_storage_block_count pdrv s in
        if sector \<ge> block_count \<or> cnt > block_count - sector then (RES_PARERR, [])
        else case usb_storage_write_blocks tu pdrv sector (ucast cnt) s of
               (ok, xs) \<Rightarrow> (if ok then RES_OK else RES_ERROR, xs))"

datatype ioctl_result = Io dresult | Io_Value u32

definition CTRL_SYNC :: u8 where "CTRL_SYNC = 0"
definition GET_SECTOR_COUNT :: u8 where "GET_SECTOR_COUNT = 1"
definition GET_SECTOR_SIZE :: u8 where "GET_SECTOR_SIZE = 2"
definition GET_BLOCK_SIZE :: u8 where "GET_BLOCK_SIZE = 3"

definition disk_ioctl :: "u8 \<Rightarrow> u8 \<Rightarrow> ('f, 'd, 'k) fs \<Rightarrow> ioctl_result" where
  "disk_ioctl pdrv cmd s =
     (if \<not> valid_drive pdrv then Io RES_PARERR
      else if \<not> usb_storage_device_mounted pdrv s then Io RES_NOTRDY
      else if cmd = CTRL_SYNC then Io (if usb_storage_sync pdrv s then RES_OK else RES_ERROR)
      else if cmd = GET_SECTOR_COUNT then Io_Value (usb_storage_block_count pdrv s)
      else if cmd = GET_SECTOR_SIZE then Io_Value (ucast (ucast (usb_storage_block_size pdrv s) :: u16))
      else if cmd = GET_BLOCK_SIZE then Io_Value 1
      else Io RES_PARERR)"

section \<open>The invariant under device events\<close>

lemma plugged_set:
  assumes "length (gUSBStorageSlots s) = 4" and "i < 4"
  shows "usb_storage_device_mounted d (s\<lparr>gUSBStorageSlots := (gUSBStorageSlots s)[i := sl]\<rparr>) \<longleftrightarrow>
     (if unat d = i then present sl else usb_storage_device_mounted d s)"
  using assms
  by (auto simp: usb_storage_device_mounted_def usb_storage_slot_def usb_storage_valid_device_def
      USB_STORAGE_MAX_DEVICES_def word_less_nat_alt)

lemma storage_ok_slot:
  assumes "storage_ok s" and "i < 4"
    and "\<not> present sl \<Longrightarrow> \<not> usb_fatfs_mounted (of_nat i) s"
  shows "storage_ok (s\<lparr>gUSBStorageSlots := (gUSBStorageSlots s)[i := sl]\<rparr>)"
proof -
  let ?s = "s\<lparr>gUSBStorageSlots := (gUSBStorageSlots s)[i := sl]\<rparr>"
  have len: "length (gUSBStorageSlots s) = 4" using assms(1) by (simp add: storage_ok_def)
  have "usb_storage_device_mounted d ?s" if "usb_fatfs_mounted d ?s" for d
  proof -
    have m: "usb_fatfs_mounted d s" "usb_storage_device_mounted d s"
      using that assms(1) by (simp_all add: storage_ok_def)
    have "of_nat i = d" if "unat d = i" by (simp add: that [symmetric])
    then show ?thesis using m assms(3) unfolding plugged_set [OF len assms(2)]
      by (cases "present sl") auto
  qed
  then show ?thesis using assms(1) by (simp add: storage_ok_def)
qed

lemma find_slot_bound:
  assumes "storage_ok s"
  shows "find_index_from 0 P (gUSBStorageSlots s) = Some i \<Longrightarrow> i < 4 \<and> P (gUSBStorageSlots s ! i)"
  using find_index_from_Some [of 0 P "gUSBStorageSlots s" i] assms by (auto simp: storage_ok_def)

lemma storage_ok_attach:
  assumes "storage_ok s"
  shows "storage_ok (exec (tuh_msc_mount_cb a blocks bsize now) s)"
  using assms find_slot_bound [OF assms]
  by (auto simp: tuh_msc_mount_cb_def usb_storage_find_slot_by_dev_addr_def
      usb_storage_find_free_slot_def intro!: storage_ok_slot split: option.splits)

lemma mounted_unset:
  assumes "storage_ok s" and "unat d < 4"
    and "\<forall>h\<in>set (gRPFSHandles s). in_use h \<longrightarrow> h_device h \<noteq> d"
    and "\<forall>h\<in>set (gRPFSDirHandles s). d_in_use h \<longrightarrow> d_device h \<noteq> d"
  shows "storage_ok (s\<lparr>gUSBFatFsMounted := (gUSBFatFsMounted s)[unat d := False]\<rparr>)"
proof -
  let ?s = "s\<lparr>gUSBFatFsMounted := (gUSBFatFsMounted s)[unat d := False]\<rparr>"
  have len: "length (gUSBFatFsMounted s) = 4" using assms(1) by (simp add: storage_ok_def)
  have m: "usb_fatfs_mounted d' ?s \<longleftrightarrow> d' \<noteq> d \<and> usb_fatfs_mounted d' s" for d'
    using mounted_set [OF len assms(2), of d' False] by simp
  show ?thesis
    unfolding storage_ok_def handles_ok_def dirs_ok_def m
    using assms by (simp add: storage_ok_def handles_ok_def dirs_ok_def)
qed

lemma closed_none:
  "\<forall>h\<in>close_if (\<lambda>h. h_device h = d) ` set hs. in_use h \<longrightarrow> h_device h \<noteq> d"
  "\<forall>h\<in>close_dir_if (\<lambda>h. d_device h = d) ` set ds. d_in_use h \<longrightarrow> d_device h \<noteq> d"
  by (auto simp: close_if_def close_dir_if_def)

lemma unmount_ok:
  fixes ff :: "('f, 'd, 'k) fatfs" and d :: u8
  assumes "storage_ok s" and "unat d < 4"
  defines "s' \<equiv> exec (usb_fatfs_unmount ff d) s"
  shows "storage_ok s'" and "\<not> usb_fatfs_mounted d s'"
    and "gRPFSHandles s' = (if usb_fatfs_mounted d s then map (close_if (\<lambda>h. h_device h = d)) (gRPFSHandles s)
       else gRPFSHandles s)"
    and "gRPFSDirHandles s' = (if usb_fatfs_mounted d s then map (close_dir_if (\<lambda>h. d_device h = d)) (gRPFSDirHandles s)
       else gRPFSDirHandles s)"
    and "gUSBStorageSlots s' = gUSBStorageSlots s"
    and "d' \<noteq> d \<Longrightarrow> usb_fatfs_mounted d' s' = usb_fatfs_mounted d' s"
proof -
  have dev: "rp_fs_valid_device d" "usb_fatfs_valid_device d"
    using assms(2) by (simp_all add: rp_fs_valid_device_def usb_fatfs_valid_device_def
        USB_STORAGE_MAX_DEVICES_def word_less_nat_alt)
  have "storage_ok s' \<and> \<not> usb_fatfs_mounted d s' \<and>
    gRPFSHandles s' = (if usb_fatfs_mounted d s then map (close_if (\<lambda>h. h_device h = d)) (gRPFSHandles s)
       else gRPFSHandles s) \<and>
    gRPFSDirHandles s' = (if usb_fatfs_mounted d s then map (close_dir_if (\<lambda>h. d_device h = d)) (gRPFSDirHandles s)
       else gRPFSDirHandles s) \<and> gUSBStorageSlots s' = gUSBStorageSlots s \<and>
    (\<forall>d'. d' \<noteq> d \<longrightarrow> usb_fatfs_mounted d' s' = usb_fatfs_mounted d' s)"
  proof (cases "usb_fatfs_mounted d s")
    case False
    then have "s' = s" using dev by (simp add: s'_def usb_fatfs_unmount_def usb_fatfs_mounted_def)
    with False assms(1) show ?thesis by simp
  next
    case True
    define s1 where "s1 = exec (rp_fs_close_all_for_device ff d) s"
    note c = close_where_both [OF assms(1), where ff = ff and P = "\<lambda>h. h_device h = d" and Q = "\<lambda>h. d_device h = d"]
    have s1: "s1 = exec (do { close_files_where ff (\<lambda>h. h_device h = d);
        close_dirs_where ff (\<lambda>h. d_device h = d) }) s"
      using dev by (simp add: s1_def rp_fs_close_all_for_device_def)
    note c = c [folded s1]
    obtain k where s': "s' = s1\<lparr>fat_state := k, gUSBFatFsMounted := (gUSBFatFsMounted s1)[unat d := False]\<rparr>"
    proof (cases "usb_fatfs_drive_name d")
      case None
      show ?thesis
        by (rule that [of "fat_state s1"])
          (use True dev None in \<open>simp add: s'_def usb_fatfs_unmount_def usb_fatfs_mounted_def s1_def\<close>)
    next
      case (Some drive)
      show ?thesis
        by (rule that [of "snd (f_mount ff drive False (fat_state s1))"])
          (use True dev Some in \<open>simp add: s'_def usb_fatfs_unmount_def usb_fatfs_mounted_def s1_def\<close>)
    qed
    have ok1: "storage_ok (s1\<lparr>fat_state := k\<rparr>)" using c(1) by simp
    let ?t = "s1\<lparr>fat_state := k\<rparr>"
    have t: "set (gRPFSHandles ?t) = close_if (\<lambda>h. h_device h = d) ` set (gRPFSHandles s)"
      "set (gRPFSDirHandles ?t) = close_dir_if (\<lambda>h. d_device h = d) ` set (gRPFSDirHandles s)"
      by (simp_all add: c(2,3) del: set_map image_set) (simp_all only: set_map)
    have s't: "s' = ?t\<lparr>gUSBFatFsMounted := (gUSBFatFsMounted ?t)[unat d := False]\<rparr>"
      by (simp add: s')
    have ok: "storage_ok s'"
      unfolding s't by (rule mounted_unset [OF ok1 assms(2)]) (unfold t, rule closed_none(1), rule closed_none(2))
    have len: "length (gUSBFatFsMounted ?t) = 4" using ok1 unfolding storage_ok_def by blast
    note m = mounted_set [OF len assms(2), where b = False, folded s't]
    have m': "usb_fatfs_mounted d' ?t = usb_fatfs_mounted d' s" for d'
      using c(4) by (simp only: mounted_upd)
    show ?thesis
      unfolding m m' using ok True c(2,3,7) by (simp add: s')
  qed
  then show "storage_ok s'" "\<not> usb_fatfs_mounted d s'"
    "gRPFSHandles s' = (if usb_fatfs_mounted d s then map (close_if (\<lambda>h. h_device h = d)) (gRPFSHandles s)
       else gRPFSHandles s)"
    "gRPFSDirHandles s' = (if usb_fatfs_mounted d s then map (close_dir_if (\<lambda>h. d_device h = d)) (gRPFSDirHandles s)
       else gRPFSDirHandles s)"
    "gUSBStorageSlots s' = gUSBStorageSlots s"
    "d' \<noteq> d \<Longrightarrow> usb_fatfs_mounted d' s' = usb_fatfs_mounted d' s"
    by blast+
qed

end
