(* ===== verification/Storage_Spec.thy ===== *)
theory Storage_Spec
  imports Storage_Events
begin

text \<open>
  What the storage layer promises as a whole: the handle invariant holds in every reachable state,
  unplugging a device takes down exactly what belongs to it, block transfers stay inside the
  device, an open file is the one that was asked for, and directories list what 8.3 names can show.
\<close>

section \<open>The invariant under every operation and event\<close>

lemma storage_ok_detach:
  assumes "storage_ok s"
  shows "storage_ok (exec (tuh_msc_umount_cb ff a) s)"
proof (cases "usb_storage_find_slot_by_dev_addr a s")
  case None
  then show ?thesis using assms by (simp add: tuh_msc_umount_cb_def)
next
  case (Some i)
  then have i: "i < 4" using find_slot_bound [OF assms] by (auto simp: usb_storage_find_slot_by_dev_addr_def)
  then have u: "unat (of_nat i :: u8) = i" by (simp add: unat_of_nat)
  with i have d: "unat (of_nat i :: u8) < 4" "usb_storage_valid_device (of_nat i)"
    by (simp_all add: usb_storage_valid_device_def USB_STORAGE_MAX_DEVICES_def word_less_nat_alt)
  note un = unmount_ok(1,2) [OF assms d(1), where ff = ff]
  show ?thesis
    using storage_ok_slot [OF un(1) i, of no_slot] un(2) Some d(2) u
    by (simp add: tuh_msc_umount_cb_def usb_storage_clear_slot_def)
qed

lemma storage_ok_event: "storage_ok s \<Longrightarrow> storage_ok (exec (on_event ff e) s)"
  by (cases e) (simp_all add: storage_ok_attach storage_ok_detach)

lemma storage_ok_timers [simp]:
  "storage_ok (s\<lparr>gNextFatFsMountAllowedMs := t\<rparr>) = storage_ok s"
  "storage_ok (s\<lparr>gStorageMountEnableMs := t\<rparr>) = storage_ok s"
  "storage_ok (s\<lparr>gUSBStorageInitialized := b\<rparr>) = storage_ok s"
  by (simp_all add: storage_ok_def usb_fatfs_mounted_def usb_storage_device_mounted_def usb_storage_slot_def)

lemma storage_ok_init: "storage_ok s \<Longrightarrow> storage_ok (exec (initUSBStorage now) s)"
  by (simp add: initUSBStorage_def)

lemma mounted_is_plugged: "storage_ok s \<Longrightarrow> usb_fatfs_mounted d s \<Longrightarrow> usb_storage_device_mounted d s"
  by (simp add: storage_ok_def)

lemma storage_ok_pending:
  assumes "storage_ok s" and "i < 4"
  shows "storage_ok (s\<lparr>gUSBStorageSlots := (gUSBStorageSlots s)
    [i := (gUSBStorageSlots s ! i)\<lparr>mount_pending := b\<rparr>]\<rparr>)"
proof (rule storage_ok_slot [OF assms])
  assume "\<not> present ((gUSBStorageSlots s ! i)\<lparr>mount_pending := b\<rparr>)"
  moreover have "unat (of_nat i :: u8) = i" using assms(2) by (simp add: unat_of_nat)
  ultimately have "\<not> usb_storage_device_mounted (of_nat i) s"
    by (simp add: usb_storage_device_mounted_def usb_storage_slot_def)
  then show "\<not> usb_fatfs_mounted (of_nat i) s" using mounted_is_plugged [OF assms(1)] by blast
qed

lemma storage_ok_task:
  assumes "storage_ok s"
  shows "storage_ok (exec (taskUSBStorage ff start events now now') s)"
proof -
  define t where "t = exec (for_each events (on_event ff)) (exec (initUSBStorage start) s)"
  have t: "storage_ok t"
    unfolding t_def
    by (rule exec_for_each_invariant [where I = storage_ok])
      (simp_all add: storage_ok_init [OF assms] storage_ok_event)
  have step: "storage_ok (exec (usb_fatfs_mount ff d) (t\<lparr>gUSBStorageSlots := (gUSBStorageSlots t)
      [i := (gUSBStorageSlots t ! i)\<lparr>mount_pending := False\<rparr>]\<rparr>))"
    "storage_ok (t\<lparr>gUSBStorageSlots := (gUSBStorageSlots t)
      [i := (gUSBStorageSlots t ! i)\<lparr>mount_pending := False\<rparr>]\<rparr>)"
    if "find_index_from 0 (mount_due now) (gUSBStorageSlots t) = Some i" for i d
    using storage_ok_pending [OF t] find_slot_bound [OF t that] mount_ok(1) by blast+
  show ?thesis
    using t step by (auto simp: taskUSBStorage_def t_def [symmetric] split: option.splits)
qed

text \<open>Everything that can happen to the storage layer.\<close>

datatype fs_op =
    Open u8 string u8 u8 | Close u8 | Read u8 u16 | Write u8 "u8 list" | Seek u8 u32
  | Delete u8 string | Rename u8 string string | Mkdir u8 string | Rmdir u8 string
  | Opendir u8 string | Readdir u8 nat | Closedir u8 | Close_All | Close_Device u8
  | Mount u8 | Unmount u8 | Event usb_event | Task u32 "usb_event list" u32 u32

primrec do_op :: "('f, 'd, 'k) fatfs \<Rightarrow> fs_op \<Rightarrow> (('f, 'd, 'k) fs, unit) state" where
  "do_op ff (Open d p m h) = do { rp_fs_open_mode_83 ff d p m h; ret () }"
| "do_op ff (Close h) = do { rp_fs_close ff h; ret () }"
| "do_op ff (Read h n) = do { rp_fs_read ff h n; ret () }"
| "do_op ff (Write h xs) = do { rp_fs_write ff h xs; ret () }"
| "do_op ff (Seek h p) = do { rp_fs_seek ff h p; ret () }"
| "do_op ff (Delete d p) = do { rp_fs_delete_83 ff d p; ret () }"
| "do_op ff (Rename d p q) = do { rp_fs_rename_83 ff d p q; ret () }"
| "do_op ff (Mkdir d p) = do { rp_fs_mkdir_83 ff d p; ret () }"
| "do_op ff (Rmdir d p) = do { rp_fs_rmdir_83 ff d p; ret () }"
| "do_op ff (Opendir d p) = do { rp_fs_opendir_83 ff d p; ret () }"
| "do_op ff (Readdir h n) = do { rp_fs_readdir ff h n; ret () }"
| "do_op ff (Closedir h) = do { rp_fs_closedir ff h; ret () }"
| "do_op ff Close_All = rp_fs_close_all ff"
| "do_op ff (Close_Device d) = rp_fs_close_all_for_device ff d"
| "do_op ff (Mount d) = do { usb_fatfs_mount ff d; ret () }"
| "do_op ff (Unmount d) = usb_fatfs_unmount ff d"
| "do_op ff (Event e) = on_event ff e"
| "do_op ff (Task t es a b) = taskUSBStorage ff t es a b"

text \<open>The globals before \<open>setup\<close>: nothing plugged, mounted or open, whatever FatFs's own state.\<close>

definition initial_fs :: "'f \<Rightarrow> 'd \<Rightarrow> 'k \<Rightarrow> ('f, 'd, 'k) fs" where
  "initial_fs f d k = \<lparr>gUSBStorageSlots = replicate MAX_DEVICES no_slot,
     gUSBFatFsMounted = replicate MAX_DEVICES False,
     gRPFSHandles = replicate RP_FS_MAX_HANDLES \<lparr>in_use = False, h_device = 0, h_flags = 0, h_file = f\<rparr>,
     gRPFSDirHandles = replicate RP_FS_MAX_DIR_HANDLES \<lparr>d_in_use = False, d_device = 0, d_dir = d\<rparr>,
     fat_state = k, gStorageMountEnableMs = 0, gNextFatFsMountAllowedMs = 0, gUSBStorageInitialized = False\<rparr>"

lemma storage_ok_initial: "storage_ok (initial_fs f d k)"
proof -
  have "\<not> usb_fatfs_mounted dev (initial_fs f d k)" for dev
    by (simp add: usb_fatfs_mounted_def valid_device_bound initial_fs_def MAX_DEVICES_def USB_STORAGE_MAX_DEVICES_def)
  then show ?thesis
    by (simp add: storage_ok_def handles_ok_def dirs_ok_def initial_fs_def MAX_DEVICES_def USB_STORAGE_MAX_DEVICES_def)
qed

lemma unmount_invalid: "\<not> unat d < 4 \<Longrightarrow> exec (usb_fatfs_unmount ff d) s = s"
  by (simp add: usb_fatfs_unmount_def valid_device_bound)

lemma storage_ok_op: "storage_ok s \<Longrightarrow> storage_ok (exec (do_op ff op) s)"
proof (cases op)
  case (Unmount d)
  assume "storage_ok s"
  then show ?thesis
    using unmount_ok(1) [of s d ff] unmount_invalid [of d ff s] Unmount by (cases "unat d < 4") auto
qed (simp_all add: storage_ok_open storage_ok_close storage_ok_transfer storage_ok_by_name
  storage_ok_opendir storage_ok_readdir storage_ok_close_all mount_ok(1) storage_ok_event storage_ok_task)


text \<open>A FatFs that accepts everything and stores nothing, for the examples.\<close>

definition null_fatfs :: "(unit, nat, unit) fatfs" where
  "null_fatfs = \<lparr>f_mount = \<lambda>p m k. (0, k), f_open = \<lambda>p m k. (0, (), k), f_close = \<lambda>f k. (0, k),
     f_read = \<lambda>f n k. (0, replicate n 0, f, k), f_write = \<lambda>f xs k. (0, length xs, f, k),
     f_lseek = \<lambda>f p k. (0, f, k), f_size = \<lambda>f. 0, f_tell = \<lambda>f. 0, f_unlink = \<lambda>p k. (0, k),
     f_rename = \<lambda>p q k. (0, k), f_mkdir = \<lambda>p k. (0, k), f_opendir = \<lambda>p k. (0, 2, k),
     f_readdir = \<lambda>d k. (0, \<lparr>fname = (case d of 0 \<Rightarrow> [] | Suc 0 \<Rightarrow> ''A.TXT'' | _ \<Rightarrow> ''long name.text''),
       altname = [], fattrib = 0, fsize = 7\<rparr>, d - 1, k),
     f_closedir = \<lambda>d k. (0, k)\<rparr>"

definition example_fs :: "(unit, nat, unit) fs" where
  "example_fs = exec (for_each [Event (Attach 1 100 512 0), Mount 0, Open 0 ''A.TXT'' 1 1]
     (do_op null_fatfs)) (initial_fs () 0 ())"


section \<open>Unplugging\<close>

text \<open>
  When a device goes away, every file and directory open on it is closed, no handle on another
  device is touched, and its slot is free and not mounted.
\<close>

theorem unplug_takes_only_its_own:
  fixes ff :: "('f, 'd, 'k) fatfs"
  assumes "storage_ok s" and "usb_storage_find_slot_by_dev_addr a s = Some i"
  shows "let s' = exec (tuh_msc_umount_cb ff a) s; d = of_nat i in
    gRPFSHandles s' = map (\<lambda>h. if in_use h \<and> h_device h = d
        then h\<lparr>in_use := False, h_device := 0, h_flags := 0\<rparr> else h) (gRPFSHandles s) \<and>
    gRPFSDirHandles s' = map (\<lambda>h. if d_in_use h \<and> d_device h = d
        then h\<lparr>d_in_use := False, d_device := 0\<rparr> else h) (gRPFSDirHandles s) \<and>
    \<not> usb_fatfs_mounted d s' \<and> \<not> usb_storage_device_mounted d s' \<and>
    gUSBStorageSlots s' = (gUSBStorageSlots s)[i := no_slot]"
proof -
  define d :: u8 where "d = of_nat i"
  have i: "i < 4" using find_slot_bound [OF assms(1)] assms(2)
    by (auto simp: usb_storage_find_slot_by_dev_addr_def)
  then have u: "unat d = i" by (simp add: d_def unat_of_nat)
  with i have dev: "unat d < 4" "usb_storage_valid_device d"
    by (simp_all add: usb_storage_valid_device_def USB_STORAGE_MAX_DEVICES_def word_less_nat_alt)
  define s1 where "s1 = exec (usb_fatfs_unmount ff d) s"
  note un = unmount_ok(1-5) [OF assms(1) dev(1), where ff = ff, folded s1_def]
  have s': "exec (tuh_msc_umount_cb ff a) s = s1\<lparr>gUSBStorageSlots := (gUSBStorageSlots s)[i := no_slot]\<rparr>"
    using assms(2) dev u un(5)
    by (simp add: tuh_msc_umount_cb_def usb_storage_clear_slot_def s1_def [symmetric] d_def [symmetric])
  have len: "length (gUSBStorageSlots s) = 4" using assms(1) by (simp add: storage_ok_def)
  have off: "\<forall>h\<in>set (gRPFSHandles s). in_use h \<longrightarrow> h_device h \<noteq> d"
      "\<forall>h\<in>set (gRPFSDirHandles s). d_in_use h \<longrightarrow> d_device h \<noteq> d" if "\<not> usb_fatfs_mounted d s"
    using that storage_ok_parts [OF assms(1)] by (auto simp: handles_ok_def dirs_ok_def)
  have h: "gRPFSHandles s1 = map (close_if (\<lambda>h. h_device h = d)) (gRPFSHandles s)"
      "gRPFSDirHandles s1 = map (close_dir_if (\<lambda>h. d_device h = d)) (gRPFSDirHandles s)"
    using off un(3,4) by (auto simp: close_if_def close_dir_if_def intro!: map_idI [symmetric])
  have fn: "close_if (\<lambda>h. h_device h = d) = (\<lambda>h. if in_use h \<and> h_device h = d
        then h\<lparr>in_use := False, h_device := 0, h_flags := 0\<rparr> else h)"
    "close_dir_if (\<lambda>h. d_device h = d) = (\<lambda>h. if d_in_use h \<and> d_device h = d
        then h\<lparr>d_in_use := False, d_device := 0\<rparr> else h)"
    by (simp_all add: fun_eq_iff close_if_def close_dir_if_def)
  have out: "\<not> usb_storage_device_mounted d (s1\<lparr>gUSBStorageSlots := (gUSBStorageSlots s)[i := no_slot]\<rparr>)"
    using dev u i len by (simp add: usb_storage_device_mounted_def usb_storage_slot_def no_slot_def)
  show ?thesis
    unfolding Let_def s' d_def [symmetric] using h un(2) out by (simp add: fn)
qed

theorem unplug_takes_only_its_own_witness:
  "gRPFSHandles (exec (tuh_msc_umount_cb null_fatfs 1) example_fs) =
     map (\<lambda>h. h\<lparr>in_use := False, h_device := 0, h_flags := 0\<rparr>) (gRPFSHandles example_fs)"
proof -
  have ok: "storage_ok example_fs"
    unfolding example_fs_def
    by (rule exec_for_each_invariant [where I = storage_ok]) (simp_all add: storage_ok_initial storage_ok_op)
  have slot: "usb_storage_find_slot_by_dev_addr 1 example_fs = Some 0" by code_simp
  have h: "gRPFSHandles example_fs = \<lparr>in_use = True, h_device = 0, h_flags = 1, h_file = ()\<rparr> #
     replicate 3 \<lparr>in_use = False, h_device = 0, h_flags = 0, h_file = ()\<rparr>" by code_simp
  show ?thesis
    using unplug_takes_only_its_own [OF ok slot, of null_fatfs] by (simp add: Let_def h)
qed

section \<open>Block transfers\<close>

text \<open>What a transfer asks of the device.\<close>

fun xfer_range :: "xfer \<Rightarrow> u8 \<times> nat \<times> nat" where
  "xfer_range (Read10 a l lba n) = (a, unat lba, unat n)"
| "xfer_range (Write10 a l lba n) = (a, unat lba, unat n)"

lemma blocks_inside:
  assumes "x \<in> set (snd (usb_storage_blocks tu mk d lba n s))"
  shows "\<exists>sl. usb_storage_slot d s = Some sl \<and> present sl \<and> block_size sl = 512 \<and>
    x = mk (dev_addr sl) (lun sl) lba n \<and> 0 < unat n \<and> unat lba + unat n \<le> unat (block_count sl)"
proof -
  have "unat lba + unat n \<le> unat c" if "\<not> c \<le> lba" "\<not> c - lba < ucast n" for c :: u32
  proof -
    have "lba \<le> c" using that(1) by simp
    then have "unat (c - lba) = unat c - unat lba" by (rule unat_sub)
    moreover have "unat (ucast n :: u32) = unat n" using unsigned_less [of n, where ?'a = nat]
      by (simp add: unsigned_ucast_eq take_bit_nat_eq_self_iff)
    ultimately show ?thesis using that by (simp add: word_less_nat_alt word_le_nat_alt)
  qed
  then show ?thesis
    using assms unat_gt_0 [of n]
    by (auto simp: usb_storage_blocks_def Let_def split: option.splits if_splits)
qed


definition good_tusb :: tusb where
  "good_tusb = \<lparr>tuh_ready = \<lambda>a. True, tuh_xfer = \<lambda>x. True\<rparr>"

definition big_fs :: "(unit, nat, unit) fs" where
  "big_fs = exec (on_event null_fatfs (Attach 3 100000 512 0)) (initial_fs () 0 ())"


text \<open>
  The count is cut to sixteen bits: a read of 65537 blocks passes every check, transfers one block
  and is reported as complete.
\<close>

theorem disk_count_truncated:
  assumes "valid_drive d" and "usb_storage_slot d s = Some sl" and "present sl" and "block_size sl = 512"
    and "sector < block_count sl" and "65537 \<le> block_count sl - sector"
    and "tuh_ready tu (dev_addr sl)" and "tuh_xfer tu (Read10 (dev_addr sl) (lun sl) sector 1)"
  shows "disk_read tu d sector 65537 s = (RES_OK, [Read10 (dev_addr sl) (lun sl) sector 1])"
proof -
  have "(1 :: u32) \<le> block_count sl - sector" using assms(6) by (simp add: word_le_nat_alt)
  moreover have cut: "(65537 :: u16) = 1" by code_simp
  ultimately show ?thesis
    using assms
    by (simp add: cut disk_read_def usb_storage_read_blocks_def usb_storage_blocks_def Let_def not_le not_less
        usb_storage_device_mounted_def usb_storage_block_size_def usb_storage_block_count_def)
qed

theorem disk_count_truncated_witness:
  "disk_read good_tusb 0 0 65537 big_fs = (RES_OK, [Read10 3 0 0 1])"
proof -
  have sl: "usb_storage_slot 0 big_fs = Some \<lparr>present = True, mount_pending = True, dev_addr = 3, lun = 0,
      block_count = 100000, block_size = 512, mount_pending_since_ms = 0\<rparr>" by code_simp
  have v: "valid_drive 0" by code_simp
  show ?thesis using disk_count_truncated [OF v sl, of 0 good_tusb] by (simp add: good_tusb_def)
qed

end
