(* ===== verification/Rp_Fs_Ops_Spec.thy ===== *)
theory Rp_Fs_Ops_Spec
  imports Storage_Spec
begin

text \<open>
  The functional behaviour of the operations of \<open>rp_fs.cpp\<close>: what opening hands out, which transfers
  a handle permits, that removing a directory and deleting a file are the same call, and what
  listing a directory shows.
\<close>

section \<open>Opening\<close>

lemma mount_on_demand_fields:
  "gRPFSHandles (exec (mount_on_demand ff d) s) = gRPFSHandles s"
  "gRPFSDirHandles (exec (mount_on_demand ff d) s) = gRPFSDirHandles s"
  by (auto simp: mount_on_demand_def usb_fatfs_mount_def split: option.splits)

definition same_status :: "'f fs_handle \<Rightarrow> 'f fs_handle \<Rightarrow> bool" where
  "same_status h h' \<longleftrightarrow> in_use h = in_use h' \<and> h_device h = h_device h' \<and> h_flags h = h_flags h'"

lemma same_status_refl [simp]: "list_all2 same_status hs hs"
  by (simp add: same_status_def list_all2_refl)

lemma same_status_file:
  "list_all2 same_status hs (hs[i := (hs ! i)\<lparr>h_file := f\<rparr>])"
  by (cases "i < length hs") (auto simp: list_all2_conv_all_nth nth_list_update same_status_def)

text \<open>
  A successful open hands out the lowest free handle: it was free, every lower one is in use, it is now
  open on the device asked for with the permissions asked for, and the other handles are as before.
  A failed open leaves the status of every handle as it was.
\<close>

theorem open_takes_lowest_free:
  fixes ff :: "('c, 'd, 'k) fatfs"
  assumes "storage_ok s"
  shows "let s' = exec (rp_fs_open_mode_83 ff d p mode flags) s in
    case val_of (rp_fs_open_mode_83 ff d p mode flags) s of
      None \<Rightarrow> list_all2 same_status (gRPFSHandles s) (gRPFSHandles s')
    | Some i \<Rightarrow> i < RP_FS_MAX_HANDLES \<and> \<not> in_use (gRPFSHandles s ! i) \<and>
        (\<forall>j<i. in_use (gRPFSHandles s ! j)) \<and>
        (\<exists>f. gRPFSHandles s' = (gRPFSHandles s)
           [i := \<lparr>in_use = True, h_device = d, h_flags = flags, h_file = f\<rparr>]) \<and>
        usb_fatfs_mounted d s'"
proof -
  let ?m = "exec (mount_on_demand ff d) s"
  have len: "length (gRPFSHandles s) = RP_FS_MAX_HANDLES"
    using storage_ok_parts(1) [OF assms] by (simp add: handles_ok_def)
  note m = mount_on_demand_ok [OF assms, of ff d]
  have free: "i < RP_FS_MAX_HANDLES \<and> \<not> in_use (gRPFSHandles s ! i) \<and> (\<forall>j<i. in_use (gRPFSHandles s ! j))"
    if "find_index_from 0 (\<lambda>h. \<not> in_use h) (gRPFSHandles s) = Some i" for i
    using find_index_from_Some [OF that] len by simp
  have set2: "h\<lparr>h_file := f, h_device := d, h_flags := flags, in_use := True\<rparr> =
      \<lparr>in_use = True, h_device = d, h_flags = flags, h_file = f\<rparr>" for h :: "'c fs_handle" and f
    by (cases h) simp
  show ?thesis
    unfolding Let_def
    using m(2) free len
    by (auto simp: rp_fs_open_mode_83_def split_beta mount_on_demand_fields same_status_file set2
        split: option.splits)
qed

theorem open_takes_lowest_free_witness:
  "in_use (gRPFSHandles example_fs ! 0) \<and>
   usb_fatfs_mounted 0 (exec (rp_fs_open_mode_83 null_fatfs 0 ''B.TXT'' FA_READ RP_FS_HANDLE_READ) example_fs)"
proof -
  have ok: "storage_ok example_fs"
    unfolding example_fs_def
    by (rule exec_for_each_invariant [where I = storage_ok]) (simp_all add: storage_ok_initial storage_ok_op)
  have v: "val_of (rp_fs_open_mode_83 null_fatfs 0 ''B.TXT'' FA_READ RP_FS_HANDLE_READ) example_fs = Some 1"
    by code_simp
  show ?thesis
    using open_takes_lowest_free [OF ok, of null_fatfs 0 "''B.TXT''" FA_READ RP_FS_HANDLE_READ]
    by (simp add: Let_def v)
qed

section \<open>What a handle permits\<close>

text \<open>
  C37: A handle opened for reading only never writes and one opened for writing only never reads: the call
  fails and changes nothing, not even in FatFs. A permitted transfer of no bytes succeeds without
  asking FatFs, and any other returns what FatFs returns for the file of the handle.
\<close>

theorem transfers_respect_mode:
  "(rp_fs_valid_handle h s \<and> h_flags (gRPFSHandles s ! unat h) AND RP_FS_HANDLE_READ \<noteq> 0 \<or>
      run_state (rp_fs_read ff h n) s = (None, s)) \<and>
   (rp_fs_valid_handle h s \<and> h_flags (gRPFSHandles s ! unat h) AND RP_FS_HANDLE_WRITE \<noteq> 0 \<or>
      run_state (rp_fs_write ff h xs) s = (None, s)) \<and>
   (rp_fs_valid_handle h s \<and> h_flags (gRPFSHandles s ! unat h) AND RP_FS_HANDLE_READ \<noteq> 0 \<longrightarrow>
      val_of (rp_fs_read ff h n) s =
        (if n = 0 then Some []
         else case f_read ff (h_file (gRPFSHandles s ! unat h)) (unat n) (fat_state s) of
           (fr, data, f', k') \<Rightarrow> if fr = FR_OK then Some data else None)) \<and>
   (rp_fs_valid_handle h s \<and> h_flags (gRPFSHandles s ! unat h) AND RP_FS_HANDLE_WRITE \<noteq> 0 \<longrightarrow>
      val_of (rp_fs_write ff h xs) s =
        (if xs = [] then Some 0
         else case f_write ff (h_file (gRPFSHandles s ! unat h)) xs (fat_state s) of
           (fr, bw, f', k') \<Rightarrow> if fr = FR_OK then Some bw else None))"
  by (simp add: run_state_split rp_fs_read_def rp_fs_write_def file_call_def split_beta)

theorem transfers_respect_mode_witness:
  "val_of (rp_fs_read null_fatfs 0 3) example_fs = Some [0, 0, 0] \<and>
   run_state (rp_fs_write null_fatfs 0 [1]) example_fs = (None, example_fs)"
proof -
  have v: "rp_fs_valid_handle 0 example_fs" "h_flags (gRPFSHandles example_fs ! 0) = 1" by code_simp+
  have three: "unat (3 :: u16) = 3" "replicate 3 x = [x, x, x]" for x :: u8
    by (code_simp, simp add: numeral_3_eq_3)
  have nf: "f_read null_fatfs f n k = (0, replicate n 0, f, k)" for f n k by (simp add: null_fatfs_def)
  show ?thesis
    using transfers_respect_mode [of 0 example_fs null_fatfs 3 "[1]", unfolded three nf] v
    by (auto simp: RP_FS_HANDLE_READ_def RP_FS_HANDLE_WRITE_def FR_OK_def nf three)
qed

section \<open>Removing\<close>

text \<open>
  Deleting a file and removing a directory are the same operation on every resolved path but the
  root: \<open>rmdir\<close> also deletes files, and \<open>delete\<close> also removes empty directories.
\<close>

theorem rmdir_is_delete:
  assumes "cwds_ok t" and "rp_fs_resolve_process_path pid fallback input t = Inr r"
    and "rp_path r \<noteq> [slash]"
  shows "rp_fs_rmdir_83 ff (rp_device r) (rp_path r) = rp_fs_delete_83 ff (rp_device r) (rp_path r)"
proof -
  have p: "rp_fs_make_dir_path (rp_device r) (rp_path r) PATH_BUF = Some (drive_root (rp_device r) @ rp_path r)"
    "rp_fs_make_path (rp_device r) (rp_path r) PATH_BUF = Some (drive_root (rp_device r) @ rp_path r)"
    using resolved_path_both [OF assms(1,2)] assms(3) by simp_all
  have "rp_path r \<noteq> []" using p(2) by (auto simp: rp_fs_make_path_def)
  then have "\<not> rp_fs_is_root_dir_path (drive_root (rp_device r) @ rp_path r)"
    by (simp add: rp_fs_is_root_dir_path_def drive_root_def)
  then show ?thesis by (simp add: rp_fs_rmdir_83_def rp_fs_delete_83_def p cong: if_cong)
qed

theorem rmdir_is_delete_witness:
  "rp_fs_rmdir_83 null_fatfs 2 ''A/B'' = rp_fs_delete_83 null_fatfs 2 ''A/B''"
proof -
  have r: "rp_fs_resolve_process_path 3 0 ''2:/A/./B/'' (rp_fs_cwd_reset_all initial_cwds) =
      Inr \<lparr>rp_device = 2, rp_path = ''A/B''\<rparr>"
    by code_simp
  show ?thesis using rmdir_is_delete [OF after_reset r, of null_fatfs] by (simp add: slash_def)
qed

section \<open>Listing\<close>

text \<open>The entries FatFs has for a directory object: it yields them one by one and then the end.\<close>

fun dir_yields :: "('f, 'd, 'k) fatfs \<Rightarrow> filinfo list \<Rightarrow> 'd \<Rightarrow> 'k \<Rightarrow> bool" where
  "dir_yields ff [] d k \<longleftrightarrow> (case f_readdir ff d k of (fr, info, d', k') \<Rightarrow> fr = FR_OK \<and> fname info = [])"
| "dir_yields ff (e # es) d k \<longleftrightarrow> (case f_readdir ff d k of (fr, info, d', k') \<Rightarrow>
     fr = FR_OK \<and> info = e \<and> fname e \<noteq> [] \<and> dir_yields ff es d' k')"

text \<open>What the listing should give: the first entry that has an 8.3 name, under that name.\<close>

fun first_shown :: "filinfo list \<Rightarrow> readdir_result" where
  "first_shown [] = End_Of_Dir"
| "first_shown (e # es) = (case shown_name e of None \<Rightarrow> first_shown es
     | Some n \<Rightarrow> Entry n (fattrib e) (fsize e))"

lemma shown_name_length:
  assumes "shown_name e = Some n" and "slash \<notin> set (fname e) \<union> set (altname e)"
  shows "length n < 13"
proof -
  have n: "rp_fs_is_valid_83_name n" "slash \<notin> set n"
    using assms by (auto simp: shown_name_def split: if_splits)
  then have "\<not> drive_qualified n" by (cases n rule: drive_qualified.cases) auto
  with n(1) have "component_loop n (0, 0, False)" by (simp add: rp_fs_is_valid_83_name_def)
  from component_loop_length [OF this] show ?thesis by simp
qed

lemma readdir_loop_first:
  "dir_yields ff es d k \<Longrightarrow> length es < fuel \<Longrightarrow> 13 \<le> name_len \<Longrightarrow>
   \<forall>e\<in>set es. slash \<notin> set (fname e) \<union> set (altname e) \<Longrightarrow>
   fst (readdir_loop ff fuel name_len d k) = first_shown es"
proof (induction es arbitrary: fuel d k)
  case Nil
  then show ?case by (cases fuel) (auto split: prod.splits)
next
  case (Cons e es)
  obtain d' k' where r: "f_readdir ff d k = (FR_OK, e, d', k')" "fname e \<noteq> []" "dir_yields ff es d' k'"
    using Cons.prems(1) by (auto split: prod.splits)
  obtain m where m: "fuel = Suc m" "length es < m" using Cons.prems(2) by (cases fuel) auto
  have short: "length n < name_len" if "shown_name e = Some n" for n
    using shown_name_length [OF that] Cons.prems(3,4) by auto
  show ?case
    using Cons.IH [OF r(3) m(2)] Cons.prems(3,4) short
    by (auto simp: m(1) r(1,2) not_le [symmetric] split: option.split)
qed

text \<open>
  Listing a directory returns its first remaining entry that has an 8.3 name, in the caller's buffer of
  13 bytes or more, and the end of the directory if there is none: the loop ends within its fuel
  for every directory of at most 65536 entries and no name is ever too long, given that FatFs's
  names hold no slash.
\<close>

theorem readdir_gives_first_shown:
  assumes "rp_fs_valid_dir_handle h s" and "13 \<le> name_len"
    and "dir_yields ff es (d_dir (gRPFSDirHandles s ! unat h)) (fat_state s)" and "length es \<le> 65536"
    and "\<forall>e\<in>set es. slash \<notin> set (fname e) \<union> set (altname e)"
  shows "val_of (rp_fs_readdir ff h name_len) s = first_shown es"
  using assms readdir_loop_first [OF assms(3), of DIR_FUEL name_len]
  by (simp add: rp_fs_readdir_def DIR_FUEL_def)

definition example_dir :: "(unit, nat, unit) fs" where
  "example_dir = exec (rp_fs_opendir_83 null_fatfs 0 ''/'') example_fs"

theorem readdir_gives_first_shown_witness:
  "val_of (rp_fs_readdir null_fatfs 0 13) example_dir = Entry ''A.TXT'' 0 7"
proof -
  let ?e = "\<lambda>n. \<lparr>fname = n, altname = [], fattrib = 0, fsize = 7\<rparr>"
  let ?es = "[?e ''long name.text'', ?e ''A.TXT'']"
  have v: "rp_fs_valid_dir_handle 0 example_dir" by code_simp
  have d: "d_dir (gRPFSDirHandles example_dir ! unat (0::u8)) = 2" by code_simp
  have y: "dir_yields null_fatfs ?es (d_dir (gRPFSDirHandles example_dir ! unat (0::u8))) (fat_state example_dir)"
    unfolding d by (simp add: null_fatfs_def FR_OK_def numeral_2_eq_2)
  have "first_shown ?es = Entry ''A.TXT'' 0 7" by code_simp
  with readdir_gives_first_shown [OF v _ y, of 13] show ?thesis by (simp add: slash_def)
qed

end
