(* ===== verification/System.thy ===== *)
theory System
  imports Bus_Properties Input Rp_Fs_Ops_Spec
begin

text \<open>
  The globals of the firmware above the bus as one record, the lifting of the components'
  operations to it, and rules that show step by step that an operation keeps an invariant or
  establishes a postcondition.
\<close>

section \<open>Globals\<close>

datatype mailbox_state = mbINIT | mbIDLE | mbWRITE | mbREAD | mbDONE

record mailbox =
  mailbox_state :: mailbox_state
  gPollCount :: u32
  gCommandCount :: u32
  gErrorCount :: u32
  gUnknownCmdCount :: u32
  gConsolePID :: u8
  lastCheck :: bool
  lCount :: u16

record console =
  gConsoleTarget :: u16
  gConsoleLen :: u16
  gConsoleCurrent :: u16
  gConsoleRemaining :: u16
  gConsoleReadCount :: u32
  gConsoleWriteCount :: u32

record scheduler =
  gIntrPending :: bool
  gFsCompletionPending :: bool
  gConsoleBreakPending :: bool
  irqTimerEnabled :: bool
  irqTimerInterval :: u32
  irqLastTS :: u32
  taskTimerCounter :: u8

datatype fs_counter =
    gFSCommandCount | gFSStatusCount | gFSOpenCount | gFSReadCount | gFSWriteCount | gFSCloseCount
  | gFSLoadCount | gFSSaveCount | gFSSeekCount | gFSTellCount | gFSDeleteCount | gFSRenameCount
  | gFSOpendirCount | gFSReaddirCount | gFSClosedirCount | gFSMkdirCount | gFSRmdirCount | gFSErrorCount

record ('b, 'f, 'd, 'k) sys =
  mach :: "'b machine"
  qs :: queues
  files :: "('f, 'd, 'k) fs"
  cwds :: cwd_table
  mbx :: mailbox
  con :: console
  sch :: scheduler
  inCount :: u16
  fs_counts :: "fs_counter \<Rightarrow> u32"

text \<open>The globals above the bus as the static initialisers leave them.\<close>

definition initial_mailbox :: mailbox where
  "initial_mailbox = \<lparr>mailbox_state = mbINIT, gPollCount = 0, gCommandCount = 0, gErrorCount = 0,
     gUnknownCmdCount = 0, gConsolePID = 0, lastCheck = True, lCount = 0\<rparr>"

definition initial_console :: console where
  "initial_console = \<lparr>gConsoleTarget = 0, gConsoleLen = 0, gConsoleCurrent = 0, gConsoleRemaining = 0,
     gConsoleReadCount = 0, gConsoleWriteCount = 0\<rparr>"

definition initial_scheduler :: scheduler where
  "initial_scheduler = \<lparr>gIntrPending = False, gFsCompletionPending = False, gConsoleBreakPending = False,
     irqTimerEnabled = False, irqTimerInterval = 0, irqLastTS = 0, taskTimerCounter = 0\<rparr>"

section \<open>Operations of a component on the whole state\<close>

definition on_mach :: "('b machine, 'a) state \<Rightarrow> (('b, 'f, 'd, 'k) sys, 'a) state" where
  "on_mach = zoom mach (\<lambda>m s. s\<lparr>mach := m\<rparr>)"

definition on_qs :: "(queues, 'a) state \<Rightarrow> (('b, 'f, 'd, 'k) sys, 'a) state" where
  "on_qs = zoom qs (\<lambda>q s. s\<lparr>qs := q\<rparr>)"

definition on_files :: "(('f, 'd, 'k) fs, 'a) state \<Rightarrow> (('b, 'f, 'd, 'k) sys, 'a) state" where
  "on_files = zoom files (\<lambda>f s. s\<lparr>files := f\<rparr>)"

definition on_mbx :: "(mailbox \<Rightarrow> mailbox) \<Rightarrow> (('b, 'f, 'd, 'k) sys, unit) state" where
  "on_mbx f = modify (\<lambda>s. s\<lparr>mbx := f (mbx s)\<rparr>)"

definition on_con :: "(console \<Rightarrow> console) \<Rightarrow> (('b, 'f, 'd, 'k) sys, unit) state" where
  "on_con f = modify (\<lambda>s. s\<lparr>con := f (con s)\<rparr>)"

definition on_sch :: "(scheduler \<Rightarrow> scheduler) \<Rightarrow> (('b, 'f, 'd, 'k) sys, unit) state" where
  "on_sch f = modify (\<lambda>s. s\<lparr>sch := f (sch s)\<rparr>)"

definition bump :: "fs_counter \<Rightarrow> (('b, 'f, 'd, 'k) sys, unit) state" where
  "bump c = modify (\<lambda>s. s\<lparr>fs_counts := (fs_counts s)(c := fs_counts s c + 1)\<rparr>)"

text \<open>A table operation that returns its success and the new table.\<close>

definition on_cwds :: "(cwd_table \<Rightarrow> 'a \<times> cwd_table) \<Rightarrow> (('b, 'f, 'd, 'k) sys, 'a) state" where
  "on_cwds f = zoom cwds (\<lambda>t s. s\<lparr>cwds := t\<rparr>) (State f)"

lemmas lift_defs = on_mach_def on_qs_def on_files_def on_mbx_def on_con_def on_sch_def bump_def on_cwds_def

lemma exec_lift [simp]:
  "exec (on_mach p) s = s\<lparr>mach := exec p (mach s)\<rparr>"
  "exec (on_qs pq) s = s\<lparr>qs := exec pq (qs s)\<rparr>"
  "exec (on_files pf) s = s\<lparr>files := exec pf (files s)\<rparr>"
  "exec (on_mbx f) s = s\<lparr>mbx := f (mbx s)\<rparr>"
  "exec (on_con g) s = s\<lparr>con := g (con s)\<rparr>"
  "exec (on_sch h) s = s\<lparr>sch := h (sch s)\<rparr>"
  "exec (bump c) s = s\<lparr>fs_counts := (fs_counts s)(c := fs_counts s c + 1)\<rparr>"
  "exec (on_cwds t) s = s\<lparr>cwds := snd (t (cwds s))\<rparr>"
  by (simp_all add: lift_defs) (simp add: exec_def)

lemma val_of_lift [simp]:
  "val_of (on_mach p) s = val_of p (mach s)"
  "val_of (on_qs pq) s = val_of pq (qs s)"
  "val_of (on_files pf) s = val_of pf (files s)"
  "val_of (on_cwds t) s = fst (t (cwds s))"
  by (simp_all add: lift_defs) (simp add: val_of_def)

section \<open>Keeping and establishing\<close>

definition preserves :: "('s \<Rightarrow> bool) \<Rightarrow> ('s, 'a) state \<Rightarrow> bool" where
  "preserves I p \<longleftrightarrow> (\<forall>s. I s \<longrightarrow> I (exec p s))"

definition establishes :: "('s \<Rightarrow> bool) \<Rightarrow> ('a \<Rightarrow> 's \<Rightarrow> bool) \<Rightarrow> ('s, 'a) state \<Rightarrow> bool" where
  "establishes I Q p \<longleftrightarrow> (\<forall>s. I s \<longrightarrow> I (exec p s) \<and> Q (val_of p s) (exec p s))"

lemma preservesD: "preserves I p \<Longrightarrow> I s \<Longrightarrow> I (exec p s)"
  by (simp add: preserves_def)

lemma establishesD: "establishes I Q p \<Longrightarrow> I s \<Longrightarrow> I (exec p s) \<and> Q (val_of p s) (exec p s)"
  by (simp add: establishes_def)

named_theorems pres \<open>operations that keep an invariant\<close>

lemma preserves_ret [pres]: "preserves I (ret x)"
  by (simp add: preserves_def)

lemma preserves_gets [pres]: "preserves I (gets f)"
  by (simp add: preserves_def)

lemma preserves_bind [pres]:
  "preserves I p \<Longrightarrow> (\<And>x. preserves I (k x)) \<Longrightarrow> preserves I (State_Monad.bind p k)"
  unfolding preserves_def exec_simps by blast

lemma preserves_if [pres]: "preserves I p \<Longrightarrow> preserves I q \<Longrightarrow> preserves I (if c then p else q)"
  by simp

lemma preserves_when [pres]: "preserves I p \<Longrightarrow> preserves I (when_do c p)"
  by (simp add: when_do_def preserves_ret)

lemma preserves_let [pres]: "preserves I (k x) \<Longrightarrow> preserves I (let y = x in k y)"
  by simp

lemma preserves_option [pres]:
  "preserves I p \<Longrightarrow> (\<And>x. preserves I (k x)) \<Longrightarrow> preserves I (case z of None \<Rightarrow> p | Some x \<Rightarrow> k x)"
  by (cases z) simp_all

lemma preserves_sum [pres]:
  "(\<And>x. preserves I (l x)) \<Longrightarrow> (\<And>x. preserves I (k x)) \<Longrightarrow>
   preserves I (case z of Inl x \<Rightarrow> l x | Inr x \<Rightarrow> k x)"
  by (cases z) simp_all

lemma preserves_for_each [pres]: "(\<And>i. preserves I (body i)) \<Longrightarrow> preserves I (for_each is body)"
proof (induction "is")
  case (Cons i "is")
  then show ?case by (auto intro: preserves_bind)
qed (simp add: preserves_ret)

lemma preserves_map_each [pres]: "(\<And>i. preserves I (body i)) \<Longrightarrow> preserves I (map_each is body)"
proof (induction "is")
  case (Cons i "is")
  then show ?case by (auto intro: preserves_bind preserves_ret)
qed (simp add: preserves_ret)

text \<open>For a final step, for the steps before it, and for the steps after it.\<close>

lemma establishes_bind:
  "preserves I p \<Longrightarrow> (\<And>x. establishes I Q (k x)) \<Longrightarrow> establishes I Q (State_Monad.bind p k)"
  unfolding preserves_def establishes_def exec_simps val_of_simps by blast

lemma establishes_if: "establishes I Q p \<Longrightarrow> establishes I Q q \<Longrightarrow> establishes I Q (if c then p else q)"
  by simp

lemma establishes_let: "establishes I Q (k x) \<Longrightarrow> establishes I Q (let y = x in k y)"
  by simp

lemma establishes_option:
  "establishes I Q p \<Longrightarrow> (\<And>x. establishes I Q (k x)) \<Longrightarrow>
   establishes I Q (case z of None \<Rightarrow> p | Some x \<Rightarrow> k x)"
  by (cases z) simp_all

lemma establishes_sum:
  "(\<And>x. establishes I Q (l x)) \<Longrightarrow> (\<And>x. establishes I Q (k x)) \<Longrightarrow>
   establishes I Q (case z of Inl x \<Rightarrow> l x | Inr x \<Rightarrow> k x)"
  by (cases z) simp_all

lemma establishes_prod: "(\<And>x y. establishes I Q (k x y)) \<Longrightarrow> establishes I Q (case z of (x, y) \<Rightarrow> k x y)"
  by (cases z) simp

lemma establishes_preserves: "establishes I Q p \<Longrightarrow> preserves I p"
  by (simp add: preserves_def establishes_def)

lemmas est = establishes_if establishes_let establishes_option establishes_sum establishes_prod

section \<open>The invariant of the whole\<close>

text \<open>
  \<open>sys_up view R m0\<close>: the bus is served as it was in \<open>m0\<close> (same system state, same context,
  same MMU table), files, directory table and queues are in order.
\<close>

definition sys_up :: "('b \<Rightarrow> ref) \<Rightarrow> u16 set \<Rightarrow> ref machine \<Rightarrow> ('b, 'f, 'd, 'k) sys \<Rightarrow> bool" where
  "sys_up view R m0 s \<longleftrightarrow> keeps_port R m0 (absm view (mach s)) \<and> storage_ok (files s) \<and>
     cwds_ok (cwds s) \<and> queues_ok (qs s)"

text \<open>The 6502 memory under the selected context.\<close>

definition smem :: "('b \<Rightarrow> ref) \<Rightarrow> ('b, 'f, 'd, 'k) sys \<Rightarrow> u16 \<Rightarrow> u8" where
  "smem view s a = mem (absm view (mach s)) a"

lemma sys_up_upd [simp]:
  "sys_up view R m0 (s\<lparr>mbx := mb\<rparr>) = sys_up view R m0 s"
  "sys_up view R m0 (s\<lparr>con := c\<rparr>) = sys_up view R m0 s"
  "sys_up view R m0 (s\<lparr>sch := sc\<rparr>) = sys_up view R m0 s"
  "sys_up view R m0 (s\<lparr>inCount := n\<rparr>) = sys_up view R m0 s"
  "sys_up view R m0 (s\<lparr>fs_counts := fc\<rparr>) = sys_up view R m0 s"
  "smem view (s\<lparr>mbx := mb\<rparr>) = smem view s"
  "smem view (s\<lparr>con := c\<rparr>) = smem view s"
  "smem view (s\<lparr>sch := sc\<rparr>) = smem view s"
  "smem view (s\<lparr>inCount := n\<rparr>) = smem view s"
  "smem view (s\<lparr>fs_counts := fc\<rparr>) = smem view s"
  "smem view (s\<lparr>qs := q\<rparr>) = smem view s"
  "smem view (s\<lparr>files := f\<rparr>) = smem view s"
  "smem view (s\<lparr>cwds := t\<rparr>) = smem view s"
  by (simp_all add: sys_up_def smem_def fun_eq_iff)

lemma sys_up_parts:
  assumes "sys_up view R m0 s"
  shows "port_ok (absm view (mach s))" and "storage_ok (files s)" and "cwds_ok (cwds s)"
    and "queues_ok (qs s)" and "keeps_port R m0 (absm view (mach s))"
  using assms by (simp_all add: sys_up_def keeps_port_def)

lemma sys_up_refl:
  assumes "port_ok (absm view (mach s))" and "storage_ok (files s)" and "cwds_ok (cwds s)" and "queues_ok (qs s)"
  shows "sys_up view R (absm view (mach s)) s"
  using assms by (simp add: sys_up_def keeps_port_refl)

lemma pres_globals [pres]:
  "preserves (sys_up view R m0) (on_mbx f)"
  "preserves (sys_up view R m0) (on_con g)"
  "preserves (sys_up view R m0) (on_sch h)"
  "preserves (sys_up view R m0) (bump c)"
  by (simp_all add: preserves_def)

lemma pres_files [pres]:
  "(\<And>t. storage_ok t \<Longrightarrow> storage_ok (exec p t)) \<Longrightarrow> preserves (sys_up view R m0) (on_files p)"
  by (simp add: preserves_def sys_up_def)

lemma pres_qs [pres]:
  "(\<And>t. queues_ok t \<Longrightarrow> queues_ok (exec p t)) \<Longrightarrow> preserves (sys_up view R m0) (on_qs p)"
  by (simp add: preserves_def sys_up_def)

lemma pres_cwds [pres]:
  "(\<And>t. cwds_ok t \<Longrightarrow> cwds_ok (snd (f t))) \<Longrightarrow> preserves (sys_up view R m0) (on_cwds f)"
  by (simp add: preserves_def sys_up_def)

end
