(* ===== verification/Mailbox_Abi.thy ===== *)
theory Mailbox_Abi
  imports System
begin

text \<open>
  The request/result block in 6502 memory (\<open>mailbox.h\<close>), the helpers of \<open>mailbox.cpp\<close> that read
  and complete a request, and the command slots of \<open>cmd.cpp\<close>. The locale \<open>mailbox_bus\<close> adds to
  \<open>served_bus\<close> that the processor leaves the mailbox cells alone while a request is handled.
\<close>

section \<open>Addresses and codes\<close>

definition RP_DOORBELL :: u16 where "RP_DOORBELL = 0xE010"
definition RP_DOORBELL_NONE :: u8 where "RP_DOORBELL_NONE = 0x00"
definition RP_REQ_BASE :: u16 where "RP_REQ_BASE = 0xB000"
definition RP_GROUP :: u16 where "RP_GROUP = RP_REQ_BASE + 0x00"
definition RP_CMD :: u16 where "RP_CMD = RP_REQ_BASE + 0x01"
definition RP_STATUS :: u16 where "RP_STATUS = RP_REQ_BASE + 0x02"
definition RP_ERR :: u16 where "RP_ERR = RP_REQ_BASE + 0x03"
definition RP_FLAGS :: u16 where "RP_FLAGS = RP_REQ_BASE + 0x04"
definition RP_STATE :: u16 where "RP_STATE = RP_REQ_BASE + 0x05"
definition RP_ARG0L :: u16 where "RP_ARG0L = RP_REQ_BASE + 0x06"
definition RP_ARG0H :: u16 where "RP_ARG0H = RP_REQ_BASE + 0x07"
definition RP_ARG1L :: u16 where "RP_ARG1L = RP_REQ_BASE + 0x08"
definition RP_ARG1H :: u16 where "RP_ARG1H = RP_REQ_BASE + 0x09"
definition RP_ARG2L :: u16 where "RP_ARG2L = RP_REQ_BASE + 0x0A"
definition RP_ARG2H :: u16 where "RP_ARG2H = RP_REQ_BASE + 0x0B"
definition RP_RES0L :: u16 where "RP_RES0L = RP_REQ_BASE + 0x0C"
definition RP_RES1L :: u16 where "RP_RES1L = RP_REQ_BASE + 0x0E"
definition RP_IRQ_SOURCE :: u16 where "RP_IRQ_SOURCE = 0xB010"
definition RP_CONSOLE_PID :: u16 where "RP_CONSOLE_PID = 0xB011"
definition RP_CONSOLE_RDY :: u16 where "RP_CONSOLE_RDY = 0xB012"
definition RP_IRQ_STATE :: u16 where "RP_IRQ_STATE = 0xB013"

definition RP_IDLE :: u8 where "RP_IDLE = 0"
definition RP_BUSY :: u8 where "RP_BUSY = 1"
definition RP_DONE :: u8 where "RP_DONE = 2"
definition RP_ERROR :: u8 where "RP_ERROR = 3"

definition RP_ERR_OK :: u8 where "RP_ERR_OK = 0"
definition RP_ERR_ENOENT :: u8 where "RP_ERR_ENOENT = 2"
definition RP_ERR_EIO :: u8 where "RP_ERR_EIO = 3"
definition RP_ERR_ENOMEM :: u8 where "RP_ERR_ENOMEM = 4"
definition RP_ERR_EINVAL :: u8 where "RP_ERR_EINVAL = 6"

definition CMD_SLOT_BASE :: u16 where "CMD_SLOT_BASE = 0xE000"
definition CMD_SLOT_CMD :: u8 where "CMD_SLOT_CMD = 2"
definition CMD_SLOT_PARAM :: u8 where "CMD_SLOT_PARAM = 3"
definition CMD6502_NONE :: u8 where "CMD6502_NONE = 0"
definition CMD6502_CONTEXT_SWITCH :: u8 where "CMD6502_CONTEXT_SWITCH = 2"
definition RP_GETCHAR :: u16 where "RP_GETCHAR = 0xE000"
definition RP_PUTCHAR :: u16 where "RP_PUTCHAR = 0xE001"

lemmas abi_addresses = RP_DOORBELL_def RP_REQ_BASE_def RP_GROUP_def RP_CMD_def RP_STATUS_def RP_ERR_def
  RP_FLAGS_def RP_STATE_def RP_ARG0L_def RP_ARG0H_def RP_ARG1L_def RP_ARG1H_def RP_ARG2L_def RP_ARG2H_def
  RP_RES0L_def RP_RES1L_def RP_IRQ_SOURCE_def RP_CONSOLE_PID_def RP_CONSOLE_RDY_def RP_IRQ_STATE_def
  CMD_SLOT_BASE_def CMD_SLOT_CMD_def CMD_SLOT_PARAM_def RP_GETCHAR_def RP_PUTCHAR_def

lemmas abi_codes = RP_DOORBELL_NONE_def RP_IDLE_def RP_BUSY_def RP_DONE_def RP_ERROR_def RP_ERR_OK_def
  RP_ERR_ENOENT_def RP_ERR_EIO_def RP_ERR_ENOMEM_def RP_ERR_EINVAL_def

text \<open>All cells through which the 6502 and the RP talk.\<close>

definition mailbox_cells :: "u16 set" where
  "mailbox_cells = {0xB000, 0xB001, 0xB002, 0xB003, 0xB004, 0xB005, 0xB006, 0xB007, 0xB008, 0xB009,
     0xB00A, 0xB00B, 0xB00C, 0xB00D, 0xB00E, 0xB00F, 0xB010, 0xB011, 0xB012, 0xB013,
     0xE000, 0xE001, 0xE002, 0xE003, 0xE010}"

section \<open>Reading and completing a request\<close>

definition rp_read16 :: "'b board \<Rightarrow> u16 \<Rightarrow> ('b machine, u16) state" where
  "rp_read16 bd addr = do {
     lo \<leftarrow> snoop_read6502MemoryLoc bd addr;
     hi \<leftarrow> snoop_read6502MemoryLoc bd (addr + 1);
     ret (ucast lo OR push_bit 8 (ucast hi))
   }"

definition rp_write16 :: "'b board \<Rightarrow> u16 \<Rightarrow> u16 \<Rightarrow> ('b machine, unit) state" where
  "rp_write16 bd addr v = do {
     snoop_write6502MemoryLoc bd addr (ucast (v AND 0xFF));
     snoop_write6502MemoryLoc bd (addr + 1) (ucast (drop_bit 8 v AND 0xFF))
   }"

definition rp_clear_doorbell :: "'b board \<Rightarrow> ('b machine, unit) state" where
  "rp_clear_doorbell bd = snoop_write6502MemoryLoc bd RP_DOORBELL RP_DOORBELL_NONE"

definition rp_mailbox_clear_result_fields :: "'b board \<Rightarrow> ('b machine, unit) state" where
  "rp_mailbox_clear_result_fields bd = do {
     rp_write16 bd RP_RES0L 0;
     rp_write16 bd RP_RES1L 0;
     snoop_write6502MemoryLoc bd RP_ERR RP_ERR_OK;
     snoop_write6502MemoryLoc bd RP_FLAGS 0
   }"

definition rp_mailbox_set_done :: "'b board \<Rightarrow> u16 \<Rightarrow> u8 \<Rightarrow> ('b machine, unit) state" where
  "rp_mailbox_set_done bd result flags = do {
     rp_write16 bd RP_RES0L result;
     rp_write16 bd RP_RES1L 0;
     snoop_write6502MemoryLoc bd RP_ERR RP_ERR_OK;
     snoop_write6502MemoryLoc bd RP_FLAGS flags;
     snoop_write6502MemoryLoc bd RP_STATUS RP_DONE;
     rp_clear_doorbell bd
   }"

definition rp_mailbox_set_done32 :: "'b board \<Rightarrow> u32 \<Rightarrow> u8 \<Rightarrow> ('b machine, unit) state" where
  "rp_mailbox_set_done32 bd result flags = do {
     rp_write16 bd RP_RES0L (ucast (result AND 0xFFFF));
     rp_write16 bd RP_RES1L (ucast (drop_bit 16 result AND 0xFFFF));
     snoop_write6502MemoryLoc bd RP_ERR RP_ERR_OK;
     snoop_write6502MemoryLoc bd RP_FLAGS flags;
     snoop_write6502MemoryLoc bd RP_STATUS RP_DONE;
     rp_clear_doorbell bd
   }"

definition rp_mailbox_set_error :: "'b board \<Rightarrow> u8 \<Rightarrow> u16 \<Rightarrow> (('b, 'f, 'd, 'k) sys, unit) state" where
  "rp_mailbox_set_error bd err partial = do {
     on_mach (rp_write16 bd RP_RES0L partial);
     on_mach (rp_write16 bd RP_RES1L 0);
     on_mach (snoop_write6502MemoryLoc bd RP_ERR err);
     on_mach (snoop_write6502MemoryLoc bd RP_FLAGS 0);
     on_mach (snoop_write6502MemoryLoc bd RP_STATUS RP_ERROR);
     on_mach (rp_clear_doorbell bd);
     on_mbx (\<lambda>m. m\<lparr>gErrorCount := gErrorCount m + 1\<rparr>)
   }"

definition getConsolePID :: "(('b, 'f, 'd, 'k) sys, u8) state" where
  "getConsolePID = gets (\<lambda>s. gConsolePID (mbx s))"

definition setConsolePID :: "'b board \<Rightarrow> u8 \<Rightarrow> (('b, 'f, 'd, 'k) sys, unit) state" where
  "setConsolePID bd vPID = do {
     on_mach (snoop_write6502MemoryLoc bd RP_CONSOLE_PID vPID);
     on_mbx (\<lambda>m. m\<lparr>gConsolePID := vPID\<rparr>)
   }"

section \<open>Command slots\<close>

definition readCmdSlot :: "'b board \<Rightarrow> u8 \<Rightarrow> ('b machine, u8) state" where
  "readCmdSlot bd vSlot = snoop_read6502MemoryLoc bd (CMD_SLOT_BASE + ucast vSlot)"

definition writeCmdSlot :: "'b board \<Rightarrow> u8 \<Rightarrow> u8 \<Rightarrow> ('b machine, unit) state" where
  "writeCmdSlot bd vSlot vData = snoop_write6502MemoryLoc bd (CMD_SLOT_BASE + ucast vSlot) vData"

text \<open>\<open>Some (cmd, param)\<close> for a result of true with the two output parameters.\<close>

definition getCommand6502 :: "'b board \<Rightarrow> (('b, 'f, 'd, 'k) sys, (u8 \<times> u8) option) state" where
  "getCommand6502 bd = do {
     modify (\<lambda>s. s\<lparr>inCount := inCount s + 1\<rparr>);
     t \<leftarrow> on_mach triggerMMUIO;
     n \<leftarrow> gets inCount;
     if t \<or> n mod 10 = 0 then do {
       cmd \<leftarrow> on_mach (readCmdSlot bd CMD_SLOT_CMD);
       if cmd \<noteq> CMD6502_NONE then do {
         param \<leftarrow> on_mach (readCmdSlot bd CMD_SLOT_PARAM);
         on_mach ackMMUIO;
         ret (Some (cmd, param))
       } else ret None
     } else ret None
   }"

definition ackCommand6502 :: "'b board \<Rightarrow> ('b machine, unit) state" where
  "ackCommand6502 bd = do {
     cmd \<leftarrow> readCmdSlot bd CMD_SLOT_CMD;
     when_do (cmd \<noteq> CMD6502_NONE) (writeCmdSlot bd CMD_SLOT_CMD CMD6502_NONE)
   }"

definition initCmdInterface :: "'b board \<Rightarrow> ('b machine, unit) state" where
  "initCmdInterface bd = snoop_write6502Memory bd CMD_SLOT_BASE [0x00, 0x00, 0x00, 0x00]"

section \<open>The mailbox seen through the bus\<close>

definition answered :: "('b \<Rightarrow> ref) \<Rightarrow> ('b, 'f, 'd, 'k) sys \<Rightarrow> bool" where
  "answered view s \<longleftrightarrow> (smem view s RP_STATUS = RP_DONE \<or> smem view s RP_STATUS = RP_ERROR) \<and>
     smem view s RP_DOORBELL = RP_DOORBELL_NONE"

lemma answered_upd [simp]:
  "answered view (s\<lparr>mbx := mb\<rparr>) = answered view s"
  "answered view (s\<lparr>con := c\<rparr>) = answered view s"
  "answered view (s\<lparr>sch := sc\<rparr>) = answered view s"
  "answered view (s\<lparr>fs_counts := fc\<rparr>) = answered view s"
  by (simp_all add: answered_def)

lemma port_ok_ack [simp]: "port_ok (absm view (m\<lparr>gMMUIOTrigger := b\<rparr>)) = port_ok (absm view m)"
  by (simp add: port_ok_def)

lemma keeps_port_ack [simp]:
  "keeps_port R m0 (m\<lparr>gMMUIOTrigger := b\<rparr>) = keeps_port R m0 m"
  by (simp add: keeps_port_def port_ok_def)

lemma mem_ack [simp]: "mem (m\<lparr>gMMUIOTrigger := b\<rparr>) = mem m"
  by (simp add: mem_def fun_eq_iff)

locale mailbox_bus = served_bus bd view cpu R for bd :: "'b board" and view and cpu and R +
  assumes cells: "mailbox_cells \<subseteq> R"
begin

lemma cellI: "a \<in> mailbox_cells \<Longrightarrow> a \<in> R"
  using cells by blast

abbreviation "up m0 \<equiv> sys_up view R m0"

lemma pres_read [pres]: "preserves (up m0) (on_mach (snoop_read6502MemoryLoc bd a))"
proof -
  have "keeps_port R m0 (absm view (exec (snoop_read6502MemoryLoc bd a) m))" if "keeps_port R m0 (absm view m)" for m
    using keeps_port_trans [OF that snoop_read(2) [OF keeps_portD(1) [OF that]]] .
  then show ?thesis unfolding preserves_def sys_up_def by simp
qed

lemma pres_write [pres]: "preserves (up m0) (on_mach (snoop_write6502MemoryLoc bd a v))"
proof -
  have "keeps_port R m0 (absm view (exec (snoop_write6502MemoryLoc bd a v) m))" if "keeps_port R m0 (absm view m)" for m
    using keeps_port_trans [OF that snoop_write(1) [OF keeps_portD(1) [OF that]]] .
  then show ?thesis unfolding preserves_def sys_up_def by simp
qed

lemma pres_ack [pres]: "preserves (up m0) (on_mach ackMMUIO)"
  by (simp add: preserves_def sys_up_def ackMMUIO_def)

lemma on_mach_bind: "on_mach (State_Monad.bind p k) = State_Monad.bind (on_mach p) (\<lambda>x. on_mach (k x))"
  by (simp add: on_mach_def zoom_def State_Monad.bind_def state.expand split_beta)

lemma on_mach_ret: "on_mach (ret x) = ret x"
  by (simp add: on_mach_def zoom_def State_Monad.return_def)

text \<open>The same at the level of the machine, for runs of several accesses.\<close>

abbreviation "served m0 m \<equiv> keeps_port R m0 (absm view m)"
abbreviation "at m x \<equiv> mem (absm view m) x"

lemma r_served: "served m0 m \<Longrightarrow> served m0 (exec (snoop_read6502MemoryLoc bd a) m)"
  using keeps_port_trans [OF _ snoop_read(2) [OF keeps_portD(1)]] .

lemma w_served: "served m0 m \<Longrightarrow> served m0 (exec (snoop_write6502MemoryLoc bd a v) m)"
  using keeps_port_trans [OF _ snoop_write(1) [OF keeps_portD(1)]] .

lemma r_val: "served m0 m \<Longrightarrow> a \<in> mailbox_cells \<Longrightarrow> val_of (snoop_read6502MemoryLoc bd a) m = at m a"
  by (rule snoop_read(1) [OF keeps_portD(1) cellI])

lemma r_at: "served m0 m \<Longrightarrow> x \<in> mailbox_cells \<Longrightarrow> at (exec (snoop_read6502MemoryLoc bd a) m) x = at m x"
  by (rule snoop_read(3) [OF keeps_portD(1) cellI])

lemma w_at:
  "served m0 m \<Longrightarrow> x \<in> mailbox_cells \<Longrightarrow>
   at (exec (snoop_write6502MemoryLoc bd a v) m) x = (if x = a then v else at m x)"
  by (rule snoop_write(2) [OF keeps_portD(1) cellI])

lemma r_trigger: "served m0 m \<Longrightarrow> gMMUIOTrigger (exec (snoop_read6502MemoryLoc bd a) m) = gMMUIOTrigger m"
  by (rule snoop_read(4) [OF keeps_portD(1)])

lemma w_trigger: "served m0 m \<Longrightarrow> \<not> gMMUIOTrigger (exec (snoop_write6502MemoryLoc bd a v) m)"
  by (rule snoop_write(3) [OF keeps_portD(1)])

lemmas bus_run = r_served w_served r_val r_at w_at r_trigger w_trigger

lemma rp_read16_run:
  assumes "served m0 m" and "a \<in> mailbox_cells" and "a + 1 \<in> mailbox_cells"
  shows "val_of (rp_read16 bd a) m = ucast (at m a) OR push_bit 8 (ucast (at m (a + 1)))"
    and "x \<in> mailbox_cells \<Longrightarrow> at (exec (rp_read16 bd a) m) x = at m x"
  using assms bus_run [where ?m0.0 = m0] by (simp_all add: rp_read16_def)

lemma rp_read16_served: "served m0 m \<Longrightarrow> served m0 (exec (rp_read16 bd a) m)"
  using bus_run [where ?m0.0 = m0] by (simp add: rp_read16_def)

lemma rp_write16_run:
  assumes "served m0 m"
  shows "served m0 (exec (rp_write16 bd a v) m)"
    and "x \<in> mailbox_cells \<Longrightarrow> at (exec (rp_write16 bd a v) m) x =
      (if x = a + 1 then ucast (drop_bit 8 v) else if x = a then ucast v else at m x)"
proof -
  have "ucast (drop_bit 8 v AND 0xFF) = (ucast (drop_bit 8 v) :: u8)" by (rule low_byte_of_word)
  then show "served m0 (exec (rp_write16 bd a v) m)" "x \<in> mailbox_cells \<Longrightarrow> at (exec (rp_write16 bd a v) m) x =
      (if x = a + 1 then ucast (drop_bit 8 v) else if x = a then ucast v else at m x)"
    using assms bus_run [where ?m0.0 = m0] by (simp_all add: rp_write16_def low_byte_of_word)
qed

lemma clear_doorbell_run:
  assumes "served m0 m"
  shows "served m0 (exec (rp_clear_doorbell bd) m)"
    and "x \<in> mailbox_cells \<Longrightarrow> at (exec (rp_clear_doorbell bd) m) x = (if x = RP_DOORBELL then 0 else at m x)"
  using assms bus_run [where ?m0.0 = m0] by (simp_all add: rp_clear_doorbell_def RP_DOORBELL_NONE_def)

end

lemma abi_cells:
  "RP_DOORBELL \<in> mailbox_cells" "RP_GROUP \<in> mailbox_cells" "RP_CMD \<in> mailbox_cells"
  "RP_STATUS \<in> mailbox_cells" "RP_ERR \<in> mailbox_cells" "RP_FLAGS \<in> mailbox_cells"
  "RP_STATE \<in> mailbox_cells" "RP_ARG0L \<in> mailbox_cells" "RP_ARG0L + 1 \<in> mailbox_cells"
  "RP_ARG1L \<in> mailbox_cells" "RP_ARG1L + 1 \<in> mailbox_cells" "RP_ARG1H \<in> mailbox_cells"
  "RP_ARG2L \<in> mailbox_cells" "RP_ARG2H \<in> mailbox_cells" "RP_RES0L \<in> mailbox_cells"
  "RP_RES0L + 1 \<in> mailbox_cells" "RP_RES1L \<in> mailbox_cells" "RP_RES1L + 1 \<in> mailbox_cells"
  "RP_IRQ_SOURCE \<in> mailbox_cells" "RP_CONSOLE_PID \<in> mailbox_cells" "RP_CONSOLE_RDY \<in> mailbox_cells"
  "RP_IRQ_STATE \<in> mailbox_cells" "RP_GETCHAR \<in> mailbox_cells" "RP_PUTCHAR \<in> mailbox_cells"
  "CMD_SLOT_BASE + 2 \<in> mailbox_cells" "CMD_SLOT_BASE + 3 \<in> mailbox_cells"
  by (simp_all add: abi_addresses mailbox_cells_def)

declare abi_cells [simp]

text \<open>What a completed request leaves in the block.\<close>

definition reply :: "u8 \<Rightarrow> u8 \<Rightarrow> u8 \<Rightarrow> u16 \<Rightarrow> u16 \<Rightarrow> (u16 \<Rightarrow> u8) \<Rightarrow> u16 \<Rightarrow> u8" where
  "reply st err flags res0 res1 f =
     f(RP_RES0L := ucast res0, RP_RES0L + 1 := ucast (drop_bit 8 res0),
       RP_RES1L := ucast res1, RP_RES1L + 1 := ucast (drop_bit 8 res1),
       RP_ERR := err, RP_FLAGS := flags, RP_STATUS := st, RP_DOORBELL := RP_DOORBELL_NONE)"

context mailbox_bus
begin

lemma set_done_run:
  assumes "served m0 m"
  shows "served m0 (exec (rp_mailbox_set_done bd result flags) m)"
    and "x \<in> mailbox_cells \<Longrightarrow> at (exec (rp_mailbox_set_done bd result flags) m) x =
      reply RP_DONE RP_ERR_OK flags result 0 (at m) x"
proof -
  show "served m0 (exec (rp_mailbox_set_done bd result flags) m)"
    using assms w_served [where ?m0.0 = m0] rp_write16_run(1) [where ?m0.0 = m0]
      clear_doorbell_run(1) [where ?m0.0 = m0]
    by (simp add: rp_mailbox_set_done_def)
  show "at (exec (rp_mailbox_set_done bd result flags) m) x =
      reply RP_DONE RP_ERR_OK flags result 0 (at m) x" if "x \<in> mailbox_cells"
    using assms that w_served [where ?m0.0 = m0] w_at [where ?m0.0 = m0] rp_write16_run [where ?m0.0 = m0]
      clear_doorbell_run [where ?m0.0 = m0]
    by (simp add: rp_mailbox_set_done_def reply_def RP_DOORBELL_NONE_def)
qed

lemma set_done32_run:
  assumes "served m0 m"
  shows "served m0 (exec (rp_mailbox_set_done32 bd result flags) m)"
    and "x \<in> mailbox_cells \<Longrightarrow> at (exec (rp_mailbox_set_done32 bd result flags) m) x =
      reply RP_DONE RP_ERR_OK flags (ucast (result AND 0xFFFF)) (ucast (drop_bit 16 result AND 0xFFFF)) (at m) x"
proof -
  show "served m0 (exec (rp_mailbox_set_done32 bd result flags) m)"
    using assms w_served [where ?m0.0 = m0] rp_write16_run(1) [where ?m0.0 = m0]
      clear_doorbell_run(1) [where ?m0.0 = m0]
    by (simp add: rp_mailbox_set_done32_def)
  show "at (exec (rp_mailbox_set_done32 bd result flags) m) x =
      reply RP_DONE RP_ERR_OK flags (ucast (result AND 0xFFFF)) (ucast (drop_bit 16 result AND 0xFFFF)) (at m) x"
    if "x \<in> mailbox_cells"
    using assms that w_served [where ?m0.0 = m0] w_at [where ?m0.0 = m0] rp_write16_run [where ?m0.0 = m0]
      clear_doorbell_run [where ?m0.0 = m0]
    by (simp add: rp_mailbox_set_done32_def reply_def RP_DOORBELL_NONE_def)
qed

lemma set_error_run:
  fixes err :: u8 and partial :: u16 and s :: "('b, 'f, 'd, 'k) sys"
  assumes "served m0 (mach s)"
  defines "s' \<equiv> exec (rp_mailbox_set_error bd err partial) s"
  shows "served m0 (mach s')"
    and "x \<in> mailbox_cells \<Longrightarrow> at (mach s') x = reply RP_ERROR err 0 partial 0 (at (mach s)) x"
    and "s' = s\<lparr>mach := mach s', mbx := (mbx s)\<lparr>gErrorCount := gErrorCount (mbx s) + 1\<rparr>\<rparr>"
proof -
  show "served m0 (mach s')"
    using assms(1) w_served [where ?m0.0 = m0] rp_write16_run(1) [where ?m0.0 = m0]
      clear_doorbell_run(1) [where ?m0.0 = m0]
    by (simp add: s'_def rp_mailbox_set_error_def)
  show "at (mach s') x = reply RP_ERROR err 0 partial 0 (at (mach s)) x" if "x \<in> mailbox_cells"
    using assms(1) that w_served [where ?m0.0 = m0] w_at [where ?m0.0 = m0] rp_write16_run [where ?m0.0 = m0]
      clear_doorbell_run [where ?m0.0 = m0]
    by (simp add: s'_def rp_mailbox_set_error_def reply_def RP_DOORBELL_NONE_def)
  show "s' = s\<lparr>mach := mach s', mbx := (mbx s)\<lparr>gErrorCount := gErrorCount (mbx s) + 1\<rparr>\<rparr>"
    by (simp add: s'_def rp_mailbox_set_error_def)
qed

lemma reply_answered:
  "reply st err flags r0 r1 f RP_STATUS = st" "reply st err flags r0 r1 f RP_DOORBELL = RP_DOORBELL_NONE"
  by (simp_all add: reply_def abi_addresses)

lemma est_set_done:
  "establishes (up m0) (\<lambda>_. answered view) (on_mach (rp_mailbox_set_done bd r f))"
  using set_done_run [where ?m0.0 = m0]
  by (simp add: establishes_def sys_up_def answered_def smem_def reply_answered)

lemma est_set_done32:
  "establishes (up m0) (\<lambda>_. answered view) (on_mach (rp_mailbox_set_done32 bd r32 f))"
  using set_done32_run [where ?m0.0 = m0]
  by (simp add: establishes_def sys_up_def answered_def smem_def reply_answered)

lemma est_set_error:
  "establishes (up m0) (\<lambda>_. answered view)
     (rp_mailbox_set_error bd err partial :: (('b, 'f, 'd, 'k) sys, unit) state)"
proof -
  have "up m0 (exec (rp_mailbox_set_error bd err partial) s) \<and>
      answered view (exec (rp_mailbox_set_error bd err partial) s)" if "up m0 s" for s :: "('b, 'f, 'd, 'k) sys"
  proof -
    have "served m0 (mach s)" using that by (simp add: sys_up_def)
    note e = set_error_run [OF this, where err = err and partial = partial]
    have "files (exec (rp_mailbox_set_error bd err partial) s) = files s"
      "cwds (exec (rp_mailbox_set_error bd err partial) s) = cwds s"
      "qs (exec (rp_mailbox_set_error bd err partial) s) = qs s"
      by (simp_all add: rp_mailbox_set_error_def)
    then show ?thesis
      using that e(1,2) by (simp add: sys_up_def answered_def smem_def reply_answered)
  qed
  then show ?thesis by (simp add: establishes_def)
qed

lemma pres_read16 [pres]: "preserves (up m0) (on_mach (rp_read16 bd a))"
  using rp_read16_served by (simp add: preserves_def sys_up_def)

lemma pres_cmd_slots [pres]:
  "preserves (up m0) (on_mach (readCmdSlot bd v))"
  "preserves (up m0) (on_mach (writeCmdSlot bd v d))"
  "preserves (up m0) (on_mach triggerMMUIO)"
  unfolding readCmdSlot_def writeCmdSlot_def by (intro pres)+ (simp add: preserves_def triggerMMUIO_def)

end

interpretation guarded_mailbox: mailbox_bus "ref_board (guard mailbox_cells cpu)" id "guard mailbox_cells cpu"
  mailbox_cells for cpu
  by unfold_locales simp

text \<open>With a processor that does nothing, every cell is left alone.\<close>

interpretation idle_mailbox: mailbox_bus "ref_board id" id id UNIV
  by unfold_locales (simp_all add: cpu_leaves_id)

end
