(* ===== verification/Context_Access.thy ===== *)
theory Context_Access
  imports Mailbox_Abi
begin

text \<open>
  The accesses of \<open>rp_fs_mailbox.cpp\<close> to the memory of another MMU context: the 6502 is stopped,
  the context selected, bytes are moved, and context and system state are put back.
\<close>

definition MAX_MEMORY_CONTEXTS :: nat where "MAX_MEMORY_CONTEXTS = 16"
definition RP_FS_PRIVATE_LIMIT :: nat where "RP_FS_PRIVATE_LIMIT = 0x8000"
definition RP_FS_MAILBOX_CHUNK_SIZE :: nat where "RP_FS_MAILBOX_CHUNK_SIZE = 256"

text \<open>An active \<open>RPFSContextAccess\<close>: the saved state and context.\<close>

type_synonym context_access = "sysstate \<times> u8"

definition rp_fs_mb_begin_context_access ::
  "'b board \<Rightarrow> u8 \<Rightarrow> ('b machine, context_access option) state" where
  "rp_fs_mb_begin_context_access bd c =
     (if unat c \<ge> MAX_MEMORY_CONTEXTS then ret None
      else do {
        saved_state \<leftarrow> get6502State;
        set6502State bd sRPI;
        saved_context \<leftarrow> getMMUContext;
        when_do (saved_context \<noteq> c) (setMMUContext bd c);
        ret (Some (saved_state, saved_context))
      })"

definition rp_fs_mb_end_context_access :: "'b board \<Rightarrow> context_access \<Rightarrow> ('b machine, unit) state" where
  "rp_fs_mb_end_context_access bd acc = do {
     cur \<leftarrow> getMMUContext;
     when_do (cur \<noteq> snd acc) (setMMUContext bd (snd acc));
     set6502State bd (fst acc);
     ret ()
   }"

definition rp_fs_mb_effective_16bit_size :: "u16 \<Rightarrow> nat" where
  "rp_fs_mb_effective_16bit_size size_word = (if size_word = 0 then 65536 else unat size_word)"

definition rp_fs_mb_valid_64k_range :: "u16 \<Rightarrow> nat \<Rightarrow> bool" where
  "rp_fs_mb_valid_64k_range start cnt =
     (if cnt = 0 then True
      else if cnt > 65536 then False
      else if cnt = 65536 then start = 0
      else unat start + cnt - 1 \<le> 0xFFFF)"

definition rp_fs_mb_private_range :: "u16 \<Rightarrow> nat \<Rightarrow> bool" where
  "rp_fs_mb_private_range address n =
     (if address = 0 \<or> n = 0 \<or> unat address \<ge> RP_FS_PRIVATE_LIMIT then False
      else unat address + n \<le> RP_FS_PRIVATE_LIMIT)"

definition rp_fs_mb_read_context_bytes :: "'b board \<Rightarrow> u16 \<Rightarrow> nat \<Rightarrow> ('b machine, u8 list) state" where
  "rp_fs_mb_read_context_bytes bd src n = map_each [0..<n] (\<lambda>i. read6502Memory bd (src + of_nat i))"

definition rp_fs_mb_write_context_bytes :: "'b board \<Rightarrow> u16 \<Rightarrow> u8 list \<Rightarrow> ('b machine, unit) state" where
  "rp_fs_mb_write_context_bytes bd dst xs =
     for_each [0..<length xs] (\<lambda>i. write6502Memory bd (dst + of_nat i) (xs ! i))"

definition rp_fs_mb_read_context_block ::
  "'b board \<Rightarrow> u8 \<Rightarrow> u16 \<Rightarrow> nat \<Rightarrow> ('b machine, u8 list option) state" where
  "rp_fs_mb_read_context_block bd c address n =
     (if \<not> rp_fs_mb_private_range address n then ret None
      else do {
        started \<leftarrow> rp_fs_mb_begin_context_access bd c;
        (case started of None \<Rightarrow> ret None
         | Some acc \<Rightarrow> do {
             dst \<leftarrow> rp_fs_mb_read_context_bytes bd address n;
             rp_fs_mb_end_context_access bd acc;
             ret (Some dst)
           })
      })"

definition rp_fs_mb_write_context_block ::
  "'b board \<Rightarrow> u8 \<Rightarrow> u16 \<Rightarrow> u8 list \<Rightarrow> ('b machine, bool) state" where
  "rp_fs_mb_write_context_block bd c address src =
     (if \<not> rp_fs_mb_private_range address (length src) then ret False
      else do {
        started \<leftarrow> rp_fs_mb_begin_context_access bd c;
        (case started of None \<Rightarrow> ret False
         | Some acc \<Rightarrow> do {
             rp_fs_mb_write_context_bytes bd address src;
             rp_fs_mb_end_context_access bd acc;
             ret True
           })
      })"

text \<open>
  The loop over a path in the caller's memory: \<open>i\<close> bytes are read into \<open>dst\<close>, \<open>n\<close> may follow. A path
  must end with its NUL before the limit and hold printable characters.
\<close>

fun read_path_loop :: "'b board \<Rightarrow> u16 \<Rightarrow> nat \<Rightarrow> nat \<Rightarrow> string \<Rightarrow> ('b machine, string option) state" where
  "read_path_loop bd address i 0 dst = ret None"
| "read_path_loop bd address i (Suc n) dst =
     (if unat address + i \<ge> RP_FS_PRIVATE_LIMIT then ret None
      else do {
        c \<leftarrow> read6502Memory bd (address + of_nat i);
        if c = 0 then ret (if i \<noteq> 0 then Some dst else None)
        else if c < 32 \<or> c \<ge> 127 then ret None
        else read_path_loop bd address (Suc i) n (dst @ [char_of (unat c)])
      })"

definition rp_fs_mb_read_context_path ::
  "'b board \<Rightarrow> u8 \<Rightarrow> u16 \<Rightarrow> nat \<Rightarrow> nat \<Rightarrow> ('b machine, string option) state" where
  "rp_fs_mb_read_context_path bd c address max_len dst_len =
     (if dst_len < 2 \<or> max_len = 0 \<or> max_len > dst_len \<or> address = 0 \<or>
         unat address \<ge> RP_FS_PRIVATE_LIMIT then ret None
      else do {
        started \<leftarrow> rp_fs_mb_begin_context_access bd c;
        (case started of None \<Rightarrow> ret None
         | Some acc \<Rightarrow> do {
             dst \<leftarrow> read_path_loop bd address 0 max_len [];
             rp_fs_mb_end_context_access bd acc;
             ret dst
           })
      })"

section \<open>On the reference board\<close>

text \<open>\<open>inside m0 c\<close>: the machine of \<open>m0\<close>, stopped, with context \<open>c\<close> selected.\<close>

definition inside :: "ref machine \<Rightarrow> u8 \<Rightarrow> ref machine \<Rightarrow> bool" where
  "inside m0 c m \<longleftrightarrow> machine_ok m \<and> gSysState m = sRPI \<and> gCurrentContext m = uint c \<and>
     mmu_ram (hw m) = mmu_ram (hw m0) \<and> gMMUIOCount m = gMMUIOCount m0 \<and>
     gClockFrequency m = gClockFrequency m0"

lemma insideD:
  assumes "inside m0 c m"
  shows "machine_ok m" and "rpi_owns m" and "bus_ok m" and "ctx_reg (hw m) = c"
  using assms by (auto simp: inside_def rpi_owns_def machine_ok_def bus_ok_def)

lemma setMMUContext_inside:
  assumes "inside m0 c m"
  shows "inside m0 d (exec (setMMUContext (ref_board cpu) d) m)"
    and "cell (hw (exec (setMMUContext (ref_board cpu) d) m)) = cell (hw m)"
proof -
  have ok: "machine_ok m" "bus_ok m" by (rule insideD [OF assms])+
  note s = setMMUContext_spec [OF ok(2), of cpu d]
  have row: "in_row (exec (setMMUContext (ref_board cpu) d) m) = in_row m"
    using s(4,10) by (intro in_row_cong) (simp_all add: frame_of_def)
  show "inside m0 d (exec (setMMUContext (ref_board cpu) d) m)"
    using assms ok row s unfolding inside_def machine_ok_def by (simp add: frame_of_def)
  show "cell (hw (exec (setMMUContext (ref_board cpu) d) m)) = cell (hw m)"
    using s(6,7) by (simp add: cell_def phys_page_def fun_eq_iff)
qed

lemma begin_ref:
  fixes c :: u8
  assumes "cpu_leaves cpu R" and "port_ok m"
  defines "m' \<equiv> exec (rp_fs_mb_begin_context_access (ref_board cpu) c) m"
  shows "val_of (rp_fs_mb_begin_context_access (ref_board cpu) c) m =
      (if unat c < 16 then Some (gSysState m, word_of_int (gCurrentContext m)) else None)"
    and "unat c < 16 \<Longrightarrow> inside m c m'" and "\<not> unat c < 16 \<Longrightarrow> m' = m"
    and "a \<in> R \<Longrightarrow> cell (hw m') d a = cell (hw m) d a"
proof -
  define m1 where "m1 = exec (set6502State (ref_board cpu) sRPI) m"
  note t = take_bus [OF assms(1,2), folded m1_def]
  have ctx: "gCurrentContext m = uint (ctx_reg (hw m))" using assms(2) by (simp add: port_ok_def)
  have in1: "inside m (ctx_reg (hw m)) m1"
    using t ctx unfolding inside_def by (simp add: bus_kept_def)
  show "val_of (rp_fs_mb_begin_context_access (ref_board cpu) c) m =
      (if unat c < 16 then Some (gSysState m, word_of_int (gCurrentContext m)) else None)"
    using t(5) by (simp add: rp_fs_mb_begin_context_access_def MAX_MEMORY_CONTEXTS_def get6502State_def
        getMMUContext_def m1_def [symmetric])
  have m': "m' = (if unat c < 16 then if ctx_reg (hw m) = c then m1
      else exec (setMMUContext (ref_board cpu) c) m1 else m)"
    using t(5) ctx by (simp add: m'_def rp_fs_mb_begin_context_access_def MAX_MEMORY_CONTEXTS_def
        get6502State_def getMMUContext_def m1_def [symmetric])
  show "unat c < 16 \<Longrightarrow> inside m c m'" "\<not> unat c < 16 \<Longrightarrow> m' = m"
    using in1 setMMUContext_inside(1) [OF in1] by (auto simp: m')
  show "a \<in> R \<Longrightarrow> cell (hw m') d a = cell (hw m) d a"
    using t(7) setMMUContext_inside(2) [OF in1] by (simp add: m')
qed

lemma end_ref:
  assumes "cpu_leaves cpu R" and "port_ok m" and "inside m c m1"
  defines "m' \<equiv> exec (rp_fs_mb_end_context_access (ref_board cpu)
     (gSysState m, word_of_int (gCurrentContext m))) m1"
  shows "keeps_port R m m'" and "a \<in> R \<Longrightarrow> cell (hw m') d a = cell (hw m1) d a"
    and "gMMUIOTrigger m' = gMMUIOTrigger m1"
proof -
  have ctx: "gCurrentContext m = uint (ctx_reg (hw m))" using assms(2) by (simp add: port_ok_def)
  define m2 where "m2 = (if c = ctx_reg (hw m) then m1
      else exec (setMMUContext (ref_board cpu) (ctx_reg (hw m))) m1)"
  have in2: "inside m (ctx_reg (hw m)) m2" and c2: "cell (hw m2) = cell (hw m1)"
    using assms(3) setMMUContext_inside [OF assms(3)] by (auto simp: m2_def)
  have tr: "gMMUIOTrigger m2 = gMMUIOTrigger m1"
    using setMMUContext_spec(4) [OF insideD(3) [OF assms(3)]] by (simp add: m2_def frame_of_def)
  have m': "m' = exec (set6502State (ref_board cpu) (gSysState m)) m2"
    using assms(3) ctx by (simp add: m'_def rp_fs_mb_end_context_access_def getMMUContext_def m2_def inside_def)
  have m2: "machine_ok m2" "gSysState m2 = sRPI" "gCurrentContext m2 = gCurrentContext m"
    "mmu_ram (hw m2) = mmu_ram (hw m)"
    using in2 ctx by (simp_all add: inside_def)
  note g = give_bus_back [OF assms(1,2) m2, folded m']
  show "keeps_port R m m'" using g in2 unfolding keeps_port_def bus_kept_def inside_def by simp
  show "a \<in> R \<Longrightarrow> cell (hw m') d a = cell (hw m1) d a" using g(5) c2 by simp
  show "gMMUIOTrigger m' = gMMUIOTrigger m1" using g(4) tr by (simp add: bus_kept_def)
qed

lemma inside_frame: "inside m0 c m \<Longrightarrow> bus_frame m m' \<Longrightarrow> inside m0 c m'"
  by (simp add: inside_def bus_frame_def)

lemma read_byte_inside:
  assumes "inside m0 c m"
  shows "val_of (read6502Memory (ref_board cpu) a) m = cell (hw m) c a"
    and "inside m0 c (exec (read6502Memory (ref_board cpu) a) m)"
    and "cell (hw (exec (read6502Memory (ref_board cpu) a) m)) = cell (hw m)"
    and "gMMUIOTrigger (exec (read6502Memory (ref_board cpu) a) m) = gMMUIOTrigger m"
  using read6502Memory_ref [OF insideD(1,2) [OF assms], of cpu a] insideD [OF assms] assms
    machine_ok_latched [OF insideD(1) [OF assms], of a]
  by (simp_all add: inside_def) (simp add: latched_def)

lemma read_bytes_inside:
  assumes "inside m0 c m"
  shows "val_of (rp_fs_mb_read_context_bytes (ref_board cpu) a n) m = map (\<lambda>k. cell (hw m) c (a + of_nat k)) [0..<n]"
    and "inside m0 c (exec (rp_fs_mb_read_context_bytes (ref_board cpu) a n) m)"
    and "cell (hw (exec (rp_fs_mb_read_context_bytes (ref_board cpu) a n) m)) = cell (hw m)"
    and "gMMUIOTrigger (exec (rp_fs_mb_read_context_bytes (ref_board cpu) a n) m) = gMMUIOTrigger m"
  using read_block [OF insideD(1,2) [OF assms], where cpu = cpu and f = "\<lambda>k. a + of_nat k" and ks = "[0..<n]"]
    insideD(4) [OF assms] inside_frame [OF assms]
  by (simp_all add: rp_fs_mb_read_context_bytes_def mem_def)

lemma cell_poke_other: "phys_page h c a \<noteq> phys_page h d b \<Longrightarrow> cell (poke c a v h) d b = cell h d b"
  by (simp add: cell_def poke_def phys_page_def)

lemma write_byte_inside:
  assumes "inside m0 c m"
  shows "inside m0 c (exec (write6502Memory (ref_board cpu) a v) m)"
    and "phys_page (hw m0) c a \<noteq> phys_page (hw m0) d x \<Longrightarrow>
      cell (hw (exec (write6502Memory (ref_board cpu) a v) m)) d x = cell (hw m) d x"
proof -
  have w: "exec (write6502Memory (ref_board cpu) a v) m =
      m\<lparr>hw := written a v (hw m), gBusDir := 0, gMMUIOTrigger := False\<rparr>"
    by (rule write6502Memory_ref [OF insideD(1,2) [OF assms]])
  show "inside m0 c (exec (write6502Memory (ref_board cpu) a v) m)"
    using assms machine_ok_written [OF insideD(1) [OF assms], of a v]
    by (simp add: w inside_def) (simp add: written_def poke_def latched_def)
  show "cell (hw (exec (write6502Memory (ref_board cpu) a v) m)) d x = cell (hw m) d x"
    if "phys_page (hw m0) c a \<noteq> phys_page (hw m0) d x"
    using that assms insideD(4) [OF assms]
    by (simp add: w written_def inside_def phys_page_def latched_def cell_poke_other)
qed

lemma write_bytes_inside:
  fixes cpu :: cpu and a :: u16 and vs :: "u8 list"
  assumes "inside m0 c m"
  defines "m' \<equiv> exec (rp_fs_mb_write_context_bytes (ref_board cpu) a vs) m"
  shows "inside m0 c m'"
    and "(\<And>k. k < length vs \<Longrightarrow> phys_page (hw m0) c (a + of_nat k) \<noteq> phys_page (hw m0) d x) \<Longrightarrow>
      cell (hw m') d x = cell (hw m) d x"
    and "pages_inj (hw m0) c \<Longrightarrow> cell (hw m') c = store_bytes a vs (cell (hw m) c)"
proof -
  have "inside m0 c m' \<and> ((\<forall>k<length vs. phys_page (hw m0) c (a + of_nat k) \<noteq> phys_page (hw m0) d x) \<longrightarrow>
      cell (hw m') d x = cell (hw m) d x)"
    unfolding m'_def using assms(1)
  proof (induction vs arbitrary: a m)
    case Nil
    then show ?case by (simp add: rp_fs_mb_write_context_bytes_def)
  next
    case (Cons v vs)
    let ?m1 = "exec (write6502Memory (ref_board cpu) a v) m"
    have step: "exec (rp_fs_mb_write_context_bytes (ref_board cpu) a (v # vs)) m =
        exec (rp_fs_mb_write_context_bytes (ref_board cpu) (a + 1) vs) ?m1"
      unfolding rp_fs_mb_write_context_bytes_def upt_nth_shift by simp
    note w = write_byte_inside [OF Cons.prems, where cpu = cpu and a = a and v = v]
    have "phys_page (hw m0) c (a + of_nat 0) \<noteq> phys_page (hw m0) d x \<and>
        (\<forall>k<length vs. phys_page (hw m0) c (a + 1 + of_nat k) \<noteq> phys_page (hw m0) d x)"
      if "\<forall>k<length (v # vs). phys_page (hw m0) c (a + of_nat k) \<noteq> phys_page (hw m0) d x"
    proof (intro conjI allI impI)
      show "phys_page (hw m0) c (a + of_nat 0) \<noteq> phys_page (hw m0) d x"
        using that [THEN spec, of 0] by simp
      fix k assume "k < length vs"
      then have "phys_page (hw m0) c (a + of_nat (Suc k)) \<noteq> phys_page (hw m0) d x"
        using that [THEN spec, of "Suc k"] by simp
      then show "phys_page (hw m0) c (a + 1 + of_nat k) \<noteq> phys_page (hw m0) d x" by (simp add: add.assoc)
    qed
    then show ?case unfolding step using Cons.IH [OF w(1), of "a + 1"] w(2) [of d x] by simp
  qed
  then show "inside m0 c m'"
    "(\<And>k. k < length vs \<Longrightarrow> phys_page (hw m0) c (a + of_nat k) \<noteq> phys_page (hw m0) d x) \<Longrightarrow>
      cell (hw m') d x = cell (hw m) d x" by blast+
  show "cell (hw m') c = store_bytes a vs (cell (hw m) c)" if "pages_inj (hw m0) c"
  proof -
    have inj: "pages_inj (hw m) (ctx_reg (hw m))"
      using that assms(1) insideD(4) [OF assms(1)] by (simp add: pages_inj_def inside_def)
    note b = write_block [OF insideD(1,2) [OF assms(1)] inj, where cpu = cpu and a = a and vs = vs,
        folded rp_fs_mb_write_context_bytes_def, folded m'_def]
    have "ctx_reg (hw m') = c" using b(1) insideD(4) [OF assms(1)] by (simp add: bus_frame_def)
    then have "cell (hw m') c = mem m'" "cell (hw m) c = mem m"
      using insideD(4) [OF assms(1)] by (auto simp: mem_def fun_eq_iff)
    with b(2) show ?thesis by simp
  qed
qed

section \<open>On any board\<close>

context neo_bus
begin

lemma sim_context_bytes [sim_rules]:
  "sim view (rp_fs_mb_read_context_bytes bd a n) (rp_fs_mb_read_context_bytes (ref_board cpu) a n)"
  "sim view (rp_fs_mb_write_context_bytes bd a vs) (rp_fs_mb_write_context_bytes (ref_board cpu) a vs)"
  unfolding rp_fs_mb_read_context_bytes_def rp_fs_mb_write_context_bytes_def by (intro sim_rules)+

lemma sim_getMMUContext [sim_rules]: "sim view getMMUContext getMMUContext"
  unfolding getMMUContext_def by (intro sim_rules) simp

lemma sim_context_access [sim_rules]:
  "sim view (rp_fs_mb_begin_context_access bd c) (rp_fs_mb_begin_context_access (ref_board cpu) c)"
  "sim view (rp_fs_mb_end_context_access bd acc) (rp_fs_mb_end_context_access (ref_board cpu) acc)"
  unfolding rp_fs_mb_begin_context_access_def rp_fs_mb_end_context_access_def by (intro sim_rules)+

end

text \<open>\<open>sys_in view m0 c\<close>: between the two ends of an access to context \<open>c\<close>.\<close>

definition sys_in :: "('b \<Rightarrow> ref) \<Rightarrow> ref machine \<Rightarrow> u8 \<Rightarrow> ('b, 'f, 'd, 'k) sys \<Rightarrow> bool" where
  "sys_in view m0 c s \<longleftrightarrow> inside m0 c (absm view (mach s)) \<and> storage_ok (files s) \<and> cwds_ok (cwds s) \<and>
     queues_ok (qs s)"

lemma inside_keeps: "keeps_port R m0 m \<Longrightarrow> inside m c m' = inside m0 c m'"
  by (auto simp: inside_def keeps_port_def)

lemma pres_in_files [pres]:
  "(\<And>t. storage_ok t \<Longrightarrow> storage_ok (exec p t)) \<Longrightarrow> preserves (sys_in view m0 c) (on_files p)"
  by (simp add: preserves_def sys_in_def)

context mailbox_bus
begin

lemma pres_in_bytes [pres]:
  "preserves (sys_in view m0 c) (on_mach (rp_fs_mb_read_context_bytes bd a n))"
  "preserves (sys_in view m0 c) (on_mach (rp_fs_mb_write_context_bytes bd a vs))"
  "preserves (sys_in view m0 c) (on_mach (read6502Memory bd a))"
  using read_bytes_inside(2) write_bytes_inside(1) read_byte_inside(2)
  by (simp_all add: preserves_def sys_in_def simD [OF sim_context_bytes(1)] simD [OF sim_context_bytes(2)]
      simD [OF sim_memory(2)])

lemma begin_up:
  fixes c :: u8
  assumes "up m0 s"
  defines "s' \<equiv> s\<lparr>mach := exec (rp_fs_mb_begin_context_access bd c) (mach s)\<rparr>"
  shows "val_of (rp_fs_mb_begin_context_access bd c) (mach s) =
      (if unat c < 16 then Some (gSysState m0, word_of_int (gCurrentContext m0)) else None)"
    and "unat c < 16 \<Longrightarrow> sys_in view m0 c s'" and "\<not> unat c < 16 \<Longrightarrow> up m0 s'"
proof -
  have k: "keeps_port R m0 (absm view (mach s))" and ok: "port_ok (absm view (mach s))"
    using sys_up_parts [OF assms(1)] by simp_all
  note b = begin_ref [OF leaves ok, where c = c]
  note sm = simD [OF sim_context_access(1) [of c], of "mach s"]
  show "val_of (rp_fs_mb_begin_context_access bd c) (mach s) =
      (if unat c < 16 then Some (gSysState m0, word_of_int (gCurrentContext m0)) else None)"
    using b(1) sm(2) keeps_portD(2,3) [OF k] by simp
  show "unat c < 16 \<Longrightarrow> sys_in view m0 c s'"
    using b(2) inside_keeps [OF k] assms(1) sm(1) by (simp add: sys_in_def s'_def sys_up_def)
  show "\<not> unat c < 16 \<Longrightarrow> up m0 s'"
    using b(3) assms(1) sm(1) by (simp add: s'_def sys_up_def)
qed

lemma end_up:
  assumes "port_ok m0" and "sys_in view m0 c s"
  shows "up m0 (s\<lparr>mach := exec (rp_fs_mb_end_context_access bd
      (gSysState m0, word_of_int (gCurrentContext m0))) (mach s)\<rparr>)"
  using end_ref(1) [OF leaves assms(1), of c "absm view (mach s)"] assms(2)
    simD(1) [OF sim_context_access(2) [of "(gSysState m0, word_of_int (gCurrentContext m0))"], of "mach s"]
  by (simp add: sys_in_def sys_up_def)

text \<open>An access as a whole: what holds of its body between its ends.\<close>

lemma est_access:
  fixes e :: "(('b, 'f, 'd, 'k) sys, 'y) state" and body :: "(('b, 'f, 'd, 'k) sys, 'x) state"
  assumes "port_ok m0" and "establishes (up m0) Q e" and "preserves (sys_in view m0 c) body"
    and "\<And>x. establishes (up m0) Q (k x)"
  shows "establishes (up m0) Q (do {
      started \<leftarrow> on_mach (rp_fs_mb_begin_context_access bd c);
      case started of None \<Rightarrow> e
      | Some acc \<Rightarrow> do { x \<leftarrow> body; on_mach (rp_fs_mb_end_context_access bd acc); k x } })"
  unfolding establishes_def
proof (intro allI impI)
  fix s :: "('b, 'f, 'd, 'k) sys" assume up: "up m0 s"
  let ?p = "do { started \<leftarrow> on_mach (rp_fs_mb_begin_context_access bd c);
      case started of None \<Rightarrow> e
      | Some acc \<Rightarrow> do { x \<leftarrow> body; on_mach (rp_fs_mb_end_context_access bd acc); k x } }"
  define s1 where "s1 = s\<lparr>mach := exec (rp_fs_mb_begin_context_access bd c) (mach s)\<rparr>"
  note b = begin_up [OF up, of c, folded s1_def]
  show "up m0 (exec ?p s) \<and> Q (val_of ?p s) (exec ?p s)"
  proof (cases "unat c < 16")
    case True
    let ?acc = "(gSysState m0, word_of_int (gCurrentContext m0))"
    define s2 where "s2 = exec body s1"
    have "sys_in view m0 c s2" using preservesD [OF assms(3) b(2) [OF True]] by (simp add: s2_def)
    then have up3: "up m0 (exec (on_mach (rp_fs_mb_end_context_access bd ?acc)) s2)"
      using end_up [OF assms(1)] by simp
    have "exec ?p s = exec (k (val_of body s1)) (exec (on_mach (rp_fs_mb_end_context_access bd ?acc)) s2)"
      "val_of ?p s = val_of (k (val_of body s1)) (exec (on_mach (rp_fs_mb_end_context_access bd ?acc)) s2)"
      using b(1) True by (simp_all add: s1_def [symmetric] s2_def)
    with establishesD [OF assms(4) up3] show ?thesis by simp
  next
    case False
    have "exec ?p s = exec e s1" "val_of ?p s = val_of e s1"
      using b(1) False by (simp_all add: s1_def [symmetric])
    with establishesD [OF assms(2) b(3) [OF False]] show ?thesis by simp
  qed
qed

lemma pres_access:
  fixes e :: "(('b, 'f, 'd, 'k) sys, 'y) state" and body :: "(('b, 'f, 'd, 'k) sys, 'x) state"
  assumes "port_ok m0" and "preserves (up m0) e" and "preserves (sys_in view m0 c) body"
    and "\<And>x. preserves (up m0) (k x)"
  shows "preserves (up m0) (do {
      started \<leftarrow> on_mach (rp_fs_mb_begin_context_access bd c);
      case started of None \<Rightarrow> e
      | Some acc \<Rightarrow> do { x \<leftarrow> body; on_mach (rp_fs_mb_end_context_access bd acc); k x } })"
  using est_access [of m0 "\<lambda>_ _. True" e c body k] assms
  by (simp add: preserves_def establishes_def)

lemma on_mach_if: "on_mach (if b then p else q) = (if b then on_mach p else on_mach q)"
  by simp

lemma on_mach_option:
  "on_mach (case z of None \<Rightarrow> p | Some x \<Rightarrow> q x) = (case z of None \<Rightarrow> on_mach p | Some x \<Rightarrow> on_mach (q x))"
  by (cases z) simp_all

lemmas on_mach_steps = on_mach_bind on_mach_ret on_mach_if on_mach_option

lemma pres_in_path_loop: "preserves (sys_in view m0 c) (on_mach (read_path_loop bd a i n dst))"
proof (induction n arbitrary: i dst)
  case 0
  show ?case by (simp add: on_mach_ret preserves_ret)
next
  case (Suc n)
  show ?case unfolding read_path_loop.simps on_mach_steps by (intro pres Suc)
qed

lemma pres_context_blocks [pres]:
  assumes "port_ok m0"
  shows "preserves (up m0) (on_mach (rp_fs_mb_read_context_block bd c a n))"
    and "preserves (up m0) (on_mach (rp_fs_mb_write_context_block bd c a src))"
    and "preserves (up m0) (on_mach (rp_fs_mb_read_context_path bd c a max_len dst_len))"
  unfolding rp_fs_mb_read_context_block_def rp_fs_mb_write_context_block_def rp_fs_mb_read_context_path_def
    on_mach_steps
  by (intro preserves_if pres_access assms preserves_ret pres_in_bytes pres_in_path_loop)+

end

end
