(* ===== verification/Scheduler.thy ===== *)
theory Scheduler
  imports Mailbox_Abi
begin

text \<open>
  \<open>scheduler.cpp\<close>: the one interrupt slot towards the 6502 and its three kinds of requests, and
  the context switch the 6502 commands. The readings of \<open>millis()\<close> are arguments.
\<close>

section \<open>Operations\<close>

definition RP_SRC_NONE :: u8 where "RP_SRC_NONE = 0"
definition RP_SRC_TIMER :: u8 where "RP_SRC_TIMER = 1"
definition RP_SRC_MONITOR :: u8 where "RP_SRC_MONITOR = 2"
definition RP_SRC_FS_DONE :: u8 where "RP_SRC_FS_DONE = 3"
definition RP_SRC_CONSOLE_BREAK :: u8 where "RP_SRC_CONSOLE_BREAK = 4"
definition RP_IRQ_NONE :: u8 where "RP_IRQ_NONE = 0"
definition RP_IRQ_PENDING :: u8 where "RP_IRQ_PENDING = 1"

lemmas irq_codes = RP_SRC_NONE_def RP_SRC_TIMER_def RP_SRC_MONITOR_def RP_SRC_FS_DONE_def
  RP_SRC_CONSOLE_BREAK_def RP_IRQ_NONE_def RP_IRQ_PENDING_def

definition schedSwitchcontext :: "'b board \<Rightarrow> u8 \<Rightarrow> ('b machine, unit) state" where
  "schedSwitchcontext bd vContext = do {
     disableMMUInterrupt bd;
     s \<leftarrow> get6502State;
     set6502State bd sHALTED;
     setMMUContext bd vContext;
     set6502State bd s;
     enableMMUInterrupt bd
   }"

definition genIRQ6502 :: "'b board \<Rightarrow> u8 \<Rightarrow> (('b, 'f, 'd, 'k) sys, bool) state" where
  "genIRQ6502 bd vSrc = do {
     pending \<leftarrow> gets (\<lambda>s. gIntrPending (sch s));
     if pending then ret False
     else do {
       st \<leftarrow> on_mach (snoop_read6502MemoryLoc bd RP_IRQ_STATE);
       if st = RP_IRQ_NONE then do {
         on_mach (snoop_write6502MemoryLoc bd RP_IRQ_STATE RP_IRQ_PENDING);
         on_mach (snoop_write6502MemoryLoc bd RP_IRQ_SOURCE vSrc);
         on_mach (low bd p6502IRQ);
         on_sch (\<lambda>sc. sc\<lparr>gIntrPending := True\<rparr>);
         ret True
       } else ret False
     }
   }"

definition requestFSCompletionIRQ :: "(('b, 'f, 'd, 'k) sys, unit) state" where
  "requestFSCompletionIRQ = on_sch (\<lambda>sc. sc\<lparr>gFsCompletionPending := True\<rparr>)"

definition requestConsoleBreakIRQ :: "(('b, 'f, 'd, 'k) sys, unit) state" where
  "requestConsoleBreakIRQ = on_sch (\<lambda>sc. sc\<lparr>gConsoleBreakPending := True\<rparr>)"

definition stopIRQTimer :: "'b board \<Rightarrow> (('b, 'f, 'd, 'k) sys, unit) state" where
  "stopIRQTimer bd = do {
     on_sch (\<lambda>sc. sc\<lparr>irqTimerEnabled := False\<rparr>);
     on_mach (high bd p6502IRQ);
     on_mach (snoop_write6502MemoryLoc bd RP_IRQ_SOURCE RP_SRC_NONE);
     on_mach (snoop_write6502MemoryLoc bd RP_IRQ_STATE RP_IRQ_NONE);
     on_sch (\<lambda>sc. sc\<lparr>gIntrPending := False\<rparr>)
   }"

definition startIRQTimer :: "'b board \<Rightarrow> u32 \<Rightarrow> u32 \<Rightarrow> (('b, 'f, 'd, 'k) sys, unit) state" where
  "startIRQTimer bd vPeriod now =
     (if vPeriod < 65535 then do {
        on_sch (\<lambda>sc. sc\<lparr>irqTimerInterval := vPeriod, irqTimerEnabled := True, irqLastTS := now\<rparr>);
        on_mach (snoop_write6502MemoryLoc bd RP_IRQ_SOURCE RP_SRC_NONE);
        on_mach (snoop_write6502MemoryLoc bd RP_IRQ_STATE RP_IRQ_NONE);
        on_mach (high bd p6502IRQ)
      } else stopIRQTimer bd)"

definition taskIRQTimer :: "'b board \<Rightarrow> u32 \<Rightarrow> u32 \<Rightarrow> (('b, 'f, 'd, 'k) sys, unit) state" where
  "taskIRQTimer bd now now' = do {
     sc \<leftarrow> gets sch;
     if gIntrPending sc then do {
       src \<leftarrow> on_mach (snoop_read6502MemoryLoc bd RP_IRQ_SOURCE);
       when_do (src = RP_SRC_NONE) (do {
         on_mach (high bd p6502IRQ);
         on_mach (snoop_write6502MemoryLoc bd RP_IRQ_STATE RP_IRQ_NONE);
         on_sch (\<lambda>sc. sc\<lparr>gIntrPending := False\<rparr>)
       })
     }
     else if gConsoleBreakPending sc then do {
       ok \<leftarrow> genIRQ6502 bd RP_SRC_CONSOLE_BREAK;
       when_do ok (on_sch (\<lambda>sc. sc\<lparr>gConsoleBreakPending := False\<rparr>))
     }
     else if gFsCompletionPending sc then do {
       ok \<leftarrow> genIRQ6502 bd RP_SRC_FS_DONE;
       when_do ok (on_sch (\<lambda>sc. sc\<lparr>gFsCompletionPending := False\<rparr>))
     }
     else when_do (irqTimerEnabled sc)
       (when_do (now \<ge> irqLastTS sc + irqTimerInterval sc) (do {
          on_sch (\<lambda>sc. sc\<lparr>irqLastTS := now'\<rparr>);
          ok \<leftarrow> genIRQ6502 bd RP_SRC_TIMER;
          on_sch (\<lambda>sc. sc\<lparr>taskTimerCounter := if ok then 0 else taskTimerCounter sc + 1\<rparr>)
        }))
   }"

definition taskScheduler :: "'b board \<Rightarrow> (('b, 'f, 'd, 'k) sys, unit) state" where
  "taskScheduler bd = do {
     c \<leftarrow> getCommand6502 bd;
     (case c of None \<Rightarrow> ret ()
      | Some (lCmd, lParam) \<Rightarrow>
          when_do (lCmd = CMD6502_CONTEXT_SWITCH) (on_mach (do {
            low bd pDebug;
            schedSwitchcontext bd lParam;
            ackCommand6502 bd;
            high bd pDebug
          })))
   }"

definition initScheduler :: "'b board \<Rightarrow> (('b, 'f, 'd, 'k) sys, unit) state" where
  "initScheduler bd = do {
     on_sch (\<lambda>sc. sc\<lparr>gFsCompletionPending := False\<rparr>);
     on_sch (\<lambda>sc. sc\<lparr>gConsoleBreakPending := False\<rparr>);
     on_mach (snoop_write6502MemoryLoc bd RP_IRQ_SOURCE RP_SRC_NONE);
     on_mach (snoop_write6502MemoryLoc bd RP_IRQ_STATE RP_IRQ_NONE)
   }"

section \<open>The interrupt line\<close>

text \<open>The line is active low. Only entering \<open>sRESET\<close> or \<open>sBOOT\<close> touches it besides this module.\<close>

definition irq_asserted :: "ref machine \<Rightarrow> bool" where
  "irq_asserted m \<longleftrightarrow> \<not> lv (hw m) p6502IRQ"

lemma set6502State_irq:
  assumes "bus_ok m" and "s \<notin> {sRESET, sBOOT}"
  shows "irq_asserted (exec (set6502State (ref_board cpu) s) m) = irq_asserted m"
proof -
  note lvs = idleD [OF bus_okD(1) [OF assms(1)]]
  show ?thesis
    using lvs assms(2)
    by (cases s) (auto simp: irq_asserted_def set6502State_def enter6502State_def state_step_refs)
qed

lemma port_ok_bus: "port_ok m \<Longrightarrow> bus_ok m"
  by (simp add: port_ok_def machine_ok_def)

lemma snoop_irq_ref:
  assumes "cpu_leaves cpu R" and "port_ok m" and "gSysState m \<notin> {sRESET, sBOOT}"
  shows "irq_asserted (exec (snoop_read6502MemoryLoc (ref_board cpu) a) m) = irq_asserted m"
    and "irq_asserted (exec (snoop_write6502MemoryLoc (ref_board cpu) a v) m) = irq_asserted m"
proof -
  define m0 where "m0 = exec (set6502State (ref_board cpu) sRPI) m"
  note t = take_bus [OF assms(1,2), folded m0_def]
  have i0: "irq_asserted m0 = irq_asserted m"
    unfolding m0_def by (rule set6502State_irq [OF port_ok_bus [OF assms(2)]]) simp
  have r: "exec (read6502Memory (ref_board cpu) a) m0 = m0\<lparr>hw := latched a (hw m0), gBusDir := 1\<rparr>"
    by (rule read6502Memory_ref(1) [OF t(1,3)])
  have w: "exec (write6502Memory (ref_board cpu) a v) m0 =
      m0\<lparr>hw := written a v (hw m0), gBusDir := 0, gMMUIOTrigger := False\<rparr>"
    by (rule write6502Memory_ref [OF t(1,3)])
  have ok: "bus_ok (m0\<lparr>hw := latched a (hw m0), gBusDir := 1\<rparr>)"
    "bus_ok (m0\<lparr>hw := written a v (hw m0), gBusDir := 0, gMMUIOTrigger := False\<rparr>)"
    using machine_ok_latched [OF t(1)] machine_ok_written [OF t(1)] by (simp_all add: machine_ok_def)
  have "irq_asserted (m0\<lparr>hw := latched a (hw m0), gBusDir := 1\<rparr>) = irq_asserted m0"
    "irq_asserted (m0\<lparr>hw := written a v (hw m0), gBusDir := 0, gMMUIOTrigger := False\<rparr>) = irq_asserted m0"
    by (simp_all add: irq_asserted_def latched_def written_def poke_def)
  then show "irq_asserted (exec (snoop_read6502MemoryLoc (ref_board cpu) a) m) = irq_asserted m"
    "irq_asserted (exec (snoop_write6502MemoryLoc (ref_board cpu) a v) m) = irq_asserted m"
    using i0 set6502State_irq [OF ok(1) assms(3), of cpu] set6502State_irq [OF ok(2) assms(3), of cpu]
    by (simp_all add: snoop_read6502MemoryLoc_def snoop_write6502MemoryLoc_def get6502State_def
        m0_def [symmetric] r w)
qed

lemma drive_irq_ref:
  assumes "keeps_port R m0 m"
  shows "keeps_port R m0 (exec (high (ref_board cpu) p6502IRQ) m)"
    and "keeps_port R m0 (exec (low (ref_board cpu) p6502IRQ) m)"
    and "mem (exec (high (ref_board cpu) p6502IRQ) m) = mem m"
    and "mem (exec (low (ref_board cpu) p6502IRQ) m) = mem m"
    and "\<not> irq_asserted (exec (high (ref_board cpu) p6502IRQ) m)"
    and "irq_asserted (exec (low (ref_board cpu) p6502IRQ) m)"
proof -
  have p: "port_ok m" by (rule keeps_portD(1) [OF assms])
  then have ok: "bus_ok m" "machine_ok m" "port_ok m"
    unfolding port_ok_def machine_ok_def by blast+
  note lvs = idleD [OF bus_okD(1) [OF ok(1)]]
  have e: "exec (high (ref_board cpu) p6502IRQ) m = m\<lparr>hw := (hw m)\<lparr>lv := (lv (hw m))(p6502IRQ := True)\<rparr>\<rparr>"
    "exec (low (ref_board cpu) p6502IRQ) m = m\<lparr>hw := (hw m)\<lparr>lv := (lv (hw m))(p6502IRQ := False)\<rparr>\<rparr>"
    using lvs by (simp_all add: high_ref low_ref drive_ctl)
  have "keeps_port R m0 (m\<lparr>hw := (hw m)\<lparr>lv := (lv (hw m))(p6502IRQ := b)\<rparr>\<rparr>)" for b
  proof -
    let ?m = "m\<lparr>hw := (hw m)\<lparr>lv := (lv (hw m))(p6502IRQ := b)\<rparr>\<rparr>"
    have "bus_ok ?m" by (rule bus_ok_ctl [OF ok(1)]) (simp_all add: idle_pins_def)
    moreover have "in_row ?m = in_row m"
      by (cases "gSysState m") (simp_all add: in_row_def)
    moreover have "pages_inj (hw ?m) c = pages_inj (hw m) c" for c by (simp add: pages_inj_def)
    ultimately have "port_ok ?m" using p by (auto simp: port_ok_def machine_ok_def)
    then show ?thesis using assms by (simp add: keeps_port_def)
  qed
  then show "keeps_port R m0 (exec (high (ref_board cpu) p6502IRQ) m)"
    "keeps_port R m0 (exec (low (ref_board cpu) p6502IRQ) m)" by (simp_all add: e)
  show "mem (exec (high (ref_board cpu) p6502IRQ) m) = mem m"
    "mem (exec (low (ref_board cpu) p6502IRQ) m) = mem m"
    by (simp_all add: e mem_def cell_def phys_page_def fun_eq_iff)
  show "\<not> irq_asserted (exec (high (ref_board cpu) p6502IRQ) m)"
    "irq_asserted (exec (low (ref_board cpu) p6502IRQ) m)"
    by (simp_all add: e irq_asserted_def)
qed

end
