(* ===== verification/Scheduler_Spec.thy ===== *)
theory Scheduler_Spec
  imports Scheduler
begin

text \<open>
  The interrupt slot as an arbiter, which \<open>taskIRQTimer\<close> refines, and the context switch.
\<close>

section \<open>The arbiter\<close>

record irq_slot =
  taken :: bool
  brk :: bool
  fsd :: bool

text \<open>
  One round: a taken slot is freed if its interrupt was acknowledged; a free one goes to a break
  request, else to a file system completion, else to the timer if that is due. The second result
  is the source delivered.
\<close>

definition arbitrate :: "bool \<Rightarrow> bool \<Rightarrow> irq_slot \<Rightarrow> irq_slot \<times> u8 option" where
  "arbitrate acked due sl =
     (if taken sl then (sl\<lparr>taken := \<not> acked\<rparr>, None)
      else if brk sl then (sl\<lparr>taken := True, brk := False\<rparr>, Some RP_SRC_CONSOLE_BREAK)
      else if fsd sl then (sl\<lparr>taken := True, fsd := False\<rparr>, Some RP_SRC_FS_DONE)
      else if due then (sl\<lparr>taken := True\<rparr>, Some RP_SRC_TIMER)
      else (sl, None))"

definition irq_abs :: "('b, 'f, 'd, 'k) sys \<Rightarrow> irq_slot" where
  "irq_abs s = \<lparr>taken = gIntrPending (sch s), brk = gConsoleBreakPending (sch s),
     fsd = gFsCompletionPending (sch s)\<rparr>"

text \<open>The line is asserted and the state cell says pending exactly while the slot is taken.\<close>

definition irq_ok :: "('b \<Rightarrow> ref) \<Rightarrow> ('b, 'f, 'd, 'k) sys \<Rightarrow> bool" where
  "irq_ok view s \<longleftrightarrow> (irq_asserted (absm view (mach s)) \<longleftrightarrow> gIntrPending (sch s)) \<and>
     smem view s RP_IRQ_STATE = (if gIntrPending (sch s) then RP_IRQ_PENDING else RP_IRQ_NONE)"

context mailbox_bus
begin

lemma irq_line:
  assumes "served m0 m"
  shows "served m0 (exec (high bd p6502IRQ) m)" and "served m0 (exec (low bd p6502IRQ) m)"
    and "at (exec (high bd p6502IRQ) m) = at m" and "at (exec (low bd p6502IRQ) m) = at m"
    and "\<not> irq_asserted (absm view (exec (high bd p6502IRQ) m))"
    and "irq_asserted (absm view (exec (low bd p6502IRQ) m))"
  using drive_irq_ref [OF assms, of cpu]
  by (simp_all add: simD [OF sim_pins(1)] simD [OF sim_pins(2)])

lemma snoop_irq:
  assumes "served m0 m" and "gSysState m0 \<notin> {sRESET, sBOOT}"
  shows "irq_asserted (absm view (exec (snoop_read6502MemoryLoc bd a) m)) = irq_asserted (absm view m)"
    and "irq_asserted (absm view (exec (snoop_write6502MemoryLoc bd a v) m)) = irq_asserted (absm view m)"
  using snoop_irq_ref [OF leaves keeps_portD(1) [OF assms(1)]] keeps_portD(2) [OF assms(1)] assms(2)
  by (simp_all add: simD [OF sim_snoop(1)] simD [OF sim_snoop(2)])

lemmas irq_run = bus_run irq_line snoop_irq

lemma genIRQ_run:
  fixes s :: "('b, 'f, 'd, 'k) sys" and src :: u8
  assumes "served m0 (mach s)" and "gSysState m0 \<notin> {sRESET, sBOOT}" and "irq_ok view s"
    and "\<not> gIntrPending (sch s)"
  defines "s' \<equiv> exec (genIRQ6502 bd src) s"
  shows "val_of (genIRQ6502 bd src) s" and "served m0 (mach s')" and "irq_ok view s'"
    and "sch s' = (sch s)\<lparr>gIntrPending := True\<rparr>"
    and "x \<in> mailbox_cells \<Longrightarrow> smem view s' x =
      (if x = RP_IRQ_SOURCE then src else if x = RP_IRQ_STATE then RP_IRQ_PENDING else smem view s x)"
proof -
  have st: "at (mach s) RP_IRQ_STATE = RP_IRQ_NONE" using assms(3,4) by (simp add: irq_ok_def smem_def)
  note run = irq_run [where ?m0.0 = m0]
  have ne: "RP_IRQ_STATE \<noteq> RP_IRQ_SOURCE" by (simp add: abi_addresses)
  show v: "val_of (genIRQ6502 bd src) s"
    using assms(1,4) st run by (simp add: genIRQ6502_def)
  show "served m0 (mach s')" "sch s' = (sch s)\<lparr>gIntrPending := True\<rparr>"
    using assms(1,4) st run by (simp_all add: s'_def genIRQ6502_def)
  show m: "smem view s' x = (if x = RP_IRQ_SOURCE then src else if x = RP_IRQ_STATE then RP_IRQ_PENDING
      else smem view s x)" if "x \<in> mailbox_cells" for x
    using assms(1,4) st run that by (simp add: s'_def genIRQ6502_def smem_def)
  show "irq_ok view s'"
    using assms(1,2,4) st run m [of RP_IRQ_STATE] ne unfolding irq_ok_def
    by (simp add: s'_def genIRQ6502_def)
qed

lemma taskIRQTimer_run:
  fixes s :: "('b, 'f, 'd, 'k) sys" and now now' :: u32
  assumes "served m0 (mach s)" and "gSysState m0 \<notin> {sRESET, sBOOT}" and "irq_ok view s"
  defines "s' \<equiv> exec (taskIRQTimer bd now now') s"
    and "r \<equiv> arbitrate (smem view s RP_IRQ_SOURCE = RP_SRC_NONE)
       (irqTimerEnabled (sch s) \<and> irqLastTS (sch s) + irqTimerInterval (sch s) \<le> now) (irq_abs s)"
  shows "served m0 (mach s') \<and> irq_ok view s' \<and> irq_abs s' = fst r \<and>
     smem view s' RP_IRQ_SOURCE = (case snd r of None \<Rightarrow> smem view s RP_IRQ_SOURCE | Some src \<Rightarrow> src)"
proof -
  note run = irq_run [where ?m0.0 = m0]
  have ne: "RP_IRQ_STATE \<noteq> RP_IRQ_SOURCE" by (simp add: abi_addresses)
  show ?thesis
  proof (cases "gIntrPending (sch s)")
    case True
    let ?m1 = "exec (snoop_read6502MemoryLoc bd RP_IRQ_SOURCE) (mach s)"
    have src: "val_of (snoop_read6502MemoryLoc bd RP_IRQ_SOURCE) (mach s) = smem view s RP_IRQ_SOURCE"
      using run(3) [OF assms(1)] by (simp add: smem_def)
    have m1: "served m0 ?m1" by (rule run(1) [OF assms(1)])
    let ?m3 = "exec (snoop_write6502MemoryLoc bd RP_IRQ_STATE RP_IRQ_NONE) (exec (high bd p6502IRQ) ?m1)"
    have r: "r = (\<lparr>taken = smem view s RP_IRQ_SOURCE \<noteq> RP_SRC_NONE, brk = gConsoleBreakPending (sch s),
        fsd = gFsCompletionPending (sch s)\<rparr>, None)"
      using True by (simp add: r_def arbitrate_def irq_abs_def)
    show ?thesis
    proof (cases "smem view s RP_IRQ_SOURCE = RP_SRC_NONE")
      case ack: True
      have s': "s' = s\<lparr>mach := ?m3, sch := (sch s)\<lparr>gIntrPending := False\<rparr>\<rparr>"
        using True ack src by (simp add: s'_def taskIRQTimer_def)
      show ?thesis
        using m1 assms(1,2) run ne by (simp add: s' r irq_ok_def irq_abs_def smem_def ack [unfolded smem_def])
    next
      case False
      have s': "s' = s\<lparr>mach := ?m1\<rparr>"
        using True False src by (simp add: s'_def taskIRQTimer_def)
      show ?thesis
        using m1 assms(1,3) True False run(4) [OF assms(1)] run(14) [OF assms(1,2)]
        by (simp add: s' r irq_ok_def irq_abs_def smem_def)
    qed
  next
    case free: False
    note g = genIRQ_run [OF assms(1,2,3) free]
    let ?t = "s\<lparr>sch := (sch s)\<lparr>irqLastTS := now'\<rparr>\<rparr>"
    have t: "served m0 (mach ?t)" "irq_ok view ?t" "\<not> gIntrPending (sch ?t)"
      using assms(1,3) free by (simp_all add: irq_ok_def)
    note g' = genIRQ_run [OF t(1) assms(2) t(2,3)]
    show ?thesis
      using free assms(1,3) g(1-4) g(5) [of RP_IRQ_SOURCE] g'(1-4) g'(5) [of RP_IRQ_SOURCE]
      by (simp add: s'_def taskIRQTimer_def r_def arbitrate_def irq_abs_def irq_ok_def)
  qed
qed

end

section \<open>A running system\<close>

text \<open>For the examples: the board after the first part of \<open>setup()\<close>, the processor released.\<close>

definition running :: "cpu \<Rightarrow> ref machine" where
  "running cpu = exec (set6502State (ref_board cpu) sRUNNING) (powered_up cpu)"

lemma running_ok:
  "port_ok (running cpu)" "gSysState (running cpu) = sRUNNING" "gCurrentContext (running cpu) = 0"
  "mmu_ram (hw (running cpu)) = mmu_ram (hw (powered_up cpu))" "\<not> irq_asserted (running cpu)"
proof -
  note p = powered_up_ok [where cpu = cpu]
  note s = set6502State_spec [OF p(2), of cpu sRUNNING, folded running_def]
  have c0: "gCurrentContext (powered_up cpu) = 0"
    using bring_up_ref(6) [where cpu = cpu and h = cold_board] by (simp add: powered_up_def)
  show "gSysState (running cpu) = sRUNNING" "gCurrentContext (running cpu) = 0"
    "mmu_ram (hw (running cpu)) = mmu_ram (hw (powered_up cpu))"
    using s c0 by (simp_all add: context_after_def bus_kept_def)
  moreover have ok: "machine_ok (running cpu)" by (rule s(1))
  moreover have "ctx_reg (hw (running cpu)) = 0"
    using bus_okD(3) [of "running cpu"] ok s(3) c0 calculation
    by (auto simp: machine_ok_def word_uint_eq_iff [where 'a = 8])
  moreover have "pages_inj (hw (running cpu)) 0"
    using powered_up_table [of _ _ cpu] calculation by (intro default_pages_inj) simp
  ultimately show "port_ok (running cpu)" by (simp add: port_ok_def)
  define m1 where "m1 = exec (setup_pins (ref_board cpu)) (initial_machine cold_board)"
  note sp = setup_pins_ref [of cpu cold_board, folded m1_def]
  define m2 where "m2 = exec (set6502State (ref_board cpu) sBOOT) m1"
  have ok1: "bus_ok m1" "gSysState m1 = sSTARTUP" using sp by (simp_all add: machine_ok_def)
  note lvs = idleD [OF bus_okD(1) [OF ok1(1)]]
  have "\<not> irq_asserted m2"
    using lvs ok1 by (simp add: m2_def irq_asserted_def set6502State_def enter6502State_def state_step_refs)
  moreover have "bus_ok m2" "index_ok m2"
    using set6502State_spec [OF sp(1), of cpu sBOOT, folded m2_def] sp(3)
    by (simp_all add: machine_ok_def bus_kept_def index_ok_def latched_index_def)
  then have "lv (hw (powered_up cpu)) = lv (hw m2)"
    using initMMU_ref(8,9) [of m2 cpu]
    by (simp add: powered_up_def bring_up_def init6502_def m1_def [symmetric] m2_def [symmetric])
  ultimately have "\<not> irq_asserted (powered_up cpu)" by (simp add: irq_asserted_def)
  then show "\<not> irq_asserted (running cpu)"
    unfolding running_def by (subst set6502State_irq) (use p in \<open>simp_all add: machine_ok_def\<close>)
qed

definition initial_sys :: "'b machine \<Rightarrow> ('b, unit, nat, unit) sys" where
  "initial_sys m = \<lparr>mach = m, qs = initial_queues, files = initial_fs () 0 (), cwds = initial_cwds,
     mbx = initial_mailbox, con = initial_console, sch = initial_scheduler, inCount = 0,
     fs_counts = (\<lambda>c. 0)\<rparr>"

lemma initial_sys_up: "port_ok (absm view m) \<Longrightarrow> sys_up view R (absm view m) (initial_sys m)"
  using sys_up_refl [of view "initial_sys m" R]
  by (simp add: initial_sys_def storage_ok_initial cwds_ok_initial queues_ok_initial)

context mailbox_bus
begin

lemma initScheduler_run:
  assumes "served m0 (mach s)" and "gSysState m0 \<notin> {sRESET, sBOOT}"
    and "\<not> irq_asserted (absm view (mach s))" and "\<not> gIntrPending (sch s)"
  shows "served m0 (mach (exec (initScheduler bd) s))" and "irq_ok view (exec (initScheduler bd) s)"
    and "irq_abs (exec (initScheduler bd) s) = \<lparr>taken = False, brk = False, fsd = False\<rparr>"
  using assms irq_run [where ?m0.0 = m0]
  by (simp_all add: initScheduler_def irq_ok_def irq_abs_def smem_def RP_IRQ_NONE_def)

end

text \<open>The example: a running system with its scheduler initialised and a file request completed.\<close>

abbreviation example_cpu :: cpu where "example_cpu \<equiv> guard mailbox_cells id"

definition example_sched :: "(ref, unit, nat, unit) sys" where
  "example_sched = exec requestFSCompletionIRQ
     (exec (initScheduler (ref_board example_cpu)) (initial_sys (running example_cpu)))"

lemma example_sched_ok:
  "port_ok (mach example_sched)" "gSysState (mach example_sched) = sRUNNING" "irq_ok id example_sched"
  "irq_abs example_sched = \<lparr>taken = False, brk = False, fsd = True\<rparr>"
proof -
  let ?s = "initial_sys (running example_cpu) :: (ref, unit, nat, unit) sys"
  let ?m0 = "running example_cpu"
  note r = running_ok [of example_cpu]
  have k: "keeps_port mailbox_cells ?m0 (absm id (mach ?s))"
    using keeps_port_refl [OF r(1)] by (simp add: initial_sys_def)
  note i = guarded_mailbox.initScheduler_run [OF k]
  have i': "keeps_port mailbox_cells ?m0 (mach (exec (initScheduler (ref_board example_cpu)) ?s))"
    "irq_ok id (exec (initScheduler (ref_board example_cpu)) ?s)"
    "irq_abs (exec (initScheduler (ref_board example_cpu)) ?s) = \<lparr>taken = False, brk = False, fsd = False\<rparr>"
    using i r by (simp_all add: initial_sys_def initial_scheduler_def)
  show "port_ok (mach example_sched)" "gSysState (mach example_sched) = sRUNNING"
    using keeps_portD [OF i'(1)] r(2) by (simp_all add: example_sched_def requestFSCompletionIRQ_def)
  show "irq_ok id example_sched" "irq_abs example_sched = \<lparr>taken = False, brk = False, fsd = True\<rparr>"
    using i'(2,3) by (simp_all add: example_sched_def requestFSCompletionIRQ_def irq_ok_def irq_abs_def)
qed

section \<open>Properties of the interrupt slot\<close>

text \<open>
  C9: \<open>taskIRQTimer\<close> refines the arbiter: the slot is freed exactly when the 6502 has acknowledged, a free
  slot goes to the break, then to the completion, then to a timer that is due, nothing else is
  delivered, and line, state cell and pending flag always agree.
\<close>

theorem taskIRQTimer_arbitrates:
  fixes s :: "('b, 'f, 'd, 'k) sys"
  assumes "mailbox_bus bd view cpu R" and "port_ok (absm view (mach s))"
    and "gSysState (mach s) \<notin> {sRESET, sBOOT}" and "irq_ok view s"
  shows "let s' = exec (taskIRQTimer bd now now') s;
      r = arbitrate (smem view s RP_IRQ_SOURCE = RP_SRC_NONE)
        (irqTimerEnabled (sch s) \<and> irqLastTS (sch s) + irqTimerInterval (sch s) \<le> now) (irq_abs s)
    in port_ok (absm view (mach s')) \<and> irq_ok view s' \<and> irq_abs s' = fst r \<and>
       smem view s' RP_IRQ_SOURCE = (case snd r of None \<Rightarrow> smem view s RP_IRQ_SOURCE | Some src \<Rightarrow> src)"
proof -
  have "gSysState (absm view (mach s)) \<notin> {sRESET, sBOOT}" using assms(3) by simp
  from mailbox_bus.taskIRQTimer_run [OF assms(1) keeps_port_refl [OF assms(2)] this assms(4), of now now']
  show ?thesis by (auto simp: Let_def dest: keeps_portD(1))
qed

theorem taskIRQTimer_arbitrates_witness:
  "smem id (exec (taskIRQTimer (ref_board example_cpu) 0 0) example_sched) RP_IRQ_SOURCE = RP_SRC_FS_DONE \<and>
   irq_asserted (mach (exec (taskIRQTimer (ref_board example_cpu) 0 0) example_sched))"
proof -
  note e = example_sched_ok
  have "gIntrPending (sch (exec (taskIRQTimer (ref_board example_cpu) 0 0) example_sched)) \<longleftrightarrow>
      taken (irq_abs (exec (taskIRQTimer (ref_board example_cpu) 0 0) example_sched))"
    by (simp add: irq_abs_def)
  then show ?thesis
    using taskIRQTimer_arbitrates [OF guarded_mailbox.mailbox_bus_axioms, of example_sched id 0 0] e
    by (simp add: Let_def arbitrate_def irq_ok_def)
qed

text \<open>
  C38: No completed file request stays unannounced: once the 6502 has acknowledged what it was last
  interrupted for, two rounds of the task suffice to interrupt it for the completion, unless the
  user breaks.
\<close>

theorem fs_completion_delivered:
  fixes s :: "('b, 'f, 'd, 'k) sys"
  assumes "mailbox_bus bd view cpu R" and "port_ok (absm view (mach s))"
    and "gSysState (mach s) \<notin> {sRESET, sBOOT}" and "irq_ok view s"
    and "gFsCompletionPending (sch s)" and "\<not> gConsoleBreakPending (sch s)"
    and "gIntrPending (sch s) \<Longrightarrow> smem view s RP_IRQ_SOURCE = RP_SRC_NONE"
  shows "\<exists>n\<le>2. let s' = (exec (taskIRQTimer bd now now') ^^ n) s in
      smem view s' RP_IRQ_SOURCE = RP_SRC_FS_DONE \<and> irq_asserted (absm view (mach s')) \<and>
      \<not> gFsCompletionPending (sch s')"
proof -
  let ?f = "exec (taskIRQTimer bd now now')"
  have st: "gSysState (absm view (mach s)) \<notin> {sRESET, sBOOT}" using assms(3) by simp
  note run = mailbox_bus.taskIRQTimer_run [OF assms(1)]
  note k = keeps_port_refl [OF assms(2), of R]
  note r1 = run [OF k st assms(4), of now now']
  show ?thesis
  proof (cases "gIntrPending (sch s)")
    case False
    then show ?thesis
      using r1 assms(5,6)
      by (intro exI [of _ 1]) (auto simp: arbitrate_def irq_abs_def irq_ok_def Let_def)
  next
    case True
    have a1: "irq_abs (?f s) = \<lparr>taken = False, brk = False, fsd = True\<rparr>"
      using r1 True assms(5-7) by (simp add: arbitrate_def irq_abs_def)
    have "irq_ok view (?f s)" and k1: "keeps_port R (absm view (mach s)) (absm view (mach (?f s)))"
      using r1 by simp_all
    note r2 = run [OF k1 st this(1), of now now']
    have "irq_abs (?f (?f s)) = \<lparr>taken = True, brk = False, fsd = False\<rparr> \<and>
        smem view (?f (?f s)) RP_IRQ_SOURCE = RP_SRC_FS_DONE \<and> irq_ok view (?f (?f s))"
      using r2 by (simp add: arbitrate_def a1)
    then show ?thesis
      by (intro exI [of _ 2]) (simp add: Let_def numeral_2_eq_2 irq_abs_def irq_ok_def)
  qed
qed

theorem fs_completion_delivered_witness:
  "\<exists>n\<le>2. smem id ((exec (taskIRQTimer (ref_board example_cpu) 0 0) ^^ n) example_sched) RP_IRQ_SOURCE = RP_SRC_FS_DONE"
proof -
  note e = example_sched_ok
  have f: "gFsCompletionPending (sch example_sched)" "\<not> gConsoleBreakPending (sch example_sched)"
    "\<not> gIntrPending (sch example_sched)"
    using e(4) by (simp_all add: irq_abs_def)
  show ?thesis
    using fs_completion_delivered [OF guarded_mailbox.mailbox_bus_axioms, of example_sched id 0 0] e f
    by (auto simp: Let_def)
qed

text \<open>
  The comparison of the timer adds in 32 bits: shortly before \<open>millis()\<close> wraps the sum wraps first and
  the timer fires on every round instead of every interval.
\<close>

lemma irq_timer_wraps:
  assumes "mailbox_bus bd view cpu R" and "port_ok (absm view (mach s))"
    and "gSysState (mach s) \<notin> {sRESET, sBOOT}" and "irq_ok view s"
    and "irq_abs s = \<lparr>taken = False, brk = False, fsd = False\<rparr>" and "irqTimerEnabled (sch s)"
    and "irqLastTS (sch s) = 0xFFFFFFF0" and "irqTimerInterval (sch s) = 100"
  shows "smem view (exec (taskIRQTimer bd 0xFFFFFFF1 0xFFFFFFF1) s) RP_IRQ_SOURCE = RP_SRC_TIMER"
proof -
  have "gSysState (absm view (mach s)) \<notin> {sRESET, sBOOT}" using assms(3) by simp
  from mailbox_bus.taskIRQTimer_run [OF assms(1) keeps_port_refl [OF assms(2)] this assms(4),
      of "0xFFFFFFF1" "0xFFFFFFF1"]
  show ?thesis using assms(5-8) by (simp add: arbitrate_def)
qed

section \<open>The context switch\<close>

lemma switch_ref:
  fixes c :: u8 and cpu :: cpu
  assumes "cpu_leaves cpu R" and "port_ok m" and "gSysState m \<noteq> sRESET" and "pages_inj (hw m) c"
  defines "m' \<equiv> exec (schedSwitchcontext (ref_board cpu) c) m"
  shows "port_ok m'" and "gSysState m' = gSysState m" and "gCurrentContext m' = uint c"
    and "ctx_reg (hw m') = c" and "mmu_ram (hw m') = mmu_ram (hw m)" and "\<not> gMMUIOTrigger m'"
    and "a \<in> R \<Longrightarrow> cell (hw m') d a = cell (hw m) d a"
proof -
  define m1 where "m1 = m\<lparr>gMMUIOTrigger := False\<rparr>"
  have ok1: "machine_ok m1" "gSysState m1 = gSysState m" "hw m1 = hw m"
    using assms(2) by (simp_all add: m1_def port_ok_def)
  define m2 where "m2 = exec (set6502State (ref_board cpu) sHALTED) m1"
  note s2 = set6502State_spec [OF ok1(1), of cpu sHALTED, folded m2_def]
  have b2: "bus_ok m2" using s2(1) by (simp add: machine_ok_def)
  define m3 where "m3 = exec (setMMUContext (ref_board cpu) c) m2"
  note s3 = setMMUContext_spec [OF b2, of cpu c, folded m3_def]
  have "in_row m3 = in_row m2" using s3(4,10) by (intro in_row_cong) (simp_all add: frame_of_def)
  then have ok3: "machine_ok m3" using s2(1) s3(1) by (simp add: machine_ok_def)
  define m4 where "m4 = exec (set6502State (ref_board cpu) (gSysState m)) m3"
  note s4 = set6502State_spec [OF ok3, of cpu "gSysState m", folded m4_def]
  have m': "m' = m4\<lparr>gMMUIOTrigger := False\<rparr>"
    by (simp add: m'_def schedSwitchcontext_def interrupts_ref get6502State_def m1_def [symmetric]
        m2_def [symmetric] m3_def [symmetric] m4_def [symmetric] ok1(2))
  have start: "gSysState m \<noteq> sSTARTUP" using assms(2) by (simp add: port_ok_def)
  show st: "gSysState m' = gSysState m" using s4(3) start by (simp add: m')
  show cx: "gCurrentContext m' = uint c" using s4(5) s3(2) assms(3) by (simp add: m' context_after_def)
  have ok4: "machine_ok m4" using s4(1) .
  show reg: "ctx_reg (hw m') = c"
    using bus_okD(3) [of m4] ok4 cx by (auto simp: m' machine_ok_def)
  show tab: "mmu_ram (hw m') = mmu_ram (hw m)"
    using s4(4) s3(6) s2(4) ok1 by (simp add: m' bus_kept_def)
  show "\<not> gMMUIOTrigger m'" by (simp add: m')
  show "port_ok m'"
    using ok4 st cx reg start assms(3,4) pages_inj_cong [OF tab] by (simp add: port_ok_def m')
  show "cell (hw m') d a = cell (hw m) d a" if "a \<in> R"
  proof -
    have "cell (hw m4) d a = cell (hw m3) d a"
      unfolding m4_def by (rule set6502State_cell [OF assms(1) that s3(1)])
    also have "cell (hw m3) d a = cell (hw m2) d a" using s3(6,7) by (simp add: cell_def phys_page_def)
    also have "\<dots> = cell (hw m1) d a"
      unfolding m2_def using set6502State_cell [OF assms(1) that] ok1(1) by (simp add: machine_ok_def)
    finally show ?thesis by (simp add: m' ok1(3))
  qed
qed

lemma debug_ref:
  assumes "port_ok m"
  shows "port_ok (exec (high (ref_board cpu) pDebug) m)" and "port_ok (exec (low (ref_board cpu) pDebug) m)"
    and "\<exists>f. exec (high (ref_board cpu) pDebug) m = m\<lparr>hw := (hw m)\<lparr>lv := f\<rparr>\<rparr>"
    and "\<exists>f. exec (low (ref_board cpu) pDebug) m = m\<lparr>hw := (hw m)\<lparr>lv := f\<rparr>\<rparr>"
proof -
  have ok: "bus_ok m" "machine_ok m" using assms unfolding port_ok_def machine_ok_def by blast+
  note lvs = idleD [OF bus_okD(1) [OF ok(1)]]
  have e: "exec (high (ref_board cpu) pDebug) m = m\<lparr>hw := (hw m)\<lparr>lv := (lv (hw m))(pDebug := True)\<rparr>\<rparr>"
    "exec (low (ref_board cpu) pDebug) m = m\<lparr>hw := (hw m)\<lparr>lv := (lv (hw m))(pDebug := False)\<rparr>\<rparr>"
    using lvs by (simp_all add: high_ref low_ref drive_ctl)
  have "port_ok (m\<lparr>hw := (hw m)\<lparr>lv := (lv (hw m))(pDebug := b)\<rparr>\<rparr>)" for b
  proof -
    let ?m = "m\<lparr>hw := (hw m)\<lparr>lv := (lv (hw m))(pDebug := b)\<rparr>\<rparr>"
    have "bus_ok ?m" by (rule bus_ok_ctl [OF ok(1)]) (simp_all add: idle_pins_def)
    moreover have "in_row ?m = in_row m" by (cases "gSysState m") (simp_all add: in_row_def)
    moreover have "pages_inj (hw ?m) c = pages_inj (hw m) c" for c by (simp add: pages_inj_def)
    ultimately show ?thesis using assms by (auto simp: port_ok_def machine_ok_def)
  qed
  then show "port_ok (exec (high (ref_board cpu) pDebug) m)" "port_ok (exec (low (ref_board cpu) pDebug) m)"
    by (simp_all add: e)
  show "\<exists>f. exec (high (ref_board cpu) pDebug) m = m\<lparr>hw := (hw m)\<lparr>lv := f\<rparr>\<rparr>"
    "\<exists>f. exec (low (ref_board cpu) pDebug) m = m\<lparr>hw := (hw m)\<lparr>lv := f\<rparr>\<rparr>"
    using e by blast+
qed

end
