(* ===== verification/Context_Access_Spec.thy ===== *)
theory Context_Access_Spec
  imports Context_Access Scheduler_Spec
begin

text \<open>
  The two block accesses together: what is written into a caller's context is read back, and the
  memory of every other context is left alone except where it shares the physical page.
\<close>

lemma private_range_bound: "rp_fs_mb_private_range a n \<Longrightarrow> n \<le> 65536"
  by (auto simp: rp_fs_mb_private_range_def RP_FS_PRIVATE_LIMIT_def split: if_splits)

lemma sim_option [sim_rules]:
  "sim f p q \<Longrightarrow> (\<And>x. sim f (g x) (h x)) \<Longrightarrow>
   sim f (case z of None \<Rightarrow> p | Some x \<Rightarrow> g x) (case z of None \<Rightarrow> q | Some x \<Rightarrow> h x)"
  by (cases z) simp_all

context mailbox_bus
begin

lemma read_context_block_run:
  assumes "served m0 m" and "rp_fs_mb_private_range a n" and "unat c < 16"
    and "\<And>k. k < n \<Longrightarrow> a + of_nat k \<in> R"
  shows "val_of (rp_fs_mb_read_context_block bd c a n) m =
      Some (map (\<lambda>k. cell (hw (absm view m)) c (a + of_nat k)) [0..<n])"
proof -
  let ?r = "absm view m"
  note ok = keeps_portD(1) [OF assms(1)]
  note b = begin_ref [OF leaves ok, where c = c]
  define m1 where "m1 = exec (rp_fs_mb_begin_context_access (ref_board cpu) c) ?r"
  have in1: "inside ?r c m1" using b(2) [OF assms(3)] by (simp add: m1_def)
  have c1: "cell (hw m1) c (a + of_nat k) = cell (hw ?r) c (a + of_nat k)" if "k < n" for k
    using b(4) [OF assms(4) [OF that]] by (simp add: m1_def)
  have "val_of (rp_fs_mb_read_context_block (ref_board cpu) c a n) ?r =
      Some (map (\<lambda>k. cell (hw ?r) c (a + of_nat k)) [0..<n])"
    using assms(2,3) b(1) read_bytes_inside(1) [OF in1, of cpu a n] c1
    by (simp add: rp_fs_mb_read_context_block_def m1_def [symmetric])
  moreover have "sim view (rp_fs_mb_read_context_block bd c a n) (rp_fs_mb_read_context_block (ref_board cpu) c a n)"
    unfolding rp_fs_mb_read_context_block_def by (intro sim_rules)
  ultimately show ?thesis by (simp add: simD(2))
qed

lemma write_context_block_run:
  assumes "served m0 m" and "rp_fs_mb_private_range a (length vs)" and "unat c < 16"
    and "pages_inj (hw (absm view m)) c"
  defines "m' \<equiv> exec (rp_fs_mb_write_context_block bd c a vs) m"
  shows "val_of (rp_fs_mb_write_context_block bd c a vs) m" and "served m0 m'"
    and "x \<in> R \<Longrightarrow> cell (hw (absm view m')) c x = store_bytes a vs (cell (hw (absm view m)) c) x"
    and "x \<in> R \<Longrightarrow> (\<And>k. k < length vs \<Longrightarrow> phys_page (hw (absm view m)) c (a + of_nat k) \<noteq>
       phys_page (hw (absm view m)) d x) \<Longrightarrow> cell (hw (absm view m')) d x = cell (hw (absm view m)) d x"
proof -
  let ?r = "absm view m"
  note ok = keeps_portD(1) [OF assms(1)]
  note b = begin_ref [OF leaves ok, where c = c]
  define m1 where "m1 = exec (rp_fs_mb_begin_context_access (ref_board cpu) c) ?r"
  have in1: "inside ?r c m1" using b(2) [OF assms(3)] by (simp add: m1_def)
  define m2 where "m2 = exec (rp_fs_mb_write_context_bytes (ref_board cpu) a vs) m1"
  note w = write_bytes_inside [OF in1, where cpu = cpu and a = a and vs = vs, folded m2_def]
  note e = end_ref [OF leaves ok w(1)]
  have run: "absm view m' = exec (rp_fs_mb_end_context_access (ref_board cpu)
      (gSysState ?r, word_of_int (gCurrentContext ?r))) m2"
    "val_of (rp_fs_mb_write_context_block bd c a vs) m"
  proof -
    have "sim view (rp_fs_mb_write_context_block bd c a vs) (rp_fs_mb_write_context_block (ref_board cpu) c a vs)"
      unfolding rp_fs_mb_write_context_block_def by (intro sim_rules)
    note s = simD [OF this, of m]
    show "absm view m' = exec (rp_fs_mb_end_context_access (ref_board cpu)
      (gSysState ?r, word_of_int (gCurrentContext ?r))) m2"
      "val_of (rp_fs_mb_write_context_block bd c a vs) m"
      unfolding m'_def s using assms(2,3) b(1)
      by (simp_all add: rp_fs_mb_write_context_block_def m1_def [symmetric] m2_def)
  qed
  show "val_of (rp_fs_mb_write_context_block bd c a vs) m" by (rule run(2))
  show "served m0 m'" unfolding run(1) by (rule keeps_port_trans [OF assms(1) e(1)])
  have c2: "cell (hw (absm view m')) d x = cell (hw m2) d x" if "x \<in> R" for d x
    unfolding run(1) by (rule e(2) [OF that])
  have c1: "cell (hw m1) d x = cell (hw ?r) d x" if "x \<in> R" for d x
    unfolding m1_def by (rule b(4) [OF that])
  show "cell (hw (absm view m')) c x = store_bytes a vs (cell (hw ?r) c) x" if "x \<in> R"
    using c2 [OF that, of c] w(3) [OF assms(4)] store_bytes_cong [where M = "cell (hw m1) c" and N = "cell (hw ?r) c", OF c1 [OF that]] by simp
  show "cell (hw (absm view m')) d x = cell (hw ?r) d x"
    if "x \<in> R" and "\<And>k. k < length vs \<Longrightarrow> phys_page (hw ?r) c (a + of_nat k) \<noteq> phys_page (hw ?r) d x"
    using c2 [OF that(1), of d] c1 [OF that(1), of d] w(2) [of d x, OF that(2)] by simp
qed

end

text \<open>
  C16: A block written into the private window of a caller's context is what a later read of the window
  returns, the 6502 gets its context and state back, and no byte of any context changes whose
  physical page is not one of those the block lies on.
\<close>

theorem context_block_roundtrip:
  assumes "mailbox_bus bd view cpu R" and "port_ok (absm view m)"
    and "rp_fs_mb_private_range a (length vs)" and "unat c < 16"
    and "pages_inj (hw (absm view m)) c" and "\<And>k. k < length vs \<Longrightarrow> a + of_nat k \<in> R"
  shows "let m' = exec (rp_fs_mb_write_context_block bd c a vs) m; r = hw (absm view m) in
    val_of (rp_fs_mb_write_context_block bd c a vs) m \<and>
    val_of (rp_fs_mb_read_context_block bd c a (length vs)) m' = Some vs \<and>
    gSysState m' = gSysState m \<and> gCurrentContext m' = gCurrentContext m \<and> port_ok (absm view m') \<and>
    (\<forall>d x. x \<in> R \<longrightarrow> (\<forall>k<length vs. phys_page r c (a + of_nat k) \<noteq> phys_page r d x) \<longrightarrow>
       cell (hw (absm view m')) d x = cell r d x)"
proof -
  note k = keeps_port_refl [OF assms(2), of R]
  note w = mailbox_bus.write_context_block_run [OF assms(1) k assms(3-5)]
  note r = mailbox_bus.read_context_block_run [OF assms(1) w(2) assms(3,4,6)]
  define m' where "m' = exec (rp_fs_mb_write_context_block bd c a vs) m"
  have "cell (hw (absm view m')) c (a + of_nat k) = vs ! k" if "k < length vs" for k
    unfolding m'_def w(3) [OF assms(6) [OF that]]
    by (rule store_bytes_at [OF that private_range_bound [OF assms(3)]])
  then have "map (\<lambda>k. cell (hw (absm view m')) c (a + of_nat k)) [0..<length vs] = vs"
    by (intro nth_equalityI) simp_all
  then have rd: "val_of (rp_fs_mb_read_context_block bd c a (length vs)) m' = Some vs"
    using r unfolding m'_def by (simp only:)
  have other: "cell (hw (absm view m')) d x = cell (hw (absm view m)) d x"
    if "x \<in> R" "\<forall>k<length vs. phys_page (hw (absm view m)) c (a + of_nat k) \<noteq> phys_page (hw (absm view m)) d x"
    for d x
    unfolding m'_def by (rule w(4) [OF that(1)]) (rule that(2) [rule_format])
  show ?thesis
    unfolding Let_def m'_def [symmetric]
    using other by (intro conjI w(1) rd keeps_portD(1-3) [OF w(2), folded m'_def, simplified]) blast
qed

theorem context_block_roundtrip_witness:
  "val_of (rp_fs_mb_read_context_block (ref_board id) 3 0x1000 2)
     (exec (rp_fs_mb_write_context_block (ref_board id) 3 0x1000 [7, 8]) (running id)) = Some [7, 8]"
proof -
  have inj: "pages_inj (hw (absm id (running id))) 3"
    using powered_up_table [of 3 _ id] running_ok(4) [of id] by (intro default_pages_inj) simp
  have rng: "rp_fs_mb_private_range 0x1000 (length [7 :: u8, 8])"
    by (simp add: rp_fs_mb_private_range_def RP_FS_PRIVATE_LIMIT_def)
  have c: "unat (3 :: u8) < 16" and n: "length [7 :: u8, 8] = 2" by simp_all
  have ok: "port_ok (absm id (running id))" using running_ok(1) by simp
  note r = context_block_roundtrip [OF idle_mailbox.mailbox_bus_axioms ok rng c inj UNIV_I, unfolded Let_def n]
  show ?thesis using r by blast
qed

end
