(* ===== verification/Memory_Config.thy ===== *)
theory Memory_Config
  imports Context_Access
begin

text \<open>
  \<open>memory_config.cpp\<close>: the parser of \<open>/memory.ini\<close>, its validation, and the allocation of physical
  pages from which the MMU table is written. Char arrays are the lists of their characters before
  the NUL, an array with its count a list, a pointer into an array an index. A parse or a
  configuration ends with an error value or a result; writing outside \<open>phys_map\<close>, which
  C++ leaves undefined, is the error \<open>Out_Of_Bounds\<close>.
\<close>

section \<open>Data\<close>

definition MAX_MEMORY_NAME :: nat where "MAX_MEMORY_NAME = 16"
definition MAX_MEMORY_MODELS :: nat where "MAX_MEMORY_MODELS = 4"
definition MAX_MEMORY_LAYOUTS :: nat where "MAX_MEMORY_LAYOUTS = 8"
definition MAX_MEMORY_REGIONS :: nat where "MAX_MEMORY_REGIONS = 16"

datatype memory_region_type = MEMORY_REGION_NORMAL | MEMORY_REGION_IO

datatype memory_ini_code =
    MEMORY_INI_OPEN_FAILED | MEMORY_INI_SYNTAX | MEMORY_INI_UNKNOWN_SECTION | MEMORY_INI_UNKNOWN_KEY
  | MEMORY_INI_DUPLICATE_MODEL | MEMORY_INI_DUPLICATE_LAYOUT | MEMORY_INI_DUPLICATE_REGION
  | MEMORY_INI_DUPLICATE_CONTEXT | MEMORY_INI_INVALID_CONTEXT | MEMORY_INI_INVALID_VALUE
  | MEMORY_INI_INVALID_RANGE | MEMORY_INI_MODEL_NOT_FOUND | MEMORY_INI_LAYOUT_NOT_FOUND
  | MEMORY_INI_LAYOUT_INCOMPLETE | MEMORY_INI_OVERLAPPING_REGIONS

record memory_ini_error =
  err_code :: memory_ini_code
  err_line :: nat
  err_section :: string
  err_key :: string
  err_value :: string

record memory_model =
  mm_name :: string
  mm_contexts :: u8

record memory_region =
  r_name :: string
  r_start :: u8
  r_pages :: u8
  r_shared :: bool
  r_type :: memory_region_type
  r_trap_write :: bool

record memory_layout =
  l_model :: string
  l_name :: string
  l_regions :: "memory_region list"

record context_binding =
  b_model :: string
  b_context :: u8
  b_layout :: string

record memory_config =
  cfg_version :: u8
  active_model :: string
  boot_context :: u8
  models :: "memory_model list"
  layouts :: "memory_layout list"
  bindings :: "context_binding list"

definition no_config :: memory_config where
  "no_config = \<lparr>cfg_version = 0, active_model = [], boot_context = 0, models = [], layouts = [], bindings = []\<rparr>"

section \<open>Helpers\<close>

definition copyTrunc :: "nat \<Rightarrow> string \<Rightarrow> string" where
  "copyTrunc dstSize src = (if dstSize = 0 then [] else take (dstSize - 1) src)"

text \<open>The names of \<open>MAX_MEMORY_NAME + 1\<close> bytes.\<close>

abbreviation name_of :: "string \<Rightarrow> string" where
  "name_of s \<equiv> copyTrunc (MAX_MEMORY_NAME + 1) s"

definition failMemoryIni ::
  "memory_ini_code \<Rightarrow> nat \<Rightarrow> string option \<Rightarrow> string option \<Rightarrow> string option \<Rightarrow> memory_ini_error" where
  "failMemoryIni c line sec key val =
     (let field = (\<lambda>n s. case s of None \<Rightarrow> [] | Some x \<Rightarrow> copyTrunc n x) in
      \<lparr>err_code = c, err_line = line, err_section = field 48 sec, err_key = field 32 key,
       err_value = field 64 val\<rparr>)"

definition parseBoolValue :: "string \<Rightarrow> bool option" where
  "parseBoolValue s = (if s = ''true'' then Some True else if s = ''false'' then Some False else None)"

text \<open>\<open>strtol\<close> to base 10: value and unread rest; nothing is read without a digit.\<close>

definition is_space :: "char \<Rightarrow> bool" where
  "is_space c \<longleftrightarrow> code_of c \<in> {9, 10, 11, 12, 13, 32}"

definition strtol10 :: "string \<Rightarrow> int \<times> string" where
  "strtol10 s =
     (let t = dropWhile is_space s;
          neg = (t \<noteq> [] \<and> hd t = CHR ''-'');
          u = (if t \<noteq> [] \<and> (hd t = CHR ''-'' \<or> hd t = CHR ''+'') then tl t else t);
          ds = takeWhile is_digit u;
          v = foldl (\<lambda>n c. 10 * n + (int (code_of c) - 48)) 0 ds
      in if ds = [] then (0, s) else (if neg then - v else v, dropWhile is_digit u))"

definition parseU8Strict :: "string \<Rightarrow> u8 option" where
  "parseU8Strict s =
     (if s = [] then None
      else let (v, end) = strtol10 s in
        if end \<noteq> [] then None
        else if v < 0 \<or> v > 255 then None
        else Some (word_of_int v))"

definition parseContextIdStrict :: "string \<Rightarrow> u8 option" where
  "parseContextIdStrict s =
     (case parseU8Strict s of None \<Rightarrow> None
      | Some v \<Rightarrow> if unat v < MAX_MEMORY_CONTEXTS then Some v else None)"

section \<open>Searches\<close>

definition findModel :: "memory_config \<Rightarrow> string \<Rightarrow> nat option" where
  "findModel c name = find_index_from 0 (\<lambda>m. mm_name m = name) (models c)"

definition findLayout :: "memory_config \<Rightarrow> string \<Rightarrow> string \<Rightarrow> nat option" where
  "findLayout c model name = find_index_from 0 (\<lambda>l. l_model l = model \<and> l_name l = name) (layouts c)"

definition findContextBinding :: "memory_config \<Rightarrow> string \<Rightarrow> u8 \<Rightarrow> nat option" where
  "findContextBinding c model ctx =
     find_index_from 0 (\<lambda>b. b_model b = model \<and> b_context b = ctx) (bindings c)"

definition findRegion :: "memory_layout \<Rightarrow> string \<Rightarrow> nat option" where
  "findRegion l name = find_index_from 0 (\<lambda>r. r_name r = name) (l_regions l)"

section \<open>Validation\<close>

definition isValidRegionRange :: "memory_region \<Rightarrow> bool" where
  "isValidRegionRange reg =
     (if r_pages reg = 0 then False
      else if r_start reg \<ge> of_nat NUM_CONTEXT_PAGES then False
      else if unat (r_start reg) + unat (r_pages reg) > NUM_CONTEXT_PAGES then False
      else True)"

text \<open>The pairs of the two nested loops, in their order; the ends are 8-bit sums.\<close>

definition layoutHasOverlaps :: "memory_layout \<Rightarrow> bool" where
  "layoutHasOverlaps layout \<longleftrightarrow>
     (let rs = l_regions layout in
      list_ex (\<lambda>i. list_ex (\<lambda>j.
        let a0 = r_start (rs ! i); a1 = a0 + r_pages (rs ! i);
            b0 = r_start (rs ! j); b1 = b0 + r_pages (rs ! j)
        in a0 < b1 \<and> b0 < a1) [Suc i..<length rs]) [0..<length rs])"

definition covered_pages :: "memory_layout \<Rightarrow> bool list" where
  "covered_pages layout =
     fold (\<lambda>r cov. fold (\<lambda>p cov. cov[unat (r_start r) + p := True]) [0..<unat (r_pages r)] cov)
       (l_regions layout) (replicate NUM_CONTEXT_PAGES False)"

definition layoutIsComplete :: "memory_layout \<Rightarrow> bool" where
  "layoutIsComplete layout = list_all (\<lambda>i. covered_pages layout ! i) [0..<NUM_CONTEXT_PAGES]"

text \<open>The first error a loop returns with.\<close>

fun first_error :: "('a \<Rightarrow> 'e option) \<Rightarrow> 'a list \<Rightarrow> 'e option" where
  "first_error f [] = None"
| "first_error f (x # xs) = (case f x of None \<Rightarrow> first_error f xs | Some e \<Rightarrow> Some e)"

definition check_model :: "memory_model \<Rightarrow> memory_ini_error option" where
  "check_model m =
     (if mm_contexts m = 0 \<or> unat (mm_contexts m) > MAX_MEMORY_CONTEXTS
      then Some (failMemoryIni MEMORY_INI_INVALID_VALUE 0 (Some (mm_name m)) (Some ''contexts'') None)
      else None)"

definition check_layout :: "memory_config \<Rightarrow> memory_layout \<Rightarrow> memory_ini_error option" where
  "check_layout c l =
     (if findModel c (l_model l) = None then
        Some (failMemoryIni MEMORY_INI_MODEL_NOT_FOUND 0 (Some (l_name l)) (Some ''model'') (Some (l_model l)))
      else if length (l_regions l) = 0 then
        Some (failMemoryIni MEMORY_INI_LAYOUT_INCOMPLETE 0 (Some (l_name l)) None None)
      else case first_error (\<lambda>r. if isValidRegionRange r then None
             else Some (failMemoryIni MEMORY_INI_INVALID_RANGE 0 (Some (l_name l)) (Some (r_name r)) None))
             (l_regions l) of
          Some e \<Rightarrow> Some e
        | None \<Rightarrow>
            if layoutHasOverlaps l then
              Some (failMemoryIni MEMORY_INI_OVERLAPPING_REGIONS 0 (Some (l_name l)) None None)
            else if \<not> layoutIsComplete l then
              Some (failMemoryIni MEMORY_INI_LAYOUT_INCOMPLETE 0 (Some (l_name l)) None None)
            else None)"

text \<open>The decimal digits \<open>snprintf\<close> writes for a context number.\<close>

definition decimal :: "nat \<Rightarrow> string" where
  "decimal n = (if n < 10 then [char_of (48 + n)] else [char_of (48 + n div 10), char_of (48 + n mod 10)])"

definition check_context :: "memory_config \<Rightarrow> memory_model \<Rightarrow> nat \<Rightarrow> memory_ini_error option" where
  "check_context c active i =
     (case findContextBinding c (mm_name active) (of_nat i) of
        None \<Rightarrow> Some (failMemoryIni MEMORY_INI_INVALID_CONTEXT 0 (Some ''context'') (Some ''missing'')
          (Some (decimal i)))
      | Some b \<Rightarrow>
          if findLayout c (mm_name active) (b_layout (bindings c ! b)) = None then
            Some (failMemoryIni MEMORY_INI_LAYOUT_NOT_FOUND 0 (Some ''context'') (Some ''layout'')
              (Some (b_layout (bindings c ! b))))
          else None)"

definition validateConfig :: "memory_config \<Rightarrow> memory_ini_error option" where
  "validateConfig c =
     (if cfg_version c = 0 then
        Some (failMemoryIni MEMORY_INI_INVALID_VALUE 0 (Some ''system'') (Some ''config_version'') None)
      else if active_model c = [] then
        Some (failMemoryIni MEMORY_INI_INVALID_VALUE 0 (Some ''system'') (Some ''active_model'') None)
      else case findModel c (active_model c) of
          None \<Rightarrow> Some (failMemoryIni MEMORY_INI_MODEL_NOT_FOUND 0 (Some ''system'') (Some ''active_model'')
            (Some (active_model c)))
        | Some k \<Rightarrow>
            let active = models c ! k in
            if boot_context c \<ge> mm_contexts active then
              Some (failMemoryIni MEMORY_INI_INVALID_CONTEXT 0 (Some ''system'') (Some ''boot_context'') None)
            else case first_error check_model (models c) of
                Some e \<Rightarrow> Some e
              | None \<Rightarrow> case first_error (check_layout c) (layouts c) of
                    Some e \<Rightarrow> Some e
                  | None \<Rightarrow> first_error (check_context c active) [0..<unat (mm_contexts active)])"

section \<open>The parser\<close>

text \<open>
  \<open>readBytesUntil('\n', line, 159)\<close>: the bytes before the newline, which is consumed, or the first
  159 bytes.
\<close>

definition newline :: char where "newline = CHR 0x0A"

definition read_line :: "string \<Rightarrow> string \<times> string" where
  "read_line s = (let w = takeWhile (\<lambda>c. c \<noteq> newline) s in
     if length w < 159 then (w, drop (length w + 1) s) else (take 159 s, drop 159 s))"

text \<open>Trailing carriage returns and newlines are cut, then the line ends at its first NUL.\<close>

definition rstrip :: "(char \<Rightarrow> bool) \<Rightarrow> string \<Rightarrow> string" where
  "rstrip P s = rev (dropWhile P (rev s))"

definition clean_line :: "string \<Rightarrow> string" where
  "clean_line raw = takeWhile (\<lambda>c. c \<noteq> CHR 0x00) (rstrip (\<lambda>c. c = CHR 0x0D \<or> c = newline) raw)"

definition blank :: "char \<Rightarrow> bool" where
  "blank c \<longleftrightarrow> c = CHR '' '' \<or> c = CHR 0x09"

definition trim :: "string \<Rightarrow> string" where
  "trim s = rstrip blank (dropWhile blank s)"

text \<open>The tokens \<open>strtok_r\<close> finds: the non-empty pieces between separators.\<close>

fun pieces_at :: "char \<Rightarrow> string \<Rightarrow> string \<Rightarrow> string list" where
  "pieces_at sep acc [] = [acc]"
| "pieces_at sep acc (c # cs) = (if c = sep then acc # pieces_at sep [] cs else pieces_at sep (acc @ [c]) cs)"

definition tokens :: "char \<Rightarrow> string \<Rightarrow> string list" where
  "tokens sep s = filter (\<lambda>p. p \<noteq> []) (pieces_at sep [] s)"

definition dot_tokens :: "string \<Rightarrow> string list" where
  "dot_tokens s = tokens (CHR ''.'') s"

text \<open>\<open>currentRegion\<close> points at a region of a layout.\<close>

record ini_state =
  memoryConfig :: memory_config
  section_name :: string
  currentRegion :: "(nat \<times> nat) option"

definition on_config :: "(memory_config \<Rightarrow> memory_config) \<Rightarrow> ini_state \<Rightarrow> ini_state" where
  "on_config f st = st\<lparr>memoryConfig := f (memoryConfig st)\<rparr>"

definition parse_model_section :: "nat \<Rightarrow> ini_state \<Rightarrow> memory_ini_error + ini_state" where
  "parse_model_section lineNo st =
     (let sec = section_name st; c = memoryConfig st; name = name_of (drop 6 sec) in
      if findModel c name \<noteq> None then
        Inl (failMemoryIni MEMORY_INI_DUPLICATE_MODEL lineNo (Some sec) (Some ''model'') (Some name))
      else if length (models c) \<ge> MAX_MEMORY_MODELS then
        Inl (failMemoryIni MEMORY_INI_INVALID_VALUE lineNo (Some sec) (Some ''model_count'') (Some name))
      else Inr (on_config (\<lambda>c. c\<lparr>models := models c @ [\<lparr>mm_name = name_of name, mm_contexts = 0\<rparr>]\<rparr>) st))"

definition new_region :: "string \<Rightarrow> memory_region" where
  "new_region name = \<lparr>r_name = name, r_start = 0, r_pages = 0, r_shared = False,
     r_type = MEMORY_REGION_NORMAL, r_trap_write = False\<rparr>"

definition parse_layout_section :: "nat \<Rightarrow> ini_state \<Rightarrow> memory_ini_error + ini_state" where
  "parse_layout_section lineNo st =
     (let sec = section_name st; c = memoryConfig st; parts = take 5 (dot_tokens (copyTrunc 64 sec)) in
      if length parts \<noteq> 5 then
        Inl (failMemoryIni MEMORY_INI_UNKNOWN_SECTION lineNo (Some sec) None None)
      else if parts ! 0 \<noteq> ''layout'' \<or> parts ! 3 \<noteq> ''region'' then
        Inl (failMemoryIni MEMORY_INI_UNKNOWN_SECTION lineNo (Some sec) None None)
      else
        let modelName = name_of (parts ! 1); layoutName = name_of (parts ! 2); regionName = name_of (parts ! 4) in
        if findLayout c modelName layoutName = None \<and> length (layouts c) \<ge> MAX_MEMORY_LAYOUTS then
          Inl (failMemoryIni MEMORY_INI_INVALID_VALUE lineNo (Some sec) (Some ''layout_count'') (Some layoutName))
        else
          let (i, ls) = (case findLayout c modelName layoutName of
                Some i \<Rightarrow> (i, layouts c)
              | None \<Rightarrow> (length (layouts c), layouts c @
                  [\<lparr>l_model = name_of modelName, l_name = name_of layoutName, l_regions = []\<rparr>])) in
          if findRegion (ls ! i) regionName \<noteq> None then
            Inl (failMemoryIni MEMORY_INI_DUPLICATE_REGION lineNo (Some sec) (Some ''region'') (Some regionName))
          else if length (l_regions (ls ! i)) \<ge> MAX_MEMORY_REGIONS then
            Inl (failMemoryIni MEMORY_INI_INVALID_VALUE lineNo (Some sec) (Some ''region_count'') (Some regionName))
          else Inr ((on_config (\<lambda>c. c\<lparr>layouts := ls[i := (ls ! i)\<lparr>l_regions :=
                 l_regions (ls ! i) @ [new_region (name_of regionName)]\<rparr>]\<rparr>) st)
               \<lparr>currentRegion := Some (i, length (l_regions (ls ! i)))\<rparr>))"

text \<open>
  The name of a section of a context: model and number. The model is not cut to the length of a
  name here.
\<close>

definition context_section :: "nat \<Rightarrow> string \<Rightarrow> memory_ini_error + (string \<times> u8 \<times> string)" where
  "context_section lineNo sec =
     (let parts = take 3 (dot_tokens (copyTrunc 64 sec)) in
      if length parts \<noteq> 3 \<or> parts ! 0 \<noteq> ''context'' then
        Inl (failMemoryIni MEMORY_INI_UNKNOWN_SECTION lineNo (Some sec) None None)
      else case parseContextIdStrict (parts ! 2) of
          None \<Rightarrow> Inl (failMemoryIni MEMORY_INI_INVALID_CONTEXT lineNo (Some sec) (Some ''context'') (Some (parts ! 2)))
        | Some ctx \<Rightarrow> Inr (parts ! 1, ctx, parts ! 2))"

definition parse_context_section :: "nat \<Rightarrow> ini_state \<Rightarrow> memory_ini_error + ini_state" where
  "parse_context_section lineNo st =
     (let sec = section_name st; c = memoryConfig st in
      case context_section lineNo sec of Inl e \<Rightarrow> Inl e
      | Inr (model, ctx, shown) \<Rightarrow>
          if findContextBinding c model ctx \<noteq> None then
            Inl (failMemoryIni MEMORY_INI_DUPLICATE_CONTEXT lineNo (Some sec) (Some ''context'') (Some shown))
          else if length (bindings c) \<ge> MAX_MEMORY_CONTEXTS then
            Inl (failMemoryIni MEMORY_INI_INVALID_VALUE lineNo (Some sec) (Some ''context_count'') None)
          else Inr (on_config (\<lambda>c. c\<lparr>bindings := bindings c @
                 [\<lparr>b_model = name_of model, b_context = ctx, b_layout = []\<rparr>]\<rparr>) st))"

definition parse_section :: "nat \<Rightarrow> string \<Rightarrow> ini_state \<Rightarrow> memory_ini_error + ini_state" where
  "parse_section lineNo line st =
     (if CHR '']'' \<notin> set line then Inl (failMemoryIni MEMORY_INI_SYNTAX lineNo None None (Some line))
      else
        let sec = copyTrunc 64 (takeWhile (\<lambda>c. c \<noteq> CHR '']'') (tl line));
            st = st\<lparr>section_name := sec, currentRegion := None\<rparr> in
        if sec = ''system'' then Inr st
        else if take 6 sec = ''model.'' then parse_model_section lineNo st
        else if take 7 sec = ''layout.'' then parse_layout_section lineNo st
        else if take 8 sec = ''context.'' then parse_context_section lineNo st
        else Inl (failMemoryIni MEMORY_INI_UNKNOWN_SECTION lineNo (Some sec) None None))"

text \<open>\<open>key = value\<close> lines, one function per kind of section.\<close>

definition system_key :: "nat \<Rightarrow> string \<Rightarrow> string \<Rightarrow> ini_state \<Rightarrow> memory_ini_error + ini_state" where
  "system_key lineNo key val st =
     (let fail = (\<lambda>code. Inl (failMemoryIni code lineNo (Some (section_name st)) (Some key) (Some val))) in
      if key = ''config_version'' then
        (case parseU8Strict val of None \<Rightarrow> fail MEMORY_INI_INVALID_VALUE
         | Some v \<Rightarrow> Inr (on_config (\<lambda>c. c\<lparr>cfg_version := v\<rparr>) st))
      else if key = ''active_model'' then Inr (on_config (\<lambda>c. c\<lparr>active_model := name_of val\<rparr>) st)
      else if key = ''boot_context'' then
        (case parseContextIdStrict val of None \<Rightarrow> fail MEMORY_INI_INVALID_CONTEXT
         | Some v \<Rightarrow> Inr (on_config (\<lambda>c. c\<lparr>boot_context := v\<rparr>) st))
      else fail MEMORY_INI_UNKNOWN_KEY)"

definition model_key :: "nat \<Rightarrow> string \<Rightarrow> string \<Rightarrow> ini_state \<Rightarrow> memory_ini_error + ini_state" where
  "model_key lineNo key val st =
     (let sec = section_name st; name = name_of (drop 6 sec) in
      case findModel (memoryConfig st) name of
        None \<Rightarrow> Inl (failMemoryIni MEMORY_INI_MODEL_NOT_FOUND lineNo (Some sec) (Some ''model'') (Some name))
      | Some i \<Rightarrow>
          if key = ''contexts'' then
            (case parseU8Strict val of
               None \<Rightarrow> Inl (failMemoryIni MEMORY_INI_INVALID_VALUE lineNo (Some sec) (Some key) (Some val))
             | Some v \<Rightarrow> Inr (on_config (\<lambda>c. c\<lparr>models := (models c)[i := (models c ! i)\<lparr>mm_contexts := v\<rparr>]\<rparr>) st))
          else Inl (failMemoryIni MEMORY_INI_UNKNOWN_KEY lineNo (Some sec) (Some key) (Some val)))"

definition on_region :: "nat \<times> nat \<Rightarrow> (memory_region \<Rightarrow> memory_region) \<Rightarrow> ini_state \<Rightarrow> ini_state" where
  "on_region ij f = on_config (\<lambda>c. c\<lparr>layouts := (layouts c)[fst ij := (layouts c ! fst ij)\<lparr>l_regions :=
     (l_regions (layouts c ! fst ij))[snd ij := f (l_regions (layouts c ! fst ij) ! snd ij)]\<rparr>]\<rparr>)"

definition region_key :: "nat \<Rightarrow> nat \<times> nat \<Rightarrow> string \<Rightarrow> string \<Rightarrow> ini_state \<Rightarrow> memory_ini_error + ini_state" where
  "region_key lineNo ij key val st =
     (let fail = (\<lambda>code. Inl (failMemoryIni code lineNo (Some (section_name st)) (Some key) (Some val))) in
      if key = ''start'' then
        (case parseU8Strict val of None \<Rightarrow> fail MEMORY_INI_INVALID_VALUE
         | Some v \<Rightarrow> Inr (on_region ij (\<lambda>r. r\<lparr>r_start := v\<rparr>) st))
      else if key = ''pages'' then
        (case parseU8Strict val of None \<Rightarrow> fail MEMORY_INI_INVALID_VALUE
         | Some v \<Rightarrow> Inr (on_region ij (\<lambda>r. r\<lparr>r_pages := v\<rparr>) st))
      else if key = ''shared'' then
        (case parseBoolValue val of None \<Rightarrow> fail MEMORY_INI_INVALID_VALUE
         | Some b \<Rightarrow> Inr (on_region ij (\<lambda>r. r\<lparr>r_shared := b\<rparr>) st))
      else if key = ''trap_write'' then
        (case parseBoolValue val of None \<Rightarrow> fail MEMORY_INI_INVALID_VALUE
         | Some b \<Rightarrow> Inr (on_region ij (\<lambda>r. r\<lparr>r_trap_write := b\<rparr>) st))
      else if key = ''type'' then
        (if val = ''io'' then Inr (on_region ij (\<lambda>r. r\<lparr>r_type := MEMORY_REGION_IO\<rparr>) st)
         else if val = ''normal'' then Inr (on_region ij (\<lambda>r. r\<lparr>r_type := MEMORY_REGION_NORMAL\<rparr>) st)
         else fail MEMORY_INI_INVALID_VALUE)
      else fail MEMORY_INI_UNKNOWN_KEY)"

definition context_key :: "nat \<Rightarrow> string \<Rightarrow> string \<Rightarrow> ini_state \<Rightarrow> memory_ini_error + ini_state" where
  "context_key lineNo key val st =
     (let sec = section_name st in
      case context_section lineNo sec of Inl e \<Rightarrow> Inl e
      | Inr (model, ctx, shown) \<Rightarrow>
          (case findContextBinding (memoryConfig st) model ctx of
             None \<Rightarrow> Inl (failMemoryIni MEMORY_INI_INVALID_CONTEXT lineNo (Some sec) (Some ''context'') (Some shown))
           | Some i \<Rightarrow>
               if key = ''layout'' then
                 Inr (on_config (\<lambda>c. c\<lparr>bindings := (bindings c)[i := (bindings c ! i)\<lparr>b_layout := name_of val\<rparr>]\<rparr>) st)
               else Inl (failMemoryIni MEMORY_INI_UNKNOWN_KEY lineNo (Some sec) (Some key) (Some val))))"

definition parse_key :: "nat \<Rightarrow> string \<Rightarrow> ini_state \<Rightarrow> memory_ini_error + ini_state" where
  "parse_key lineNo line st =
     (let sec = section_name st in
      if CHR ''='' \<notin> set line then
        Inl (failMemoryIni MEMORY_INI_SYNTAX lineNo (Some sec) None (Some line))
      else
        let key = trim (takeWhile (\<lambda>c. c \<noteq> CHR ''='') line);
            val = trim (tl (dropWhile (\<lambda>c. c \<noteq> CHR ''='') line)) in
        if sec = ''system'' then system_key lineNo key val st
        else if take 6 sec = ''model.'' then model_key lineNo key val st
        else case currentRegion st of
            Some ij \<Rightarrow> region_key lineNo ij key val st
          | None \<Rightarrow>
              if take 8 sec = ''context.'' then context_key lineNo key val st
              else Inl (failMemoryIni MEMORY_INI_UNKNOWN_SECTION lineNo (Some sec) (Some key) (Some val)))"

definition parse_line :: "nat \<Rightarrow> string \<Rightarrow> ini_state \<Rightarrow> memory_ini_error + ini_state" where
  "parse_line lineNo line st =
     (if line = [] \<or> hd line = CHR ''#'' \<or> hd line = CHR '';'' then Inr st
      else if hd line = CHR ''['' then parse_section lineNo line st
      else parse_key lineNo line st)"

text \<open>The loop over the file, with the configuration it leaves and the error it ends with.\<close>

function parse_lines :: "nat \<Rightarrow> string \<Rightarrow> ini_state \<Rightarrow> memory_config \<times> memory_ini_error option" where
  "parse_lines lineNo file st =
     (if file = [] then (memoryConfig st, None)
      else case parse_line (Suc lineNo) (clean_line (fst (read_line file))) st of
          Inl e \<Rightarrow> (memoryConfig st, Some e)
        | Inr st' \<Rightarrow> parse_lines (Suc lineNo) (snd (read_line file)) st')"
  by pat_completeness auto

termination parse_lines
  by (relation "measure (\<lambda>(_, file, _). length file)") (auto simp: read_line_def Let_def)

declare parse_lines.simps [simp del]

definition parseMemoryIni :: "string \<Rightarrow> memory_config \<times> memory_ini_error option" where
  "parseMemoryIni file =
     (case parse_lines 0 file \<lparr>memoryConfig = no_config, section_name = [], currentRegion = None\<rparr> of
        (c, Some e) \<Rightarrow> (c, Some e)
      | (c, None) \<Rightarrow> (c, validateConfig c))"

text \<open>The content of the file, if LittleFS opens it.\<close>

definition initializeMemoryConfig :: "string option \<Rightarrow> memory_config \<times> memory_ini_error option" where
  "initializeMemoryConfig file =
     (case file of
        None \<Rightarrow> (no_config, Some (failMemoryIni MEMORY_INI_OPEN_FAILED 0 None None None))
      | Some s \<Rightarrow> parseMemoryIni s)"

section \<open>Allocation\<close>

record shared_page =
  sp_model :: string
  sp_region :: string
  sp_offset :: u8
  sp_phys :: u8

record alloc =
  phys_map :: "u8 list list"
  shared_pages :: "shared_page list"
  nextPhysical :: u8

datatype config_error = Refused | Out_Of_Bounds

fun each :: "('i \<Rightarrow> 'a \<Rightarrow> 'e + 'a) \<Rightarrow> 'i list \<Rightarrow> 'a \<Rightarrow> 'e + 'a" where
  "each f [] a = Inr a"
| "each f (i # is) a = (case f i a of Inl e \<Rightarrow> Inl e | Inr b \<Rightarrow> each f is b)"

definition resolveLayoutForContext :: "memory_config \<Rightarrow> memory_model \<Rightarrow> nat \<Rightarrow> memory_layout option" where
  "resolveLayoutForContext c model ctx =
     (case findContextBinding c (mm_name model) (of_nat ctx) of
        None \<Rightarrow> None
      | Some b \<Rightarrow> (case findLayout c (mm_name model) (b_layout (bindings c ! b)) of
          None \<Rightarrow> None | Some l \<Rightarrow> Some (layouts c ! l)))"

definition getSharedPhysical :: "string \<Rightarrow> string \<Rightarrow> u8 \<Rightarrow> alloc \<Rightarrow> u8 \<times> alloc" where
  "getSharedPhysical model region offset a =
     (case find (\<lambda>s. sp_model s = model \<and> sp_region s = region \<and> sp_offset s = offset) (shared_pages a) of
        Some s \<Rightarrow> (sp_phys s, a)
      | None \<Rightarrow>
          if unat (nextPhysical a) \<ge> NUM_TOTAL_PAGES \<or> length (shared_pages a) \<ge> NUM_TOTAL_PAGES then (0xFF, a)
          else (nextPhysical a, a\<lparr>shared_pages := shared_pages a @
                  [\<lparr>sp_model = name_of model, sp_region = name_of region, sp_offset = offset,
                    sp_phys = nextPhysical a\<rparr>],
                nextPhysical := nextPhysical a + 1\<rparr>))"

definition alloc_page ::
  "memory_model \<Rightarrow> nat \<Rightarrow> memory_region \<Rightarrow> nat \<Rightarrow> alloc \<Rightarrow> config_error + alloc" where
  "alloc_page model ctx region p a =
     (let (phys, b) = (if r_shared region then getSharedPhysical (mm_name model) (r_name region) (of_nat p) a
                       else if unat (nextPhysical a) \<ge> NUM_TOTAL_PAGES then (0xFF, a)
                       else (nextPhysical a, a\<lparr>nextPhysical := nextPhysical a + 1\<rparr>));
          logical = r_start region + of_nat p in
      if phys = 0xFF then Inl Refused
      else if unat logical \<ge> NUM_CONTEXT_PAGES then Inl Out_Of_Bounds
      else Inr (b\<lparr>phys_map := (phys_map b)[ctx := (phys_map b ! ctx)[unat logical := phys]]\<rparr>))"

definition alloc_region :: "memory_model \<Rightarrow> nat \<Rightarrow> memory_region \<Rightarrow> alloc \<Rightarrow> config_error + alloc" where
  "alloc_region model ctx region = each (alloc_page model ctx region) [0..<unat (r_pages region)]"

definition alloc_context :: "memory_config \<Rightarrow> memory_model \<Rightarrow> nat \<Rightarrow> alloc \<Rightarrow> config_error + alloc" where
  "alloc_context c model ctx a =
     (case resolveLayoutForContext c model ctx of
        None \<Rightarrow> Inl Refused
      | Some layout \<Rightarrow> each (alloc_region model ctx) (l_regions layout) a)"

definition empty_alloc :: alloc where
  "empty_alloc = \<lparr>phys_map = replicate MAX_MEMORY_CONTEXTS (replicate NUM_CONTEXT_PAGES 0), shared_pages = [],
     nextPhysical = 0\<rparr>"

text \<open>The first half of \<open>configureMMUFromActiveModel\<close>: the map of physical pages.\<close>

definition plan_pages :: "memory_config \<Rightarrow> config_error + (memory_model \<times> alloc)" where
  "plan_pages c =
     (case findModel c (active_model c) of
        None \<Rightarrow> Inl Refused
      | Some k \<Rightarrow>
          let model = models c ! k in
          if mm_contexts model = 0 \<or> unat (mm_contexts model) > MAX_MEMORY_CONTEXTS then Inl Refused
          else case each (alloc_context c model) [0..<unat (mm_contexts model)] empty_alloc of
              Inl e \<Rightarrow> Inl e
            | Inr a \<Rightarrow> Inr (model, a))"

text \<open>The entry of a slot: the flag of the first region that holds it is added.\<close>

definition slot_in :: "nat \<Rightarrow> memory_region \<Rightarrow> bool" where
  "slot_in i r \<longleftrightarrow> unat (r_start r) \<le> i \<and> i < unat (r_start r) + unat (r_pages r)"

definition table_entry :: "memory_layout \<Rightarrow> nat \<Rightarrow> u8 \<Rightarrow> u8 option" where
  "table_entry layout i phys =
     (case find (slot_in i) (l_regions layout) of
        None \<Rightarrow> None
      | Some r \<Rightarrow> Some (if r_type r = MEMORY_REGION_IO \<or> r_trap_write r then phys OR 0x80 else phys))"

text \<open>A loop whose body returns from the function with an error.\<close>

fun each_do :: "('i \<Rightarrow> ('s, 'e option) state) \<Rightarrow> 'i list \<Rightarrow> ('s, 'e option) state" where
  "each_do f [] = ret None"
| "each_do f (i # is) = do { r \<leftarrow> f i; (case r of None \<Rightarrow> each_do f is | Some e \<Rightarrow> ret (Some e)) }"

definition write_slot :: "'b board \<Rightarrow> nat \<Rightarrow> memory_layout \<Rightarrow> alloc \<Rightarrow> nat \<Rightarrow> ('b machine, config_error option) state" where
  "write_slot bd ctx layout a i =
     (case table_entry layout i (phys_map a ! ctx ! i) of
        None \<Rightarrow> ret (Some Refused)
      | Some v \<Rightarrow> do {
          ok \<leftarrow> writeMMUPage bd (of_nat ctx) (of_nat i) v;
          ret (if ok then None else Some Refused)
        })"

definition write_context ::
  "'b board \<Rightarrow> memory_config \<Rightarrow> memory_model \<Rightarrow> alloc \<Rightarrow> nat \<Rightarrow> ('b machine, config_error option) state" where
  "write_context bd c model a ctx =
     (case resolveLayoutForContext c model ctx of
        None \<Rightarrow> ret (Some Refused)
      | Some layout \<Rightarrow> each_do (write_slot bd ctx layout a) [0..<NUM_CONTEXT_PAGES])"

definition configureMMUFromActiveModel ::
  "'b board \<Rightarrow> memory_config \<Rightarrow> ('b machine, config_error option) state" where
  "configureMMUFromActiveModel bd c =
     (case plan_pages c of
        Inl e \<Rightarrow> ret (Some e)
      | Inr (model, a) \<Rightarrow> each_do (write_context bd c model a) [0..<unat (mm_contexts model)])"

end
