(* ===== verification/Sys_Config.thy ===== *)
theory Sys_Config
  imports Memory_Config
begin

text \<open>
  \<open>sys_config.cpp\<close>: the tables of cartridges and configurations, the parser of \<open>/system.ini\<close> with its
  validation, and the fallback profile. Each table is a list of its sixteen entries with their
  \<open>defined\<close> flags; \<open>LittleFS.exists\<close> is an argument.
\<close>

section \<open>Tables\<close>

definition MAX_NAME_LENGTH :: nat where "MAX_NAME_LENGTH = 16"
definition MAX_FILE_LENGTH :: nat where "MAX_FILE_LENGTH = 32"
definition MAX_LINE_LENGTH :: nat where "MAX_LINE_LENGTH = 160"
definition MAX_CART :: nat where "MAX_CART = 16"
definition MAX_CONFIG :: nat where "MAX_CONFIG = 16"
definition MAX_PER_CONFIG :: nat where "MAX_PER_CONFIG = 64"
definition SUPPORTED_VERSION :: u8 where "SUPPORTED_VERSION = 1"

datatype ini_code =
    INI_ERR_LINE_TOO_LONG | INI_ERR_SYNTAX | INI_ERR_INVALID_IDENTIFIER | INI_ERR_DUPLICATE_SECTION
  | INI_ERR_LIMIT_EXCEEDED | INI_ERR_UNKNOWN_REFERENCE | INI_ERR_MISSING_FILE_FIELD | INI_ERR_FILE_NOT_FOUND
  | INI_ERR_EMPTY_CONFIG | INI_ERR_NO_CONFIG_DEFINED | INI_ERR_VERSION_MISMATCH | INI_ERR_DEFAULT_NOT_FOUND
  | INI_ERR_INVALID_CONTEXT | INI_ERR_DUPLICATE_CONTEXT_SECTION | INI_ERR_MISSING_MEMORY_FIELD
  | INI_ERR_MEMORY_MODEL_MISMATCH

text \<open>The error and the line it is reported for.\<close>

type_synonym ini_error = "ini_code \<times> nat"

record config_entry =
  cartIndex :: u8
  entry_context :: u8

record cartridge =
  cart_name :: string
  cart_file :: string
  cart_defined :: bool

record profile =
  prof_name :: string
  prof_memory :: string
  prof_defined :: bool
  memoryDefined :: bool
  contextDefined :: "bool list"
  entries :: "config_entry list"

record sys_config =
  sys_version :: u8
  defaultConfig :: int
  defaultName :: string
  cartridges :: "cartridge list"
  configs :: "profile list"

definition no_cartridge :: cartridge where
  "no_cartridge = \<lparr>cart_name = [], cart_file = [], cart_defined = False\<rparr>"

definition no_profile :: profile where
  "no_profile = \<lparr>prof_name = [], prof_memory = [], prof_defined = False, memoryDefined = False,
     contextDefined = replicate NUM_CONTEXTS False, entries = []\<rparr>"

definition resetTables :: sys_config where
  "resetTables = \<lparr>sys_version = 0, defaultConfig = -1, defaultName = [],
     cartridges = replicate MAX_CART no_cartridge, configs = replicate MAX_CONFIG no_profile\<rparr>"

definition copyName :: "string \<Rightarrow> string" where
  "copyName src = take MAX_NAME_LENGTH src"

definition copyFile :: "string \<Rightarrow> string" where
  "copyFile src = take MAX_FILE_LENGTH src"

definition loadFallbackProfile :: sys_config where
  "loadFallbackProfile = resetTables\<lparr>
     cartridges := (cartridges resetTables)[0 := no_cartridge\<lparr>cart_name := copyName ''boot'',
       cart_file := copyFile ''boot.rom'', cart_defined := True\<rparr>],
     configs := (configs resetTables)[0 := no_profile\<lparr>prof_name := copyName ''SAFE'',
       prof_memory := copyName ''default'', prof_defined := True, memoryDefined := True,
       contextDefined := (contextDefined no_profile)[unat DEFAULT_CONTEXT := True],
       entries := [\<lparr>cartIndex = 0, entry_context = DEFAULT_CONTEXT\<rparr>]\<rparr>],
     sys_version := SUPPORTED_VERSION, defaultConfig := 0\<rparr>"

section \<open>Utilities\<close>

definition trim_line :: "string \<Rightarrow> string" where
  "trim_line s = rstrip (\<lambda>c. blank c \<or> c = CHR 0x0D \<or> c = newline) (dropWhile blank s)"

definition is_alpha :: "char \<Rightarrow> bool" where
  "is_alpha c \<longleftrightarrow> (65 \<le> code_of c \<and> code_of c \<le> 90) \<or> (97 \<le> code_of c \<and> code_of c \<le> 122)"

definition isValidIdentifier :: "string \<Rightarrow> bool" where
  "isValidIdentifier s =
     (if length s = 0 \<or> length s > MAX_NAME_LENGTH then False
      else if \<not> is_alpha (hd s) then False
      else list_all (\<lambda>c. is_alpha c \<or> is_digit c \<or> c = CHR ''_'') (tl s))"

definition findCartridge :: "string \<Rightarrow> sys_config \<Rightarrow> nat option" where
  "findCartridge name t = find_index_from 0 (\<lambda>c. cart_defined c \<and> cart_name c = name) (cartridges t)"

definition findConfig :: "string \<Rightarrow> sys_config \<Rightarrow> nat option" where
  "findConfig name t = find_index_from 0 (\<lambda>c. prof_defined c \<and> prof_name c = name) (configs t)"

definition parseContextStrict :: "string \<Rightarrow> u8 option" where
  "parseContextStrict s =
     (if s = [] then None
      else let (v, end) = strtol10 s in
        if end \<noteq> [] then None
        else if v < 0 \<or> v \<ge> int NUM_CONTEXTS then None
        else Some (word_of_int v))"

text \<open>\<open>atoi\<close> is \<open>strtol\<close> to base 10, which saturates at the bounds of a 32-bit \<open>long\<close>.\<close>

definition atoi :: "string \<Rightarrow> int" where
  "atoi s = max (- (2 ^ 31)) (min (2 ^ 31 - 1) (fst (strtol10 s)))"

section \<open>Load lists\<close>

definition update_config :: "nat \<Rightarrow> (profile \<Rightarrow> profile) \<Rightarrow> sys_config \<Rightarrow> sys_config" where
  "update_config i f t = t\<lparr>configs := (configs t)[i := f (configs t ! i)]\<rparr>"

definition load_token :: "nat \<Rightarrow> u8 \<Rightarrow> nat \<Rightarrow> string \<Rightarrow> sys_config \<Rightarrow> ini_error + sys_config" where
  "load_token cfg ctx line raw t =
     (let token = trim_line raw in
      if token = [] then Inl (INI_ERR_SYNTAX, line)
      else if \<not> isValidIdentifier token then Inl (INI_ERR_INVALID_IDENTIFIER, line)
      else case findCartridge token t of
          None \<Rightarrow> Inl (INI_ERR_UNKNOWN_REFERENCE, line)
        | Some cartIdx \<Rightarrow>
            if length (entries (configs t ! cfg)) \<ge> MAX_PER_CONFIG then Inl (INI_ERR_LIMIT_EXCEEDED, line)
            else Inr (update_config cfg (\<lambda>p. p\<lparr>entries := entries p @
                   [\<lparr>cartIndex = of_nat cartIdx, entry_context = ctx\<rparr>]\<rparr>) t))"

definition parseLoadList :: "string \<Rightarrow> nat \<Rightarrow> u8 \<Rightarrow> nat \<Rightarrow> sys_config \<Rightarrow> ini_error + sys_config" where
  "parseLoadList val cfg ctx line = each (load_token cfg ctx line) (tokens (CHR '','') val)"

section \<open>The parser\<close>

datatype sys_state = NONE | SYSTEM | CARTRIDGE nat | CONFIG nat | CONFIG_CONTEXT nat u8

text \<open>
  The current cartridge, configuration and context are arguments of the state: each is written with the
  state and read only in it.
\<close>

definition cartridge_section :: "nat \<Rightarrow> string \<Rightarrow> sys_config \<Rightarrow> ini_error + (sys_state \<times> sys_config)" where
  "cartridge_section line raw t =
     (let name = trim_line raw in
      if \<not> isValidIdentifier name then Inl (INI_ERR_INVALID_IDENTIFIER, line)
      else if findCartridge name t \<noteq> None then Inl (INI_ERR_DUPLICATE_SECTION, line)
      else case find_index_from 0 (\<lambda>c. \<not> cart_defined c) (cartridges t) of
          None \<Rightarrow> Inl (INI_ERR_LIMIT_EXCEEDED, line)
        | Some i \<Rightarrow> Inr (CARTRIDGE i, t\<lparr>cartridges := (cartridges t)[i := (cartridges t ! i)
              \<lparr>cart_name := copyName name, cart_defined := True\<rparr>]\<rparr>))"

definition config_section :: "nat \<Rightarrow> string \<Rightarrow> sys_config \<Rightarrow> ini_error + (sys_state \<times> sys_config)" where
  "config_section line raw t =
     (let name = trim_line raw in
      if \<not> isValidIdentifier name then Inl (INI_ERR_INVALID_IDENTIFIER, line)
      else if findConfig name t \<noteq> None then Inl (INI_ERR_DUPLICATE_SECTION, line)
      else case find_index_from 0 (\<lambda>c. \<not> prof_defined c) (configs t) of
          None \<Rightarrow> Inl (INI_ERR_LIMIT_EXCEEDED, line)
        | Some i \<Rightarrow> Inr (CONFIG i, update_config i (\<lambda>p. p\<lparr>prof_name := copyName name, prof_defined := True,
              memoryDefined := False, entries := [], contextDefined := replicate NUM_CONTEXTS False\<rparr>) t))"

definition context_of_config :: "nat \<Rightarrow> string \<Rightarrow> string \<Rightarrow> sys_config \<Rightarrow> ini_error + (sys_state \<times> sys_config)" where
  "context_of_config line rawName rawCtx t =
     (let name = trim_line rawName in
      if \<not> isValidIdentifier name then Inl (INI_ERR_INVALID_IDENTIFIER, line)
      else case parseContextStrict (trim_line rawCtx) of
          None \<Rightarrow> Inl (INI_ERR_INVALID_CONTEXT, line)
        | Some ctx \<Rightarrow>
            (case findConfig name t of
               None \<Rightarrow> Inl (INI_ERR_UNKNOWN_REFERENCE, line)
             | Some i \<Rightarrow>
                 if contextDefined (configs t ! i) ! unat ctx then Inl (INI_ERR_DUPLICATE_CONTEXT_SECTION, line)
                 else Inr (CONFIG_CONTEXT i ctx,
                   update_config i (\<lambda>p. p\<lparr>contextDefined := (contextDefined p)[unat ctx := True]\<rparr>) t)))"

definition sys_section :: "nat \<Rightarrow> string \<Rightarrow> sys_config \<Rightarrow> ini_error + (sys_state \<times> sys_config)" where
  "sys_section line text t =
     (if CHR '']'' \<notin> set text then Inl (INI_ERR_SYNTAX, line)
      else let sec = trim_line (takeWhile (\<lambda>c. c \<noteq> CHR '']'') (tl text)) in
        if sec = ''system'' then Inr (SYSTEM, t)
        else if take 10 sec = ''cartridge.'' then cartridge_section line (drop 10 sec) t
        else if take 7 sec = ''config.'' then
          (let parts = take 4 (tokens (CHR ''.'') sec) in
           if length parts = 2 then config_section line (parts ! 1) t
           else if length parts = 4 then
             (if parts ! 2 \<noteq> ''context'' then Inl (INI_ERR_SYNTAX, line)
              else context_of_config line (parts ! 1) (parts ! 3) t)
           else Inl (INI_ERR_SYNTAX, line))
        else Inl (INI_ERR_SYNTAX, line))"

definition sys_key :: "nat \<Rightarrow> string \<Rightarrow> string \<Rightarrow> sys_state \<Rightarrow> sys_config \<Rightarrow> ini_error + sys_config" where
  "sys_key line key val st t =
     (case st of
        SYSTEM \<Rightarrow>
          if key = ''version'' then Inr (t\<lparr>sys_version := word_of_int (atoi val)\<rparr>)
          else if key = ''default'' then
            (if \<not> isValidIdentifier val then Inl (INI_ERR_INVALID_IDENTIFIER, line)
             else Inr (t\<lparr>defaultName := copyName val\<rparr>))
          else Inl (INI_ERR_SYNTAX, line)
      | CARTRIDGE i \<Rightarrow>
          if key = ''file'' then
            (if length val > MAX_FILE_LENGTH then Inl (INI_ERR_LIMIT_EXCEEDED, line)
             else Inr (t\<lparr>cartridges := (cartridges t)[i := (cartridges t ! i)\<lparr>cart_file := copyFile val\<rparr>]\<rparr>))
          else Inl (INI_ERR_SYNTAX, line)
      | CONFIG i \<Rightarrow>
          if key = ''memory'' then
            (if \<not> isValidIdentifier val then Inl (INI_ERR_INVALID_IDENTIFIER, line)
             else Inr (update_config i (\<lambda>p. p\<lparr>prof_memory := copyName val, memoryDefined := True\<rparr>) t))
          else Inl (INI_ERR_SYNTAX, line)
      | CONFIG_CONTEXT i ctx \<Rightarrow>
          if key = ''load'' then parseLoadList val i ctx line t
          else Inl (INI_ERR_SYNTAX, line)
      | NONE \<Rightarrow> Inl (INI_ERR_SYNTAX, line))"

definition sys_line :: "nat \<Rightarrow> string \<Rightarrow> sys_state \<Rightarrow> sys_config \<Rightarrow> ini_error + (sys_state \<times> sys_config)" where
  "sys_line line raw st t =
     (if length raw = MAX_LINE_LENGTH - 1 then Inl (INI_ERR_LINE_TOO_LONG, line)
      else let text = trim_line (takeWhile (\<lambda>c. c \<noteq> CHR '';'') (takeWhile (\<lambda>c. c \<noteq> CHR 0x00) raw)) in
        if text = [] \<or> hd text = CHR ''#'' then Inr (st, t)
        else if hd text = CHR ''['' then sys_section line text t
        else if CHR ''='' \<notin> set text then Inl (INI_ERR_SYNTAX, line)
        else
          let key = trim_line (takeWhile (\<lambda>c. c \<noteq> CHR ''='') text);
              val = trim_line (tl (dropWhile (\<lambda>c. c \<noteq> CHR ''='') text)) in
          case sys_key line key val st t of Inl e \<Rightarrow> Inl e | Inr t' \<Rightarrow> Inr (st, t'))"

function sys_lines :: "nat \<Rightarrow> string \<Rightarrow> sys_state \<Rightarrow> sys_config \<Rightarrow> ini_error + (nat \<times> sys_config)" where
  "sys_lines line inp st t =
     (if inp = [] then Inr (line, t)
      else case sys_line (Suc line) (fst (read_line inp)) st t of
          Inl e \<Rightarrow> Inl e
        | Inr (st', t') \<Rightarrow> sys_lines (Suc line) (snd (read_line inp)) st' t')"
  by pat_completeness auto

termination sys_lines
  by (relation "measure (\<lambda>(_, inp, _, _). length inp)") (auto simp: read_line_def Let_def)

declare sys_lines.simps [simp del]

section \<open>Validation\<close>

definition check_cartridge :: "(string \<Rightarrow> bool) \<Rightarrow> cartridge \<Rightarrow> ini_error option" where
  "check_cartridge exists c =
     (if \<not> cart_defined c then None
      else if cart_file c = [] then Some (INI_ERR_MISSING_FILE_FIELD, 0)
      else if \<not> exists (''/system/'' @ cart_file c) then Some (INI_ERR_FILE_NOT_FOUND, 0)
      else None)"

definition check_profile :: "profile \<Rightarrow> ini_error option" where
  "check_profile p =
     (if \<not> prof_defined p then None
      else if \<not> memoryDefined p then Some (INI_ERR_MISSING_MEMORY_FIELD, 0)
      else if length (entries p) = 0 then Some (INI_ERR_EMPTY_CONFIG, 0)
      else None)"

definition validateSystemAgainstMemoryConfig :: "memory_config \<Rightarrow> sys_config \<Rightarrow> ini_error option" where
  "validateSystemAgainstMemoryConfig mc t =
     (if defaultConfig t < 0 \<or> defaultConfig t \<ge> int MAX_CONFIG then Some (INI_ERR_DEFAULT_NOT_FOUND, 0)
      else let cfg = configs t ! nat (defaultConfig t) in
        if \<not> prof_defined cfg then Some (INI_ERR_DEFAULT_NOT_FOUND, 0)
        else if prof_memory cfg \<noteq> active_model mc then Some (INI_ERR_MEMORY_MODEL_MISMATCH, 0)
        else None)"

definition resolve_default :: "sys_config \<Rightarrow> ini_error + sys_config" where
  "resolve_default t =
     (if defaultName t \<noteq> [] then
        (case findConfig (defaultName t) t of
           None \<Rightarrow> Inl (INI_ERR_DEFAULT_NOT_FOUND, 0)
         | Some i \<Rightarrow> Inr (t\<lparr>defaultConfig := int i\<rparr>))
      else
        (case find_index_from 0 prof_defined (configs t) of
           None \<Rightarrow> Inr t
         | Some i \<Rightarrow> Inr (t\<lparr>defaultConfig := int i\<rparr>)))"

definition parseSystemIni :: "(string \<Rightarrow> bool) \<Rightarrow> memory_config \<Rightarrow> string \<Rightarrow> ini_error + sys_config" where
  "parseSystemIni exists mc inp =
     (case sys_lines 0 inp NONE resetTables of
        Inl e \<Rightarrow> Inl e
      | Inr (line, t) \<Rightarrow>
          if sys_version t \<noteq> SUPPORTED_VERSION then Inl (INI_ERR_VERSION_MISMATCH, line)
          else case first_error (check_cartridge exists) (cartridges t) of
              Some e \<Rightarrow> Inl e
            | None \<Rightarrow> case first_error check_profile (configs t) of
                Some e \<Rightarrow> Inl e
              | None \<Rightarrow>
                  if \<not> list_ex prof_defined (configs t) then Inl (INI_ERR_NO_CONFIG_DEFINED, 0)
                  else case resolve_default t of
                      Inl e \<Rightarrow> Inl e
                    | Inr t' \<Rightarrow>
                        if defaultConfig t' < 0 then Inl (INI_ERR_NO_CONFIG_DEFINED, 0)
                        else case validateSystemAgainstMemoryConfig mc t' of
                            Some e \<Rightarrow> Inl e
                          | None \<Rightarrow> Inr t')"

text \<open>The tables and whether they come from the file, if LittleFS opens it.\<close>

definition initializeSystemConfig ::
  "(string \<Rightarrow> bool) \<Rightarrow> memory_config \<Rightarrow> string option \<Rightarrow> sys_config \<times> bool" where
  "initializeSystemConfig exists mc ini =
     (case ini of
        None \<Rightarrow> (loadFallbackProfile, False)
      | Some s \<Rightarrow> (case parseSystemIni exists mc s of
          Inl e \<Rightarrow> (loadFallbackProfile, False)
        | Inr t \<Rightarrow> (t, True)))"

end
