(* ===== verification/Rom.thy ===== *)
theory Rom
  imports Sys_Config
begin

text \<open>
  \<open>rom.cpp\<close> and \<open>boot.cpp\<close>: cartridges are streamed from LittleFS into the memory of a context, and
  a configuration is activated by loading its cartridges in order. LittleFS is an argument: a
  directory gives for a path the size of the file and its \<open>read\<close>, which returns the bytes it delivers at
  a position for a requested count. What is printed on the display is left out.
\<close>

record lfs_file =
  file_size :: nat
  file_read :: "nat \<Rightarrow> nat \<Rightarrow> u8 list"

type_synonym lfs = "string \<Rightarrow> lfs_file option"

section \<open>Headers\<close>

record rom_header =
  SOH :: u8
  VERSION_MINOR :: u8
  VERSION_MAJOR :: u8
  STARTADDRESS_L :: u8
  STARTADDRESS_H :: u8
  SIZE_L :: u8
  SIZE_H :: u8
  ROM_TYPE :: u8
  NMI_L :: u8
  NMI_H :: u8
  RESET_L :: u8
  RESET_H :: u8
  IRQ_L :: u8
  IRQ_H :: u8
  HDR_CSUM :: u8
  EOH :: u8

definition ROM_HEADER_SIZE :: nat where "ROM_HEADER_SIZE = 16"

definition header_of :: "u8 list \<Rightarrow> rom_header" where
  "header_of b = \<lparr>SOH = b ! 0, VERSION_MINOR = b ! 1, VERSION_MAJOR = b ! 2, STARTADDRESS_L = b ! 3,
     STARTADDRESS_H = b ! 4, SIZE_L = b ! 5, SIZE_H = b ! 6, ROM_TYPE = b ! 7, NMI_L = b ! 8, NMI_H = b ! 9,
     RESET_L = b ! 10, RESET_H = b ! 11, IRQ_L = b ! 12, IRQ_H = b ! 13, HDR_CSUM = b ! 14, EOH = b ! 15\<rparr>"

text \<open>The products are computed as \<open>int\<close> and cut to 16 bits; start address and size.\<close>

definition validateROMHeader :: "rom_header \<Rightarrow> (u16 \<times> u16) option" where
  "validateROMHeader hdr =
     (if SOH hdr \<noteq> 0x5A \<or> EOH hdr \<noteq> 0xA5 then None
      else if VERSION_MAJOR hdr \<noteq> 0x01 then None
      else
        let csum = STARTADDRESS_L hdr + STARTADDRESS_H hdr + SIZE_L hdr + SIZE_H hdr + ROM_TYPE hdr +
              NMI_L hdr + NMI_H hdr + RESET_L hdr + RESET_H hdr + IRQ_L hdr + IRQ_H hdr in
        if csum \<noteq> HDR_CSUM hdr then None
        else
          let startAddress = ucast (STARTADDRESS_H hdr) * 256 + ucast (STARTADDRESS_L hdr) :: u16;
              romSize = ucast (SIZE_H hdr) * 256 + ucast (SIZE_L hdr) :: u16 in
          if (ucast startAddress :: u32) + ucast romSize > 0x10000 then None
          else Some (startAddress, romSize))"

definition installROMVectors :: "'b board \<Rightarrow> rom_header \<Rightarrow> ('b machine, unit) state" where
  "installROMVectors bd hdr = do {
     when_do (ROM_TYPE hdr AND 0x01 \<noteq> 0) (do {
       write6502Memory bd 0xFFFA (NMI_L hdr);
       write6502Memory bd 0xFFFB (NMI_H hdr)
     });
     when_do (ROM_TYPE hdr AND 0x02 \<noteq> 0) (do {
       write6502Memory bd 0xFFFC (RESET_L hdr);
       write6502Memory bd 0xFFFD (RESET_H hdr)
     });
     when_do (ROM_TYPE hdr AND 0x04 \<noteq> 0) (do {
       write6502Memory bd 0xFFFE (IRQ_L hdr);
       write6502Memory bd 0xFFFF (IRQ_H hdr)
     })
   }"

section \<open>Loading\<close>

definition LOAD_CHUNK_SIZE :: nat where "LOAD_CHUNK_SIZE = 512"

text \<open>The bytes of a chunk; the address is a 32-bit sum cut to 16 bits.\<close>

definition write_chunk :: "'b board \<Rightarrow> u16 \<Rightarrow> nat \<Rightarrow> u8 list \<Rightarrow> ('b machine, unit) state" where
  "write_chunk bd startAddress offset chunk =
     for_each [0..<length chunk]
       (\<lambda>i. write6502Memory bd (ucast (ucast startAddress + of_nat offset + of_nat i :: u32)) (chunk ! i))"

function load_loop :: "'b board \<Rightarrow> lfs_file \<Rightarrow> u16 \<Rightarrow> nat \<Rightarrow> nat \<Rightarrow> ('b machine, bool) state" where
  "load_loop bd file startAddress romSize offset =
     (if offset < romSize then
        let remaining = romSize - offset;
            requested = (if remaining < LOAD_CHUNK_SIZE then remaining else LOAD_CHUNK_SIZE);
            chunk = file_read file (ROM_HEADER_SIZE + offset) requested in
        if length chunk \<noteq> requested then ret False
        else do {
          write_chunk bd startAddress offset chunk;
          load_loop bd file startAddress romSize (offset + requested)
        }
      else ret True)"
  by pat_completeness auto

termination load_loop
  by (relation "measure (\<lambda>(_, _, _, n, k). n - k)") (auto simp: LOAD_CHUNK_SIZE_def Let_def)

declare load_loop.simps [simp del]

definition loadROMCartridgeFile :: "'b board \<Rightarrow> lfs \<Rightarrow> string \<Rightarrow> ('b machine, bool) state" where
  "loadROMCartridgeFile bd fs path =
     (case fs path of
        None \<Rightarrow> ret False
      | Some file \<Rightarrow>
          if file_size file < ROM_HEADER_SIZE then ret False
          else
            let bytes = file_read file 0 ROM_HEADER_SIZE; hdr = header_of bytes in
            if length bytes \<noteq> ROM_HEADER_SIZE then ret False
            else case validateROMHeader hdr of
                None \<Rightarrow> ret False
              | Some (startAddress, romSize) \<Rightarrow>
                  if file_size file \<noteq> ROM_HEADER_SIZE + unat romSize then ret False
                  else do {
                    ok \<leftarrow> load_loop bd file startAddress (unat romSize) 0;
                    if ok then do { installROMVectors bd hdr; ret True } else ret False
                  })"

section \<open>Boot\<close>

definition load_entry :: "'b board \<Rightarrow> lfs \<Rightarrow> sys_config \<Rightarrow> config_entry \<Rightarrow> ('b machine, bool) state" where
  "load_entry bd fs t e = do {
     setMMUContext bd (entry_context e);
     loadROMCartridgeFile bd fs (''/system/'' @ cart_file (cartridges t ! unat (cartIndex e)))
   }"

fun load_entries :: "'b board \<Rightarrow> lfs \<Rightarrow> sys_config \<Rightarrow> config_entry list \<Rightarrow> ('b machine, bool) state" where
  "load_entries bd fs t [] = ret True"
| "load_entries bd fs t (e # es) = do {
     ok \<leftarrow> load_entry bd fs t e;
     (if ok then load_entries bd fs t es else ret False)
   }"

definition activateConfiguration :: "'b board \<Rightarrow> lfs \<Rightarrow> sys_config \<Rightarrow> int \<Rightarrow> ('b machine, bool) state" where
  "activateConfiguration bd fs t cfgIndex =
     (if cfgIndex < 0 \<or> cfgIndex \<ge> int MAX_CONFIG then ret False
      else if \<not> prof_defined (configs t ! nat cfgIndex) then ret False
      else do {
        set6502State bd sBOOT;
        load_entries bd fs t (entries (configs t ! nat cfgIndex))
      })"

text \<open>
  The menu: the positions of the defined configurations, and the lines read from the terminal before
  the time is over, trimmed. \<open>String.toInt\<close> is \<open>atol\<close>: it reads what it can and gives 0 otherwise.
\<close>

definition buildVisibleConfigList :: "sys_config \<Rightarrow> nat list" where
  "buildVisibleConfigList t = filter (\<lambda>i. prof_defined (configs t ! i)) [0..<MAX_CONFIG]"

fun waitForUserSelection :: "sys_config \<Rightarrow> string list \<Rightarrow> int" where
  "waitForUserSelection t [] = defaultConfig t"
| "waitForUserSelection t (inp # ls) =
     (if length inp = 0 then defaultConfig t
      else
        let selection = atoi inp; visible = buildVisibleConfigList t in
        if selection \<ge> 0 \<and> selection < int (length visible) then int (visible ! nat selection)
        else waitForUserSelection t ls)"

definition bootSystemWithMenu ::
  "'b board \<Rightarrow> lfs \<Rightarrow> memory_config \<Rightarrow> sys_config \<Rightarrow> string list \<Rightarrow> ('b machine, sys_config) state" where
  "bootSystemWithMenu bd fs mc t inputs = do {
     ok \<leftarrow> activateConfiguration bd fs t (waitForUserSelection t inputs);
     t' \<leftarrow> (if ok then ret t
       else do {
         activateConfiguration bd fs loadFallbackProfile (defaultConfig loadFallbackProfile);
         ret loadFallbackProfile
       });
     setMMUContext bd (boot_context mc);
     ret t'
   }"

end
