(* ===== verification/Memory_Parse_Spec.thy ===== *)
theory Memory_Parse_Spec
  imports Memory_Config Rp_Fs_Spec
begin

text \<open>
  The memory configuration after parsing: every array stays within its bounds and its names
  stay unique, whatever the file holds; and what the validation accepts: layouts in which each
  of the sixteen slots lies in exactly one region.
\<close>

section \<open>The configuration stays well formed\<close>

definition layout_wf :: "memory_layout \<Rightarrow> bool" where
  "layout_wf l \<longleftrightarrow> length (l_regions l) \<in> {1..MAX_MEMORY_REGIONS} \<and> distinct (map r_name (l_regions l)) \<and>
     (\<forall>r\<in>set (l_regions l). length (r_name r) \<le> MAX_MEMORY_NAME) \<and>
     length (l_model l) \<le> MAX_MEMORY_NAME \<and> length (l_name l) \<le> MAX_MEMORY_NAME"

definition layout_id :: "memory_layout \<Rightarrow> string \<times> string" where
  "layout_id l = (l_model l, l_name l)"

definition config_wf :: "memory_config \<Rightarrow> bool" where
  "config_wf c \<longleftrightarrow>
     length (models c) \<le> MAX_MEMORY_MODELS \<and> distinct (map mm_name (models c)) \<and>
     (\<forall>m\<in>set (models c). length (mm_name m) \<le> MAX_MEMORY_NAME) \<and>
     length (layouts c) \<le> MAX_MEMORY_LAYOUTS \<and> distinct (map layout_id (layouts c)) \<and>
     (\<forall>l\<in>set (layouts c). layout_wf l) \<and>
     length (bindings c) \<le> MAX_MEMORY_CONTEXTS \<and>
     (\<forall>b\<in>set (bindings c). unat (b_context b) < MAX_MEMORY_CONTEXTS \<and>
        length (b_model b) \<le> MAX_MEMORY_NAME \<and> length (b_layout b) \<le> MAX_MEMORY_NAME) \<and>
     length (active_model c) \<le> MAX_MEMORY_NAME \<and> unat (boot_context c) < MAX_MEMORY_CONTEXTS"

definition region_ok :: "memory_config \<Rightarrow> (nat \<times> nat) option \<Rightarrow> bool" where
  "region_ok c p \<longleftrightarrow> (\<forall>i j. p = Some (i, j) \<longrightarrow> i < length (layouts c) \<and> j < length (l_regions (layouts c ! i)))"

definition ini_wf :: "ini_state \<Rightarrow> bool" where
  "ini_wf st \<longleftrightarrow> config_wf (memoryConfig st) \<and> region_ok (memoryConfig st) (currentRegion st)"

definition keeps_wf :: "memory_ini_error + ini_state \<Rightarrow> bool" where
  "keeps_wf r \<longleftrightarrow> (\<forall>st. r = Inr st \<longrightarrow> ini_wf st)"

named_theorems wf_rules

lemma keeps_wf_Inl [simp]: "keeps_wf (Inl e)"
  by (simp add: keeps_wf_def)

lemma keeps_wf_Inr [simp]: "keeps_wf (Inr st) = ini_wf st"
  by (simp add: keeps_wf_def)

lemma find_index_None: "find_index_from n P xs = None \<longleftrightarrow> (\<forall>x\<in>set xs. \<not> P x)"
  by (induction xs arbitrary: n) simp_all

lemma find_index_at:
  assumes "find_index_from 0 P xs = Some i"
  shows "i < length xs" and "P (xs ! i)" and "\<And>k. k < i \<Longrightarrow> \<not> P (xs ! k)"
  using find_index_from_Some [OF assms] by auto

lemma name_of_le [simp]: "length (copyTrunc (Suc MAX_MEMORY_NAME) s) \<le> MAX_MEMORY_NAME"
  by (simp add: copyTrunc_def MAX_MEMORY_NAME_def)

lemma name_of_idem [simp]:
  "copyTrunc (Suc MAX_MEMORY_NAME) (copyTrunc (Suc MAX_MEMORY_NAME) s) = copyTrunc (Suc MAX_MEMORY_NAME) s"
  by (simp add: copyTrunc_def)

lemma name_of_short: "length s \<le> MAX_MEMORY_NAME \<Longrightarrow> copyTrunc (Suc MAX_MEMORY_NAME) s = s"
  by (simp add: copyTrunc_def)

lemma map_list_update_same: "f x = f (xs ! i) \<Longrightarrow> map f (xs[i := x]) = map f xs"
  by (metis list_update_beyond list_update_id map_update not_le nth_map)

lemma in_update: "x \<in> set (xs[i := y]) \<Longrightarrow> x = y \<or> x \<in> set xs"
  by (cases "i < length xs") (auto dest: set_update_subset_insert [THEN subsetD])

lemma on_config_simps [simp]:
  "memoryConfig (on_config f st) = f (memoryConfig st)"
  "currentRegion (on_config f st) = currentRegion st"
  "section_name (on_config f st) = section_name st"
  by (simp_all add: on_config_def)

lemma region_ok_simps [simp]:
  "region_ok (c\<lparr>models := ms\<rparr>) = region_ok c"
  "region_ok (c\<lparr>bindings := bs\<rparr>) = region_ok c"
  "region_ok (c\<lparr>cfg_version := v\<rparr>) = region_ok c"
  "region_ok (c\<lparr>active_model := a\<rparr>) = region_ok c"
  "region_ok (c\<lparr>boot_context := v\<rparr>) = region_ok c"
  "region_ok c None"
  by (auto simp: region_ok_def fun_eq_iff)

text \<open>Replacing one layout, model or binding by another with the same name.\<close>

lemma config_wf_layout:
  assumes "config_wf c" and "i < length (layouts c)" and "layout_wf l"
    and "layout_id l = layout_id (layouts c ! i)"
  shows "config_wf (c\<lparr>layouts := (layouts c)[i := l]\<rparr>)"
  using assms by (auto simp: config_wf_def map_list_update_same dest!: in_update)

lemma on_region_wf:
  assumes "ini_wf st" and "currentRegion st = Some ij" and "\<And>r. r_name (f r) = r_name r"
  shows "ini_wf (on_region ij f st)"
proof -
  obtain i j where ij: "ij = (i, j)" by (cases ij)
  let ?c = "memoryConfig st"
  have lt: "i < length (layouts ?c)" "j < length (l_regions (layouts ?c ! i))"
    using assms(1,2) by (auto simp: ini_wf_def region_ok_def ij)
  then have "layout_wf (layouts ?c ! i)"
    using assms(1) nth_mem by (auto simp: ini_wf_def config_wf_def)
  let ?l = "(layouts ?c ! i)\<lparr>l_regions := (l_regions (layouts ?c ! i))[j := f (l_regions (layouts ?c ! i) ! j)]\<rparr>"
  have "layout_wf ?l"
    using \<open>layout_wf (layouts ?c ! i)\<close> assms(3) lt
    by (auto simp: layout_wf_def map_list_update_same dest!: in_update)
  from config_wf_layout [OF _ lt(1) this] assms(1,2) lt show ?thesis
    by (simp add: ini_wf_def region_ok_def layout_id_def on_region_def ij)
qed


section \<open>Every line keeps it\<close>

lemma parseContextIdStrict_bound: "parseContextIdStrict s = Some v \<Longrightarrow> unat v < MAX_MEMORY_CONTEXTS"
  by (auto simp: parseContextIdStrict_def split: option.splits if_splits)

lemma parse_model_section_wf:
  assumes "ini_wf st"
  shows "keeps_wf (parse_model_section n st)"
proof -
  have "\<forall>m\<in>set (models (memoryConfig st)). mm_name m \<noteq> name_of (drop 6 (section_name st))"
    if "findModel (memoryConfig st) (name_of (drop 6 (section_name st))) = None"
    using that by (simp add: findModel_def find_index_None)
  with assms show ?thesis
    by (auto simp: parse_model_section_def Let_def config_wf_def ini_wf_def)
qed

lemma parse_context_section_wf:
  assumes "ini_wf st"
  shows "keeps_wf (parse_context_section n st)"
  using assms
  by (auto simp: parse_context_section_def context_section_def Let_def config_wf_def ini_wf_def
      dest: parseContextIdStrict_bound split: sum.splits option.splits if_splits)

lemma new_region_layout_wf:
  assumes "layout_wf l \<or> l = \<lparr>l_model = name_of a, l_name = name_of b, l_regions = []\<rparr>"
    and "findRegion l (name_of name) = None" and "length (l_regions l) < MAX_MEMORY_REGIONS"
  shows "layout_wf (l\<lparr>l_regions := l_regions l @ [new_region (name_of (name_of name))]\<rparr>)"
  using assms by (auto simp: layout_wf_def new_region_def findRegion_def find_index_None)

text \<open>A layout is added with its first region, or a region is added to a layout.\<close>

lemma added_region_wf:
  fixes st :: ini_state and i :: nat and ls :: "memory_layout list" and r :: string
  assumes "ini_wf st"
    and "case findLayout (memoryConfig st) (name_of m) (name_of n) of
       Some k \<Rightarrow> i = k \<and> ls = layouts (memoryConfig st)
     | None \<Rightarrow> length (layouts (memoryConfig st)) < MAX_MEMORY_LAYOUTS \<and> i = length (layouts (memoryConfig st)) \<and>
         ls = layouts (memoryConfig st) @ [\<lparr>l_model = name_of m, l_name = name_of n, l_regions = []\<rparr>]"
    and "findRegion (ls ! i) (name_of r) = None" and "length (l_regions (ls ! i)) < MAX_MEMORY_REGIONS"
  defines "l' \<equiv> (ls ! i)\<lparr>l_regions := l_regions (ls ! i) @ [new_region (name_of (name_of r))]\<rparr>"
  shows "config_wf (memoryConfig st\<lparr>layouts := ls[i := l']\<rparr>)" and "i < length ls"
proof -
  let ?c = "memoryConfig st"
  have c: "config_wf ?c" using assms(1) by (simp add: ini_wf_def)
  have "config_wf (?c\<lparr>layouts := ls[i := l']\<rparr>) \<and> i < length ls"
  proof (cases "findLayout ?c (name_of m) (name_of n)")
    case None
    have "layout_wf l'"
      unfolding l'_def using assms(2-4) None by (intro new_region_layout_wf) auto
    moreover have "length (layouts ?c) < MAX_MEMORY_LAYOUTS" and i: "i = length (layouts ?c)"
      and ls: "ls = layouts ?c @ [\<lparr>l_model = name_of m, l_name = name_of n, l_regions = []\<rparr>]"
      using assms(2) None by simp_all
    moreover have "\<forall>x\<in>set (layouts ?c). layout_id x \<noteq> (name_of m, name_of n)"
      using None by (simp add: findLayout_def find_index_None layout_id_def)
    moreover have "layout_id l' = (name_of m, name_of n)" by (simp add: l'_def ls i layout_id_def)
    ultimately show ?thesis
      using c by (auto simp: config_wf_def list_update_append)
  next
    case (Some k)
    have i: "i < length (layouts ?c)" and ls: "ls = layouts ?c"
      using assms(2) Some find_index_at(1) by (auto simp: findLayout_def)
    have "layout_wf (ls ! i)" using c i ls nth_mem by (auto simp: config_wf_def)
    then have "layout_wf l'" unfolding l'_def using assms(3,4) by (intro new_region_layout_wf) simp_all
    with config_wf_layout [OF c i] i ls show ?thesis by (simp add: layout_id_def l'_def)
  qed
  then show "config_wf (?c\<lparr>layouts := ls[i := l']\<rparr>)" and "i < length ls" by simp_all
qed

lemma parse_layout_section_wf:
  assumes "ini_wf st"
  shows "keeps_wf (parse_layout_section n st)"
proof -
  have "ini_wf ((on_config (\<lambda>c. c\<lparr>layouts := ls[i := (ls ! i)\<lparr>l_regions :=
      l_regions (ls ! i) @ [new_region (name_of (name_of r))]\<rparr>]\<rparr>) st)
      \<lparr>currentRegion := Some (i, length (l_regions (ls ! i)))\<rparr>)"
    if "case findLayout (memoryConfig st) (name_of a) (name_of b) of
       Some k \<Rightarrow> i = k \<and> ls = layouts (memoryConfig st)
     | None \<Rightarrow> length (layouts (memoryConfig st)) < MAX_MEMORY_LAYOUTS \<and> i = length (layouts (memoryConfig st)) \<and>
         ls = layouts (memoryConfig st) @ [\<lparr>l_model = name_of a, l_name = name_of b, l_regions = []\<rparr>]"
      and "findRegion (ls ! i) (name_of r) = None" and "length (l_regions (ls ! i)) < MAX_MEMORY_REGIONS"
    for a b r i ls
    using added_region_wf [OF assms that] by (simp add: ini_wf_def region_ok_def)
  note add = this
  let ?p = "take 5 (dot_tokens (copyTrunc 64 (section_name st)))"
  let ?m = "name_of (?p ! 1)" and ?n = "name_of (?p ! 2)" and ?ls = "layouts (memoryConfig st)"
  show ?thesis
  proof (cases "findLayout (memoryConfig st) ?m ?n")
    case None
    with add [where i = "length ?ls" and ls = "?ls @ [\<lparr>l_model = name_of ?m, l_name = name_of ?n, l_regions = []\<rparr>]"
        and a = "?p ! 1" and b = "?p ! 2" and r = "?p ! 4"]
    show ?thesis by (simp add: parse_layout_section_def Let_def)
  next
    case (Some k)
    with add [where i = k and ls = ?ls and a = "?p ! 1" and b = "?p ! 2" and r = "?p ! 4"]
    show ?thesis by (simp add: parse_layout_section_def Let_def)
  qed
qed

lemma system_key_wf:
  assumes "ini_wf st"
  shows "keeps_wf (system_key n key val st)"
  using assms
  by (auto simp: system_key_def Let_def config_wf_def ini_wf_def
      dest: parseContextIdStrict_bound split: option.splits)

lemma model_key_wf:
  assumes "ini_wf st"
  shows "keeps_wf (model_key n key val st)"
proof -
  let ?c = "memoryConfig st"
  have "ini_wf (on_config (\<lambda>c. c\<lparr>models := (models c)[i := (models c ! i)\<lparr>mm_contexts := v\<rparr>]\<rparr>) st)"
    if "i < length (models ?c)" for i v
    using assms nth_mem [OF that]
    by (auto simp: ini_wf_def config_wf_def map_list_update_same dest!: in_update)
  then show ?thesis
    by (auto simp: model_key_def Let_def findModel_def dest: find_index_at(1) split: option.splits)
qed

lemma region_key_wf:
  assumes "ini_wf st" and "currentRegion st = Some ij"
  shows "keeps_wf (region_key n ij key val st)"
  using on_region_wf [OF assms]
  by (simp add: region_key_def Let_def split: option.splits)

lemma context_key_wf:
  assumes "ini_wf st"
  shows "keeps_wf (context_key n key val st)"
proof -
  let ?c = "memoryConfig st"
  have "ini_wf (on_config (\<lambda>c. c\<lparr>bindings := (bindings c)[i := (bindings c ! i)\<lparr>b_layout := name_of v\<rparr>]\<rparr>) st)"
    if "i < length (bindings ?c)" for i v
    using assms nth_mem [OF that]
    by (auto simp: ini_wf_def config_wf_def dest!: in_update)
  then show ?thesis
    by (auto simp: context_key_def Let_def findContextBinding_def dest: find_index_at(1)
        split: option.splits sum.splits)
qed

lemma parse_section_wf:
  assumes "ini_wf st"
  shows "keeps_wf (parse_section n line st)"
proof -
  have "ini_wf (st\<lparr>section_name := s, currentRegion := None\<rparr>)" for s
    using assms by (simp add: ini_wf_def region_ok_def)
  then show ?thesis
    by (simp add: parse_section_def Let_def parse_model_section_wf parse_layout_section_wf parse_context_section_wf)
qed

lemma parse_line_wf:
  assumes "ini_wf st"
  shows "keeps_wf (parse_line n line st)"
  using assms
  by (auto simp: parse_line_def parse_key_def Let_def parse_section_wf system_key_wf model_key_wf
      region_key_wf context_key_wf split: option.splits)

lemma parse_lines_wf:
  "ini_wf st \<Longrightarrow> config_wf (fst (parse_lines n file st))"
proof (induction n "file" st rule: parse_lines.induct)
  case (1 n s st)
  have "keeps_wf (parse_line (Suc n) (clean_line (fst (read_line s))) st)"
    by (rule parse_line_wf [OF "1.prems"])
  with 1 show ?case
    by (subst parse_lines.simps) (auto simp: ini_wf_def split: sum.splits)
qed


section \<open>What the validation accepts\<close>

text \<open>
  A layout is a partition of the sixteen slots: each slot lies in exactly one of its regions, and
  every region is a non-empty range of slots.
\<close>

definition partitions :: "memory_layout \<Rightarrow> bool" where
  "partitions l \<longleftrightarrow>
     (\<forall>r\<in>set (l_regions l). 0 < unat (r_pages r) \<and> unat (r_start r) + unat (r_pages r) \<le> 16) \<and>
     (\<forall>i<16. \<exists>!j. j < length (l_regions l) \<and> slot_in i (l_regions l ! j))"

lemma isValidRegionRange_iff:
  "isValidRegionRange r \<longleftrightarrow> 0 < unat (r_pages r) \<and> unat (r_start r) + unat (r_pages r) \<le> 16"
proof -
  have "r_pages r = 0 \<longleftrightarrow> unat (r_pages r) = 0" by (simp add: unat_eq_0)
  moreover have "r_start r \<ge> of_nat NUM_CONTEXT_PAGES \<longleftrightarrow> unat (r_start r) \<ge> 16"
    by (simp add: word_le_nat_alt NUM_CONTEXT_PAGES_def)
  ultimately show ?thesis by (auto simp: isValidRegionRange_def NUM_CONTEXT_PAGES_def)
qed

lemma range_end:
  assumes "isValidRegionRange r"
  shows "unat (r_start r + r_pages r) = unat (r_start r) + unat (r_pages r)"
  using assms unfolding isValidRegionRange_iff by (intro unat_add_lem [THEN iffD1]) simp

lemma overlap_iff:
  assumes "isValidRegionRange a" and "isValidRegionRange b"
  shows "r_start a < r_start b + r_pages b \<and> r_start b < r_start a + r_pages a \<longleftrightarrow> (\<exists>i. slot_in i a \<and> slot_in i b)"
proof -
  have n: "0 < unat (r_pages a)" "0 < unat (r_pages b)" using assms by (simp_all add: isValidRegionRange_iff)
  have "(r_start a < r_start b + r_pages b \<and> r_start b < r_start a + r_pages a) =
      (unat (r_start a) < unat (r_start b) + unat (r_pages b) \<and> unat (r_start b) < unat (r_start a) + unat (r_pages a))"
    by (simp add: word_less_nat_alt range_end assms)
  also have "\<dots> \<longleftrightarrow> (\<exists>i. slot_in i a \<and> slot_in i b)"
  proof
    assume "unat (r_start a) < unat (r_start b) + unat (r_pages b) \<and> unat (r_start b) < unat (r_start a) + unat (r_pages a)"
    then have "slot_in (max (unat (r_start a)) (unat (r_start b))) a \<and> slot_in (max (unat (r_start a)) (unat (r_start b))) b"
      using n by (auto simp: slot_in_def max_def)
    then show "\<exists>i. slot_in i a \<and> slot_in i b" by blast
  qed (auto simp: slot_in_def)
  finally show ?thesis .
qed

lemma layoutHasOverlaps_iff:
  assumes "\<forall>r\<in>set (l_regions l). isValidRegionRange r"
  shows "layoutHasOverlaps l \<longleftrightarrow>
    (\<exists>i j k. i < j \<and> j < length (l_regions l) \<and> slot_in k (l_regions l ! i) \<and> slot_in k (l_regions l ! j))"
proof -
  have v: "isValidRegionRange (l_regions l ! i)" if "i < length (l_regions l)" for i
    using assms that by simp
  have "layoutHasOverlaps l \<longleftrightarrow> (\<exists>i\<in>{0..<length (l_regions l)}. \<exists>j\<in>{Suc i..<length (l_regions l)}.
      \<exists>k. slot_in k (l_regions l ! i) \<and> slot_in k (l_regions l ! j))"
    unfolding layoutHasOverlaps_def Let_def list_ex_iff set_upt
    by (intro bex_cong refl overlap_iff v) auto
  also have "\<dots> \<longleftrightarrow> (\<exists>i j k. i < j \<and> j < length (l_regions l) \<and> slot_in k (l_regions l ! i) \<and> slot_in k (l_regions l ! j))"
    by (meson Suc_le_eq atLeastLessThan_iff less_trans zero_le)
  finally show ?thesis .
qed

lemma nth_mark: "i < length cov \<Longrightarrow> cov[k := True] ! i \<longleftrightarrow> cov ! i \<or> i = k"
  by (cases "i = k") simp_all

lemma fold_mark:
  "length (fold (\<lambda>p cov. cov[s + p := True]) ps cov) = length cov \<and>
   (i < length cov \<longrightarrow> fold (\<lambda>p cov. cov[s + p := True]) ps cov ! i \<longleftrightarrow> cov ! i \<or> (\<exists>p\<in>set ps. i = s + p))"
  by (induction ps arbitrary: cov) (auto simp: nth_mark)

lemma fold_regions:
  "length (fold (\<lambda>r cov. fold (\<lambda>p cov. cov[unat (r_start r) + p := True]) [0..<unat (r_pages r)] cov) rs cov) =
     length cov \<and>
   (i < length cov \<longrightarrow>
     fold (\<lambda>r cov. fold (\<lambda>p cov. cov[unat (r_start r) + p := True]) [0..<unat (r_pages r)] cov) rs cov ! i \<longleftrightarrow>
     cov ! i \<or> (\<exists>r\<in>set rs. slot_in i r))"
proof (induction rs arbitrary: cov)
  case (Cons r rs)
  let ?c = "fold (\<lambda>p cov. cov[unat (r_start r) + p := True]) [0..<unat (r_pages r)] cov"
  have "(\<exists>p\<in>set [0..<unat (r_pages r)]. i = unat (r_start r) + p) \<longleftrightarrow> slot_in i r"
    by (auto simp: slot_in_def intro: bexI [of _ "i - unat (r_start r)"])
  with fold_mark [of "unat (r_start r)" "[0..<unat (r_pages r)]" cov i] Cons.IH [of ?c]
  show ?case by auto
qed simp

lemma layoutIsComplete_iff: "layoutIsComplete l \<longleftrightarrow> (\<forall>i<16. \<exists>r\<in>set (l_regions l). slot_in i r)"
  using fold_regions [where cov = "replicate NUM_CONTEXT_PAGES False" and rs = "l_regions l"]
  by (auto simp: layoutIsComplete_def covered_pages_def list_all_iff NUM_CONTEXT_PAGES_def)

lemma first_error_None: "first_error f xs = None \<longleftrightarrow> (\<forall>x\<in>set xs. f x = None)"
  by (induction xs) (auto split: option.splits)

lemma check_layout_iff:
  "check_layout c l = None \<longleftrightarrow> findModel c (l_model l) \<noteq> None \<and> partitions l"
proof -
  let ?rs = "l_regions l"
  have first: "first_error (\<lambda>r. if isValidRegionRange r then None
      else Some (failMemoryIni MEMORY_INI_INVALID_RANGE 0 (Some (l_name l)) (Some (r_name r)) None)) ?rs = None
      \<longleftrightarrow> (\<forall>r\<in>set ?rs. isValidRegionRange r)"
    by (simp add: first_error_None)
  have "check_layout c l = None \<longleftrightarrow> findModel c (l_model l) \<noteq> None \<and> ?rs \<noteq> [] \<and>
      (\<forall>r\<in>set ?rs. isValidRegionRange r) \<and> \<not> layoutHasOverlaps l \<and> layoutIsComplete l"
    unfolding check_layout_def first [symmetric] by (simp split: option.split)
  also have "\<dots> \<longleftrightarrow> findModel c (l_model l) \<noteq> None \<and> partitions l"
  proof (cases "\<forall>r\<in>set ?rs. isValidRegionRange r")
    case True
    have "?rs \<noteq> [] \<and> \<not> layoutHasOverlaps l \<and> layoutIsComplete l \<longleftrightarrow>
        (\<forall>i<16. \<exists>!j. j < length ?rs \<and> slot_in i (?rs ! j))"
    proof
      assume a: "?rs \<noteq> [] \<and> \<not> layoutHasOverlaps l \<and> layoutIsComplete l"
      show "\<forall>i<16. \<exists>!j. j < length ?rs \<and> slot_in i (?rs ! j)"
      proof (intro allI impI ex_ex1I)
        fix i j k assume "j < length ?rs \<and> slot_in i (?rs ! j)" "k < length ?rs \<and> slot_in i (?rs ! k)"
        with a layoutHasOverlaps_iff [OF True] show "j = k" by (metis nat_neq_iff)
      next
        fix i :: nat assume "i < 16"
        with a show "\<exists>j. j < length ?rs \<and> slot_in i (?rs ! j)"
          unfolding layoutIsComplete_iff by (metis in_set_conv_nth)
      qed
    next
      assume a: "\<forall>i<16. \<exists>!j. j < length ?rs \<and> slot_in i (?rs ! j)"
      have "k < 16" if "j < length ?rs" "slot_in k (?rs ! j)" for j k
        using True nth_mem [OF that(1)] that(2) by (fastforce simp: isValidRegionRange_iff slot_in_def)
      then have "\<not> layoutHasOverlaps l"
        unfolding layoutHasOverlaps_iff [OF True] using a by (metis less_trans nat_neq_iff)
      moreover have "layoutIsComplete l" using a unfolding layoutIsComplete_iff by (meson nth_mem)
      moreover have "?rs \<noteq> []" using a by fastforce
      ultimately show "?rs \<noteq> [] \<and> \<not> layoutHasOverlaps l \<and> layoutIsComplete l" by simp
    qed
    with True show ?thesis by (simp add: partitions_def isValidRegionRange_iff)
  next
    case False
    then show ?thesis by (auto simp: partitions_def isValidRegionRange_iff)
  qed
  finally show ?thesis .
qed


text \<open>Every context of the active model is bound to a layout of that model.\<close>

definition valid_config :: "memory_config \<Rightarrow> bool" where
  "valid_config c \<longleftrightarrow> cfg_version c \<noteq> 0 \<and> active_model c \<noteq> [] \<and>
     (\<forall>m\<in>set (models c). 0 < unat (mm_contexts m) \<and> unat (mm_contexts m) \<le> MAX_MEMORY_CONTEXTS) \<and>
     (\<forall>l\<in>set (layouts c). (\<exists>m\<in>set (models c). mm_name m = l_model l) \<and> partitions l) \<and>
     (\<exists>m\<in>set (models c). mm_name m = active_model c \<and> boot_context c < mm_contexts m \<and>
        (\<forall>i<unat (mm_contexts m). \<exists>l\<in>set (layouts c).
           resolveLayoutForContext c m i = Some l \<and> l_model l = active_model c))"

lemma findModel_Some: "findModel c name = Some k \<Longrightarrow> k < length (models c) \<and> mm_name (models c ! k) = name"
  unfolding findModel_def by (auto dest: find_index_at)

lemma findModel_unique:
  assumes "config_wf c" and "m \<in> set (models c)"
  shows "\<exists>k. findModel c (mm_name m) = Some k \<and> models c ! k = m"
proof -
  obtain k where k: "findModel c (mm_name m) = Some k"
    using assms(2) by (cases "findModel c (mm_name m)") (auto simp: findModel_def find_index_None)
  obtain i where i: "i < length (models c)" "models c ! i = m" using assms(2) by (auto simp: in_set_conv_nth)
  have "distinct (map mm_name (models c))" using assms(1) by (simp add: config_wf_def)
  with findModel_Some [OF k] i have "i = k" using nth_eq_iff_index_eq [of "map mm_name (models c)" i k] by simp
  with k i show ?thesis by simp
qed

lemma check_context_iff:
  "check_context c m i = None \<longleftrightarrow>
     (\<exists>l\<in>set (layouts c). resolveLayoutForContext c m i = Some l \<and> l_model l = mm_name m)"
proof -
  have "l < length (layouts c) \<and> l_model (layouts c ! l) = mm" if "findLayout c mm n = Some l" for mm n l
    using that unfolding findLayout_def by (auto dest: find_index_at)
  then show ?thesis
    by (auto simp: check_context_def resolveLayoutForContext_def split: option.splits)
qed

lemma validateConfig_iff:
  assumes "config_wf c"
  shows "validateConfig c = None \<longleftrightarrow> valid_config c"
proof (cases "findModel c (active_model c)")
  case None
  then have "\<forall>m\<in>set (models c). mm_name m \<noteq> active_model c"
    by (simp add: findModel_def find_index_None)
  with None show ?thesis by (auto simp: validateConfig_def valid_config_def)
next
  case (Some k)
  let ?m = "models c ! k"
  have models: "first_error check_model (models c) = None \<longleftrightarrow>
      (\<forall>m\<in>set (models c). 0 < unat (mm_contexts m) \<and> unat (mm_contexts m) \<le> MAX_MEMORY_CONTEXTS)"
    by (auto simp: first_error_None check_model_def unat_gt_0)
  have layouts: "first_error (check_layout c) (layouts c) = None \<longleftrightarrow>
      (\<forall>l\<in>set (layouts c). (\<exists>m\<in>set (models c). mm_name m = l_model l) \<and> partitions l)"
    unfolding first_error_None check_layout_iff by (auto simp: findModel_def find_index_None)
  have m: "?m \<in> set (models c)" "mm_name ?m = active_model c" using findModel_Some [OF Some] by simp_all
  have unique: "m = ?m" if "m \<in> set (models c)" "mm_name m = active_model c" for m
    using findModel_unique [OF assms that(1)] Some that(2) by simp
  have "validateConfig c = None \<longleftrightarrow> cfg_version c \<noteq> 0 \<and> active_model c \<noteq> [] \<and> boot_context c < mm_contexts ?m \<and>
      first_error check_model (models c) = None \<and> first_error (check_layout c) (layouts c) = None \<and>
      (\<forall>i<unat (mm_contexts ?m). check_context c ?m i = None)"
    using Some by (auto simp: validateConfig_def Let_def not_le first_error_None [of "check_context c ?m"] split: option.splits)
  also have "\<dots> \<longleftrightarrow> valid_config c"
    unfolding models layouts check_context_iff m(2) valid_config_def using m unique by blast
  finally show ?thesis .
qed

text \<open>
  C12: For a parsed configuration, \<open>validateConfig\<close> accepts exactly the valid ones: the active model
  exists, has 1 to 16 contexts, the boot context is one of them, each context is bound to a
  layout of the model, and every layout is a partition of the sixteen slots of a context into
  non-empty ranges (its overlap test with 8-bit sums and its coverage table decide just that).
\<close>

theorem validateConfig_decides:
  assumes "config_wf c"
  shows "validateConfig c = None \<longleftrightarrow> valid_config c"
  by (rule validateConfig_iff [OF assms])

lemma no_config_wf: "config_wf no_config"
  by (simp add: config_wf_def no_config_def MAX_MEMORY_CONTEXTS_def)

lemma parseMemoryIni_wf: "config_wf (fst (parseMemoryIni s))"
proof -
  have "ini_wf \<lparr>memoryConfig = no_config, section_name = [], currentRegion = None\<rparr>"
    by (simp add: ini_wf_def no_config_wf)
  from parse_lines_wf [OF this] show ?thesis
    unfolding parseMemoryIni_def by (auto split: option.split prod.split) (metis fst_conv)+
qed

text \<open>A file with two contexts, a private half each and a shared half.\<close>

definition duo_ini :: string where
  "duo_ini = concat (map (\<lambda>l. l @ [newline])
     [''[system]'', ''config_version = 2'', ''active_model = duo'', ''boot_context = 0'',
      ''[model.duo]'', ''contexts = 2'',
      ''[layout.duo.base.region.own]'', ''pages = 8'',
      ''[layout.duo.base.region.sys]'', ''start = 8'', ''pages = 8'', ''shared = true'', ''trap_write = true'',
      ''[context.duo.0]'', ''layout = base'', ''[context.duo.1]'', ''layout = base''])"

definition duo_config :: memory_config where
  "duo_config = \<lparr>cfg_version = 2, active_model = ''duo'', boot_context = 0,
     models = [\<lparr>mm_name = ''duo'', mm_contexts = 2\<rparr>],
     layouts = [\<lparr>l_model = ''duo'', l_name = ''base'', l_regions =
       [\<lparr>r_name = ''own'', r_start = 0, r_pages = 8, r_shared = False, r_type = MEMORY_REGION_NORMAL, r_trap_write = False\<rparr>,
        \<lparr>r_name = ''sys'', r_start = 8, r_pages = 8, r_shared = True, r_type = MEMORY_REGION_NORMAL, r_trap_write = True\<rparr>]\<rparr>],
     bindings = [\<lparr>b_model = ''duo'', b_context = 0, b_layout = ''base''\<rparr>, \<lparr>b_model = ''duo'', b_context = 1, b_layout = ''base''\<rparr>]\<rparr>"

lemma duo_parse: "parseMemoryIni duo_ini = (duo_config, None)"
  by code_simp

lemma duo_wf: "config_wf duo_config"
  using parseMemoryIni_wf [of duo_ini] by (simp add: duo_parse)

lemma duo_valid: "validateConfig duo_config = None"
  using duo_parse by (simp add: parseMemoryIni_def split: prod.splits option.splits)

theorem validateConfig_decides_witness: "validateConfig duo_config = None \<and> valid_config duo_config"
  using validateConfig_decides [OF duo_wf] duo_valid by simp

text \<open>
  C13: Whatever \<open>/memory.ini\<close> holds, reading it ends, and the configuration it leaves, also after an
  error, is well formed: no array exceeds its size, no region pointer its layout, no name its buffer, and
  the names of models, of layouts of a model and of regions of a layout are unique.
\<close>

theorem parsed_config_wf: "config_wf (fst (initializeMemoryConfig ini))"
  by (simp add: initializeMemoryConfig_def parseMemoryIni_wf no_config_wf split: option.split)

end
