(* ===== verification/Memory_Map_Spec.thy ===== *)
theory Memory_Map_Spec
  imports Memory_Parse_Spec
begin

text \<open>
  The memory map that \<open>configureMMUFromActiveModel\<close> builds from a valid configuration: which page
  a slot of a context gets, that pages are shared exactly where the file says so, and what the
  MMU table holds afterwards.
\<close>

section \<open>The pages a configuration asks for\<close>

text \<open>
  What a page is identified by: the name of its shared region with the offset in it, or the context
  and slot of a private page. Pages are numbered in the order in which they are first asked for.
\<close>

type_synonym page_key = "string \<times> nat + nat \<times> nat"

type_synonym job = "nat \<times> memory_region \<times> nat"

definition job_slot :: "job \<Rightarrow> nat \<times> nat" where
  "job_slot j = (case j of (x, r, p) \<Rightarrow> (x, unat (r_start r) + p))"

definition job_key :: "job \<Rightarrow> page_key" where
  "job_key j = (case j of (x, r, p) \<Rightarrow> if r_shared r then Inl (r_name r, p) else Inr (job_slot j))"

definition region_jobs :: "nat \<Rightarrow> memory_region \<Rightarrow> job list" where
  "region_jobs x r = map (\<lambda>p. (x, r, p)) [0..<unat (r_pages r)]"

definition regions_of :: "memory_config \<Rightarrow> memory_model \<Rightarrow> nat \<Rightarrow> memory_region list" where
  "regions_of c m x = (case resolveLayoutForContext c m x of None \<Rightarrow> [] | Some l \<Rightarrow> l_regions l)"

definition context_jobs :: "memory_config \<Rightarrow> memory_model \<Rightarrow> nat \<Rightarrow> job list" where
  "context_jobs c m x = concat (map (region_jobs x) (regions_of c m x))"

definition all_jobs :: "memory_config \<Rightarrow> memory_model \<Rightarrow> job list" where
  "all_jobs c m = concat (map (context_jobs c m) [0..<unat (mm_contexts m)])"

definition add_key :: "'k \<Rightarrow> 'k list \<Rightarrow> 'k list" where
  "add_key k ks = (if k \<in> set ks then ks else ks @ [k])"

definition page_keys :: "memory_config \<Rightarrow> memory_model \<Rightarrow> page_key list" where
  "page_keys c m = fold add_key (map job_key (all_jobs c m)) []"

definition page_number :: "'k list \<Rightarrow> 'k \<Rightarrow> nat" where
  "page_number ks k = length (takeWhile (\<lambda>x. x \<noteq> k) ks)"

text \<open>The key of a slot, through the region that holds it.\<close>

definition slot_key :: "memory_config \<Rightarrow> memory_model \<Rightarrow> nat \<Rightarrow> nat \<Rightarrow> page_key" where
  "slot_key c m x i = (case find (slot_in i) (regions_of c m x) of
     None \<Rightarrow> Inr (x, i)
   | Some r \<Rightarrow> job_key (x, r, i - unat (r_start r)))"

definition slot_flag :: "memory_config \<Rightarrow> memory_model \<Rightarrow> nat \<Rightarrow> nat \<Rightarrow> bool" where
  "slot_flag c m x i = (case find (slot_in i) (regions_of c m x) of
     None \<Rightarrow> False
   | Some r \<Rightarrow> r_type r = MEMORY_REGION_IO \<or> r_trap_write r)"

section \<open>The nested loops as one\<close>

lemma each_append: "each f (xs @ ys) a = (case each f xs a of Inl e \<Rightarrow> Inl e | Inr b \<Rightarrow> each f ys b)"
  by (induction xs arbitrary: a) (simp_all split: sum.splits)

lemma each_map: "each f (map g xs) = each (\<lambda>x. f (g x)) xs"
  by (induction xs) (simp_all add: fun_eq_iff split: sum.splits)

lemma each_concat: "each f (concat (map g xs)) a = each (\<lambda>x. each f (g x)) xs a"
  by (induction xs arbitrary: a) (simp_all add: each_append split: sum.splits)

lemma each_cong: "(\<And>x a. x \<in> set xs \<Longrightarrow> f x a = g x a) \<Longrightarrow> each f xs a = each g xs a"
  by (induction xs arbitrary: a) (simp_all split: sum.splits)

definition do_job :: "memory_model \<Rightarrow> job \<Rightarrow> alloc \<Rightarrow> config_error + alloc" where
  "do_job m j = (case j of (x, r, p) \<Rightarrow> alloc_page m x r p)"

lemma alloc_region_jobs: "alloc_region m x r a = each (do_job m) (region_jobs x r) a"
  by (simp add: alloc_region_def region_jobs_def each_map do_job_def)

lemma alloc_context_jobs:
  "resolveLayoutForContext c m x \<noteq> None \<Longrightarrow> alloc_context c m x a = each (do_job m) (context_jobs c m x) a"
  by (auto simp: alloc_context_def context_jobs_def regions_of_def each_concat
      intro!: each_cong alloc_region_jobs split: option.splits)

lemma plan_pages_jobs:
  assumes "findModel c (active_model c) = Some k" and "m = models c ! k"
    and "0 < unat (mm_contexts m)" and "unat (mm_contexts m) \<le> MAX_MEMORY_CONTEXTS"
    and "\<And>x. x < unat (mm_contexts m) \<Longrightarrow> resolveLayoutForContext c m x \<noteq> None"
  shows "plan_pages c = (case each (do_job m) (all_jobs c m) empty_alloc of Inl e \<Rightarrow> Inl e | Inr a \<Rightarrow> Inr (m, a))"
proof -
  have "each (alloc_context c m) [0..<unat (mm_contexts m)] empty_alloc =
      each (do_job m) (all_jobs c m) empty_alloc"
    unfolding all_jobs_def each_concat using assms(5) by (intro each_cong alloc_context_jobs) simp
  moreover have "mm_contexts m \<noteq> 0" using assms(3) by auto
  ultimately show ?thesis
    using assms(1,3,4) by (simp add: plan_pages_def Let_def flip: assms(2))
qed

section \<open>Numbering\<close>

lemma set_add_key [simp]: "set (add_key k ks) = insert k (set ks)"
  by (auto simp: add_key_def)

lemma set_fold_add_key: "set (fold add_key xs ks) = set xs \<union> set ks"
  by (induction xs arbitrary: ks) auto

lemma page_number_less: "k \<in> set ks \<Longrightarrow> page_number ks k < length ks"
  by (induction ks) (auto simp: page_number_def)

lemma page_number_nth: "k \<in> set ks \<Longrightarrow> ks ! page_number ks k = k"
  by (induction ks) (auto simp: page_number_def)

lemma page_number_inj: "k \<in> set ks \<Longrightarrow> l \<in> set ks \<Longrightarrow> page_number ks k = page_number ks l \<longleftrightarrow> k = l"
  using page_number_nth by metis

lemma page_number_append: "k \<in> set ks \<Longrightarrow> page_number (ks @ ls) k = page_number ks k"
  by (induction ks) (auto simp: page_number_def)

lemma page_number_new: "k \<notin> set ks \<Longrightarrow> page_number (ks @ [k]) k = length ks"
  by (induction ks) (auto simp: page_number_def)

lemma page_number_add: "k \<in> set ks \<Longrightarrow> page_number (add_key l ks) k = page_number ks k"
  by (simp add: add_key_def page_number_append)

lemma fold_add_key_grows: "\<exists>ls. fold add_key xs ks = ks @ ls"
proof (induction xs arbitrary: ks)
  case (Cons x xs)
  obtain ls where "fold add_key xs (add_key x ks) = add_key x ks @ ls" using Cons by blast
  moreover obtain ls' where "add_key x ks = ks @ ls'" by (cases "x \<in> set ks") (simp_all add: add_key_def)
  ultimately show ?case by simp
qed simp

section \<open>The allocation follows the numbering\<close>

definition job_ok :: "job \<Rightarrow> bool" where
  "job_ok j \<longleftrightarrow> (case j of (x, r, p) \<Rightarrow> x < 16 \<and> p < unat (r_pages r) \<and>
     unat (r_start r) + unat (r_pages r) \<le> 16 \<and> length (r_name r) \<le> MAX_MEMORY_NAME)"

text \<open>
  \<open>numbered\<close>: the pages \<open>ks\<close> have been given out and the shared ones among them can be found.
  \<open>mapped\<close>: the slots of the jobs \<open>js\<close> hold the numbers of their keys.
\<close>

definition numbered :: "memory_model \<Rightarrow> page_key list \<Rightarrow> alloc \<Rightarrow> bool" where
  "numbered m ks a \<longleftrightarrow>
     length ks \<le> 128 \<and> nextPhysical a = of_nat (length ks) \<and> length (shared_pages a) \<le> length ks \<and>
     (\<forall>s\<in>set (shared_pages a). Inl (sp_region s, unat (sp_offset s)) \<in> set ks \<and>
        sp_phys s = of_nat (page_number ks (Inl (sp_region s, unat (sp_offset s))))) \<and>
     (\<forall>n p. Inl (n, p) \<in> set ks \<longrightarrow>
        (\<exists>s\<in>set (shared_pages a). sp_model s = mm_name m \<and> sp_region s = n \<and> unat (sp_offset s) = p))"

definition mapped :: "job list \<Rightarrow> page_key list \<Rightarrow> u8 list list \<Rightarrow> bool" where
  "mapped js ks pm \<longleftrightarrow>
     length pm = 16 \<and> (\<forall>row\<in>set pm. length row = 16) \<and> job_key ` set js \<subseteq> set ks \<and>
     (\<forall>j\<in>set js. pm ! fst (job_slot j) ! snd (job_slot j) = of_nat (page_number ks (job_key j))) \<and>
     (\<forall>s. Inr s \<in> set ks \<longrightarrow> s \<in> job_slot ` set js)"

lemma numbered_empty: "numbered m [] empty_alloc"
  by (simp add: numbered_def empty_alloc_def)

lemma mapped_empty: "mapped [] [] (phys_map empty_alloc)"
  by (simp add: mapped_def empty_alloc_def NUM_CONTEXT_PAGES_def MAX_MEMORY_CONTEXTS_def)

lemma numbered_room:
  assumes "numbered m ks a"
  shows "unat (nextPhysical a) = length ks" and "length (shared_pages a) \<le> length ks"
    and "unat (nextPhysical a) \<ge> NUM_TOTAL_PAGES \<or> length (shared_pages a) \<ge> NUM_TOTAL_PAGES \<longleftrightarrow> length ks = 128"
  using assms by (auto simp: numbered_def unat_of_nat NUM_TOTAL_PAGES_def)

lemma numbered_new:
  assumes "numbered m ks a" and "k \<notin> set ks" and "length ks < 128"
    and "case k of Inl (n, p) \<Rightarrow> new = [\<lparr>sp_model = mm_name m, sp_region = n, sp_offset = of_nat p,
        sp_phys = nextPhysical a\<rparr>] \<and> p < 256 | Inr s \<Rightarrow> new = []"
  shows "numbered m (add_key k ks) (a\<lparr>shared_pages := shared_pages a @ new, nextPhysical := nextPhysical a + 1\<rparr>)"
proof -
  have "page_number (ks @ [k]) l = page_number ks l" if "l \<in> set ks" for l
    by (rule page_number_append [OF that])
  with assms show ?thesis
    by (cases k) (auto simp: numbered_def add_key_def page_number_new unat_of_nat ac_simps split: prod.splits)
qed

lemma pick_shared:
  assumes "numbered m ks a" and "length n \<le> MAX_MEMORY_NAME" and "length (mm_name m) \<le> MAX_MEMORY_NAME" and "p < 256"
  defines "k \<equiv> Inl (n, p)"
  shows "length (add_key k ks) \<le> 128 \<Longrightarrow> \<exists>b. getSharedPhysical (mm_name m) n (of_nat p) a =
      (of_nat (page_number (add_key k ks) k), b) \<and> numbered m (add_key k ks) b \<and> phys_map b = phys_map a"
    and "\<not> length (add_key k ks) \<le> 128 \<Longrightarrow> getSharedPhysical (mm_name m) n (of_nat p) a = (0xFF, a)"
proof -
  let ?P = "\<lambda>s. sp_model s = mm_name m \<and> sp_region s = n \<and> sp_offset s = of_nat p"
  have p: "unat (of_nat p :: u8) = p" using assms(4) by (simp add: unat_of_nat)
  have same: "(unat v = p) = (v = of_nat p)" for v :: u8 using p by (simp add: word_unat_eq_iff)
  have hit: "\<exists>s. find ?P (shared_pages a) = Some s \<and> sp_phys s = of_nat (page_number ks k)" if "k \<in> set ks"
  proof -
    have "\<exists>s\<in>set (shared_pages a). ?P s" using assms(1) that unfolding numbered_def k_def same [symmetric] by blast
    then obtain s where s: "find ?P (shared_pages a) = Some s" by (cases "find ?P (shared_pages a)") (auto simp: find_None_iff)
    then have "s \<in> set (shared_pages a)" "?P s" by (auto simp: find_Some_iff)
    with assms(1) p have "sp_phys s = of_nat (page_number ks k)" by (auto simp: numbered_def k_def)
    with s show ?thesis by simp
  qed
  have miss: "find ?P (shared_pages a) = None" if "k \<notin> set ks"
    using assms(1) that p by (auto simp: numbered_def k_def find_None_iff)
  show "\<exists>b. getSharedPhysical (mm_name m) n (of_nat p) a =
      (of_nat (page_number (add_key k ks) k), b) \<and> numbered m (add_key k ks) b \<and> phys_map b = phys_map a"
    if "length (add_key k ks) \<le> 128"
  proof (cases "k \<in> set ks")
    case True
    with hit [OF True] assms(1) show ?thesis by (auto simp: getSharedPhysical_def add_key_def)
  next
    case False
    then have lt: "length ks < 128" using that by (simp add: add_key_def)
    let ?new = "[\<lparr>sp_model = mm_name m, sp_region = n, sp_offset = of_nat p, sp_phys = nextPhysical a\<rparr>]"
    have "getSharedPhysical (mm_name m) n (of_nat p) a =
        (nextPhysical a, a\<lparr>shared_pages := shared_pages a @ ?new, nextPhysical := nextPhysical a + 1\<rparr>)"
      using numbered_room(3) [OF assms(1)] miss [OF False] lt
      by (simp add: getSharedPhysical_def name_of_short assms(2,3))
    moreover have "numbered m (add_key k ks)
        (a\<lparr>shared_pages := shared_pages a @ ?new, nextPhysical := nextPhysical a + 1\<rparr>)"
      by (rule numbered_new [OF assms(1) False lt]) (simp add: k_def assms(4))
    moreover have "nextPhysical a = of_nat (page_number (add_key k ks) k)"
      using assms(1) False by (simp add: numbered_def add_key_def page_number_new)
    ultimately show ?thesis by simp
  qed
  show "getSharedPhysical (mm_name m) n (of_nat p) a = (0xFF, a)" if "\<not> length (add_key k ks) \<le> 128"
  proof -
    have "k \<notin> set ks" "length ks = 128"
      using that assms(1) by (auto simp: add_key_def numbered_def split: if_splits)
    with miss numbered_room(3) [OF assms(1)] show ?thesis by (simp add: getSharedPhysical_def)
  qed
qed


lemma map_write:
  assumes "mapped js ks pm" and "job_ok j" and "job_slot j \<notin> job_slot ` set js" and "k = job_key j"
  shows "mapped (js @ [j]) (add_key k ks) (pm[fst (job_slot j) := (pm ! fst (job_slot j))
     [snd (job_slot j) := of_nat (page_number (add_key k ks) k)]])"
proof -
  obtain x i where s: "job_slot j = (x, i)" by (cases "job_slot j")
  then have xi: "x < 16" "i < 16" using assms(2) by (auto simp: job_slot_def job_ok_def split: prod.splits)
  have len: "length pm = 16" "length (pm ! x) = 16"
    using assms(1) xi nth_mem [of x pm] by (auto simp: mapped_def)
  have keep: "pm[x := (pm ! x)[i := v]] ! fst t ! snd t = pm ! fst t ! snd t" if "t \<noteq> (x, i)" for t v
    using that len xi by (cases t) (auto simp: nth_list_update)
  have old: "pm[x := (pm ! x)[i := v]] ! fst (job_slot l) ! snd (job_slot l) =
      of_nat (page_number (add_key k ks) (job_key l))" if "l \<in> set js" for l v
  proof -
    have "job_slot l \<noteq> (x, i)" using assms(3) that s by (metis image_eqI)
    moreover have "job_key l \<in> set ks" using assms(1) that by (auto simp: mapped_def)
    ultimately show ?thesis using assms(1) that by (simp add: keep mapped_def page_number_add)
  qed
  have "Inr t = job_key j \<Longrightarrow> t = (x, i)" for t
    using s by (auto simp: job_key_def split: prod.splits if_splits)
  with assms(1,4) old len xi s show ?thesis
    by (auto simp: mapped_def dest!: in_update)
qed

lemma private_new:
  assumes "mapped js ks pm" and "job_slot j \<notin> job_slot ` set js" and "\<not> r_shared r" and "j = (x, r, p)"
  shows "job_key j \<notin> set ks"
proof -
  have "job_key j = Inr (job_slot j)" using assms(3,4) by (simp add: job_key_def)
  moreover have "Inr (job_slot j) \<notin> set ks" using assms(1,2) unfolding mapped_def by blast
  ultimately show ?thesis by simp
qed

lemma do_job_step:
  assumes "numbered m ks a" and "mapped js ks (phys_map a)" and "job_ok j" and "job_slot j \<notin> job_slot ` set js"
    and "length (mm_name m) \<le> MAX_MEMORY_NAME"
  defines "ks' \<equiv> add_key (job_key j) ks"
  shows "length ks' \<le> 128 \<Longrightarrow> \<exists>b. do_job m j a = Inr b \<and> numbered m ks' b \<and> mapped (js @ [j]) ks' (phys_map b)"
    and "\<not> length ks' \<le> 128 \<Longrightarrow> do_job m j a = Inl Refused"
proof -
  obtain x r p where j: "j = (x, r, p)" by (cases j)
  have ok: "x < 16" "p < unat (r_pages r)" "unat (r_start r) + unat (r_pages r) \<le> 16" "length (r_name r) \<le> MAX_MEMORY_NAME"
    using assms(3) by (auto simp: job_ok_def j)
  have slot: "unat (r_start r + of_nat p) = unat (r_start r) + p"
    using ok by (subst unat_word_ariths) (simp add: unat_of_nat)
  define q where "q = (if r_shared r then getSharedPhysical (mm_name m) (r_name r) (of_nat p) a
      else if unat (nextPhysical a) \<ge> NUM_TOTAL_PAGES then (0xFF, a)
      else (nextPhysical a, a\<lparr>nextPhysical := nextPhysical a + 1\<rparr>))"
  have q: "(\<exists>b. q = (of_nat (page_number ks' (job_key j)), b) \<and> numbered m ks' b \<and> phys_map b = phys_map a)"
    if "length ks' \<le> 128"
  proof (cases "r_shared r")
    case True
    then show ?thesis
      using pick_shared(1) [OF assms(1) ok(4) assms(5), of p] ok that by (simp add: q_def ks'_def job_key_def j)
  next
    case False
    note new = private_new [OF assms(2,4) False j]
    then have lt: "length ks < 128" using that by (simp add: ks'_def add_key_def)
    with numbered_new [OF assms(1) new lt, of "[]"] numbered_room [OF assms(1)] False new
    show ?thesis
      by (auto simp: q_def ks'_def add_key_def page_number_new job_key_def j NUM_TOTAL_PAGES_def
          simp flip: numbered_room(1) [OF assms(1)])
  qed
  have full: "q = (0xFF, a)" if "\<not> length ks' \<le> 128"
  proof (cases "r_shared r")
    case True
    then show ?thesis
      using pick_shared(2) [OF assms(1) ok(4) assms(5), of p] ok that by (simp add: q_def ks'_def job_key_def j)
  next
    case False
    have "length ks = 128" using that assms(1) by (auto simp: ks'_def add_key_def numbered_def split: if_splits)
    with False numbered_room(1) [OF assms(1)] show ?thesis by (simp add: q_def NUM_TOTAL_PAGES_def)
  qed
  have run: "do_job m j a = (if fst q = 0xFF then Inl Refused
      else Inr (snd q\<lparr>phys_map := (phys_map (snd q))[x := (phys_map (snd q) ! x)[unat (r_start r) + p := fst q]]\<rparr>))"
    using ok by (simp add: do_job_def j alloc_page_def q_def [symmetric] slot NUM_CONTEXT_PAGES_def split: prod.split)
  show "do_job m j a = Inl Refused" if "\<not> length ks' \<le> 128" using full [OF that] run by simp
  show "\<exists>b. do_job m j a = Inr b \<and> numbered m ks' b \<and> mapped (js @ [j]) ks' (phys_map b)" if le: "length ks' \<le> 128"
  proof -
    obtain b where b: "q = (of_nat (page_number ks' (job_key j)), b)" "numbered m ks' b" "phys_map b = phys_map a"
      using q [OF le] by blast
    have "page_number ks' (job_key j) < 128"
      using page_number_less [of "job_key j" ks'] le by (simp add: ks'_def)
    then have "(of_nat (page_number ks' (job_key j)) :: u8) \<noteq> 0xFF" by (simp add: word_unat_eq_iff unat_of_nat)
    moreover have "numbered m ks' (b\<lparr>phys_map := pm\<rparr>)" for pm using b(2) by (simp add: numbered_def)
    ultimately have "do_job m j a = Inr (b\<lparr>phys_map := (phys_map a)[x := (phys_map a ! x)
        [unat (r_start r) + p := of_nat (page_number ks' (job_key j))]]\<rparr>)"
      using b(1,3) unfolding run by simp
    moreover have "job_slot j = (x, unat (r_start r) + p)" by (simp add: job_slot_def j)
    ultimately show ?thesis
      using map_write [OF assms(2-4) refl] \<open>\<And>pm. numbered m ks' (b\<lparr>phys_map := pm\<rparr>)\<close> by (simp add: ks'_def)
  qed
qed

lemma do_jobs:
  assumes "numbered m ks a" and "mapped js ks (phys_map a)" and "\<forall>j\<in>set ls. job_ok j"
    and "distinct (map job_slot (js @ ls))" and "length (mm_name m) \<le> MAX_MEMORY_NAME"
  defines "ks' \<equiv> fold add_key (map job_key ls) ks"
  shows "if length ks' \<le> 128 then \<exists>b. each (do_job m) ls a = Inr b \<and> mapped (js @ ls) ks' (phys_map b)
    else each (do_job m) ls a = Inl Refused"
  using assms(1-4) unfolding ks'_def
proof (induction ls arbitrary: ks a js)
  case (Cons j ls)
  let ?k = "add_key (job_key j) ks" and ?ks' = "fold add_key (map job_key (j # ls)) ks"
  have step: "job_ok j" "job_slot j \<notin> job_slot ` set js" using Cons.prems by auto
  note s = do_job_step [OF Cons.prems(1,2) step assms(5)]
  obtain zs where zs: "?ks' = ?k @ zs" using fold_add_key_grows [of "map job_key ls" ?k] by auto
  show ?case
  proof (cases "length ?k \<le> 128")
    case True
    then obtain b where b: "do_job m j a = Inr b" "numbered m ?k b" "mapped (js @ [j]) ?k (phys_map b)" using s(1) by blast
    have "distinct (map job_slot ((js @ [j]) @ ls))" using Cons.prems(4) by simp
    from Cons.IH [OF b(2,3) _ this] Cons.prems(3) b(1) show ?thesis by (simp split: if_splits)
  next
    case False
    with s(2) zs show ?thesis by simp
  qed
qed (simp add: numbered_def)


section \<open>The jobs of a valid configuration\<close>

definition active_of :: "memory_config \<Rightarrow> memory_model" where
  "active_of c = (case findModel c (active_model c) of
     Some k \<Rightarrow> models c ! k | None \<Rightarrow> \<lparr>mm_name = [], mm_contexts = 0\<rparr>)"

lemma distinct_concat_map:
  assumes "\<And>i. i < length xs \<Longrightarrow> distinct (f (xs ! i))"
    and "\<And>i j. i < j \<Longrightarrow> j < length xs \<Longrightarrow> set (f (xs ! i)) \<inter> set (f (xs ! j)) = {}"
  shows "distinct (concat (map f xs))"
  using assms
proof (induction xs)
  case (Cons x xs)
  have "distinct (concat (map f xs))"
    using Cons.prems(1) [of "Suc i" for i] Cons.prems(2) [of "Suc i" "Suc j" for i j] by (intro Cons.IH) auto
  moreover have "set (f x) \<inter> set (f y) = {}" if "y \<in> set xs" for y
    using that Cons.prems(2) [of 0 "Suc j" for j] by (auto simp: in_set_conv_nth)
  ultimately show ?case using Cons.prems(1) [of 0] by auto
qed simp

lemma valid_active:
  assumes "config_wf c" and "valid_config c"
  defines "m \<equiv> active_of c"
  shows "\<exists>k. findModel c (active_model c) = Some k \<and> m = models c ! k" and "length (mm_name m) \<le> MAX_MEMORY_NAME"
    and "0 < unat (mm_contexts m)" and "unat (mm_contexts m) \<le> 16"
    and "x < unat (mm_contexts m) \<Longrightarrow> \<exists>l\<in>set (layouts c). resolveLayoutForContext c m x = Some l \<and> partitions l"
proof -
  obtain a where a: "a \<in> set (models c)" "mm_name a = active_model c"
    "\<And>i. i < unat (mm_contexts a) \<Longrightarrow> \<exists>l\<in>set (layouts c). resolveLayoutForContext c a i = Some l"
    using assms(2) unfolding valid_config_def by blast
  obtain k where k: "findModel c (active_model c) = Some k" "models c ! k = a"
    using findModel_unique [OF assms(1) a(1)] a(2) by auto
  then have m: "m = a" by (simp add: m_def active_of_def)
  show "\<exists>k. findModel c (active_model c) = Some k \<and> m = models c ! k" using k m by simp
  show "length (mm_name m) \<le> MAX_MEMORY_NAME" using assms(1) a(1) by (auto simp: m config_wf_def)
  show "0 < unat (mm_contexts m)" and "unat (mm_contexts m) \<le> 16"
    using assms(2) a(1) by (auto simp: m valid_config_def MAX_MEMORY_CONTEXTS_def)
  show "\<exists>l\<in>set (layouts c). resolveLayoutForContext c m x = Some l \<and> partitions l" if "x < unat (mm_contexts m)"
    using a(3) [of x] that assms(2) by (auto simp: m valid_config_def)
qed

lemma valid_regions:
  assumes "config_wf c" and "valid_config c" and "x < unat (mm_contexts (active_of c))"
  defines "rs \<equiv> regions_of c (active_of c) x"
  shows "r \<in> set rs \<Longrightarrow> 0 < unat (r_pages r) \<and> unat (r_start r) + unat (r_pages r) \<le> 16 \<and> length (r_name r) \<le> MAX_MEMORY_NAME"
    and "distinct (map r_name rs)" and "i < 16 \<Longrightarrow> \<exists>!j. j < length rs \<and> slot_in i (rs ! j)"
proof -
  obtain l where l: "l \<in> set (layouts c)" "resolveLayoutForContext c (active_of c) x = Some l" "partitions l"
    using valid_active(5) [OF assms(1-3)] by blast
  then have "layout_wf l" "rs = l_regions l" using assms(1) by (auto simp: config_wf_def rs_def regions_of_def)
  with l(3) show "r \<in> set rs \<Longrightarrow> 0 < unat (r_pages r) \<and> unat (r_start r) + unat (r_pages r) \<le> 16 \<and> length (r_name r) \<le> MAX_MEMORY_NAME"
    "distinct (map r_name rs)" "i < 16 \<Longrightarrow> \<exists>!j. j < length rs \<and> slot_in i (rs ! j)"
    by (auto simp: partitions_def layout_wf_def)
qed

lemma context_job_slots:
  "map job_slot (context_jobs c m x) =
   map (Pair x) (concat (map (\<lambda>r. [unat (r_start r)..<unat (r_start r) + unat (r_pages r)]) (regions_of c m x)))"
proof -
  have "map job_slot (region_jobs x r) = map (Pair x) [unat (r_start r)..<unat (r_start r) + unat (r_pages r)]" for r
    by (auto simp: region_jobs_def job_slot_def intro!: nth_equalityI)
  then show ?thesis by (simp add: context_jobs_def map_concat comp_def)
qed

lemma valid_jobs:
  assumes "config_wf c" and "valid_config c"
  shows "\<forall>j\<in>set (all_jobs c (active_of c)). job_ok j" and "distinct (map job_slot (all_jobs c (active_of c)))"
proof -
  let ?m = "active_of c"
  note v = valid_regions [OF assms]
  show "\<forall>j\<in>set (all_jobs c ?m). job_ok j"
    using v(1) valid_active(4) [OF assms] by (fastforce simp: all_jobs_def context_jobs_def region_jobs_def job_ok_def)
  have one: "distinct (map job_slot (context_jobs c ?m x))" if "x < unat (mm_contexts ?m)" for x
  proof -
    let ?rs = "regions_of c ?m x"
    have S: "set [unat (r_start r)..<unat (r_start r) + unat (r_pages r)] = {k. slot_in k r}" for r
      by (auto simp: slot_in_def)
    have "distinct (concat (map (\<lambda>r. [unat (r_start r)..<unat (r_start r) + unat (r_pages r)]) ?rs))"
    proof (rule distinct_concat_map)
      fix i j assume ij: "i < j" "j < length ?rs"
      have False if "slot_in k (?rs ! i)" "slot_in k (?rs ! j)" for k
      proof -
        have "k < 16" using v(1) [OF \<open>x < _\<close> nth_mem [OF ij(2)]] that(2) by (simp add: slot_in_def)
        from v(3) [OF \<open>x < _\<close> this] that ij show False by (metis less_trans nat_neq_iff)
      qed
      then show "set [unat (r_start (?rs ! i))..<unat (r_start (?rs ! i)) + unat (r_pages (?rs ! i))] \<inter>
          set [unat (r_start (?rs ! j))..<unat (r_start (?rs ! j)) + unat (r_pages (?rs ! j))] = {}"
        unfolding S by blast
    qed simp
    then show ?thesis unfolding context_job_slots by (simp add: distinct_map inj_on_def)
  qed
  have own: "fst s = x" if "s \<in> set (map job_slot (context_jobs c ?m x))" for s x
    using that by (auto simp: context_jobs_def region_jobs_def job_slot_def)
  show "distinct (map job_slot (all_jobs c ?m))"
    unfolding all_jobs_def map_concat map_map comp_def
  proof (rule distinct_concat_map)
    fix i j assume "i < j" "j < length [0..<unat (mm_contexts ?m)]"
    then have ij: "[0..<unat (mm_contexts ?m)] ! i = i" "[0..<unat (mm_contexts ?m)] ! j = j" "i \<noteq> j"
      by auto
    show "set (map job_slot (context_jobs c ?m ([0..<unat (mm_contexts ?m)] ! i))) \<inter>
        set (map job_slot (context_jobs c ?m ([0..<unat (mm_contexts ?m)] ! j))) = {}"
      unfolding ij(1,2) using own ij(3) by blast
  qed (simp add: one)
qed

lemma slot_job:
  assumes "config_wf c" and "valid_config c" and "x < unat (mm_contexts (active_of c))" and "i < 16"
  shows "\<exists>r\<in>set (regions_of c (active_of c) x). find (slot_in i) (regions_of c (active_of c) x) = Some r \<and> slot_in i r \<and>
    (x, r, i - unat (r_start r)) \<in> set (all_jobs c (active_of c)) \<and>
    job_slot (x, r, i - unat (r_start r)) = (x, i) \<and>
    slot_key c (active_of c) x i = job_key (x, r, i - unat (r_start r))"
proof -
  let ?rs = "regions_of c (active_of c) x"
  have "\<exists>r\<in>set ?rs. slot_in i r" using valid_regions(3) [OF assms] nth_mem by blast
  then obtain r where r: "find (slot_in i) ?rs = Some r"
    by (cases "find (slot_in i) ?rs") (auto simp: find_None_iff)
  then have "r \<in> set ?rs" "slot_in i r" by (auto simp: find_Some_iff)
  with r assms(3) show ?thesis
    by (force simp: all_jobs_def context_jobs_def region_jobs_def slot_in_def job_slot_def slot_key_def)
qed


text \<open>
  The allocation of an accepted configuration: every slot gets the number of its page, in the order of
  the first request; it is refused when more than 128 pages are asked for and never writes
  outside the map.
\<close>

lemma plan_pages_numbers:
  assumes "config_wf c" and "validateConfig c = None"
  shows "if length (page_keys c (active_of c)) \<le> 128
     then \<exists>a. plan_pages c = Inr (active_of c, a) \<and>
       (\<forall>x i. x < unat (mm_contexts (active_of c)) \<and> i < 16 \<longrightarrow>
          phys_map a ! x ! i = of_nat (page_number (page_keys c (active_of c)) (slot_key c (active_of c) x i)))
     else plan_pages c = Inl Refused"
proof -
  let ?m = "active_of c"
  have v: "valid_config c" using validateConfig_iff [OF assms(1)] assms(2) by simp
  note a = valid_active [OF assms(1) v] and j = valid_jobs [OF assms(1) v]
  obtain k where k: "findModel c (active_model c) = Some k" "?m = models c ! k" using a(1) by blast
  have plan: "plan_pages c = (case each (do_job ?m) (all_jobs c ?m) empty_alloc of Inl e \<Rightarrow> Inl e | Inr a \<Rightarrow> Inr (?m, a))"
    using a(3-5) by (intro plan_pages_jobs [OF k]) (auto simp: MAX_MEMORY_CONTEXTS_def)
  have "phys_map b ! x ! i = of_nat (page_number (page_keys c ?m) (slot_key c ?m x i))"
    if "mapped (all_jobs c ?m) (page_keys c ?m) (phys_map b)" "x < unat (mm_contexts ?m)" "i < 16" for b x i
    using slot_job [OF assms(1) v that(2,3)] that(1) by (fastforce simp: mapped_def)
  with do_jobs [OF numbered_empty mapped_empty j(1) _ a(2)] j(2) plan show ?thesis
    by (auto simp: page_keys_def split: if_splits)
qed


section \<open>Writing the table\<close>

lemma sim_each_do [sim_rules]:
  assumes "\<And>i. sim f (p i) (q i)"
  shows "sim f (each_do p xs) (each_do q xs)"
  using assms by (induction xs) (auto intro!: sim_rules sim_bind split: option.split)

context neo_bus
begin

lemma sim_configureMMU [sim_rules]:
  "sim view (configureMMUFromActiveModel bd c) (configureMMUFromActiveModel (ref_board cpu) c)"
  unfolding configureMMUFromActiveModel_def write_context_def write_slot_def
  by (auto intro!: sim_rules split: sum.split prod.split option.split)

end

lemma each_do_map_each:
  assumes "\<And>i. i \<in> set xs \<Longrightarrow> f i = do { ok \<leftarrow> g i; ret (if ok then None else Some Refused) }"
    and "\<forall>ok\<in>set (val_of (map_each xs g) s). ok"
  shows "exec (each_do f xs) s = exec (map_each xs g) s" and "val_of (each_do f xs) s = None"
  using assms by (induction xs arbitrary: s) auto

definition map_entry :: "memory_config \<Rightarrow> memory_model \<Rightarrow> nat \<Rightarrow> nat \<Rightarrow> u8" where
  "map_entry c m x i = of_nat (page_number (page_keys c m) (slot_key c m x i)) OR (if slot_flag c m x i then 0x80 else 0)"

lemma write_context_ref:
  fixes cpu :: cpu
  assumes "resolveLayoutForContext c md x \<noteq> None"
    and "\<And>i. i < 16 \<Longrightarrow> \<exists>r. find (slot_in i) (regions_of c md x) = Some r"
    and "\<And>i. i < 16 \<Longrightarrow> phys_map a ! x ! i = of_nat (page_number (page_keys c md) (slot_key c md x i))"
    and "bus_ok m" and "index_ok m"
  defines "p \<equiv> write_context (ref_board cpu) c md a x"
  shows "val_of p m = None" and "table_inv m (exec p m)"
    and "mmu_ram (hw (exec p m)) = table_with (of_nat x) (map (map_entry c md x) [0..<16]) (mmu_ram (hw m))"
proof -
  obtain l where l: "resolveLayoutForContext c md x = Some l" using assms(1) by blast
  let ?t = "map (map_entry c md x) [0..<16]"
  have p: "p = each_do (write_slot (ref_board cpu) x l a) [0..<16]"
    by (simp add: p_def write_context_def l NUM_CONTEXT_PAGES_def)
  have step: "write_slot (ref_board cpu) x l a i = do {
      ok \<leftarrow> writeMMUPage (ref_board cpu) (of_nat x) (of_nat i) (?t ! i);
      ret (if ok then None else Some Refused) }" if "i \<in> set [0..<16]" for i
    using assms(2,3) [of i] that l
    by (auto simp: write_slot_def table_entry_def regions_of_def map_entry_def slot_flag_def)
  have ks: "set [0..<16] \<subseteq> {..<16}" by auto
  note w = write_entries [OF ks assms(4,5), of cpu "of_nat x" ?t]
  note e = each_do_map_each [OF step w(2)]
  show "val_of p m = None" unfolding p by (rule e(2))
  have run: "exec p m = exec (map_each [0..<16] (\<lambda>i. writeMMUPage (ref_board cpu) (of_nat x) (of_nat i) (?t ! i))) m"
    unfolding p by (rule e(1))
  show "table_inv m (exec p m)" unfolding run by (rule w(1))
  show "mmu_ram (hw (exec p m)) = table_with (of_nat x) ?t (mmu_ram (hw m))"
    unfolding run w(3) by (simp add: table_with_def)
qed

lemma write_contexts_ref:
  fixes cpu :: cpu
  assumes "\<And>x. x \<in> set xs \<Longrightarrow> x < 256 \<and> resolveLayoutForContext c md x \<noteq> None"
    and "\<And>x i. x \<in> set xs \<Longrightarrow> i < 16 \<Longrightarrow> \<exists>r. find (slot_in i) (regions_of c md x) = Some r"
    and "\<And>x i. x \<in> set xs \<Longrightarrow> i < 16 \<Longrightarrow> phys_map a ! x ! i = of_nat (page_number (page_keys c md) (slot_key c md x i))"
    and "bus_ok m" and "index_ok m"
  defines "p \<equiv> each_do (write_context (ref_board cpu) c md a) xs"
  shows "val_of p m = None \<and> table_inv m (exec p m) \<and>
    mmu_ram (hw (exec p m)) = (\<lambda>y i. if unat y \<in> set xs \<and> unat i < 16 then map_entry c md (unat y) (unat i)
      else mmu_ram (hw m) y i)"
  using assms(1-5) unfolding p_def
proof (induction xs arbitrary: m)
  case (Cons x xs)
  note w = write_context_ref [where c = c and md = md and x = x and a = a and cpu = cpu, OF _ _ _ Cons.prems(4,5)]
  let ?m = "exec (write_context (ref_board cpu) c md a x) m"
  have ok: "val_of (write_context (ref_board cpu) c md a x) m = None" "table_inv m ?m"
    "mmu_ram (hw ?m) = table_with (of_nat x) (map (map_entry c md x) [0..<16]) (mmu_ram (hw m))"
    using w Cons.prems(1-3) by simp_all
  have "bus_ok ?m" "index_ok ?m" using ok(2) by (simp_all add: table_inv_def)
  note ih = Cons.IH [OF _ _ _ this] 
  have "x < 256" using Cons.prems(1) by simp
  have at: "y = of_nat x \<longleftrightarrow> unat y = x" for y :: u8 by (rule of_nat_u8_eq [OF \<open>x < 256\<close>])
  show ?case
    using ih Cons.prems(1-3) ok by (auto simp: table_inv_def table_with_def fun_eq_iff at)
qed (simp add: table_inv_def)


lemma configure_ref:
  fixes cpu :: cpu
  assumes "config_wf c" and "validateConfig c = None" and "bus_ok m" and "index_ok m"
  defines "md \<equiv> active_of c" and "p \<equiv> configureMMUFromActiveModel (ref_board cpu) c"
  shows "if length (page_keys c md) \<le> 128
     then val_of p m = None \<and> table_inv m (exec p m) \<and>
       mmu_ram (hw (exec p m)) = (\<lambda>x i. if x < mm_contexts md \<and> unat i < 16 then map_entry c md (unat x) (unat i)
         else mmu_ram (hw m) x i)
     else val_of p m = Some Refused \<and> exec p m = m"
proof (cases "length (page_keys c md) \<le> 128")
  case True
  have v: "valid_config c" using validateConfig_iff [OF assms(1)] assms(2) by simp
  obtain a where a: "plan_pages c = Inr (md, a)"
    "\<And>x i. x < unat (mm_contexts md) \<Longrightarrow> i < 16 \<Longrightarrow>
       phys_map a ! x ! i = of_nat (page_number (page_keys c md) (slot_key c md x i))"
    using plan_pages_numbers [OF assms(1,2)] True unfolding md_def by auto
  have "val_of p m = None \<and> table_inv m (exec p m) \<and> mmu_ram (hw (exec p m)) =
      (\<lambda>y i. if unat y \<in> set [0..<unat (mm_contexts md)] \<and> unat i < 16 then map_entry c md (unat y) (unat i)
        else mmu_ram (hw m) y i)"
    unfolding p_def configureMMUFromActiveModel_def a(1) sum.case prod.case
  proof (rule write_contexts_ref [OF _ _ _ assms(3,4)])
    fix x assume x: "x \<in> set [0..<unat (mm_contexts md)]"
    then show "x < 256 \<and> resolveLayoutForContext c md x \<noteq> None"
      using valid_active(4,5) [OF assms(1) v] unfolding md_def by fastforce
    fix i :: nat assume i: "i < 16"
    show "\<exists>r. find (slot_in i) (regions_of c md x) = Some r"
      using slot_job [OF assms(1) v _ i] x unfolding md_def by auto
    show "phys_map a ! x ! i = of_nat (page_number (page_keys c md) (slot_key c md x i))"
      using a(2) x i by simp
  qed
  with True show ?thesis by (simp add: word_less_nat_alt)
next
  case False
  with plan_pages_numbers [OF assms(1,2)] show ?thesis
    by (simp add: p_def configureMMUFromActiveModel_def md_def)
qed

text \<open>
  C7: On any board with its bus at rest, \<open>configureMMUFromActiveModel\<close> brings an accepted
  configuration into the table: each of the sixteen entries of each context of the active model
  becomes the number of its page (one page for each context and slot of a private region, one for each
  name and offset of a shared region, numbered by first request) with bit 7 for the slots of I/O and
  trapped regions; nothing else changes. It fails exactly when more than 128 pages are asked for,
  and then nothing is written.
\<close>

theorem configure_memory_map:
  assumes "neo_bus bd view cpu" and "config_wf c" and "validateConfig c = None"
    and "bus_ok (absm view m)" and "index_ok (absm view m)"
  shows "let md = active_of c; p = configureMMUFromActiveModel bd c;
      before = absm view m; after = absm view (exec p m) in
    if length (page_keys c md) \<le> 128
    then val_of p m = None \<and> table_inv before after \<and>
      mmu_ram (hw after) = (\<lambda>x i. if x < mm_contexts md \<and> unat i < 16 then map_entry c md (unat x) (unat i)
        else mmu_ram (hw before) x i)
    else val_of p m = Some Refused \<and> after = before"
  using configure_ref [OF assms(2-5), of cpu]
  unfolding Let_def simD [OF neo_bus.sim_configureMMU [OF assms(1)]] .


lemma duo_pages:
  "length (page_keys duo_config (active_of duo_config)) \<le> 128"
  "mm_contexts (active_of duo_config) = 2"
  "slot_key duo_config (active_of duo_config) 0 0 \<noteq> slot_key duo_config (active_of duo_config) 1 0"
  "slot_key duo_config (active_of duo_config) 0 8 = slot_key duo_config (active_of duo_config) 1 8"
  "map_entry duo_config (active_of duo_config) 1 0 = 16"
  "map_entry duo_config (active_of duo_config) 1 8 = 0x88"
  by code_simp+

theorem configure_memory_map_witness:
  "val_of (configureMMUFromActiveModel (ref_board id) duo_config) (powered_up id) = None \<and>
   mmu_ram (hw (exec (configureMMUFromActiveModel (ref_board id) duo_config) (powered_up id))) 1 0 = 16 \<and>
   mmu_ram (hw (exec (configureMMUFromActiveModel (ref_board id) duo_config) (powered_up id))) 1 8 = 0x88"
  using configure_memory_map [OF ref_contract duo_wf duo_valid, of "powered_up id" id] powered_up_ok(3,4) [of id]
  by (simp add: Let_def duo_pages [unfolded One_nat_def])

section \<open>Isolation\<close>

lemma page_of_entry:
  assumes "n < 128"
  shows "((of_nat n :: u8) OR (if b then 0x80 else 0)) AND 0x7F = of_nat n"
proof -
  have m: "(0x7F :: u8) = mask 7" by (simp add: mask_eq_exp_minus_1)
  have s: "(0x80 :: u8) = push_bit 7 1" by simp
  have "take_bit 7 n = n" using assms by (simp add: take_bit_nat_eq_self)
  then have bits: "bit n k \<Longrightarrow> k < 7" for k by (metis bit_take_bit_iff)
  show ?thesis
    unfolding m s by (rule bit_word_eqI) (auto simp: bit_simps bits simp del: push_bit_of_1 push_bit_numeral)
qed

lemma slot_key_inj:
  assumes "config_wf c" and "valid_config c" and "x < unat (mm_contexts (active_of c))" and "i < 16" and "j < 16"
    and "slot_key c (active_of c) x i = slot_key c (active_of c) x j"
  shows "i = j"
proof -
  let ?rs = "regions_of c (active_of c) x"
  obtain r where r: "r \<in> set ?rs" "slot_in i r" "job_slot (x, r, i - unat (r_start r)) = (x, i)"
    "slot_key c (active_of c) x i = job_key (x, r, i - unat (r_start r))"
    using slot_job [OF assms(1-4)] by blast
  obtain s where s: "s \<in> set ?rs" "slot_in j s" "job_slot (x, s, j - unat (r_start s)) = (x, j)"
    "slot_key c (active_of c) x j = job_key (x, s, j - unat (r_start s))"
    using slot_job [OF assms(1-3,5)] by blast
  have "r = s" if "r_name r = r_name s"
    using valid_regions(2) [OF assms(1-3)] r(1) s(1) that by (metis distinct_map inj_on_eq_iff)
  then have "r = s" if "r_shared r" using assms(6) r(4) s(4) that by (auto simp: job_key_def split: if_splits)
  with assms(6) r(4) s(4) have "r_shared r \<and> r = s \<and> i - unat (r_start r) = j - unat (r_start r) \<or>
      \<not> r_shared r \<and> \<not> r_shared s \<and> (x, i) = (x, j)"
    unfolding r(4) s(4) job_key_def prod.case r(3) s(3) by (auto split: if_splits)
  with r(2) s(2) show ?thesis by (auto simp: slot_in_def)
qed

lemma slot_key_listed:
  assumes "config_wf c" and "valid_config c" and "x < unat (mm_contexts (active_of c))" and "i < 16"
  shows "slot_key c (active_of c) x i \<in> set (page_keys c (active_of c))"
  using slot_job [OF assms] by (force simp: page_keys_def set_fold_add_key)

text \<open>
  C5: The memory protection a file asks for is what the board does: once \<open>/memory.ini\<close> was read and
  configured without error, an address of one context and an address of another reach the same
  byte exactly when both lie at the same offset of a page the file shares between them under one
  region name, or are the same address of the same context; a write through one is seen through
  the other then, and never otherwise.
\<close>

theorem memory_map_isolates:
  assumes "neo_bus bd view cpu" and "initializeMemoryConfig ini = (c, None)"
    and "bus_ok (absm view m)" and "index_ok (absm view m)"
    and "val_of (configureMMUFromActiveModel bd c) m = None"
    and "x < mm_contexts (active_of c)" and "y < mm_contexts (active_of c)"
  defines "h \<equiv> view (hw (exec (configureMMUFromActiveModel bd c) m))"
    and "key \<equiv> (\<lambda>x a. slot_key c (active_of c) (unat x) (unat (page_index a)))"
  shows "cell (poke x a v h) y b =
      (if key x a = key y b \<and> page_offset a = page_offset b then v else cell h y b) \<and>
    (key x a = key x b \<longleftrightarrow> page_index a = page_index b)"
proof -
  let ?md = "active_of c"
  obtain s where s: "parseMemoryIni s = (c, None)"
    using assms(2) by (auto simp: initializeMemoryConfig_def split: option.splits)
  then have wf: "config_wf c" using parseMemoryIni_wf [of s] by simp
  have ok: "validateConfig c = None"
    using s unfolding parseMemoryIni_def by (auto split: option.splits prod.splits)
  have valid: "valid_config c" using validateConfig_iff [OF wf] ok by simp
  note run = simD [OF neo_bus.sim_configureMMU [OF assms(1), of c], of m]
  note r = configure_ref [OF wf ok assms(3,4), of cpu]
  have fits: "length (page_keys c ?md) \<le> 128" using r assms(5) unfolding run by (simp split: if_splits)
  have entry: "phys_page h z d = of_nat (page_number (page_keys c ?md) (key z d))" "key z d \<in> set (page_keys c ?md)"
    if "z < mm_contexts ?md" for z d
  proof -
    have "h = hw (exec (configureMMUFromActiveModel (ref_board cpu) c) (absm view m))"
      unfolding h_def run(1) [symmetric] by simp
    with r fits that have "mmu_ram h z (page_index d) = map_entry c ?md (unat z) (unat (page_index d))"
      by (simp add: page_index_bound)
    moreover show k: "key z d \<in> set (page_keys c ?md)"
      using slot_key_listed [OF wf valid _ page_index_bound] that by (simp add: key_def word_less_nat_alt)
    moreover have "page_number (page_keys c ?md) (key z d) < 128" using page_number_less [OF k] fits by simp
    ultimately show "phys_page h z d = of_nat (page_number (page_keys c ?md) (key z d))"
      by (simp add: phys_page_def map_entry_def key_def page_of_entry)
  qed
  have "page_number (page_keys c ?md) (key z d) < 256" if "z < mm_contexts ?md" for z d
    using page_number_less [OF entry(2) [OF that, of d]] fits by linarith
  then have same: "phys_page h x a = phys_page h y b \<longleftrightarrow> key x a = key y b"
    using page_number_inj [OF entry(2) [OF assms(6)] entry(2) [OF assms(7)]]
    by (simp add: entry(1) assms(6,7) of_nat_u8_eq unat_of_nat)
  have "key x a = key x b \<longleftrightarrow> page_index a = page_index b"
    using slot_key_inj [OF wf valid _ page_index_bound page_index_bound, of "unat x" a b] assms(6)
    by (auto simp: key_def word_less_nat_alt word_unat_eq_iff)
  with same show ?thesis by (simp add: cell_poke_at)
qed


theorem memory_map_isolates_witness:
  "let h = hw (exec (configureMMUFromActiveModel (ref_board id) duo_config) (powered_up id)) in
   cell (poke 0 0x0123 0x77 h) 1 0x0123 = cell h 1 0x0123 \<and> cell (poke 0 0x8123 0x77 h) 1 0x8123 = 0x77"
proof -
  have read: "initializeMemoryConfig (Some duo_ini) = (duo_config, None)"
    by (simp add: initializeMemoryConfig_def duo_parse)
  have set: "val_of (configureMMUFromActiveModel (ref_board id) duo_config) (powered_up id) = None"
    using configure_ref [OF duo_wf duo_valid powered_up_ok(3,4), of id id] duo_pages(1) by simp
  have p: "page_index 0x0123 = 0" "page_index 0x8123 = 8" by (simp_all add: page_index_def)
  note t = memory_map_isolates [OF ref_contract read _ _ set, where x = 0 and y = 1]
  show ?thesis
    using t [where a = "0x0123" and b = "0x0123" and v = "0x77"] t [where a = "0x8123" and b = "0x8123" and v = "0x77"]
      powered_up_ok(3,4) [of id] duo_pages(3,4) [unfolded One_nat_def]
    by (simp add: duo_pages(2) p Let_def)
qed

section \<open>A rejected file\<close>

text \<open>
  \<open>setup()\<close> configures the MMU whatever the parser said. A file with a region that leaves the sixteen
  slots is rejected with \<open>MEMORY_INI_INVALID_RANGE\<close>, and the allocation of what the parser left
  writes beyond \<open>phys_map\<close>.
\<close>

definition overrun_ini :: string where
  "overrun_ini = concat (map (\<lambda>l. l @ [newline])
     [''[system]'', ''config_version = 2'', ''active_model = m'',
      ''[model.m]'', ''contexts = 1'',
      ''[layout.m.l.region.r]'', ''start = 15'', ''pages = 2'',
      ''[context.m.0]'', ''layout = l''])"

lemma rejected_file_overruns:
  "map_option err_code (snd (initializeMemoryConfig (Some overrun_ini))) = Some MEMORY_INI_INVALID_RANGE"
  "plan_pages (fst (initializeMemoryConfig (Some overrun_ini))) = Inl Out_Of_Bounds"
  by code_simp+

end
