(* ===== verification/Sys_Config_Spec.thy ===== *)
theory Sys_Config_Spec
  imports Sys_Config Memory_Map_Spec
begin

text \<open>
  What \<open>/system.ini\<close> can lead to: whatever the file holds, the tables that \<open>setup()\<close> goes on with are
  within their bounds and have a default configuration that can be booted.
\<close>

section \<open>Well-formed tables\<close>

definition entry_ok :: "cartridge list \<Rightarrow> config_entry \<Rightarrow> bool" where
  "entry_ok cs e \<longleftrightarrow> unat (cartIndex e) < length cs \<and> cart_defined (cs ! unat (cartIndex e)) \<and>
     unat (entry_context e) < NUM_CONTEXTS"

definition profile_ok :: "cartridge list \<Rightarrow> profile \<Rightarrow> bool" where
  "profile_ok cs p \<longleftrightarrow> length (contextDefined p) = NUM_CONTEXTS \<and> length (entries p) \<le> MAX_PER_CONFIG \<and>
     (\<forall>e\<in>set (entries p). entry_ok cs e) \<and>
     length (prof_name p) \<le> MAX_NAME_LENGTH \<and> length (prof_memory p) \<le> MAX_NAME_LENGTH"

definition sys_ok :: "sys_config \<Rightarrow> bool" where
  "sys_ok t \<longleftrightarrow> length (cartridges t) = MAX_CART \<and> length (configs t) = MAX_CONFIG \<and>
     (\<forall>c\<in>set (cartridges t). length (cart_name c) \<le> MAX_NAME_LENGTH \<and> length (cart_file c) \<le> MAX_FILE_LENGTH) \<and>
     (\<forall>p\<in>set (configs t). profile_ok (cartridges t) p) \<and> length (defaultName t) \<le> MAX_NAME_LENGTH"

definition state_ok :: "sys_state \<Rightarrow> sys_config \<Rightarrow> bool" where
  "state_ok st t \<longleftrightarrow> (case st of
     CARTRIDGE i \<Rightarrow> i < MAX_CART
   | CONFIG i \<Rightarrow> i < MAX_CONFIG
   | CONFIG_CONTEXT i ctx \<Rightarrow> i < MAX_CONFIG \<and> unat ctx < NUM_CONTEXTS
   | _ \<Rightarrow> True)"

lemma sys_ok_reset: "sys_ok resetTables"
  by (simp add: sys_ok_def resetTables_def no_cartridge_def no_profile_def profile_ok_def)

lemma sys_ok_config:
  assumes "sys_ok t" and "i < MAX_CONFIG" and "profile_ok (cartridges t) (f (configs t ! i))"
  shows "sys_ok (update_config i f t)"
  using assms by (auto simp: sys_ok_def update_config_def dest!: in_update)

lemma sys_ok_nth: "sys_ok t \<Longrightarrow> i < MAX_CONFIG \<Longrightarrow> profile_ok (cartridges t) (configs t ! i)"
  using nth_mem by (auto simp: sys_ok_def)

text \<open>A cartridge may get a name or a file; what is defined stays defined.\<close>

lemma sys_ok_cartridge:
  assumes "sys_ok t" and "length (cart_name c) \<le> MAX_NAME_LENGTH" and "length (cart_file c) \<le> MAX_FILE_LENGTH"
    and "cart_defined (cartridges t ! i) \<Longrightarrow> cart_defined c"
  shows "sys_ok (t\<lparr>cartridges := (cartridges t)[i := c]\<rparr>)"
proof -
  have "entry_ok ((cartridges t)[i := c]) e" if "entry_ok (cartridges t) e" for e
    using that assms(4) by (cases "unat (cartIndex e) = i") (auto simp: entry_ok_def)
  then have "profile_ok ((cartridges t)[i := c]) p" if "p \<in> set (configs t)" for p
    using assms(1) that by (auto simp: sys_ok_def profile_ok_def)
  with assms(1-3) show ?thesis by (auto simp: sys_ok_def dest!: in_update)
qed

lemma copyName_le [simp]: "length (copyName s) \<le> MAX_NAME_LENGTH"
  by (simp add: copyName_def)

lemma copyFile_le [simp]: "length (copyFile s) \<le> MAX_FILE_LENGTH"
  by (simp add: copyFile_def)

section \<open>Every line keeps them\<close>

definition keeps_sys :: "ini_error + (sys_state \<times> sys_config) \<Rightarrow> bool" where
  "keeps_sys r \<longleftrightarrow> (\<forall>st t. r = Inr (st, t) \<longrightarrow> sys_ok t \<and> state_ok st t)"

lemma keeps_sys_simps [simp]:
  "keeps_sys (Inl e)"
  "keeps_sys (Inr (st, t)) \<longleftrightarrow> sys_ok t \<and> state_ok st t"
  by (simp_all add: keeps_sys_def)

lemma load_token_ok:
  assumes "sys_ok t" and "i < MAX_CONFIG" and "unat ctx < NUM_CONTEXTS" and "load_token i ctx line raw t = Inr t'"
  shows "sys_ok t'"
proof -
  obtain k where k: "findCartridge (trim_line raw) t = Some k" and len: "length (entries (configs t ! i)) < MAX_PER_CONFIG"
    and t': "t' = update_config i (\<lambda>p. p\<lparr>entries := entries p @ [\<lparr>cartIndex = of_nat k, entry_context = ctx\<rparr>]\<rparr>) t"
    using assms(4) by (auto simp: load_token_def Let_def split: if_splits option.splits)
  have "k < length (cartridges t)" "cart_defined (cartridges t ! k)"
    using find_index_at(1,2) [OF k [unfolded findCartridge_def]] by simp_all
  moreover have "length (cartridges t) = 16" using assms(1) by (simp add: sys_ok_def MAX_CART_def)
  ultimately have "entry_ok (cartridges t) \<lparr>cartIndex = of_nat k, entry_context = ctx\<rparr>"
    using assms(3) by (simp add: entry_ok_def unat_of_nat)
  with sys_ok_nth [OF assms(1,2)] len show ?thesis
    unfolding t' by (intro sys_ok_config [OF assms(1,2)]) (auto simp: profile_ok_def)
qed

lemma parseLoadList_ok:
  assumes "sys_ok t" and "i < MAX_CONFIG" and "unat ctx < NUM_CONTEXTS" and "parseLoadList val i ctx line t = Inr t'"
  shows "sys_ok t'"
proof -
  have "each (load_token i ctx line) ts t = Inr t' \<Longrightarrow> sys_ok t \<Longrightarrow> sys_ok t'" for ts t
    by (induction ts arbitrary: t) (auto dest: load_token_ok [OF _ assms(2,3)] split: sum.splits)
  with assms show ?thesis by (simp add: parseLoadList_def)
qed

lemma parseContextStrict_bound: "parseContextStrict s = Some v \<Longrightarrow> unat v < NUM_CONTEXTS"
  by (auto simp: parseContextStrict_def NUM_CONTEXTS_def unsigned_of_int take_bit_int_eq_self split: option.splits if_splits prod.splits)

lemma cartridge_section_ok:
  assumes "sys_ok t"
  shows "keeps_sys (cartridge_section line raw t)"
proof (cases "find_index_from 0 (\<lambda>c. \<not> cart_defined c) (cartridges t)")
  case (Some i)
  note i = find_index_at(1,2) [OF Some]
  then have "length (cart_file (cartridges t ! i)) \<le> MAX_FILE_LENGTH" and "i < MAX_CART"
    using assms nth_mem by (auto simp: sys_ok_def)
  then show ?thesis
    using sys_ok_cartridge [OF assms] Some i by (simp add: cartridge_section_def Let_def state_ok_def)
qed (simp add: cartridge_section_def Let_def)

lemma config_section_ok:
  assumes "sys_ok t"
  shows "keeps_sys (config_section line raw t)"
proof (cases "find_index_from 0 (\<lambda>c. \<not> prof_defined c) (configs t)")
  case (Some i)
  then have i: "i < MAX_CONFIG" using find_index_at(1) [OF Some] assms by (simp add: sys_ok_def)
  then show ?thesis
    using sys_ok_config [OF assms i] sys_ok_nth [OF assms i] Some
    by (simp add: config_section_def Let_def state_ok_def profile_ok_def)
qed (simp add: config_section_def Let_def)

lemma context_of_config_ok:
  assumes "sys_ok t"
  shows "keeps_sys (context_of_config line name ctx t)"
proof (cases "findConfig (trim_line name) t")
  case (Some i)
  then have i: "i < MAX_CONFIG" using find_index_at(1) [OF Some [unfolded findConfig_def]] assms by (simp add: sys_ok_def)
  then show ?thesis
    using sys_ok_config [OF assms i] sys_ok_nth [OF assms i] Some
    by (simp add: context_of_config_def Let_def state_ok_def profile_ok_def parseContextStrict_bound split: option.split)
qed (simp add: context_of_config_def Let_def split: option.split)

lemma sys_section_ok: "sys_ok t \<Longrightarrow> keeps_sys (sys_section line text t)"
  by (simp add: sys_section_def Let_def state_ok_def cartridge_section_ok config_section_ok context_of_config_ok)

lemma sys_key_ok:
  assumes "sys_ok t" and "state_ok st t" and "sys_key line key val st t = Inr t'"
  shows "sys_ok t'"
proof (cases st)
  case (CARTRIDGE i)
  then have "i < length (cartridges t)" using assms(1,2) by (simp add: state_ok_def sys_ok_def)
  then have "length (cart_name (cartridges t ! i)) \<le> MAX_NAME_LENGTH"
    using assms(1) nth_mem by (auto simp: sys_ok_def)
  with CARTRIDGE assms sys_ok_cartridge [OF assms(1)] show ?thesis
    by (auto simp: sys_key_def split: if_splits)
next
  case (CONFIG i)
  then have i: "i < MAX_CONFIG" using assms(2) by (simp add: state_ok_def)
  with CONFIG assms sys_ok_config [OF assms(1) i] sys_ok_nth [OF assms(1) i] show ?thesis
    by (auto simp: sys_key_def profile_ok_def split: if_splits)
next
  case (CONFIG_CONTEXT i ctx)
  with assms parseLoadList_ok show ?thesis by (auto simp: sys_key_def state_ok_def split: if_splits)
qed (use assms in \<open>auto simp: sys_key_def sys_ok_def split: if_splits\<close>)

lemma sys_line_ok:
  assumes "sys_ok t" and "state_ok st t"
  shows "keeps_sys (sys_line line raw st t)"
  using assms sys_key_ok [OF assms] by (auto simp: sys_line_def Let_def sys_section_ok state_ok_def split: sum.split sys_state.splits)

lemma sys_lines_ok:
  "sys_lines n inp st t = Inr (k, t') \<Longrightarrow> sys_ok t \<Longrightarrow> state_ok st t \<Longrightarrow> sys_ok t'"
proof (induction n inp st t rule: sys_lines.induct)
  case (1 n inp st t)
  have "keeps_sys (sys_line (Suc n) (fst (read_line inp)) st t)" by (rule sys_line_ok [OF "1.prems"(2,3)])
  show ?case
  proof (cases "inp = []")
    case True
    with "1.prems" show ?thesis by (simp add: sys_lines.simps)
  next
    case False
    then obtain st' t1 where step: "sys_line (Suc n) (fst (read_line inp)) st t = Inr (st', t1)"
      and rest: "sys_lines (Suc n) (snd (read_line inp)) st' t1 = Inr (k, t')"
      using "1.prems"(1) by (subst (asm) sys_lines.simps) (auto split: sum.splits)
    with \<open>keeps_sys _\<close> "1.IH" [OF False step refl rest] show ?thesis by simp
  qed
qed

section \<open>A bootable profile\<close>

definition bootable :: "profile \<Rightarrow> cartridge list \<Rightarrow> bool" where
  "bootable p cs \<longleftrightarrow> prof_defined p \<and> length (entries p) \<in> {1..MAX_PER_CONFIG} \<and>
     (\<forall>e\<in>set (entries p). unat (cartIndex e) < MAX_CART \<and> unat (entry_context e) < NUM_CONTEXTS \<and>
        cart_defined (cs ! unat (cartIndex e)) \<and> cart_file (cs ! unat (cartIndex e)) \<noteq> [])"


lemma fallback_bootable: "bootable (configs loadFallbackProfile ! 0) (cartridges loadFallbackProfile)"
  by code_simp

lemma parseSystemIni_ok:
  assumes "parseSystemIni exists mc inp = Inr t"
  shows "sys_ok t" and "0 \<le> defaultConfig t" and "defaultConfig t < int MAX_CONFIG"
    and "p \<in> set (configs t) \<Longrightarrow> prof_defined p \<Longrightarrow> bootable p (cartridges t)"
    and "prof_defined (configs t ! nat (defaultConfig t))"
    and "prof_memory (configs t ! nat (defaultConfig t)) = active_model mc"
    and "c \<in> set (cartridges t) \<Longrightarrow> cart_defined c \<Longrightarrow> cart_file c \<noteq> [] \<and> exists (''/system/'' @ cart_file c)"
proof -
  obtain k t0 where read: "sys_lines 0 inp NONE resetTables = Inr (k, t0)"
    and carts: "first_error (check_cartridge exists) (cartridges t0) = None"
    and profs: "first_error check_profile (configs t0) = None"
    and default: "resolve_default t0 = Inr t"
    and valid: "\<not> defaultConfig t < 0" "validateSystemAgainstMemoryConfig mc t = None"
    using assms by (auto simp: parseSystemIni_def split: sum.splits option.splits if_splits)
  have ok0: "sys_ok t0" using sys_lines_ok [OF read sys_ok_reset] by (simp add: state_ok_def)
  have same: "cartridges t = cartridges t0" "configs t = configs t0" "defaultName t = defaultName t0"
    using default by (auto simp: resolve_default_def split: if_splits option.splits)
  show ok: "sys_ok t" using ok0 same by (simp add: sys_ok_def)
  show "0 \<le> defaultConfig t" "defaultConfig t < int MAX_CONFIG" "prof_defined (configs t ! nat (defaultConfig t))"
    "prof_memory (configs t ! nat (defaultConfig t)) = active_model mc"
    using valid by (auto simp: validateSystemAgainstMemoryConfig_def Let_def split: if_splits)
  show c: "cart_file c \<noteq> [] \<and> exists (''/system/'' @ cart_file c)" if "c \<in> set (cartridges t)" "cart_defined c" for c
  proof -
    have "check_cartridge exists c = None" using carts that(1) same by (simp add: first_error_None)
    with that(2) show ?thesis by (simp add: check_cartridge_def split: if_splits)
  qed
  show "bootable p (cartridges t)" if p: "p \<in> set (configs t)" "prof_defined p"
  proof -
    have "check_profile p = None" using profs p(1) same by (simp add: first_error_None)
    then have "entries p \<noteq> []" using p(2) by (auto simp: check_profile_def split: if_splits)
    moreover have "profile_ok (cartridges t) p" "length (cartridges t) = MAX_CART" using ok p(1) by (auto simp: sys_ok_def)
    ultimately show ?thesis
      using p(2) c by (auto simp: bootable_def profile_ok_def entry_ok_def Suc_le_eq)
  qed
qed

lemma initialize_cases:
  "(\<exists>s t. ini = Some s \<and> parseSystemIni exists mc s = Inr t \<and> initializeSystemConfig exists mc ini = (t, True)) \<or>
   initializeSystemConfig exists mc ini = (loadFallbackProfile, False)"
  by (cases ini) (auto simp: initializeSystemConfig_def split: sum.split)

lemma fallback_default:
  "defaultConfig loadFallbackProfile = 0" "prof_defined (configs loadFallbackProfile ! 0)"
  by code_simp+

lemma initialize_default:
  assumes "t = fst (initializeSystemConfig exists mc ini)"
  shows "0 \<le> defaultConfig t" and "defaultConfig t < int MAX_CONFIG" and "prof_defined (configs t ! nat (defaultConfig t))"
  using initialize_cases [of ini exists mc] parseSystemIni_ok(2,3,5) fallback_default
  unfolding assms by (auto simp: MAX_CONFIG_def)

text \<open>
  C15: Whatever \<open>/system.ini\<close> holds, and with it missing or rejected, \<open>initializeSystemConfig\<close> ends with
  tables from which the system can be booted: the default configuration exists and every defined
  configuration has between 1 and 64 entries, each naming a defined cartridge with a file and a context
  the MMU has. If the file is accepted, the default configuration was written for the active memory model and all
  cartridge files exist.
\<close>

theorem system_profile_bootable:
  "let (t, accepted) = initializeSystemConfig exists mc ini in
     0 \<le> defaultConfig t \<and> defaultConfig t < int MAX_CONFIG \<and>
     prof_defined (configs t ! nat (defaultConfig t)) \<and>
     (\<forall>p\<in>set (configs t). prof_defined p \<longrightarrow> bootable p (cartridges t)) \<and>
     (accepted \<longrightarrow> prof_memory (configs t ! nat (defaultConfig t)) = active_model mc \<and>
        (\<forall>c\<in>set (cartridges t). cart_defined c \<longrightarrow> exists (''/system/'' @ cart_file c)))"
proof (cases "\<exists>s t. ini = Some s \<and> parseSystemIni exists mc s = Inr t")
  case True
  then obtain s t where s: "ini = Some s" "parseSystemIni exists mc s = Inr t" by blast
  with parseSystemIni_ok [OF s(2)] show ?thesis by (simp add: initializeSystemConfig_def)
next
  case False
  then have "initializeSystemConfig exists mc ini = (loadFallbackProfile, False)"
    by (cases ini) (auto simp: initializeSystemConfig_def split: sum.split)
  moreover have "configs loadFallbackProfile = configs loadFallbackProfile ! 0 # replicate 15 no_profile"
    by code_simp
  then have "\<forall>p\<in>set (configs loadFallbackProfile). prof_defined p \<longrightarrow> p = configs loadFallbackProfile ! 0"
    by (metis in_set_replicate no_profile_def profile.select_convs(3) set_ConsD)
  ultimately show ?thesis
    using fallback_bootable by (auto simp: loadFallbackProfile_def [of] MAX_CONFIG_def bootable_def)
qed


text \<open>A file for the memory model of \<open>duo_ini\<close>, with the version and the second context left open.\<close>

definition duo_sys_ini :: "string \<Rightarrow> string \<Rightarrow> string" where
  "duo_sys_ini v x = concat (map (\<lambda>l. l @ [newline])
     [''[system]'', ''version = '' @ v, ''[cartridge.bios]'', ''file = bios.rom ; BIOS'', ''[cartridge.os]'', ''file = os.rom'',
      ''[config.main]'', ''memory = duo'', ''[config.main.context.0]'', ''load = bios, os'',
      ''[config.main.context.'' @ x @ '']'', ''load = bios''])"

definition duo_sys :: "string \<Rightarrow> string \<Rightarrow> sys_config \<times> bool" where
  "duo_sys v x = initializeSystemConfig (\<lambda>p. p \<in> {''/system/bios.rom'', ''/system/os.rom''}) duo_config (Some (duo_sys_ini v x))"

lemma duo_sys_entries:
  "snd (duo_sys ''1'' ''1'')"
  "map (\<lambda>e. (cartIndex e, entry_context e)) (entries (configs (fst (duo_sys ''1'' ''1'')) ! 0)) = [(0, 0), (1, 0), (0, 1)]"
  by code_simp+

theorem system_profile_bootable_witness:
  "prof_memory (configs (fst (duo_sys ''1'' ''1'')) ! nat (defaultConfig (fst (duo_sys ''1'' ''1'')))) = ''duo''"
  using system_profile_bootable [of "\<lambda>p. p \<in> {''/system/bios.rom'', ''/system/os.rom''}" duo_config "Some (duo_sys_ini ''1'' ''1'')"]
    duo_sys_entries(1) [unfolded duo_sys_def]
  by (simp add: duo_sys_def duo_config_def split: prod.splits)

text \<open>
  The version is cut to eight bits before it is compared, so version 257 passes for version 1; and the
  context of an entry is checked against the 128 contexts of the MMU, not against those of the memory
  model, so that an entry for context 20 passes where the model has two.
\<close>

lemma version_cut: "snd (duo_sys ''257'' ''1'')" and version_refused: "\<not> snd (duo_sys ''2'' ''1'')"
  by code_simp+

lemma context_of_no_model: "snd (duo_sys ''1'' ''20'')"
  by code_simp

end
