(* ===== verification/Rom_Spec.thy ===== *)
theory Rom_Spec
  imports Rom Sys_Config_Spec
begin

text \<open>
  What loading cartridges leaves in memory: the image of each accepted file, in the order of the
  configuration, each under its context.
\<close>

section \<open>Bytes in the memory of a context\<close>

fun pokes :: "u8 \<Rightarrow> u16 \<Rightarrow> u8 list \<Rightarrow> ref \<Rightarrow> ref" where
  "pokes c a [] h = h"
| "pokes c a (v # vs) h = pokes c (a + 1) vs (poke c a v h)"

lemma pokes_append: "pokes c a (vs @ ws) h = pokes c (a + of_nat (length vs)) ws (pokes c a vs h)"
  by (induction vs arbitrary: a h) (simp_all add: add.assoc)

lemma mmu_ram_poke [simp]: "mmu_ram (poke c a v h) = mmu_ram h"
  by (simp add: poke_def)

lemma mmu_ram_pokes [simp]: "mmu_ram (pokes c a vs h) = mmu_ram h"
  by (induction vs arbitrary: a h) simp_all

lemma cell_pokes: "pages_inj h c \<Longrightarrow> cell (pokes c a vs h) c = store_bytes a vs (cell h c)"
proof (induction vs arbitrary: a h)
  case (Cons v vs)
  have "pages_inj (poke c a v h) c" using Cons.prems pages_inj_cong [of "poke c a v h" h] by simp
  moreover have "cell (poke c a v h) c = (cell h c)(a := v)"
    using cell_poke_inj [OF Cons.prems, of a v] by auto
  ultimately show ?case
    using Cons.IH [of "poke c a v h" "a + 1"] by (simp only: pokes.simps store_bytes.simps)
qed simp

text \<open>\<open>loading c h m\<close>: the machine is in the boot state under context \<open>c\<close> and its memory is that of \<open>h\<close>.\<close>

definition loading :: "u8 \<Rightarrow> ref \<Rightarrow> ref machine \<Rightarrow> bool" where
  "loading c h m \<longleftrightarrow> machine_ok m \<and> gSysState m = sBOOT \<and> gCurrentContext m = uint c \<and>
     mmu_ram (hw m) = mmu_ram h \<and> ram (hw m) = ram h"

lemma loadingD:
  assumes "loading c h m"
  shows "machine_ok m" and "rpi_owns m" and "bus_ok m" and "ctx_reg (hw m) = c"
  using assms by (auto simp: loading_def rpi_owns_def machine_ok_def bus_ok_def)

lemma write_loading:
  assumes "loading c h m"
  shows "loading c (poke c a v h) (exec (write6502Memory (ref_board cpu) a v) m)"
  using assms machine_ok_written [OF loadingD(1) [OF assms], of a v] loadingD(4) [OF assms]
  unfolding write6502Memory_ref [OF loadingD(1,2) [OF assms]] loading_def
  by (simp add: written_def poke_def latched_def phys_page_def)

lemma select_loading:
  assumes "loading c h m"
  shows "loading d h (exec (setMMUContext (ref_board cpu) d) m)"
proof -
  note s = setMMUContext_spec [OF loadingD(3) [OF assms], of cpu d]
  have "in_row (exec (setMMUContext (ref_board cpu) d) m) = in_row m"
    using s(4,10) by (intro in_row_cong) (simp_all add: frame_of_def)
  with assms s show ?thesis unfolding loading_def machine_ok_def by (simp add: frame_of_def)
qed

lemma low_bits_add: "take_bit 16 (take_bit 32 x + take_bit 32 y) = take_bit 16 (x + y :: int)"
proof -
  have "take_bit 16 (take_bit 32 x + take_bit 32 y) =
      take_bit 16 (take_bit 16 (take_bit 32 x) + take_bit 16 (take_bit 32 y))" by (simp only: take_bit_add)
  then show ?thesis by (simp add: take_bit_add)
qed

lemma low_half_add: "ucast (x + y :: u32) = (ucast x + ucast y :: u16)"
  by transfer (simp add: low_bits_add take_bit_add)

lemma low_half_up: "ucast (ucast a :: u32) = (a :: u16)"
  by transfer simp

lemma low_half_nat: "ucast (of_nat n :: u32) = (of_nat n :: u16)"
  by transfer simp

lemma chunk_address: "ucast (ucast (a :: u16) + of_nat n + of_nat i :: u32) = a + of_nat n + (of_nat i :: u16)"
  by (simp add: low_half_add low_half_nat low_half_up)

lemma write_chunk_loading:
  assumes "loading c h m"
  shows "loading c (pokes c (a + of_nat n) vs h) (exec (write_chunk (ref_board cpu) a n vs) m)"
proof -
  have "loading c (pokes c x vs h) (exec (for_each [0..<length vs] (\<lambda>i. write6502Memory (ref_board cpu) (x + of_nat i) (vs ! i))) m)"
    if "loading c h m" for x h m
    using that
  proof (induction vs arbitrary: x h m)
    case (Cons v vs)
    from Cons.IH [OF write_loading [OF Cons.prems, where v = v and a = x and cpu = cpu], of "x + 1"]
    show ?case unfolding upt_nth_shift by simp
  qed simp
  from this [OF assms] show ?thesis unfolding write_chunk_def chunk_address .
qed

section \<open>A cartridge\<close>

text \<open>
  The bytes the file delivers after the header, chunk by chunk, and whether it delivered all.
\<close>

function delivered :: "lfs_file \<Rightarrow> nat \<Rightarrow> nat \<Rightarrow> u8 list \<times> bool" where
  "delivered f n k =
     (if k < n then
        let req = min (n - k) LOAD_CHUNK_SIZE; bs = file_read f (ROM_HEADER_SIZE + k) req in
        if length bs \<noteq> req then ([], False)
        else (bs @ fst (delivered f n (k + req)), snd (delivered f n (k + req)))
      else ([], True))"
  by pat_completeness auto

termination delivered
  by (relation "measure (\<lambda>(_, n, k). n - k)") (auto simp: LOAD_CHUNK_SIZE_def Let_def)

declare delivered.simps [simp del]

lemma load_loop_loading:
  assumes "loading c h m"
  shows "val_of (load_loop (ref_board cpu) f a n k) m = snd (delivered f n k)"
    and "loading c (pokes c (a + of_nat k) (fst (delivered f n k)) h) (exec (load_loop (ref_board cpu) f a n k) m)"
  using assms
proof (induction f n k arbitrary: h m rule: delivered.induct)
  case (1 f n k)
  let ?req = "min (n - k) LOAD_CHUNK_SIZE"
  let ?bs = "file_read f (ROM_HEADER_SIZE + k) ?req"
  have req: "(if n - k < LOAD_CHUNK_SIZE then n - k else LOAD_CHUNK_SIZE) = ?req" by simp
  note run = load_loop.simps [of "ref_board cpu" f a n k] delivered.simps [of f n k]
  have both: "val_of (load_loop (ref_board cpu) f a n k) m = snd (delivered f n k) \<and>
      loading c (pokes c (a + of_nat k) (fst (delivered f n k)) h) (exec (load_loop (ref_board cpu) f a n k) m)"
    if l: "loading c h m" for h m
  proof (cases "k < n \<and> length ?bs = ?req")
    case True
    note w = write_chunk_loading [OF l, where a = a and n = k and vs = ?bs and cpu = cpu]
    note ih = "1.IH" [OF _ refl refl _ w]
    from ih True show ?thesis
      unfolding run req Let_def by (simp add: pokes_append add.assoc)
  next
    case False
    with l show ?thesis unfolding run req Let_def by auto
  qed
  {
    case 1 then show ?case using both by blast
  next
    case 2 then show ?case using both by blast
  }
qed


definition vector_bytes :: "rom_header \<Rightarrow> (u16 \<times> u8 list) list" where
  "vector_bytes hdr =
     (if ROM_TYPE hdr AND 0x01 \<noteq> 0 then [(0xFFFA, [NMI_L hdr, NMI_H hdr])] else []) @
     (if ROM_TYPE hdr AND 0x02 \<noteq> 0 then [(0xFFFC, [RESET_L hdr, RESET_H hdr])] else []) @
     (if ROM_TYPE hdr AND 0x04 \<noteq> 0 then [(0xFFFE, [IRQ_L hdr, IRQ_H hdr])] else [])"

definition with_vectors :: "u8 \<Rightarrow> rom_header \<Rightarrow> ref \<Rightarrow> ref" where
  "with_vectors c hdr = fold (\<lambda>(a, vs). pokes c a vs) (vector_bytes hdr)"

lemma vectors_loading:
  assumes "loading c h m"
  shows "loading c (with_vectors c hdr h) (exec (installROMVectors (ref_board cpu) hdr) m)"
proof -
  have pair: "loading c (pokes c a [v, w] h)
      (exec (write6502Memory (ref_board cpu) (a + 1) w) (exec (write6502Memory (ref_board cpu) a v) m))"
    if "loading c h m" for a v w h m
    using write_loading [OF write_loading [OF that]] by simp
  have step: "loading c (fold (\<lambda>(a, vs). pokes c a vs) (if b then [(a, [v, w])] else []) h)
      (if b then exec (write6502Memory (ref_board cpu) (a + 1) w) (exec (write6502Memory (ref_board cpu) a v) m) else m)"
    if "loading c h m" for a v w h m b
    using pair [OF that] that by simp
  show ?thesis
    unfolding with_vectors_def vector_bytes_def fold_append comp_def
    using step [OF step [OF step [OF assms, where a = "0xFFFA"], where a = "0xFFFC"], where a = "0xFFFE"]
    by (simp add: installROMVectors_def del: fold_simps cong: if_cong)
qed

text \<open>What a file is to memory: the header, the load address and the delivered bytes, if it is accepted.\<close>

definition rom_image :: "lfs_file \<Rightarrow> (rom_header \<times> u16 \<times> u8 list \<times> bool) option" where
  "rom_image f =
     (let bs = file_read f 0 ROM_HEADER_SIZE in
      if file_size f < ROM_HEADER_SIZE \<or> length bs \<noteq> ROM_HEADER_SIZE then None
      else case validateROMHeader (header_of bs) of
          None \<Rightarrow> None
        | Some (a, n) \<Rightarrow>
            if file_size f \<noteq> ROM_HEADER_SIZE + unat n then None
            else Some (header_of bs, a, delivered f (unat n) 0))"

definition load_effect :: "u8 \<Rightarrow> lfs_file option \<Rightarrow> ref \<Rightarrow> bool \<times> ref" where
  "load_effect c file h =
     (case Option.bind file rom_image of
        None \<Rightarrow> (False, h)
      | Some (hdr, a, bs, ok) \<Rightarrow> (ok, if ok then with_vectors c hdr (pokes c a bs h) else pokes c a bs h))"

lemma load_file_loading:
  fixes cpu :: cpu and fs :: lfs and path :: string
  assumes "loading c h m"
  defines "p \<equiv> loadROMCartridgeFile (ref_board cpu) fs path"
  shows "val_of p m = fst (load_effect c (fs path) h)" and "loading c (snd (load_effect c (fs path) h)) (exec p m)"
proof -
  have "val_of p m = fst (load_effect c (fs path) h) \<and> loading c (snd (load_effect c (fs path) h)) (exec p m)"
  proof (cases "Option.bind (fs path) rom_image")
    case None
    with assms(1) show ?thesis
      by (auto simp: p_def loadROMCartridgeFile_def load_effect_def rom_image_def Let_def split: option.splits if_splits)
  next
    case (Some r)
    then obtain f hdr a n where f: "fs path = Some f" and r: "r = (hdr, a, delivered f (unat n) 0)"
      and size: "\<not> file_size f < ROM_HEADER_SIZE" "length (file_read f 0 ROM_HEADER_SIZE) = ROM_HEADER_SIZE"
      and hdr: "hdr = header_of (file_read f 0 ROM_HEADER_SIZE)" "validateROMHeader hdr = Some (a, n)"
      and len: "file_size f = ROM_HEADER_SIZE + unat n"
      by (auto simp: rom_image_def Let_def bind_eq_Some_conv split: if_splits option.splits)
    note l = load_loop_loading [OF assms(1), where cpu = cpu and f = f and a = a and n = "unat n" and k = 0]
    have p: "p = do { ok \<leftarrow> load_loop (ref_board cpu) f a (unat n) 0;
        if ok then do { installROMVectors (ref_board cpu) hdr; ret True } else ret False }"
      using f size hdr(2) len by (simp add: p_def loadROMCartridgeFile_def hdr(1) [symmetric])
    show ?thesis
      using l vectors_loading [OF l(2)] Some r by (cases "delivered f (unat n) 0") (simp add: p load_effect_def)
  qed
  then show "val_of p m = fst (load_effect c (fs path) h)" "loading c (snd (load_effect c (fs path) h)) (exec p m)"
    by blast+
qed


section \<open>Files that read well\<close>

definition stores :: "lfs_file \<Rightarrow> u8 list \<Rightarrow> bool" where
  "stores f bs \<longleftrightarrow> file_size f = length bs \<and> (\<forall>p n. file_read f p n = take n (drop p bs))"

lemma delivered_all:
  assumes "stores f bs" and "length bs = ROM_HEADER_SIZE + n" and "k \<le> n"
  shows "delivered f n k = (drop (ROM_HEADER_SIZE + k) bs, True)"
  using assms
proof (induction f n k rule: delivered.induct)
  case (1 f n k)
  let ?req = "min (n - k) LOAD_CHUNK_SIZE"
  let ?bs = "file_read f (ROM_HEADER_SIZE + k) ?req"
  show ?case
  proof (cases "k < n")
    case True
    have bs: "?bs = take ?req (drop (ROM_HEADER_SIZE + k) bs)" using "1.prems"(1) by (simp add: stores_def)
    then have "length ?bs = ?req" using "1.prems"(2) True by simp
    moreover have "k + ?req \<le> n" using True unfolding min_def by presburger
    moreover have "delivered f n (k + ?req) = (drop (ROM_HEADER_SIZE + (k + ?req)) bs, True)"
      using calculation by (intro "1.IH" [OF True refl refl _ "1.prems"(1,2)]) simp_all
    moreover have "?bs @ drop (ROM_HEADER_SIZE + (k + ?req)) bs = drop (ROM_HEADER_SIZE + k) bs"
      unfolding bs using append_take_drop_id [of ?req "drop (ROM_HEADER_SIZE + k) bs"] by (simp add: ac_simps)
    ultimately show ?thesis using True by (subst delivered.simps) (simp add: Let_def)
  next
    case False
    then show ?thesis using "1.prems" by (subst delivered.simps) simp
  qed
qed

lemma image_stored:
  assumes "stores f bs" and "validateROMHeader (header_of bs) = Some (a, n)" and "length bs = ROM_HEADER_SIZE + unat n"
  shows "rom_image f = Some (header_of bs, a, drop ROM_HEADER_SIZE bs, True)"
proof -
  have "header_of (take ROM_HEADER_SIZE bs) = header_of bs" by (simp add: header_of_def ROM_HEADER_SIZE_def)
  then show ?thesis
    using assms delivered_all [OF assms(1,3), of 0] by (simp add: rom_image_def stores_def Let_def)
qed

text \<open>The bytes of the vectors over those of the image.\<close>

definition vectored :: "rom_header \<Rightarrow> (u16 \<Rightarrow> u8) \<Rightarrow> u16 \<Rightarrow> u8" where
  "vectored hdr = fold (\<lambda>(a, vs). store_bytes a vs) (vector_bytes hdr)"

lemma cell_with_vectors:
  assumes "pages_inj h c"
  shows "cell (with_vectors c hdr h) c = vectored hdr (cell h c)"
proof -
  have "cell (fold (\<lambda>(a, vs). pokes c a vs) xs h) c = fold (\<lambda>(a, vs). store_bytes a vs) xs (cell h c)"
    if "pages_inj h c" for xs h
    using that
  proof (induction xs arbitrary: h)
    case (Cons x xs)
    obtain a vs where x: "x = (a, vs)" by (cases x)
    have "pages_inj (pokes c a vs h) c" using Cons.prems pages_inj_cong [of "pokes c a vs h" h] by simp
    from Cons.IH [OF this] cell_pokes [OF Cons.prems] show ?case by (simp add: x)
  qed simp
  with assms show ?thesis by (simp add: with_vectors_def vectored_def)
qed

context neo_bus
begin

lemma sim_write_chunk [sim_rules]: "sim view (write_chunk bd a n vs) (write_chunk (ref_board cpu) a n vs)"
  unfolding write_chunk_def by (intro sim_rules)

lemma sim_load_loop [sim_rules]: "sim view (load_loop bd f a n k) (load_loop (ref_board cpu) f a n k)"
proof (induction "n - k" arbitrary: k rule: less_induct)
  case less
  show ?case
  proof (cases "k < n")
    case True
    then have "n - (k + (if n - k < LOAD_CHUNK_SIZE then n - k else LOAD_CHUNK_SIZE)) < n - k"
      unfolding LOAD_CHUNK_SIZE_def by presburger
    note ih = less [OF this]
    show ?thesis unfolding load_loop.simps [where offset = k] Let_def by (intro sim_rules ih)
  next
    case False
    then show ?thesis by (simp add: load_loop.simps sim_ret)
  qed
qed

lemma sim_installROMVectors [sim_rules]: "sim view (installROMVectors bd hdr) (installROMVectors (ref_board cpu) hdr)"
  unfolding installROMVectors_def by (intro sim_rules)

lemma sim_loadROM [sim_rules]:
  "sim view (loadROMCartridgeFile bd fs path) (loadROMCartridgeFile (ref_board cpu) fs path)"
  unfolding loadROMCartridgeFile_def Let_def
  by (auto intro!: sim_rules split: option.split prod.split)

lemma sim_load_entries [sim_rules]: "sim view (load_entries bd fs t es) (load_entries (ref_board cpu) fs t es)"
  by (induction es) (auto simp: load_entry_def intro!: sim_rules)

lemma sim_boot [sim_rules]:
  "sim view (bootSystemWithMenu bd fs mc t ls) (bootSystemWithMenu (ref_board cpu) fs mc t ls)"
  unfolding bootSystemWithMenu_def activateConfiguration_def by (intro sim_rules)

end


section \<open>Properties\<close>

text \<open>
  C39: A cartridge file that LittleFS reads without error, with a valid header and the length the header
  says, is loaded: the memory of the context then holds the payload from the load address on, in all chunk
  sizes, and over it the vectors the header asks for; nothing else of the context changes.
\<close>

theorem cartridge_loaded:
  assumes "neo_bus bd view cpu" and "loading c h (absm view m)" and "pages_inj h c"
    and "fs path = Some f" and "stores f bs" and "validateROMHeader (header_of bs) = Some (a, n)"
    and "length bs = ROM_HEADER_SIZE + unat n"
  shows "let m' = exec (loadROMCartridgeFile bd fs path) m in
    val_of (loadROMCartridgeFile bd fs path) m \<and>
    cell (view (hw m')) c = vectored (header_of bs) (store_bytes a (drop ROM_HEADER_SIZE bs) (cell h c))"
proof -
  note s = simD [OF neo_bus.sim_loadROM [OF assms(1), of fs path], of m]
  note l = load_file_loading [OF assms(2), where cpu = cpu and fs = fs and path = path]
  have e: "load_effect c (fs path) h = (True, with_vectors c (header_of bs) (pokes c a (drop ROM_HEADER_SIZE bs) h))"
    using image_stored [OF assms(5-7)] by (simp add: load_effect_def assms(4))
  have inj: "pages_inj (pokes c a (drop ROM_HEADER_SIZE bs) h) c"
    using assms(3) pages_inj_cong [of "pokes c a (drop ROM_HEADER_SIZE bs) h" h] by simp
  have "cell (view (hw (exec (loadROMCartridgeFile bd fs path) m))) =
      cell (hw (exec (loadROMCartridgeFile (ref_board cpu) fs path) (absm view m)))"
    unfolding s(1) [symmetric] by simp
  also have "\<dots> = cell (with_vectors c (header_of bs) (pokes c a (drop ROM_HEADER_SIZE bs) h))"
    using l(2) by (simp add: e loading_def cell_def phys_page_def fun_eq_iff)
  finally show ?thesis
    using l(1) unfolding Let_def s(2) by (simp add: e cell_with_vectors [OF inj] cell_pokes [OF assms(3)])
qed

definition sample_rom :: "u8 list" where
  "sample_rom = [0x5A, 1, 1, 0x00, 0xF0, 3, 0, 2, 0, 0, 0x00, 0xF0, 0, 0, 0xE5, 0xA5, 0xA9, 0x42, 0x60]"

definition sample_file :: lfs_file where
  "sample_file = \<lparr>file_size = length sample_rom, file_read = (\<lambda>p n. take n (drop p sample_rom))\<rparr>"

lemma sample_stores: "stores sample_file sample_rom"
  by (simp add: stores_def sample_file_def)

lemma sample_header:
  "validateROMHeader (header_of sample_rom) = Some (0xF000, 3)"
  "vectored (header_of sample_rom) (store_bytes 0xF000 (drop ROM_HEADER_SIZE sample_rom) (\<lambda>_. 0)) 0xF001 = 0x42"
  "vectored (header_of sample_rom) (store_bytes 0xF000 (drop ROM_HEADER_SIZE sample_rom) (\<lambda>_. 0)) 0xFFFD = 0xF0"
  "length sample_rom = ROM_HEADER_SIZE + unat (3 :: u16)"
  by code_simp+

lemma powered_up_loading: "loading 0 (hw (powered_up id)) (powered_up id)" and powered_up_inj: "pages_inj (hw (powered_up id)) 0"
proof -
  show "loading 0 (hw (powered_up id)) (powered_up id)"
    using powered_up_ok [of id] bring_up_ref(6) [where cpu = id and h = cold_board]
    by (simp add: loading_def powered_up_def)
  show "pages_inj (hw (powered_up id)) 0"
    using powered_up_table [of _ _ id] by (intro default_pages_inj) simp
qed

theorem cartridge_loaded_witness:
  "cell (hw (exec (loadROMCartridgeFile (ref_board id) (\<lambda>_. Some sample_file) ''/x'') (powered_up id))) 0 =
   vectored (header_of sample_rom) (store_bytes 0xF000 (drop ROM_HEADER_SIZE sample_rom) (cell (hw (powered_up id)) 0))"
  using cartridge_loaded [where m = "powered_up id" and cpu = id and fs = "\<lambda>_. Some sample_file" and path = "''/x''",
      OF ref_contract _ powered_up_inj _ sample_stores sample_header(1,4)] powered_up_loading
  by (simp add: Let_def)

lemma delivered_length: "length (fst (delivered f n k)) \<le> n - k"
proof (induction f n k rule: delivered.induct)
  case (1 f n k)
  show ?case
  proof (cases "k < n")
    case True
    from "1.IH" [OF True refl refl] show ?thesis
      using True by (subst delivered.simps) (auto simp: Let_def min_def)
  qed (subst delivered.simps, simp)
qed

text \<open>
  C40: A load that fails, because the file is missing, short, not a cartridge, of another length or
  unreadable part way through, has changed at most bytes of the range the accepted header names: vectors
  outside it are never installed from an incomplete cartridge.
\<close>

theorem failed_load_confined:
  assumes "neo_bus bd view cpu" and "loading c h (absm view m)" and "pages_inj h c"
    and "\<not> val_of (loadROMCartridgeFile bd fs path) m"
    and "\<forall>f a n. fs path = Some f \<and> validateROMHeader (header_of (file_read f 0 ROM_HEADER_SIZE)) = Some (a, n) \<longrightarrow>
       (\<forall>k<unat n. x \<noteq> a + of_nat k)"
  shows "cell (view (hw (exec (loadROMCartridgeFile bd fs path) m))) c x = cell h c x"
proof -
  note s = simD [OF neo_bus.sim_loadROM [OF assms(1), of fs path], of m]
  note l = load_file_loading [OF assms(2), where cpu = cpu and fs = fs and path = path]
  have fail: "\<not> fst (load_effect c (fs path) h)" using assms(4) l(1) unfolding s(2) by simp
  have "cell (snd (load_effect c (fs path) h)) c x = cell h c x"
  proof (cases "Option.bind (fs path) rom_image")
    case None
    then show ?thesis by (simp add: load_effect_def)
  next
    case (Some r)
    then obtain f a n where f: "fs path = Some f" and r: "r = (header_of (file_read f 0 ROM_HEADER_SIZE), a, delivered f (unat n) 0)"
      and v: "validateROMHeader (header_of (file_read f 0 ROM_HEADER_SIZE)) = Some (a, n)"
      by (auto simp: rom_image_def Let_def bind_eq_Some_conv split: if_splits option.splits)
    let ?bs = "fst (delivered f (unat n) 0)"
    have "snd (load_effect c (fs path) h) = pokes c a ?bs h"
      using fail Some r by (cases "delivered f (unat n) 0") (simp add: load_effect_def split: if_splits)
    moreover have "store_bytes a ?bs (cell h c) x = cell h c x"
    proof (rule store_bytes_other)
      fix k assume "k < length ?bs"
      then have "k < unat n" using delivered_length [of f "unat n" 0] by simp
      with assms(5) f v show "x \<noteq> a + of_nat k" by blast
    qed
    ultimately show ?thesis by (simp add: cell_pokes [OF assms(3)])
  qed
  moreover have "cell (view (hw (exec (loadROMCartridgeFile bd fs path) m))) =
      cell (hw (exec (loadROMCartridgeFile (ref_board cpu) fs path) (absm view m)))"
    unfolding s(1) [symmetric] by simp
  moreover have "\<dots> = cell (snd (load_effect c (fs path) h))"
    using l(2) by (simp add: loading_def cell_def phys_page_def fun_eq_iff)
  ultimately show ?thesis by simp
qed

text \<open>A file that ends early: the size is right, the read of the payload is not.\<close>

definition broken_file :: lfs_file where
  "broken_file = sample_file\<lparr>file_read := (\<lambda>p n. if p < 16 then take n (drop p sample_rom) else [])\<rparr>"

theorem failed_load_confined_witness:
  "cell (hw (exec (loadROMCartridgeFile (ref_board id) (\<lambda>_. Some broken_file) ''/x'') (powered_up id))) 0 0xFFFC =
   cell (hw (powered_up id)) 0 0xFFFC"
proof -
  have hdr: "validateROMHeader (header_of (file_read broken_file 0 ROM_HEADER_SIZE)) = Some (0xF000, 3)"
    and fails: "\<not> fst (load_effect 0 (Some broken_file) h)" for h
    by (code_simp, unfold load_effect_def, code_simp)
  have "(\<forall>k<3. (0xFFFC :: u16) \<noteq> 0xF000 + of_nat k)" by (auto simp: less_Suc_eq numeral_3_eq_3)
  then show ?thesis
    using failed_load_confined [where m = "powered_up id" and cpu = id and fs = "\<lambda>_. Some broken_file" and path = "''/x''" and x = "0xFFFC",
        OF ref_contract _ powered_up_inj]
      powered_up_loading load_file_loading(1) [where cpu = id and fs = "\<lambda>_. Some broken_file" and path = "''/x''", OF powered_up_loading] hdr fails
    by simp
qed

end
