(* ===== verification/Boot_Spec.thy ===== *)
theory Boot_Spec
  imports Rom_Spec
begin

text \<open>
  The start of the system from its configuration files: which profile is booted and what memory
  holds when the processor is released.
\<close>

text \<open>The memory after the entries of a profile, up to the first that fails.\<close>

fun entries_effect :: "lfs \<Rightarrow> sys_config \<Rightarrow> config_entry list \<Rightarrow> ref \<Rightarrow> bool \<times> ref" where
  "entries_effect fs t [] h = (True, h)"
| "entries_effect fs t (e # es) h =
     (case load_effect (entry_context e) (fs (''/system/'' @ cart_file (cartridges t ! unat (cartIndex e)))) h of
        (ok, h1) \<Rightarrow> if ok then entries_effect fs t es h1 else (False, h1))"

lemma load_entries_loading:
  assumes "loading c h m"
  shows "val_of (load_entries (ref_board cpu) fs t es) m = fst (entries_effect fs t es h)"
    and "\<exists>d. loading d (snd (entries_effect fs t es h)) (exec (load_entries (ref_board cpu) fs t es) m)"
proof -
  have "val_of (load_entries (ref_board cpu) fs t es) m = fst (entries_effect fs t es h) \<and>
      (\<exists>d. loading d (snd (entries_effect fs t es h)) (exec (load_entries (ref_board cpu) fs t es) m))"
    using assms
  proof (induction es arbitrary: c h m)
    case Nil
    then show ?case by auto
  next
    case (Cons e es)
    let ?d = "entry_context e" and ?path = "''/system/'' @ cart_file (cartridges t ! unat (cartIndex e))"
    define m1 where "m1 = exec (setMMUContext (ref_board cpu) ?d) m"
    define m2 where "m2 = exec (loadROMCartridgeFile (ref_board cpu) fs ?path) m1"
    obtain ok h1 where e: "load_effect ?d (fs ?path) h = (ok, h1)" by fastforce
    have l1: "loading ?d h m1" unfolding m1_def by (rule select_loading [OF Cons.prems])
    have run: "val_of (load_entry (ref_board cpu) fs t e) m = ok" "exec (load_entry (ref_board cpu) fs t e) m = m2"
      and l2: "loading ?d h1 m2"
      using load_file_loading [OF l1, where cpu = cpu and fs = fs and path = ?path] e
      by (simp_all add: load_entry_def m1_def [symmetric] m2_def)
    show ?case
      using Cons.IH [OF l2] l2 e run by (cases ok) auto
  qed
  then show "val_of (load_entries (ref_board cpu) fs t es) m = fst (entries_effect fs t es h)"
    "\<exists>d. loading d (snd (entries_effect fs t es h)) (exec (load_entries (ref_board cpu) fs t es) m)" by blast+
qed

lemma activate_loading:
  assumes "loading c h m" and "0 \<le> i" and "i < int MAX_CONFIG" and "prof_defined (configs t ! nat i)"
  shows "val_of (activateConfiguration (ref_board cpu) fs t i) m = fst (entries_effect fs t (entries (configs t ! nat i)) h)"
    and "\<exists>d. loading d (snd (entries_effect fs t (entries (configs t ! nat i)) h))
      (exec (activateConfiguration (ref_board cpu) fs t i) m)"
proof -
  have "exec (set6502State (ref_board cpu) sBOOT) m = m"
    using assms(1) by (simp add: loading_def set6502State_def)
  then show "val_of (activateConfiguration (ref_board cpu) fs t i) m = fst (entries_effect fs t (entries (configs t ! nat i)) h)"
    "\<exists>d. loading d (snd (entries_effect fs t (entries (configs t ! nat i)) h))
      (exec (activateConfiguration (ref_board cpu) fs t i) m)"
    using load_entries_loading [OF assms(1)] assms(2-4) by (simp_all add: activateConfiguration_def)
qed

section \<open>The choice\<close>

lemma selection_valid:
  assumes "0 \<le> defaultConfig t" and "defaultConfig t < int MAX_CONFIG" and "prof_defined (configs t ! nat (defaultConfig t))"
  shows "let i = waitForUserSelection t ls in 0 \<le> i \<and> i < int MAX_CONFIG \<and> prof_defined (configs t ! nat i)"
proof (induction ls)
  case Nil
  with assms show ?case by simp
next
  case (Cons x ls)
  have "buildVisibleConfigList t ! k \<in> set (buildVisibleConfigList t)" if "k < length (buildVisibleConfigList t)" for k
    by (rule nth_mem [OF that])
  then have "buildVisibleConfigList t ! k < MAX_CONFIG \<and> prof_defined (configs t ! (buildVisibleConfigList t ! k))"
    if "k < length (buildVisibleConfigList t)" for k
    using that by (fastforce simp: buildVisibleConfigList_def)
  from this [of "nat (atoi x)"] Cons assms show ?case by (auto simp: Let_def)
qed

definition booted :: "lfs \<Rightarrow> sys_config \<Rightarrow> int \<Rightarrow> ref \<Rightarrow> sys_config \<times> ref" where
  "booted fs t i h =
     (case entries_effect fs t (entries (configs t ! nat i)) h of
        (True, h1) \<Rightarrow> (t, h1)
      | (False, h1) \<Rightarrow> (loadFallbackProfile,
          snd (entries_effect fs loadFallbackProfile (entries (configs loadFallbackProfile ! 0)) h1)))"

text \<open>
  C14: \<open>bootSystemWithMenu\<close>, after whatever \<open>/system.ini\<close> and the lines typed at the menu, boots a defined
  profile: memory then holds the images of its cartridges, loaded in their order into their
  contexts; if one fails, the fallback profile is loaded over what was there. The processor
  is still held, the MMU table is untouched, and the boot context of the memory configuration is selected.
\<close>

theorem boot_loads_profile:
  assumes "neo_bus bd view cpu" and "loading c h (absm view m)"
    and "t = fst (initializeSystemConfig exists mc ini)"
  shows "let i = waitForUserSelection t ls; p = bootSystemWithMenu bd fs mc t ls in
    prof_defined (configs t ! nat i) \<and> val_of p m = fst (booted fs t i h) \<and>
    loading (boot_context mc) (snd (booted fs t i h)) (absm view (exec p m))"
proof -
  let ?i = "waitForUserSelection t ls"
  let ?p = "bootSystemWithMenu (ref_board cpu) fs mc t ls"
  let ?a = "activateConfiguration (ref_board cpu) fs t ?i" and ?m = "absm view m"
  have i: "0 \<le> ?i" "?i < int MAX_CONFIG" "prof_defined (configs t ! nat ?i)"
    using selection_valid [OF initialize_default [OF assms(3)], of ls] by (simp_all add: Let_def)
  note a = activate_loading [OF assms(2) i, where cpu = cpu and fs = fs]
  obtain ok h1 where e: "entries_effect fs t (entries (configs t ! nat ?i)) h = (ok, h1)" by fastforce
  obtain d where l: "loading d h1 (exec ?a ?m)" using a(2) e by auto
  have "val_of ?p ?m = fst (booted fs t ?i h) \<and> loading (boot_context mc) (snd (booted fs t ?i h)) (exec ?p ?m)"
  proof (cases ok)
    case True
    with a(1) e select_loading [OF l] show ?thesis by (simp add: bootSystemWithMenu_def booted_def)
  next
    case False
    have f: "0 \<le> defaultConfig loadFallbackProfile" "defaultConfig loadFallbackProfile < int MAX_CONFIG"
      "prof_defined (configs loadFallbackProfile ! nat (defaultConfig loadFallbackProfile))"
      using fallback_default by (simp_all add: MAX_CONFIG_def)
    obtain d' where "loading d' (snd (entries_effect fs loadFallbackProfile (entries (configs loadFallbackProfile ! 0)) h1))
        (exec (activateConfiguration (ref_board cpu) fs loadFallbackProfile (defaultConfig loadFallbackProfile)) (exec ?a ?m))"
      using activate_loading(2) [OF l f, where cpu = cpu and fs = fs] fallback_default(1) by auto
    from select_loading [OF this, of "boot_context mc" cpu] a(1) e False show ?thesis
      by (simp add: bootSystemWithMenu_def booted_def)
  qed
  with i(3) show ?thesis
    unfolding Let_def simD [OF neo_bus.sim_boot [OF assms(1)]] by blast
qed

definition duo_fs :: lfs where
  "duo_fs path = (if path \<in> {''/system/bios.rom'', ''/system/os.rom''} then Some sample_file else None)"

theorem boot_loads_profile_witness:
  "loading 0 (snd (booted duo_fs (fst (duo_sys ''1'' ''1'')) 0 (hw (powered_up id))))
     (exec (bootSystemWithMenu (ref_board id) duo_fs duo_config (fst (duo_sys ''1'' ''1'')) []) (powered_up id))"
proof -
  have "defaultConfig (fst (duo_sys ''1'' ''1'')) = 0" by code_simp
  moreover have "boot_context duo_config = 0" by (simp add: duo_config_def)
  moreover have "loading 0 (hw (powered_up id)) (absm id (powered_up id))" using powered_up_loading by simp
  ultimately show ?thesis
    using boot_loads_profile [where m = "powered_up id" and cpu = id and fs = duo_fs and ls = "[]" and mc = duo_config,
        OF ref_contract _ duo_sys_def [of "''1''" "''1''", THEN arg_cong [where f = fst]]]
    by (simp add: Let_def)
qed

text \<open>A line that is no number is taken for 0 and boots the first configuration of the menu.\<close>

lemma word_boots_first: "waitForUserSelection (fst (duo_sys ''1'' ''1'')) [''help''] = 0"
  by code_simp

end
