(* ===== verification/Vdu.thy ===== *)
theory Vdu
  imports Prelude
begin

text \<open>
  \<open>vdu.cpp\<close> and \<open>palette.h\<close>: the text terminal on the display. The state is the file's static variables.
  The display (a DVHSTX8 of the Adafruit library) only receives calls; they are recorded in order, so that
  the model says what is drawn and when. \<open>vdu_clock\<close> gives the readings of \<open>millis()\<close>. A read of the text
  buffer outside its rows gives a cell of the memory behind it, \<open>behind\<close>.
\<close>

section \<open>Constants\<close>

definition WIDTH :: nat where "WIDTH = 640"
definition HEIGHT :: nat where "HEIGHT = 480"
definition FONT_CHAR_WIDTH :: nat where "FONT_CHAR_WIDTH = 7"
definition FONT_CHAR_HEIGHT :: nat where "FONT_CHAR_HEIGHT = 19"
definition FONT_CELL_WIDTH :: nat where "FONT_CELL_WIDTH = FONT_CHAR_WIDTH + 1"
definition FONT_CELL_HEIGHT :: nat where "FONT_CELL_HEIGHT = FONT_CHAR_HEIGHT + 1"
definition ROWS :: nat where "ROWS = HEIGHT div FONT_CELL_HEIGHT"
definition COLS :: nat where "COLS = WIDTH div FONT_CELL_WIDTH"
definition FONT_BASELINE_Y :: nat where "FONT_BASELINE_Y = 19"
definition DEFAULT_COLOR :: u8 where "DEFAULT_COLOR = 15"
definition DEFAULT_BG_COLOR :: u8 where "DEFAULT_BG_COLOR = 4"
definition DEFAULT_MODE :: nat where "DEFAULT_MODE = 0"
definition NUMBER_OF_MODES :: nat where "NUMBER_OF_MODES = 10"
definition CURSOR_BLINK_INTERVAL_MS :: u32 where "CURSOR_BLINK_INTERVAL_MS = 400"
definition SCROLL_INTERVAL_MS :: u32 where "SCROLL_INTERVAL_MS = 8"
definition IDX_CURSOR_FG :: u8 where "IDX_CURSOR_FG = 253"
definition IDX_CURSOR_BG :: u8 where "IDX_CURSOR_BG = 254"
definition WHITE :: u8 where "WHITE = 15"
definition YELLOW :: u8 where "YELLOW = 11"
definition VDU_MOUSE_POINTER_WIDTH :: nat where "VDU_MOUSE_POINTER_WIDTH = 10"
definition VDU_MOUSE_POINTER_HEIGHT :: nat where "VDU_MOUSE_POINTER_HEIGHT = 16"
definition VDU_MOUSE_POINTER_COLOR :: u8 where "VDU_MOUSE_POINTER_COLOR = WHITE"
definition VDU_MOUSE_LEFT_BUTTON :: u8 where "VDU_MOUSE_LEFT_BUTTON = 0x01"

lemma screen_size [simp]:
  "FONT_CELL_WIDTH = 8" "FONT_CELL_HEIGHT = 20" "ROWS = 24" "COLS = 80" "WIDTH = 640" "HEIGHT = 480"
  "FONT_BASELINE_Y = 19"
  by (simp_all add: FONT_CELL_WIDTH_def FONT_CHAR_WIDTH_def FONT_CELL_HEIGHT_def FONT_CHAR_HEIGHT_def ROWS_def
      COLS_def WIDTH_def HEIGHT_def FONT_BASELINE_Y_def)

definition default_palette :: "u32 list" where
  "default_palette =
     [
     0x000000, 0x800000, 0x008000, 0x808000, 0x000080, 0x800080, 0x008080, 0xc0c0c0, 0x808080, 0xff0000,
     0x00ff00, 0xffff00, 0x0000ff, 0xff00ff, 0x00ffff, 0xffffff, 0x000000, 0x00005f, 0x000087, 0x0000af,
     0x0000d7, 0x0000ff, 0x005f00, 0x005f5f, 0x005f87, 0x005faf, 0x005fd7, 0x005fff, 0x008700, 0x00875f,
     0x008787, 0x0087af, 0x0087d7, 0x0087ff, 0x00af00, 0x00af5f, 0x00af87, 0x00afaf, 0x00afd7, 0x00afff,
     0x00d700, 0x00d75f, 0x00d787, 0x00d7af, 0x00d7d7, 0x00d7ff, 0x00ff00, 0x00ff5f, 0x00ff87, 0x00ffaf,
     0x00ffd7, 0x00ffff, 0x5f0000, 0x5f005f, 0x5f0087, 0x5f00af, 0x5f00d7, 0x5f00ff, 0x5f5f00, 0x5f5f5f,
     0x5f5f87, 0x5f5faf, 0x5f5fd7, 0x5f5fff, 0x5f8700, 0x5f875f, 0x5f8787, 0x5f87af, 0x5f87d7, 0x5f87ff,
     0x5faf00, 0x5faf5f, 0x5faf87, 0x5fafaf, 0x5fafd7, 0x5fafff, 0x5fd700, 0x5fd75f, 0x5fd787, 0x5fd7af,
     0x5fd7d7, 0x5fd7ff, 0x5fff00, 0x5fff5f, 0x5fff87, 0x5fffaf, 0x5fffd7, 0x5fffff, 0x870000, 0x87005f,
     0x870087, 0x8700af, 0x8700d7, 0x8700ff, 0x875f00, 0x875f5f, 0x875f87, 0x875faf, 0x875fd7, 0x875fff,
     0x878700, 0x87875f, 0x878787, 0x8787af, 0x8787d7, 0x8787ff, 0x87af00, 0x87af5f, 0x87af87, 0x87afaf,
     0x87afd7, 0x87afff, 0x87d700, 0x87d75f, 0x87d787, 0x87d7af, 0x87d7d7, 0x87d7ff, 0x87ff00, 0x87ff5f,
     0x87ff87, 0x87ffaf, 0x87ffd7, 0x87ffff, 0xaf0000, 0xaf005f, 0xaf0087, 0xaf00af, 0xaf00d7, 0xaf00ff,
     0xaf5f00, 0xaf5f5f, 0xaf5f87, 0xaf5faf, 0xaf5fd7, 0xaf5fff, 0xaf8700, 0xaf875f, 0xaf8787, 0xaf87af,
     0xaf87d7, 0xaf87ff, 0xafaf00, 0xafaf5f, 0xafaf87, 0xafafaf, 0xafafd7, 0xafafff, 0xafd700, 0xafd75f,
     0xafd787, 0xafd7af, 0xafd7d7, 0xafd7ff, 0xafff00, 0xafff5f, 0xafff87, 0xafffaf, 0xafffd7, 0xafffff,
     0xd70000, 0xd7005f, 0xd70087, 0xd700af, 0xd700d7, 0xd700ff, 0xd75f00, 0xd75f5f, 0xd75f87, 0xd75faf,
     0xd75fd7, 0xd75fff, 0xd78700, 0xd7875f, 0xd78787, 0xd787af, 0xd787d7, 0xd787ff, 0xd7af00, 0xd7af5f,
     0xd7af87, 0xd7afaf, 0xd7afd7, 0xd7afff, 0xd7d700, 0xd7d75f, 0xd7d787, 0xd7d7af, 0xd7d7d7, 0xd7d7ff,
     0xd7ff00, 0xd7ff5f, 0xd7ff87, 0xd7ffaf, 0xd7ffd7, 0xd7ffff, 0xff0000, 0xff005f, 0xff0087, 0xff00af,
     0xff00d7, 0xff00ff, 0xff5f00, 0xff5f5f, 0xff5f87, 0xff5faf, 0xff5fd7, 0xff5fff, 0xff8700, 0xff875f,
     0xff8787, 0xff87af, 0xff87d7, 0xff87ff, 0xffaf00, 0xffaf5f, 0xffaf87, 0xffafaf, 0xffafd7, 0xffafff,
     0xffd700, 0xffd75f, 0xffd787, 0xffd7af, 0xffd7d7, 0xffd7ff, 0xffff00, 0xffff5f, 0xffff87, 0xffffaf,
     0xffffd7, 0xffffff, 0x080808, 0x121212, 0x1c1c1c, 0x262626, 0x303030, 0x3a3a3a, 0x444444, 0x4e4e4e,
     0x585858, 0x626262, 0x6c6c6c, 0x767676, 0x808080, 0x8a8a8a, 0x949494, 0x9e9e9e, 0xa8a8a8, 0xb2b2b2,
     0xbcbcbc, 0xc6c6c6, 0xd0d0d0, 0xdadada, 0xe4e4e4, 0xeeeeee]"

definition VDU_MOUSE_POINTER_BITMAP :: "u16 list" where
  "VDU_MOUSE_POINTER_BITMAP =
     [0b1000000000, 0b1100000000, 0b1110000000, 0b1111000000, 0b1111100000, 0b1111110000, 0b1111111000,
      0b1111111100, 0b1111111110, 0b1111100000, 0b1101110000, 0b1000110000, 0b0000111000, 0b0000011000,
      0b0000011100, 0b0000000000]"

section \<open>State\<close>

datatype cursor_shape = cBLOCK | cUNDERLINE

record vdu_mode =
  visibleCursor :: bool
  cursorShape :: cursor_shape
  blinkCursor :: bool
  textMode :: bool
  geoAspect :: bool
  autoScroll :: bool
  smooth :: bool
  textWrap :: bool
  localEcho :: bool
  ucaseOnly :: bool
  crlf :: bool
  screenMode :: bool

record cursor_def =
  cur_col :: nat
  cur_row :: nat
  cur_shape :: cursor_shape
  cur_enabled :: bool
  cur_drawn :: bool
  cur_blink_on :: bool

record vdu_cell =
  cell_ch :: u8
  cell_fg :: u8
  cell_bg :: u8

record vdu_mouse =
  m_enabled :: bool
  m_active :: bool
  m_drawn :: bool
  m_x :: int
  m_y :: int
  m_buttons :: u8

text \<open>The calls of the display, and the moves and fills of its frame buffer by byte offset.\<close>

datatype display_op =
    Set_Color u8 u32
  | Set_Text_Color u8 "u8 option"
  | Fill_Rect nat nat nat nat u8
  | Fill_Screen u8
  | Set_Cursor nat nat
  | Write_Char u8
  | Draw_Pixel int int u8
  | Draw_Line nat nat nat nat u8
  | Draw_Rect nat nat nat nat u8
  | Draw_Round_Rect nat nat nat nat nat u8
  | Fill_Round_Rect nat nat nat nat nat u8
  | Draw_Circle nat nat nat u8
  | Draw_Ellipse nat nat nat nat u8
  | Draw_Triangle nat nat nat nat nat nat u8
  | Fill_Triangle nat nat nat nat nat nat u8
  | Move_Buffer nat nat nat
  | Set_Buffer nat u8 nat
  | Set_Font
  | Set_Text_Wrap bool
  | Set_Text_Size nat

record vdu =
  vduMode :: vdu_mode
  gCursor :: cursor_def
  gSaveCursor :: cursor_def
  gScreen :: "vdu_cell list list"
  gInEditmode :: bool
  currentColor :: u8
  currentBGColor :: u8
  gInsertMode :: bool
  gAsScreenMode :: bool
  smoothScroll :: bool
  scrollActive :: bool
  scrollPixel :: nat
  pendingCursorRow :: int
  gMouse :: vdu_mouse
  gMouseVduUpdateDepth :: nat
  blink_reverse :: bool
  blink_last :: u32
  lastScroll :: u32
  vdu_clock :: "nat \<Rightarrow> u32"
  vdu_readings :: nat
  behind :: "nat \<Rightarrow> nat \<Rightarrow> vdu_cell"
  display :: "display_op list"

definition mode_of :: "bool list \<Rightarrow> cursor_shape \<Rightarrow> vdu_mode" where
  "mode_of fs shape = \<lparr>visibleCursor = fs ! 0, cursorShape = shape, blinkCursor = fs ! 1, textMode = fs ! 2,
     geoAspect = fs ! 3, autoScroll = fs ! 4, smooth = fs ! 5, textWrap = fs ! 6, localEcho = fs ! 7,
     ucaseOnly = fs ! 8, crlf = fs ! 9, screenMode = fs ! 10\<rparr>"

definition vduModes :: "vdu_mode list" where
  "vduModes =
     [mode_of [True, True, True, False, True, True, False, False, False, True, True] cBLOCK,
      mode_of [True, True, True, False, True, True, False, False, False, True, True] cUNDERLINE,
      mode_of [True, True, True, False, True, False, False, False, False, True, False] cBLOCK,
      mode_of [True, True, True, False, True, False, False, False, False, True, False] cUNDERLINE,
      mode_of [False, False, True, False, True, False, False, False, False, True, False] cUNDERLINE,
      mode_of [False, False, True, False, False, False, False, False, False, True, False] cUNDERLINE,
      mode_of [False, False, False, False, False, False, False, False, False, True, False] cUNDERLINE,
      mode_of [True, True, True, True, True, False, False, False, False, True, False] cBLOCK,
      mode_of [False, False, False, True, False, False, False, False, False, True, False] cUNDERLINE,
      mode_of [False, False, True, True, False, False, False, False, False, True, False] cUNDERLINE]"

definition draw :: "display_op list \<Rightarrow> vdu \<Rightarrow> vdu" where
  "draw ops s = s\<lparr>display := display s @ ops\<rparr>"

definition vdu_millis :: "vdu \<Rightarrow> u32 \<times> vdu" where
  "vdu_millis s = (vdu_clock s (vdu_readings s), s\<lparr>vdu_readings := vdu_readings s + 1\<rparr>)"

definition cell_at :: "vdu \<Rightarrow> nat \<Rightarrow> nat \<Rightarrow> vdu_cell" where
  "cell_at s row col = (if row < ROWS \<and> col < COLS then gScreen s ! row ! col else behind s row col)"

definition set_cell :: "nat \<Rightarrow> nat \<Rightarrow> vdu_cell \<Rightarrow> vdu \<Rightarrow> vdu" where
  "set_cell row col c s = s\<lparr>gScreen := (gScreen s)[row := (gScreen s ! row)[col := c]]\<rparr>"

definition current_cell :: "u8 \<Rightarrow> vdu \<Rightarrow> vdu_cell" where
  "current_cell c s = \<lparr>cell_ch = c, cell_fg = currentColor s, cell_bg = currentBGColor s\<rparr>"

abbreviation SPACE_CHAR :: u8 where "SPACE_CHAR \<equiv> 0x20"

section \<open>Colours and cells\<close>

definition cellPixelX :: "nat \<Rightarrow> nat" where "cellPixelX col = col * FONT_CELL_WIDTH"
definition cellPixelY :: "nat \<Rightarrow> nat" where "cellPixelY row = row * FONT_CELL_HEIGHT"
definition cellBaselineY :: "nat \<Rightarrow> nat" where "cellBaselineY row = cellPixelY row + FONT_BASELINE_Y"

definition rgb_to_brg :: "u32 \<Rightarrow> u32" where
  "rgb_to_brg rgb =
     (let r = drop_bit 16 rgb AND 0xFF;
          g = drop_bit 8 rgb AND 0xFF;
          b = rgb AND 0xFF
      in push_bit 16 b OR push_bit 8 r OR g)"

definition palette_brg :: "u8 \<Rightarrow> u32" where
  "palette_brg c = rgb_to_brg (default_palette ! unat c)"

definition loadPalette :: "vdu \<Rightarrow> vdu" where
  "loadPalette s =
     draw (map (\<lambda>c. Set_Color (of_nat c) (rgb_to_brg (default_palette ! c))) [0..<256]
       @ [Set_Color IDX_CURSOR_BG (rgb_to_brg (ucast (currentBGColor s))),
          Set_Color IDX_CURSOR_FG (rgb_to_brg (ucast (currentColor s)))]) s"

definition getAsScreenMode :: "vdu \<Rightarrow> bool" where "getAsScreenMode s = gAsScreenMode s"

definition setAsScreenMode :: "bool \<Rightarrow> vdu \<Rightarrow> vdu" where "setAsScreenMode m s = s\<lparr>gAsScreenMode := m\<rparr>"

definition vduSetSmoothscroll :: "bool \<Rightarrow> vdu \<Rightarrow> vdu" where "vduSetSmoothscroll on s = s\<lparr>smoothScroll := on\<rparr>"

definition initTextbuffer :: "vdu \<Rightarrow> vdu" where
  "initTextbuffer s = s\<lparr>gScreen := replicate ROWS (replicate COLS (current_cell SPACE_CHAR s))\<rparr>"

definition setBGColor :: "u8 \<Rightarrow> vdu \<Rightarrow> vdu" where
  "setBGColor c s = draw [Set_Text_Color (currentColor s) (Some c)] (s\<lparr>currentBGColor := c\<rparr>)"

definition setTColor :: "u8 \<Rightarrow> vdu \<Rightarrow> vdu" where
  "setTColor c s = draw [Set_Text_Color c None] (s\<lparr>currentColor := c\<rparr>)"

definition vduDrawCell :: "nat \<Rightarrow> nat \<Rightarrow> vdu \<Rightarrow> vdu" where
  "vduDrawCell col row s =
     (let c = cell_at s row col;
          x = col * FONT_CELL_WIDTH;
          y = row * FONT_CELL_HEIGHT
      in draw (Fill_Rect x y FONT_CELL_WIDTH FONT_CELL_HEIGHT (cell_bg c) #
           (if cell_ch c \<noteq> SPACE_CHAR
            then [Set_Text_Color (cell_fg c) (Some (cell_bg c)), Set_Cursor x (y + FONT_BASELINE_Y),
                  Write_Char (cell_ch c)]
            else [])) s)"

definition vduDrawCellPreservingCursor :: "nat \<Rightarrow> nat \<Rightarrow> vdu \<Rightarrow> vdu" where
  "vduDrawCellPreservingCursor col row s =
     (if \<not> cur_drawn (gCursor s) \<or> col \<noteq> cur_col (gCursor s) \<or> row \<noteq> cur_row (gCursor s)
      then vduDrawCell col row s
      else
        let c = cell_at s row col;
            x = col * FONT_CELL_WIDTH;
            y = row * FONT_CELL_HEIGHT
        in case cur_shape (gCursor s) of
             cBLOCK \<Rightarrow>
               draw ([Set_Text_Color IDX_CURSOR_FG (Some IDX_CURSOR_BG),
                      Fill_Rect x y FONT_CELL_WIDTH FONT_CELL_HEIGHT IDX_CURSOR_BG]
                 @ (if cell_ch c \<noteq> SPACE_CHAR
                    then [Set_Cursor x (y + FONT_BASELINE_Y), Write_Char (cell_ch c)] else [])) s
           | cUNDERLINE \<Rightarrow>
               draw [Fill_Rect x (y + FONT_CELL_HEIGHT - 2) FONT_CELL_WIDTH 2 IDX_CURSOR_BG] (vduDrawCell col row s))"

section \<open>The mouse overlay and the cursor\<close>

definition vduMouseClampCoordinate :: "int \<Rightarrow> int \<Rightarrow> int" where
  "vduMouseClampCoordinate v maximum = (if v < 0 then 0 else if v > maximum then maximum else v)"

definition vduMouseDrawPixel :: "int \<Rightarrow> int \<Rightarrow> u8 \<Rightarrow> vdu \<Rightarrow> vdu" where
  "vduMouseDrawPixel x y c s =
     (if x < 0 \<or> y < 0 \<or> x \<ge> int WIDTH \<or> y \<ge> int HEIGHT then s else draw [Draw_Pixel x y c] s)"

text \<open>The cells under the pointer, row by row. The quotients are cut to eight bits.\<close>

definition pointer_cells :: "vdu_mouse \<Rightarrow> (nat \<times> nat) list" where
  "pointer_cells m =
     (let x0 = max 0 (m_x m);
          y0 = max 0 (m_y m);
          x1 = m_x m + int VDU_MOUSE_POINTER_WIDTH - 1;
          y1 = m_y m + int VDU_MOUSE_POINTER_HEIGHT - 1;
          x1 = (if x1 \<ge> int WIDTH then int WIDTH - 1 else x1);
          y1 = (if y1 \<ge> int HEIGHT then int HEIGHT - 1 else y1);
          col0 = nat (x0 div int FONT_CELL_WIDTH) mod 256;
          row0 = nat (y0 div int FONT_CELL_HEIGHT) mod 256;
          col1 = nat (x1 div int FONT_CELL_WIDTH) mod 256;
          row1 = nat (y1 div int FONT_CELL_HEIGHT) mod 256;
          col1 = (if col1 \<ge> COLS then COLS - 1 else col1);
          row1 = (if row1 \<ge> ROWS then ROWS - 1 else row1)
      in [(row, col). row \<leftarrow> [row0..<row1 + 1], col \<leftarrow> [col0..<col1 + 1]])"

definition vduMouseRedrawUnderlyingText :: "vdu \<Rightarrow> vdu" where
  "vduMouseRedrawUnderlyingText s =
     (if \<not> textMode (vduMode s) then s
      else fold (\<lambda>(row, col). vduDrawCellPreservingCursor col row) (pointer_cells (gMouse s)) s)"

definition vduMouseHideOverlay :: "vdu \<Rightarrow> vdu" where
  "vduMouseHideOverlay s =
     (if \<not> m_drawn (gMouse s) then s
      else let s = vduMouseRedrawUnderlyingText s in s\<lparr>gMouse := (gMouse s)\<lparr>m_drawn := False\<rparr>\<rparr>)"

definition pointer_pixels :: "(nat \<times> nat) list" where
  "pointer_pixels = [(row, col). row \<leftarrow> [0..<VDU_MOUSE_POINTER_HEIGHT], col \<leftarrow> [0..<VDU_MOUSE_POINTER_WIDTH],
     bit (VDU_MOUSE_POINTER_BITMAP ! row) (VDU_MOUSE_POINTER_WIDTH - 1 - col)]"

definition vduMouseDrawOverlay :: "vdu \<Rightarrow> vdu" where
  "vduMouseDrawOverlay s =
     (if \<not> m_enabled (gMouse s) \<or> \<not> m_active (gMouse s) \<or> m_drawn (gMouse s) \<or> \<not> textMode (vduMode s) \<or> scrollActive s
      then s
      else
        let s = fold (\<lambda>(row, col) s. vduMouseDrawPixel (m_x (gMouse s) + int col) (m_y (gMouse s) + int row)
                        VDU_MOUSE_POINTER_COLOR s) pointer_pixels s
        in s\<lparr>gMouse := (gMouse s)\<lparr>m_drawn := True\<rparr>\<rparr>)"

definition vduMouseHideForVduUpdate :: "vdu \<Rightarrow> vdu" where
  "vduMouseHideForVduUpdate s =
     (let depth = gMouseVduUpdateDepth s;
          s = s\<lparr>gMouseVduUpdateDepth := (depth + 1) mod 256\<rparr>
      in if depth = 0 then vduMouseHideOverlay s else s)"

definition vduMouseShowAfterVduUpdate :: "vdu \<Rightarrow> vdu" where
  "vduMouseShowAfterVduUpdate s =
     (if gMouseVduUpdateDepth s = 0 then s
      else
        let s = s\<lparr>gMouseVduUpdateDepth := gMouseVduUpdateDepth s - 1\<rparr>
        in if gMouseVduUpdateDepth s = 0 then vduMouseDrawOverlay s else s)"

definition vduMouseEnable :: "bool \<Rightarrow> vdu \<Rightarrow> vdu" where
  "vduMouseEnable enabled s =
     (let s = vduMouseHideForVduUpdate s;
          s = s\<lparr>gMouse := (gMouse s)\<lparr>m_enabled := enabled\<rparr>\<rparr>
      in vduMouseShowAfterVduUpdate s)"

definition vduMouseIsEnabled :: "vdu \<Rightarrow> bool" where "vduMouseIsEnabled s = m_enabled (gMouse s)"

text \<open>The colours of the cursor's cell, as palette entries of their own.\<close>

definition set_cursor_colors :: "vdu_cell \<Rightarrow> vdu \<Rightarrow> vdu" where
  "set_cursor_colors c s =
     draw [Set_Color IDX_CURSOR_BG (palette_brg (cell_bg c)), Set_Color IDX_CURSOR_FG (palette_brg (cell_fg c))] s"

definition showCursor :: "vdu \<Rightarrow> vdu" where
  "showCursor s =
     (if \<not> cur_enabled (gCursor s) \<or> cur_drawn (gCursor s) then s
      else
        let c = cell_at s (cur_row (gCursor s)) (cur_col (gCursor s));
            x = cur_col (gCursor s) * FONT_CELL_WIDTH;
            y = cur_row (gCursor s) * FONT_CELL_HEIGHT;
            s = set_cursor_colors c s;
            s = (case cur_shape (gCursor s) of
                   cBLOCK \<Rightarrow>
                     draw ([Set_Text_Color IDX_CURSOR_FG (Some IDX_CURSOR_BG),
                            Fill_Rect x y FONT_CELL_WIDTH (FONT_CELL_HEIGHT - 2) IDX_CURSOR_BG]
                       @ (if cell_ch c \<noteq> SPACE_CHAR
                          then [Set_Text_Color IDX_CURSOR_FG (Some IDX_CURSOR_BG),
                                Set_Cursor x (y + FONT_BASELINE_Y), Write_Char (cell_ch c)] else [])) s
                 | cUNDERLINE \<Rightarrow>
                     draw [Set_Text_Color IDX_CURSOR_FG (Some IDX_CURSOR_BG),
                           Fill_Rect x (y + FONT_CELL_HEIGHT - 2) FONT_CELL_WIDTH 2 IDX_CURSOR_BG] s)
        in s\<lparr>gCursor := (gCursor s)\<lparr>cur_drawn := True\<rparr>\<rparr>)"

definition hideCursor :: "vdu \<Rightarrow> vdu" where
  "hideCursor s =
     (if \<not> cur_drawn (gCursor s) then s
      else
        let s = set_cursor_colors (cell_at s (cur_row (gCursor s)) (cur_col (gCursor s))) s;
            s = vduDrawCell (cur_col (gCursor s)) (cur_row (gCursor s)) s
        in s\<lparr>gCursor := (gCursor s)\<lparr>cur_drawn := False\<rparr>\<rparr>)"

definition alterCursor :: "cursor_shape \<Rightarrow> vdu \<Rightarrow> vdu" where
  "alterCursor shape s =
     (if cur_shape (gCursor s) = shape then s
      else
        let s = s\<lparr>gCursor := (gCursor s)\<lparr>cur_shape := shape\<rparr>\<rparr>
        in if cur_enabled (gCursor s) then showCursor (hideCursor s) else s)"

definition setCursor :: "bool \<Rightarrow> vdu \<Rightarrow> vdu" where
  "setCursor visible s =
     (let s = vduMouseHideForVduUpdate s;
          s = (if textMode (vduMode s) then
                 let s = s\<lparr>gCursor := (gCursor s)\<lparr>cur_enabled := visibleCursor (vduMode s)\<rparr>\<rparr>
                 in if visible then showCursor s else hideCursor s
               else s)
      in vduMouseShowAfterVduUpdate s)"

definition moveCursor :: "nat \<Rightarrow> nat \<Rightarrow> vdu \<Rightarrow> vdu" where
  "moveCursor x y s =
     (let s = vduMouseHideForVduUpdate s;
          wasVisible = cur_drawn (gCursor s);
          s = (if wasVisible then hideCursor s else s);
          s = s\<lparr>gCursor := (gCursor s)\<lparr>cur_col := (if x < COLS then x else COLS - 1),
                                       cur_row := (if y < ROWS then y else ROWS - 1)\<rparr>\<rparr>;
          s = (if wasVisible then showCursor s else s)
      in vduMouseShowAfterVduUpdate s)"

definition vduMouseUpdate :: "u8 \<Rightarrow> u8 \<Rightarrow> u8 \<Rightarrow> vdu \<Rightarrow> vdu" where
  "vduMouseUpdate dx dy buttons s =
     (let movement = dx \<noteq> 0 \<or> dy \<noteq> 0;
          buttonsChanged = buttons \<noteq> m_buttons (gMouse s);
          leftClick = buttons AND VDU_MOUSE_LEFT_BUTTON \<noteq> 0 \<and> m_buttons (gMouse s) AND VDU_MOUSE_LEFT_BUTTON = 0
      in if \<not> movement \<and> \<not> buttonsChanged then s
         else
           let s = vduMouseHideForVduUpdate s;
               s = s\<lparr>gMouse := (gMouse s)\<lparr>m_active := True\<rparr>\<rparr>;
               s = (if movement
                    then s\<lparr>gMouse := (gMouse s)\<lparr>
                           m_x := vduMouseClampCoordinate (m_x (gMouse s) + sint dx) (int WIDTH - 1),
                           m_y := vduMouseClampCoordinate (m_y (gMouse s) + sint dy) (int HEIGHT - 1)\<rparr>\<rparr>
                    else s);
               s = s\<lparr>gMouse := (gMouse s)\<lparr>m_buttons := buttons\<rparr>\<rparr>;
               s = (if leftClick \<and> m_enabled (gMouse s) \<and> textMode (vduMode s)
                    then moveCursor (nat (m_x (gMouse s) div int FONT_CELL_WIDTH) mod 65536)
                                    (nat (m_y (gMouse s) div int FONT_CELL_HEIGHT) mod 65536) s
                    else s)
           in vduMouseShowAfterVduUpdate s)"

definition vduSetMode :: "nat \<Rightarrow> vdu \<Rightarrow> vdu" where
  "vduSetMode m s =
     (let s = vduMouseHideForVduUpdate s;
          s = s\<lparr>vduMode := vduModes ! (m mod NUMBER_OF_MODES)\<rparr>;
          s = setAsScreenMode (screenMode (vduMode s)) s;
          s = s\<lparr>smoothScroll := smooth (vduMode s)\<rparr>;
          s = s\<lparr>gCursor := (gCursor s)\<lparr>cur_shape := cursorShape (vduMode s), cur_enabled := visibleCursor (vduMode s),
                                       cur_blink_on := blinkCursor (vduMode s)\<rparr>\<rparr>
      in vduMouseShowAfterVduUpdate s)"

section \<open>Scrolling\<close>

definition vduRedrawLine :: "nat \<Rightarrow> vdu \<Rightarrow> vdu" where
  "vduRedrawLine row s =
     (let y = row * FONT_CELL_HEIGHT in
      draw (Fill_Rect 0 y WIDTH FONT_CELL_HEIGHT (currentBGColor s) #
        concat (map (\<lambda>col. let c = cell_at s row col in
            if cell_ch c \<noteq> SPACE_CHAR
            then [Set_Text_Color (cell_fg c) (Some (cell_bg c)),
                  Set_Cursor (col * FONT_CELL_WIDTH) (y + FONT_BASELINE_Y), Write_Char (cell_ch c)]
            else []) [0..<COLS])) s)"

definition rotate_text :: "vdu \<Rightarrow> vdu" where
  "rotate_text s = s\<lparr>gScreen := tl (gScreen s) @ [replicate COLS (current_cell SPACE_CHAR s)]\<rparr>"

definition take_pending_row :: "vdu \<Rightarrow> vdu" where
  "take_pending_row s =
     (if pendingCursorRow s \<ge> 0
      then s\<lparr>gCursor := (gCursor s)\<lparr>cur_row := nat (pendingCursorRow s) mod 256\<rparr>, pendingCursorRow := -1\<rparr>
      else s)"

definition scrollStep :: "vdu \<Rightarrow> vdu" where
  "scrollStep s =
     (let s = vduMouseHideForVduUpdate s;
          s = draw [Move_Buffer 0 WIDTH (WIDTH * (HEIGHT - 1)),
                    Set_Buffer (WIDTH * (HEIGHT - 1)) (currentBGColor s) WIDTH] s;
          s = s\<lparr>scrollPixel := (scrollPixel s + 1) mod 256\<rparr>;
          s = (if scrollPixel s = FONT_CELL_HEIGHT then
                 let s = s\<lparr>scrollPixel := 0, scrollActive := False\<rparr>;
                     s = rotate_text s;
                     s = take_pending_row s;
                     s = vduRedrawLine (ROWS - 1) s;
                     s = s\<lparr>gCursor := (gCursor s)\<lparr>cur_drawn := False\<rparr>\<rparr>
                 in showCursor s
               else s)
      in vduMouseShowAfterVduUpdate s)"

definition cmdScrollUp :: "vdu \<Rightarrow> vdu" where
  "cmdScrollUp s =
     (let s = vduMouseHideForVduUpdate s;
          s = (if cur_drawn (gCursor s) then hideCursor s else s)
      in if smoothScroll s then vduMouseShowAfterVduUpdate (s\<lparr>scrollPixel := 0, scrollActive := True\<rparr>)
         else
           let s = draw [Move_Buffer 0 (WIDTH * FONT_CELL_HEIGHT) (WIDTH * (HEIGHT - FONT_CELL_HEIGHT)),
                         Set_Buffer (WIDTH * (HEIGHT - FONT_CELL_HEIGHT)) (currentBGColor s) (WIDTH * FONT_CELL_HEIGHT)] s;
               s = rotate_text s;
               s = take_pending_row s;
               s = vduRedrawLine (ROWS - 1) s;
               s = s\<lparr>gCursor := (gCursor s)\<lparr>cur_drawn := False\<rparr>\<rparr>;
               s = showCursor s
           in vduMouseShowAfterVduUpdate s)"

definition vduSaveCursor :: "vdu \<Rightarrow> vdu" where
  "vduSaveCursor s = s\<lparr>gSaveCursor := gCursor s, gInEditmode := True\<rparr>"

definition vduRestoreCursor :: "vdu \<Rightarrow> vdu" where
  "vduRestoreCursor s =
     (if gInEditmode s then
        let s = (if cur_row (gSaveCursor s) = cur_row (gCursor s) then
                   if cur_row (gSaveCursor s) = ROWS - 1
                   then showCursor (moveCursor 0 (ROWS - 1) (cmdScrollUp (hideCursor s)))
                   else moveCursor 0 (cur_row (gSaveCursor s) + 1) s
                 else moveCursor 0 (cur_row (gSaveCursor s)) s)
        in s\<lparr>gInEditmode := False\<rparr>
      else s)"

definition cmdNewline :: "vdu \<Rightarrow> vdu" where
  "cmdNewline s =
     (let s = s\<lparr>gCursor := (gCursor s)\<lparr>cur_col := 0, cur_row := (cur_row (gCursor s) + 1) mod 256\<rparr>\<rparr> in
      if cur_row (gCursor s) \<ge> ROWS then
        if autoScroll (vduMode s)
        then cmdScrollUp (s\<lparr>pendingCursorRow := int (ROWS - 1)\<rparr>)
        else s\<lparr>gCursor := (gCursor s)\<lparr>cur_row := ROWS - 1\<rparr>\<rparr>
      else s)"

definition vduReadc :: "nat \<Rightarrow> nat \<Rightarrow> vdu \<Rightarrow> u8" where
  "vduReadc x y s =
     (if textMode (vduMode s)
      then cell_ch (cell_at s (if y < ROWS then y else ROWS - 1) (if x < COLS then x else COLS - 1))
      else 0)"

section \<open>Editing\<close>

definition vduDisplayClearcell :: "nat \<Rightarrow> nat \<Rightarrow> vdu \<Rightarrow> vdu" where
  "vduDisplayClearcell col row s =
     draw [Fill_Rect (col * FONT_CELL_WIDTH) (row * FONT_CELL_HEIGHT) FONT_CELL_WIDTH FONT_CELL_HEIGHT
             (currentBGColor s)] s"

text \<open>The pixels right of the cursor move by one cell, scan line by scan line.\<close>

definition vduDisplayDeletechar :: "vdu \<Rightarrow> vdu" where
  "vduDisplayDeletechar s =
     (let px = cur_col (gCursor s) * FONT_CELL_WIDTH;
          py = cur_row (gCursor s) * FONT_CELL_HEIGHT;
          move_width = (COLS - cur_col (gCursor s) - 1) * FONT_CELL_WIDTH;
          s = draw (map (\<lambda>y. Move_Buffer (py * WIDTH + px + y * WIDTH) (py * WIDTH + px + FONT_CELL_WIDTH + y * WIDTH) move_width)
                      [0..<FONT_CELL_HEIGHT]) s
      in vduDisplayClearcell (COLS - 1) (cur_row (gCursor s)) s)"

definition vduDisplayInsertspace :: "vdu \<Rightarrow> vdu" where
  "vduDisplayInsertspace s =
     (if cur_col (gCursor s) \<ge> COLS - 1 then s
      else
        let px = cur_col (gCursor s) * FONT_CELL_WIDTH;
            py = cur_row (gCursor s) * FONT_CELL_HEIGHT;
            move_width = (COLS - cur_col (gCursor s) - 1) * FONT_CELL_WIDTH;
            s = draw (map (\<lambda>y. Move_Buffer (py * WIDTH + px + FONT_CELL_WIDTH + y * WIDTH) (py * WIDTH + px + y * WIDTH) move_width)
                        [0..<FONT_CELL_HEIGHT]) s
        in vduDisplayClearcell (cur_col (gCursor s)) (cur_row (gCursor s)) s)"

text \<open>\<open>memmove\<close> of \<open>n\<close> cells of a line.\<close>

definition move_cells :: "nat \<Rightarrow> nat \<Rightarrow> nat \<Rightarrow> 'a list \<Rightarrow> 'a list" where
  "move_cells dst src n line = take dst line @ take n (drop src line) @ drop (dst + n) line"

definition update_line :: "nat \<Rightarrow> (vdu_cell list \<Rightarrow> vdu_cell list) \<Rightarrow> vdu \<Rightarrow> vdu" where
  "update_line row f s = s\<lparr>gScreen := (gScreen s)[row := f (gScreen s ! row)]\<rparr>"

definition vduDeletec :: "vdu \<Rightarrow> vdu" where
  "vduDeletec s =
     (let col = cur_col (gCursor s);
          s = update_line (cur_row (gCursor s)) (move_cells col (col + 1) (COLS - col - 1)) s;
          s = update_line (cur_row (gCursor s)) (\<lambda>line. line[COLS - 1 := current_cell SPACE_CHAR s]) s
      in vduRedrawLine (cur_row (gCursor s)) s)"

definition vduInsertc :: "u8 \<Rightarrow> vdu \<Rightarrow> vdu" where
  "vduInsertc c s =
     (let col = cur_col (gCursor s);
          s = update_line (cur_row (gCursor s)) (move_cells (col + 1) col (COLS - col - 1)) s;
          s = update_line (cur_row (gCursor s)) (\<lambda>line. line[col := current_cell c s]) s
      in vduRedrawLine (cur_row (gCursor s)) s)"

definition vduDisplayc :: "u8 \<Rightarrow> vdu \<Rightarrow> vdu" where
  "vduDisplayc c s =
     (if c \<ge> 0x20 then
        let x = cur_col (gCursor s) * FONT_CELL_WIDTH;
            y = cur_row (gCursor s) * FONT_CELL_HEIGHT;
            s = set_cell (cur_row (gCursor s)) (cur_col (gCursor s)) (current_cell c s) s;
            s = vduDisplayClearcell (cur_col (gCursor s)) (cur_row (gCursor s)) s
        in if c \<noteq> 0x20
           then draw [Set_Text_Color (currentColor s) (Some (currentBGColor s)), Set_Cursor x (y + FONT_BASELINE_Y),
                      Write_Char c] s
           else s
      else s)"

definition cmdCursorLeft :: "vdu \<Rightarrow> vdu" where
  "cmdCursorLeft s =
     (if cur_col (gCursor s) > 0 then s\<lparr>gCursor := (gCursor s)\<lparr>cur_col := cur_col (gCursor s) - 1\<rparr>\<rparr> else s)"

definition cmdCursorRight :: "vdu \<Rightarrow> vdu" where
  "cmdCursorRight s =
     (if cur_col (gCursor s) < COLS - 1 then s\<lparr>gCursor := (gCursor s)\<lparr>cur_col := cur_col (gCursor s) + 1\<rparr>\<rparr> else s)"

definition cmdCursorUp :: "vdu \<Rightarrow> vdu" where
  "cmdCursorUp s =
     (if cur_row (gCursor s) > 0 then s\<lparr>gCursor := (gCursor s)\<lparr>cur_row := cur_row (gCursor s) - 1\<rparr>\<rparr> else s)"

definition cmdCursorDown :: "vdu \<Rightarrow> vdu" where
  "cmdCursorDown s =
     (if cur_row (gCursor s) < ROWS - 1 then s\<lparr>gCursor := (gCursor s)\<lparr>cur_row := cur_row (gCursor s) + 1\<rparr>\<rparr> else s)"

definition cmdCursorBOL :: "vdu \<Rightarrow> vdu" where
  "cmdCursorBOL s = s\<lparr>gCursor := (gCursor s)\<lparr>cur_col := 0\<rparr>\<rparr>"

text \<open>One more than the last column below \<open>n\<close> that holds no space, or 0.\<close>

fun text_end :: "vdu \<Rightarrow> nat \<Rightarrow> nat \<Rightarrow> nat" where
  "text_end s row 0 = 0"
| "text_end s row (Suc c) = (if cell_ch (cell_at s row c) \<noteq> SPACE_CHAR then Suc c else text_end s row c)"

definition cmdCursorEOL :: "vdu \<Rightarrow> vdu" where
  "cmdCursorEOL s =
     (let e = text_end s (cur_row (gCursor s)) COLS
      in s\<lparr>gCursor := (gCursor s)\<lparr>cur_col := (if e \<ge> COLS then COLS - 1 else e)\<rparr>\<rparr>)"

definition cmdDelete :: "vdu \<Rightarrow> vdu" where "cmdDelete s = vduDeletec (vduDisplayDeletechar s)"

definition cmdClearEOL :: "vdu \<Rightarrow> vdu" where
  "cmdClearEOL s =
     fold (\<lambda>c s. vduDisplayClearcell c (cur_row (gCursor s))
                   (set_cell (cur_row (gCursor s)) c (current_cell SPACE_CHAR s) s))
       [cur_col (gCursor s)..<COLS] s"

definition cmdInsertMode :: "vdu \<Rightarrow> vdu" where "cmdInsertMode s = s\<lparr>gInsertMode := True\<rparr>"
definition cmdOverwriteMode :: "vdu \<Rightarrow> vdu" where "cmdOverwriteMode s = s\<lparr>gInsertMode := False\<rparr>"
definition cmdSmoothScroll :: "vdu \<Rightarrow> vdu" where "cmdSmoothScroll s = vduSetSmoothscroll True s"
definition cmdInstantScroll :: "vdu \<Rightarrow> vdu" where "cmdInstantScroll s = vduSetSmoothscroll False s"

definition cmdClearScreen :: "vdu \<Rightarrow> vdu" where
  "cmdClearScreen s =
     (let s = vduMouseHideForVduUpdate s;
          s = hideCursor s;
          s = draw [Fill_Screen (currentBGColor s)] s;
          s = initTextbuffer s;
          s = draw [Set_Color IDX_CURSOR_BG (palette_brg (currentBGColor s)),
                    Set_Color IDX_CURSOR_FG (palette_brg (currentColor s))] s;
          s = moveCursor 0 0 s;
          s = setCursor True s
      in vduMouseShowAfterVduUpdate s)"

definition ctrlTable :: "(vdu \<Rightarrow> vdu) option list" where
  "ctrlTable =
     [None, Some cmdCursorBOL, Some cmdCursorLeft, None, Some cmdDelete, Some cmdCursorEOL, Some cmdCursorRight,
      None, None, Some cmdInsertMode, None, Some cmdClearEOL, Some cmdClearScreen, None, Some cmdCursorDown,
      Some cmdOverwriteMode, Some cmdCursorUp, None, None, None, Some cmdInstantScroll, Some cmdSmoothScroll,
      None, None, None, None, None, None, None, None, None, None]"

section \<open>The task and the output of a character\<close>

definition blink_cursor :: "vdu \<Rightarrow> vdu" where
  "blink_cursor s =
     (if blinkCursor (vduMode s) \<and> cur_drawn (gCursor s) then
        let c = cell_at s (cur_row (gCursor s)) (cur_col (gCursor s));
            fg = (if blink_reverse s then cell_bg c else cell_fg c);
            bg = (if blink_reverse s then cell_fg c else cell_bg c);
            s = draw [Set_Color IDX_CURSOR_BG (palette_brg bg), Set_Color IDX_CURSOR_FG (palette_brg fg)] s
        in s\<lparr>blink_reverse := \<not> blink_reverse s\<rparr>
      else s)"

definition taskVDU :: "vdu \<Rightarrow> vdu" where
  "taskVDU s =
     (let (now, s) = vdu_millis s;
          s = (if scrollActive s \<and> now - lastScroll s \<ge> SCROLL_INTERVAL_MS
               then (scrollStep s)\<lparr>lastScroll := now\<rparr> else s)
      in if scrollActive s then s
         else if now - blink_last s \<ge> CURSOR_BLINK_INTERVAL_MS
         then (blink_cursor s)\<lparr>blink_last := now\<rparr>
         else s)"

text \<open>The wait for the end of a scroll; \<open>None\<close> is a wait without end.\<close>

partial_function (option) wait_scroll :: "vdu \<Rightarrow> vdu option" where
  "wait_scroll s = (if scrollActive s then wait_scroll (taskVDU s) else Some s)"

declare wait_scroll.simps [code]

definition advance_cursor :: "vdu \<Rightarrow> vdu" where
  "advance_cursor s =
     (let s = s\<lparr>gCursor := (gCursor s)\<lparr>cur_col := (cur_col (gCursor s) + 1) mod 256\<rparr>\<rparr> in
      if cur_col (gCursor s) \<ge> COLS then
        if textWrap (vduMode s) then cmdNewline s
        else s\<lparr>gCursor := (gCursor s)\<lparr>cur_col := COLS - 1\<rparr>\<rparr>
      else s)"

definition put_regular :: "u8 \<Rightarrow> vdu \<Rightarrow> vdu" where
  "put_regular c s =
     (if c < 0x20 \<and> gAsScreenMode s then
        (case ctrlTable ! unat c of Some cmd \<Rightarrow> cmd s | None \<Rightarrow> s)
      else
        let s = (if gInsertMode s \<and> gAsScreenMode s then vduInsertc c (vduDisplayInsertspace s) else s);
            s = vduDisplayc c s
        in advance_cursor s)"

definition put_char :: "u8 \<Rightarrow> vdu \<Rightarrow> vdu" where
  "put_char c s =
     (if c = 0 then s
      else if c = 0x0D \<or> c = 0x0A then vduSaveCursor (cmdNewline s)
      else if c = 0x08 \<or> c = 0x7F then
        (if cur_col (gCursor s) > 0 then s\<lparr>gCursor := (gCursor s)\<lparr>cur_col := cur_col (gCursor s) - 1\<rparr>\<rparr> else s)
      else put_regular c s)"

definition put_now :: "u8 \<Rightarrow> vdu \<Rightarrow> vdu" where
  "put_now c s =
     (let s = vduMouseHideForVduUpdate s in
      if \<not> textMode (vduMode s)
      then vduMouseShowAfterVduUpdate (draw [Set_Color (currentColor s) (ucast (currentBGColor s)), Write_Char c] s)
      else vduMouseShowAfterVduUpdate (setCursor True (put_char c (setCursor False s))))"

definition vduPutc :: "u8 \<Rightarrow> vdu \<Rightarrow> vdu option" where
  "vduPutc c s = map_option (put_now c) (wait_scroll s)"

text \<open>The line without its trailing spaces, ended by a zero byte.\<close>

definition vduGetScreenline :: "nat \<Rightarrow> vdu \<Rightarrow> u8 list" where
  "vduGetScreenline row s = map (\<lambda>i. cell_ch (cell_at s row i)) [0..<text_end s row COLS] @ [0]"

definition vduGetCurrentScreenline :: "vdu \<Rightarrow> u8 list" where
  "vduGetCurrentScreenline s = vduGetScreenline (cur_row (gCursor s)) s"

fun vduPrintStr :: "u8 list \<Rightarrow> vdu \<Rightarrow> vdu option" where
  "vduPrintStr [] s = Some s"
| "vduPrintStr (c # cs) s = (case vduPutc c s of None \<Rightarrow> None | Some s' \<Rightarrow> vduPrintStr cs s')"

definition vduPrintBuf :: "u8 list \<Rightarrow> vdu \<Rightarrow> (nat \<times> vdu) option" where
  "vduPrintBuf cs s = map_option (\<lambda>s. (length cs, s)) (vduPrintStr cs s)"

text \<open>\<open>vduPrintf\<close> after formatting: \<open>text\<close> is the complete text, of which the buffer holds 127 bytes and a zero.\<close>

definition vduPrintf :: "u8 list \<Rightarrow> vdu \<Rightarrow> vdu option" where
  "vduPrintf text s =
     (let buf = take 127 text @ [0];
          len = (if length text > 128 then 127 else length text)
      in vduPrintStr (take len buf) s)"

definition resetDisplay :: "nat \<Rightarrow> vdu \<Rightarrow> vdu" where
  "resetDisplay m s =
     (let s = setTColor DEFAULT_COLOR s;
          s = setBGColor DEFAULT_BG_COLOR s;
          s = loadPalette s;
          s = vduSetMode m s;
          s = draw [Set_Font, Set_Text_Wrap (textWrap (vduMode s)), Set_Text_Size 1] s
      in cmdClearScreen s)"

text \<open>The display has started; without it \<open>initVDU\<close> blinks the LED for ever.\<close>

definition initVDU :: "bool \<Rightarrow> vdu \<Rightarrow> vdu option" where
  "initVDU begun s = (if begun then Some (resetDisplay DEFAULT_MODE s) else None)"

text \<open>The start-up text that \<open>initVDU\<close> does not show.\<close>

definition helloDisplay :: "vdu \<Rightarrow> vdu option" where
  "helloDisplay s =
     (let nl = [CHR 0x0A];
          lines =
            [[],
             '' N  N          66  555   00   22'',
             '' N  N         6    5    0  0 2  2'',
             '' NN N         6    5    0  0    2'',
             '' N NN EEE  O  666  555  0  0   2   M   M M   M U   U'',
             '' N  N E   O O 6  6    5 0  0  2    MM MM MM MM U   U'',
             '' N  N EE  O O 6  6    5 0  0 2     M M M M M M U   U'',
             '' N  N E   O O 6  6 5  5 0  0 2     M   M M   M U  UU'',
             '' N  N EEE  O   66   55   00  2222  M   M M   M  UU U'']
      in map_option (setTColor DEFAULT_COLOR)
           (vduPrintStr (map of_char (concat (map (\<lambda>l. l @ nl) lines))) (setTColor YELLOW s)))"

end
