(* ===== verification/Vdu_Terminal.thy ===== *)
theory Vdu_Terminal
  imports Vdu
begin

text \<open>
  The terminal of \<open>vdu.cpp\<close> against an abstract terminal without display, cursor blinking, mouse overlay or
  smooth scrolling: what drawing leaves alone, the invariant, the end of a scroll and the refinement of the
  output of characters.
\<close>

section \<open>What drawing leaves alone\<close>

definition core where
  "core s = (gScreen s, cur_col (gCursor s), cur_row (gCursor s), vduMode s, gSaveCursor s, gInEditmode s,
     currentColor s, currentBGColor s, gInsertMode s, gAsScreenMode s, smoothScroll s, scrollActive s,
     scrollPixel s, pendingCursorRow s, m_x (gMouse s), m_y (gMouse s), lastScroll s, vdu_clock s, vdu_readings s)"

lemma core_sel:
  assumes "core s = core t"
  shows "gScreen s = gScreen t" "cur_col (gCursor s) = cur_col (gCursor t)"
    "cur_row (gCursor s) = cur_row (gCursor t)" "vduMode s = vduMode t" "gSaveCursor s = gSaveCursor t"
    "gInEditmode s = gInEditmode t" "currentColor s = currentColor t" "currentBGColor s = currentBGColor t"
    "gInsertMode s = gInsertMode t" "gAsScreenMode s = gAsScreenMode t" "smoothScroll s = smoothScroll t"
    "scrollActive s = scrollActive t" "scrollPixel s = scrollPixel t" "pendingCursorRow s = pendingCursorRow t"
    "m_x (gMouse s) = m_x (gMouse t)" "m_y (gMouse s) = m_y (gMouse t)" "lastScroll s = lastScroll t"
    "vdu_clock s = vdu_clock t" "vdu_readings s = vdu_readings t"
  using assms by (simp_all add: core_def)

lemma core_draw: "core (draw ops s) = core s"
  by (simp add: core_def draw_def)

lemma core_mouse: "core (s\<lparr>gMouse := (gMouse s)\<lparr>m_drawn := b\<rparr>\<rparr>) = core s"
  "core (s\<lparr>gMouseVduUpdateDepth := d\<rparr>) = core s"
  "core (s\<lparr>gCursor := (gCursor s)\<lparr>cur_drawn := b\<rparr>\<rparr>) = core s"
  "core (s\<lparr>gCursor := (gCursor s)\<lparr>cur_enabled := b\<rparr>\<rparr>) = core s"
  by (simp_all add: core_def)

lemma depth_draw [simp]: "gMouseVduUpdateDepth (draw ops s) = gMouseVduUpdateDepth s"
  by (simp add: draw_def)

lemma draw_cell: "core (vduDrawCell col row s) = core s"
  "gMouseVduUpdateDepth (vduDrawCell col row s) = gMouseVduUpdateDepth s"
  by (simp_all add: vduDrawCell_def Let_def core_draw)

lemma draw_cell_cursor: "core (vduDrawCellPreservingCursor col row s) = core s"
  "gMouseVduUpdateDepth (vduDrawCellPreservingCursor col row s) = gMouseVduUpdateDepth s"
  by (simp_all add: vduDrawCellPreservingCursor_def Let_def core_draw draw_cell split: cursor_shape.split)

lemma core_fold:
  assumes "\<And>x s. core (f x s) = core s \<and> gMouseVduUpdateDepth (f x s) = gMouseVduUpdateDepth s"
  shows "core (fold f xs s) = core s" "gMouseVduUpdateDepth (fold f xs s) = gMouseVduUpdateDepth s"
  using assms by (induction xs arbitrary: s) simp_all

lemma redraw_text: "core (vduMouseRedrawUnderlyingText s) = core s"
  "gMouseVduUpdateDepth (vduMouseRedrawUnderlyingText s) = gMouseVduUpdateDepth s"
  unfolding vduMouseRedrawUnderlyingText_def
  by (auto intro!: core_fold simp: draw_cell_cursor split: prod.split)

lemma hide_overlay: "core (vduMouseHideOverlay s) = core s"
  "gMouseVduUpdateDepth (vduMouseHideOverlay s) = gMouseVduUpdateDepth s"
  by (simp_all add: vduMouseHideOverlay_def Let_def core_mouse redraw_text)

lemma draw_overlay: "core (vduMouseDrawOverlay s) = core s"
  "gMouseVduUpdateDepth (vduMouseDrawOverlay s) = gMouseVduUpdateDepth s"
  unfolding vduMouseDrawOverlay_def Let_def
  by (auto intro!: core_fold simp: core_mouse vduMouseDrawPixel_def core_draw split: prod.split)

lemma hide_for_update: "core (vduMouseHideForVduUpdate s) = core s"
  "gMouseVduUpdateDepth (vduMouseHideForVduUpdate s) = (gMouseVduUpdateDepth s + 1) mod 256"
  by (simp_all add: vduMouseHideForVduUpdate_def Let_def core_mouse hide_overlay)

lemma show_after_update: "core (vduMouseShowAfterVduUpdate s) = core s"
  "gMouseVduUpdateDepth (vduMouseShowAfterVduUpdate s) = gMouseVduUpdateDepth s - 1"
  by (simp_all add: vduMouseShowAfterVduUpdate_def Let_def core_mouse draw_overlay)

lemma cursor_colors: "core (set_cursor_colors c s) = core s"
  "gMouseVduUpdateDepth (set_cursor_colors c s) = gMouseVduUpdateDepth s"
  by (simp_all add: set_cursor_colors_def core_draw)

lemma show_cursor: "core (showCursor s) = core s" "gMouseVduUpdateDepth (showCursor s) = gMouseVduUpdateDepth s"
  by (simp_all add: showCursor_def Let_def core_mouse core_draw cursor_colors split: cursor_shape.split)

lemma hide_cursor: "core (hideCursor s) = core s" "gMouseVduUpdateDepth (hideCursor s) = gMouseVduUpdateDepth s"
  by (simp_all add: hideCursor_def Let_def core_mouse draw_cell cursor_colors)

lemma redraw_line: "core (vduRedrawLine row s) = core s"
  "gMouseVduUpdateDepth (vduRedrawLine row s) = gMouseVduUpdateDepth s"
  by (simp_all add: vduRedrawLine_def Let_def core_draw)

lemma clear_cell: "core (vduDisplayClearcell c r s) = core s"
  "gMouseVduUpdateDepth (vduDisplayClearcell c r s) = gMouseVduUpdateDepth s"
  by (simp_all add: vduDisplayClearcell_def core_draw)

lemma display_delete: "core (vduDisplayDeletechar s) = core s"
  "gMouseVduUpdateDepth (vduDisplayDeletechar s) = gMouseVduUpdateDepth s"
  by (simp_all add: vduDisplayDeletechar_def Let_def core_draw clear_cell)

lemma display_insert: "core (vduDisplayInsertspace s) = core s"
  "gMouseVduUpdateDepth (vduDisplayInsertspace s) = gMouseVduUpdateDepth s"
  by (simp_all add: vduDisplayInsertspace_def Let_def core_draw clear_cell)

lemma set_cursor: "core (setCursor b s) = core s"
  "gMouseVduUpdateDepth s < 255 \<Longrightarrow> gMouseVduUpdateDepth (setCursor b s) = gMouseVduUpdateDepth s"
  by (simp_all add: setCursor_def Let_def core_mouse hide_for_update show_after_update show_cursor hide_cursor)

lemmas drawing [simp] = core_sel [OF core_draw] core_sel [OF draw_cell(1)] core_sel [OF hide_for_update(1)]
  core_sel [OF show_after_update(1)] core_sel [OF show_cursor(1)] core_sel [OF hide_cursor(1)]
  core_sel [OF redraw_line(1)] core_sel [OF clear_cell(1)] core_sel [OF display_delete(1)]
  core_sel [OF display_insert(1)] core_sel [OF set_cursor(1)] draw_cell(2) hide_for_update(2) show_after_update(2)
  show_cursor(2) hide_cursor(2) redraw_line(2) clear_cell(2) display_delete(2) display_insert(2) set_cursor(2)

section \<open>The abstract terminal\<close>

record terminal =
  t_lines :: "vdu_cell list list"
  t_col :: nat
  t_row :: nat
  t_insert :: bool
  t_screen_mode :: bool
  t_fg :: u8
  t_bg :: u8
  t_auto :: bool
  t_wrap :: bool

definition t_cell :: "u8 \<Rightarrow> terminal \<Rightarrow> vdu_cell" where
  "t_cell c t = \<lparr>cell_ch = c, cell_fg = t_fg t, cell_bg = t_bg t\<rparr>"

definition t_scroll :: "terminal \<Rightarrow> vdu_cell list list" where
  "t_scroll t = tl (t_lines t) @ [replicate COLS (t_cell SPACE_CHAR t)]"

definition t_newline :: "terminal \<Rightarrow> terminal" where
  "t_newline t =
     (if t_row t + 1 < ROWS then t\<lparr>t_col := 0, t_row := t_row t + 1\<rparr>
      else if t_auto t then t\<lparr>t_col := 0, t_row := ROWS - 1, t_lines := t_scroll t\<rparr>
      else t\<lparr>t_col := 0, t_row := ROWS - 1\<rparr>)"

definition t_edit :: "(vdu_cell list \<Rightarrow> vdu_cell list) \<Rightarrow> terminal \<Rightarrow> terminal" where
  "t_edit f t = t\<lparr>t_lines := (t_lines t)[t_row t := f (t_lines t ! t_row t)]\<rparr>"

text \<open>The length of a line without its trailing spaces.\<close>

definition text_length :: "vdu_cell list \<Rightarrow> nat" where
  "text_length line = length (dropWhile (\<lambda>c. cell_ch c = SPACE_CHAR) (rev line))"

definition t_advance :: "terminal \<Rightarrow> terminal" where
  "t_advance t =
     (if t_col t + 1 < COLS then t\<lparr>t_col := t_col t + 1\<rparr>
      else if t_wrap t then t_newline t else t\<lparr>t_col := COLS - 1\<rparr>)"

text \<open>The editing keys of the screen mode.\<close>

definition t_control :: "u8 \<Rightarrow> terminal \<Rightarrow> terminal" where
  "t_control c t =
     (if c = 0x01 then t\<lparr>t_col := 0\<rparr>
      else if c = 0x02 then t\<lparr>t_col := t_col t - 1\<rparr>
      else if c = 0x04 then
        t_edit (\<lambda>line. take (t_col t) line @ drop (Suc (t_col t)) line @ [t_cell SPACE_CHAR t]) t
      else if c = 0x05 then t\<lparr>t_col := min (COLS - 1) (text_length (t_lines t ! t_row t))\<rparr>
      else if c = 0x06 then t\<lparr>t_col := min (COLS - 1) (t_col t + 1)\<rparr>
      else if c = 0x09 then t\<lparr>t_insert := True\<rparr>
      else if c = 0x0B then
        t_edit (\<lambda>line. take (t_col t) line @ replicate (COLS - t_col t) (t_cell SPACE_CHAR t)) t
      else if c = 0x0C then
        t\<lparr>t_lines := replicate ROWS (replicate COLS (t_cell SPACE_CHAR t)), t_col := 0, t_row := 0\<rparr>
      else if c = 0x0E then t\<lparr>t_row := min (ROWS - 1) (t_row t + 1)\<rparr>
      else if c = 0x0F then t\<lparr>t_insert := False\<rparr>
      else if c = 0x10 then t\<lparr>t_row := t_row t - 1\<rparr>
      else t)"

definition t_put :: "u8 \<Rightarrow> terminal \<Rightarrow> terminal" where
  "t_put c t =
     (if c = 0 then t
      else if c = 0x0D \<or> c = 0x0A then t_newline t
      else if c = 0x08 \<or> c = 0x7F then t\<lparr>t_col := t_col t - 1\<rparr>
      else if c < 0x20 then (if t_screen_mode t then t_control c t else t_advance t)
      else if t_insert t \<and> t_screen_mode t
      then t_advance (t_edit (\<lambda>line. take (t_col t) line @ t_cell c t # drop (t_col t) (butlast line)) t)
      else t_advance (t_edit (\<lambda>line. line[t_col t := t_cell c t]) t))"

text \<open>The terminal a state stands for: a smooth scroll counts as done from its start.\<close>

definition term_of :: "vdu \<Rightarrow> terminal" where
  "term_of s =
     \<lparr>t_lines = (if scrollActive s then tl (gScreen s) @ [replicate COLS (current_cell SPACE_CHAR s)] else gScreen s),
      t_col = cur_col (gCursor s),
      t_row = (if scrollActive s \<and> pendingCursorRow s \<ge> 0 then nat (pendingCursorRow s) else cur_row (gCursor s)),
      t_insert = gInsertMode s, t_screen_mode = gAsScreenMode s, t_fg = currentColor s, t_bg = currentBGColor s,
      t_auto = autoScroll (vduMode s), t_wrap = textWrap (vduMode s)\<rparr>"

section \<open>The invariant\<close>

definition lines_ok :: "'a list list \<Rightarrow> bool" where
  "lines_ok ls \<longleftrightarrow> length ls = ROWS \<and> (\<forall>l\<in>set ls. length l = COLS)"

definition text_ok :: "vdu \<Rightarrow> bool" where
  "text_ok s \<longleftrightarrow>
     lines_ok (gScreen s) \<and> cur_col (gCursor s) < COLS \<and>
     (cur_row (gCursor s) < ROWS \<or> cur_row (gCursor s) = ROWS \<and> pendingCursorRow s = int (ROWS - 1)) \<and>
     (pendingCursorRow s = -1 \<or> pendingCursorRow s = int (ROWS - 1) \<and> scrollActive s) \<and>
     scrollPixel s < FONT_CELL_HEIGHT \<and>
     0 \<le> m_x (gMouse s) \<and> m_x (gMouse s) < int WIDTH \<and> 0 \<le> m_y (gMouse s) \<and> m_y (gMouse s) < int HEIGHT"

definition vdu_ok :: "vdu \<Rightarrow> bool" where
  "vdu_ok s \<longleftrightarrow> text_ok s \<and> gMouseVduUpdateDepth s = 0"

lemma core_text:
  assumes "core s = core t"
  shows "term_of s = term_of t" "text_ok s = text_ok t"
  using core_sel [OF assms] by (simp_all add: term_of_def text_ok_def current_cell_def)

lemma lines_ok_simps [simp]:
  "lines_ok ls \<Longrightarrow> length ls = 24"
  "lines_ok ls \<Longrightarrow> i < 24 \<Longrightarrow> length (ls ! i) = 80"
  "lines_ok ls \<Longrightarrow> length l = 80 \<Longrightarrow> lines_ok (ls[i := l])"
  "lines_ok ls \<Longrightarrow> length l = 80 \<Longrightarrow> lines_ok (tl ls @ [l])"
  "length l = 80 \<Longrightarrow> lines_ok (replicate 24 l)"
  by (auto simp: lines_ok_def dest!: set_update_subset_insert [THEN subsetD] list.set_sel(2))
    (cases ls; simp)+

section \<open>Scrolling\<close>

lemma scroll_step:
  assumes "vdu_ok s" and "scrollActive s"
  shows "vdu_ok (scrollStep s)" and "term_of (scrollStep s) = term_of s"
    and "scrollActive (scrollStep s) \<longleftrightarrow> scrollPixel s + 1 < FONT_CELL_HEIGHT"
    and "scrollPixel (scrollStep s) = (if scrollPixel s + 1 < FONT_CELL_HEIGHT then scrollPixel s + 1 else 0)"
    and "vdu_clock (scrollStep s) = vdu_clock s" and "vdu_readings (scrollStep s) = vdu_readings s"
    and "vduMode (scrollStep s) = vduMode s"
  using assms
  by (auto simp: vdu_ok_def text_ok_def scrollStep_def Let_def rotate_text_def take_pending_row_def term_of_def
      current_cell_def)

lemma timers:
  "vdu_ok (s\<lparr>lastScroll := w\<rparr>) = vdu_ok s" "term_of (s\<lparr>lastScroll := w\<rparr>) = term_of s"
  "vdu_ok (s\<lparr>blink_last := w\<rparr>) = vdu_ok s" "term_of (s\<lparr>blink_last := w\<rparr>) = term_of s"
  "vdu_ok (s\<lparr>vdu_readings := n\<rparr>) = vdu_ok s" "term_of (s\<lparr>vdu_readings := n\<rparr>) = term_of s"
  by (simp_all add: vdu_ok_def text_ok_def term_of_def current_cell_def)

lemma blink: "core (blink_cursor s) = core s" "gMouseVduUpdateDepth (blink_cursor s) = gMouseVduUpdateDepth s"
  by (simp_all add: blink_cursor_def Let_def core_def draw_def)

lemma vdu_ok_blink: "vdu_ok (blink_cursor s) = vdu_ok s" "term_of (blink_cursor s) = term_of s"
  by (simp_all add: vdu_ok_def core_text [OF blink(1)] blink(2))

lemma task_step:
  assumes "vdu_ok s"
  shows "vdu_ok (taskVDU s)" and "term_of (taskVDU s) = term_of s"
    and "vdu_clock (taskVDU s) = vdu_clock s" and "vdu_readings (taskVDU s) = vdu_readings s + 1"
    and "vduMode (taskVDU s) = vduMode s"
proof -
  let ?s = "s\<lparr>vdu_readings := vdu_readings s + 1\<rparr>"
  have s: "vdu_ok ?s" using assms by (simp add: timers)
  note r = scroll_step [OF s] core_sel [OF blink(1)]
  show "vdu_ok (taskVDU s)" "term_of (taskVDU s) = term_of s"
    "vdu_clock (taskVDU s) = vdu_clock s" "vdu_readings (taskVDU s) = vdu_readings s + 1"
    "vduMode (taskVDU s) = vduMode s"
    using assms r by (simp_all add: taskVDU_def vdu_millis_def Let_def timers vdu_ok_blink)
qed

text \<open>One round while a scroll is on: a step once the interval is over, else nothing.\<close>

lemma task_scrolls:
  assumes "vdu_ok s" and "scrollActive s"
  shows "vdu_clock s (vdu_readings s) - lastScroll s \<ge> SCROLL_INTERVAL_MS \<Longrightarrow>
      scrollActive (taskVDU s) \<longleftrightarrow> scrollPixel s + 1 < FONT_CELL_HEIGHT"
    and "vdu_clock s (vdu_readings s) - lastScroll s \<ge> SCROLL_INTERVAL_MS \<Longrightarrow>
      scrollPixel (taskVDU s) = (if scrollPixel s + 1 < FONT_CELL_HEIGHT then scrollPixel s + 1 else 0)"
    and "vdu_clock s (vdu_readings s) - lastScroll s < SCROLL_INTERVAL_MS \<Longrightarrow>
      taskVDU s = s\<lparr>vdu_readings := vdu_readings s + 1\<rparr>"
proof -
  let ?s = "s\<lparr>vdu_readings := vdu_readings s + 1\<rparr>"
  have s: "vdu_ok ?s" "scrollActive ?s" using assms by (simp_all add: timers)
  note r = scroll_step [OF s] core_sel [OF blink(1)]
  show "vdu_clock s (vdu_readings s) - lastScroll s \<ge> SCROLL_INTERVAL_MS \<Longrightarrow>
      scrollActive (taskVDU s) \<longleftrightarrow> scrollPixel s + 1 < FONT_CELL_HEIGHT"
    "vdu_clock s (vdu_readings s) - lastScroll s \<ge> SCROLL_INTERVAL_MS \<Longrightarrow>
      scrollPixel (taskVDU s) = (if scrollPixel s + 1 < FONT_CELL_HEIGHT then scrollPixel s + 1 else 0)"
    "vdu_clock s (vdu_readings s) - lastScroll s < SCROLL_INTERVAL_MS \<Longrightarrow>
      taskVDU s = s\<lparr>vdu_readings := vdu_readings s + 1\<rparr>"
    using assms(2) r by (auto simp: taskVDU_def vdu_millis_def Let_def)
qed

text \<open>\<open>millis()\<close> counts real milliseconds, and no two readings are more than 24 days apart.\<close>

definition clock_runs :: "(nat \<Rightarrow> u32) \<Rightarrow> bool" where
  "clock_runs c \<longleftrightarrow> (\<exists>t :: nat \<Rightarrow> nat. (\<forall>n. c n = of_nat (t n)) \<and>
     (\<forall>n. t n \<le> t (Suc n) \<and> t (Suc n) - t n < 2 ^ 31) \<and> (\<forall>b. \<exists>n. b < t n))"

lemma short_step: "unat (x :: u32) < 8 \<Longrightarrow> d < 2 ^ 31 \<Longrightarrow> unat (x + of_nat d) = unat x + d"
  by (simp add: unat_word_ariths unat_of_nat)

lemma clock_passes:
  assumes "clock_runs c"
  shows "\<exists>m\<ge>n. c m - w \<ge> SCROLL_INTERVAL_MS"
proof (rule ccontr)
  assume "\<not> ?thesis"
  then have near: "c m - w < 8" if "m \<ge> n" for m
    using that unfolding SCROLL_INTERVAL_MS_def not_le [symmetric] by blast
  obtain t where t: "\<And>n. c n = of_nat (t n)" "\<And>n. t n \<le> t (Suc n)" "\<And>n. t (Suc n) - t n < 2 ^ 31"
    "\<And>b. \<exists>n. b < t n" using assms by (auto simp: clock_runs_def)
  have slow: "t (n + k) + unat (c n - w) = t n + unat (c (n + k) - w)" for k
  proof (induction k)
    case (Suc k)
    have "c (n + Suc k) - w = (c (n + k) - w) + of_nat (t (Suc (n + k)) - t (n + k))"
      using t(2) [of "n + k"] by (simp add: t(1) of_nat_diff)
    then have "unat (c (n + Suc k) - w) = unat (c (n + k) - w) + (t (Suc (n + k)) - t (n + k))"
      using near [of "n + k"] t(3) [of "n + k"] by (simp only: word_less_nat_alt) (rule short_step, simp_all)
    with Suc t(2) [of "n + k"] show ?case by simp
  qed simp
  obtain k where k: "t n + 8 < t k" using t(4) by blast
  have mono: "mono t" by (rule mono_iff_le_Suc [THEN iffD2]) (simp add: t(2))
  have "n \<le> k" by (rule ccontr) (use monoD [OF mono, of k n] k in simp)
  then have "t k + unat (c n - w) = t n + unat (c k - w)" using slow [of "k - n"] by simp
  moreover have "unat (c k - w) < 8" using near [OF \<open>n \<le> k\<close>] by (simp add: word_less_nat_alt)
  ultimately show False using k by simp
qed

lemma wait_until_due:
  assumes "vdu_ok s" and "scrollActive s" and "m \<ge> vdu_readings s"
    and "vdu_clock s m - lastScroll s \<ge> SCROLL_INTERVAL_MS"
  shows "\<exists>s1. wait_scroll s = wait_scroll (taskVDU s1) \<and> vdu_ok s1 \<and> scrollActive s1 \<and> term_of s1 = term_of s \<and>
    vduMode s1 = vduMode s \<and> vdu_clock s1 = vdu_clock s \<and> scrollPixel s1 = scrollPixel s \<and>
    vdu_clock s1 (vdu_readings s1) - lastScroll s1 \<ge> SCROLL_INTERVAL_MS"
  using assms
proof (induction "m - vdu_readings s" arbitrary: s)
  case 0
  then show ?case by (intro exI [of _ s]) (simp add: wait_scroll.simps [of s])
next
  case (Suc d)
  let ?n = "s\<lparr>vdu_readings := vdu_readings s + 1\<rparr>"
  show ?case
  proof (cases "vdu_clock s (vdu_readings s) - lastScroll s < SCROLL_INTERVAL_MS")
    case True
    then have "taskVDU s = ?n" by (rule task_scrolls(3) [OF Suc.prems(1,2)])
    then have "wait_scroll s = wait_scroll ?n" using Suc.prems(2) by (simp add: wait_scroll.simps [of s])
    then show ?thesis using Suc.hyps(1) [of ?n] Suc.hyps(2) Suc.prems by (simp add: timers)
  next
    case False
    then show ?thesis using Suc.prems by (intro exI [of _ s]) (simp add: wait_scroll.simps [of s] not_less)
  qed
qed

lemma wait_scroll_ends:
  assumes "vdu_ok s" and "clock_runs (vdu_clock s)"
  shows "\<exists>s'. wait_scroll s = Some s' \<and> vdu_ok s' \<and> \<not> scrollActive s' \<and> term_of s' = term_of s \<and>
    vduMode s' = vduMode s \<and> vdu_clock s' = vdu_clock s"
  using assms
proof (induction "FONT_CELL_HEIGHT - scrollPixel s" arbitrary: s rule: less_induct)
  case less
  show ?case
  proof (cases "scrollActive s")
    case False
    then show ?thesis using less.prems by (simp add: wait_scroll.simps)
  next
    case True
    obtain m where "m \<ge> vdu_readings s" "vdu_clock s m - lastScroll s \<ge> SCROLL_INTERVAL_MS"
      using clock_passes [OF less.prems(2)] by blast
    then obtain s1 where s1: "wait_scroll s = wait_scroll (taskVDU s1)" "vdu_ok s1" "scrollActive s1"
      "term_of s1 = term_of s" "vduMode s1 = vduMode s" "vdu_clock s1 = vdu_clock s" "scrollPixel s1 = scrollPixel s"
      "vdu_clock s1 (vdu_readings s1) - lastScroll s1 \<ge> SCROLL_INTERVAL_MS"
      using wait_until_due [OF less.prems(1) True] by blast
    note t = task_step [OF s1(2)] task_scrolls(1,2) [OF s1(2,3,8)]
    show ?thesis
    proof (cases "scrollPixel s + 1 < FONT_CELL_HEIGHT")
      case True
      then show ?thesis using less.hyps [of "taskVDU s1"] less.prems t s1 by simp
    next
      case False
      then have "wait_scroll (taskVDU s1) = Some (taskVDU s1)" using t(6) s1(7) by (simp add: wait_scroll.simps)
      then show ?thesis using False t s1 by simp
    qed
  qed
qed

section \<open>Output of a character\<close>

text \<open>A step of the terminal between two scrolls, below the guards that hide the mouse.\<close>

definition idle :: "vdu \<Rightarrow> bool" where
  "idle s \<longleftrightarrow> text_ok s \<and> \<not> scrollActive s \<and> gMouseVduUpdateDepth s < 250"

definition implements :: "(vdu \<Rightarrow> vdu) \<Rightarrow> (terminal \<Rightarrow> terminal) \<Rightarrow> bool" where
  "implements f g \<longleftrightarrow> (\<forall>s. idle s \<longrightarrow> text_ok (f s) \<and> term_of (f s) = g (term_of s) \<and>
     gMouseVduUpdateDepth (f s) = gMouseVduUpdateDepth s \<and> vduMode (f s) = vduMode s \<and> vdu_clock (f s) = vdu_clock s)"

lemmas idle_unfold = idle_def text_ok_def term_of_def current_cell_def

lemma move_delete: "length l = 80 \<Longrightarrow> col < 80 \<Longrightarrow>
    (move_cells col (Suc col) (79 - col) l)[79 := b] = take col l @ drop (Suc col) l @ [b]"
  by (simp add: move_cells_def list_eq_iff_nth_eq nth_append nth_list_update) auto

lemma move_insert: "length l = 80 \<Longrightarrow> col < 80 \<Longrightarrow>
    (move_cells (Suc col) col (79 - col) l)[col := c] = take col l @ c # drop col (butlast l)"
  by (auto simp: move_cells_def list_eq_iff_nth_eq nth_append nth_list_update nth_Cons nth_butlast split: nat.split
      intro: arg_cong [where f = "nth l"])

lemma text_end_length:
  assumes "row < 24" and "n \<le> 80" and "length (gScreen s ! row) = 80"
  shows "text_end s row n = length (dropWhile (\<lambda>c. cell_ch c = SPACE_CHAR) (rev (take n (gScreen s ! row))))"
  using assms(2)
  by (induction n) (use assms in \<open>simp_all add: cell_at_def take_Suc_conv_app_nth\<close>)

lemma text_length_le: "length l = 80 \<Longrightarrow> text_length l \<le> 80"
  unfolding text_length_def using length_dropWhile_le [of _ "rev l"] by simp

lemma text_length_take: "length l = 80 \<Longrightarrow> row < 24 \<Longrightarrow> gScreen s ! row = l \<Longrightarrow> text_end s row 80 = text_length l"
  by (simp add: text_end_length text_length_def)

lemma scroll_up:
  assumes "lines_ok (gScreen s)" and "cur_col (gCursor s) < 80" and "\<not> scrollActive s"
    and "cur_row (gCursor s) = 24" and "pendingCursorRow s = 23" and "gMouseVduUpdateDepth s < 250"
    and "scrollPixel s < 20" and "0 \<le> m_x (gMouse s)" "m_x (gMouse s) < 640" "0 \<le> m_y (gMouse s)" "m_y (gMouse s) < 480"
  shows "text_ok (cmdScrollUp s)" and "gMouseVduUpdateDepth (cmdScrollUp s) = gMouseVduUpdateDepth s"
    and "vduMode (cmdScrollUp s) = vduMode s" and "vdu_clock (cmdScrollUp s) = vdu_clock s"
    and "term_of (cmdScrollUp s) = (term_of s)\<lparr>t_row := 23, t_lines := t_scroll (term_of s)\<rparr>"
  using assms
  by (auto simp: text_ok_def cmdScrollUp_def Let_def rotate_text_def take_pending_row_def term_of_def
      current_cell_def t_scroll_def t_cell_def)

lemma newline_implements: "implements cmdNewline t_newline"
  unfolding implements_def
proof (intro allI impI)
  fix s
  assume s: "idle s"
  let ?s = "s\<lparr>gCursor := (gCursor s)\<lparr>cur_col := 0, cur_row := (cur_row (gCursor s) + 1) mod 256\<rparr>\<rparr>"
  show "text_ok (cmdNewline s) \<and> term_of (cmdNewline s) = t_newline (term_of s) \<and>
     gMouseVduUpdateDepth (cmdNewline s) = gMouseVduUpdateDepth s \<and> vduMode (cmdNewline s) = vduMode s \<and>
     vdu_clock (cmdNewline s) = vdu_clock s"
  proof (cases "cur_row (gCursor s) = 23 \<and> autoScroll (vduMode s)")
    case True
    let ?p = "?s\<lparr>pendingCursorRow := 23\<rparr>"
    have "cmdNewline s = cmdScrollUp ?p" using True by (simp add: cmdNewline_def)
    then show ?thesis using s True scroll_up [of ?p]
      by (simp add: idle_unfold t_newline_def t_scroll_def t_cell_def)
  next
    case False
    then show ?thesis using s by (auto simp: cmdNewline_def idle_unfold t_newline_def Let_def)
  qed
qed

lemma clear_columns:
  assumes "cur_row (gCursor s) = row" and "row < 24" and "lines_ok (gScreen s)" and "col \<le> k" and "k \<le> 80"
  defines "f \<equiv> \<lambda>c s. vduDisplayClearcell c (cur_row (gCursor s)) (set_cell (cur_row (gCursor s)) c (current_cell SPACE_CHAR s) s)"
  shows "\<exists>ops. fold f [col..<k] s = draw ops (s\<lparr>gScreen := (gScreen s)[row :=
     take col (gScreen s ! row) @ replicate (k - col) (current_cell SPACE_CHAR s) @ drop k (gScreen s ! row)]\<rparr>)"
  using assms(4,5)
proof (induction k rule: dec_induct)
  case base
  show ?case using assms(2,3) by (intro exI [of _ "[]"]) (simp add: draw_def)
next
  case (step k)
  let ?l = "gScreen s ! row"
  obtain ops where ops: "fold f [col..<k] s = draw ops (s\<lparr>gScreen := (gScreen s)[row :=
     take col ?l @ replicate (k - col) (current_cell SPACE_CHAR s) @ drop k ?l]\<rparr>)"
    using step by auto
  have len: "length ?l = 80" using assms(2,3) by simp
  have line: "(take col ?l @ replicate (k - col) b @ drop k ?l)[k := b] =
      take col ?l @ replicate (Suc k - col) b @ drop (Suc k) ?l" for b
    using step len by (auto simp: list_eq_iff_nth_eq nth_append nth_list_update)
  let ?b = "current_cell SPACE_CHAR s"
  have "fold f [col..<Suc k] s = f k (fold f [col..<k] s)" using step by simp
  also have "\<dots> = f k (draw ops (s\<lparr>gScreen := (gScreen s)[row := take col ?l @ replicate (k - col) ?b @ drop k ?l]\<rparr>))"
    by (simp only: ops)
  also have "\<dots> = draw (ops @ [Fill_Rect (k * 8) (row * 20) 8 20 (currentBGColor s)])
      (s\<lparr>gScreen := (gScreen s)[row := (take col ?l @ replicate (k - col) ?b @ drop k ?l)[k := ?b]]\<rparr>)"
    using assms(1-3) by (simp add: f_def vduDisplayClearcell_def set_cell_def current_cell_def draw_def)
  finally show ?case unfolding line by blast
qed

lemma implementsI:
  assumes "\<And>s. idle s \<Longrightarrow> text_ok (f s) \<and> term_of (f s) = g (term_of s) \<and>
     gMouseVduUpdateDepth (f s) = gMouseVduUpdateDepth s \<and> vduMode (f s) = vduMode s \<and> vdu_clock (f s) = vdu_clock s"
  shows "implements f g"
  using assms by (simp add: implements_def)

lemma id_implements: "implements (\<lambda>s. s) (\<lambda>t. t)"
  by (simp add: implements_def idle_def)

lemma motion_implements:
  "implements cmdCursorBOL (t_control 0x01)" "implements cmdCursorLeft (t_control 0x02)"
  "implements cmdCursorRight (t_control 0x06)" "implements cmdInsertMode (t_control 0x09)"
  "implements cmdCursorDown (t_control 0x0E)" "implements cmdOverwriteMode (t_control 0x0F)"
  "implements cmdCursorUp (t_control 0x10)" "implements cmdInstantScroll (t_control 0x14)"
  "implements cmdSmoothScroll (t_control 0x15)"
  by (rule implementsI; auto simp: idle_unfold t_control_def cmdCursorBOL_def cmdCursorLeft_def cmdCursorRight_def
      cmdInsertMode_def cmdCursorDown_def cmdOverwriteMode_def cmdCursorUp_def cmdInstantScroll_def
      cmdSmoothScroll_def vduSetSmoothscroll_def)+

lemma eol_implements: "implements cmdCursorEOL (t_control 0x05)"
proof (rule implementsI)
  fix s
  assume s: "idle s"
  then have row: "cur_row (gCursor s) < 24" and len: "length (gScreen s ! cur_row (gCursor s)) = 80"
    by (auto simp: idle_unfold)
  then have "text_end s (cur_row (gCursor s)) 80 = text_length (gScreen s ! cur_row (gCursor s))"
    by (intro text_length_take) simp_all
  then show "text_ok (cmdCursorEOL s) \<and> term_of (cmdCursorEOL s) = t_control 0x05 (term_of s) \<and>
     gMouseVduUpdateDepth (cmdCursorEOL s) = gMouseVduUpdateDepth s \<and> vduMode (cmdCursorEOL s) = vduMode s \<and>
     vdu_clock (cmdCursorEOL s) = vdu_clock s"
    using s text_length_le [OF len] by (auto simp: cmdCursorEOL_def idle_unfold t_control_def Let_def)
qed

lemma delete_implements: "implements cmdDelete (t_control 0x04)"
proof (rule implementsI)
  fix s
  assume s: "idle s"
  then have row: "cur_row (gCursor s) < 24" and len: "length (gScreen s ! cur_row (gCursor s)) = 80"
    and col: "cur_col (gCursor s) < 80" by (auto simp: idle_unfold)
  show "text_ok (cmdDelete s) \<and> term_of (cmdDelete s) = t_control 0x04 (term_of s) \<and>
     gMouseVduUpdateDepth (cmdDelete s) = gMouseVduUpdateDepth s \<and> vduMode (cmdDelete s) = vduMode s \<and>
     vdu_clock (cmdDelete s) = vdu_clock s"
    using s row len col
    by (auto simp: cmdDelete_def vduDeletec_def update_line_def idle_unfold t_control_def t_edit_def t_cell_def
        Let_def move_delete)
qed

lemma clear_eol_implements: "implements cmdClearEOL (t_control 0x0B)"
proof (rule implementsI)
  fix s
  assume s: "idle s"
  then have row: "cur_row (gCursor s) < 24" and len: "length (gScreen s ! cur_row (gCursor s)) = 80"
    and col: "cur_col (gCursor s) \<le> 80" and ls: "lines_ok (gScreen s)" by (auto simp: idle_unfold)
  obtain ops where "cmdClearEOL s = draw ops (s\<lparr>gScreen := (gScreen s)[cur_row (gCursor s) :=
      take (cur_col (gCursor s)) (gScreen s ! cur_row (gCursor s)) @
      replicate (80 - cur_col (gCursor s)) (current_cell SPACE_CHAR s)]\<rparr>)"
    using clear_columns [OF refl row ls col order_refl] len unfolding cmdClearEOL_def by auto
  then show "text_ok (cmdClearEOL s) \<and> term_of (cmdClearEOL s) = t_control 0x0B (term_of s) \<and>
     gMouseVduUpdateDepth (cmdClearEOL s) = gMouseVduUpdateDepth s \<and> vduMode (cmdClearEOL s) = vduMode s \<and>
     vdu_clock (cmdClearEOL s) = vdu_clock s"
    using s len by (auto simp: idle_unfold t_control_def t_edit_def t_cell_def)
qed

lemma move_cursor:
  "gMouseVduUpdateDepth s < 252 \<Longrightarrow> core (moveCursor x y s) = core (s\<lparr>gCursor := (gCursor s)\<lparr>
     cur_col := (if x < COLS then x else COLS - 1), cur_row := (if y < ROWS then y else ROWS - 1)\<rparr>\<rparr>)"
  "gMouseVduUpdateDepth s < 252 \<Longrightarrow> gMouseVduUpdateDepth (moveCursor x y s) = gMouseVduUpdateDepth s"
  by (simp_all add: moveCursor_def Let_def core_def)

lemma clear_screen:
  assumes "gMouseVduUpdateDepth s < 250"
  shows "core (cmdClearScreen s) = core (s\<lparr>gScreen := replicate ROWS (replicate COLS (current_cell SPACE_CHAR s)),
      gCursor := (gCursor s)\<lparr>cur_col := 0, cur_row := 0\<rparr>\<rparr>)"
    and "gMouseVduUpdateDepth (cmdClearScreen s) = gMouseVduUpdateDepth s"
proof -
  define t where "t = draw [Set_Color IDX_CURSOR_BG (palette_brg (currentBGColor (hideCursor (vduMouseHideForVduUpdate s)))),
      Set_Color IDX_CURSOR_FG (palette_brg (currentColor (hideCursor (vduMouseHideForVduUpdate s))))]
    (initTextbuffer (draw [Fill_Screen (currentBGColor (hideCursor (vduMouseHideForVduUpdate s)))]
      (hideCursor (vduMouseHideForVduUpdate s))))"
  have t: "core t = core (s\<lparr>gScreen := replicate ROWS (replicate COLS (current_cell SPACE_CHAR s))\<rparr>)"
    "gMouseVduUpdateDepth t = gMouseVduUpdateDepth s + 1"
    using assms by (simp_all add: t_def initTextbuffer_def current_cell_def core_def)
  then have d: "gMouseVduUpdateDepth t < 252" using assms by simp
  have c: "cmdClearScreen s = vduMouseShowAfterVduUpdate (setCursor True (moveCursor 0 0 t))"
    by (simp add: cmdClearScreen_def t_def Let_def initTextbuffer_def draw_def)
  show "gMouseVduUpdateDepth (cmdClearScreen s) = gMouseVduUpdateDepth s"
    using t d assms by (simp add: c move_cursor)
  have "core (cmdClearScreen s) = core (moveCursor 0 0 t)"
    by (simp only: c show_after_update(1) set_cursor(1))
  also have "\<dots> = core (t\<lparr>gCursor := (gCursor t)\<lparr>cur_col := 0, cur_row := 0\<rparr>\<rparr>)"
    using d by (simp add: move_cursor)
  also have "\<dots> = core (s\<lparr>gScreen := replicate ROWS (replicate COLS (current_cell SPACE_CHAR s)),
      gCursor := (gCursor s)\<lparr>cur_col := 0, cur_row := 0\<rparr>\<rparr>)"
    using core_sel [OF t(1)] by (simp add: core_def)
  finally show "core (cmdClearScreen s) = core (s\<lparr>gScreen := replicate ROWS (replicate COLS (current_cell SPACE_CHAR s)),
      gCursor := (gCursor s)\<lparr>cur_col := 0, cur_row := 0\<rparr>\<rparr>)" .
qed

lemma clear_screen_implements: "implements cmdClearScreen (t_control 0x0C)"
proof (rule implementsI)
  fix s
  assume s: "idle s"
  then have d: "gMouseVduUpdateDepth s < 250" by (simp add: idle_def)
  note c = core_text [OF clear_screen(1) [OF d]] clear_screen(2) [OF d] core_sel [OF clear_screen(1) [OF d]]
  show "text_ok (cmdClearScreen s) \<and> term_of (cmdClearScreen s) = t_control 0x0C (term_of s) \<and>
     gMouseVduUpdateDepth (cmdClearScreen s) = gMouseVduUpdateDepth s \<and> vduMode (cmdClearScreen s) = vduMode s \<and>
     vdu_clock (cmdClearScreen s) = vdu_clock s"
    using s unfolding c by (auto simp: idle_unfold t_control_def t_cell_def)
qed

lemma newline_any_col: "cmdNewline (s\<lparr>gCursor := (gCursor s)\<lparr>cur_col := n\<rparr>\<rparr>) = cmdNewline s"
  by (simp add: cmdNewline_def)

lemma advance_implements: "implements advance_cursor t_advance"
proof (rule implementsI)
  fix s
  assume s: "idle s"
  note n = newline_implements [unfolded implements_def, rule_format, OF s]
  show "text_ok (advance_cursor s) \<and> term_of (advance_cursor s) = t_advance (term_of s) \<and>
     gMouseVduUpdateDepth (advance_cursor s) = gMouseVduUpdateDepth s \<and> vduMode (advance_cursor s) = vduMode s \<and>
     vdu_clock (advance_cursor s) = vdu_clock s"
  proof (cases "cur_col (gCursor s) + 1 < 80")
    case True
    then show ?thesis using s by (auto simp: advance_cursor_def idle_unfold t_advance_def Let_def)
  next
    case False
    then have col: "cur_col (gCursor s) = 79" using s by (simp add: idle_unfold)
    show ?thesis
    proof (cases "textWrap (vduMode s)")
      case True
      then have "advance_cursor s = cmdNewline s"
        using col by (simp add: advance_cursor_def newline_any_col)
      moreover have "t_advance (term_of s) = t_newline (term_of s)"
        using True col by (simp add: t_advance_def term_of_def)
      ultimately show ?thesis using n by simp
    next
      case False
      then show ?thesis using s col by (auto simp: advance_cursor_def idle_unfold t_advance_def)
    qed
  qed
qed

lemma implements_comp:
  assumes "implements f g" and "implements f' g'" and "\<And>s. idle s \<Longrightarrow> \<not> scrollActive (f s)"
  shows "implements (\<lambda>s. f' (f s)) (\<lambda>t. g' (g t))"
proof (rule implementsI)
  fix s
  assume s: "idle s"
  note f = assms(1) [unfolded implements_def, rule_format, OF s]
  then have "idle (f s)" using s assms(3) by (simp add: idle_def)
  note f' = assms(2) [unfolded implements_def, rule_format, OF this]
  show "text_ok (f' (f s)) \<and> term_of (f' (f s)) = g' (g (term_of s)) \<and>
     gMouseVduUpdateDepth (f' (f s)) = gMouseVduUpdateDepth s \<and> vduMode (f' (f s)) = vduMode s \<and>
     vdu_clock (f' (f s)) = vdu_clock s"
    using f f' by simp
qed

lemma display_char:
  "core (vduDisplayc c s) = core (if c \<ge> 0x20 then set_cell (cur_row (gCursor s)) (cur_col (gCursor s)) (current_cell c s) s else s)"
  "gMouseVduUpdateDepth (vduDisplayc c s) = gMouseVduUpdateDepth s"
  by (simp_all add: vduDisplayc_def Let_def core_def set_cell_def)

lemma overwrite_implements:
  "c \<ge> 0x20 \<Longrightarrow> implements (vduDisplayc c) (\<lambda>t. t_edit (\<lambda>line. line[t_col t := t_cell c t]) t)"
  by (rule implementsI)
    (auto simp: core_text [OF display_char(1)] display_char(2) core_sel [OF display_char(1)] idle_unfold set_cell_def
      t_edit_def t_cell_def)

lemma not_printed_implements: "\<not> c \<ge> 0x20 \<Longrightarrow> implements (vduDisplayc c) (\<lambda>t. t)"
  by (rule implementsI)
    (auto simp: vduDisplayc_def idle_def)

lemma insert_implements:
  assumes "c \<ge> 0x20"
  shows "implements (\<lambda>s. vduDisplayc c (vduInsertc c (vduDisplayInsertspace s)))
    (\<lambda>t. t_edit (\<lambda>line. take (t_col t) line @ t_cell c t # drop (t_col t) (butlast line)) t)"
proof (rule implementsI)
  fix s
  assume s: "idle s"
  then have row: "cur_row (gCursor s) < 24" and len: "length (gScreen s ! cur_row (gCursor s)) = 80"
    and col: "cur_col (gCursor s) < 80" and ls: "length (gScreen s) = 24" by (auto simp: idle_unfold)
  have again: "(take (cur_col (gCursor s)) l @ c' # r)[cur_col (gCursor s) := c'] = take (cur_col (gCursor s)) l @ c' # r"
    if "length l = 80" for l :: "vdu_cell list" and c' r
    using col that by (simp add: list_update_append)
  show "text_ok (vduDisplayc c (vduInsertc c (vduDisplayInsertspace s))) \<and>
     term_of (vduDisplayc c (vduInsertc c (vduDisplayInsertspace s))) =
       t_edit (\<lambda>line. take (t_col (term_of s)) line @ t_cell c (term_of s) # drop (t_col (term_of s)) (butlast line)) (term_of s) \<and>
     gMouseVduUpdateDepth (vduDisplayc c (vduInsertc c (vduDisplayInsertspace s))) = gMouseVduUpdateDepth s \<and>
     vduMode (vduDisplayc c (vduInsertc c (vduDisplayInsertspace s))) = vduMode s \<and>
     vdu_clock (vduDisplayc c (vduInsertc c (vduDisplayInsertspace s))) = vdu_clock s"
    unfolding core_text [OF display_char(1)] display_char(2) core_sel [OF display_char(1)]
    using s row len col ls assms
    by (auto simp: vduInsertc_def update_line_def idle_unfold set_cell_def t_edit_def t_cell_def Let_def move_insert again)
qed

lemma command_implements:
  assumes "c < 0x20" and "c \<notin> {0, 0x08, 0x0A, 0x0D}"
  shows "implements (\<lambda>s. case ctrlTable ! unat c of Some cmd \<Rightarrow> cmd s | None \<Rightarrow> s) (t_control c)"
proof -
  have "unat c < 32" using assms(1) by (simp add: word_less_nat_alt)
  then have "unat c \<in> {0, 1, 2, 3, 4, 5, 6, 7, 8, 9, 10, 11, 12, 13, 14, 15, 16, 17, 18, 19, 20, 21, 22, 23, 24,
    25, 26, 27, 28, 29, 30, 31}"
    by (simp only: insert_iff empty_iff) presburger
  moreover have "c = of_nat (unat c)" by simp
  moreover have "implements (\<lambda>s. s) (t_control c)"
    if "c \<notin> {0x01, 0x02, 0x04, 0x05, 0x06, 0x09, 0x0B, 0x0C, 0x0E, 0x0F, 0x10}"
  proof -
    have "t_control c = (\<lambda>t. t)" by (rule ext) (use that in \<open>simp add: t_control_def\<close>)
    then show ?thesis using id_implements by simp
  qed
  ultimately show ?thesis
    using motion_implements eol_implements delete_implements clear_eol_implements clear_screen_implements assms(2)
    by (elim insertE emptyE) (simp_all add: ctrlTable_def)
qed

lemma implements_if: "(b \<Longrightarrow> implements f g) \<Longrightarrow> (\<not> b \<Longrightarrow> implements f' g') \<Longrightarrow>
    implements (\<lambda>s. if b then f s else f' s) (\<lambda>t. if b then g t else g' t)"
  by (cases b) simp_all

lemma refine_step:
  assumes "implements f g" and "idle s"
  shows "text_ok (f s)" "term_of (f s) = g (term_of s)" "gMouseVduUpdateDepth (f s) = gMouseVduUpdateDepth s"
    "vduMode (f s) = vduMode s" "vdu_clock (f s) = vdu_clock s"
  using assms by (auto simp: implements_def)

lemma insert_no_scroll: "scrollActive (vduDisplayc c (vduInsertc c (vduDisplayInsertspace s))) = scrollActive s"
  "scrollActive (vduInsertc c (vduDisplayInsertspace s)) = scrollActive s"
  "scrollActive (vduDisplayc c s) = scrollActive s"
  by (simp_all add: core_sel [OF display_char(1)] vduInsertc_def update_line_def set_cell_def Let_def)

definition agrees :: "vdu \<Rightarrow> vdu \<Rightarrow> terminal \<Rightarrow> bool" where
  "agrees s u t \<longleftrightarrow> text_ok u \<and> term_of u = t \<and> gMouseVduUpdateDepth u = gMouseVduUpdateDepth s \<and>
     vduMode u = vduMode s \<and> vdu_clock u = vdu_clock s"

lemma implements_agrees: "implements f g \<longleftrightarrow> (\<forall>s. idle s \<longrightarrow> agrees s (f s) (g (term_of s)))"
  by (simp add: implements_def agrees_def)

lemma agrees_save: "agrees s (vduSaveCursor u) t = agrees s u t"
  by (simp add: vduSaveCursor_def agrees_def text_ok_def term_of_def current_cell_def)

lemma put_special:
  assumes "c \<in> {0, 0x08, 0x0A, 0x0D, 0x7F}" and s: "idle s"
  shows "agrees s (put_char c s) (t_put c (term_of s))"
proof -
  have n: "agrees s (cmdNewline s) (t_newline (term_of s))"
    using newline_implements s by (simp add: implements_agrees)
  have b: "agrees s (if cur_col (gCursor s) > 0 then s\<lparr>gCursor := (gCursor s)\<lparr>cur_col := cur_col (gCursor s) - 1\<rparr>\<rparr> else s)
      ((term_of s)\<lparr>t_col := t_col (term_of s) - 1\<rparr>)"
    using s by (auto simp: agrees_def idle_unfold)
  have i: "agrees s s (term_of s)" using s by (simp add: agrees_def idle_def)
  consider "c = 0" | "c = 0x0D \<or> c = 0x0A" | "c = 0x08 \<or> c = 0x7F" using assms(1) by blast
  then show ?thesis
  proof cases
    case 1
    with i show ?thesis by (simp add: put_char_def t_put_def)
  next
    case 2
    then have "put_char c s = vduSaveCursor (cmdNewline s)" "t_put c (term_of s) = t_newline (term_of s)"
      by (auto simp: put_char_def t_put_def)
    with n show ?thesis by (simp only: agrees_save)
  next
    case 3
    then have "put_char c s = (if cur_col (gCursor s) > 0 then s\<lparr>gCursor := (gCursor s)\<lparr>cur_col := cur_col (gCursor s) - 1\<rparr>\<rparr> else s)"
      "t_put c (term_of s) = (term_of s)\<lparr>t_col := t_col (term_of s) - 1\<rparr>"
      by (auto simp: put_char_def t_put_def)
    with b show ?thesis by (simp only:)
  qed
qed

lemma put_printed:
  "c \<ge> 0x20 \<Longrightarrow> implements (\<lambda>s. advance_cursor (vduDisplayc c s))
     (\<lambda>t. t_advance (t_edit (\<lambda>line. line[t_col t := t_cell c t]) t))"
  "c \<ge> 0x20 \<Longrightarrow> implements (\<lambda>s. advance_cursor (vduDisplayc c (vduInsertc c (vduDisplayInsertspace s))))
     (\<lambda>t. t_advance (t_edit (\<lambda>line. take (t_col t) line @ t_cell c t # drop (t_col t) (butlast line)) t))"
  "\<not> c \<ge> 0x20 \<Longrightarrow> implements (\<lambda>s. advance_cursor (vduDisplayc c s)) t_advance"
  using implements_comp [OF overwrite_implements advance_implements, of c]
    implements_comp [OF insert_implements advance_implements, of c]
    implements_comp [OF not_printed_implements advance_implements, of c]
  by (simp_all add: insert_no_scroll idle_def)

lemma put_other:
  assumes c: "c \<notin> {0, 0x08, 0x0A, 0x0D, 0x7F}" and s: "idle s"
  shows "agrees s (put_char c s) (t_put c (term_of s))"
proof -
  have pc: "put_char c s = put_regular c s" using c by (simp add: put_char_def)
  have t: "t_screen_mode (term_of s) = gAsScreenMode s" "t_insert (term_of s) = gInsertMode s"
    by (simp_all add: term_of_def)
  consider "c < 0x20" "gAsScreenMode s" | "c < 0x20" "\<not> gAsScreenMode s"
    | "\<not> c < 0x20" "gInsertMode s \<and> gAsScreenMode s" | "\<not> c < 0x20" "\<not> (gInsertMode s \<and> gAsScreenMode s)" by blast
  then show ?thesis
  proof cases
    case 1
    have "agrees s (case ctrlTable ! unat c of Some cmd \<Rightarrow> cmd s | None \<Rightarrow> s) (t_control c (term_of s))"
      using command_implements [OF 1(1)] c s by (auto simp: implements_agrees)
    then show ?thesis using 1 c by (simp add: pc put_regular_def t_put_def t)
  next
    case 2
    have "agrees s (advance_cursor (vduDisplayc c s)) (t_advance (term_of s))"
      using put_printed(3) [of c] 2 s by (auto simp: implements_agrees)
    then show ?thesis using 2 c by (simp add: pc put_regular_def t_put_def t)
  next
    case 3
    have "agrees s (advance_cursor (vduDisplayc c (vduInsertc c (vduDisplayInsertspace s))))
        (t_advance (t_edit (\<lambda>line. take (t_col (term_of s)) line @ t_cell c (term_of s) #
           drop (t_col (term_of s)) (butlast line)) (term_of s)))"
      using put_printed(2) [of c] 3 s by (auto simp: implements_agrees)
    then show ?thesis using 3 c by (simp add: pc put_regular_def t_put_def t)
  next
    case 4
    have "agrees s (advance_cursor (vduDisplayc c s))
        (t_advance (t_edit (\<lambda>line. line[t_col (term_of s) := t_cell c (term_of s)]) (term_of s)))"
      using put_printed(1) [of c] 4 s by (auto simp: implements_agrees)
    then show ?thesis using 4 c by (auto simp: pc put_regular_def t_put_def t)
  qed
qed

lemma agrees_core:
  "core u = core v \<Longrightarrow> gMouseVduUpdateDepth u = gMouseVduUpdateDepth v \<Longrightarrow> agrees s u t = agrees s v t"
  using core_text [of u v] core_sel [of u v] by (simp add: agrees_def)

lemma put_now_agrees:
  assumes "vdu_ok s" and "\<not> scrollActive s" and "textMode (vduMode s)"
  shows "agrees s (put_now c s) (t_put c (term_of s))"
proof -
  let ?s = "setCursor False (vduMouseHideForVduUpdate s)"
  have core: "core ?s = core s" by (simp only: set_cursor(1) hide_for_update(1))
  note sel = core_sel [OF core] core_text [OF core]
  have depth: "gMouseVduUpdateDepth ?s = 1" using assms(1) by (simp add: vdu_ok_def)
  have idle: "idle ?s" using assms depth sel by (simp add: idle_def vdu_ok_def)
  have "agrees ?s (put_char c ?s) (t_put c (term_of ?s))"
    using put_special [OF _ idle, of c] put_other [OF _ idle, of c] by blast
  then have put: "agrees ?s (put_char c ?s) (t_put c (term_of s))" by (simp only: sel)
  have d: "gMouseVduUpdateDepth (put_char c ?s) = 1" using put depth by (simp add: agrees_def)
  have now: "put_now c s = vduMouseShowAfterVduUpdate (setCursor True (put_char c ?s))"
    using assms(3) by (simp add: put_now_def Let_def)
  have core': "core (put_now c s) = core (put_char c ?s)"
    unfolding now by (simp only: set_cursor(1) show_after_update(1))
  have "gMouseVduUpdateDepth (put_now c s) = 0" using d by (simp add: now)
  then show ?thesis
    using put core_text [OF core'] core_sel [OF core'] sel assms(1) by (simp add: agrees_def vdu_ok_def)
qed

lemma putc_agrees:
  assumes "vdu_ok s" and "textMode (vduMode s)" and "clock_runs (vdu_clock s)"
  shows "\<exists>s'. vduPutc c s = Some s' \<and> vdu_ok s' \<and> term_of s' = t_put c (term_of s) \<and>
    vduMode s' = vduMode s \<and> vdu_clock s' = vdu_clock s"
proof -
  obtain w where w: "wait_scroll s = Some w" "vdu_ok w" "\<not> scrollActive w" "term_of w = term_of s"
    "vduMode w = vduMode s" "vdu_clock w = vdu_clock s"
    using wait_scroll_ends [OF assms(1,3)] by blast
  have "agrees w (put_now c w) (t_put c (term_of w))"
    using w(2,3) by (rule put_now_agrees) (simp add: w(5) assms(2))
  then show ?thesis using w by (simp add: vduPutc_def agrees_def vdu_ok_def)
qed

lemma print_agrees:
  assumes "vdu_ok s" and "textMode (vduMode s)" and "clock_runs (vdu_clock s)"
  shows "\<exists>s'. vduPrintStr cs s = Some s' \<and> vdu_ok s' \<and> term_of s' = fold t_put cs (term_of s) \<and>
    vduMode s' = vduMode s \<and> vdu_clock s' = vdu_clock s"
  using assms
proof (induction cs arbitrary: s)
  case (Cons c cs)
  obtain u where u: "vduPutc c s = Some u" "vdu_ok u" "term_of u = t_put c (term_of s)" "vduMode u = vduMode s"
    "vdu_clock u = vdu_clock s"
    using putc_agrees [OF Cons.prems] by blast
  show ?case using Cons.IH [of u] Cons.prems u by auto
qed simp

end
