(* ===== verification/Vdu_Spec.thy ===== *)
theory Vdu_Spec
  imports Vdu_Terminal
begin

text \<open>
  \<open>vdu.cpp\<close>: the text that printing leaves, the line that the monitor reads back, the invariant over every order
  of operations, and what smooth scrolling at the bottom of the screen does beside it.
\<close>

section \<open>Every operation\<close>

text \<open>The static variables before \<open>initVDU\<close>.\<close>

definition vdu_start :: "(nat \<Rightarrow> u32) \<Rightarrow> (nat \<Rightarrow> nat \<Rightarrow> vdu_cell) \<Rightarrow> vdu" where
  "vdu_start clock mem =
     (let cursor = \<lparr>cur_col = 0, cur_row = 0, cur_shape = cBLOCK, cur_enabled = False, cur_drawn = False,
                    cur_blink_on = False\<rparr>
      in \<lparr>vduMode = vduModes ! DEFAULT_MODE, gCursor = cursor, gSaveCursor = cursor,
          gScreen = replicate ROWS (replicate COLS \<lparr>cell_ch = 0, cell_fg = 0, cell_bg = 0\<rparr>),
          gInEditmode = False, currentColor = DEFAULT_COLOR, currentBGColor = DEFAULT_BG_COLOR,
          gInsertMode = False, gAsScreenMode = False, smoothScroll = False, scrollActive = False,
          scrollPixel = 0, pendingCursorRow = -1,
          gMouse = \<lparr>m_enabled = True, m_active = False, m_drawn = False, m_x = int WIDTH div 2, m_y = int HEIGHT div 2,
                    m_buttons = 0\<rparr>,
          gMouseVduUpdateDepth = 0, blink_reverse = False, blink_last = 0, lastScroll = 0,
          vdu_clock = clock, vdu_readings = 0, behind = mem, display = []\<rparr>)"

inductive vdu_reachable :: "vdu \<Rightarrow> bool" where
  start: "initVDU True (vdu_start clock mem) = Some s \<Longrightarrow> vdu_reachable s"
| putc: "vdu_reachable s \<Longrightarrow> vduPutc c s = Some t \<Longrightarrow> vdu_reachable t"
| task: "vdu_reachable s \<Longrightarrow> vdu_reachable (taskVDU s)"
| mouse: "vdu_reachable s \<Longrightarrow> vdu_reachable (vduMouseUpdate dx dy b s)"
| mouse_enable: "vdu_reachable s \<Longrightarrow> vdu_reachable (vduMouseEnable on s)"
| set_mode: "vdu_reachable s \<Longrightarrow> vdu_reachable (vduSetMode m s)"
| reset: "vdu_reachable s \<Longrightarrow> vdu_reachable (resetDisplay m s)"
| clear: "vdu_reachable s \<Longrightarrow> vdu_reachable (cmdClearScreen s)"
| color: "vdu_reachable s \<Longrightarrow> vdu_reachable (setTColor c s)"
| bg_color: "vdu_reachable s \<Longrightarrow> vdu_reachable (setBGColor c s)"
| move: "vdu_reachable s \<Longrightarrow> vdu_reachable (moveCursor x y s)"
| cursor: "vdu_reachable s \<Longrightarrow> vdu_reachable (setCursor on s)"
| shape: "vdu_reachable s \<Longrightarrow> vdu_reachable (alterCursor sh s)"
| save: "vdu_reachable s \<Longrightarrow> vdu_reachable (vduSaveCursor s)"
| restore: "vdu_reachable s \<Longrightarrow> vdu_reachable (vduRestoreCursor s)"
| screen_mode: "vdu_reachable s \<Longrightarrow> vdu_reachable (setAsScreenMode on s)"

lemma vdu_ok_core: "core u = core v \<Longrightarrow> gMouseVduUpdateDepth u = gMouseVduUpdateDepth v \<Longrightarrow> vdu_ok u = vdu_ok v"
  using core_text(2) [of u v] by (simp add: vdu_ok_def)

lemma mouse_clamped: "0 \<le> m \<Longrightarrow> 0 \<le> vduMouseClampCoordinate v m \<and> vduMouseClampCoordinate v m \<le> m"
  by (simp add: vduMouseClampCoordinate_def)

lemma text_ok_move: "text_ok s \<Longrightarrow> gMouseVduUpdateDepth s < 252 \<Longrightarrow> text_ok (moveCursor x y s)"
  using core_text(2) [OF move_cursor(1), of s x y] by (simp add: text_ok_def)

lemma text_ok_scroll_up: "text_ok s \<Longrightarrow> text_ok (cmdScrollUp s)"
  by (auto simp: text_ok_def cmdScrollUp_def Let_def rotate_text_def take_pending_row_def current_cell_def)

lemma depth_scroll_up: "gMouseVduUpdateDepth s < 250 \<Longrightarrow> gMouseVduUpdateDepth (cmdScrollUp s) = gMouseVduUpdateDepth s"
  by (auto simp: cmdScrollUp_def Let_def rotate_text_def take_pending_row_def)

lemma vdu_ok_scroll_up: "vdu_ok s \<Longrightarrow> vdu_ok (cmdScrollUp s)"
  by (simp add: vdu_ok_def text_ok_scroll_up depth_scroll_up)

lemma vdu_ok_move: "vdu_ok s \<Longrightarrow> vdu_ok (moveCursor x y s)"
  by (simp add: vdu_ok_def text_ok_move move_cursor)

lemmas vdu_ok_show = vdu_ok_core [OF show_cursor] vdu_ok_core [OF hide_cursor]

lemma vdu_ok_restore: "vdu_ok s \<Longrightarrow> vdu_ok (vduRestoreCursor s)"
proof -
  have edit: "vdu_ok (u\<lparr>gInEditmode := b\<rparr>) = vdu_ok u" for u b by (simp add: vdu_ok_def text_ok_def)
  show "vdu_ok s \<Longrightarrow> vdu_ok (vduRestoreCursor s)"
    by (simp add: vduRestoreCursor_def Let_def edit vdu_ok_show vdu_ok_move vdu_ok_scroll_up)
qed

lemma vdu_ok_mouse:
  assumes "vdu_ok s"
  shows "vdu_ok (vduMouseUpdate dx dy b s)"
proof -
  define u where "u = (let u = vduMouseHideForVduUpdate s;
     u = u\<lparr>gMouse := (gMouse u)\<lparr>m_active := True\<rparr>\<rparr>;
     u = (if dx \<noteq> 0 \<or> dy \<noteq> 0
          then u\<lparr>gMouse := (gMouse u)\<lparr>m_x := vduMouseClampCoordinate (m_x (gMouse u) + sint dx) (int WIDTH - 1),
                                   m_y := vduMouseClampCoordinate (m_y (gMouse u) + sint dy) (int HEIGHT - 1)\<rparr>\<rparr>
          else u) in u\<lparr>gMouse := (gMouse u)\<lparr>m_buttons := b\<rparr>\<rparr>)"
  have u: "text_ok u" "gMouseVduUpdateDepth u = 1"
    using assms mouse_clamped [of 639 "m_x (gMouse s) + sint dx"] mouse_clamped [of 479 "m_y (gMouse s) + sint dy"]
    by (auto simp: u_def vdu_ok_def text_ok_def Let_def)
  have after: "vdu_ok (vduMouseShowAfterVduUpdate v)" if "text_ok v" "gMouseVduUpdateDepth v = 1" for v
    using that core_text(2) [OF show_after_update(1), of v] by (simp add: vdu_ok_def)
  have m: "text_ok (moveCursor x y u)" "gMouseVduUpdateDepth (moveCursor x y u) = 1" for x y
    using u by (simp_all add: text_ok_move move_cursor)
  have "vduMouseUpdate dx dy b s =
     (if \<not> (dx \<noteq> 0 \<or> dy \<noteq> 0) \<and> \<not> b \<noteq> m_buttons (gMouse s) then s
      else vduMouseShowAfterVduUpdate
        (if (b AND VDU_MOUSE_LEFT_BUTTON \<noteq> 0 \<and> m_buttons (gMouse s) AND VDU_MOUSE_LEFT_BUTTON = 0) \<and>
            m_enabled (gMouse u) \<and> textMode (vduMode u)
         then moveCursor (nat (m_x (gMouse u) div int FONT_CELL_WIDTH) mod 65536)
                         (nat (m_y (gMouse u) div int FONT_CELL_HEIGHT) mod 65536) u
         else u))"
    by (simp only: vduMouseUpdate_def u_def Let_def)
  then show ?thesis using assms after [OF u] after [OF m] by (simp only:) (simp split: if_split)
qed

lemma vdu_ok_clear: "vdu_ok s \<Longrightarrow> vdu_ok (cmdClearScreen s)"
  using core_text(2) [OF clear_screen(1), of s] clear_screen(2) [of s] by (auto simp: vdu_ok_def text_ok_def)

lemma vdu_ok_simple:
  "vdu_ok (setTColor c s) = vdu_ok s" "vdu_ok (setBGColor c s) = vdu_ok s" "vdu_ok (vduSaveCursor s) = vdu_ok s"
  "vdu_ok (setAsScreenMode on s) = vdu_ok s" "vdu_ok (draw ops s) = vdu_ok s" "vdu_ok (loadPalette s) = vdu_ok s"
  "vdu_ok s \<Longrightarrow> vdu_ok (vduMouseEnable on s)" "vdu_ok s \<Longrightarrow> vdu_ok (setCursor on s)"
  "vdu_ok (alterCursor sh s) = vdu_ok s" "vdu_ok s \<Longrightarrow> vdu_ok (vduSetMode m s)"
  by (simp_all add: setTColor_def setBGColor_def vduSaveCursor_def setAsScreenMode_def loadPalette_def
      vduMouseEnable_def alterCursor_def vduSetMode_def vdu_ok_def text_ok_def Let_def)

lemma wait_scroll_ok:
  assumes "wait_scroll s = Some t"
  shows "vdu_ok s \<longrightarrow> vdu_ok t \<and> \<not> scrollActive t"
proof (rule wait_scroll.raw_induct [where P = "\<lambda>s t. vdu_ok s \<longrightarrow> vdu_ok t \<and> \<not> scrollActive t", OF _ assms])
  fix rec s t
  assume ih: "\<And>s t. rec s = Some t \<Longrightarrow> vdu_ok s \<longrightarrow> vdu_ok t \<and> \<not> scrollActive t"
    and step: "(if scrollActive s then rec (taskVDU s) else Some s) = Some t"
  show "vdu_ok s \<longrightarrow> vdu_ok t \<and> \<not> scrollActive t"
    using ih [of "taskVDU s" t] step task_step(1) [of s] by (auto split: if_splits)
qed

lemma put_now_ok:
  assumes "vdu_ok s" and "\<not> scrollActive s"
  shows "vdu_ok (put_now c s)"
proof (cases "textMode (vduMode s)")
  case True
  then show ?thesis using put_now_agrees [OF assms, of c] assms(1) by (simp add: agrees_def vdu_ok_def)
next
  case False
  then show ?thesis using assms by (auto simp: put_now_def Let_def vdu_ok_def text_ok_def)
qed

lemma putc_ok: "vduPutc c s = Some t \<Longrightarrow> vdu_ok s \<Longrightarrow> vdu_ok t"
  using wait_scroll_ok [of s] put_now_ok by (auto simp: vduPutc_def)

lemma reset_ok: "vdu_ok s \<Longrightarrow> vdu_ok (resetDisplay m s)"
  by (simp add: resetDisplay_def Let_def vdu_ok_simple vdu_ok_clear)

lemma start_ok: "vdu_ok (vdu_start clock mem)"
  by (simp add: vdu_start_def Let_def vdu_ok_def text_ok_def lines_ok_def)

lemma vdu_reachable_ok: "vdu_reachable s \<Longrightarrow> vdu_ok s"
proof (induction rule: vdu_reachable.induct)
  case (start clock mem s)
  then show ?case by (auto simp: initVDU_def reset_ok start_ok)
qed (simp_all add: putc_ok task_step vdu_ok_mouse vdu_ok_simple reset_ok vdu_ok_clear vdu_ok_move vdu_ok_restore)

section \<open>After a reset\<close>

definition blank_line :: "terminal \<Rightarrow> bool" where
  "blank_line t \<longleftrightarrow> (\<forall>c\<in>set (t_lines t ! t_row t). cell_ch c = SPACE_CHAR)"

lemma reset_state:
  assumes "vdu_ok s"
  shows "vduMode (resetDisplay m s) = vduModes ! (m mod NUMBER_OF_MODES)"
    and "vdu_clock (resetDisplay m s) = vdu_clock s" and "scrollActive (resetDisplay m s) = scrollActive s"
    and "cur_col (gCursor (resetDisplay m s)) = 0" and "cur_row (gCursor (resetDisplay m s)) = 0"
    and "gInsertMode (resetDisplay m s) = gInsertMode s"
    and "gScreen (resetDisplay m s) = replicate ROWS (replicate COLS
      \<lparr>cell_ch = SPACE_CHAR, cell_fg = DEFAULT_COLOR, cell_bg = DEFAULT_BG_COLOR\<rparr>)"
proof -
  define t where "t = vduSetMode m (loadPalette (setBGColor DEFAULT_BG_COLOR (setTColor DEFAULT_COLOR s)))"
  define u where "u = draw [Set_Font, Set_Text_Wrap (textWrap (vduMode t)), Set_Text_Size 1] t"
  have r: "resetDisplay m s = cmdClearScreen u" by (simp add: resetDisplay_def t_def u_def Let_def)
  have u: "vduMode u = vduModes ! (m mod NUMBER_OF_MODES)" "vdu_clock u = vdu_clock s"
    "scrollActive u = scrollActive s" "gInsertMode u = gInsertMode s" "currentColor u = DEFAULT_COLOR"
    "currentBGColor u = DEFAULT_BG_COLOR"
    by (simp_all add: u_def t_def vduSetMode_def Let_def loadPalette_def setBGColor_def setTColor_def setAsScreenMode_def)
  have "vdu_ok u" using assms by (simp add: u_def t_def vdu_ok_simple)
  then have "gMouseVduUpdateDepth u < 250" by (simp add: vdu_ok_def)
  note c = core_sel [OF clear_screen(1) [OF this]]
  show "vduMode (resetDisplay m s) = vduModes ! (m mod NUMBER_OF_MODES)"
    "vdu_clock (resetDisplay m s) = vdu_clock s" "scrollActive (resetDisplay m s) = scrollActive s"
    "cur_col (gCursor (resetDisplay m s)) = 0" "cur_row (gCursor (resetDisplay m s)) = 0"
    "gInsertMode (resetDisplay m s) = gInsertMode s"
    "gScreen (resetDisplay m s) = replicate ROWS (replicate COLS
      \<lparr>cell_ch = SPACE_CHAR, cell_fg = DEFAULT_COLOR, cell_bg = DEFAULT_BG_COLOR\<rparr>)"
    by (simp_all add: r c u current_cell_def)
qed

lemma clock_runs_example: "clock_runs (\<lambda>n. of_nat n)"
  unfolding clock_runs_def by (rule exI [of _ "\<lambda>n. n"]) auto

text \<open>The terminal after start-up with a clock that ticks once a reading.\<close>

definition vdu_up :: vdu where
  "vdu_up = resetDisplay DEFAULT_MODE (vdu_start (\<lambda>n. of_nat n) (\<lambda>r c. \<lparr>cell_ch = 0, cell_fg = 0, cell_bg = 0\<rparr>))"

lemma vdu_up:
  "vdu_ok vdu_up" "textMode (vduMode vdu_up)" "clock_runs (vdu_clock vdu_up)" "\<not> scrollActive vdu_up"
  "cur_col (gCursor vdu_up) = 0" "\<not> gInsertMode vdu_up" "blank_line (term_of vdu_up)" "vdu_reachable vdu_up"
proof -
  let ?s = "vdu_start (\<lambda>n. of_nat n) (\<lambda>r c. \<lparr>cell_ch = 0, cell_fg = 0, cell_bg = 0\<rparr>)"
  note r = reset_state [OF start_ok, of DEFAULT_MODE "\<lambda>n. of_nat n" "\<lambda>r c. \<lparr>cell_ch = 0, cell_fg = 0, cell_bg = 0\<rparr>",
      folded vdu_up_def]
  have s: "vdu_clock ?s = (\<lambda>n. of_nat n)" "\<not> scrollActive ?s" "\<not> gInsertMode ?s"
    by (simp_all add: vdu_start_def Let_def)
  show "vdu_ok vdu_up" by (simp add: vdu_up_def reset_ok start_ok)
  show "textMode (vduMode vdu_up)"
    by (simp add: r vduModes_def mode_of_def DEFAULT_MODE_def NUMBER_OF_MODES_def)
  show "clock_runs (vdu_clock vdu_up)" by (simp add: r s clock_runs_example)
  show "\<not> scrollActive vdu_up" "\<not> gInsertMode vdu_up" "cur_col (gCursor vdu_up) = 0" by (simp_all add: r s)
  then show "blank_line (term_of vdu_up)" by (simp add: blank_line_def term_of_def r)
  show "vdu_reachable vdu_up"
    by (rule vdu_reachable.start [of "\<lambda>n. of_nat n" "\<lambda>r c. \<lparr>cell_ch = 0, cell_fg = 0, cell_bg = 0\<rparr>"])
      (simp add: initVDU_def vdu_up_def)
qed

section \<open>Printing\<close>

text \<open>C24: In every order of output, task rounds, mouse reports, mode changes and cursor calls after \<open>initVDU\<close>: the
  text has 24 lines of 80 cells; the cursor stands on the screen, or one row below it while a scroll is on that
  brings it back; a scroll has less than the height of a line to go; the mouse pointer is inside the picture;
  and every suspension of the mouse overlay has been taken back.\<close>

theorem vdu_invariant:
  assumes "vdu_reachable s"
  shows "lines_ok (gScreen s) \<and> cur_col (gCursor s) < COLS \<and>
    (cur_row (gCursor s) < ROWS \<or>
     cur_row (gCursor s) = ROWS \<and> scrollActive s \<and> pendingCursorRow s = int (ROWS - 1)) \<and>
    scrollPixel s < FONT_CELL_HEIGHT \<and> 0 \<le> m_x (gMouse s) \<and> m_x (gMouse s) < int WIDTH \<and>
    0 \<le> m_y (gMouse s) \<and> m_y (gMouse s) < int HEIGHT \<and> gMouseVduUpdateDepth s = 0"
  using vdu_reachable_ok [OF assms] by (auto simp: vdu_ok_def text_ok_def)

lemma vdu_invariant_witness:
  "\<exists>s. vduPutc 0x41 vdu_up = Some s \<and> cur_col (gCursor s) < COLS"
proof -
  have put: "vduPutc 0x41 vdu_up = Some (put_now 0x41 vdu_up)"
    using vdu_up(4) by (simp add: vduPutc_def wait_scroll.simps)
  then show ?thesis using vdu_invariant [OF vdu_reachable.putc [OF vdu_up(8) put]] by auto
qed

text \<open>C25: Printing any bytes in a text mode ends, and changes text, cursor and modes as the abstract terminal does:
  whether scrolling is smooth or instant, how \<open>millis()\<close> runs, the blinking cursor and the mouse overlay make no
  difference to the text.\<close>

theorem printing_refines_terminal:
  fixes s :: vdu
  assumes "vdu_ok s" and "textMode (vduMode s)" and "clock_runs (vdu_clock s)"
  shows "\<exists>s'. vduPrintStr cs s = Some s' \<and> vdu_ok s' \<and> term_of s' = fold t_put cs (term_of s)"
  using print_agrees [OF assms] by blast

lemma printing_refines_terminal_witness:
  "\<exists>s'. vduPrintStr [0x48, 0x69, 0x0A] vdu_up = Some s' \<and> vdu_ok s' \<and>
     term_of s' = fold t_put [0x48, 0x69, 0x0A] (term_of vdu_up)"
  by (rule printing_refines_terminal [OF vdu_up(1-3)])

section \<open>Lines read back\<close>

definition printed :: "u8 list \<Rightarrow> bool" where
  "printed w \<longleftrightarrow> (\<forall>c\<in>set w. c \<ge> 0x20 \<and> c \<noteq> 0x7F)"

lemma t_cell_update [simp]: "t_cell x (t\<lparr>t_col := n\<rparr>) = t_cell x t" "t_cell x (t\<lparr>t_lines := ls\<rparr>) = t_cell x t"
  by (simp_all add: t_cell_def)

lemma type_over:
  assumes "printed w" and "\<not> (t_insert t \<and> t_screen_mode t)" and "t_col t + length w < 80"
    and "t_row t < length (t_lines t)" and "length (t_lines t ! t_row t) = 80"
  shows "fold t_put w t = t\<lparr>t_col := t_col t + length w,
    t_lines := (t_lines t)[t_row t := take (t_col t) (t_lines t ! t_row t) @ map (\<lambda>c. t_cell c t) w @
      drop (t_col t + length w) (t_lines t ! t_row t)]\<rparr>"
  using assms
proof (induction w arbitrary: t)
  case (Cons c w)
  let ?l = "t_lines t ! t_row t"
  let ?t = "t\<lparr>t_col := t_col t + 1, t_lines := (t_lines t)[t_row t := ?l[t_col t := t_cell c t]]\<rparr>"
  have c: "\<not> c < 0x20" "c \<notin> {0, 0x08, 0x0A, 0x0D, 0x7F}" and w: "printed w"
    using Cons.prems(1) by (auto simp: printed_def)
  have step: "t_put c t = ?t"
    using c Cons.prems(2-4) by (auto simp: t_put_def t_edit_def t_advance_def)
  have line: "take (Suc n) (l[n := x]) @ xs @ drop (Suc (n + k)) l = take n l @ x # xs @ drop (Suc (n + k)) l"
    if "n < length l" for n l x xs k
    using that by (simp add: take_Suc_conv_app_nth)
  have "fold t_put (c # w) t = fold t_put w ?t" by (simp add: step)
  also have "\<dots> = ?t\<lparr>t_col := t_col ?t + length w,
    t_lines := (t_lines ?t)[t_row ?t := take (t_col ?t) (t_lines ?t ! t_row ?t) @ map (\<lambda>c. t_cell c ?t) w @
      drop (t_col ?t + length w) (t_lines ?t ! t_row ?t)]\<rparr>"
    by (rule Cons.IH) (use Cons.prems w in auto)
  finally show ?case using Cons.prems(3-5) by (simp add: line)
qed simp

lemma text_length_word:
  assumes "w = [] \<or> last w \<noteq> SPACE_CHAR" and "\<forall>c\<in>set r. cell_ch c = SPACE_CHAR"
  shows "text_length (map (\<lambda>c. t_cell c t) w @ r) = length w"
proof -
  have "dropWhile (\<lambda>c. cell_ch c = SPACE_CHAR) (rev r @ xs) = dropWhile (\<lambda>c. cell_ch c = SPACE_CHAR) xs" for xs
    by (rule dropWhile_append2) (use assms(2) in auto)
  moreover have "dropWhile (\<lambda>c. cell_ch c = SPACE_CHAR) (rev (map (\<lambda>c. t_cell c t) w)) = rev (map (\<lambda>c. t_cell c t) w)"
    using assms(1) by (cases w rule: rev_cases) (auto simp: t_cell_def)
  ultimately show ?thesis by (simp add: text_length_def)
qed

lemma insert_no_motion:
  "cur_col (gCursor (vduDisplayc c (vduInsertc c (vduDisplayInsertspace s)))) = cur_col (gCursor s)"
  "cur_col (gCursor (vduInsertc c s)) = cur_col (gCursor s)" "scrollActive (vduInsertc c s) = scrollActive s"
  "cur_col (gCursor (vduDisplayc c s)) = cur_col (gCursor s)"
  by (simp_all add: core_sel [OF display_char(1)] vduInsertc_def update_line_def set_cell_def Let_def)

lemma put_keeps_still:
  assumes "c \<ge> 0x20" and "c \<noteq> 0x7F" and "cur_col (gCursor s) < 79" and "textMode (vduMode s)"
  shows "scrollActive (put_now c s) = scrollActive s" and "cur_col (gCursor (put_now c s)) = cur_col (gCursor s) + 1"
proof -
  let ?s = "setCursor False (vduMouseHideForVduUpdate s)"
  have adv: "scrollActive (advance_cursor u) = scrollActive u" "cur_col (gCursor (advance_cursor u)) = cur_col (gCursor u) + 1"
    if "cur_col (gCursor u) < 79" for u using that by (simp_all add: advance_cursor_def Let_def)
  have c: "\<not> c < 0x20" "put_char c ?s = put_regular c ?s" using assms(1,2) by (auto simp: put_char_def)
  have now: "put_now c s = vduMouseShowAfterVduUpdate (setCursor True (put_char c ?s))"
    using assms(4) by (simp add: put_now_def Let_def)
  show "scrollActive (put_now c s) = scrollActive s" "cur_col (gCursor (put_now c s)) = cur_col (gCursor s) + 1"
    using assms(3) c(1) unfolding now drawing c(2) put_regular_def Let_def
    by (simp_all add: adv insert_no_scroll insert_no_motion)
qed

lemma print_in_line:
  assumes "vdu_ok s" and "textMode (vduMode s)" and "clock_runs (vdu_clock s)" and "\<not> scrollActive s"
    and "printed w" and "cur_col (gCursor s) + length w < 80"
  shows "\<exists>s'. vduPrintStr w s = Some s' \<and> vdu_ok s' \<and> term_of s' = fold t_put w (term_of s) \<and> \<not> scrollActive s'"
  using assms
proof (induction w arbitrary: s)
  case (Cons c w)
  then have c: "c \<ge> 0x20" "c \<noteq> 0x7F" "cur_col (gCursor s) < 79" by (auto simp: printed_def)
  note still = put_keeps_still [OF c Cons.prems(2)]
  have putc: "vduPutc c s = Some (put_now c s)" using Cons.prems(4) by (simp add: vduPutc_def wait_scroll.simps)
  have u: "vdu_ok (put_now c s)" "term_of (put_now c s) = t_put c (term_of s)" "vduMode (put_now c s) = vduMode s"
    "vdu_clock (put_now c s) = vdu_clock s"
    using putc_agrees [OF Cons.prems(1-3), of c] putc by auto
  have "printed w" using Cons.prems(5) by (simp add: printed_def)
  then obtain s' where "vduPrintStr w (put_now c s) = Some s'" "vdu_ok s'" "term_of s' = fold t_put w (t_put c (term_of s))"
    "\<not> scrollActive s'"
    using Cons.IH [of "put_now c s"] u still Cons.prems by auto
  then show ?case by (simp add: putc)
qed simp

lemma line_read_back:
  assumes "vdu_ok s" and "textMode (vduMode s)" and "clock_runs (vdu_clock s)" and "\<not> scrollActive s"
    and "cur_col (gCursor s) = 0" and "blank_line (term_of s)" and "\<not> gInsertMode s"
    and "printed w" and "length w < 80" and "w \<noteq> []" and "last w \<noteq> SPACE_CHAR"
  shows "\<exists>s'. vduPrintStr w s = Some s' \<and> vdu_ok s' \<and> \<not> scrollActive s' \<and>
    gAsScreenMode s' = gAsScreenMode s \<and> vduGetCurrentScreenline s' = w @ [0]"
proof -
  obtain s' where s': "vduPrintStr w s = Some s'" "vdu_ok s'" "term_of s' = fold t_put w (term_of s)" "\<not> scrollActive s'"
    using print_in_line [OF assms(1-4,8)] assms(5,9) by auto
  let ?t = "term_of s" and ?row = "cur_row (gCursor s)"
  have t: "t_col ?t = 0" "t_row ?t = ?row" "t_lines ?t = gScreen s" "\<not> t_insert ?t" "?row < 24"
    "lines_ok (gScreen s)"
    using assms(1,4,5,7) by (auto simp: term_of_def vdu_ok_def text_ok_def)
  have line: "fold t_put w ?t = ?t\<lparr>t_col := length w,
      t_lines := (gScreen s)[?row := map (\<lambda>c. t_cell c ?t) w @ drop (length w) (gScreen s ! ?row)]\<rparr>"
    using type_over [of w ?t] assms(8,9) t by simp
  have mode: "gAsScreenMode s' = gAsScreenMode s"
    using arg_cong [OF line, of t_screen_mode] s'(3) [symmetric] by (simp add: term_of_def)
  from line have screen: "gScreen s' = (gScreen s)[?row := map (\<lambda>c. t_cell c ?t) w @ drop (length w) (gScreen s ! ?row)]"
    "cur_row (gCursor s') = ?row"
    using s'(3,4) t(2) by (auto simp: term_of_def)
  have row: "gScreen s' ! ?row = map (\<lambda>c. t_cell c ?t) w @ drop (length w) (gScreen s ! ?row)"
    using t(5,6) by (simp add: screen)
  have "text_length (gScreen s' ! ?row) = length w"
    unfolding row by (rule text_length_word)
      (use assms(6,11) t in \<open>auto simp: blank_line_def dest: in_set_dropD\<close>)
  moreover have "length (gScreen s' ! ?row) = 80"
    using t(5,6) assms(9) by (simp add: row)
  ultimately have "text_end s' ?row COLS = length w" using t(5) by (simp add: text_length_take)
  moreover have "cell_ch (cell_at s' ?row i) = w ! i" if "i < length w" for i
    using that assms(9) t(5) by (simp add: cell_at_def row nth_append t_cell_def)
  ultimately have "vduGetCurrentScreenline s' = map (\<lambda>i. w ! i) [0..<length w] @ [0]"
    by (simp add: vduGetCurrentScreenline_def vduGetScreenline_def screen(2))
  then show ?thesis using s' mode by (simp add: map_nth)
qed

text \<open>C26: A line of up to 79 printable characters without a final space, printed from the start of an empty
  screen line while no scroll is on and insert mode is off, is what \<open>vduGetCurrentScreenline\<close> gives back.\<close>

theorem printed_line_read_back:
  assumes "vdu_ok s" and "textMode (vduMode s)" and "clock_runs (vdu_clock s)" and "\<not> scrollActive s"
    and "cur_col (gCursor s) = 0" and "blank_line (term_of s)" and "\<not> gInsertMode s"
    and "printed w" and "length w < 80" and "w \<noteq> []" and "last w \<noteq> SPACE_CHAR"
  shows "map_option vduGetCurrentScreenline (vduPrintStr w s) = Some (w @ [0])"
  using line_read_back [OF assms] by auto

lemma printed_line_read_back_witness:
  "map_option vduGetCurrentScreenline (vduPrintStr [0x44, 0x49, 0x52] vdu_up) = Some ([0x44, 0x49, 0x52] @ [0])"
  by (rule printed_line_read_back [OF vdu_up(1-5,7,6)]) (simp_all add: printed_def)

section \<open>Smooth scrolling at the bottom line\<close>

text \<open>A newline there leaves the cursor below the text buffer until the scroll is over.\<close>

definition grows :: "vdu \<Rightarrow> vdu \<Rightarrow> bool" where
  "grows s t \<longleftrightarrow> gCursor t = gCursor s \<and> behind t = behind s \<and> set (display s) \<subseteq> set (display t)"

lemma grows_trans: "grows s t \<Longrightarrow> grows t u \<Longrightarrow> grows s u"
  by (auto simp: grows_def)

lemma grows_draw: "grows s (draw ops s)"
  by (simp add: grows_def draw_def)

lemma grows_cell: "grows s (vduDrawCellPreservingCursor col row s)"
  by (auto simp: vduDrawCellPreservingCursor_def vduDrawCell_def Let_def grows_def draw_def split: cursor_shape.split)

lemma grows_fold: "(\<And>x s. grows s (f x s)) \<Longrightarrow> grows s (fold f xs s)"
proof (induction xs arbitrary: s)
  case (Cons x xs)
  then show ?case using grows_trans [of s "f x s" "fold f xs (f x s)"] by simp
qed (simp add: grows_def)

lemma grows_mouse: "grows s (vduMouseHideForVduUpdate s)" "grows s (vduMouseShowAfterVduUpdate s)"
proof -
  have redraw: "grows s (vduMouseRedrawUnderlyingText s)" for s
    unfolding vduMouseRedrawUnderlyingText_def
    by (auto intro!: grows_fold grows_cell split: prod.split) (simp add: grows_def)
  then have hide: "grows s (vduMouseHideOverlay s)" for s
    unfolding vduMouseHideOverlay_def Let_def by (auto simp: grows_def)
  have pixels: "grows s (fold (\<lambda>(row, col) s. vduMouseDrawPixel (m_x (gMouse s) + int col) (m_y (gMouse s) + int row)
      VDU_MOUSE_POINTER_COLOR s) pointer_pixels s)" for s
    by (rule grows_fold) (auto simp: vduMouseDrawPixel_def grows_def draw_def split: prod.split)
  then have overlay: "grows s (vduMouseDrawOverlay s)" for s
    unfolding vduMouseDrawOverlay_def Let_def by (auto simp: grows_def)
  show "grows s (vduMouseHideForVduUpdate s)"
    using hide [of "s\<lparr>gMouseVduUpdateDepth := (gMouseVduUpdateDepth s + 1) mod 256\<rparr>"]
    by (auto simp: vduMouseHideForVduUpdate_def Let_def grows_def)
  show "grows s (vduMouseShowAfterVduUpdate s)"
    using overlay [of "s\<lparr>gMouseVduUpdateDepth := gMouseVduUpdateDepth s - 1\<rparr>"]
    by (auto simp: vduMouseShowAfterVduUpdate_def Let_def grows_def)
qed

lemmas mouse_keeps [simp] = grows_mouse [unfolded grows_def, THEN conjunct1]
  grows_mouse [unfolded grows_def, THEN conjunct2, THEN conjunct1]

lemma hidden: "cur_drawn (gCursor (hideCursor s)) = False" "behind (hideCursor s) = behind s"
  "cur_enabled (gCursor (hideCursor s)) = cur_enabled (gCursor s)"
  by (simp_all add: hideCursor_def Let_def set_cursor_colors_def vduDrawCell_def draw_def)

lemma shown_cursor_colors:
  assumes "cur_enabled (gCursor s)" and "\<not> cur_drawn (gCursor s)"
  shows "Set_Color IDX_CURSOR_BG (palette_brg (cell_bg (cell_at s (cur_row (gCursor s)) (cur_col (gCursor s)))))
    \<in> set (display (showCursor s))"
  using assms by (simp add: showCursor_def Let_def set_cursor_colors_def draw_def split: cursor_shape.split)

text \<open>The cursor is drawn there in the colours of a cell behind the buffer, and this position is the one that
  \<open>vduSaveCursor\<close> keeps.\<close>

lemma smooth_newline_leaves_screen:
  assumes "vdu_ok s" and "\<not> scrollActive s" and "cur_row (gCursor s) = 23" and "smoothScroll s"
    and "textMode (vduMode s)" and "autoScroll (vduMode s)" and "visibleCursor (vduMode s)"
  shows "cur_row (gCursor (put_now 0x0A s)) = 24 \<and> cur_row (gSaveCursor (put_now 0x0A s)) = 24 \<and>
    Set_Color IDX_CURSOR_BG (palette_brg (cell_bg (behind s 24 0))) \<in> set (display (put_now 0x0A s))"
proof -
  let ?s = "setCursor False (vduMouseHideForVduUpdate s)"
  have s: "cur_drawn (gCursor ?s) = False" "behind ?s = behind s" "cur_row (gCursor ?s) = 23" "smoothScroll ?s"
    "autoScroll (vduMode ?s)"
    using assms by (simp_all add: setCursor_def Let_def hidden)
  define n where "n = vduSaveCursor (cmdNewline ?s)"
  have n: "cur_drawn (gCursor n) = False" "behind n = behind s" "cur_row (gCursor n) = 24" "cur_col (gCursor n) = 0"
    "cur_row (gSaveCursor n) = 24" "vduMode n = vduMode s"
    using s assms by (simp_all add: n_def vduSaveCursor_def cmdNewline_def cmdScrollUp_def Let_def)
  have now: "put_now 0x0A s = vduMouseShowAfterVduUpdate (setCursor True n)"
    using assms(5) by (simp add: put_now_def put_char_def n_def Let_def)
  define m where "m = (let m = vduMouseHideForVduUpdate n in m\<lparr>gCursor := (gCursor m)\<lparr>cur_enabled := True\<rparr>\<rparr>)"
  have m: "cur_enabled (gCursor m)" "\<not> cur_drawn (gCursor m)" "cell_at m (cur_row (gCursor m)) (cur_col (gCursor m)) = behind s 24 0"
    using n by (simp_all add: m_def Let_def cell_at_def)
  have "setCursor True n = vduMouseShowAfterVduUpdate (showCursor m)"
    using n(6) assms(5,7) by (simp add: setCursor_def Let_def m_def)
  then have "set (display (showCursor m)) \<subseteq> set (display (put_now 0x0A s))"
    unfolding now using grows_mouse(2) by (auto simp: grows_def)
  then show ?thesis using shown_cursor_colors [OF m(1,2)] m(3) n by (auto simp: now)
qed

text \<open>So the end of an edited line scrolls after an instant scroll, and does not after a smooth one.\<close>

lemma restore_after_instant_scroll:
  assumes "vdu_ok s" and "\<not> scrollActive s" and "gInEditmode s" and "cur_row (gCursor s) = 23"
    and "cur_row (gSaveCursor s) = 23" and "\<not> smoothScroll s"
  shows "t_lines (term_of (vduRestoreCursor s)) = t_scroll (term_of s)"
proof -
  let ?u = "cmdScrollUp (hideCursor s)"
  have p: "pendingCursorRow s = -1" using assms(1,2) by (auto simp: vdu_ok_def text_ok_def)
  have u: "gScreen ?u = t_scroll (term_of s)" "\<not> scrollActive ?u" "gMouseVduUpdateDepth ?u < 252"
    using assms p by (simp_all add: cmdScrollUp_def Let_def rotate_text_def take_pending_row_def t_scroll_def
        term_of_def current_cell_def t_cell_def vdu_ok_def)
  show ?thesis using assms u(1,2) core_sel [OF move_cursor(1) [OF u(3)]]
    by (simp add: vduRestoreCursor_def Let_def term_of_def)
qed

lemma restore_after_smooth_scroll:
  assumes "vdu_ok s" and "\<not> scrollActive s" and "gInEditmode s" and "cur_row (gCursor s) = 23"
    and "cur_row (gSaveCursor s) = 24"
  shows "term_of (vduRestoreCursor s) = (term_of s)\<lparr>t_col := 0\<rparr>"
proof -
  have d: "gMouseVduUpdateDepth s < 252" using assms(1) by (simp add: vdu_ok_def)
  show ?thesis using assms core_sel [OF move_cursor(1) [OF d]]
    by (simp add: vduRestoreCursor_def Let_def term_of_def current_cell_def)
qed

end
