(* ===== verification/Gdu.thy ===== *)
theory Gdu
  imports Vdu_Spec
begin

text \<open>
  \<open>gdu.cpp\<close>: the graphics registers, the drawing commands and the command table, on the display of \<open>vdu.cpp\<close>. The
  register sets are numbered, \<open>gduRegisters\<close> names the active one and 0 is the default set. Messages on
  \<open>Serial1\<close> are left out, so a void command does nothing.
\<close>

section \<open>State\<close>

definition MAX_GDU_COMMANDS :: nat where "MAX_GDU_COMMANDS = 32"
definition NUM_GDU_REGISTERS :: nat where "NUM_GDU_REGISTERS = 9"
definition CMD_SANE :: u8 where "CMD_SANE = 0xFF"
definition P6L :: nat where "P6L = 12"
definition P7L :: nat where "P7L = 14"

record gdu =
  gdu_sets :: "nat \<Rightarrow> u16 list"
  gduRegisters :: nat
  gduGColor :: u8
  gduDrawmode :: u8
  gdu_vdu :: vdu

definition gdu_reg :: "gdu \<Rightarrow> nat \<Rightarrow> nat" where
  "gdu_reg g r = unat (gdu_sets g (gduRegisters g) ! r)"

text \<open>The registers as bytes, least significant byte first.\<close>

definition gdu_block :: "gdu \<Rightarrow> nat \<Rightarrow> u8" where
  "gdu_block g b =
     (let r = gdu_sets g (gduRegisters g) ! (b div 2) in
      if even b then ucast r else ucast (drop_bit 8 r))"

definition gdu_draw :: "display_op \<Rightarrow> gdu \<Rightarrow> gdu" where
  "gdu_draw op g = g\<lparr>gdu_vdu := draw [op] (gdu_vdu g)\<rparr>"

abbreviation reg_x :: "gdu \<Rightarrow> nat \<Rightarrow> nat" where "reg_x g r \<equiv> gdu_reg g r mod WIDTH"
abbreviation reg_y :: "gdu \<Rightarrow> nat \<Rightarrow> nat" where "reg_y g r \<equiv> gdu_reg g r mod HEIGHT"

section \<open>Commands\<close>

definition setGDURegisterSet :: "nat \<Rightarrow> gdu \<Rightarrow> gdu" where
  "setGDURegisterSet p g = g\<lparr>gduRegisters := p\<rparr>"

text \<open>\<open>pixel\<close> is the display's answer.\<close>

definition getPixel :: "(nat \<Rightarrow> nat \<Rightarrow> u8) \<Rightarrow> gdu \<Rightarrow> u8" where
  "getPixel pixel g = pixel (reg_x g 0) (reg_y g 1)"

definition drawPixel :: "gdu \<Rightarrow> gdu" where
  "drawPixel g = gdu_draw (Draw_Pixel (int (reg_x g 0)) (int (reg_y g 1)) (gduGColor g)) g"

definition drawLine :: "gdu \<Rightarrow> gdu" where
  "drawLine g = gdu_draw (Draw_Line (reg_x g 0) (reg_y g 1) (reg_x g 2) (reg_y g 3) (gduGColor g)) g"

definition drawRect :: "gdu \<Rightarrow> gdu" where
  "drawRect g =
     (if gduDrawmode g = 0
      then gdu_draw (Draw_Rect (reg_x g 0) (reg_y g 1) (reg_x g 2) (reg_y g 3) (gduGColor g)) g
      else gdu_draw (Fill_Rect (reg_x g 0) (reg_y g 1) (reg_x g 2) (reg_y g 3) (gduGColor g)) g)"

definition drawRectR :: "gdu \<Rightarrow> gdu" where
  "drawRectR g =
     (if gduDrawmode g = 0
      then gdu_draw (Draw_Round_Rect (reg_x g 0) (reg_y g 1) (reg_x g 2) (reg_y g 3) (gdu_reg g 4) (gduGColor g)) g
      else gdu_draw (Fill_Round_Rect (reg_x g 0) (reg_y g 1) (reg_x g 2) (reg_y g 3) (gdu_reg g 4) (gduGColor g)) g)"

text \<open>Both draw modes draw the outline.\<close>

definition drawCircle :: "gdu \<Rightarrow> gdu" where
  "drawCircle g =
     (if gduDrawmode g = 0 then
        if geoAspect (vduMode (gdu_vdu g))
        then gdu_draw (Draw_Ellipse (reg_x g 0) (reg_y g 1) (reg_x g 2) (gdu_reg g 3 * 4 div 3 mod WIDTH) (gduGColor g)) g
        else gdu_draw (Draw_Circle (reg_x g 0) (reg_y g 1) (reg_x g 2) (gduGColor g)) g
      else
        if geoAspect (vduMode (gdu_vdu g))
        then gdu_draw (Draw_Ellipse (reg_x g 0) (reg_y g 1) (reg_x g 2) (gdu_reg g 3 * 4 div 3 mod WIDTH) (gduGColor g)) g
        else gdu_draw (Draw_Circle (reg_x g 0) (reg_y g 1) (reg_x g 2) (gduGColor g)) g)"

definition drawTriangle :: "gdu \<Rightarrow> gdu" where
  "drawTriangle g =
     (if gduDrawmode g = 0
      then gdu_draw (Draw_Triangle (reg_x g 0) (reg_y g 1) (reg_x g 2) (reg_y g 3) (reg_x g 4) (reg_y g 5) (gduGColor g)) g
      else gdu_draw (Fill_Triangle (reg_x g 0) (reg_y g 1) (reg_x g 2) (reg_y g 3) (reg_x g 4) (reg_y g 5) (gduGColor g)) g)"

definition cmdDMode :: "gdu \<Rightarrow> gdu" where
  "cmdDMode g = g\<lparr>gduDrawmode := gdu_block g P6L\<rparr>"

definition cmdCLS :: "gdu \<Rightarrow> gdu" where
  "cmdCLS g = g\<lparr>gdu_vdu := cmdClearScreen (gdu_vdu g)\<rparr>"

definition cmdGColor :: "gdu \<Rightarrow> gdu" where
  "cmdGColor g = g\<lparr>gduGColor := gdu_block g P7L\<rparr>"

definition cmdGDUMode :: "gdu \<Rightarrow> gdu" where
  "cmdGDUMode g = g\<lparr>gdu_vdu := vduSetMode (unat (gdu_block g P6L)) (gdu_vdu g)\<rparr>"

definition cmdVoid :: "gdu \<Rightarrow> gdu" where "cmdVoid g = g"
definition cmdTBD :: "gdu \<Rightarrow> gdu" where "cmdTBD g = g"

definition gduSetReg :: "u8 \<Rightarrow> u16 \<Rightarrow> gdu \<Rightarrow> gdu" where
  "gduSetReg r v g =
     (if unat r < NUM_GDU_REGISTERS
      then g\<lparr>gdu_sets := (gdu_sets g)(gduRegisters g := (gdu_sets g (gduRegisters g))[unat r := v])\<rparr>
      else g)"

definition cmdCommands :: "(gdu \<Rightarrow> gdu) list" where
  "cmdCommands =
     [cmdVoid, cmdCLS, cmdTBD, drawPixel, drawLine, drawRect, drawCircle, drawTriangle,
      drawRectR, cmdDMode, cmdGColor, cmdTBD, cmdTBD, cmdTBD, cmdVoid, cmdVoid,
      cmdTBD, cmdTBD, cmdVoid, cmdVoid, cmdVoid, cmdVoid, cmdVoid, cmdVoid,
      cmdVoid, cmdVoid, cmdVoid, cmdVoid, cmdVoid, cmdVoid, cmdVoid, cmdGDUMode]"

definition gduSetCmd :: "u8 \<Rightarrow> gdu \<Rightarrow> gdu" where
  "gduSetCmd cmd g =
     (if cmd = CMD_SANE then g\<lparr>gdu_vdu := resetDisplay 0 (gdu_vdu g)\<rparr>
      else (cmdCommands ! (unat cmd mod MAX_GDU_COMMANDS)) g)"

text \<open>The variable arguments are a list with at least the values that are read.\<close>

definition gduSetCmdx :: "u8 \<Rightarrow> u8 \<Rightarrow> u16 list \<Rightarrow> gdu \<Rightarrow> gdu" where
  "gduSetCmdx cmd n vs g =
     gduSetCmd cmd (fold (\<lambda>r. gduSetReg (of_nat r) (vs ! r)) [0..<unat n mod NUM_GDU_REGISTERS] g)"

definition introDisplay :: "vdu \<Rightarrow> vdu option" where
  "introDisplay s =
     map_option (setTColor DEFAULT_COLOR)
       (vduPrintf (map of_char (''NEO6502_mmu: version v3.17.687'' @ [CHR 0x0A])) (setTColor 69 s))"

section \<open>Lemmas\<close>

fun on_screen :: "display_op \<Rightarrow> bool" where
  "on_screen (Draw_Pixel x y c) = (0 \<le> x \<and> x < int WIDTH \<and> 0 \<le> y \<and> y < int HEIGHT)"
| "on_screen (Draw_Line x y x2 y2 c) = (x < WIDTH \<and> y < HEIGHT \<and> x2 < WIDTH \<and> y2 < HEIGHT)"
| "on_screen (Draw_Rect x y w h c) = (x < WIDTH \<and> y < HEIGHT \<and> w < WIDTH \<and> h < HEIGHT)"
| "on_screen (Fill_Rect x y w h c) = (x < WIDTH \<and> y < HEIGHT \<and> w < WIDTH \<and> h < HEIGHT)"
| "on_screen (Draw_Round_Rect x y w h r c) = (x < WIDTH \<and> y < HEIGHT \<and> w < WIDTH \<and> h < HEIGHT)"
| "on_screen (Fill_Round_Rect x y w h r c) = (x < WIDTH \<and> y < HEIGHT \<and> w < WIDTH \<and> h < HEIGHT)"
| "on_screen (Draw_Circle x y r c) = (x < WIDTH \<and> y < HEIGHT \<and> r < WIDTH)"
| "on_screen (Draw_Ellipse x y a b c) = (x < WIDTH \<and> y < HEIGHT \<and> a < WIDTH \<and> b < WIDTH)"
| "on_screen (Draw_Triangle x y x2 y2 x3 y3 c) =
    (x < WIDTH \<and> y < HEIGHT \<and> x2 < WIDTH \<and> y2 < HEIGHT \<and> x3 < WIDTH \<and> y3 < HEIGHT)"
| "on_screen (Fill_Triangle x y x2 y2 x3 y3 c) =
    (x < WIDTH \<and> y < HEIGHT \<and> x2 < WIDTH \<and> y2 < HEIGHT \<and> x3 < WIDTH \<and> y3 < HEIGHT)"
| "on_screen _ = False"

lemmas gdu_drawing = drawPixel_def drawLine_def drawRect_def drawRectR_def drawCircle_def drawTriangle_def

lemma one_drawing: "on_screen op \<Longrightarrow> \<exists>op'. on_screen op' \<and> gdu_draw op g = gdu_draw op' g"
  by blast

lemma drawing_spec:
  assumes "f \<in> {drawPixel, drawLine, drawRect, drawRectR, drawCircle, drawTriangle}"
  shows "\<exists>op. on_screen op \<and> f g = gdu_draw op g"
  using assms by (auto simp: gdu_drawing simp del: of_nat_mod zmod_int intro!: one_drawing)

lemma command_cases:
  "cmdCommands ! (n mod MAX_GDU_COMMANDS) =
    (if n mod 32 = 1 then cmdCLS else if n mod 32 = 3 then drawPixel else if n mod 32 = 4 then drawLine
     else if n mod 32 = 5 then drawRect else if n mod 32 = 6 then drawCircle else if n mod 32 = 7 then drawTriangle
     else if n mod 32 = 8 then drawRectR else if n mod 32 = 9 then cmdDMode else if n mod 32 = 10 then cmdGColor
     else if n mod 32 = 31 then cmdGDUMode else id)"
proof -
  define f where "f = (\<lambda>k :: nat.
      if k = 1 then cmdCLS else if k = 3 then drawPixel else if k = 4 then drawLine
       else if k = 5 then drawRect else if k = 6 then drawCircle else if k = 7 then drawTriangle
       else if k = 8 then drawRectR else if k = 9 then cmdDMode else if k = 10 then cmdGColor
       else if k = 31 then cmdGDUMode else id)"
  have void: "cmdVoid = id" "cmdTBD = id" by (simp_all add: fun_eq_iff cmdVoid_def cmdTBD_def)
  have "[0..<32] = [0, 1, 2, 3, 4, 5, 6, 7, 8, 9, 10, 11, 12, 13, 14, 15, 16, 17, 18, 19, 20, 21, 22, 23, 24, 25, 26,
      27, 28, 29, 30, 31 :: nat]" by code_simp
  then have "map f [0..<32] = cmdCommands" by (simp add: f_def cmdCommands_def void)
  then have "cmdCommands ! (n mod 32) = f (n mod 32)"
    using nth_map [of "n mod 32" "[0..<32]" f] by simp
  then show ?thesis by (simp only: f_def MAX_GDU_COMMANDS_def)
qed

lemma gdu_draw_frame [simp]:
  "gdu_sets (gdu_draw op g) = gdu_sets g" "gduRegisters (gdu_draw op g) = gduRegisters g"
  "gdu_vdu (gdu_draw op g) = draw [op] (gdu_vdu g)" "gduGColor (gdu_draw op g) = gduGColor g"
  "gduDrawmode (gdu_draw op g) = gduDrawmode g"
  by (simp_all add: gdu_draw_def)

lemma drawing_command:
  assumes "cmd \<noteq> CMD_SANE" and "unat cmd mod 32 \<in> {3..8}"
  shows "\<exists>op. on_screen op \<and> gduSetCmd cmd g = gdu_draw op g"
proof -
  have "unat cmd mod 32 \<in> {3, 4, 5, 6, 7, 8}" using assms(2) by auto
  then have "cmdCommands ! (unat cmd mod MAX_GDU_COMMANDS) \<in>
      {drawPixel, drawLine, drawRect, drawRectR, drawCircle, drawTriangle}"
    unfolding command_cases by auto
  from drawing_spec [OF this, of g] show ?thesis using assms(1) by (simp add: gduSetCmd_def)
qed

lemma other_command:
  assumes "unat cmd mod 32 \<notin> {3..8}" and "cmd \<noteq> CMD_SANE"
  shows "gduSetCmd cmd g \<in> {cmdCLS g, cmdDMode g, cmdGColor g, cmdGDUMode g, g}"
    and "unat cmd mod 32 \<notin> {1, 31} \<Longrightarrow> gduSetCmd cmd g \<in> {cmdDMode g, cmdGColor g, g}"
proof -
  have "unat cmd mod 32 \<notin> {3, 4, 5, 6, 7, 8}" using assms(1) by auto
  then show "gduSetCmd cmd g \<in> {cmdCLS g, cmdDMode g, cmdGColor g, cmdGDUMode g, g}"
    and "unat cmd mod 32 \<notin> {1, 31} \<Longrightarrow> gduSetCmd cmd g \<in> {cmdDMode g, cmdGColor g, g}"
    using assms(2) by (simp_all add: gduSetCmd_def command_cases)
qed

lemma other_effects:
  assumes "vdu_ok (gdu_vdu g)"
  shows "h \<in> {cmdCLS g, cmdDMode g, cmdGColor g, cmdGDUMode g, g} \<Longrightarrow>
      gdu_sets h = gdu_sets g \<and> gduRegisters h = gduRegisters g \<and> vdu_ok (gdu_vdu h)"
    and "h \<in> {cmdDMode g, cmdGColor g, g} \<Longrightarrow> gdu_vdu h = gdu_vdu g"
  using assms by (auto simp: cmdCLS_def cmdDMode_def cmdGColor_def cmdGDUMode_def vdu_ok_clear vdu_ok_simple(10))

section \<open>Properties\<close>

text \<open>
  Whatever the registers hold, a command leaves the registers as they are and the terminal consistent. A drawing
  command makes one call of the display, with every coordinate and extent inside the picture, and changes
  neither the text nor the cursor; only the clear, mode and reset commands touch the terminal at all.
\<close>

theorem graphics_commands:
  assumes "vdu_ok (gdu_vdu g)"
  shows "gdu_sets (gduSetCmd cmd g) = gdu_sets g \<and> gduRegisters (gduSetCmd cmd g) = gduRegisters g \<and>
    vdu_ok (gdu_vdu (gduSetCmd cmd g)) \<and>
    (cmd \<noteq> CMD_SANE \<and> unat cmd mod 32 \<in> {3..8} \<longrightarrow>
      (\<exists>op. on_screen op \<and> gduSetCmd cmd g = g\<lparr>gdu_vdu := draw [op] (gdu_vdu g)\<rparr>)) \<and>
    (cmd \<noteq> CMD_SANE \<and> unat cmd mod 32 \<notin> {1, 31} \<union> {3..8} \<longrightarrow> gdu_vdu (gduSetCmd cmd g) = gdu_vdu g)"
proof (cases "cmd = CMD_SANE")
  case True
  then show ?thesis using reset_ok [OF assms, of 0] by (simp add: gduSetCmd_def)
next
  case sane: False
  show ?thesis
  proof (cases "unat cmd mod 32 \<in> {3..8}")
    case True
    with drawing_command [OF sane] obtain op where "on_screen op" "gduSetCmd cmd g = gdu_draw op g" by blast
    then show ?thesis using True assms by (auto simp: gdu_draw_def vdu_ok_simple)
  next
    case False
    note c = other_command [OF False sane, of g]
    show ?thesis using other_effects(1) [OF assms c(1)] other_effects(2) [OF assms c(2)] False by auto
  qed
qed

text \<open>A line whose far end is off the picture wraps around.\<close>

definition demo_gdu :: gdu where
  "demo_gdu = \<lparr>gdu_sets = (\<lambda>_. [10, 20, 650, 490, 0, 0, 0, 0, 0]), gduRegisters = 0, gduGColor = 9, gduDrawmode = 0,
     gdu_vdu = vdu_up\<rparr>"

lemma graphics_commands_witness:
  "gduSetCmd 4 demo_gdu = demo_gdu\<lparr>gdu_vdu := draw [Draw_Line 10 20 10 10 9] vdu_up\<rparr> \<and>
   (\<exists>op. on_screen op \<and> gduSetCmd 4 demo_gdu = demo_gdu\<lparr>gdu_vdu := draw [op] vdu_up\<rparr>)"
proof -
  have "vdu_ok (gdu_vdu demo_gdu)" using vdu_up(1) by (simp add: demo_gdu_def)
  then show ?thesis using graphics_commands [of demo_gdu 4]
    by (simp add: CMD_SANE_def gduSetCmd_def command_cases drawLine_def gdu_draw_def gdu_reg_def)
      (simp add: demo_gdu_def)
qed

text \<open>\<open>gduSetCmdx\<close> takes the number of registers modulo nine: asked to set all nine it sets none.\<close>

lemma set_all_sets_none: "gduSetCmdx cmd 9 vs g = gduSetCmd cmd g"
  by (simp add: gduSetCmdx_def NUM_GDU_REGISTERS_def)

end
