(* ===== verification/Disasm.thy ===== *)
theory Disasm
  imports Memory_Port
begin

text \<open>
  \<open>disasm6502.cpp\<close> and \<open>ram.cpp\<close>: the opcode table, the labels, the listing of 65C02 code, and the memory
  dump. The state is the machine that is read through the snoop accesses, the label table (its first
  \<open>labelCount\<close> entries) and the text sent to \<open>Serial1\<close>.
\<close>

section \<open>Text\<close>

definition hex_char :: "nat \<Rightarrow> char" where
  "hex_char n = ''0123456789ABCDEF'' ! (n mod 16)"

definition hex2 :: "u8 \<Rightarrow> string" where
  "hex2 b = [hex_char (unat b div 16), hex_char (unat b)]"

definition hex4 :: "u16 \<Rightarrow> string" where
  "hex4 a = [hex_char (unat a div 4096), hex_char (unat a div 256), hex_char (unat a div 16), hex_char (unat a)]"

definition pad_to :: "nat \<Rightarrow> string \<Rightarrow> string" where
  "pad_to n s = s @ replicate (n - length s) (CHR 0x20)"

definition line_end :: string where
  "line_end = [CHR 0x0D, CHR 0x0A]"

section \<open>Opcodes\<close>

datatype AddrMode =
    M_IMP | M_ACC | M_IMM | M_ZP | M_ZPX | M_ZPY | M_ABS | M_ABSX | M_ABSY | M_IND | M_INDX | M_INDY
  | M_ZPIND | M_REL | M_ZPREL | M_ABXI

type_synonym opcode = "string \<times> AddrMode \<times> nat"

definition optable :: "opcode list" where
  "optable =
    [
     (''BRK'', M_IMP, 1), (''ORA'', M_INDX, 2), (''???'', M_IMP, 1), (''???'', M_IMP, 1), (''TSB'', M_ZP, 2), (''ORA'', M_ZP, 2),
     (''ASL'', M_ZP, 2), (''RMB0'', M_ZP, 2), (''PHP'', M_IMP, 1), (''ORA'', M_IMM, 2), (''ASL'', M_ACC, 1), (''???'', M_IMP, 1),
     (''TSB'', M_ABS, 3), (''ORA'', M_ABS, 3), (''ASL'', M_ABS, 3), (''BBR0'', M_ZPREL, 3), (''BPL'', M_REL, 2), (''ORA'', M_INDY, 2),
     (''ORA'', M_ZPIND, 2), (''???'', M_IMP, 1), (''TRB'', M_ZP, 2), (''ORA'', M_ZPX, 2), (''ASL'', M_ZPX, 2), (''RMB1'', M_ZP, 2),
     (''CLC'', M_IMP, 1), (''ORA'', M_ABSY, 3), (''INC'', M_ACC, 1), (''???'', M_IMP, 1), (''TRB'', M_ABS, 3), (''ORA'', M_ABSX, 3),
     (''ASL'', M_ABSX, 3), (''BBR1'', M_ZPREL, 3), (''JSR'', M_ABS, 3), (''AND'', M_INDX, 2), (''???'', M_IMP, 1), (''???'', M_IMP, 1),
     (''BIT'', M_ZP, 2), (''AND'', M_ZP, 2), (''ROL'', M_ZP, 2), (''RMB2'', M_ZP, 2), (''PLP'', M_IMP, 1), (''AND'', M_IMM, 2),
     (''ROL'', M_ACC, 1), (''???'', M_IMP, 1), (''BIT'', M_ABS, 3), (''AND'', M_ABS, 3), (''ROL'', M_ABS, 3), (''BBR2'', M_ZPREL, 3),
     (''BMI'', M_REL, 2), (''AND'', M_INDY, 2), (''AND'', M_ZPIND, 2), (''???'', M_IMP, 1), (''BIT'', M_ZPX, 2), (''AND'', M_ZPX, 2),
     (''ROL'', M_ZPX, 2), (''RMB3'', M_ZP, 2), (''SEC'', M_IMP, 1), (''AND'', M_ABSY, 3), (''DEC'', M_ACC, 1), (''???'', M_IMP, 1),
     (''BIT'', M_ABSX, 3), (''AND'', M_ABSX, 3), (''ROL'', M_ABSX, 3), (''BBR3'', M_ZPREL, 3), (''RTI'', M_IMP, 1), (''EOR'', M_INDX, 2),
     (''???'', M_IMP, 1), (''???'', M_IMP, 1), (''???'', M_IMP, 1), (''EOR'', M_ZP, 2), (''LSR'', M_ZP, 2), (''RMB4'', M_ZP, 2),
     (''PHA'', M_IMP, 1), (''EOR'', M_IMM, 2), (''LSR'', M_ACC, 1), (''???'', M_IMP, 1), (''JMP'', M_ABS, 3), (''EOR'', M_ABS, 3),
     (''LSR'', M_ABS, 3), (''BBR4'', M_ZPREL, 3), (''BVC'', M_REL, 2), (''EOR'', M_INDY, 2), (''EOR'', M_ZPIND, 2), (''???'', M_IMP, 1),
     (''???'', M_IMP, 1), (''EOR'', M_ZPX, 2), (''LSR'', M_ZPX, 2), (''RMB5'', M_ZP, 2), (''CLI'', M_IMP, 1), (''EOR'', M_ABSY, 3),
     (''PHY'', M_IMP, 1), (''???'', M_IMP, 1), (''???'', M_IMP, 1), (''EOR'', M_ABSX, 3), (''LSR'', M_ABSX, 3), (''BBR5'', M_ZPREL, 3),
     (''RTS'', M_IMP, 1), (''ADC'', M_INDX, 2), (''???'', M_IMP, 1), (''???'', M_IMP, 1), (''STZ'', M_ZP, 2), (''ADC'', M_ZP, 2),
     (''ROR'', M_ZP, 2), (''RMB6'', M_ZP, 2), (''PLA'', M_IMP, 1), (''ADC'', M_IMM, 2), (''ROR'', M_ACC, 1), (''???'', M_IMP, 1),
     (''JMP'', M_IND, 3), (''ADC'', M_ABS, 3), (''ROR'', M_ABS, 3), (''BBR6'', M_ZPREL, 3), (''BVS'', M_REL, 2), (''ADC'', M_INDY, 2),
     (''ADC'', M_ZPIND, 2), (''???'', M_IMP, 1), (''STZ'', M_ZPX, 2), (''ADC'', M_ZPX, 2), (''ROR'', M_ZPX, 2), (''RMB7'', M_ZP, 2),
     (''SEI'', M_IMP, 1), (''ADC'', M_ABSY, 3), (''PLY'', M_IMP, 1), (''???'', M_IMP, 1), (''JMP'', M_ABXI, 3), (''ADC'', M_ABSX, 3),
     (''ROR'', M_ABSX, 3), (''BBR7'', M_ZPREL, 3), (''BRA'', M_REL, 2), (''STA'', M_INDX, 2), (''???'', M_IMP, 1), (''???'', M_IMP, 1),
     (''STY'', M_ZP, 2), (''STA'', M_ZP, 2), (''STX'', M_ZP, 2), (''SMB0'', M_ZP, 2), (''DEY'', M_IMP, 1), (''BIT'', M_IMM, 2),
     (''TXA'', M_IMP, 1), (''???'', M_IMP, 1), (''STY'', M_ABS, 3), (''STA'', M_ABS, 3), (''STX'', M_ABS, 3), (''BBS0'', M_ZPREL, 3),
     (''BCC'', M_REL, 2), (''STA'', M_INDY, 2), (''STA'', M_ZPIND, 2), (''???'', M_IMP, 1), (''STY'', M_ZPX, 2), (''STA'', M_ZPX, 2),
     (''STX'', M_ZPY, 2), (''SMB1'', M_ZP, 2), (''TYA'', M_IMP, 1), (''STA'', M_ABSY, 3), (''TXS'', M_IMP, 1), (''???'', M_IMP, 1),
     (''STZ'', M_ABS, 3), (''STA'', M_ABSX, 3), (''STZ'', M_ABSX, 3), (''BBS1'', M_ZPREL, 3), (''LDY'', M_IMM, 2), (''LDA'', M_INDX, 2),
     (''LDX'', M_IMM, 2), (''???'', M_IMP, 1), (''LDY'', M_ZP, 2), (''LDA'', M_ZP, 2), (''LDX'', M_ZP, 2), (''SMB2'', M_ZP, 2),
     (''TAY'', M_IMP, 1), (''LDA'', M_IMM, 2), (''TAX'', M_IMP, 1), (''???'', M_IMP, 1), (''LDY'', M_ABS, 3), (''LDA'', M_ABS, 3),
     (''LDX'', M_ABS, 3), (''BBS2'', M_ZPREL, 3), (''BCS'', M_REL, 2), (''LDA'', M_INDY, 2), (''LDA'', M_ZPIND, 2), (''???'', M_IMP, 1),
     (''LDY'', M_ZPX, 2), (''LDA'', M_ZPX, 2), (''LDX'', M_ZPY, 2), (''SMB3'', M_ZP, 2), (''CLV'', M_IMP, 1), (''LDA'', M_ABSY, 3),
     (''TSX'', M_IMP, 1), (''???'', M_IMP, 1), (''LDY'', M_ABSX, 3), (''LDA'', M_ABSX, 3), (''LDX'', M_ABSY, 3), (''BBS3'', M_ZPREL, 3),
     (''CPY'', M_IMM, 2), (''CMP'', M_INDX, 2), (''???'', M_IMP, 1), (''???'', M_IMP, 1), (''CPY'', M_ZP, 2), (''CMP'', M_ZP, 2),
     (''DEC'', M_ZP, 2), (''SMB4'', M_ZP, 2), (''INY'', M_IMP, 1), (''CMP'', M_IMM, 2), (''DEX'', M_IMP, 1), (''WAI'', M_IMP, 1),
     (''CPY'', M_ABS, 3), (''CMP'', M_ABS, 3), (''DEC'', M_ABS, 3), (''BBS4'', M_ZPREL, 3), (''BNE'', M_REL, 2), (''CMP'', M_INDY, 2),
     (''CMP'', M_ZPIND, 2), (''???'', M_IMP, 1), (''???'', M_IMP, 1), (''CMP'', M_ZPX, 2), (''DEC'', M_ZPX, 2), (''SMB5'', M_ZP, 2),
     (''CLD'', M_IMP, 1), (''CMP'', M_ABSY, 3), (''PHX'', M_IMP, 1), (''STP'', M_IMP, 1), (''???'', M_IMP, 1), (''CMP'', M_ABSX, 3),
     (''DEC'', M_ABSX, 3), (''BBS5'', M_ZPREL, 3), (''CPX'', M_IMM, 2), (''SBC'', M_INDX, 2), (''???'', M_IMP, 1), (''???'', M_IMP, 1),
     (''CPX'', M_ZP, 2), (''SBC'', M_ZP, 2), (''INC'', M_ZP, 2), (''SMB6'', M_ZP, 2), (''INX'', M_IMP, 1), (''SBC'', M_IMM, 2),
     (''NOP'', M_IMP, 1), (''NOP'', M_IMP, 1), (''CPX'', M_ABS, 3), (''SBC'', M_ABS, 3), (''INC'', M_ABS, 3), (''BBS6'', M_ZPREL, 3),
     (''BEQ'', M_REL, 2), (''SBC'', M_INDY, 2), (''SBC'', M_ZPIND, 2), (''???'', M_IMP, 1), (''???'', M_IMP, 1), (''SBC'', M_ZPX, 2),
     (''INC'', M_ZPX, 2), (''SMB7'', M_ZP, 2), (''SED'', M_IMP, 1), (''SBC'', M_ABSY, 3), (''PLX'', M_IMP, 1), (''???'', M_IMP, 1),
     (''???'', M_IMP, 1), (''SBC'', M_ABSX, 3), (''INC'', M_ABSX, 3), (''BBS7'', M_ZPREL, 3)]"

definition opcode_of :: "u8 \<Rightarrow> opcode" where
  "opcode_of b = optable ! unat b"

abbreviation op_name :: "opcode \<Rightarrow> string" where "op_name op \<equiv> fst op"
abbreviation op_mode :: "opcode \<Rightarrow> AddrMode" where "op_mode op \<equiv> fst (snd op)"
abbreviation op_len :: "opcode \<Rightarrow> nat" where "op_len op \<equiv> snd (snd op)"

section \<open>Labels\<close>

definition MAX_LABELS :: nat where "MAX_LABELS = 128"
definition LABEL_WIDTH :: nat where "LABEL_WIDTH = 7"

record disasm_label =
  lbl_addr :: u16
  lbl_name :: string
  lbl_fixed :: bool

record 'b disasm =
  dis_machine :: "'b machine"
  dis_labels :: "disasm_label list"
  serial_out :: string

definition on_machine :: "('b machine, 'a) state \<Rightarrow> ('b disasm, 'a) state" where
  "on_machine = zoom dis_machine (\<lambda>m s. s\<lparr>dis_machine := m\<rparr>)"

definition serial_print :: "string \<Rightarrow> ('b disasm, unit) state" where
  "serial_print t = modify (\<lambda>s. s\<lparr>serial_out := serial_out s @ t\<rparr>)"

definition findLabel :: "disasm_label list \<Rightarrow> u16 \<Rightarrow> string option" where
  "findLabel ls a = map_option lbl_name (find (\<lambda>l. lbl_addr l = a) ls)"

definition createNamedLabel :: "u16 \<Rightarrow> string \<Rightarrow> disasm_label list \<Rightarrow> disasm_label list" where
  "createNamedLabel a name ls =
     (if length ls \<ge> MAX_LABELS then ls
      else ls @ [\<lparr>lbl_addr = a, lbl_name = take 7 name, lbl_fixed = True\<rparr>])"

definition createLabel :: "u16 \<Rightarrow> disasm_label list \<Rightarrow> disasm_label list" where
  "createLabel a ls =
     (if findLabel ls a \<noteq> None then ls
      else if length ls \<ge> MAX_LABELS then ls
      else ls @ [\<lparr>lbl_addr = a, lbl_name = ''L'' @ hex4 a, lbl_fixed = False\<rparr>])"

definition change_labels :: "(disasm_label list \<Rightarrow> disasm_label list) \<Rightarrow> ('b disasm, unit) state" where
  "change_labels f = modify (\<lambda>s. s\<lparr>dis_labels := f (dis_labels s)\<rparr>)"

definition disasmResetLabels :: "('b disasm, unit) state" where
  "disasmResetLabels = change_labels (\<lambda>ls. [])"

definition word_of :: "u8 \<Rightarrow> u8 \<Rightarrow> u16" where
  "word_of lo hi = ucast lo OR push_bit 8 (ucast hi)"

definition readWord :: "'b board \<Rightarrow> u16 \<Rightarrow> ('b disasm, u16) state" where
  "readWord bd a = do {
     b \<leftarrow> on_machine (snoop_read6502Memory bd a 2);
     ret (word_of (b ! 0) (b ! 1))
   }"

definition seedVectors :: "'b board \<Rightarrow> ('b disasm, unit) state" where
  "seedVectors bd = do {
     nmi \<leftarrow> readWord bd 0xFFFA;
     reset \<leftarrow> readWord bd 0xFFFC;
     irq \<leftarrow> readWord bd 0xFFFE;
     change_labels (createNamedLabel nmi ''NMI'');
     change_labels (createNamedLabel reset ''RESET'');
     change_labels (createNamedLabel irq ''IRQ'')
   }"

text \<open>The label an instruction asks for in the first pass.\<close>

definition label_wanted :: "u16 \<Rightarrow> u8 list \<Rightarrow> u16 option" where
  "label_wanted a b =
     (let op = opcode_of (b ! 0) in
      case op_mode op of
        M_REL \<Rightarrow> Some (a + 2 + scast (b ! 1))
      | M_ZPREL \<Rightarrow> Some (a + 3 + scast (b ! 2))
      | M_ABS \<Rightarrow> if op_name op = ''JSR'' \<or> op_name op = ''JMP'' then Some (word_of (b ! 1) (b ! 2)) else None
      | M_ABXI \<Rightarrow> if op_name op = ''JMP'' then Some (word_of (b ! 1) (b ! 2)) else None
      | _ \<Rightarrow> None)"

primrec scan_from :: "'b board \<Rightarrow> nat \<Rightarrow> u16 \<Rightarrow> ('b disasm, unit) state" where
  "scan_from bd 0 a = ret ()"
| "scan_from bd (Suc n) a = do {
     b \<leftarrow> on_machine (snoop_read6502Memory bd a 3);
     change_labels (\<lambda>ls. case label_wanted a b of Some t \<Rightarrow> createLabel t ls | None \<Rightarrow> ls);
     scan_from bd n (a + of_nat (op_len (opcode_of (b ! 0))))
   }" for bd :: "'b board"

definition scanLabels :: "'b board \<Rightarrow> u16 \<Rightarrow> u16 \<Rightarrow> ('b disasm, unit) state" where
  "scanLabels bd a lines = scan_from bd (unat lines) a"

section \<open>The listing\<close>

definition label_or_address :: "disasm_label list \<Rightarrow> u16 \<Rightarrow> string" where
  "label_or_address ls t = (case findLabel ls t of Some l \<Rightarrow> l | None \<Rightarrow> ''$'' @ hex4 t)"

definition operand_text :: "disasm_label list \<Rightarrow> u16 \<Rightarrow> u8 list \<Rightarrow> string" where
  "operand_text ls a b =
     (case op_mode (opcode_of (b ! 0)) of
        M_IMM \<Rightarrow> ''#$'' @ hex2 (b ! 1)
      | M_ZP \<Rightarrow> ''$'' @ hex2 (b ! 1)
      | M_ZPX \<Rightarrow> ''$'' @ hex2 (b ! 1) @ '',X''
      | M_ZPY \<Rightarrow> ''$'' @ hex2 (b ! 1) @ '',Y''
      | M_ABS \<Rightarrow> label_or_address ls (word_of (b ! 1) (b ! 2))
      | M_ABSX \<Rightarrow> ''$'' @ hex2 (b ! 2) @ hex2 (b ! 1) @ '',X''
      | M_ABSY \<Rightarrow> ''$'' @ hex2 (b ! 2) @ hex2 (b ! 1) @ '',Y''
      | M_IND \<Rightarrow> ''($'' @ hex2 (b ! 2) @ hex2 (b ! 1) @ '')''
      | M_INDX \<Rightarrow> ''($'' @ hex2 (b ! 1) @ '',X)''
      | M_INDY \<Rightarrow> ''($'' @ hex2 (b ! 1) @ ''),Y''
      | M_ZPIND \<Rightarrow> ''($'' @ hex2 (b ! 1) @ '')''
      | M_REL \<Rightarrow> label_or_address ls (a + 2 + scast (b ! 1))
      | M_ABXI \<Rightarrow> ''($'' @ hex2 (b ! 2) @ hex2 (b ! 1) @ '',X)''
      | M_ZPREL \<Rightarrow> ''$'' @ hex2 (b ! 1) @ '','' @ label_or_address ls (a + 3 + scast (b ! 2))
      | M_ACC \<Rightarrow> ''A''
      | M_IMP \<Rightarrow> [])"

definition margin_text :: "disasm_label list \<Rightarrow> u16 \<Rightarrow> string" where
  "margin_text ls a =
     (case findLabel ls a of
        Some l \<Rightarrow> line_end @ pad_to LABEL_WIDTH (take 9 (l @ '':''))
      | None \<Rightarrow> ''       '')"

definition bytes_text :: "u8 list \<Rightarrow> string" where
  "bytes_text b =
     (let len = op_len (opcode_of (b ! 0)) in
      hex2 (b ! 0) @ '' ''
      @ (if len > 1 then hex2 (b ! 1) @ '' '' else ''   '')
      @ (if len > 2 then hex2 (b ! 2) @ '' '' else ''   ''))"

definition line_text :: "disasm_label list \<Rightarrow> u16 \<Rightarrow> u8 list \<Rightarrow> string" where
  "line_text ls a b =
     hex4 a @ ''  '' @ bytes_text b @ '' '' @ pad_to 4 (op_name (opcode_of (b ! 0))) @ '' ''
     @ operand_text ls a b @ line_end"

primrec list_from :: "'b board \<Rightarrow> nat \<Rightarrow> u16 \<Rightarrow> ('b disasm, u16) state" where
  "list_from bd 0 a = ret a"
| "list_from bd (Suc n) a = do {
     ls \<leftarrow> gets dis_labels;
     serial_print (margin_text ls a);
     b \<leftarrow> on_machine (snoop_read6502Memory bd a 3);
     serial_print (line_text ls a b);
     list_from bd n (a + of_nat (op_len (opcode_of (b ! 0))))
   }" for bd :: "'b board"

definition disasm6502 :: "'b board \<Rightarrow> u16 \<Rightarrow> u16 \<Rightarrow> bool \<Rightarrow> ('b disasm, u16) state" where
  "disasm6502 bd a lines simple = do {
     when_do (\<not> simple) (do {
       disasmResetLabels;
       seedVectors bd;
       scanLabels bd a lines
     });
     list_from bd (unat lines) a
   }"

section \<open>Memory dumps\<close>

definition dump16 :: "'b board \<Rightarrow> u16 \<Rightarrow> ('b disasm, unit) state" where
  "dump16 bd vAddress = do {
     serial_print (hex4 vAddress @ '':'');
     for_each [0..<8] (\<lambda>m. do {
       dat \<leftarrow> on_machine (snoop_read6502MemoryLoc bd (vAddress + of_nat m));
       serial_print ('' '' @ hex2 dat)
     });
     serial_print '' '';
     for_each [8..<16] (\<lambda>m. do {
       dat \<leftarrow> on_machine (snoop_read6502MemoryLoc bd (vAddress + of_nat m));
       serial_print ('' '' @ hex2 dat)
     });
     serial_print line_end
   }"

text \<open>The subtraction and the division are those of \<open>int\<close>; a count of 0 or less gives no row.\<close>

definition dump_rows :: "u16 \<Rightarrow> u16 \<Rightarrow> nat" where
  "dump_rows vStart vEnd =
     (let diff = uint vEnd - uint vStart in
      nat ((if diff < 0 then - (- diff div 16) else diff div 16) + 1))"

definition dumpMemory :: "'b board \<Rightarrow> u16 \<Rightarrow> u16 \<Rightarrow> ('b disasm, unit) state" where
  "dumpMemory bd vStart vEnd = do {
     for_each [0..<dump_rows vStart vEnd] (\<lambda>ad. dump16 bd (vStart + of_nat (ad * 16)));
     serial_print line_end
   }"

definition fillMemory :: "'b board \<Rightarrow> u8 \<Rightarrow> ('b machine, unit) state" where
  "fillMemory bd vVal = for_each [0..<65536] (\<lambda>m. write6502Memory bd (of_nat m) vVal)"

end
