(* ===== verification/Disasm_Spec.thy ===== *)
theory Disasm_Spec
  imports Disasm Bus_Properties
begin

text \<open>
  \<open>disasm6502.cpp\<close> and \<open>ram.cpp\<close>: the listing and the dump as texts of the 6502 memory, and the labels of a
  listing. The reference definitions read a memory, a function from addresses to bytes, and no machine.
\<close>

section \<open>The opcode table\<close>

fun operand_bytes :: "AddrMode \<Rightarrow> nat" where
  "operand_bytes M_IMP = 0" | "operand_bytes M_ACC = 0"
| "operand_bytes M_ABS = 2" | "operand_bytes M_ABSX = 2" | "operand_bytes M_ABSY = 2"
| "operand_bytes M_IND = 2" | "operand_bytes M_ABXI = 2" | "operand_bytes M_ZPREL = 2"
| "operand_bytes _ = 1"

lemma optable_sound:
  "length optable = 256 \<and> list_all (\<lambda>(name, mode, len). len = 1 + operand_bytes mode \<and> length name \<in> {3, 4}) optable"
  unfolding optable_def by simp

lemma op_len_mode: "op_len (opcode_of b) = 1 + operand_bytes (op_mode (opcode_of b))"
  and op_name_length: "length (op_name (opcode_of b)) \<in> {3, 4}"
proof -
  have "unat b < length optable" using optable_sound unsigned_less [of b, where 'a = nat] by simp
  then have "opcode_of b \<in> set optable" by (simp add: opcode_of_def)
  moreover obtain name mode len where op: "opcode_of b = (name, mode, len)" by (rule prod_cases3)
  ultimately have "len = 1 + operand_bytes mode \<and> length name \<in> {3, 4}"
    using optable_sound bspec [of "set optable" _ "(name, mode, len)"] unfolding list_all_iff by fastforce
  then show "op_len (opcode_of b) = 1 + operand_bytes (op_mode (opcode_of b))"
    and "length (op_name (opcode_of b)) \<in> {3, 4}"
    by (simp_all add: op)
qed

section \<open>Reference definitions\<close>

type_synonym memory = "u16 \<Rightarrow> u8"

definition code_at :: "memory \<Rightarrow> u16 \<Rightarrow> u8 list" where
  "code_at M a = [M a, M (a + 1), M (a + 2)]"

definition next_insn :: "memory \<Rightarrow> u16 \<Rightarrow> u16" where
  "next_insn M a = a + of_nat (op_len (opcode_of (M a)))"

primrec insn_addrs :: "memory \<Rightarrow> nat \<Rightarrow> u16 \<Rightarrow> u16 list" where
  "insn_addrs M 0 a = []"
| "insn_addrs M (Suc n) a = a # insn_addrs M n (next_insn M a)"

definition insn_target :: "memory \<Rightarrow> u16 \<Rightarrow> u16 option" where
  "insn_target M a = label_wanted a (code_at M a)"

definition want_label :: "u16 option \<Rightarrow> disasm_label list \<Rightarrow> disasm_label list" where
  "want_label t ls = (case t of Some t \<Rightarrow> createLabel t ls | None \<Rightarrow> ls)"

definition vector_at :: "memory \<Rightarrow> u16 \<Rightarrow> u16" where
  "vector_at M a = word_of (M a) (M (a + 1))"

definition vector_labels :: "memory \<Rightarrow> disasm_label list" where
  "vector_labels M =
     [\<lparr>lbl_addr = vector_at M 0xFFFA, lbl_name = ''NMI'', lbl_fixed = True\<rparr>,
      \<lparr>lbl_addr = vector_at M 0xFFFC, lbl_name = ''RESET'', lbl_fixed = True\<rparr>,
      \<lparr>lbl_addr = vector_at M 0xFFFE, lbl_name = ''IRQ'', lbl_fixed = True\<rparr>]"

definition listing_labels :: "memory \<Rightarrow> nat \<Rightarrow> u16 \<Rightarrow> disasm_label list" where
  "listing_labels M n a = fold (\<lambda>x. want_label (insn_target M x)) (insn_addrs M n a) (vector_labels M)"

definition listing_text :: "memory \<Rightarrow> disasm_label list \<Rightarrow> u16 list \<Rightarrow> string" where
  "listing_text M ls as = concat (map (\<lambda>a. margin_text ls a @ line_text ls a (code_at M a)) as)"

definition dump_line :: "memory \<Rightarrow> u16 \<Rightarrow> string" where
  "dump_line M a =
     (let byte_text = (\<lambda>m. '' '' @ hex2 (M (a + of_nat m)))
      in hex4 a @ '':'' @ concat (map byte_text [0..<8]) @ '' '' @ concat (map byte_text [8..<16]) @ line_end)"

definition same_memory :: "ref machine \<Rightarrow> ref machine \<Rightarrow> bool" where
  "same_memory m m' \<longleftrightarrow> keeps_port UNIV m m' \<and> mem m' = mem m"

lemma same_memory_refl: "port_ok m \<Longrightarrow> same_memory m m"
  by (simp add: same_memory_def keeps_port_refl)

lemma same_memory_trans: "same_memory m m' \<Longrightarrow> same_memory m' m'' \<Longrightarrow> same_memory m m''"
  by (auto simp: same_memory_def intro: keeps_port_trans)

lemma same_memoryD: "same_memory m m' \<Longrightarrow> port_ok m'" "same_memory m m' \<Longrightarrow> mem m' = mem m"
  by (auto simp: same_memory_def dest: keeps_portD)

section \<open>The state monad of the disassembler\<close>

lemma on_machine_simps [simp]:
  "exec (on_machine p) s = s\<lparr>dis_machine := exec p (dis_machine s)\<rparr>"
  "val_of (on_machine p) s = val_of p (dis_machine s)"
  by (simp_all add: on_machine_def)

lemma serial_print_exec [simp]: "exec (serial_print t) s = s\<lparr>serial_out := serial_out s @ t\<rparr>"
  by (simp add: serial_print_def)

lemma change_labels_exec [simp]: "exec (change_labels f) s = s\<lparr>dis_labels := f (dis_labels s)\<rparr>"
  by (simp add: change_labels_def)

section \<open>Over a bus whose processor does not write\<close>

locale listing_bus = served_bus bd view cpu UNIV for bd :: "'b board" and view and cpu
begin

abbreviation ref_of :: "'b disasm \<Rightarrow> ref machine" where
  "ref_of s \<equiv> absm view (dis_machine s)"

lemma read_block_same:
  assumes "port_ok (absm view m)"
  shows "val_of (snoop_read6502Memory bd a n) m = map (\<lambda>k. mem (absm view m) (a + of_nat k)) [0..<unat n]"
    and "same_memory (absm view m) (absm view (exec (snoop_read6502Memory bd a n) m))"
  using snoop_read_block [OF assms, where a = a and n = n] by (auto simp: same_memory_def fun_eq_iff)

lemma read_loc_same:
  assumes "port_ok (absm view m)"
  shows "val_of (snoop_read6502MemoryLoc bd a) m = mem (absm view m) a"
    and "same_memory (absm view m) (absm view (exec (snoop_read6502MemoryLoc bd a) m))"
  using snoop_read [OF assms, where a = a] by (auto simp: same_memory_def fun_eq_iff)

lemma upto3: "map f [0..<unat (3 :: u16)] = [f 0, f 1, f 2]"
proof -
  have "[0..<unat (3 :: u16)] = [0, 1, 2]" by code_simp
  then show ?thesis by simp
qed

lemma upto2: "map f [0..<unat (2 :: u16)] = [f 0, f 1]"
proof -
  have "[0..<unat (2 :: u16)] = [0, 1]" by code_simp
  then show ?thesis by simp
qed

lemma read3:
  assumes "port_ok (absm view m)"
  shows "val_of (snoop_read6502Memory bd a 3) m = code_at (mem (absm view m)) a"
  using read_block_same(1) [OF assms, of a 3] unfolding upto3 by (simp add: code_at_def)

lemma read_word:
  assumes "port_ok (ref_of s)"
  shows "val_of (readWord bd a) s = vector_at (mem (ref_of s)) a"
    and "exec (readWord bd a) s = s\<lparr>dis_machine := exec (snoop_read6502Memory bd a 2) (dis_machine s)\<rparr>"
  using read_block_same(1) [OF assms, of a 2] unfolding upto2 by (simp_all add: readWord_def vector_at_def)

lemma seed_vectors:
  assumes "port_ok (ref_of s)"
  shows "dis_labels (exec (do { disasmResetLabels; seedVectors bd }) s) = vector_labels (mem (ref_of s))"
    and "serial_out (exec (do { disasmResetLabels; seedVectors bd }) s) = serial_out s"
    and "same_memory (ref_of s) (ref_of (exec (do { disasmResetLabels; seedVectors bd }) s))"
proof -
  define m where "m = dis_machine s"
  define m1 where "m1 = exec (snoop_read6502Memory bd 0xFFFA 2) m"
  define m2 where "m2 = exec (snoop_read6502Memory bd 0xFFFC 2) m1"
  define m3 where "m3 = exec (snoop_read6502Memory bd 0xFFFE 2) m2"
  have p: "port_ok (absm view m)" using assms by (simp add: m_def)
  note s1 = read_block_same(2) [OF p, of "0xFFFA" 2, folded m1_def]
  note p1 = same_memoryD [OF s1]
  note s2 = read_block_same(2) [OF p1(1), of "0xFFFC" 2, folded m2_def]
  note p2 = same_memoryD [OF s2]
  note s3 = read_block_same(2) [OF p2(1), of "0xFFFE" 2, folded m3_def]
  have run: "exec (do { disasmResetLabels; seedVectors bd }) s =
      s\<lparr>dis_machine := m3, dis_labels := vector_labels (mem (ref_of s))\<rparr>"
    using p p1 p2
    by (simp add: seedVectors_def disasmResetLabels_def read_word m_def [symmetric] m1_def [symmetric]
      m2_def [symmetric] m3_def [symmetric] vector_labels_def createNamedLabel_def MAX_LABELS_def)
  show "dis_labels (exec (do { disasmResetLabels; seedVectors bd }) s) = vector_labels (mem (ref_of s))"
    and "serial_out (exec (do { disasmResetLabels; seedVectors bd }) s) = serial_out s"
    unfolding run by simp_all
  show "same_memory (ref_of s) (ref_of (exec (do { disasmResetLabels; seedVectors bd }) s))"
    unfolding run using same_memory_trans [OF s1 same_memory_trans [OF s2 s3]] by (simp add: m_def)
qed

lemma scan_from_labels:
  assumes "port_ok (ref_of s)"
  shows "dis_labels (exec (scan_from bd n a) s) =
      fold (\<lambda>x. want_label (insn_target (mem (ref_of s)) x)) (insn_addrs (mem (ref_of s)) n a) (dis_labels s)"
    and "serial_out (exec (scan_from bd n a) s) = serial_out s"
    and "same_memory (ref_of s) (ref_of (exec (scan_from bd n a) s))"
proof -
  have "dis_labels (exec (scan_from bd n a) s) =
      fold (\<lambda>x. want_label (insn_target (mem (ref_of s)) x)) (insn_addrs (mem (ref_of s)) n a) (dis_labels s) \<and>
    serial_out (exec (scan_from bd n a) s) = serial_out s \<and>
    same_memory (ref_of s) (ref_of (exec (scan_from bd n a) s))"
    using assms
  proof (induction n arbitrary: a s)
    case 0
    then show ?case by (simp add: same_memory_refl)
  next
    case (Suc n)
    define m' where "m' = exec (snoop_read6502Memory bd a 3) (dis_machine s)"
    note r = read_block_same(2) [OF Suc.prems, of a 3, folded m'_def]
    define s' where "s' = s\<lparr>dis_machine := m', dis_labels := want_label (insn_target (mem (ref_of s)) a) (dis_labels s)\<rparr>"
    have p: "port_ok (ref_of s')" and m: "mem (ref_of s') = mem (ref_of s)"
      using same_memoryD [OF r] by (simp_all add: s'_def)
    have step: "exec (scan_from bd (Suc n) a) s = exec (scan_from bd n (next_insn (mem (ref_of s)) a)) s'"
      by (simp add: read3 [OF Suc.prems] m'_def [symmetric] s'_def want_label_def insn_target_def next_insn_def code_at_def
          split: option.split)
    have "same_memory (ref_of s) (ref_of s')" using r by (simp add: s'_def)
    then show ?case
      using Suc.IH [OF p, of "next_insn (mem (ref_of s)) a"] unfolding step m
      by (auto simp: s'_def intro: same_memory_trans)
  qed
  then show "dis_labels (exec (scan_from bd n a) s) =
      fold (\<lambda>x. want_label (insn_target (mem (ref_of s)) x)) (insn_addrs (mem (ref_of s)) n a) (dis_labels s)"
    and "serial_out (exec (scan_from bd n a) s) = serial_out s"
    and "same_memory (ref_of s) (ref_of (exec (scan_from bd n a) s))" by blast+
qed

lemma list_from_text:
  assumes "port_ok (ref_of s)"
  shows "val_of (list_from bd n a) s = (next_insn (mem (ref_of s)) ^^ n) a \<and>
    serial_out (exec (list_from bd n a) s) =
      serial_out s @ listing_text (mem (ref_of s)) (dis_labels s) (insn_addrs (mem (ref_of s)) n a) \<and>
    dis_labels (exec (list_from bd n a) s) = dis_labels s \<and>
    same_memory (ref_of s) (ref_of (exec (list_from bd n a) s))"
  using assms
proof (induction n arbitrary: a s)
  case 0
  then show ?case by (simp add: same_memory_refl listing_text_def)
next
  case (Suc n)
  define m' where "m' = exec (snoop_read6502Memory bd a 3) (dis_machine s)"
  note r = read_block_same(2) [OF Suc.prems, of a 3, folded m'_def]
  define out where "out = margin_text (dis_labels s) a @ line_text (dis_labels s) a (code_at (mem (ref_of s)) a)"
  define s' where "s' = s\<lparr>dis_machine := m', serial_out := serial_out s @ out\<rparr>"
  have p: "port_ok (ref_of s')" and m: "mem (ref_of s') = mem (ref_of s)" and l: "dis_labels s' = dis_labels s"
    and o: "serial_out s' = serial_out s @ out"
    using same_memoryD [OF r] by (simp_all add: s'_def)
  have step: "exec (list_from bd (Suc n) a) s = exec (list_from bd n (next_insn (mem (ref_of s)) a)) s'"
    "val_of (list_from bd (Suc n) a) s = val_of (list_from bd n (next_insn (mem (ref_of s)) a)) s'"
    by (simp_all add: read3 [OF Suc.prems] m'_def [symmetric] s'_def out_def next_insn_def code_at_def)
  have "same_memory (ref_of s) (ref_of s')" using r by (simp add: s'_def)
  then show ?case
    using Suc.IH [OF p, of "next_insn (mem (ref_of s)) a"] unfolding step m l o
    by (auto simp: listing_text_def out_def funpow_swap1 intro: same_memory_trans)
qed

lemma disasm_lists:
  fixes s a lines simple
  assumes "port_ok (ref_of s)"
  defines "ls \<equiv> (if simple then dis_labels s else listing_labels (mem (ref_of s)) (unat lines) a)"
  shows "val_of (disasm6502 bd a lines simple) s = (next_insn (mem (ref_of s)) ^^ unat lines) a \<and>
    serial_out (exec (disasm6502 bd a lines simple) s) =
      serial_out s @ listing_text (mem (ref_of s)) ls (insn_addrs (mem (ref_of s)) (unat lines) a) \<and>
    dis_labels (exec (disasm6502 bd a lines simple) s) = ls \<and>
    same_memory (ref_of s) (ref_of (exec (disasm6502 bd a lines simple) s))"
proof (cases simple)
  case True
  then show ?thesis using list_from_text [OF assms(1)] by (simp add: disasm6502_def ls_def)
next
  case False
  define s1 where "s1 = exec (do { disasmResetLabels; seedVectors bd }) s"
  define s2 where "s2 = exec (scanLabels bd a lines) s1"
  note v = seed_vectors [OF assms(1), folded s1_def]
  note p1 = same_memoryD [OF v(3)]
  have p: "same_memory (ref_of s1) (ref_of s2)"
    and l2: "dis_labels s2 = ls" and o2: "serial_out s2 = serial_out s"
    using scan_from_labels [OF p1(1), of "unat lines" a] v False
    by (simp_all add: s2_def scanLabels_def ls_def listing_labels_def p1(2))
  have k: "same_memory (ref_of s) (ref_of s2)" by (rule same_memory_trans [OF v(3) p])
  have run: "exec (disasm6502 bd a lines simple) s = exec (list_from bd (unat lines) a) s2"
    "val_of (disasm6502 bd a lines simple) s = val_of (list_from bd (unat lines) a) s2"
    using False by (simp_all add: disasm6502_def s2_def s1_def)
  have m2: "mem (ref_of s2) = mem (ref_of s)" by (rule same_memoryD(2) [OF k])
  show ?thesis
    using list_from_text [OF same_memoryD(1) [OF k], of "unat lines" a] same_memory_trans [OF k]
    unfolding run l2 o2 m2 by blast
qed

lemma print_bytes:
  fixes s a ns
  assumes "port_ok (ref_of s)"
  defines "p \<equiv> for_each ns (\<lambda>m. do {
      dat \<leftarrow> on_machine (snoop_read6502MemoryLoc bd (a + of_nat m)); serial_print ('' '' @ hex2 dat) })"
  shows "serial_out (exec p s) = serial_out s @ concat (map (\<lambda>m. '' '' @ hex2 (mem (ref_of s) (a + of_nat m))) ns) \<and>
    dis_labels (exec p s) = dis_labels s \<and> same_memory (ref_of s) (ref_of (exec p s))"
  unfolding p_def using assms(1)
proof (induction ns arbitrary: s)
  case Nil
  then show ?case by (simp add: same_memory_refl)
next
  case (Cons n ns)
  define m' where "m' = exec (snoop_read6502MemoryLoc bd (a + of_nat n)) (dis_machine s)"
  note r = read_loc_same [OF Cons.prems, of "a + of_nat n", folded m'_def]
  define s' where "s' = s\<lparr>dis_machine := m', serial_out := serial_out s @ '' '' @ hex2 (mem (ref_of s) (a + of_nat n))\<rparr>"
  have p: "port_ok (ref_of s')" and m: "mem (ref_of s') = mem (ref_of s)" and k: "same_memory (ref_of s) (ref_of s')"
    using same_memoryD [OF r(2)] r(2) by (simp_all add: s'_def)
  show ?case using Cons.IH [OF p] k r(1) unfolding m
    by (auto simp: s'_def m'_def [symmetric] intro: same_memory_trans)
qed

lemma dump16_text:
  assumes "port_ok (ref_of s)"
  shows "serial_out (exec (dump16 bd a) s) = serial_out s @ dump_line (mem (ref_of s)) a \<and>
    dis_labels (exec (dump16 bd a) s) = dis_labels s \<and> same_memory (ref_of s) (ref_of (exec (dump16 bd a) s))"
proof -
  define body where "body = (\<lambda>m. do {
      dat \<leftarrow> on_machine (snoop_read6502MemoryLoc bd (a + of_nat m)); serial_print ('' '' @ hex2 dat) })"
  define s1 where "s1 = exec (serial_print (hex4 a @ '':'')) s"
  define s2 where "s2 = exec (for_each [0..<8] body) s1"
  define s3 where "s3 = exec (serial_print '' '') s2"
  define s4 where "s4 = exec (for_each [8..<16] body) s3"
  have s1: "ref_of s1 = ref_of s" "serial_out s1 = serial_out s @ hex4 a @ '':''" "dis_labels s1 = dis_labels s"
    by (simp_all add: s1_def)
  note b1 = print_bytes [where ns = "[0..<8]" and a = a and s = s1, folded body_def s2_def, unfolded s1, OF assms]
  have s3: "ref_of s3 = ref_of s2" "serial_out s3 = serial_out s2 @ '' ''" "dis_labels s3 = dis_labels s2"
    by (simp_all add: s3_def)
  have p2: "port_ok (ref_of s2)" and m2: "mem (ref_of s2) = mem (ref_of s)"
    using b1 same_memoryD by blast+
  note b2 = print_bytes [where ns = "[8..<16]" and a = a and s = s3, folded body_def s4_def, unfolded s3, OF p2]
  have run: "exec (dump16 bd a) s = exec (serial_print line_end) s4"
    by (simp only: dump16_def body_def [symmetric] s4_def s3_def s2_def s1_def exec_simps)
  have k: "same_memory (ref_of s) (ref_of s4)" using b1 b2 same_memory_trans by blast
  show ?thesis unfolding run using b1 b2 k by (simp add: dump_line_def m2 Let_def)
qed

lemma dump_memory_text:
  assumes "port_ok (ref_of s)"
  shows "serial_out (exec (dumpMemory bd a b) s) =
      serial_out s @ concat (map (\<lambda>r. dump_line (mem (ref_of s)) (a + of_nat (r * 16))) [0..<dump_rows a b]) @ line_end \<and>
    dis_labels (exec (dumpMemory bd a b) s) = dis_labels s \<and>
    same_memory (ref_of s) (ref_of (exec (dumpMemory bd a b) s))"
proof -
  have rows: "serial_out (exec (for_each rs (\<lambda>r. dump16 bd (a + of_nat (r * 16)))) s) =
      serial_out s @ concat (map (\<lambda>r. dump_line (mem (ref_of s)) (a + of_nat (r * 16))) rs) \<and>
    dis_labels (exec (for_each rs (\<lambda>r. dump16 bd (a + of_nat (r * 16)))) s) = dis_labels s \<and>
    same_memory (ref_of s) (ref_of (exec (for_each rs (\<lambda>r. dump16 bd (a + of_nat (r * 16)))) s))" for rs :: "nat list"
    using assms
  proof (induction rs arbitrary: s)
    case Nil
    then show ?case by (simp add: same_memory_refl)
  next
    case (Cons r rs)
    define s' where "s' = exec (dump16 bd (a + of_nat (r * 16))) s"
    note d = dump16_text [OF Cons.prems, of "a + of_nat (r * 16)", folded s'_def]
    have p: "port_ok (ref_of s')" and m: "mem (ref_of s') = mem (ref_of s)" using d same_memoryD by blast+
    have step: "exec (for_each (r # rs) (\<lambda>r. dump16 bd (a + of_nat (r * 16)))) s =
        exec (for_each rs (\<lambda>r. dump16 bd (a + of_nat (r * 16)))) s'"
      by (simp add: s'_def)
    show ?case unfolding step using Cons.IH [OF p] d m by (auto intro: same_memory_trans)
  qed
  show ?thesis using rows [of "[0..<dump_rows a b]"] by (simp add: dumpMemory_def)
qed

end

interpretation listing: listing_bus "ref_board (guard UNIV cpu)" id "guard UNIV cpu" for cpu
  by unfold_locales (rule cpu_leaves_guard)

section \<open>Labels\<close>

text \<open>Labels are appended, so the label found for an address stays.\<close>

lemma find_label_append: "findLabel ls x = Some n \<Longrightarrow> findLabel (ls @ us) x = Some n"
  unfolding findLabel_def by (induction ls) (auto split: if_splits)

lemma find_label_new: "findLabel ls x = None \<Longrightarrow> findLabel (ls @ [l]) x = (if lbl_addr l = x then Some (lbl_name l) else None)"
  unfolding findLabel_def by (induction ls) (auto split: if_splits)

lemma find_label_in: "findLabel ls x = Some n \<Longrightarrow> \<exists>l\<in>set ls. lbl_addr l = x \<and> lbl_name l = n"
  unfolding findLabel_def by (induction ls) (auto split: if_splits)

definition labels_ok :: "disasm_label list \<Rightarrow> bool" where
  "labels_ok ls \<longleftrightarrow> length ls \<le> MAX_LABELS \<and> (\<forall>l\<in>set ls. lbl_name l \<noteq> [] \<and> length (lbl_name l) < 8)"

lemma want_label:
  shows want_label_length: "length (want_label t ls) \<le> Suc (length ls)"
    and want_label_keeps: "findLabel ls x = Some n \<Longrightarrow> findLabel (want_label t ls) x = Some n"
    and want_label_finds: "length ls < MAX_LABELS \<Longrightarrow> findLabel (want_label (Some x) ls) x \<noteq> None"
    and want_label_ok: "labels_ok ls \<Longrightarrow> labels_ok (want_label t ls)"
  by (auto simp: want_label_def createLabel_def find_label_append find_label_new labels_ok_def hex4_def
    split: option.splits)

lemma vector_labels_ok: "labels_ok (vector_labels M)"
  by (auto simp: labels_ok_def vector_labels_def MAX_LABELS_def)

lemma fold_labels:
  shows fold_labels_length: "length (fold (\<lambda>x. want_label (f x)) xs ls) \<le> length ls + length xs"
    and fold_labels_keeps: "findLabel ls y = Some n \<Longrightarrow> findLabel (fold (\<lambda>x. want_label (f x)) xs ls) y = Some n"
    and fold_labels_ok: "labels_ok ls \<Longrightarrow> labels_ok (fold (\<lambda>x. want_label (f x)) xs ls)"
proof (induction xs arbitrary: ls)
  case (Cons x xs)
  { case 1 then show ?case using Cons(1) [of "want_label (f x) ls"] want_label_length [of "f x" ls] by simp }
  { case 2 then show ?case using Cons(2) [OF want_label_keeps] by simp }
  { case 3 then show ?case using Cons(3) [OF want_label_ok] by simp }
qed simp_all

lemma fold_labels_find:
  assumes "length ls + length xs \<le> MAX_LABELS" and "x \<in> set xs" and "f x = Some t"
  shows "findLabel (fold (\<lambda>x. want_label (f x)) xs ls) t \<noteq> None"
  using assms
proof (induction xs arbitrary: ls)
  case (Cons y xs)
  show ?case
  proof (cases "x = y")
    case True
    then have "findLabel (want_label (f y) ls) t \<noteq> None" using Cons.prems want_label_finds by simp
    then show ?thesis using fold_labels_keeps [where ls = "want_label (f y) ls"] by fastforce
  next
    case False
    then show ?thesis using Cons.IH [of "want_label (f y) ls"] Cons.prems want_label_length [of "f y" ls] by simp
  qed
qed simp

lemma insn_addrs_length [simp]: "length (insn_addrs M n a) = n"
  by (induction n arbitrary: a) simp_all

lemma listing_labels_ok: "labels_ok (listing_labels M n a)"
  unfolding listing_labels_def by (rule fold_labels_ok [OF vector_labels_ok])

lemma listing_labels_find:
  assumes "n \<le> 125" and "x \<in> set (insn_addrs M n a)" and "insn_target M x = Some t"
  obtains l where "findLabel (listing_labels M n a) t = Some l"
proof -
  have "length (vector_labels M) + length (insn_addrs M n a) \<le> MAX_LABELS"
    using assms(1) by (simp add: vector_labels_def MAX_LABELS_def)
  from fold_labels_find [OF this assms(2), of "insn_target M" t] assms(3) that
  show thesis unfolding listing_labels_def by auto
qed

section \<open>Properties\<close>


text \<open>A subroutine call to the reset entry and a branch back to it, with the vectors of \<open>$FFFA\<close>.\<close>

definition demo_code :: "ref machine" where
  "demo_code = exec (do {
     snoop_write6502Memory (ref_board id) 0x0200 [0x20, 0x00, 0xE0, 0x80, 0xFB];
     snoop_write6502Memory (ref_board id) 0xFFFA [0x00, 0x00, 0x00, 0xE0, 0x00, 0x00]}) (powered_up id)"

lemma demo_port: "port_ok demo_code"
  and demo_mem: "mem demo_code = store_bytes 0xFFFA [0x00, 0x00, 0x00, 0xE0, 0x00, 0x00]
    (store_bytes 0x0200 [0x20, 0x00, 0xE0, 0x80, 0xFB] (mem (powered_up id)))"
proof -
  define m where "m = exec (snoop_write6502Memory (ref_board id) 0x0200 [0x20, 0x00, 0xE0, 0x80, 0xFB]) (powered_up id)"
  have "port_ok (absm id (powered_up id))" using powered_up_ok(1) by simp
  note w = served_bus.snoop_write_block [OF quiet_bus [of UNIV] this, where a = "0x0200" and vs = "[0x20, 0x00, 0xE0, 0x80, 0xFB]", folded m_def]
  have p: "port_ok (absm id m)" using keeps_portD(1) [OF w(1)] by simp
  note v = served_bus.snoop_write_block [OF quiet_bus [of UNIV] p, where a = "0xFFFA" and vs = "[0x00, 0x00, 0x00, 0xE0, 0x00, 0x00]"]
  show "port_ok demo_code" using keeps_portD(1) [OF v(1)] by (simp add: demo_code_def m_def)
  show "mem demo_code = store_bytes 0xFFFA [0x00, 0x00, 0x00, 0xE0, 0x00, 0x00]
    (store_bytes 0x0200 [0x20, 0x00, 0xE0, 0x80, 0xFB] (mem (powered_up id)))"
    using v(2) w(2) by (simp add: demo_code_def m_def fun_eq_iff)
qed

lemma demo_bytes:
  "mem demo_code 0x0200 = 0x20" "mem demo_code 0x0201 = 0x00" "mem demo_code 0x0202 = 0xE0"
  "mem demo_code 0x0203 = 0x80" "mem demo_code 0x0204 = 0xFB" "mem demo_code 0xFFFA = 0"
  "mem demo_code 0xFFFB = 0" "mem demo_code 0xFFFC = 0" "mem demo_code 0xFFFD = 0xE0"
  "mem demo_code 0xFFFE = 0" "mem demo_code 0xFFFF = 0"
  by (simp_all add: demo_mem)

text \<open>The two lines of the example.\<close>

lemma demo_opcodes: "opcode_of 0x20 = (''JSR'', M_ABS, 3)" "opcode_of 0x80 = (''BRA'', M_REL, 2)"
  by (simp_all add: opcode_of_def optable_def)

lemma demo_listing:
  "insn_addrs (mem demo_code) 2 0x0200 = [0x0200, 0x0203]"
  "listing_labels (mem demo_code) 2 0x0200 =
     vector_labels (mem demo_code) @ [\<lparr>lbl_addr = 0x0200, lbl_name = ''L0200'', lbl_fixed = False\<rparr>]"
  "listing_text (mem demo_code) (listing_labels (mem demo_code) 2 0x0200) [0x0200, 0x0203] =
     line_end @ ''L0200: 0200  20 00 E0  JSR  RESET'' @ line_end @ ''       0203  80 FB     BRA  L0200'' @ line_end"
proof -
  show a: "insn_addrs (mem demo_code) 2 0x0200 = [0x0200, 0x0203]"
    by (simp add: numeral_2_eq_2 next_insn_def demo_bytes demo_opcodes)
  have v: "vector_labels (mem demo_code) =
      [\<lparr>lbl_addr = 0, lbl_name = ''NMI'', lbl_fixed = True\<rparr>, \<lparr>lbl_addr = 0xE000, lbl_name = ''RESET'', lbl_fixed = True\<rparr>,
       \<lparr>lbl_addr = 0, lbl_name = ''IRQ'', lbl_fixed = True\<rparr>]"
    by (simp add: vector_labels_def vector_at_def word_of_def demo_bytes)
  have h: "hex4 0x0200 = ''0200''" "hex4 0x0203 = ''0203''" "hex2 0x20 = ''20''" "hex2 0 = ''00''" "hex2 0xE0 = ''E0''"
    "hex2 0x80 = ''80''" "hex2 0xFB = ''FB''"
    by code_simp+
  have t: "insn_target (mem demo_code) 0x0200 = Some 0xE000" "insn_target (mem demo_code) 0x0203 = Some 0x0200"
    by (simp_all add: insn_target_def label_wanted_def code_at_def demo_bytes demo_opcodes word_of_def)
  show l: "listing_labels (mem demo_code) 2 0x0200 =
     vector_labels (mem demo_code) @ [\<lparr>lbl_addr = 0x0200, lbl_name = ''L0200'', lbl_fixed = False\<rparr>]"
    by (simp add: listing_labels_def a t want_label_def createLabel_def findLabel_def v h MAX_LABELS_def)
  show "listing_text (mem demo_code) (listing_labels (mem demo_code) 2 0x0200) [0x0200, 0x0203] =
     line_end @ ''L0200: 0200  20 00 E0  JSR  RESET'' @ line_end @ ''       0203  80 FB     BRA  L0200'' @ line_end"
    by (simp add: l v listing_text_def margin_text_def line_text_def bytes_text_def operand_text_def code_at_def
      label_or_address_def findLabel_def pad_to_def demo_bytes demo_opcodes h word_of_def LABEL_WIDTH_def)
qed


text \<open>
  After a listing of at most 125 lines the target of every branch, \<open>JSR\<close> and \<open>JMP\<close> of the listing has a label,
  and the operand of a relative or absolute one is that label. A listing of any length keeps the label table within
  its 128 entries and every name within its eight characters.
\<close>

theorem listing_targets_named:
  assumes "served_bus bd view cpu UNIV" and "port_ok (absm view (dis_machine s))"
  shows "let M = mem (absm view (dis_machine s));
             ls = dis_labels (exec (disasm6502 bd a lines False) s)
    in length ls \<le> MAX_LABELS \<and> (\<forall>l\<in>set ls. lbl_name l \<noteq> [] \<and> length (lbl_name l) < 8) \<and>
       (unat lines \<le> 125 \<longrightarrow> (\<forall>x\<in>set (insn_addrs M (unat lines) a). \<forall>t. insn_target M x = Some t \<longrightarrow>
          (\<exists>l. findLabel ls t = Some l \<and>
            (op_mode (opcode_of (M x)) \<noteq> M_ABXI \<longrightarrow> (\<exists>p. operand_text ls x (code_at M x) = p @ l)))))"
proof -
  define M where "M = mem (absm view (dis_machine s))"
  have ls: "dis_labels (exec (disasm6502 bd a lines False) s) = listing_labels M (unat lines) a"
    using listing_bus.disasm_lists [OF listing_bus.intro [OF assms(1)] assms(2), of a lines False] by (simp add: M_def)
  have operand: "\<exists>p. operand_text ls x (code_at M x) = p @ l"
    if "insn_target M x = Some t" and "op_mode (opcode_of (M x)) \<noteq> M_ABXI" and "findLabel ls t = Some l" for ls x t l
    using that by (auto simp: insn_target_def label_wanted_def operand_text_def code_at_def label_or_address_def
      Let_def split: AddrMode.splits if_splits)
  show ?thesis
    unfolding Let_def ls M_def [symmetric]
    using listing_labels_ok [of M "unat lines" a] operand
    by (auto simp: labels_ok_def elim!: listing_labels_find)
qed

theorem listing_targets_named_witness:
  "findLabel (dis_labels (exec (disasm6502 (ref_board id) 0x0200 2 False)
     \<lparr>dis_machine = demo_code, dis_labels = [], serial_out = []\<rparr>)) 0xE000 \<noteq> None"
proof -
  have "insn_target (mem demo_code) 0x0200 = Some 0xE000"
    by (simp add: insn_target_def label_wanted_def code_at_def demo_bytes demo_opcodes word_of_def)
  moreover have "0x0200 \<in> set (insn_addrs (mem demo_code) 2 0x0200)" by (simp add: demo_listing(1))
  ultimately show ?thesis
    using listing_targets_named [OF quiet_bus, where s = "\<lparr>dis_machine = demo_code, dis_labels = [], serial_out = []\<rparr>"
      and a = "0x0200" and lines = 2]
      demo_port by (fastforce simp: Let_def)
qed

text \<open>
  A jump through a table asks for a label of the table, and is printed with the address of the table.
\<close>

lemma indexed_jump_prints_address:
  "label_wanted a [0x7C, lo, hi] = Some (word_of lo hi) \<and>
   operand_text ls a [0x7C, lo, hi] = ''($'' @ hex2 hi @ hex2 lo @ '',X)''"
  by (simp add: label_wanted_def operand_text_def opcode_of_def optable_def)

end
