(* ===== verification/Debug_Neox.thy ===== *)
theory Debug_Neox
  imports Disasm_Spec
begin

text \<open>
  \<open>debug_neox.cpp\<close>: the monitor's view of the tables of the NEOX kernel, a packed structure of the 6502 memory at
  \<open>SHARED_STATE\<close>. A field is named by its member of \<open>scheduler_info_t\<close>; an access takes the field and an index
  and reads the copy of the structure. The functions give the text they print. \<open>dumpPipes\<close>, \<open>dumpOpenFiles\<close> and
  \<open>dumpInterface\<close> are not called by the program.
\<close>

section \<open>The structure\<close>

definition MAX_PROCS :: nat where "MAX_PROCS = 8"
definition MAX_CONTEXTS :: nat where "MAX_CONTEXTS = 10"
definition OPEN_MAX :: nat where "OPEN_MAX = 16"
definition MAX_FDS :: nat where "MAX_FDS = 6"
definition SPAWN_LINE_MAX :: nat where "SPAWN_LINE_MAX = 64"
definition MAX_TIMER :: nat where "MAX_TIMER = 8"
definition MAX_PIPES :: nat where "MAX_PIPES = 8"
definition PIPE_BUF_SIZE :: nat where "PIPE_BUF_SIZE = 64"
definition SHARED_STATE :: u16 where "SHARED_STATE = 0xB020"
definition FD_NONE :: u8 where "FD_NONE = 0xFF"

lemmas neox_sizes = MAX_PROCS_def MAX_CONTEXTS_def OPEN_MAX_def MAX_FDS_def SPAWN_LINE_MAX_def MAX_TIMER_def
  MAX_PIPES_def PIPE_BUF_SIZE_def

datatype neox_field =
    kernel_version | brk_vector | rp_lock | file_io_gate | file_io_gate_owner | file_io_gate_wait_head
  | file_io_gate_wait_tail | file_io_gate_next | proc_gate | proc_gate_owner | proc_gate_wait_head
  | proc_gate_wait_tail | proc_gate_next | active_pid | sched_cursor_pid | proc_state | proc_context
  | context_state | context_owner_pid | proc_sp | proc_entryL | proc_entryH | proc_flags | proc_parent_pid
  | proc_signal_pending | sched_lock | console_owner_pid | monitor_active | active_context | proc_fd_obj
  | proc_fd_flags | open_type | open_refcnt | open_flags | open_dev | open_file_handle | wait_reason
  | wait_object | proc_exit_code | proc_launch_id | proc_launch_line_len | proc_launch_line | system_ticks_lo
  | system_ticks_hi | timer_pid | timer_until_lo | timer_until_hi | proc_ticks_lo | proc_ticks_hi
  | console_read_len_lo | console_read_len_hi | init_task_count | init_task_ptrL | init_task_ptrH
  | pipe_state | pipe_head | pipe_tail | pipe_count | pipe_buf | open_pipe | open_pipe_mode

text \<open>The members in their order with their sizes in bytes.\<close>

definition scheduler_info :: "(neox_field \<times> nat) list" where
  "scheduler_info =
    [(kernel_version, 2), (brk_vector, 2), (rp_lock, 1), (file_io_gate, 1), (file_io_gate_owner, 1),
     (file_io_gate_wait_head, 1), (file_io_gate_wait_tail, 1), (file_io_gate_next, MAX_PROCS), (proc_gate, 1),
     (proc_gate_owner, 1), (proc_gate_wait_head, 1), (proc_gate_wait_tail, 1), (proc_gate_next, MAX_PROCS),
     (active_pid, 1), (sched_cursor_pid, 1), (proc_state, MAX_PROCS), (proc_context, MAX_PROCS),
     (context_state, MAX_CONTEXTS), (context_owner_pid, MAX_CONTEXTS), (proc_sp, MAX_PROCS),
     (proc_entryL, MAX_PROCS), (proc_entryH, MAX_PROCS), (proc_flags, MAX_PROCS), (proc_parent_pid, MAX_PROCS),
     (proc_signal_pending, MAX_PROCS), (sched_lock, 1), (console_owner_pid, 1), (monitor_active, 1),
     (active_context, 1), (proc_fd_obj, MAX_PROCS * MAX_FDS), (proc_fd_flags, MAX_PROCS * MAX_FDS),
     (open_type, OPEN_MAX), (open_refcnt, OPEN_MAX), (open_flags, OPEN_MAX), (open_dev, OPEN_MAX),
     (open_file_handle, OPEN_MAX), (wait_reason, MAX_PROCS), (wait_object, MAX_PROCS),
     (proc_exit_code, MAX_PROCS), (proc_launch_id, MAX_PROCS), (proc_launch_line_len, MAX_PROCS),
     (proc_launch_line, MAX_PROCS * SPAWN_LINE_MAX), (system_ticks_lo, 1), (system_ticks_hi, 1),
     (timer_pid, MAX_TIMER), (timer_until_lo, MAX_TIMER), (timer_until_hi, MAX_TIMER),
     (proc_ticks_lo, MAX_PROCS), (proc_ticks_hi, MAX_PROCS), (console_read_len_lo, 1),
     (console_read_len_hi, 1), (init_task_count, 1), (init_task_ptrL, 1), (init_task_ptrH, 1),
     (pipe_state, MAX_PIPES), (pipe_head, MAX_PIPES), (pipe_tail, MAX_PIPES), (pipe_count, MAX_PIPES),
     (pipe_buf, MAX_PIPES * PIPE_BUF_SIZE), (open_pipe, OPEN_MAX), (open_pipe_mode, OPEN_MAX)]"

fun offset_in :: "(neox_field \<times> nat) list \<Rightarrow> neox_field \<Rightarrow> nat" where
  "offset_in [] f = 0"
| "offset_in ((g, n) # l) f = (if g = f then 0 else n + offset_in l f)"

definition field_offset :: "neox_field \<Rightarrow> nat" where
  "field_offset f = offset_in scheduler_info f"

definition field_size :: "neox_field \<Rightarrow> nat" where
  "field_size f = the (map_of scheduler_info f)"

definition sizeof_scheduler_info :: nat where
  "sizeof_scheduler_info = sum_list (map snd scheduler_info)"

text \<open>\<open>SharedInfo->f[i]\<close> over the bytes of \<open>SharedSpace\<close>, and the reading of a table.\<close>

type_synonym neox_view = "neox_field \<Rightarrow> nat \<Rightarrow> u8"

definition shared_info :: "u8 list \<Rightarrow> neox_view" where
  "shared_info s f i = s ! (field_offset f + i)"

section \<open>Texts\<close>

fun dec_text :: "nat \<Rightarrow> string" where
  "dec_text n = (if n < 10 then [hex_char n] else dec_text (n div 10) @ [hex_char (n mod 10)])"

declare dec_text.simps [simp del]

definition pad_left :: "char \<Rightarrow> nat \<Rightarrow> string \<Rightarrow> string" where
  "pad_left c n s = replicate (n - length s) c @ s"

definition hex4_lower :: "u16 \<Rightarrow> string" where
  "hex4_lower a = map (\<lambda>c. if c \<in> set ''ABCDEF'' then char_of (of_char c + 32 :: nat) else c) (hex4 a)"

definition dec_byte :: "u8 \<Rightarrow> string" where
  "dec_byte b = dec_text (unat b)"

definition dec_word :: "u8 \<Rightarrow> u8 \<Rightarrow> string" where
  "dec_word hi lo = dec_text (unat (word_of lo hi))"

definition println :: "string \<Rightarrow> string" where "println s = s @ line_end"
definition new_line :: string where "new_line = [CHR 0x0A]"

definition txt_proc_state :: "string list" where
  "txt_proc_state = [''EMP'', ''NEW'', ''RDY'', ''RUN'', ''BLK'', ''STP'', ''ZOM'', ''SET'']"

definition txt_context_state :: "string list" where
  "txt_context_state = [''INV'', ''RSV'', ''PRF'', ''EMF'', ''USE'']"

definition txt_wait_reason :: "string list" where
  "txt_wait_reason = [''-'', ''CON'', ''DEV'', ''PIR'', ''TIM'', ''PRC'', ''LCK'', ''PIW'', ''RP'']"

definition txt_signal_pending :: "string list" where
  "txt_signal_pending = [''-'', ''H'', ''C'', ''K'']"

definition WAIT_NONE :: u8 where "WAIT_NONE = 0x00"
definition WAIT_LOCK :: u8 where "WAIT_LOCK = 0x06"
definition LOCK_ID_FILE_IO :: u8 where "LOCK_ID_FILE_IO = 0x00"
definition LOCK_ID_PROC :: u8 where "LOCK_ID_PROC = 0x01"

text \<open>The entry of a table of texts, or a question mark.\<close>

definition text_or_unknown :: "string list \<Rightarrow> u8 \<Rightarrow> string" where
  "text_or_unknown table b = (if unat b < length table then table ! unat b else ''?'')"

definition waitObjectText :: "u8 \<Rightarrow> u8 \<Rightarrow> string option" where
  "waitObjectText reason obj =
     (if reason = WAIT_LOCK then
        Some (if obj = LOCK_ID_FILE_IO then ''FIO'' else if obj = LOCK_ID_PROC then ''PRC'' else ''???'')
      else if reason = WAIT_NONE then Some ''--''
      else None)"

definition heldGateText :: "neox_view \<Rightarrow> u8 \<Rightarrow> string" where
  "heldGateText v pid =
     (let holdsFileIO = (v file_io_gate 0 \<noteq> 0 \<and> v file_io_gate_owner 0 = pid);
          holdsProc = (v proc_gate 0 \<noteq> 0 \<and> v proc_gate_owner 0 = pid)
      in if holdsFileIO \<and> holdsProc then ''BTH''
         else if holdsFileIO then ''FIO''
         else if holdsProc then ''PRC''
         else ''---'')"

section \<open>Tables\<close>

definition dumpAccounting :: "neox_view \<Rightarrow> string" where
  "dumpAccounting v =
     println ''PID Ticks'' @
     concat (map (\<lambda>i. dec_text i @ ''   '' @ pad_left (CHR 0x20) 5 (dec_word (v proc_ticks_hi i) (v proc_ticks_lo i)) @ new_line)
       [0..<MAX_PROCS])"

definition timer_line :: "neox_view \<Rightarrow> nat \<Rightarrow> string" where
  "timer_line v i =
     (if v timer_pid i \<noteq> 0xFF
      then dec_text i @ ''     '' @ pad_left (CHR 0x20) 3 (dec_byte (v timer_pid i)) @ '' ''
        @ dec_word (v timer_until_hi i) (v timer_until_lo i) @ new_line
      else dec_text i @ ''     -'' @ new_line)"

definition dumpTimers :: "neox_view \<Rightarrow> string" where
  "dumpTimers v = println ''Timer PID Ticks'' @ concat (map (timer_line v) [0..<MAX_TIMER])"

definition fd_text :: "neox_view \<Rightarrow> nat \<Rightarrow> nat \<Rightarrow> string" where
  "fd_text v pid fd =
     (let index = pid * MAX_FDS + fd; obj = v proc_fd_obj index; flags = v proc_fd_flags index in
      if obj = FD_NONE then ''-    ''
      else dec_byte obj @ '':'' @ (if flags AND 0x01 \<noteq> 0 then ''r'' else []) @ (if flags AND 0x02 \<noteq> 0 then ''w'' else [])
        @ (if pid = unat (v console_owner_pid 0) \<and> fd = 0 then ''* '' else ''  ''))"

definition dumpTask :: "neox_view \<Rightarrow> nat \<Rightarrow> string" where
  "dumpTask v pid =
     (let waitReason = v wait_reason pid; waitObject = v wait_object pid in
      '' '' @ pad_left (CHR 0x20) 3 (dec_byte (v proc_parent_pid pid))
      @ '' '' @ pad_left (CHR 0x20) 3 (dec_text pid)
      @ '' '' @ pad_left (CHR 0x20) 3 (text_or_unknown txt_proc_state (v proc_state pid))
      @ ''   '' @ text_or_unknown txt_signal_pending (v proc_signal_pending pid)
      @ ''   '' @ hex2 (v proc_sp pid)
      @ '' '' @ pad_left (CHR 0x30) 3 (dec_byte (v proc_context pid))
      @ '' '' @ hex2 (v proc_flags pid)
      @ ''  '' @ hex2 (v proc_entryH pid) @ hex2 (v proc_entryL pid)
      @ '' | '' @ pad_to 4 (text_or_unknown txt_wait_reason waitReason) @ '' ''
      @ (case waitObjectText waitReason waitObject of
           Some name \<Rightarrow> pad_to 3 name @ '' ''
         | None \<Rightarrow> hex2 waitObject @ ''  '')
      @ pad_to 4 (heldGateText v (of_nat pid)) @ ''| ''
      @ concat (map (fd_text v pid) [0..<MAX_FDS]) @ line_end)"

definition dumpTasks :: "neox_view \<Rightarrow> string" where
  "dumpTasks v =
     println ''PPID PID State Sig SP Ctx Flg Mem  | Wait Obj Hold | FD:'' @ concat (map (dumpTask v) [0..<MAX_PROCS])"

definition dumpContexts :: "neox_view \<Rightarrow> string" where
  "dumpContexts v =
     println ''Context State Owner'' @
     concat (map (\<lambda>c. pad_left (CHR 0x20) 3 (dec_text c) @ ''     ''
         @ pad_to 4 (text_or_unknown txt_context_state (v context_state c)) @ ''  '' @ hex2 (v context_owner_pid c) @ new_line)
       [0..<MAX_CONTEXTS])"

definition dumpLockGates :: "neox_view \<Rightarrow> string" where
  "dumpLockGates v =
     println ''Locks/Gates:'' @ println ''Name     Val''
     @ ''SCHED    '' @ hex2 (v sched_lock 0) @ new_line
     @ println (new_line @ ''Name     Val Owner Head  Tail'')
     @ ''FILE_IO  '' @ hex2 (v file_io_gate 0) @ ''  '' @ hex2 (v file_io_gate_owner 0) @ ''    ''
     @ hex2 (v file_io_gate_wait_head 0) @ ''   '' @ hex2 (v file_io_gate_wait_tail 0) @ new_line
     @ ''PROC     '' @ hex2 (v proc_gate 0) @ ''  '' @ hex2 (v proc_gate_owner 0) @ ''    ''
     @ hex2 (v proc_gate_wait_head 0) @ ''   '' @ hex2 (v proc_gate_wait_tail 0) @ new_line
     @ ''RP       '' @ hex2 (v rp_lock 0) @ new_line"

definition neox_version :: "neox_view \<Rightarrow> u16" where
  "neox_version v = word_of (v kernel_version 0) (v kernel_version 1)"

definition neox_report :: "neox_view \<Rightarrow> string" where
  "neox_report v =
     (if neox_version v = 0x020B then
        println (''---------------------------------------'' @ new_line @ ''System:'')
        @ ''Sys ticks         = '' @ dec_word (v system_ticks_hi 0) (v system_ticks_lo 0) @ new_line
        @ ''Active PID        = '' @ dec_byte (v active_pid 0) @ new_line
        @ ''Active Context    = '' @ dec_byte (v active_context 0) @ new_line
        @ ''Console Owner PID = '' @ dec_byte (v console_owner_pid 0) @ new_line
        @ ''Monitor Active    = '' @ dec_byte (v monitor_active 0) @ new_line
        @ line_end @ dumpLockGates v
        @ line_end @ dumpTasks v
        @ line_end @ dumpContexts v
        @ line_end @ dumpTimers v
        @ line_end @ dumpAccounting v
        @ line_end
      else ''Incompatible kernel version ['' @ hex4_lower (neox_version v) @ '']'' @ new_line)"

definition dumpNEOX :: "'b board \<Rightarrow> ('b disasm, unit) state" where
  "dumpNEOX bd = do {
     s \<leftarrow> on_machine (snoop_read6502Memory bd SHARED_STATE (of_nat sizeof_scheduler_info));
     serial_print (neox_report (shared_info s))
   }"

section \<open>The layout\<close>

lemma offset_in_bound: "map_of l f = Some n \<Longrightarrow> offset_in l f + n \<le> sum_list (map snd l)"
  by (induction l f rule: offset_in.induct) (auto split: if_splits)

lemma offset_in_disjoint:
  assumes "map_of l f = Some n" and "map_of l g = Some k" and "f \<noteq> g"
  shows "offset_in l f + n \<le> offset_in l g \<or> offset_in l g + k \<le> offset_in l f"
  using assms by (induction l f rule: offset_in.induct) (auto split: if_splits)

lemma all_listed: "map_of scheduler_info f = Some (field_size f)"
proof -
  have "map_of scheduler_info f \<noteq> None" by (cases f) (simp_all add: scheduler_info_def)
  then show ?thesis by (auto simp: field_size_def)
qed

lemma sizeof_value: "sizeof_scheduler_info = 0x05BE"
  by (simp add: sizeof_scheduler_info_def scheduler_info_def neox_sizes)

lemma field_inside: "field_offset f + field_size f \<le> 0x05BE"
  using offset_in_bound [OF all_listed, of f]
  by (simp only: field_offset_def sizeof_scheduler_info_def [symmetric] sizeof_value)

lemma fields_disjoint:
  "f \<noteq> g \<Longrightarrow> field_offset f + field_size f \<le> field_offset g \<or> field_offset g + field_size g \<le> field_offset f"
  unfolding field_offset_def by (rule offset_in_disjoint [OF all_listed all_listed])

text \<open>The static assertions of the source.\<close>

lemma layout_asserts:
  "field_offset proc_launch_id = 0x013F" "field_offset proc_launch_line_len = 0x0147"
  "field_offset proc_launch_line = 0x014F" "field_offset system_ticks_lo = 0x034F"
  by (simp_all add: field_offset_def scheduler_info_def neox_sizes)

section \<open>The report\<close>

text \<open>The kernel's tables as a view of the memory; an index outside a table shows nothing of its neighbours.\<close>

definition inside_tables :: "neox_view \<Rightarrow> neox_view" where
  "inside_tables v f i = (if i < field_size f then v f i else 0)"

definition kernel_view :: "memory \<Rightarrow> neox_view" where
  "kernel_view M = inside_tables (\<lambda>f i. M (SHARED_STATE + of_nat (field_offset f + i)))"

lemma shared_info_inside:
  "inside_tables (shared_info (map (\<lambda>k. M (SHARED_STATE + of_nat k)) [0..<0x05BE])) = kernel_view M"
proof -
  have "i < field_size f \<Longrightarrow> field_offset f + i < 0x05BE" for f i using field_inside [of f] by linarith
  then show ?thesis by (auto simp: fun_eq_iff inside_tables_def kernel_view_def shared_info_def simp del: upt_rec_numeral)
qed

lemma inside [simp]:
  "inside_tables v f i = v f i" if "i < field_size f" for v f i
  using that by (simp add: inside_tables_def)

lemma used_sizes:
  "field_size kernel_version = 2" "field_size rp_lock = 1" "field_size file_io_gate = 1" "field_size file_io_gate_owner = 1"
  "field_size file_io_gate_wait_head = 1" "field_size file_io_gate_wait_tail = 1" "field_size proc_gate = 1"
  "field_size proc_gate_owner = 1" "field_size proc_gate_wait_head = 1" "field_size proc_gate_wait_tail = 1"
  "field_size active_pid = 1" "field_size sched_lock = 1" "field_size console_owner_pid = 1"
  "field_size monitor_active = 1" "field_size active_context = 1" "field_size system_ticks_lo = 1"
  "field_size system_ticks_hi = 1"
  by (simp_all add: field_size_def scheduler_info_def)

lemma table_sizes:
  "field_size proc_state = 8" "field_size proc_context = 8" "field_size context_state = 10"
  "field_size context_owner_pid = 10" "field_size proc_sp = 8" "field_size proc_entryL = 8" "field_size proc_entryH = 8"
  "field_size proc_flags = 8" "field_size proc_parent_pid = 8" "field_size proc_signal_pending = 8"
  "field_size proc_fd_obj = 48" "field_size proc_fd_flags = 48" "field_size wait_reason = 8" "field_size wait_object = 8"
  "field_size timer_pid = 8" "field_size timer_until_lo = 8" "field_size timer_until_hi = 8"
  "field_size proc_ticks_lo = 8" "field_size proc_ticks_hi = 8"
  by (simp_all add: field_size_def scheduler_info_def neox_sizes)

lemma lines_inside:
  "heldGateText (inside_tables v) p = heldGateText v p"
  "dumpLockGates (inside_tables v) = dumpLockGates v"
  "i < 8 \<Longrightarrow> timer_line (inside_tables v) i = timer_line v i"
  by (simp_all add: heldGateText_def dumpLockGates_def timer_line_def used_sizes table_sizes)

lemma fds_inside:
  assumes "i < 8"
  shows "map (fd_text (inside_tables v) i) [0..<6] = map (fd_text v i) [0..<6]"
proof (rule map_cong)
  fix n :: nat assume "n \<in> set [0..<6]"
  then show "fd_text (inside_tables v) i n = fd_text v i n"
    using assms by (simp only: fd_text_def Let_def) (simp add: MAX_FDS_def used_sizes table_sizes)
qed simp

lemma task_inside: "i < 8 \<Longrightarrow> dumpTask (inside_tables v) i = dumpTask v i"
  by (simp only: dumpTask_def MAX_FDS_def Let_def fds_inside lines_inside) (simp add: table_sizes split: option.split)

lemma same_lines: "(\<And>i. i < n \<Longrightarrow> f i = g i) \<Longrightarrow> concat (map f [0..<n]) = concat (map g [0..<n])"
  by (rule arg_cong [where f = concat], rule map_cong) auto

lemma tables_inside:
  "dumpTasks (inside_tables v) = dumpTasks v" "dumpTimers (inside_tables v) = dumpTimers v"
  "dumpContexts (inside_tables v) = dumpContexts v" "dumpAccounting (inside_tables v) = dumpAccounting v"
  unfolding dumpTasks_def dumpTimers_def dumpContexts_def dumpAccounting_def neox_sizes
  by (auto simp: task_inside lines_inside table_sizes simp del: upt_rec_numeral intro!: same_lines)

lemma report_inside: "neox_report (inside_tables v) = neox_report v"
  by (simp add: neox_report_def neox_version_def tables_inside lines_inside used_sizes)

context listing_bus
begin

lemma neox_dump:
  assumes "port_ok (ref_of s)"
  shows "serial_out (exec (dumpNEOX bd) s) = serial_out s @ neox_report (kernel_view (mem (ref_of s)))"
    and "dis_labels (exec (dumpNEOX bd) s) = dis_labels s"
    and "same_memory (ref_of s) (ref_of (exec (dumpNEOX bd) s))"
proof -
  define n :: u16 where "n = of_nat sizeof_scheduler_info"
  have n: "unat n = 0x05BE" by (simp add: n_def sizeof_value)
  note r = read_block_same [OF assms, of SHARED_STATE n]
  have "neox_report (shared_info (val_of (snoop_read6502Memory bd SHARED_STATE n) (dis_machine s))) =
      neox_report (kernel_view (mem (ref_of s)))"
    unfolding r n report_inside [symmetric, of "shared_info _"] shared_info_inside by (rule refl)
  then show "serial_out (exec (dumpNEOX bd) s) = serial_out s @ neox_report (kernel_view (mem (ref_of s)))"
    by (simp add: dumpNEOX_def n_def)
  show "dis_labels (exec (dumpNEOX bd) s) = dis_labels s"
    and "same_memory (ref_of s) (ref_of (exec (dumpNEOX bd) s))"
    using r(2) by (simp_all add: dumpNEOX_def n_def)
qed

end



end
