(* ===== verification/Fs_Mailbox.thy ===== *)
theory Fs_Mailbox
  imports Scheduler Context_Access
begin

text \<open>
  \<open>rp_fs_mailbox.cpp\<close>: the file requests of the 6502. A request names an operation, the trusted
  process and context of the caller and the address of its argument block in that context; the
  handler fetches the block and the paths from the caller's memory, runs the operation on the file
  layer and completes the request block. Every handler returns the next state of the mailbox.
\<close>

section \<open>Operation codes\<close>

definition RP_FS_OP_STATUS :: u8 where "RP_FS_OP_STATUS = 0x01"
definition RP_FS_OP_OPEN :: u8 where "RP_FS_OP_OPEN = 0x02"
definition RP_FS_OP_READ :: u8 where "RP_FS_OP_READ = 0x03"
definition RP_FS_OP_CLOSE :: u8 where "RP_FS_OP_CLOSE = 0x04"
definition RP_FS_OP_WRITE :: u8 where "RP_FS_OP_WRITE = 0x05"
definition RP_FS_OP_LOAD :: u8 where "RP_FS_OP_LOAD = 0x06"
definition RP_FS_OP_SAVE :: u8 where "RP_FS_OP_SAVE = 0x07"
definition RP_FS_OP_SEEK :: u8 where "RP_FS_OP_SEEK = 0x08"
definition RP_FS_OP_TELL :: u8 where "RP_FS_OP_TELL = 0x09"
definition RP_FS_OP_DELETE :: u8 where "RP_FS_OP_DELETE = 0x0A"
definition RP_FS_OP_RENAME :: u8 where "RP_FS_OP_RENAME = 0x0B"
definition RP_FS_OP_OPENDIR :: u8 where "RP_FS_OP_OPENDIR = 0x0C"
definition RP_FS_OP_READDIR :: u8 where "RP_FS_OP_READDIR = 0x0D"
definition RP_FS_OP_CLOSEDIR :: u8 where "RP_FS_OP_CLOSEDIR = 0x0E"
definition RP_FS_OP_MKDIR :: u8 where "RP_FS_OP_MKDIR = 0x0F"
definition RP_FS_OP_RMDIR :: u8 where "RP_FS_OP_RMDIR = 0x10"
definition RP_FS_OP_CWD_INIT_ROOT :: u8 where "RP_FS_OP_CWD_INIT_ROOT = 0x12"
definition RP_FS_OP_CWD_CLONE :: u8 where "RP_FS_OP_CWD_CLONE = 0x13"
definition RP_FS_OP_CHDIR :: u8 where "RP_FS_OP_CHDIR = 0x14"
definition RP_FS_OP_GETCWD :: u8 where "RP_FS_OP_GETCWD = 0x15"

definition RP_FS_STATUS_READY :: u16 where "RP_FS_STATUS_READY = 0x0001"
definition RP_FS_FLAG_EOF :: u8 where "RP_FS_FLAG_EOF = 0x01"
definition RP_FS_OPEN_READ :: u8 where "RP_FS_OPEN_READ = 0x00"
definition RP_FS_OPEN_WRITE_TRUNC :: u8 where "RP_FS_OPEN_WRITE_TRUNC = 0x01"
definition RP_FS_OPEN_WRITE_EXISTING :: u8 where "RP_FS_OPEN_WRITE_EXISTING = 0x02"
definition RP_FS_OPEN_RW_EXISTING :: u8 where "RP_FS_OPEN_RW_EXISTING = 0x03"
definition RP_FS_OPEN_RW_CREATE :: u8 where "RP_FS_OPEN_RW_CREATE = 0x04"
definition RP_FS_SEEK_SET :: u8 where "RP_FS_SEEK_SET = 0x00"
definition RP_FS_SEEK_CUR :: u8 where "RP_FS_SEEK_CUR = 0x01"
definition RP_FS_SEEK_END :: u8 where "RP_FS_SEEK_END = 0x02"

section \<open>Completion\<close>

definition rp_fs_mb_u16 :: "u8 list \<Rightarrow> u16" where
  "rp_fs_mb_u16 p = ucast (p ! 0) OR push_bit 8 (ucast (p ! 1))"

definition rp_fs_mb_set_done :: "'b board \<Rightarrow> u16 \<Rightarrow> u8 \<Rightarrow> (('b, 'f, 'd, 'k) sys, unit) state" where
  "rp_fs_mb_set_done bd result flags = on_mach (rp_mailbox_set_done bd result flags)"

definition rp_fs_mb_set_done32 :: "'b board \<Rightarrow> u32 \<Rightarrow> u8 \<Rightarrow> (('b, 'f, 'd, 'k) sys, unit) state" where
  "rp_fs_mb_set_done32 bd result flags = on_mach (rp_mailbox_set_done32 bd result flags)"

definition rp_fs_mb_set_error :: "'b board \<Rightarrow> u8 \<Rightarrow> u16 \<Rightarrow> (('b, 'f, 'd, 'k) sys, unit) state" where
  "rp_fs_mb_set_error bd err partial = do {
     bump gFSErrorCount;
     rp_mailbox_set_error bd err partial
   }"

text \<open>The early return of the handlers, \<open>rp_fs_mb_set_error(err); return mbDONE;\<close>\<close>

definition refuse :: "'b board \<Rightarrow> u8 \<Rightarrow> (('b, 'f, 'd, 'k) sys, mailbox_state) state" where
  "refuse bd err = do { rp_fs_mb_set_error bd err 0; ret mbDONE }"

text \<open>The refusal after a file operation failed: \<open>ENOENT\<close> if the device is there, else \<open>EIO\<close>.\<close>

definition refuse_op :: "'b board \<Rightarrow> u8 \<Rightarrow> (('b, 'f, 'd, 'k) sys, mailbox_state) state" where
  "refuse_op bd device = do {
     ready \<leftarrow> gets (\<lambda>s. rp_fs_ready device (files s));
     refuse bd (if ready then RP_ERR_ENOENT else RP_ERR_EIO)
   }"

text \<open>
  The start of the handlers: the argument block is fetched and its reserved bytes are checked,
  or the request is refused with \<open>EINVAL\<close>.
\<close>

definition with_args ::
  "'b board \<Rightarrow> u8 \<Rightarrow> u16 \<Rightarrow> nat \<Rightarrow> (u8 list \<Rightarrow> ('f, 'd, 'k) fs \<Rightarrow> bool) \<Rightarrow>
   (u8 list \<Rightarrow> (('b, 'f, 'd, 'k) sys, mailbox_state) state) \<Rightarrow> (('b, 'f, 'd, 'k) sys, mailbox_state) state" where
  "with_args bd c args_ptr n check body = do {
     raw \<leftarrow> on_mach (rp_fs_mb_read_context_block bd c args_ptr n);
     (case raw of None \<Rightarrow> refuse bd RP_ERR_EINVAL
      | Some raw \<Rightarrow> do {
          ok \<leftarrow> gets (\<lambda>s. check raw (files s));
          if \<not> ok then refuse bd RP_ERR_EINVAL else body raw
        })
   }"

definition rp_fs_mb_resolve_arg_path ::
  "'b board \<Rightarrow> u8 \<Rightarrow> u8 \<Rightarrow> u16 \<Rightarrow> nat \<Rightarrow> u8 \<Rightarrow> (('b, 'f, 'd, 'k) sys, resolved_path option) state" where
  "rp_fs_mb_resolve_arg_path bd pid c path_ptr max_len fallback_device = do {
     input \<leftarrow> on_mach (rp_fs_mb_read_context_path bd c path_ptr max_len RP_FS_NEOX_PATH_MAX);
     (case input of None \<Rightarrow> ret None
      | Some p \<Rightarrow> gets (\<lambda>s. case rp_fs_resolve_process_path pid fallback_device p (cwds s) of
           Inl e \<Rightarrow> None | Inr r \<Rightarrow> Some r))
   }"

definition with_path ::
  "'b board \<Rightarrow> u8 \<Rightarrow> u8 \<Rightarrow> u16 \<Rightarrow> nat \<Rightarrow> u8 \<Rightarrow>
   (resolved_path \<Rightarrow> (('b, 'f, 'd, 'k) sys, mailbox_state) state) \<Rightarrow> (('b, 'f, 'd, 'k) sys, mailbox_state) state" where
  "with_path bd pid c path_ptr max_len fallback_device body = do {
     path \<leftarrow> rp_fs_mb_resolve_arg_path bd pid c path_ptr max_len fallback_device;
     (case path of None \<Rightarrow> refuse bd RP_ERR_EINVAL | Some path \<Rightarrow> body path)
   }"

section \<open>Requests by path\<close>

definition rp_fs_mb_exec_open ::
  "'b board \<Rightarrow> ('f, 'd, 'k) fatfs \<Rightarrow> u8 \<Rightarrow> u8 \<Rightarrow> u16 \<Rightarrow> (('b, 'f, 'd, 'k) sys, mailbox_state) state" where
  "rp_fs_mb_exec_open bd ff pid c args_ptr =
     with_args bd c args_ptr 6 (\<lambda>raw s. True) (\<lambda>raw.
       let mode = raw ! 4 in
       if mode > RP_FS_OPEN_RW_CREATE \<or> raw ! 5 > 9 then refuse bd RP_ERR_EINVAL
       else with_path bd pid c (rp_fs_mb_u16 raw) (unat (rp_fs_mb_u16 (drop 2 raw))) (raw ! 5) (\<lambda>path. do {
         free \<leftarrow> gets (\<lambda>s. rp_fs_free_handle_count (files s));
         if free = 0 then refuse bd RP_ERR_ENOMEM
         else do {
           handle \<leftarrow> on_files
             (if mode = RP_FS_OPEN_READ then rp_fs_open_readonly_83 ff (rp_device path) (rp_path path)
              else if mode = RP_FS_OPEN_WRITE_TRUNC then
                rp_fs_open_write_truncate_83 ff (rp_device path) (rp_path path)
              else if mode = RP_FS_OPEN_WRITE_EXISTING then
                rp_fs_open_write_existing_83 ff (rp_device path) (rp_path path)
              else if mode = RP_FS_OPEN_RW_EXISTING then
                rp_fs_open_rw_existing_83 ff (rp_device path) (rp_path path)
              else if mode = RP_FS_OPEN_RW_CREATE then
                rp_fs_open_rw_create_83 ff (rp_device path) (rp_path path)
              else ret None);
           (case handle of None \<Rightarrow> refuse_op bd (rp_device path)
            | Some h \<Rightarrow> do {
                rp_fs_mb_set_done bd (of_nat h) (rp_device path);
                bump gFSOpenCount;
                ret mbDONE
              })
         }
       }))"

definition rp_fs_mb_exec_single_path ::
  "'b board \<Rightarrow> ('f, 'd, 'k) fatfs \<Rightarrow> u8 \<Rightarrow> u8 \<Rightarrow> u8 \<Rightarrow> u16 \<Rightarrow>
   (('b, 'f, 'd, 'k) sys, mailbox_state) state" where
  "rp_fs_mb_exec_single_path bd ff operation pid c args_ptr =
     with_args bd c args_ptr 6 (\<lambda>raw s. raw ! 5 = 0) (\<lambda>raw.
       with_path bd pid c (rp_fs_mb_u16 raw) (unat (rp_fs_mb_u16 (drop 2 raw))) (raw ! 4) (\<lambda>path. do {
         ok \<leftarrow> on_files
           (if operation = RP_FS_OP_DELETE then rp_fs_delete_83 ff (rp_device path) (rp_path path)
            else if operation = RP_FS_OP_MKDIR then rp_fs_mkdir_83 ff (rp_device path) (rp_path path)
            else if operation = RP_FS_OP_RMDIR then rp_fs_rmdir_83 ff (rp_device path) (rp_path path)
            else ret False);
         if \<not> ok then refuse_op bd (rp_device path)
         else do {
           bump (if operation = RP_FS_OP_DELETE then gFSDeleteCount
                 else if operation = RP_FS_OP_MKDIR then gFSMkdirCount else gFSRmdirCount);
           rp_fs_mb_set_done bd 0 (rp_device path);
           ret mbDONE
         }
       }))"

definition rp_fs_mb_exec_rename ::
  "'b board \<Rightarrow> ('f, 'd, 'k) fatfs \<Rightarrow> u8 \<Rightarrow> u8 \<Rightarrow> u16 \<Rightarrow> (('b, 'f, 'd, 'k) sys, mailbox_state) state" where
  "rp_fs_mb_exec_rename bd ff pid c args_ptr =
     with_args bd c args_ptr 8 (\<lambda>raw s. raw ! 7 = 0) (\<lambda>raw.
       let max_len = unat (rp_fs_mb_u16 (drop 4 raw)) in
       with_path bd pid c (rp_fs_mb_u16 raw) max_len (raw ! 6) (\<lambda>old_path.
       with_path bd pid c (rp_fs_mb_u16 (drop 2 raw)) max_len (raw ! 6) (\<lambda>new_path.
         if rp_device old_path \<noteq> rp_device new_path then refuse bd RP_ERR_EINVAL
         else do {
           ok \<leftarrow> on_files (rp_fs_rename_83 ff (rp_device old_path) (rp_path old_path) (rp_path new_path));
           if \<not> ok then refuse_op bd (rp_device old_path)
           else do {
             bump gFSRenameCount;
             rp_fs_mb_set_done bd 0 (rp_device old_path);
             ret mbDONE
           }
         })))"

definition rp_fs_mb_exec_opendir ::
  "'b board \<Rightarrow> ('f, 'd, 'k) fatfs \<Rightarrow> u8 \<Rightarrow> u8 \<Rightarrow> u16 \<Rightarrow> (('b, 'f, 'd, 'k) sys, mailbox_state) state" where
  "rp_fs_mb_exec_opendir bd ff pid c args_ptr =
     with_args bd c args_ptr 6 (\<lambda>raw s. raw ! 5 = 0) (\<lambda>raw.
       with_path bd pid c (rp_fs_mb_u16 raw) (unat (rp_fs_mb_u16 (drop 2 raw))) (raw ! 4) (\<lambda>path. do {
         handle \<leftarrow> on_files (rp_fs_opendir_83 ff (rp_device path) (rp_path path));
         (case handle of None \<Rightarrow> refuse_op bd (rp_device path)
          | Some h \<Rightarrow> do {
              bump gFSOpendirCount;
              rp_fs_mb_set_done bd (of_nat h) (rp_device path);
              ret mbDONE
            })
       }))"

definition rp_fs_mb_exec_chdir ::
  "'b board \<Rightarrow> ('f, 'd, 'k) fatfs \<Rightarrow> u8 \<Rightarrow> u8 \<Rightarrow> u16 \<Rightarrow> (('b, 'f, 'd, 'k) sys, mailbox_state) state" where
  "rp_fs_mb_exec_chdir bd ff pid c args_ptr =
     with_args bd c args_ptr 6 (\<lambda>raw s. raw ! 5 = 0) (\<lambda>raw.
       with_path bd pid c (rp_fs_mb_u16 raw) (unat (rp_fs_mb_u16 (drop 2 raw))) (raw ! 4) (\<lambda>path. do {
         handle \<leftarrow> on_files (rp_fs_opendir_83 ff (rp_device path) (rp_path path));
         (case handle of None \<Rightarrow> refuse_op bd (rp_device path)
          | Some h \<Rightarrow> do {
              close_ok \<leftarrow> on_files (rp_fs_closedir ff (of_nat h));
              set_ok \<leftarrow> (if close_ok then on_cwds (rp_fs_cwd_set pid path) else ret False);
              if \<not> set_ok then refuse bd RP_ERR_EIO
              else do { rp_fs_mb_set_done bd 0 (rp_device path); ret mbDONE }
            })
       }))"

definition rp_fs_mb_exec_getcwd ::
  "'b board \<Rightarrow> u8 \<Rightarrow> u8 \<Rightarrow> u16 \<Rightarrow> (('b, 'f, 'd, 'k) sys, mailbox_state) state" where
  "rp_fs_mb_exec_getcwd bd pid c args_ptr =
     with_args bd c args_ptr 8 (\<lambda>raw s. raw ! 6 = 0 \<and> raw ! 7 = 0) (\<lambda>raw.
       let dst = rp_fs_mb_u16 raw; dst_len = unat (rp_fs_mb_u16 (drop 2 raw)) in do {
         formatted \<leftarrow> gets (\<lambda>s. rp_fs_cwd_format pid RP_FS_NEOX_PATH_MAX (cwds s));
         (case formatted of None \<Rightarrow> refuse bd RP_ERR_EINVAL
          | Some cwd \<Rightarrow>
              if length cwd + 1 > dst_len then refuse bd RP_ERR_EINVAL
              else do {
                ok \<leftarrow> on_mach (rp_fs_mb_write_context_block bd c dst
                        (map (\<lambda>x. of_nat (code_of x)) cwd @ [0]));
                ok' \<leftarrow> (if ok then on_mach (rp_fs_mb_write_context_block bd c (args_ptr + 4)
                         [of_nat (length cwd), of_nat (length cwd div 256)])
                       else ret False);
                if \<not> ok' then refuse bd RP_ERR_EINVAL
                else do { rp_fs_mb_set_done bd (of_nat (length cwd)) 0; ret mbDONE }
              })
       })"

section \<open>Bulk transfers\<close>

text \<open>
  The loop of LOAD and SAVE: \<open>done_bytes\<close> bytes moved so far, in chunks of at most 256. The result is
  the count and whether the loop was left by \<open>break\<close>.
\<close>

function bulk_loop ::
  "'b board \<Rightarrow> ('f, 'd, 'k) fatfs \<Rightarrow> u8 \<Rightarrow> u8 \<Rightarrow> u16 \<Rightarrow> nat \<Rightarrow> nat \<Rightarrow>
   (('b, 'f, 'd, 'k) sys, nat \<times> bool) state" where
  "bulk_loop bd ff operation handle mem_ptr transfer_size done_bytes =
     (if \<not> done_bytes < transfer_size then ret (done_bytes, False)
      else let chunk = min RP_FS_MAILBOX_CHUNK_SIZE (transfer_size - done_bytes) in
        if operation = RP_FS_OP_LOAD then do {
          data \<leftarrow> on_files (rp_fs_read ff handle (of_nat chunk));
          (case data of None \<Rightarrow> ret (done_bytes, True)
           | Some bytes \<Rightarrow>
               if length bytes = 0 then ret (done_bytes, True)
               else do {
                 on_mach (rp_fs_mb_write_context_bytes bd (mem_ptr + of_nat done_bytes) bytes);
                 bulk_loop bd ff operation handle mem_ptr transfer_size (done_bytes + length bytes)
               })
        }
        else do {
          bytes \<leftarrow> on_mach (rp_fs_mb_read_context_bytes bd (mem_ptr + of_nat done_bytes) chunk);
          written \<leftarrow> on_files (rp_fs_write ff handle bytes);
          (case written of None \<Rightarrow> ret (done_bytes, True)
           | Some cnt \<Rightarrow>
               if cnt \<noteq> chunk then ret (done_bytes + cnt, True)
               else bulk_loop bd ff operation handle mem_ptr transfer_size (done_bytes + cnt))
        })"
  by pat_completeness auto

termination bulk_loop
  by (relation "measure (\<lambda>(_, _, _, _, _, transfer_size, done_bytes). transfer_size - done_bytes)")
    (auto simp: RP_FS_MAILBOX_CHUNK_SIZE_def intro!: diff_less_mono2)

declare bulk_loop.simps [simp del]

definition rp_fs_mb_exec_bulk ::
  "'b board \<Rightarrow> ('f, 'd, 'k) fatfs \<Rightarrow> u8 \<Rightarrow> u8 \<Rightarrow> u8 \<Rightarrow> u16 \<Rightarrow>
   (('b, 'f, 'd, 'k) sys, mailbox_state) state" where
  "rp_fs_mb_exec_bulk bd ff operation pid c args_ptr =
     with_args bd c args_ptr 8 (\<lambda>raw s. raw ! 7 = 0) (\<lambda>raw.
       with_path bd pid c (rp_fs_mb_u16 raw) (RP_FS_NEOX_PATH_MAX - 1) (raw ! 6) (\<lambda>path.
         let mem_ptr = rp_fs_mb_u16 (drop 2 raw);
             requested = rp_fs_mb_effective_16bit_size (rp_fs_mb_u16 (drop 4 raw)) in do {
           handle \<leftarrow> on_files
             (if operation = RP_FS_OP_LOAD then rp_fs_open_readonly_83 ff (rp_device path) (rp_path path)
              else rp_fs_open_write_truncate_83 ff (rp_device path) (rp_path path));
           (case handle of None \<Rightarrow> refuse_op bd (rp_device path)
            | Some num \<Rightarrow> do {
                let h = of_nat num;
                size \<leftarrow> gets (\<lambda>s. unat (rp_fs_size ff h (files s)));
                let transfer_size = (if operation = RP_FS_OP_LOAD then min requested size else requested);
                if \<not> rp_fs_mb_valid_64k_range mem_ptr transfer_size then do {
                  on_files (rp_fs_close ff h);
                  refuse bd RP_ERR_EINVAL
                }
                else do {
                  started \<leftarrow> on_mach (rp_fs_mb_begin_context_access bd c);
                  (case started of None \<Rightarrow> do { on_files (rp_fs_close ff h); refuse bd RP_ERR_EINVAL }
                   | Some acc \<Rightarrow> do {
                       r \<leftarrow> bulk_loop bd ff operation h mem_ptr transfer_size 0;
                       on_mach (rp_fs_mb_end_context_access bd acc);
                       (case r of (done_bytes, failed) \<Rightarrow> do {
                          close_ok \<leftarrow> on_files (rp_fs_close ff h);
                          if failed \<or> \<not> close_ok \<or> done_bytes \<noteq> transfer_size then do {
                            rp_fs_mb_set_error bd RP_ERR_EIO (of_nat done_bytes);
                            ret mbDONE
                          }
                          else do {
                            bump (if operation = RP_FS_OP_LOAD then gFSLoadCount else gFSSaveCount);
                            rp_fs_mb_set_done bd (of_nat done_bytes) (rp_device path);
                            ret mbDONE
                          }
                        })
                     })
                }
              })
         }))"

section \<open>Requests by handle\<close>

definition eof_flag :: "('f, 'd, 'k) fatfs \<Rightarrow> u8 \<Rightarrow> ('f, 'd, 'k) fs \<Rightarrow> u8" where
  "eof_flag ff handle s = (if rp_fs_position ff handle s \<ge> rp_fs_size ff handle s then RP_FS_FLAG_EOF else 0)"

definition rp_fs_mb_exec_read ::
  "'b board \<Rightarrow> ('f, 'd, 'k) fatfs \<Rightarrow> u8 \<Rightarrow> u16 \<Rightarrow> u8 \<Rightarrow> (('b, 'f, 'd, 'k) sys, mailbox_state) state" where
  "rp_fs_mb_exec_read bd ff c args_ptr handle =
     with_args bd c args_ptr 6 (\<lambda>raw s. rp_fs_is_open handle s) (\<lambda>raw.
       let dst = rp_fs_mb_u16 (drop 2 raw); len = rp_fs_mb_u16 (drop 4 raw) in
       if dst = 0 then refuse bd RP_ERR_EINVAL
       else if len = 0 then do {
         eof \<leftarrow> gets (\<lambda>s. eof_flag ff handle (files s));
         rp_fs_mb_set_done bd 0 eof;
         ret mbDONE
       }
       else let len = min RP_FS_MAILBOX_CHUNK_SIZE (unat len) in
         if \<not> rp_fs_mb_private_range dst len then refuse bd RP_ERR_EINVAL
         else do {
           data \<leftarrow> on_files (rp_fs_read ff handle (of_nat len));
           (case data of None \<Rightarrow> refuse bd RP_ERR_EIO
            | Some bytes \<Rightarrow> do {
                ok \<leftarrow> (if length bytes > 0 then on_mach (rp_fs_mb_write_context_block bd c dst bytes)
                      else ret True);
                if \<not> ok then refuse bd RP_ERR_EINVAL
                else do {
                  eof \<leftarrow> gets (\<lambda>s. eof_flag ff handle (files s));
                  rp_fs_mb_set_done bd (of_nat (length bytes)) eof;
                  bump gFSReadCount;
                  ret mbDONE
                }
              })
         })"

definition rp_fs_mb_exec_write ::
  "'b board \<Rightarrow> ('f, 'd, 'k) fatfs \<Rightarrow> u8 \<Rightarrow> u16 \<Rightarrow> u8 \<Rightarrow> (('b, 'f, 'd, 'k) sys, mailbox_state) state" where
  "rp_fs_mb_exec_write bd ff c args_ptr handle =
     with_args bd c args_ptr 6 (\<lambda>raw s. rp_fs_is_open handle s) (\<lambda>raw.
       let src = rp_fs_mb_u16 (drop 2 raw); len = rp_fs_mb_u16 (drop 4 raw) in
       if src = 0 then refuse bd RP_ERR_EINVAL
       else if len = 0 then do { rp_fs_mb_set_done bd 0 0; ret mbDONE }
       else do {
         block \<leftarrow> on_mach (rp_fs_mb_read_context_block bd c src (min RP_FS_MAILBOX_CHUNK_SIZE (unat len)));
         (case block of None \<Rightarrow> refuse bd RP_ERR_EINVAL
          | Some bytes \<Rightarrow> do {
              written \<leftarrow> on_files (rp_fs_write ff handle bytes);
              (case written of None \<Rightarrow> refuse bd RP_ERR_EIO
               | Some cnt \<Rightarrow> do {
                   rp_fs_mb_set_done bd (of_nat cnt) 0;
                   bump gFSWriteCount;
                   ret mbDONE
                 })
            })
       })"

text \<open>A position as the four bytes written to the caller.\<close>

definition le32 :: "u32 \<Rightarrow> u8 list" where
  "le32 p = [ucast (p AND 0xFF), ucast (drop_bit 8 p AND 0xFF), ucast (drop_bit 16 p AND 0xFF),
     ucast (drop_bit 24 p AND 0xFF)]"

definition rp_fs_mb_exec_seek ::
  "'b board \<Rightarrow> ('f, 'd, 'k) fatfs \<Rightarrow> u8 \<Rightarrow> u16 \<Rightarrow> u8 \<Rightarrow> (('b, 'f, 'd, 'k) sys, mailbox_state) state" where
  "rp_fs_mb_exec_seek bd ff c args_ptr handle =
     with_args bd c args_ptr 10 (\<lambda>raw s. rp_fs_is_open handle s) (\<lambda>raw. do {
       let offset_bits = (ucast (rp_fs_mb_u16 (drop 2 raw)) OR
             push_bit 16 (ucast (rp_fs_mb_u16 (drop 4 raw))) :: u32);
       let offset = sint offset_bits;
       base \<leftarrow> gets (\<lambda>s. if raw ! 1 = RP_FS_SEEK_SET then Some 0
         else if raw ! 1 = RP_FS_SEEK_CUR then Some (uint (rp_fs_position ff handle (files s)))
         else if raw ! 1 = RP_FS_SEEK_END then Some (uint (rp_fs_size ff handle (files s)))
         else None);
       (case base of None \<Rightarrow> refuse bd RP_ERR_EINVAL
        | Some base \<Rightarrow>
            let target = base + offset in
            if target < 0 \<or> target > 0xFFFFFFFF then refuse bd RP_ERR_EINVAL
            else do {
              ok \<leftarrow> on_files (rp_fs_seek ff handle (word_of_int target));
              if \<not> ok then refuse bd RP_ERR_EIO
              else do {
                position \<leftarrow> gets (\<lambda>s. rp_fs_position ff handle (files s));
                ok \<leftarrow> on_mach (rp_fs_mb_write_context_block bd c (args_ptr + 6) (le32 position));
                if \<not> ok then refuse bd RP_ERR_EINVAL
                else do {
                  bump gFSSeekCount;
                  rp_fs_mb_set_done32 bd position 0;
                  ret mbDONE
                }
              }
            })
     })"

definition rp_fs_mb_exec_tell ::
  "'b board \<Rightarrow> ('f, 'd, 'k) fatfs \<Rightarrow> u8 \<Rightarrow> u16 \<Rightarrow> u8 \<Rightarrow> (('b, 'f, 'd, 'k) sys, mailbox_state) state" where
  "rp_fs_mb_exec_tell bd ff c args_ptr handle =
     with_args bd c args_ptr 6 (\<lambda>raw s. rp_fs_is_open handle s) (\<lambda>raw. do {
       position \<leftarrow> gets (\<lambda>s. rp_fs_position ff handle (files s));
       ok \<leftarrow> on_mach (rp_fs_mb_write_context_block bd c (args_ptr + 2) (le32 position));
       if \<not> ok then refuse bd RP_ERR_EINVAL
       else do {
         bump gFSTellCount;
         rp_fs_mb_set_done32 bd position 0;
         ret mbDONE
       }
     })"

text \<open>The directory entry of 18 bytes: name and padding, attributes, size.\<close>

definition dirent :: "string \<Rightarrow> u8 \<Rightarrow> u32 \<Rightarrow> u8 list" where
  "dirent name attr sz = map (\<lambda>x. of_nat (code_of x)) (take 12 name) @
     replicate (13 - min 12 (length name)) 0 @ [attr] @ le32 sz"

definition rp_fs_mb_exec_readdir ::
  "'b board \<Rightarrow> ('f, 'd, 'k) fatfs \<Rightarrow> u8 \<Rightarrow> u16 \<Rightarrow> u8 \<Rightarrow> (('b, 'f, 'd, 'k) sys, mailbox_state) state" where
  "rp_fs_mb_exec_readdir bd ff c args_ptr handle =
     with_args bd c args_ptr 6 (\<lambda>raw s. rp_fs_dir_is_open handle s) (\<lambda>raw.
       let dst = rp_fs_mb_u16 (drop 2 raw); dst_len = unat (rp_fs_mb_u16 (drop 4 raw)) in
       if dst_len < RP_FS_DIRENT_SIZE \<or> \<not> rp_fs_mb_private_range dst RP_FS_DIRENT_SIZE then
         refuse bd RP_ERR_EINVAL
       else do {
         r \<leftarrow> on_files (rp_fs_readdir ff handle 13);
         (case r of Readdir_Error \<Rightarrow> refuse bd RP_ERR_EIO
          | End_Of_Dir \<Rightarrow> do {
              bump gFSReaddirCount;
              rp_fs_mb_set_done bd 0 RP_FS_FLAG_EOF;
              ret mbDONE
            }
          | Entry name attr sz \<Rightarrow> do {
              ok \<leftarrow> on_mach (rp_fs_mb_write_context_block bd c dst (dirent name attr sz));
              if \<not> ok then refuse bd RP_ERR_EINVAL
              else do {
                bump gFSReaddirCount;
                rp_fs_mb_set_done bd 1 0;
                ret mbDONE
              }
            })
       })"

definition rp_fs_mb_exec_status :: "'b board \<Rightarrow> (('b, 'f, 'd, 'k) sys, mailbox_state) state" where
  "rp_fs_mb_exec_status bd = do {
     mask \<leftarrow> gets (\<lambda>s. usb_fatfs_mounted_mask (files s));
     cnt \<leftarrow> gets (\<lambda>s. usb_fatfs_mounted_count (files s));
     let status = (if mask \<noteq> 0 then RP_FS_STATUS_READY else 0) OR push_bit 8 (ucast cnt);
     rp_fs_mb_set_done bd status mask;
     bump gFSStatusCount;
     ret mbDONE
   }"

definition rp_fs_mb_exec_close ::
  "'b board \<Rightarrow> ('f, 'd, 'k) fatfs \<Rightarrow> u8 \<Rightarrow> (('b, 'f, 'd, 'k) sys, mailbox_state) state" where
  "rp_fs_mb_exec_close bd ff handle = do {
     opened \<leftarrow> gets (\<lambda>s. rp_fs_is_open handle (files s));
     if \<not> opened then refuse bd RP_ERR_EINVAL
     else do {
       ok \<leftarrow> on_files (rp_fs_close ff handle);
       if \<not> ok then refuse bd RP_ERR_EIO
       else do { rp_fs_mb_set_done bd 0 0; bump gFSCloseCount; ret mbDONE }
     }
   }"

definition rp_fs_mb_exec_closedir ::
  "'b board \<Rightarrow> ('f, 'd, 'k) fatfs \<Rightarrow> u8 \<Rightarrow> (('b, 'f, 'd, 'k) sys, mailbox_state) state" where
  "rp_fs_mb_exec_closedir bd ff handle = do {
     opened \<leftarrow> gets (\<lambda>s. rp_fs_dir_is_open handle (files s));
     if \<not> opened then refuse bd RP_ERR_EINVAL
     else do {
       ok \<leftarrow> on_files (rp_fs_closedir ff handle);
       if \<not> ok then refuse bd RP_ERR_EIO
       else do { rp_fs_mb_set_done bd 0 0; bump gFSClosedirCount; ret mbDONE }
     }
   }"

section \<open>The command\<close>

text \<open>The arguments of the handlers: the address in ARG0, the handle or process numbers in ARG2.\<close>

definition with_args_ptr ::
  "'b board \<Rightarrow> (u16 \<Rightarrow> (('b, 'f, 'd, 'k) sys, 'x) state) \<Rightarrow> (('b, 'f, 'd, 'k) sys, 'x) state" where
  "with_args_ptr bd h = do { args_ptr \<leftarrow> on_mach (rp_read16 bd RP_ARG0L); h args_ptr }"

definition with_handle ::
  "'b board \<Rightarrow> (u8 \<Rightarrow> (('b, 'f, 'd, 'k) sys, 'x) state) \<Rightarrow> (('b, 'f, 'd, 'k) sys, 'x) state" where
  "with_handle bd h = do { handle \<leftarrow> on_mach (snoop_read6502MemoryLoc bd RP_ARG2L); h handle }"

definition rp_fs_cwd_request ::
  "'b board \<Rightarrow> (u8 \<Rightarrow> u8 \<Rightarrow> cwd_table \<Rightarrow> bool \<times> cwd_table) \<Rightarrow> (('b, 'f, 'd, 'k) sys, mailbox_state) state" where
  "rp_fs_cwd_request bd f = do {
     x \<leftarrow> on_mach (snoop_read6502MemoryLoc bd RP_ARG2L);
     y \<leftarrow> on_mach (snoop_read6502MemoryLoc bd RP_ARG2H);
     ok \<leftarrow> on_cwds (f x y);
     (if ok then rp_fs_mb_set_done bd 0 0 else rp_fs_mb_set_error bd RP_ERR_EINVAL 0);
     ret mbDONE
   }"

text \<open>The \<open>switch\<close> over the operation.\<close>

definition exec_operation ::
  "'b board \<Rightarrow> ('f, 'd, 'k) fatfs \<Rightarrow> u8 \<Rightarrow> u8 \<Rightarrow> u8 \<Rightarrow> (('b, 'f, 'd, 'k) sys, mailbox_state) state" where
  "exec_operation bd ff operation pid c =
     (if operation = RP_FS_OP_STATUS then rp_fs_mb_exec_status bd
      else if operation = RP_FS_OP_OPEN then with_args_ptr bd (rp_fs_mb_exec_open bd ff pid c)
      else if operation = RP_FS_OP_READ then
        with_args_ptr bd (\<lambda>p. with_handle bd (rp_fs_mb_exec_read bd ff c p))
      else if operation = RP_FS_OP_WRITE then
        with_args_ptr bd (\<lambda>p. with_handle bd (rp_fs_mb_exec_write bd ff c p))
      else if operation = RP_FS_OP_CLOSE then with_handle bd (rp_fs_mb_exec_close bd ff)
      else if operation = RP_FS_OP_LOAD \<or> operation = RP_FS_OP_SAVE then
        with_args_ptr bd (rp_fs_mb_exec_bulk bd ff operation pid c)
      else if operation = RP_FS_OP_DELETE \<or> operation = RP_FS_OP_MKDIR \<or> operation = RP_FS_OP_RMDIR then
        with_args_ptr bd (rp_fs_mb_exec_single_path bd ff operation pid c)
      else if operation = RP_FS_OP_RENAME then with_args_ptr bd (rp_fs_mb_exec_rename bd ff pid c)
      else if operation = RP_FS_OP_OPENDIR then with_args_ptr bd (rp_fs_mb_exec_opendir bd ff pid c)
      else if operation = RP_FS_OP_SEEK then
        with_args_ptr bd (\<lambda>p. with_handle bd (rp_fs_mb_exec_seek bd ff c p))
      else if operation = RP_FS_OP_TELL then
        with_args_ptr bd (\<lambda>p. with_handle bd (rp_fs_mb_exec_tell bd ff c p))
      else if operation = RP_FS_OP_READDIR then
        with_args_ptr bd (\<lambda>p. with_handle bd (rp_fs_mb_exec_readdir bd ff c p))
      else if operation = RP_FS_OP_CLOSEDIR then with_handle bd (rp_fs_mb_exec_closedir bd ff)
      else if operation = RP_FS_OP_CHDIR then with_args_ptr bd (rp_fs_mb_exec_chdir bd ff pid c)
      else if operation = RP_FS_OP_GETCWD then with_args_ptr bd (rp_fs_mb_exec_getcwd bd pid c)
      else if operation = RP_FS_OP_CWD_INIT_ROOT then rp_fs_cwd_request bd rp_fs_cwd_init_root
      else if operation = RP_FS_OP_CWD_CLONE then rp_fs_cwd_request bd rp_fs_cwd_clone
      else refuse bd RP_ERR_EINVAL)"

definition rp_fs_mailbox_handle_exec ::
  "'b board \<Rightarrow> ('f, 'd, 'k) fatfs \<Rightarrow> (('b, 'f, 'd, 'k) sys, mailbox_state) state" where
  "rp_fs_mailbox_handle_exec bd ff = do {
     bump gFSCommandCount;
     operation \<leftarrow> on_mach (snoop_read6502MemoryLoc bd RP_STATE);
     pid \<leftarrow> on_mach (snoop_read6502MemoryLoc bd RP_ARG1L);
     c \<leftarrow> on_mach (snoop_read6502MemoryLoc bd RP_ARG1H);
     next_state \<leftarrow> (if unat pid \<ge> RP_FS_NEOX_MAX_PROCS \<or> unat c \<ge> MAX_MEMORY_CONTEXTS
       then refuse bd RP_ERR_EINVAL
       else exec_operation bd ff operation pid c);
     when_do (pid \<noteq> 0) requestFSCompletionIRQ;
     ret next_state
   }"

definition rp_fs_mailbox_reset :: "('f, 'd, 'k) fatfs \<Rightarrow> (('b, 'f, 'd, 'k) sys, unit) state" where
  "rp_fs_mailbox_reset ff = do {
     on_files (rp_fs_close_all ff);
     modify (\<lambda>s. s\<lparr>cwds := rp_fs_cwd_reset_all (cwds s)\<rparr>)
   }"

end
