(* ===== verification/Mailbox.thy ===== *)
theory Mailbox
  imports Fs_Mailbox
begin

text \<open>
  The console commands (\<open>rp_console_io.cpp\<close>), the central command table and the state machine of
  the mailbox (\<open>mailbox.cpp\<close>), and the character registers of the BIOS (\<open>simple_io.cpp\<close>).
\<close>

section \<open>Console transfers\<close>

definition RP_CONSOLE_CHUNK_SIZE :: u16 where "RP_CONSOLE_CHUNK_SIZE = 256"

text \<open>At most \<open>n\<close> bytes from the input queue, up to the first 0.\<close>

fun rp_console_input_bytes :: "nat \<Rightarrow> (queues, u8 list) state" where
  "rp_console_input_bytes 0 = ret []"
| "rp_console_input_bytes (Suc n) = do {
     c \<leftarrow> readCPUQ;
     if c = 0 then ret []
     else do { cs \<leftarrow> rp_console_input_bytes n; ret (c # cs) }
   }"

definition rp_console_output_bytes :: "u8 list \<Rightarrow> (queues, unit) state" where
  "rp_console_output_bytes bytes = for_each bytes (\<lambda>b. do { writeVDUQ b; ret () })"

definition rp_console_io_handle_write :: "'b board \<Rightarrow> (('b, 'f, 'd, 'k) sys, mailbox_state) state" where
  "rp_console_io_handle_write bd = do {
     t \<leftarrow> on_mach (rp_read16 bd RP_ARG0L);
     on_con (\<lambda>c. c\<lparr>gConsoleTarget := t\<rparr>);
     l \<leftarrow> on_mach (rp_read16 bd RP_ARG1L);
     on_con (\<lambda>c. c\<lparr>gConsoleLen := l\<rparr>);
     if l = 0 then do { on_mach (rp_mailbox_set_done bd 0 0); ret mbDONE }
     else do {
       on_con (\<lambda>c. c\<lparr>gConsoleRemaining := gConsoleLen c, gConsoleCurrent := gConsoleTarget c\<rparr>);
       ret mbWRITE
     }
   }"

definition rp_console_io_handle_read :: "'b board \<Rightarrow> (('b, 'f, 'd, 'k) sys, mailbox_state) state" where
  "rp_console_io_handle_read bd = do {
     t \<leftarrow> on_mach (rp_read16 bd RP_ARG0L);
     on_con (\<lambda>c. c\<lparr>gConsoleTarget := t\<rparr>);
     l \<leftarrow> on_mach (rp_read16 bd RP_ARG1L);
     on_con (\<lambda>c. c\<lparr>gConsoleLen := l\<rparr>);
     if l = 0 then do { on_mach (rp_mailbox_set_done bd 0 0); ret mbDONE }
     else do {
       when_do (l > RP_CONSOLE_CHUNK_SIZE) (on_con (\<lambda>c. c\<lparr>gConsoleLen := RP_CONSOLE_CHUNK_SIZE\<rparr>));
       ret mbREAD
     }
   }"

definition rp_console_io_process_write :: "'b board \<Rightarrow> (('b, 'f, 'd, 'k) sys, bool) state" where
  "rp_console_io_process_write bd = do {
     c \<leftarrow> gets con;
     if gConsoleRemaining c \<noteq> 0 then do {
       let chunk = (if gConsoleRemaining c > RP_CONSOLE_CHUNK_SIZE then RP_CONSOLE_CHUNK_SIZE
                    else gConsoleRemaining c);
       bytes \<leftarrow> on_mach (snoop_read6502Memory bd (gConsoleCurrent c) chunk);
       on_qs (rp_console_output_bytes bytes);
       on_con (\<lambda>c. c\<lparr>gConsoleCurrent := gConsoleCurrent c + chunk,
         gConsoleRemaining := gConsoleRemaining c - chunk,
         gConsoleWriteCount := gConsoleWriteCount c + 1\<rparr>);
       ret False
     }
     else do {
       on_mach (rp_mailbox_set_done bd (gConsoleLen c) 0);
       ret True
     }
   }"

definition rp_console_io_process_read :: "'b board \<Rightarrow> (('b, 'f, 'd, 'k) sys, bool) state" where
  "rp_console_io_process_read bd = do {
     on_con (\<lambda>c. c\<lparr>gConsoleReadCount := gConsoleReadCount c + 1\<rparr>);
     c \<leftarrow> gets con;
     bytes \<leftarrow> on_qs (rp_console_input_bytes (unat (gConsoleLen c)));
     if length bytes = 0 then ret False
     else do {
       on_mach (snoop_write6502Memory bd (gConsoleTarget c) bytes);
       on_mach (rp_mailbox_set_done bd (of_nat (length bytes)) 0);
       ret True
     }
   }"

definition rp_console_io_reset :: "(('b, 'f, 'd, 'k) sys, unit) state" where
  "rp_console_io_reset = on_con (\<lambda>c. c\<lparr>gConsoleTarget := 0, gConsoleLen := 0, gConsoleCurrent := 0,
     gConsoleRemaining := 0\<rparr>)"

section \<open>Command table\<close>

definition RP_GROUP_NONE :: u8 where "RP_GROUP_NONE = 0x00"
definition RP_GROUP_CONSOLE :: u8 where "RP_GROUP_CONSOLE = 0x01"
definition RP_GROUP_FS :: u8 where "RP_GROUP_FS = 0x02"
definition RP_CON_CMD_NONE :: u8 where "RP_CON_CMD_NONE = 0x00"
definition RP_CON_CMD_WRITE :: u8 where "RP_CON_CMD_WRITE = 0x01"
definition RP_CON_CMD_READ :: u8 where "RP_CON_CMD_READ = 0x02"
definition RP_FS_CMD_EXEC :: u8 where "RP_FS_CMD_EXEC = 0x11"

definition gMailboxCommands ::
  "'b board \<Rightarrow> ('f, 'd, 'k) fatfs \<Rightarrow> (u8 \<times> u8 \<times> (('b, 'f, 'd, 'k) sys, mailbox_state) state) list" where
  "gMailboxCommands bd ff =
     [(RP_GROUP_CONSOLE, RP_CON_CMD_WRITE, rp_console_io_handle_write bd),
      (RP_GROUP_CONSOLE, RP_CON_CMD_READ, rp_console_io_handle_read bd),
      (RP_GROUP_FS, RP_FS_CMD_EXEC, rp_fs_mailbox_handle_exec bd ff)]"

definition rp_find_mailbox_command ::
  "'b board \<Rightarrow> ('f, 'd, 'k) fatfs \<Rightarrow> u8 \<Rightarrow> u8 \<Rightarrow>
   (u8 \<times> u8 \<times> (('b, 'f, 'd, 'k) sys, mailbox_state) state) option" where
  "rp_find_mailbox_command bd ff grp cmd =
     find (\<lambda>(g, c, h). g = grp \<and> c = cmd) (gMailboxCommands bd ff)"

definition rp_handle_unknown_command :: "'b board \<Rightarrow> (('b, 'f, 'd, 'k) sys, unit) state" where
  "rp_handle_unknown_command bd = do {
     on_mbx (\<lambda>m. m\<lparr>gUnknownCmdCount := gUnknownCmdCount m + 1\<rparr>);
     rp_mailbox_set_error bd RP_ERR_EINVAL 0
   }"

definition rp_dispatch_mailbox_command ::
  "'b board \<Rightarrow> ('f, 'd, 'k) fatfs \<Rightarrow> u8 \<Rightarrow> u8 \<Rightarrow> (('b, 'f, 'd, 'k) sys, mailbox_state) state" where
  "rp_dispatch_mailbox_command bd ff grp cmd =
     (case rp_find_mailbox_command bd ff grp cmd of
        None \<Rightarrow> do { rp_handle_unknown_command bd; ret mbDONE }
      | Some (g, c, handler) \<Rightarrow> do {
          on_mach (rp_mailbox_clear_result_fields bd);
          handler
        })"

definition rp_mailbox_dispatch_current_request ::
  "'b board \<Rightarrow> ('f, 'd, 'k) fatfs \<Rightarrow> (('b, 'f, 'd, 'k) sys, mailbox_state) state" where
  "rp_mailbox_dispatch_current_request bd ff = do {
     grp \<leftarrow> on_mach (snoop_read6502MemoryLoc bd RP_GROUP);
     cmd \<leftarrow> on_mach (snoop_read6502MemoryLoc bd RP_CMD);
     rp_dispatch_mailbox_command bd ff grp cmd
   }"

section \<open>The state machine\<close>

definition set_state :: "mailbox_state \<Rightarrow> (('b, 'f, 'd, 'k) sys, unit) state" where
  "set_state st = on_mbx (\<lambda>m. m\<lparr>mailbox_state := st\<rparr>)"

text \<open>The case \<open>mbIDLE\<close>; \<open>lCount\<close> is counted only when the trigger was not seen.\<close>

definition poll_idle :: "'b board \<Rightarrow> ('f, 'd, 'k) fatfs \<Rightarrow> (('b, 'f, 'd, 'k) sys, unit) state" where
  "poll_idle bd ff = do {
     on_mbx (\<lambda>m. m\<lparr>gPollCount := gPollCount m + 1\<rparr>);
     t \<leftarrow> on_mach triggerMMUIO;
     n \<leftarrow> gets (\<lambda>s. lCount (mbx s));
     when_do (\<not> t) (on_mbx (\<lambda>m. m\<lparr>lCount := lCount m + 1\<rparr>));
     if \<not> t \<and> n < 250 then ret ()
     else do {
       on_mach ackMMUIO;
       on_mbx (\<lambda>m. m\<lparr>lCount := 0\<rparr>);
       bell \<leftarrow> on_mach (snoop_read6502MemoryLoc bd RP_DOORBELL);
       pending \<leftarrow> (if bell \<noteq> RP_DOORBELL_NONE then ret True
         else do { st \<leftarrow> on_mach (snoop_read6502MemoryLoc bd RP_STATUS); ret (st = RP_BUSY) });
       when_do pending (do {
         on_mbx (\<lambda>m. m\<lparr>gCommandCount := gCommandCount m + 1\<rparr>);
         next_state \<leftarrow> rp_mailbox_dispatch_current_request bd ff;
         set_state next_state
       })
     }
   }"

definition update_console_ready :: "'b board \<Rightarrow> (('b, 'f, 'd, 'k) sys, unit) state" where
  "update_console_ready bd = do {
     lCheck \<leftarrow> on_qs isEmptyCPUQ;
     last \<leftarrow> gets (\<lambda>s. lastCheck (mbx s));
     when_do (lCheck \<noteq> last) (do {
       on_mach (snoop_write6502MemoryLoc bd RP_CONSOLE_RDY (if lCheck then 0 else 1));
       on_mbx (\<lambda>m. m\<lparr>lastCheck := lCheck\<rparr>)
     })
   }"

definition taskMailbox :: "'b board \<Rightarrow> ('f, 'd, 'k) fatfs \<Rightarrow> (('b, 'f, 'd, 'k) sys, unit) state" where
  "taskMailbox bd ff = do {
     update_console_ready bd;
     st \<leftarrow> gets (\<lambda>s. mailbox_state (mbx s));
     (case st of
        mbINIT \<Rightarrow> set_state mbIDLE
      | mbIDLE \<Rightarrow> poll_idle bd ff
      | mbWRITE \<Rightarrow> do { fin \<leftarrow> rp_console_io_process_write bd; when_do fin (set_state mbDONE) }
      | mbREAD \<Rightarrow> do { fin \<leftarrow> rp_console_io_process_read bd; when_do fin (set_state mbDONE) }
      | mbDONE \<Rightarrow> set_state mbIDLE)
   }"

definition initMailbox :: "'b board \<Rightarrow> ('f, 'd, 'k) fatfs \<Rightarrow> (('b, 'f, 'd, 'k) sys, unit) state" where
  "initMailbox bd ff = do {
     on_mach (do {
       for_each [(RP_DOORBELL, RP_DOORBELL_NONE), (RP_GROUP, RP_GROUP_NONE), (RP_CMD, RP_CON_CMD_NONE),
           (RP_STATUS, RP_IDLE), (RP_ERR, RP_ERR_OK), (RP_FLAGS, 0), (RP_STATE, 0), (RP_ARG0L, 0),
           (RP_ARG0H, 0), (RP_ARG1L, 0), (RP_ARG1H, 0), (RP_ARG2L, 0), (RP_ARG2H, 0)]
         (\<lambda>(a, v). snoop_write6502MemoryLoc bd a v);
       rp_write16 bd RP_RES0L 0;
       rp_write16 bd RP_RES1L 0
     });
     rp_console_io_reset;
     rp_fs_mailbox_reset ff;
     on_mach (do {
       snoop_write6502MemoryLoc bd RP_CONSOLE_RDY 0x00;
       snoop_write6502MemoryLoc bd RP_IRQ_SOURCE 0x00;
       snoop_write6502MemoryLoc bd RP_IRQ_STATE 0x00
     })
   }"

section \<open>The character registers\<close>

definition simple_getchar :: "'b board \<Rightarrow> (('b, 'f, 'd, 'k) sys, unit) state" where
  "simple_getchar bd = do {
     r \<leftarrow> on_mach (snoop_read6502MemoryLoc bd RP_GETCHAR);
     when_do (r = 0x00) (do {
       c \<leftarrow> on_qs readCPUQ;
       when_do (c \<noteq> 0x00) (on_mach (snoop_write6502MemoryLoc bd RP_GETCHAR c))
     })
   }"

definition simple_putchar :: "'b board \<Rightarrow> (('b, 'f, 'd, 'k) sys, unit) state" where
  "simple_putchar bd = do {
     full \<leftarrow> on_qs isFullVDUQ;
     when_do (\<not> full) (do {
       c \<leftarrow> on_mach (snoop_read6502MemoryLoc bd RP_PUTCHAR);
       when_do (c \<noteq> 0x00) (do {
         on_qs (writeVDUQ c);
         on_mach (snoop_write6502MemoryLoc bd RP_PUTCHAR 0x00)
       })
     })
   }"

definition taskSimpleIO :: "'b board \<Rightarrow> (('b, 'f, 'd, 'k) sys, unit) state" where
  "taskSimpleIO bd = do {
     c \<leftarrow> on_mach getMMUContext;
     when_do (c = 0) (do {
       simple_getchar bd;
       simple_putchar bd
     })
   }"

definition initSimpleIO :: "'b board \<Rightarrow> ('b machine, unit) state" where
  "initSimpleIO bd = do {
     snoop_write6502MemoryLoc bd RP_GETCHAR 0x00;
     snoop_write6502MemoryLoc bd RP_PUTCHAR 0x00
   }"

end
