(* ===== verification/Keyboard_Layout.thy ===== *)
theory Keyboard_Layout
  imports Scheduler
begin

text \<open>
  \<open>usb_keyboard_layout.cpp\<close>: the tables that give a character for a key of a USB keyboard and the
  modifier keys held with it. Entry 0 stands for no character.
\<close>

datatype keyboard_locale = USB_KEYBOARD_LOCALE_US | USB_KEYBOARD_LOCALE_DE | USB_KEYBOARD_LOCALE_CUSTOM

definition USB_KEYBOARD_LAYOUT_KEY_COUNT :: nat where "USB_KEYBOARD_LAYOUT_KEY_COUNT = 128"
definition KEYBOARD_MODIFIER_CTRL :: u8 where "KEYBOARD_MODIFIER_CTRL = 0x11"
definition KEYBOARD_MODIFIER_SHIFT :: u8 where "KEYBOARD_MODIFIER_SHIFT = 0x22"

record layout_table =
  layout_name :: string
  normal_keys :: "u8 list"
  shifted_keys :: "u8 list"
  ctrl_keys :: "u8 list"

definition g_usLayout :: layout_table where
  "g_usLayout = \<lparr>layout_name = ''US'',
     normal_keys = [
       0x00, 0x00, 0x00, 0x00, 0x61, 0x62, 0x63, 0x64, 0x65, 0x66, 0x67, 0x68, 0x69, 0x6A, 0x6B, 0x6C,
       0x6D, 0x6E, 0x6F, 0x70, 0x71, 0x72, 0x73, 0x74, 0x75, 0x76, 0x77, 0x78, 0x79, 0x7A, 0x31, 0x32,
       0x33, 0x34, 0x35, 0x36, 0x37, 0x38, 0x39, 0x30, 0x0D, 0x1B, 0x08, 0x09, 0x20, 0x2D, 0x3D, 0x5B,
       0x5D, 0x5C, 0x00, 0x3B, 0x27, 0x60, 0x2C, 0x2E, 0x2F, 0x00, 0x00, 0x00, 0x00, 0x00, 0x00, 0x00,
       0x00, 0x00, 0x00, 0x00, 0x00, 0x00, 0x00, 0x00, 0x00, 0x00, 0x00, 0x00, 0x00, 0x00, 0x00, 0x00,
       0x00, 0x00, 0x00, 0x00, 0x00, 0x00, 0x00, 0x00, 0x00, 0x00, 0x00, 0x00, 0x00, 0x00, 0x00, 0x00,
       0x00, 0x00, 0x00, 0x00, 0x00, 0x00, 0x00, 0x00, 0x00, 0x00, 0x00, 0x00, 0x00, 0x00, 0x00, 0x00,
       0x00, 0x00, 0x00, 0x00, 0x00, 0x00, 0x00, 0x00, 0x00, 0x00, 0x00, 0x00, 0x00, 0x00, 0x00, 0x00],
     shifted_keys = [
       0x00, 0x00, 0x00, 0x00, 0x41, 0x42, 0x43, 0x44, 0x45, 0x46, 0x47, 0x48, 0x49, 0x4A, 0x4B, 0x4C,
       0x4D, 0x4E, 0x4F, 0x50, 0x51, 0x52, 0x53, 0x54, 0x55, 0x56, 0x57, 0x58, 0x59, 0x5A, 0x21, 0x40,
       0x23, 0x24, 0x25, 0x5E, 0x26, 0x2A, 0x28, 0x29, 0x0D, 0x1B, 0x08, 0x09, 0x20, 0x5F, 0x2B, 0x7B,
       0x7D, 0x7C, 0x00, 0x3A, 0x22, 0x7E, 0x3C, 0x3E, 0x3F, 0x00, 0x00, 0x00, 0x00, 0x00, 0x00, 0x00,
       0x00, 0x00, 0x00, 0x00, 0x00, 0x00, 0x00, 0x00, 0x00, 0x00, 0x00, 0x00, 0x00, 0x00, 0x00, 0x00,
       0x00, 0x00, 0x00, 0x00, 0x00, 0x00, 0x00, 0x00, 0x00, 0x00, 0x00, 0x00, 0x00, 0x00, 0x00, 0x00,
       0x00, 0x00, 0x00, 0x00, 0x00, 0x00, 0x00, 0x00, 0x00, 0x00, 0x00, 0x00, 0x00, 0x00, 0x00, 0x00,
       0x00, 0x00, 0x00, 0x00, 0x00, 0x00, 0x00, 0x00, 0x00, 0x00, 0x00, 0x00, 0x00, 0x00, 0x00, 0x00],
     ctrl_keys = [
       0x00, 0x00, 0x00, 0x00, 0x01, 0x02, 0x03, 0x04, 0x05, 0x06, 0x07, 0x08, 0x09, 0x0A, 0x0B, 0x0C,
       0x0D, 0x0E, 0x0F, 0x10, 0x11, 0x12, 0x13, 0x14, 0x15, 0x16, 0x17, 0x18, 0x19, 0x1A, 0x00, 0x00,
       0x00, 0x00, 0x00, 0x1E, 0x00, 0x00, 0x00, 0x00, 0x0D, 0x1B, 0x08, 0x09, 0x00, 0x1F, 0x00, 0x1B,
       0x1D, 0x1C, 0x00, 0x00, 0x00, 0x00, 0x00, 0x00, 0x00, 0x00, 0x00, 0x00, 0x00, 0x00, 0x00, 0x00,
       0x00, 0x00, 0x00, 0x00, 0x00, 0x00, 0x00, 0x00, 0x00, 0x00, 0x00, 0x00, 0x00, 0x00, 0x00, 0x00,
       0x00, 0x00, 0x00, 0x00, 0x00, 0x00, 0x00, 0x00, 0x00, 0x00, 0x00, 0x00, 0x00, 0x00, 0x00, 0x00,
       0x00, 0x00, 0x00, 0x00, 0x00, 0x00, 0x00, 0x00, 0x00, 0x00, 0x00, 0x00, 0x00, 0x00, 0x00, 0x00,
       0x00, 0x00, 0x00, 0x00, 0x00, 0x00, 0x00, 0x00, 0x00, 0x00, 0x00, 0x00, 0x00, 0x00, 0x00, 0x00]\<rparr>"

definition g_deLayout :: layout_table where
  "g_deLayout = \<lparr>layout_name = ''DE'',
     normal_keys = [
       0x00, 0x00, 0x00, 0x00, 0x61, 0x62, 0x63, 0x64, 0x65, 0x66, 0x67, 0x68, 0x69, 0x6A, 0x6B, 0x6C,
       0x6D, 0x6E, 0x6F, 0x70, 0x71, 0x72, 0x73, 0x74, 0x75, 0x76, 0x77, 0x78, 0x7A, 0x79, 0x31, 0x32,
       0x33, 0x34, 0x35, 0x36, 0x37, 0x38, 0x39, 0x30, 0x0D, 0x1B, 0x08, 0x09, 0x20, 0x00, 0x00, 0x00,
       0x2B, 0x23, 0x23, 0x00, 0x00, 0x5E, 0x2C, 0x2E, 0x2D, 0x00, 0x00, 0x00, 0x00, 0x00, 0x00, 0x00,
       0x00, 0x00, 0x00, 0x00, 0x00, 0x00, 0x00, 0x00, 0x00, 0x00, 0x00, 0x00, 0x00, 0x00, 0x00, 0x00,
       0x00, 0x00, 0x00, 0x00, 0x00, 0x00, 0x00, 0x00, 0x00, 0x00, 0x00, 0x00, 0x00, 0x00, 0x00, 0x00,
       0x00, 0x00, 0x00, 0x00, 0x3C, 0x00, 0x00, 0x00, 0x00, 0x00, 0x00, 0x00, 0x00, 0x00, 0x00, 0x00,
       0x00, 0x00, 0x00, 0x00, 0x00, 0x00, 0x00, 0x00, 0x00, 0x00, 0x00, 0x00, 0x00, 0x00, 0x00, 0x00],
     shifted_keys = [
       0x00, 0x00, 0x00, 0x00, 0x41, 0x42, 0x43, 0x44, 0x45, 0x46, 0x47, 0x48, 0x49, 0x4A, 0x4B, 0x4C,
       0x4D, 0x4E, 0x4F, 0x50, 0x51, 0x52, 0x53, 0x54, 0x55, 0x56, 0x57, 0x58, 0x5A, 0x59, 0x21, 0x22,
       0x00, 0x24, 0x25, 0x26, 0x2F, 0x28, 0x29, 0x3D, 0x0D, 0x1B, 0x08, 0x09, 0x20, 0x3F, 0x00, 0x00,
       0x2A, 0x27, 0x27, 0x00, 0x00, 0x00, 0x3B, 0x3A, 0x5F, 0x00, 0x00, 0x00, 0x00, 0x00, 0x00, 0x00,
       0x00, 0x00, 0x00, 0x00, 0x00, 0x00, 0x00, 0x00, 0x00, 0x00, 0x00, 0x00, 0x00, 0x00, 0x00, 0x00,
       0x00, 0x00, 0x00, 0x00, 0x00, 0x00, 0x00, 0x00, 0x00, 0x00, 0x00, 0x00, 0x00, 0x00, 0x00, 0x00,
       0x00, 0x00, 0x00, 0x00, 0x3E, 0x00, 0x00, 0x00, 0x00, 0x00, 0x00, 0x00, 0x00, 0x00, 0x00, 0x00,
       0x00, 0x00, 0x00, 0x00, 0x00, 0x00, 0x00, 0x00, 0x00, 0x00, 0x00, 0x00, 0x00, 0x00, 0x00, 0x00],
     ctrl_keys = [
       0x00, 0x00, 0x00, 0x00, 0x01, 0x02, 0x03, 0x04, 0x05, 0x06, 0x07, 0x08, 0x09, 0x0A, 0x0B, 0x0C,
       0x0D, 0x0E, 0x0F, 0x10, 0x11, 0x12, 0x13, 0x14, 0x15, 0x16, 0x17, 0x18, 0x1A, 0x19, 0x00, 0x00,
       0x00, 0x00, 0x00, 0x1E, 0x00, 0x00, 0x00, 0x00, 0x0D, 0x1B, 0x08, 0x09, 0x00, 0x1F, 0x00, 0x1B,
       0x1D, 0x1C, 0x00, 0x00, 0x00, 0x00, 0x00, 0x00, 0x00, 0x00, 0x00, 0x00, 0x00, 0x00, 0x00, 0x00,
       0x00, 0x00, 0x00, 0x00, 0x00, 0x00, 0x00, 0x00, 0x00, 0x00, 0x00, 0x00, 0x00, 0x00, 0x00, 0x00,
       0x00, 0x00, 0x00, 0x00, 0x00, 0x00, 0x00, 0x00, 0x00, 0x00, 0x00, 0x00, 0x00, 0x00, 0x00, 0x00,
       0x00, 0x00, 0x00, 0x00, 0x00, 0x00, 0x00, 0x00, 0x00, 0x00, 0x00, 0x00, 0x00, 0x00, 0x00, 0x00,
       0x00, 0x00, 0x00, 0x00, 0x00, 0x00, 0x00, 0x00, 0x00, 0x00, 0x00, 0x00, 0x00, 0x00, 0x00, 0x00]\<rparr>"

text \<open>A pointer to a table: one of the two built-in ones or another.\<close>

datatype layout_ref = US_LAYOUT | DE_LAYOUT | OTHER_LAYOUT layout_table

fun table_of :: "layout_ref \<Rightarrow> layout_table" where
  "table_of US_LAYOUT = g_usLayout"
| "table_of DE_LAYOUT = g_deLayout"
| "table_of (OTHER_LAYOUT t) = t"

record layout_state =
  g_keyboardLocale :: keyboard_locale
  g_activeLayout :: "layout_ref option"

definition USB_KEYBOARD_DEFAULT_LOCALE :: keyboard_locale where
  "USB_KEYBOARD_DEFAULT_LOCALE = USB_KEYBOARD_LOCALE_US"

definition usb_keyboard_shift_active :: "u8 \<Rightarrow> bool" where
  "usb_keyboard_shift_active modifier \<longleftrightarrow> modifier AND KEYBOARD_MODIFIER_SHIFT \<noteq> 0"

definition usb_keyboard_ctrl_active :: "u8 \<Rightarrow> bool" where
  "usb_keyboard_ctrl_active modifier \<longleftrightarrow> modifier AND KEYBOARD_MODIFIER_CTRL \<noteq> 0"

fun usb_keyboard_builtin_layout_for_locale :: "keyboard_locale \<Rightarrow> layout_ref" where
  "usb_keyboard_builtin_layout_for_locale USB_KEYBOARD_LOCALE_DE = DE_LAYOUT"
| "usb_keyboard_builtin_layout_for_locale USB_KEYBOARD_LOCALE_US = US_LAYOUT"
| "usb_keyboard_builtin_layout_for_locale USB_KEYBOARD_LOCALE_CUSTOM = US_LAYOUT"

fun usb_keyboard_set_locale :: "keyboard_locale \<Rightarrow> layout_state \<Rightarrow> layout_state" where
  "usb_keyboard_set_locale USB_KEYBOARD_LOCALE_CUSTOM s =
     s\<lparr>g_keyboardLocale := USB_KEYBOARD_LOCALE_US, g_activeLayout := Some US_LAYOUT\<rparr>"
| "usb_keyboard_set_locale l s =
     s\<lparr>g_keyboardLocale := l, g_activeLayout := Some (usb_keyboard_builtin_layout_for_locale l)\<rparr>"

definition usb_keyboard_get_locale :: "layout_state \<Rightarrow> keyboard_locale" where
  "usb_keyboard_get_locale s = g_keyboardLocale s"

text \<open>The first use installs the layout of the locale.\<close>

definition usb_keyboard_active_layout :: "(layout_state, layout_ref) state" where
  "usb_keyboard_active_layout = do {
     l \<leftarrow> gets g_activeLayout;
     (case l of
        Some r \<Rightarrow> ret r
      | None \<Rightarrow> do {
          r \<leftarrow> gets (\<lambda>s. usb_keyboard_builtin_layout_for_locale (g_keyboardLocale s));
          modify (\<lambda>s. s\<lparr>g_activeLayout := Some r\<rparr>);
          ret r
        })
   }"

definition usb_keyboard_get_locale_name :: "(layout_state, string) state" where
  "usb_keyboard_get_locale_name = do { r \<leftarrow> usb_keyboard_active_layout; ret (layout_name (table_of r)) }"

definition usb_keyboard_get_active_layout_table :: "(layout_state, layout_ref) state" where
  "usb_keyboard_get_active_layout_table = usb_keyboard_active_layout"

definition usb_keyboard_set_active_layout_table :: "layout_ref option \<Rightarrow> (layout_state, bool) state" where
  "usb_keyboard_set_active_layout_table layout =
     (case layout of
        None \<Rightarrow> do { modify (usb_keyboard_set_locale USB_KEYBOARD_DEFAULT_LOCALE); ret False }
      | Some r \<Rightarrow> do {
          modify (\<lambda>s. s\<lparr>g_activeLayout := Some r,
            g_keyboardLocale := (case r of DE_LAYOUT \<Rightarrow> USB_KEYBOARD_LOCALE_DE | US_LAYOUT \<Rightarrow> USB_KEYBOARD_LOCALE_US
              | OTHER_LAYOUT t \<Rightarrow> USB_KEYBOARD_LOCALE_CUSTOM)\<rparr>);
          ret True
        })"

definition layout_char :: "layout_table \<Rightarrow> u8 \<Rightarrow> u8 \<Rightarrow> u8" where
  "layout_char layout keycode modifier =
     (if unat keycode \<ge> USB_KEYBOARD_LAYOUT_KEY_COUNT then 0
      else if keycode = 0x29 \<and> usb_keyboard_shift_active modifier then 0x7E
      else if usb_keyboard_ctrl_active modifier then ctrl_keys layout ! unat keycode
      else if usb_keyboard_shift_active modifier then shifted_keys layout ! unat keycode
      else normal_keys layout ! unat keycode)"

definition usb_keyboard_keycode_to_ascii_locale :: "u8 \<Rightarrow> u8 \<Rightarrow> (layout_state, u8) state" where
  "usb_keyboard_keycode_to_ascii_locale keycode modifier = do {
     r \<leftarrow> usb_keyboard_active_layout;
     ret (layout_char (table_of r) keycode modifier)
   }"

section \<open>What can be typed\<close>

lemma layout_char_range:
  assumes "length (normal_keys t) = 128" and "length (shifted_keys t) = 128" and "length (ctrl_keys t) = 128"
  shows "layout_char t k m \<in> {0, 0x7E} \<union> set (normal_keys t) \<union> set (shifted_keys t) \<union> set (ctrl_keys t)"
  using assms by (auto simp: layout_char_def USB_KEYBOARD_LAYOUT_KEY_COUNT_def)

lemma normal_typed:
  assumes "length (normal_keys t) = 128" and "c \<in> set (normal_keys t)"
  shows "\<exists>k. layout_char t k 0 = c"
proof -
  obtain i where i: "i < 128" "normal_keys t ! i = c" using assms by (auto simp: in_set_conv_nth)
  then have "layout_char t (of_nat i) 0 = c"
    by (simp add: layout_char_def usb_keyboard_shift_active_def usb_keyboard_ctrl_active_def unat_of_nat
        USB_KEYBOARD_LAYOUT_KEY_COUNT_def)
  then show ?thesis by blast
qed

lemma shifted_typed:
  assumes "length (shifted_keys t) = 128" and "c \<in> set (shifted_keys t)" and "shifted_keys t ! 0x29 \<noteq> c"
  shows "\<exists>k. layout_char t k 0x02 = c"
proof -
  obtain i where i: "i < 128" "shifted_keys t ! i = c" using assms by (auto simp: in_set_conv_nth)
  then have "i \<noteq> 0x29" using assms(3) by auto
  then have "(of_nat i :: u8) \<noteq> 0x29" using i(1) by (simp add: word_unat_eq_iff unat_of_nat)
  with i have "layout_char t (of_nat i) 0x02 = c"
    by (simp add: layout_char_def usb_keyboard_shift_active_def usb_keyboard_ctrl_active_def unat_of_nat
        USB_KEYBOARD_LAYOUT_KEY_COUNT_def KEYBOARD_MODIFIER_SHIFT_def KEYBOARD_MODIFIER_CTRL_def)
  then show ?thesis by blast
qed

definition DE_MISSING :: "u8 list" where
  "DE_MISSING = [0x40, 0x5B, 0x5C, 0x5D, 0x60, 0x7B, 0x7C, 0x7D]"

definition printable :: "u8 list" where
  "printable = [0x20, 0x21, 0x22, 0x23, 0x24, 0x25, 0x26, 0x27, 0x28, 0x29, 0x2A, 0x2B, 0x2C, 0x2D, 0x2E,
     0x2F, 0x30, 0x31, 0x32, 0x33, 0x34, 0x35, 0x36, 0x37, 0x38, 0x39, 0x3A, 0x3B, 0x3C, 0x3D,
     0x3E, 0x3F, 0x40, 0x41, 0x42, 0x43, 0x44, 0x45, 0x46, 0x47, 0x48, 0x49, 0x4A, 0x4B, 0x4C,
     0x4D, 0x4E, 0x4F, 0x50, 0x51, 0x52, 0x53, 0x54, 0x55, 0x56, 0x57, 0x58, 0x59, 0x5A, 0x5B,
     0x5C, 0x5D, 0x5E, 0x5F, 0x60, 0x61, 0x62, 0x63, 0x64, 0x65, 0x66, 0x67, 0x68, 0x69, 0x6A,
     0x6B, 0x6C, 0x6D, 0x6E, 0x6F, 0x70, 0x71, 0x72, 0x73, 0x74, 0x75, 0x76, 0x77, 0x78, 0x79,
     0x7A, 0x7B, 0x7C, 0x7D, 0x7E]"

lemma us_keys: "c \<in> set printable \<Longrightarrow> c \<in> set (normal_keys g_usLayout) \<or> c \<in> set (shifted_keys g_usLayout)"
  unfolding printable_def set_simps by (elim insertE emptyE) (simp_all only: g_usLayout_def layout_table.select_convs set_simps insert_iff simp_thms)


lemma de_keys: "c \<in> set printable \<Longrightarrow> c \<notin> set DE_MISSING \<Longrightarrow> c \<noteq> 0x7E \<Longrightarrow>
   c \<in> set (normal_keys g_deLayout) \<or> c \<in> set (shifted_keys g_deLayout)"
  unfolding printable_def set_simps
  by (elim insertE emptyE)
    (simp_all only: g_deLayout_def DE_MISSING_def layout_table.select_convs set_simps insert_iff simp_thms)

lemma de_none:
  "c \<in> set DE_MISSING \<Longrightarrow> c \<notin> {0, 0x7E} \<union> set (normal_keys g_deLayout) \<union> set (shifted_keys g_deLayout) \<union>
     set (ctrl_keys g_deLayout)"
  unfolding DE_MISSING_def set_simps
  by (elim insertE emptyE) (simp_all add: g_deLayout_def)

lemma layout_lengths:
  "length (normal_keys g_usLayout) = 128" "length (shifted_keys g_usLayout) = 128" "length (ctrl_keys g_usLayout) = 128"
  "length (normal_keys g_deLayout) = 128" "length (shifted_keys g_deLayout) = 128" "length (ctrl_keys g_deLayout) = 128"
  by (simp_all add: g_usLayout_def g_deLayout_def)

lemma escape_keys: "shifted_keys g_usLayout ! 0x29 = 0x1B" "shifted_keys g_deLayout ! 0x29 = 0x1B"
  by (simp_all add: g_usLayout_def g_deLayout_def)

lemma tilde_typed: "layout_char t 0x29 0x02 = 0x7E"
  by (simp add: layout_char_def usb_keyboard_shift_active_def KEYBOARD_MODIFIER_SHIFT_def USB_KEYBOARD_LAYOUT_KEY_COUNT_def)

text \<open>
  With the US layout every printable ASCII character can be typed; with the German layout all but
  the at sign, brackets, braces, backslash, backquote and bar, which no key gives under any modifiers.
\<close>

theorem layouts_type_ascii:
  "set printable \<subseteq> {c. \<exists>k m. layout_char g_usLayout k m = c} \<and>
   set printable \<inter> {c. \<exists>k m. layout_char g_deLayout k m = c} = set printable - set DE_MISSING"
proof -
  have esc: "0x1B \<notin> set printable" by (simp add: printable_def)
  have "\<exists>k m. layout_char g_usLayout k m = c" if "c \<in> set printable" for c
    using us_keys [OF that] normal_typed shifted_typed layout_lengths escape_keys(1) esc that by metis
  moreover have "\<exists>k m. layout_char g_deLayout k m = c" if "c \<in> set printable" "c \<notin> set DE_MISSING" for c
    using de_keys [OF that] normal_typed shifted_typed layout_lengths escape_keys(2) esc that(1) tilde_typed by metis
  moreover have "layout_char g_deLayout k m \<notin> set DE_MISSING" for k m
    using layout_char_range [OF layout_lengths(4-6)] de_none by blast
  ultimately show ?thesis by blast
qed

end
