(* ===== verification/Monitor.thy ===== *)
theory Monitor
  imports Debug_Neox Vdu Mailbox Rom Keyboard_Layout
begin

text \<open>
  \<open>monitor.cpp\<close>: the command line on \<open>Serial1\<close>, the console input of terminal mode and of the USB keyboard, and the
  commands. The parser of the command library is an argument; its answer is the name of a command of the table that
  \<open>initMonitor\<close> fills, with the values of its arguments, or \<open>None\<close> where it calls \<open>errorCallback\<close>. Of the text sent to
  \<open>Serial1\<close> only dumps, listings and the kernel's tables are recorded.
\<close>

section \<open>State\<close>

definition ICM_INPUT_BUFFER_SIZE :: nat where "ICM_INPUT_BUFFER_SIZE = 40"

record ('b, 'f, 'd, 'k) monitor =
  m_sys :: "('b, 'f, 'd, 'k) sys"
  m_vdu :: vdu
  m_keymap :: layout_state
  m_files :: lfs
  m_memory_config :: memory_config
  m_sys_config :: sys_config
  m_labels :: "disasm_label list"
  m_serial :: string
  gInMonitor :: bool
  gInterface :: u8
  gInputIndex :: nat
  gInputBuffer :: "u8 list"
  gInputOverflow :: bool

text \<open>What a command sees beside the state: FatFs, the clock, the conversions of \<open>atof\<close>, the lines typed at the boot
  menu, and the parser of the command library.\<close>

record ('f, 'd, 'k) monitor_env =
  env_fatfs :: "('f, 'd, 'k) fatfs"
  env_millis :: u32
  env_mhz :: "string \<Rightarrow> u32"
  env_interval :: "string \<Rightarrow> u32"
  env_menu_lines :: "string list"
  env_parse :: "u8 list \<Rightarrow> (string \<times> string list) option"

definition on_sys :: "(('b, 'f, 'd, 'k) sys, 'a) state \<Rightarrow> (('b, 'f, 'd, 'k) monitor, 'a) state" where
  "on_sys = zoom m_sys (\<lambda>s m. m\<lparr>m_sys := s\<rparr>)"

definition on_vdu :: "(vdu \<Rightarrow> vdu) \<Rightarrow> (('b, 'f, 'd, 'k) monitor, unit) state" where
  "on_vdu f = modify (\<lambda>m. m\<lparr>m_vdu := f (m_vdu m)\<rparr>)"

definition on_disasm :: "('b disasm, 'a) state \<Rightarrow> (('b, 'f, 'd, 'k) monitor, 'a) state" where
  "on_disasm = zoom (\<lambda>m. \<lparr>dis_machine = mach (m_sys m), dis_labels = m_labels m, serial_out = m_serial m\<rparr>)
     (\<lambda>d m. m\<lparr>m_sys := (m_sys m)\<lparr>mach := dis_machine d\<rparr>, m_labels := dis_labels d, m_serial := serial_out d\<rparr>)"

abbreviation on_bus :: "('b machine, 'a) state \<Rightarrow> (('b, 'f, 'd, 'k) monitor, 'a) state" where
  "on_bus p \<equiv> on_sys (on_mach p)"

section \<open>The command line\<close>

definition resetMonitorInput :: "(('b, 'f, 'd, 'k) monitor, unit) state" where
  "resetMonitorInput =
     modify (\<lambda>m. m\<lparr>gInputIndex := 0, gInputBuffer := (gInputBuffer m)[0 := 0], gInputOverflow := False\<rparr>)"

definition appendMonitorInput :: "int \<Rightarrow> (('b, 'f, 'd, 'k) monitor, bool) state" where
  "appendMonitorInput c = do {
     m \<leftarrow> gets id;
     if gInputOverflow m then ret False
     else if c < 0x20 \<or> c > 0x7E then ret False
     else if gInputIndex m \<ge> ICM_INPUT_BUFFER_SIZE - 1 then do {
       modify (\<lambda>m. m\<lparr>gInputIndex := 0, gInputBuffer := (gInputBuffer m)[0 := 0], gInputOverflow := True\<rparr>);
       ret False
     }
     else do {
       modify (\<lambda>m. m\<lparr>gInputBuffer := (gInputBuffer m)[gInputIndex m := word_of_int c], gInputIndex := gInputIndex m + 1\<rparr>);
       modify (\<lambda>m. m\<lparr>gInputBuffer := (gInputBuffer m)[gInputIndex m := 0]\<rparr>);
       ret True
     }
   }"

definition isValidProbeTerminalInput :: "int \<Rightarrow> bool" where
  "isValidProbeTerminalInput c \<longleftrightarrow> c > 0 \<and> c \<le> 0x7F"

definition returnToICM :: "(('b, 'f, 'd, 'k) monitor, unit) state" where
  "returnToICM = do {
     modify (\<lambda>m. m\<lparr>gInterface := 0\<rparr>);
     resetMonitorInput;
     modify (\<lambda>m. m\<lparr>gInMonitor := False\<rparr>)
   }"

section \<open>Console input\<close>

text \<open>The screen line up to its zero byte, until the queue is full.\<close>

fun queue_line :: "u8 list \<Rightarrow> (queues, bool) state" where
  "queue_line [] = ret True"
| "queue_line (c # cs) =
     (if c = 0 then ret True
      else do { ok \<leftarrow> writeCPUQ c; if ok then queue_line cs else ret False })"

definition monitorConsoleInput :: "u8 \<Rightarrow> bool \<Rightarrow> (('b, 'f, 'd, 'k) monitor, bool) state" where
  "monitorConsoleInput c allowReturnToICM =
     (if c = 0x03 then do { on_sys requestConsoleBreakIRQ; ret True }
      else if c = 0x1A \<and> allowReturnToICM then do { returnToICM; ret True }
      else do {
        ok \<leftarrow> (if c = 0x0A \<or> c = 0x0D then do {
            on_sys (on_qs (writeVDUQ 0x0D));
            screen \<leftarrow> gets (\<lambda>m. getAsScreenMode (m_vdu m));
            if screen then do {
              lBuffer \<leftarrow> gets (\<lambda>m. vduGetCurrentScreenline (m_vdu m));
              on_vdu vduRestoreCursor;
              queued \<leftarrow> on_sys (on_qs (queue_line lBuffer));
              if queued then on_sys (on_qs (writeCPUQ 0x0D)) else ret False
            } else ret True
          } else do { on_sys (on_qs (writeVDUQ c)); ret True });
        screen \<leftarrow> gets (\<lambda>m. getAsScreenMode (m_vdu m));
        ok \<leftarrow> (if ok \<and> \<not> screen then on_sys (on_qs (writeCPUQ c)) else ret ok);
        when_do (\<not> ok \<and> allowReturnToICM) returnToICM;
        ret ok
      })"

definition normalInput :: "u8 \<Rightarrow> (('b, 'f, 'd, 'k) monitor, unit) state" where
  "normalInput c = do { monitorConsoleInput c True; ret () }"

section \<open>Arguments\<close>

definition hex_value :: "char \<Rightarrow> nat option" where
  "hex_value c =
     (let n = code_of c in
      if 48 \<le> n \<and> n \<le> 57 then Some (n - 48)
      else if 65 \<le> n \<and> n \<le> 70 then Some (n - 65 + 10)
      else if 97 \<le> n \<and> n \<le> 102 then Some (n - 97 + 10)
      else None)"

text \<open>The accumulator is an \<open>int\<close> of 32 bits, here with wrap-around; only its low bits are used.\<close>

fun x2i_from :: "u32 \<Rightarrow> string \<Rightarrow> u32" where
  "x2i_from x [] = x"
| "x2i_from x (c # cs) = (case hex_value c of None \<Rightarrow> x | Some d \<Rightarrow> x2i_from (x * 16 + of_nat d) cs)"

definition x2i :: "string \<Rightarrow> u32" where
  "x2i s = x2i_from 0 s"

text \<open>\<open>String.trim\<close> and \<open>String.toInt\<close> of the Arduino library.\<close>

definition string_trim :: "string \<Rightarrow> string" where
  "string_trim s = rstrip is_space (dropWhile is_space s)"

definition ls_parse_u8 :: "string \<Rightarrow> u8 \<Rightarrow> u8 option" where
  "ls_parse_u8 arg max_value =
     (let arg = string_trim arg in
      if arg = [] then None
      else if \<not> list_all is_digit arg then None
      else let parsed = atoi arg in
        if parsed < 0 \<or> parsed > uint max_value then None else Some (word_of_int parsed))"

definition fsbulk_parse_u8 :: "string \<Rightarrow> u8 \<Rightarrow> u8 option" where
  "fsbulk_parse_u8 arg max_value =
     (let arg = string_trim arg in
      if arg = [] then None
      else if \<not> list_all is_digit arg then None
      else let parsed = atoi arg in
        if parsed < 0 \<or> parsed > uint max_value then None else Some (word_of_int parsed))"

text \<open>The value of an argument the parser has filled in.\<close>

definition arg_at :: "string list \<Rightarrow> nat \<Rightarrow> string" where
  "arg_at args i = (if i < length args then args ! i else [])"

section \<open>Commands for the processor\<close>

definition cmdResetCallback :: "'b board \<Rightarrow> ('f, 'd, 'k) fatfs \<Rightarrow> (('b, 'f, 'd, 'k) monitor, unit) state" where
  "cmdResetCallback bd ff = do {
     modify (\<lambda>m. m\<lparr>gInMonitor := False\<rparr>);
     on_bus (set6502State bd sRESET);
     on_sys (stopIRQTimer bd);
     on_bus (initCmdInterface bd);
     on_sys (initMailbox bd ff)
   }"

definition cmdGoCallback :: "'b board \<Rightarrow> (('b, 'f, 'd, 'k) monitor, unit) state" where
  "cmdGoCallback bd = do { on_bus (set6502State bd sRUNNING); ret () }"

definition cmdSCCallback :: "'b board \<Rightarrow> string \<Rightarrow> (('b, 'f, 'd, 'k) monitor, unit) state" where
  "cmdSCCallback bd arg = on_bus (singleCycle6502 bd (word_of_int (atoi arg)) True)"

definition cmdSSCallback :: "'b board \<Rightarrow> string \<Rightarrow> (('b, 'f, 'd, 'k) monitor, unit) state" where
  "cmdSSCallback bd arg =
     for_each [0..<unat (word_of_int (atoi arg) :: u8)] (\<lambda>s. do {
       on_bus (singleStep6502 bd False);
       a \<leftarrow> on_bus (readCPUBusAddress bd);
       on_disasm (disasm6502 bd a 1 False);
       ret ()
     })"

definition cmdStopCallback :: "'b board \<Rightarrow> (('b, 'f, 'd, 'k) monitor, unit) state" where
  "cmdStopCallback bd = do { on_bus (set6502State bd sHALTED); ret () }"

definition cmdClockCallback :: "u32 \<Rightarrow> (('b, 'f, 'd, 'k) monitor, unit) state" where
  "cmdClockCallback lFreq = when_do (lFreq > 0) (on_bus (set6502Clockfrequency lFreq))"

definition cmdIRQCallback :: "'b board \<Rightarrow> (('b, 'f, 'd, 'k) monitor, unit) state" where
  "cmdIRQCallback bd = do { on_sys (genIRQ6502 bd RP_SRC_TIMER); ret () }"

definition cmdTimerCallback :: "'b board \<Rightarrow> u32 \<Rightarrow> u32 \<Rightarrow> (('b, 'f, 'd, 'k) monitor, unit) state" where
  "cmdTimerCallback bd lInterval now =
     (if lInterval < 1 then on_sys (stopIRQTimer bd) else on_sys (startIRQTimer bd lInterval now))"

definition cmdMonitorCallback :: "'b board \<Rightarrow> (('b, 'f, 'd, 'k) monitor, unit) state" where
  "cmdMonitorCallback bd = do { on_sys (genIRQ6502 bd RP_SRC_MONITOR); ret () }"

definition cmdBootCallback :: "'b board \<Rightarrow> u32 \<Rightarrow> (('b, 'f, 'd, 'k) monitor, unit) state" where
  "cmdBootCallback bd now = do {
     on_bus (set6502State bd sRUNNING);
     on_bus (set6502Clockfrequency 8000000);
     on_sys (startIRQTimer bd 10 now)
   }"

definition cmdSysConfigCallback :: "'b board \<Rightarrow> string list \<Rightarrow> (('b, 'f, 'd, 'k) monitor, unit) state" where
  "cmdSysConfigCallback bd menu_lines = do {
     m \<leftarrow> gets id;
     t \<leftarrow> on_bus (bootSystemWithMenu bd (m_files m) (m_memory_config m) (m_sys_config m) menu_lines);
     modify (\<lambda>m. m\<lparr>m_sys_config := t\<rparr>)
   }"

section \<open>Commands for the memory\<close>

text \<open>The end of a dump: at least the row of the start, and the last address when that would wrap.\<close>

definition dump_end :: "u16 \<Rightarrow> u16 \<Rightarrow> u16" where
  "dump_end from to =
     (let lTo = (word_of_int (max (uint to) (uint from + 15)) :: u16) in
      if lTo \<le> from then 0xFFFF else lTo)"

definition cmdDumpCallback :: "'b board \<Rightarrow> string \<Rightarrow> string \<Rightarrow> (('b, 'f, 'd, 'k) monitor, unit) state" where
  "cmdDumpCallback bd arg1 arg2 =
     (let lFrom = ucast (x2i arg1); lTo = dump_end lFrom (ucast (x2i arg2)) in
      on_disasm (do {
        serial_print (''Dump '' @ hex4 lFrom @ '' - '' @ hex4 lTo @ [CHR 0x0A]);
        dumpMemory bd lFrom lTo
      }))"

definition cmdDisAsmCallback :: "'b board \<Rightarrow> string \<Rightarrow> string \<Rightarrow> (('b, 'f, 'd, 'k) monitor, unit) state" where
  "cmdDisAsmCallback bd arg1 arg2 =
     (let lFrom = ucast (x2i arg1); lLines = ucast (word_of_int (atoi arg2) :: u8) in
      on_disasm (do {
        serial_print (''Disassembly '' @ hex4 lFrom @ [CHR 0x0A]);
        disasm6502 bd lFrom lLines False;
        serial_print line_end
      }))"

text \<open>The loop counter has eight bits: with more than 255 arguments, more than a line can hold, the loop has no end.\<close>

definition cmdMemCallback ::
  "'b board \<Rightarrow> string list \<Rightarrow> ('b, 'f, 'd, 'k) monitor \<Rightarrow> ('b, 'f, 'd, 'k) monitor option" where
  "cmdMemCallback bd args m =
     (if length args < 2 then Some m
      else if length args > 255 then None
      else let start = (ucast (x2i (args ! 0)) :: u16); last = start + of_nat (length args - 1) - 1 in
        Some (exec (do {
          for_each [1..<length args] (\<lambda>i. on_bus (snoop_write6502Memory bd (start + of_nat (i - 1)) [ucast (x2i (args ! i))]));
          on_disasm (do {
            serial_print (''Dump '' @ hex4 start @ '' - '' @ hex4 last @ [CHR 0x0A]);
            dumpMemory bd start last
          })
        }) m))"

definition zero_memory :: "'b board \<Rightarrow> ('b machine, unit) state" where
  "zero_memory bd = do {
     save_state \<leftarrow> get6502State;
     set6502State bd sBOOT;
     fillMemory bd 0;
     set6502State bd save_state;
     ret ()
   }"

definition cmdZeroCallback :: "'b board \<Rightarrow> (('b, 'f, 'd, 'k) monitor, unit) state" where
  "cmdZeroCallback bd = on_bus (zero_memory bd)"

definition cmdInfoCallback :: "'b board \<Rightarrow> (('b, 'f, 'd, 'k) monitor, unit) state" where
  "cmdInfoCallback bd = on_disasm (dumpNEOX bd)"

section \<open>Commands for the page table\<close>

text \<open>\<open>dumpMMUPageMap\<close> of \<open>memory_config.cpp\<close>, with the entries read in place of the printed table.\<close>

definition dumpMMUPageMap :: "'b board \<Rightarrow> u8 \<Rightarrow> ('b machine, u8 list) state" where
  "dumpMMUPageMap bd c =
     (if unat c \<ge> MAX_MEMORY_CONTEXTS then ret []
      else map_each [0..<NUM_CONTEXT_PAGES] (\<lambda>page. readMMUPage bd c (of_nat page)))"

definition cmdMMUCallback :: "'b board \<Rightarrow> (('b, 'f, 'd, 'k) monitor, u8 list) state" where
  "cmdMMUCallback bd = on_bus (do {
     lContext \<leftarrow> getMMUContext;
     lState \<leftarrow> get6502State;
     set6502State bd sRPI;
     pages \<leftarrow> dumpMMUPageMap bd lContext;
     set6502State bd lState;
     ret pages
   })"

definition change_page :: "'b board \<Rightarrow> u8 \<Rightarrow> u8 \<Rightarrow> ('b machine, u8) state" where
  "change_page bd lIndex lPage = do {
     lContext \<leftarrow> getMMUContext;
     lState \<leftarrow> get6502State;
     set6502State bd sRPI;
     lPrevPage \<leftarrow> readMMUPage bd lContext lIndex;
     writeMMUPage bd lContext lIndex lPage;
     set6502State bd lState;
     ret lPrevPage
   }"

definition cmdPageCallback :: "'b board \<Rightarrow> string \<Rightarrow> string \<Rightarrow> (('b, 'f, 'd, 'k) monitor, u8) state" where
  "cmdPageCallback bd arg1 arg2 = on_bus (change_page bd (ucast (x2i arg1)) (ucast (x2i arg2)))"

section \<open>Terminal and keyboard\<close>

definition cmdCommandCallback :: "'b board \<Rightarrow> string \<Rightarrow> (('b, 'f, 'd, 'k) monitor, unit) state" where
  "cmdCommandCallback bd arg = do {
     m \<leftarrow> gets id;
     let lPID = (word_of_int (atoi arg) :: u8);
     if lPID > 0 \<and> gInMonitor m then ret ()
     else do {
       on_sys (setConsolePID bd lPID);
       when_do (lPID = 0) (modify (\<lambda>m. m\<lparr>gInMonitor := True\<rparr>));
       modify (\<lambda>m. m\<lparr>gInterface := gInterface m + 1\<rparr>)
     }
   }"

definition lower_char :: "char \<Rightarrow> char" where
  "lower_char c = (if 65 \<le> code_of c \<and> code_of c \<le> 90 then char_of (code_of c + 32) else c)"

text \<open>Showing the layout installs that of the locale at the first use.\<close>

definition cmdKeymapCallback :: "string \<Rightarrow> (('b, 'f, 'd, 'k) monitor, unit) state" where
  "cmdKeymapCallback arg =
     (let locale = map lower_char (string_trim arg);
          tell = modify (\<lambda>m. m\<lparr>m_keymap := exec usb_keyboard_get_locale_name (m_keymap m)\<rparr>);
          pick = (\<lambda>l. modify (\<lambda>m. m\<lparr>m_keymap := usb_keyboard_set_locale l (m_keymap m)\<rparr>))
      in if locale = [] \<or> locale = ''?'' then tell
         else if locale = ''us'' then do { pick USB_KEYBOARD_LOCALE_US; tell }
         else if locale = ''de'' then do { pick USB_KEYBOARD_LOCALE_DE; tell }
         else ret ())"

section \<open>Listing a directory\<close>

type_synonym ls_entry = "string \<times> u8 \<times> u32"

datatype ls_result = Ls_Bad_Device | Ls_Not_Ready | Ls_Open_Failed | Ls_Read_Failed "ls_entry list"
  | Ls_Close_Failed "ls_entry list" | Ls_Ok "ls_entry list"

text \<open>The loop over the entries; \<open>None\<close> is a directory without end.\<close>

partial_function (option) ls_loop ::
  "('f, 'd, 'k) fatfs \<Rightarrow> u8 \<Rightarrow> ls_entry list \<Rightarrow> ('f, 'd, 'k) fs \<Rightarrow> ((bool \<times> ls_entry list) \<times> ('f, 'd, 'k) fs) option" where
  "ls_loop ff h acc fs =
     (let fs' = exec (rp_fs_readdir ff h 13) fs in
      case val_of (rp_fs_readdir ff h 13) fs of
        Readdir_Error \<Rightarrow> Some ((False, acc), fs')
      | End_Of_Dir \<Rightarrow> Some ((True, acc), fs')
      | Entry name attr sz \<Rightarrow> ls_loop ff h (acc @ [(name, attr, sz)]) fs')"

definition ls_files ::
  "('f, 'd, 'k) fatfs \<Rightarrow> u8 \<Rightarrow> string \<Rightarrow> ('f, 'd, 'k) fs \<Rightarrow> (ls_result \<times> ('f, 'd, 'k) fs) option" where
  "ls_files ff device path fs =
     (let fs1 = exec (rp_fs_opendir_83 ff device path) fs in
      case val_of (rp_fs_opendir_83 ff device path) fs of
        None \<Rightarrow> Some (Ls_Open_Failed, fs1)
      | Some dir_handle \<Rightarrow>
          (let h = of_nat dir_handle in
           case ls_loop ff h [] fs1 of
             None \<Rightarrow> None
           | Some ((ok, listed), fs2) \<Rightarrow>
               (let closed = val_of (rp_fs_closedir ff h) fs2; fs3 = exec (rp_fs_closedir ff h) fs2 in
                Some (if \<not> ok then Ls_Read_Failed listed
                      else if \<not> closed then Ls_Close_Failed listed
                      else Ls_Ok listed, fs3))))"

definition cmdLSCallback ::
  "('f, 'd, 'k) fatfs \<Rightarrow> string \<Rightarrow> string \<Rightarrow> ('b, 'f, 'd, 'k) monitor \<Rightarrow> (ls_result \<times> ('b, 'f, 'd, 'k) monitor) option" where
  "cmdLSCallback ff arg1 arg2 m =
     (case ls_parse_u8 arg1 (USB_STORAGE_MAX_DEVICES - 1) of
        None \<Rightarrow> Some (Ls_Bad_Device, m)
      | Some device \<Rightarrow>
          (let path = string_trim arg2; path = (if path = [] then ''/'' else path) in
           if \<not> usb_storage_ready device (files (m_sys m)) then Some (Ls_Not_Ready, m)
           else map_option (\<lambda>(r, fs). (r, m\<lparr>m_sys := (m_sys m)\<lparr>files := fs\<rparr>\<rparr>)) (ls_files ff device path (files (m_sys m)))))"

section \<open>The test of bulk transfers\<close>

definition FSBULK_ARG_ADDR :: u16 where "FSBULK_ARG_ADDR = 0x0200"
definition FSBULK_PATH_ADDR :: u16 where "FSBULK_PATH_ADDR = 0x0210"
definition FSBULK_SRC_ADDR :: u16 where "FSBULK_SRC_ADDR = 0x0300"
definition FSBULK_DST_ADDR :: u16 where "FSBULK_DST_ADDR = 0x0380"
definition FSBULK_FILENAME :: string where "FSBULK_FILENAME = ''BULKTEST.TXT''"
definition FSBULK_TEXT :: string where "FSBULK_TEXT = ''NEOX V31 BULK TEST''"

text \<open>The saved state and context, or \<open>None\<close> for a context out of range.\<close>

definition fsbulk_begin_context :: "'b board \<Rightarrow> u8 \<Rightarrow> ('b machine, (sysstate \<times> u8) option) state" where
  "fsbulk_begin_context bd c =
     (if unat c \<ge> MAX_MEMORY_CONTEXTS then ret None
      else do {
        saved_state \<leftarrow> get6502State;
        set6502State bd sRPI;
        saved_context \<leftarrow> getMMUContext;
        when_do (saved_context \<noteq> c) (setMMUContext bd c);
        ret (Some (saved_state, saved_context))
      })"

definition fsbulk_end_context :: "'b board \<Rightarrow> sysstate \<Rightarrow> u8 \<Rightarrow> ('b machine, unit) state" where
  "fsbulk_end_context bd saved_state saved_context = do {
     now \<leftarrow> getMMUContext;
     when_do (now \<noteq> saved_context) (setMMUContext bd saved_context);
     set6502State bd saved_state;
     ret ()
   }"

definition fsbulk_write16 :: "'b board \<Rightarrow> u16 \<Rightarrow> u16 \<Rightarrow> ('b machine, unit) state" where
  "fsbulk_write16 bd addr v = do {
     write6502Memory bd addr (ucast (v AND 0xFF));
     write6502Memory bd (addr + 1) (ucast (drop_bit 8 v AND 0xFF))
   }"

definition fsbulk_prepare_context :: "'b board \<Rightarrow> u8 \<Rightarrow> u8 \<Rightarrow> bool \<Rightarrow> u16 \<Rightarrow> ('b machine, bool) state" where
  "fsbulk_prepare_context bd c device save_args byte_count = do {
     saved \<leftarrow> fsbulk_begin_context bd c;
     (case saved of
        None \<Rightarrow> ret False
      | Some (saved_state, saved_context) \<Rightarrow> do {
          for_each [0..<length FSBULK_FILENAME + 1]
            (\<lambda>i. write6502Memory bd (FSBULK_PATH_ADDR + of_nat i) (of_char ((FSBULK_FILENAME @ [CHR 0x00]) ! i)));
          for_each [0..<length FSBULK_TEXT] (\<lambda>i. write6502Memory bd (FSBULK_SRC_ADDR + of_nat i) (of_char (FSBULK_TEXT ! i)));
          for_each [0..<64] (\<lambda>i. write6502Memory bd (FSBULK_DST_ADDR + of_nat i) 0);
          fsbulk_write16 bd FSBULK_ARG_ADDR FSBULK_PATH_ADDR;
          fsbulk_write16 bd (FSBULK_ARG_ADDR + 2) (if save_args then FSBULK_SRC_ADDR else FSBULK_DST_ADDR);
          fsbulk_write16 bd (FSBULK_ARG_ADDR + 4) byte_count;
          write6502Memory bd (FSBULK_ARG_ADDR + 6) device;
          write6502Memory bd (FSBULK_ARG_ADDR + 7) 0;
          fsbulk_end_context bd saved_state saved_context;
          ret True
        })
   }"

text \<open>The loop over the characters stops at the first difference.\<close>

primrec compare_bytes :: "'b board \<Rightarrow> u16 \<Rightarrow> u8 list \<Rightarrow> ('b machine, bool) state" where
  "compare_bytes bd a [] = ret True"
| "compare_bytes bd a (v # vs) = do {
     x \<leftarrow> read6502Memory bd a;
     if x \<noteq> v then ret False else compare_bytes bd (a + 1) vs
   }" for bd :: "'b board"

definition fsbulk_compare_context :: "'b board \<Rightarrow> u8 \<Rightarrow> ('b machine, bool) state" where
  "fsbulk_compare_context bd c = do {
     saved \<leftarrow> fsbulk_begin_context bd c;
     (case saved of
        None \<Rightarrow> ret False
      | Some (saved_state, saved_context) \<Rightarrow> do {
          ok \<leftarrow> compare_bytes bd FSBULK_DST_ADDR (map of_char FSBULK_TEXT);
          fsbulk_end_context bd saved_state saved_context;
          ret ok
        })
   }"

definition fsbulk_prepare_mailbox :: "'b board \<Rightarrow> u8 \<Rightarrow> u8 \<Rightarrow> ('b machine, unit) state" where
  "fsbulk_prepare_mailbox bd operation c = do {
     rp_mailbox_clear_result_fields bd;
     snoop_write6502MemoryLoc bd RP_GROUP RP_GROUP_FS;
     snoop_write6502MemoryLoc bd RP_CMD RP_FS_CMD_EXEC;
     snoop_write6502MemoryLoc bd RP_STATE operation;
     snoop_write6502MemoryLoc bd RP_STATUS RP_BUSY;
     rp_write16 bd RP_ARG0L FSBULK_ARG_ADDR;
     snoop_write6502MemoryLoc bd RP_ARG1L 0;
     snoop_write6502MemoryLoc bd RP_ARG1H c;
     rp_write16 bd RP_ARG2L 0
   }"

definition fsbulk_print_result :: "'b board \<Rightarrow> ('b machine, bool) state" where
  "fsbulk_print_result bd = do {
     status \<leftarrow> snoop_read6502MemoryLoc bd RP_STATUS;
     err \<leftarrow> snoop_read6502MemoryLoc bd RP_ERR;
     res0 \<leftarrow> rp_read16 bd RP_RES0L;
     flags \<leftarrow> snoop_read6502MemoryLoc bd RP_FLAGS;
     ret (status = RP_DONE)
   }"

datatype fsbulk_result = Bulk_Bad_Device | Bulk_Bad_Context | Bulk_Not_Ready | Bulk_No_Save_Context | Bulk_Save_Failed
  | Bulk_No_Load_Context | Bulk_Load_Failed | Bulk_Differs | Bulk_Ok

text \<open>Every way out behind the first preparation sets \<open>RP_STATUS\<close> to idle.\<close>

definition bulk_done :: "'b board \<Rightarrow> fsbulk_result \<Rightarrow> (('b, 'f, 'd, 'k) sys, fsbulk_result) state" where
  "bulk_done bd r = do { on_mach (snoop_write6502MemoryLoc bd RP_STATUS RP_IDLE); ret r }"

definition fsbulk_run ::
  "'b board \<Rightarrow> ('f, 'd, 'k) fatfs \<Rightarrow> u8 \<Rightarrow> u8 \<Rightarrow> (('b, 'f, 'd, 'k) sys, fsbulk_result) state" where
  "fsbulk_run bd ff device c = do {
     prepared \<leftarrow> on_mach (fsbulk_prepare_context bd c device True (of_nat (length FSBULK_TEXT)));
     if \<not> prepared then ret Bulk_No_Save_Context
     else do {
       on_mach (fsbulk_prepare_mailbox bd RP_FS_OP_SAVE c);
       rp_fs_mailbox_handle_exec bd ff;
       saved \<leftarrow> on_mach (fsbulk_print_result bd);
       if \<not> saved then bulk_done bd Bulk_Save_Failed
       else do {
         prepared \<leftarrow> on_mach (fsbulk_prepare_context bd c device False 64);
         if \<not> prepared then bulk_done bd Bulk_No_Load_Context
         else do {
           on_mach (fsbulk_prepare_mailbox bd RP_FS_OP_LOAD c);
           rp_fs_mailbox_handle_exec bd ff;
           loaded \<leftarrow> on_mach (fsbulk_print_result bd);
           if \<not> loaded then bulk_done bd Bulk_Load_Failed
           else do {
             same \<leftarrow> on_mach (fsbulk_compare_context bd c);
             if \<not> same then bulk_done bd Bulk_Differs else bulk_done bd Bulk_Ok
           }
         }
       }
     }
   }"

definition cmdFSBulkCallback ::
  "'b board \<Rightarrow> ('f, 'd, 'k) fatfs \<Rightarrow> string \<Rightarrow> string \<Rightarrow> (('b, 'f, 'd, 'k) monitor, fsbulk_result) state" where
  "cmdFSBulkCallback bd ff arg1 arg2 =
     (case fsbulk_parse_u8 arg1 (USB_STORAGE_MAX_DEVICES - 1) of
        None \<Rightarrow> ret Bulk_Bad_Device
      | Some device \<Rightarrow> do {
          active \<leftarrow> on_bus getMMUContext;
          let context_arg = string_trim arg2;
          (case (if context_arg = [] then Some active
                 else fsbulk_parse_u8 context_arg (of_nat MAX_MEMORY_CONTEXTS - 1)) of
             None \<Rightarrow> ret Bulk_Bad_Context
           | Some c \<Rightarrow> do {
               ready \<leftarrow> gets (\<lambda>m. usb_storage_ready device (files (m_sys m)));
               if \<not> ready then ret Bulk_Not_Ready else on_sys (fsbulk_run bd ff device c)
             })
        })"

section \<open>The test reads\<close>

text \<open>\<open>rp_fs_test_read_file\<close> of \<open>rp_fs.cpp\<close>: the bytes read up to the end of the file, \<open>Some None\<close> after a failed read, and
  \<open>None\<close> for a file without end. The preview and the checksum are only printed.\<close>

partial_function (option) test_read_loop ::
  "('f, 'd, 'k) fatfs \<Rightarrow> u8 \<Rightarrow> u32 \<Rightarrow> ('f, 'd, 'k) fs \<Rightarrow> (u32 option \<times> ('f, 'd, 'k) fs) option" where
  "test_read_loop ff h size_read fs =
     (let fs' = exec (rp_fs_read ff h 256) fs in
      case val_of (rp_fs_read ff h 256) fs of
        None \<Rightarrow> Some (None, fs')
      | Some data \<Rightarrow>
          if data = [] then Some (Some size_read, fs')
          else test_read_loop ff h (size_read + of_nat (length data)) fs')"

definition rp_fs_test_read_file ::
  "('f, 'd, 'k) fatfs \<Rightarrow> u8 \<Rightarrow> string \<Rightarrow> ('f, 'd, 'k) fs \<Rightarrow> (bool \<times> ('f, 'd, 'k) fs) option" where
  "rp_fs_test_read_file ff device filename fs =
     (let fs1 = exec (rp_fs_open_readonly_83 ff device filename) fs in
      case val_of (rp_fs_open_readonly_83 ff device filename) fs of
        None \<Rightarrow> Some (False, fs1)
      | Some handle \<Rightarrow>
          (case test_read_loop ff (of_nat handle) 0 fs1 of
             None \<Rightarrow> None
           | Some (None, fs2) \<Rightarrow> Some (False, exec (rp_fs_close ff (of_nat handle)) fs2)
           | Some (Some size_read, fs2) \<Rightarrow>
               Some (size_read = rp_fs_size ff (of_nat handle) fs2, exec (rp_fs_close ff (of_nat handle)) fs2)))"

definition rp_fs_test_read_files ::
  "('f, 'd, 'k) fatfs \<Rightarrow> u8 \<Rightarrow> ('f, 'd, 'k) fs \<Rightarrow> ('f, 'd, 'k) fs option" where
  "rp_fs_test_read_files ff device fs =
     (if \<not> rp_fs_valid_device device then Some fs
      else let mounted = (usb_fatfs_mounted device fs \<or> val_of (usb_fatfs_mount ff device) fs);
               fs = (if usb_fatfs_mounted device fs then fs else exec (usb_fatfs_mount ff device) fs)
        in if \<not> mounted then Some fs
           else case rp_fs_test_read_file ff device ''TEST.TXT'' fs of
               None \<Rightarrow> None
             | Some (_, fs) \<Rightarrow> map_option snd (rp_fs_test_read_file ff device ''BIG.TXT'' fs))"

text \<open>A missing device argument is device 0.\<close>

definition cmdFSTestCallback ::
  "('f, 'd, 'k) fatfs \<Rightarrow> string \<Rightarrow> ('b, 'f, 'd, 'k) monitor \<Rightarrow> ('b, 'f, 'd, 'k) monitor option" where
  "cmdFSTestCallback ff arg m =
     (let device_arg = string_trim arg;
          parsed = atoi device_arg;
          device = (if device_arg = [] then 0 else word_of_int parsed)
      in if device_arg \<noteq> [] \<and>
            (\<not> list_all is_digit device_arg \<or> parsed < 0 \<or> parsed \<ge> uint USB_STORAGE_MAX_DEVICES) then Some m
         else if \<not> usb_storage_ready device (files (m_sys m)) then Some m
         else map_option (\<lambda>fs. m\<lparr>m_sys := (m_sys m)\<lparr>files := fs\<rparr>\<rparr>) (rp_fs_test_read_files ff device (files (m_sys m))))"

section \<open>The command table\<close>

text \<open>The patterns of \<open>initMonitor\<close> with the callback of each. \<open>b/oot\<close> stands for \<open>b\<close> and \<open>boot\<close>. The commands that only
  print, \<open>h/elp\<close>, \<open>st/at\<close> and \<open>usbdisks\<close>, leave the state as it is, and so does a name outside the table. \<open>None\<close> is a
  command that does not end.\<close>

definition run_command ::
  "'b board \<Rightarrow> ('f, 'd, 'k) monitor_env \<Rightarrow> string \<Rightarrow> string list \<Rightarrow>
   ('b, 'f, 'd, 'k) monitor \<Rightarrow> ('b, 'f, 'd, 'k) monitor option" where
  "run_command bd env name args m =
     (if name = ''b/oot'' then Some (exec (cmdBootCallback bd (env_millis env)) m)
      else if name = ''clock'' then Some (exec (cmdClockCallback (env_mhz env (arg_at args 0))) m)
      else if name = ''ctx'' then Some (exec (cmdMMUCallback bd) m)
      else if name = ''d/is'' then Some (exec (cmdDisAsmCallback bd (arg_at args 0) (arg_at args 1)) m)
      else if name = ''g/o'' then Some (exec (cmdGoCallback bd) m)
      else if name = ''h/elp'' then Some m
      else if name = ''fstest'' then cmdFSTestCallback (env_fatfs env) (arg_at args 0) m
      else if name = ''fsbulk'' then Some (exec (cmdFSBulkCallback bd (env_fatfs env) (arg_at args 0) (arg_at args 1)) m)
      else if name = ''irq'' then Some (exec (cmdIRQCallback bd) m)
      else if name = ''keymap'' then Some (exec (cmdKeymapCallback (arg_at args 0)) m)
      else if name = ''ls'' then map_option snd (cmdLSCallback (env_fatfs env) (arg_at args 0) (arg_at args 1) m)
      else if name = ''usbdisks'' then Some m
      else if name = ''>'' then cmdMemCallback bd args m
      else if name = ''m/em'' then Some (exec (cmdDumpCallback bd (arg_at args 0) (arg_at args 1)) m)
      else if name = ''mon/itor'' then Some (exec (cmdMonitorCallback bd) m)
      else if name = ''ps'' then Some (exec (cmdInfoCallback bd) m)
      else if name = ''r/eset'' then Some (exec (cmdResetCallback bd (env_fatfs env)) m)
      else if name = ''sc'' then Some (exec (cmdSCCallback bd (arg_at args 0)) m)
      else if name = ''ss'' then Some (exec (cmdSSCallback bd (arg_at args 0)) m)
      else if name = ''st/at'' then Some m
      else if name = ''syscfg'' then Some (exec (cmdSysConfigCallback bd (env_menu_lines env)) m)
      else if name = ''s/top'' then Some (exec (cmdStopCallback bd) m)
      else if name = ''t/erm'' then Some (exec (cmdCommandCallback bd (arg_at args 0)) m)
      else if name = ''timer'' then Some (exec (cmdTimerCallback bd (env_interval env (arg_at args 0)) (env_millis env)) m)
      else if name = ''page'' then Some (exec (cmdPageCallback bd (arg_at args 0) (arg_at args 1)) m)
      else if name = ''zero'' then Some (exec (cmdZeroCallback bd) m)
      else Some m)"

text \<open>\<open>gCli.parse\<close> of the line in the buffer, up to its zero byte.\<close>

definition input_line :: "('b, 'f, 'd, 'k) monitor \<Rightarrow> u8 list" where
  "input_line m = takeWhile (\<lambda>c. c \<noteq> 0) (gInputBuffer m)"

definition parse_line ::
  "'b board \<Rightarrow> ('f, 'd, 'k) monitor_env \<Rightarrow> u8 list \<Rightarrow> ('b, 'f, 'd, 'k) monitor \<Rightarrow> ('b, 'f, 'd, 'k) monitor option" where
  "parse_line bd env line m =
     (case env_parse env line of None \<Rightarrow> Some m | Some (name, args) \<Rightarrow> run_command bd env name args m)"

section \<open>The task\<close>

text \<open>\<open>c\<close> is the value \<open>Serial1.read\<close> gives, \<open>None\<close> when nothing is available.\<close>

definition taskICMonitor ::
  "'b board \<Rightarrow> ('f, 'd, 'k) monitor_env \<Rightarrow> int option \<Rightarrow>
   ('b, 'f, 'd, 'k) monitor \<Rightarrow> ('b, 'f, 'd, 'k) monitor option" where
  "taskICMonitor bd env rx m =
     (case rx of None \<Rightarrow> Some m
      | Some c \<Rightarrow>
          if gInterface m \<noteq> 0 then
            (if isValidProbeTerminalInput c then Some (exec (normalInput (word_of_int c)) m) else Some m)
          else if c = -1 then Some m
          else if c = 0x08 \<or> c = 127 then
            (if gInputIndex m \<ge> 1
             then Some (m\<lparr>gInputIndex := gInputIndex m - 1, gInputBuffer := (gInputBuffer m)[gInputIndex m - 1 := 0]\<rparr>)
             else Some m)
          else if c = 0x0D then Some m
          else if c = 0x0A then
            (case (if \<not> gInputOverflow m then parse_line bd env (input_line m) m else Some m) of
               None \<Rightarrow> None
             | Some m' \<Rightarrow> Some (exec resetMonitorInput m'))
          else Some (exec (appendMonitorInput c) m))"

end
