(* ===== verification/Fs_Mailbox_Spec.thy ===== *)
theory Fs_Mailbox_Spec
  imports Fs_Mailbox Scheduler_Spec
begin

text \<open>
  Every file request is answered: whatever the operation, the arguments, the paths in the caller's
  memory and the answers of FatFs, the handler completes the request block, clears the doorbell,
  gives the bus back as it found it and keeps the invariants of the file layer. And what it
  writes into the memory of a caller stays in the private window of that caller's context.
\<close>

section \<open>File operations keep the invariant\<close>

lemma storage_ok_openers:
  assumes "storage_ok s"
  shows "storage_ok (exec (rp_fs_open_readonly_83 ff d p) s)"
    and "storage_ok (exec (rp_fs_open_write_truncate_83 ff d p) s)"
    and "storage_ok (exec (rp_fs_open_write_existing_83 ff d p) s)"
    and "storage_ok (exec (rp_fs_open_rw_existing_83 ff d p) s)"
    and "storage_ok (exec (rp_fs_open_rw_create_83 ff d p) s)"
  using storage_ok_open [OF assms]
  by (simp_all add: rp_fs_open_readonly_83_def rp_fs_open_write_truncate_83_def
      rp_fs_open_write_existing_83_def rp_fs_open_rw_existing_83_def rp_fs_open_rw_create_83_def)

lemma storage_ok_if:
  "storage_ok (exec p s) \<Longrightarrow> storage_ok (exec q s) \<Longrightarrow> storage_ok (exec (if b then p else q) s)"
  by simp

lemma storage_ok_ret: "storage_ok s \<Longrightarrow> storage_ok (exec (ret x) s)"
  by simp

lemmas storage_ops = storage_ok_openers storage_ok_close storage_ok_transfer storage_ok_by_name
  storage_ok_opendir storage_ok_readdir storage_ok_close_all storage_ok_if storage_ok_ret

section \<open>Answers\<close>

text \<open>A handler that always answers.\<close>

definition answers ::
  "(('b, 'f, 'd, 'k) sys \<Rightarrow> bool) \<Rightarrow> ('b \<Rightarrow> ref) \<Rightarrow> (('b, 'f, 'd, 'k) sys, mailbox_state) state \<Rightarrow> bool" where
  "answers I view p \<longleftrightarrow> establishes I (\<lambda>v s. v = mbDONE \<and> answered view s) p"

context mailbox_bus
begin

abbreviation "ans m0 \<equiv> answers (up m0) view"

lemma ans_final:
  assumes "establishes (up m0) (\<lambda>_. answered view) p"
  shows "ans m0 (do { p; ret mbDONE })" and "ans m0 (do { p; bump c; ret mbDONE })"
  using assms by (simp_all add: answers_def establishes_def)

lemma est_fs_done:
  "establishes (up m0) (\<lambda>_. answered view) (rp_fs_mb_set_done bd r f)"
  "establishes (up m0) (\<lambda>_. answered view) (rp_fs_mb_set_done32 bd r32 f)"
  "establishes (up m0) (\<lambda>_. answered view) (rp_fs_mb_set_error bd e partial)"
  unfolding rp_fs_mb_set_done_def rp_fs_mb_set_done32_def rp_fs_mb_set_error_def
  by (rule est_set_done est_set_done32 establishes_bind [OF pres_globals(4)] est_set_error)+

lemmas ans_done = ans_final [OF est_fs_done(1)] ans_final [OF est_fs_done(2)] ans_final [OF est_fs_done(3)]

lemma ans_bind: "preserves (up m0) p \<Longrightarrow> (\<And>x. ans m0 (k x)) \<Longrightarrow> ans m0 (State_Monad.bind p k)"
  unfolding answers_def by (rule establishes_bind)

lemma ans_cases:
  "ans m0 p \<Longrightarrow> ans m0 q \<Longrightarrow> ans m0 (if b then p else q)"
  "ans m0 p \<Longrightarrow> (\<And>x. ans m0 (k x)) \<Longrightarrow> ans m0 (case z of None \<Rightarrow> p | Some x \<Rightarrow> k x)"
  "(\<And>x y. ans m0 (h x y)) \<Longrightarrow> ans m0 (case w of (x, y) \<Rightarrow> h x y)"
  "ans m0 (g y) \<Longrightarrow> ans m0 (let x = y in g x)"
  unfolding answers_def by (rule est; assumption)+

lemma ans_readdir:
  "(\<And>n a z. ans m0 (k n a z)) \<Longrightarrow> ans m0 p \<Longrightarrow> ans m0 q \<Longrightarrow>
   ans m0 (case r of Entry n a z \<Rightarrow> k n a z | End_Of_Dir \<Rightarrow> p | Readdir_Error \<Rightarrow> q)"
  by (cases r) simp_all

lemma ans_refuse: "ans m0 (refuse bd e)"
  unfolding refuse_def by (rule ans_done)

lemma ans_refuse_op: "ans m0 (refuse_op bd d)"
  unfolding refuse_op_def by (rule ans_bind preserves_gets ans_refuse)+

lemma ans_with_args:
  assumes "port_ok m0" and "\<And>raw. ans m0 (body raw)"
  shows "ans m0 (with_args bd c a n check body)"
  unfolding with_args_def
  by (rule ans_bind ans_cases pres_context_blocks preserves_gets ans_refuse assms)+

lemma pres_resolve_arg_path [pres]:
  assumes "port_ok m0"
  shows "preserves (up m0) (rp_fs_mb_resolve_arg_path bd pid c ptr n d)"
  unfolding rp_fs_mb_resolve_arg_path_def
  by (intro pres preserves_bind preserves_option preserves_ret preserves_gets pres_context_blocks assms)

lemma ans_with_path:
  assumes "port_ok m0" and "\<And>path. ans m0 (body path)"
  shows "ans m0 (with_path bd pid c ptr n d body)"
  unfolding with_path_def
  by (rule ans_bind ans_cases pres_resolve_arg_path ans_refuse assms)+

lemma pres_in_bulk: "preserves (sys_in view m0 c) (bulk_loop bd ff operation h mem_ptr n i)"
proof (induction "n - i" arbitrary: i rule: less_induct)
  case less
  have step: "preserves (sys_in view m0 c) (bulk_loop bd ff operation h mem_ptr n (i + k))"
    if "i < n" and "0 < k" for k
    using that by (intro less) simp
  have load: "preserves (sys_in view m0 c) (if length bytes = 0 then ret (i, True) else do {
      on_mach (rp_fs_mb_write_context_bytes bd (mem_ptr + of_nat i) bytes);
      bulk_loop bd ff operation h mem_ptr n (i + length bytes) })" if "i < n" for bytes
    using step [OF that] by (cases "length bytes = 0") (auto intro!: pres simp del: length_0_conv)
  have save: "preserves (sys_in view m0 c) (if cnt \<noteq> chunk then ret (i + cnt, True)
      else bulk_loop bd ff operation h mem_ptr n (i + cnt))" if "i < n" and "0 < chunk" for cnt chunk
    using step [OF that(1)] that(2) by (cases "cnt = chunk") (auto intro!: pres)
  show ?case
  proof (cases "i < n")
    case False
    then show ?thesis by (simp add: bulk_loop.simps [of bd] preserves_ret)
  next
    case True
    then have chunk: "0 < min RP_FS_MAILBOX_CHUNK_SIZE (n - i)" by (simp add: RP_FS_MAILBOX_CHUNK_SIZE_def)
    show ?thesis
      unfolding bulk_loop.simps [of bd ff operation h mem_ptr n i] using True
      by (simp only: Let_def not_True_eq_False if_False)
        (rule load save True chunk preserves_if preserves_bind preserves_option preserves_ret pres_in_files
          pres_in_bytes storage_ops | assumption)+
  qed
qed

lemma ans_access:
  assumes "port_ok m0" and "ans m0 e" and "preserves (sys_in view m0 c) body" and "\<And>x. ans m0 (k x)"
  shows "ans m0 (do {
      started \<leftarrow> on_mach (rp_fs_mb_begin_context_access bd c);
      case started of None \<Rightarrow> e
      | Some acc \<Rightarrow> do { x \<leftarrow> body; on_mach (rp_fs_mb_end_context_access bd acc); k x } })"
  using assms unfolding answers_def by (rule est_access)

lemmas ans_steps = ans_done ans_refuse ans_refuse_op ans_access ans_with_args ans_with_path ans_cases
  ans_readdir ans_bind

lemma pres_stored: "(\<And>t. storage_ok t \<Longrightarrow> storage_ok (exec p t)) \<Longrightarrow> preserves (up m0) (on_files p)"
  by (rule pres_files)

lemma ans_exec:
  assumes "port_ok m0"
  shows "ans m0 (rp_fs_mb_exec_open bd ff pid c a)"
    and "ans m0 (rp_fs_mb_exec_single_path bd ff op pid c a)"
    and "ans m0 (rp_fs_mb_exec_rename bd ff pid c a)"
    and "ans m0 (rp_fs_mb_exec_opendir bd ff pid c a)"
    and "ans m0 (rp_fs_mb_exec_chdir bd ff pid c a)"
    and "ans m0 (rp_fs_mb_exec_getcwd bd pid c a)"
    and "ans m0 (rp_fs_mb_exec_bulk bd ff op pid c a)"
  unfolding rp_fs_mb_exec_open_def rp_fs_mb_exec_single_path_def rp_fs_mb_exec_rename_def
    rp_fs_mb_exec_opendir_def rp_fs_mb_exec_chdir_def rp_fs_mb_exec_getcwd_def rp_fs_mb_exec_bulk_def
  by (rule ans_steps assms preserves_gets pres_globals preserves_ret preserves_if pres_stored pres_cwds
      pres_context_blocks storage_ops cwds_ok_set pres_in_bulk | assumption)+

lemmas ans_all_steps = ans_steps preserves_gets pres_globals preserves_ret preserves_if pres_stored
  pres_context_blocks storage_ops

lemma ans_exec_handle:
  assumes "port_ok m0"
  shows "ans m0 (rp_fs_mb_exec_read bd ff c a h)"
    and "ans m0 (rp_fs_mb_exec_write bd ff c a h)"
    and "ans m0 (rp_fs_mb_exec_seek bd ff c a h)"
    and "ans m0 (rp_fs_mb_exec_tell bd ff c a h)"
    and "ans m0 (rp_fs_mb_exec_readdir bd ff c a h)"
    and "ans m0 (rp_fs_mb_exec_status bd)"
    and "ans m0 (rp_fs_mb_exec_close bd ff h)"
    and "ans m0 (rp_fs_mb_exec_closedir bd ff h)"
  unfolding rp_fs_mb_exec_read_def rp_fs_mb_exec_write_def rp_fs_mb_exec_seek_def rp_fs_mb_exec_tell_def
    rp_fs_mb_exec_readdir_def rp_fs_mb_exec_status_def rp_fs_mb_exec_close_def rp_fs_mb_exec_closedir_def
  by (rule ans_all_steps assms | assumption)+

lemma ans_cwd_request:
  assumes "\<And>x y t. cwds_ok t \<Longrightarrow> cwds_ok (snd (f x y t))"
  shows "ans m0 (rp_fs_cwd_request bd f)"
proof -
  have d: "ans m0 (do { (if ok then rp_fs_mb_set_done bd r fl else rp_fs_mb_set_error bd e q); ret mbDONE })"
    for ok r fl e q
    by (cases ok) (simp_all add: ans_done)
  show ?thesis
    unfolding rp_fs_cwd_request_def by (rule d ans_bind pres_read pres_cwds assms | assumption)+
qed

lemma ans_operation:
  fixes ff :: "('f, 'd, 'k) fatfs"
  assumes "port_ok m0"
  shows "ans m0 (exec_operation bd ff op pid c)"
proof -
  have ptr: "ans m0 (with_args_ptr bd h)" if "\<And>p. ans m0 (h p)" for h :: "u16 \<Rightarrow> (('b, 'f, 'd, 'k) sys, mailbox_state) state"
    unfolding with_args_ptr_def by (rule ans_bind pres_read16 that)+
  have hnd: "ans m0 (with_handle bd h)" if "\<And>p. ans m0 (h p)" for h :: "u8 \<Rightarrow> (('b, 'f, 'd, 'k) sys, mailbox_state) state"
    unfolding with_handle_def by (rule ans_bind pres_read that)+
  show ?thesis
    unfolding exec_operation_def
    by (rule ans_cases(1) ptr hnd ans_exec ans_exec_handle ans_cwd_request ans_refuse assms cwds_ok_init_root
        cwds_ok_clone | assumption)+
qed

end

section \<open>The scheduler's globals\<close>

text \<open>No handler touches them; only the request for the completion interrupt does.\<close>

lemma pres_sch:
  "preserves (\<lambda>s. sch s = k) (on_mach p)"
  "preserves (\<lambda>s. sch s = k) (on_files q)"
  "preserves (\<lambda>s. sch s = k) (on_cwds t)"
  "preserves (\<lambda>s. sch s = k) (on_mbx f)"
  "preserves (\<lambda>s. sch s = k) (bump c)"
  by (simp_all add: preserves_def)

lemmas sch_steps = pres_sch preserves_ret preserves_gets preserves_if preserves_option preserves_bind preserves_let

lemma sch_prod: "(\<And>x y. preserves I (h x y)) \<Longrightarrow> preserves I (case w of (x, y) \<Rightarrow> h x y)"
  by (cases w) simp

lemma sch_readdir:
  "(\<And>n a z. preserves I (k n a z)) \<Longrightarrow> preserves I p \<Longrightarrow> preserves I q \<Longrightarrow>
   preserves I (case r of Entry n a z \<Rightarrow> k n a z | End_Of_Dir \<Rightarrow> p | Readdir_Error \<Rightarrow> q)"
  by (cases r) simp_all

lemma sch_finish:
  "preserves (\<lambda>s. sch s = k) (rp_fs_mb_set_done bd r f)"
  "preserves (\<lambda>s. sch s = k) (rp_fs_mb_set_done32 bd r32 f)"
  "preserves (\<lambda>s. sch s = k) (rp_fs_mb_set_error bd e partial)"
  "preserves (\<lambda>s. sch s = k) (refuse bd e)"
  "preserves (\<lambda>s. sch s = k) (refuse_op bd d)"
  unfolding rp_fs_mb_set_done_def rp_fs_mb_set_done32_def rp_fs_mb_set_error_def refuse_def refuse_op_def
    rp_mailbox_set_error_def
  by (rule sch_steps)+

lemma sch_with:
  assumes "\<And>x. preserves (\<lambda>s. sch s = k) (h x)"
  shows "preserves (\<lambda>s. sch s = k) (with_args_ptr bd h)"
  unfolding with_args_ptr_def by (rule sch_steps assms)+

lemma sch_with_handle:
  assumes "\<And>x. preserves (\<lambda>s. sch s = k) (h x)"
  shows "preserves (\<lambda>s. sch s = k) (with_handle bd h)"
  unfolding with_handle_def by (rule sch_steps assms)+

lemma sch_with_args:
  assumes "\<And>x. preserves (\<lambda>s. sch s = k) (h x)"
  shows "preserves (\<lambda>s. sch s = k) (with_args bd c a n ck h)"
  unfolding with_args_def by (rule sch_finish sch_steps assms)+

lemma sch_with_path:
  assumes "\<And>x. preserves (\<lambda>s. sch s = k) (h x)"
  shows "preserves (\<lambda>s. sch s = k) (with_path bd pid c p n d h)"
  unfolding with_path_def rp_fs_mb_resolve_arg_path_def by (rule sch_finish sch_steps assms)+

lemma sch_bulk_loop: "preserves (\<lambda>s. sch s = k) (bulk_loop bd ff operation h mem_ptr n i)"
proof (induction bd ff operation h mem_ptr n i rule: bulk_loop.induct)
  case (1 bd ff operation h mem_ptr n i)
  show ?case
  proof (cases "i < n")
    case True
    show ?thesis
      unfolding bulk_loop.simps [of bd ff operation h mem_ptr n i] using True 1
      by (auto simp: Let_def intro!: preserves_bind pres_sch preserves_ret split: option.split)
  qed (simp add: bulk_loop.simps preserves_ret)
qed

lemma sch_operation: "preserves (\<lambda>s. sch s = k) (exec_operation bd ff op pid c)"
  unfolding exec_operation_def rp_fs_mb_exec_open_def rp_fs_mb_exec_single_path_def rp_fs_mb_exec_rename_def
    rp_fs_mb_exec_opendir_def rp_fs_mb_exec_chdir_def rp_fs_mb_exec_getcwd_def rp_fs_mb_exec_bulk_def
    rp_fs_mb_exec_read_def rp_fs_mb_exec_write_def rp_fs_mb_exec_seek_def rp_fs_mb_exec_tell_def
    rp_fs_mb_exec_readdir_def rp_fs_mb_exec_status_def rp_fs_mb_exec_close_def rp_fs_mb_exec_closedir_def
    rp_fs_cwd_request_def
  by (rule sch_with sch_with_handle sch_with_args sch_with_path sch_bulk_loop sch_finish sch_prod sch_readdir
      sch_steps)+

section \<open>Every request is answered\<close>

text \<open>What the command does between its first reads and the completion interrupt.\<close>

definition request_body ::
  "'b board \<Rightarrow> ('f, 'd, 'k) fatfs \<Rightarrow> u8 \<Rightarrow> u8 \<Rightarrow> u8 \<Rightarrow> (('b, 'f, 'd, 'k) sys, mailbox_state) state" where
  "request_body bd ff operation pid c =
     (if unat pid \<ge> RP_FS_NEOX_MAX_PROCS \<or> unat c \<ge> MAX_MEMORY_CONTEXTS
      then refuse bd RP_ERR_EINVAL else exec_operation bd ff operation pid c)"

context mailbox_bus
begin

lemma handle_exec_run:
  fixes ff :: "('f, 'd, 'k) fatfs" and s :: "('b, 'f, 'd, 'k) sys"
  assumes "up m0 s" and "port_ok m0"
  defines "s' \<equiv> exec (rp_fs_mailbox_handle_exec bd ff) s"
  shows "val_of (rp_fs_mailbox_handle_exec bd ff) s = mbDONE" and "up m0 s'" and "answered view s'"
    and "sch s' = (sch s)\<lparr>gFsCompletionPending := gFsCompletionPending (sch s) \<or> smem view s RP_ARG1L \<noteq> 0\<rparr>"
proof -
  let ?start = "do {
     bump gFSCommandCount;
     on_mach (snoop_read6502MemoryLoc bd RP_STATE);
     on_mach (snoop_read6502MemoryLoc bd RP_ARG1L);
     on_mach (snoop_read6502MemoryLoc bd RP_ARG1H) } :: (('b, 'f, 'd, 'k) sys, u8) state"
  define s1 where "s1 = exec ?start s"
  have "preserves (up m0) ?start" by (intro pres)
  then have up1: "up m0 s1" unfolding s1_def using assms(1) by (rule preservesD)
  have sch1: "sch s1 = sch s" by (simp add: s1_def)
  have served: "served m0 (mach s)" using assms(1) by (simp add: sys_up_def)
  note rd = bus_run [where ?m0.0 = m0]
  let ?p = "request_body bd ff (smem view s RP_STATE) (smem view s RP_ARG1L) (smem view s RP_ARG1H)
    :: (('b, 'f, 'd, 'k) sys, mailbox_state) state"
  have "ans m0 ?p"
    unfolding request_body_def by (rule ans_cases(1) ans_refuse ans_operation [OF assms(2)])+
  from establishesD [OF this [unfolded answers_def] up1]
  have a: "up m0 (exec ?p s1)" "val_of ?p s1 = mbDONE" "answered view (exec ?p s1)" by simp_all
  have "preserves (\<lambda>t. sch t = sch s) ?p"
    unfolding request_body_def by (rule preserves_if sch_finish sch_operation)+
  from preservesD [OF this sch1] have sch: "sch (exec ?p s1) = sch s" .
  define s2 where "s2 = exec ?p s1"
  have run: "s' = exec (when_do (smem view s RP_ARG1L \<noteq> 0) requestFSCompletionIRQ) s2"
    "val_of (rp_fs_mailbox_handle_exec bd ff) s = val_of ?p s1"
    using served rd
    by (simp_all add: s'_def rp_fs_mailbox_handle_exec_def request_body_def s1_def smem_def
        RP_FS_NEOX_MAX_PROCS_def MAX_MEMORY_CONTEXTS_def s2_def)
  show "val_of (rp_fs_mailbox_handle_exec bd ff) s = mbDONE" "up m0 s'" "answered view s'"
    "sch s' = (sch s)\<lparr>gFsCompletionPending := gFsCompletionPending (sch s) \<or> smem view s RP_ARG1L \<noteq> 0\<rparr>"
    using a(1,3) sch a(2) unfolding run(2) s2_def [symmetric] by (simp_all add: run(1) requestFSCompletionIRQ_def)
qed

end

text \<open>
  C8: Whatever a file request holds, whatever is in the caller's memory and whatever FatFs answers, the
  handler returns to the mailbox with the request answered (DONE or ERROR, doorbell cleared),
  6502, context and MMU table as before, the file layer in order, and the completion interrupt
  requested exactly for processes other than 0.
\<close>

theorem fs_request_answered:
  fixes ff :: "('f, 'd, 'k) fatfs" and s :: "('b, 'f, 'd, 'k) sys"
  assumes "mailbox_bus bd view cpu R" and "port_ok (absm view (mach s))" and "storage_ok (files s)"
    and "cwds_ok (cwds s)" and "queues_ok (qs s)"
  shows "let s' = exec (rp_fs_mailbox_handle_exec bd ff) s in
    val_of (rp_fs_mailbox_handle_exec bd ff) s = mbDONE \<and> answered view s' \<and>
    port_ok (absm view (mach s')) \<and> gSysState (mach s') = gSysState (mach s) \<and>
    gCurrentContext (mach s') = gCurrentContext (mach s) \<and>
    storage_ok (files s') \<and> cwds_ok (cwds s') \<and>
    sch s' = (sch s)\<lparr>gFsCompletionPending := gFsCompletionPending (sch s) \<or> smem view s RP_ARG1L \<noteq> 0\<rparr>"
proof -
  note h = mailbox_bus.handle_exec_run [OF assms(1) sys_up_refl [OF assms(2-5)] assms(2), of ff]
  from sys_up_parts [OF h(2)] have "keeps_port R (absm view (mach s))
      (absm view (mach (exec (rp_fs_mailbox_handle_exec bd ff) s)))" by blast
  then show ?thesis
    using h sys_up_parts [OF h(2)] by (simp add: Let_def keeps_port_def)
qed

theorem fs_request_answered_witness:
  "answered id (exec (rp_fs_mailbox_handle_exec (ref_board example_cpu) null_fatfs)
     (initial_sys (running example_cpu)))"
proof -
  let ?s = "initial_sys (running example_cpu) :: (ref, unit, nat, unit) sys"
  have "port_ok (absm id (mach ?s))" "storage_ok (files ?s)" "cwds_ok (cwds ?s)" "queues_ok (qs ?s)"
    using running_ok(1)
    by (simp_all add: initial_sys_def storage_ok_initial cwds_ok_initial queues_ok_initial)
  from fs_request_answered [where ff = null_fatfs, OF guarded_mailbox.mailbox_bus_axioms this] show ?thesis
    by (simp add: Let_def)
qed

end
