(* ===== verification/Mailbox_Spec.thy ===== *)
theory Mailbox_Spec
  imports Mailbox Fs_Mailbox_Spec
begin

text \<open>
  The mailbox as the 6502 sees it: a pending request is served within 251 polls even when its
  trigger was lost, unknown commands are refused, console transfers end, and the character
  registers move bytes one at a time without losing any.
\<close>

section \<open>Queues\<close>

lemma output_bytes_spec:
  assumes "queues_ok q"
  shows "queues_ok (exec (rp_console_output_bytes bs) q) \<and>
    to_vdu (exec (rp_console_output_bytes bs) q) = take 127 (to_vdu q @ filter (\<lambda>b. b \<noteq> 0) bs) \<and>
    to_cpu (exec (rp_console_output_bytes bs) q) = to_cpu q"
  using assms
proof (induction bs arbitrary: q)
  case Nil
  then show ?case
    using ring.items_bound [of "vdu_tx_fifo q"] by (simp add: rp_console_output_bytes_def queues_ok_def)
next
  case (Cons b bs)
  have "length (to_vdu q) \<le> 127"
    using Cons.prems ring.items_bound [of "vdu_tx_fifo q"] by (simp add: queues_ok_def)
  with Cons.IH [OF writeVDUQ_spec(1) [OF Cons.prems, of b]] writeVDUQ_spec(2,3) [OF Cons.prems, of b]
  show ?case by (simp add: rp_console_output_bytes_def take_Cons' min_def)
qed

lemma input_bytes_spec:
  assumes "queues_ok q"
  shows "queues_ok (exec (rp_console_input_bytes n) q) \<and>
    val_of (rp_console_input_bytes n) q = takeWhile (\<lambda>b. b \<noteq> 0) (take n (to_cpu q)) \<and>
    to_vdu (exec (rp_console_input_bytes n) q) = to_vdu q"
  using assms
proof (induction n arbitrary: q)
  case 0
  then show ?case by simp
next
  case (Suc n)
  note r = readCPUQ_spec [OF Suc.prems]
  show ?case
    using Suc.IH [OF r(2)] r by (cases "to_cpu q") (auto simp: Let_def)
qed

lemma queue_ops:
  "queues_ok q \<Longrightarrow> queues_ok (exec (rp_console_output_bytes bs) q)"
  "queues_ok q \<Longrightarrow> queues_ok (exec (rp_console_input_bytes n) q)"
  "queues_ok q \<Longrightarrow> queues_ok (exec readCPUQ q)"
  "queues_ok q \<Longrightarrow> queues_ok (exec (writeVDUQ c) q)"
  "queues_ok q \<Longrightarrow> queues_ok (exec isEmptyCPUQ q)"
  "queues_ok q \<Longrightarrow> queues_ok (exec isFullVDUQ q)"
  using output_bytes_spec input_bytes_spec readCPUQ_spec(2) writeVDUQ_spec(1)
  by (simp_all add: isEmptyCPUQ_def isFullVDUQ_def)

section \<open>Steps\<close>

text \<open>What a command may leave: the request answered, or a console transfer started.\<close>

definition taken_up :: "('b \<Rightarrow> ref) \<Rightarrow> mailbox_state \<Rightarrow> ('b, 'f, 'd, 'k) sys \<Rightarrow> bool" where
  "taken_up view st s \<longleftrightarrow> st = mbDONE \<and> answered view s \<or> st = mbWRITE \<or> st = mbREAD"

context mailbox_bus
begin

lemma block_served:
  assumes "served m0 m"
  shows "served m0 (exec (snoop_read6502Memory bd a n) m)" and "served m0 (exec (snoop_write6502Memory bd a vs) m)"
  using keeps_port_trans [OF assms snoop_read_block(2) [OF keeps_portD(1) [OF assms]]]
    keeps_port_trans [OF assms snoop_write_block(1) [OF keeps_portD(1) [OF assms]]] by simp_all

lemma pres_blocks [pres]:
  "preserves (up m0) (on_mach (snoop_read6502Memory bd a n))"
  "preserves (up m0) (on_mach (snoop_write6502Memory bd a vs))"
  using block_served [of m0] by (simp_all add: preserves_def sys_up_def)

lemma pres_set_done [pres]: "preserves (up m0) (on_mach (rp_mailbox_set_done bd r f))"
  by (rule establishes_preserves [OF est_set_done])

lemma clear_result_served: "served m0 m \<Longrightarrow> served m0 (exec (rp_mailbox_clear_result_fields bd) m)"
  using rp_write16_run(1) [where ?m0.0 = m0] w_served [where ?m0.0 = m0]
  by (simp add: rp_mailbox_clear_result_fields_def)

lemma pres_clear_result [pres]: "preserves (up m0) (on_mach (rp_mailbox_clear_result_fields bd))"
  using clear_result_served [of m0] by (simp add: preserves_def sys_up_def)

lemma pres_set_state [pres]: "preserves (up m0) (set_state st)"
  unfolding set_state_def by (rule pres_globals)

lemma pres_console [pres]:
  "preserves (up m0) (rp_console_io_process_write bd)"
  "preserves (up m0) (rp_console_io_process_read bd)"
  unfolding rp_console_io_process_write_def rp_console_io_process_read_def
  by (rule pres queue_ops | assumption)+

lemma est_handle_exec:
  fixes ff :: "('f, 'd, 'k) fatfs"
  assumes "port_ok m0"
  shows "establishes (up m0) (\<lambda>v s. v = mbDONE \<and> answered view s)
    (rp_fs_mailbox_handle_exec bd ff :: (('b, 'f, 'd, 'k) sys, mailbox_state) state)"
  using handle_exec_run(1-3) [OF _ assms, of _ ff] by (simp add: establishes_def)

lemma est_weaken: "establishes I Q p \<Longrightarrow> (\<And>v s. Q v s \<Longrightarrow> Q' v s) \<Longrightarrow> establishes I Q' p"
  unfolding establishes_def by blast

lemma est_console_start:
  "establishes (up m0) (taken_up view) (rp_console_io_handle_write bd :: (('b, 'f, 'd, 'k) sys, mailbox_state) state)"
  "establishes (up m0) (taken_up view) (rp_console_io_handle_read bd :: (('b, 'f, 'd, 'k) sys, mailbox_state) state)"
proof -
  have fin: "establishes (up m0) (taken_up view)
      (do { on_mach (rp_mailbox_set_done bd 0 0); ret mbDONE } :: (('b, 'f, 'd, 'k) sys, mailbox_state) state)"
    using ans_final(1) [OF est_set_done [of m0 0 0]] unfolding answers_def
    by (rule est_weaken) (simp add: taken_up_def)
  have st: "establishes (up m0) (taken_up view) (ret mbWRITE :: (('b, 'f, 'd, 'k) sys, mailbox_state) state)"
    "establishes (up m0) (taken_up view) (ret mbREAD :: (('b, 'f, 'd, 'k) sys, mailbox_state) state)"
    by (simp_all add: establishes_def taken_up_def)
  show "establishes (up m0) (taken_up view) (rp_console_io_handle_write bd :: (('b, 'f, 'd, 'k) sys, mailbox_state) state)"
    "establishes (up m0) (taken_up view) (rp_console_io_handle_read bd :: (('b, 'f, 'd, 'k) sys, mailbox_state) state)"
    unfolding rp_console_io_handle_write_def rp_console_io_handle_read_def
    by (rule fin st establishes_if establishes_bind pres_read16 pres_globals preserves_when)+
qed

lemma est_unknown:
  "establishes (up m0) (\<lambda>v s. v = mbDONE \<and> answered view s)
    (do { rp_handle_unknown_command bd; ret mbDONE } :: (('b, 'f, 'd, 'k) sys, mailbox_state) state)"
proof -
  have "establishes (up m0) (\<lambda>_. answered view)
      (rp_handle_unknown_command bd :: (('b, 'f, 'd, 'k) sys, unit) state)"
    unfolding rp_handle_unknown_command_def by (rule establishes_bind pres_globals est_set_error)+
  from ans_final(1) [OF this] show ?thesis by (simp add: answers_def)
qed

lemma est_dispatch:
  fixes ff :: "('f, 'd, 'k) fatfs"
  assumes "port_ok m0"
  shows "establishes (up m0) (taken_up view)
    (rp_mailbox_dispatch_current_request bd ff :: (('b, 'f, 'd, 'k) sys, mailbox_state) state)"
proof -
  have unk: "establishes (up m0) (taken_up view)
      (do { rp_handle_unknown_command bd; ret mbDONE } :: (('b, 'f, 'd, 'k) sys, mailbox_state) state)"
    using est_unknown by (rule est_weaken) (simp add: taken_up_def)
  have fs: "establishes (up m0) (taken_up view)
      (rp_fs_mailbox_handle_exec bd ff :: (('b, 'f, 'd, 'k) sys, mailbox_state) state)"
    using est_handle_exec [OF assms] by (rule est_weaken) (simp add: taken_up_def)
  have "establishes (up m0) (taken_up view)
      (rp_dispatch_mailbox_command bd ff g c :: (('b, 'f, 'd, 'k) sys, mailbox_state) state)" for g c
    using unk establishes_bind [OF pres_clear_result est_console_start(1)]
      establishes_bind [OF pres_clear_result est_console_start(2)] establishes_bind [OF pres_clear_result fs]
    by (auto simp: rp_dispatch_mailbox_command_def rp_find_mailbox_command_def gMailboxCommands_def)
  then show ?thesis
    unfolding rp_mailbox_dispatch_current_request_def by (rule establishes_bind [OF pres_read establishes_bind [OF pres_read]])
qed

end

section \<open>Polling\<close>

text \<open>A request is pending; nothing but the console-ready cell and the poll counters has changed.\<close>

definition pending :: "('b \<Rightarrow> ref) \<Rightarrow> ('b, 'f, 'd, 'k) sys \<Rightarrow> bool" where
  "pending view s \<longleftrightarrow> smem view s RP_DOORBELL \<noteq> RP_DOORBELL_NONE \<or> smem view s RP_STATUS = RP_BUSY"

definition waits :: "('b \<Rightarrow> ref) \<Rightarrow> ('b, 'f, 'd, 'k) sys \<Rightarrow> ('b, 'f, 'd, 'k) sys \<Rightarrow> bool" where
  "waits view s t \<longleftrightarrow> (\<forall>x\<in>mailbox_cells. x \<noteq> RP_CONSOLE_RDY \<longrightarrow> smem view t x = smem view s x) \<and>
     files t = files s \<and> cwds t = cwds s \<and> con t = con s \<and> qs t = qs s"

lemma waits_refl: "waits view s s"
  by (simp add: waits_def)

lemma waits_trans: "waits view s t \<Longrightarrow> waits view t u \<Longrightarrow> waits view s u"
  by (simp add: waits_def)

lemma not_ready_cell: "RP_DOORBELL \<noteq> RP_CONSOLE_RDY" "RP_STATUS \<noteq> RP_CONSOLE_RDY" "RP_GROUP \<noteq> RP_CONSOLE_RDY"
  "RP_CMD \<noteq> RP_CONSOLE_RDY"
  by (simp_all add: abi_addresses)

lemma waitsD:
  assumes "waits view s t"
  shows "smem view t RP_DOORBELL = smem view s RP_DOORBELL" and "smem view t RP_STATUS = smem view s RP_STATUS"
    and "smem view t RP_GROUP = smem view s RP_GROUP" and "smem view t RP_CMD = smem view s RP_CMD"
    and "files t = files s" and "cwds t = cwds s" and "con t = con s" and "qs t = qs s"
  using assms not_ready_cell by (simp_all add: waits_def)

lemma waits_pending: "waits view s t \<Longrightarrow> pending view t = pending view s"
  by (simp add: pending_def waitsD)

text \<open>The part of a poll that handles the request it has seen.\<close>

definition serve :: "'b board \<Rightarrow> ('f, 'd, 'k) fatfs \<Rightarrow> (('b, 'f, 'd, 'k) sys, unit) state" where
  "serve bd ff = do { st \<leftarrow> rp_mailbox_dispatch_current_request bd ff; set_state st }"

context mailbox_bus
begin

lemma ready_run:
  fixes s :: "('b, 'f, 'd, 'k) sys"
  assumes "up m0 s"
  defines "t \<equiv> exec (update_console_ready bd) s"
  shows "up m0 t" and "waits view s t" and "\<exists>b. mbx t = (mbx s)\<lparr>lastCheck := b\<rparr>"
proof -
  have sv: "served m0 (mach s)" using assms(1) by (simp add: sys_up_def)
  have "preserves (up m0) (update_console_ready bd)"
    unfolding update_console_ready_def by (rule pres queue_ops | assumption)+
  then show "up m0 t" unfolding t_def using assms(1) by (rule preservesD)
  have q: "exec isEmptyCPUQ q = q" for q by (simp add: isEmptyCPUQ_def)
  have q': "s\<lparr>qs := qs s\<rparr> = s" by simp
  show "waits view s t"
    using w_at [OF sv] by (simp add: t_def update_console_ready_def waits_def smem_def q)
  show "\<exists>b. mbx t = (mbx s)\<lparr>lastCheck := b\<rparr>"
  proof (cases "val_of isEmptyCPUQ (qs s) = lastCheck (mbx s)")
    case True
    then show ?thesis by (intro exI [of _ "lastCheck (mbx s)"]) (simp add: t_def update_console_ready_def q)
  next
    case False
    then show ?thesis
      by (intro exI [of _ "val_of isEmptyCPUQ (qs s)"]) (simp add: t_def update_console_ready_def q)
  qed
qed

lemma waits_upd [simp]:
  "waits view s (t\<lparr>mbx := m\<rparr>) = waits view s t"
  "waits view s (t\<lparr>inCount := n\<rparr>) = waits view s t"
  by (simp_all add: waits_def)

lemma waits_read: "up m0 t \<Longrightarrow> waits view s t \<Longrightarrow>
    waits view s (t\<lparr>mach := exec (snoop_read6502MemoryLoc bd a) (mach t)\<rparr>)"
  using r_at [of m0 "mach t"] by (simp add: waits_def sys_up_def smem_def)

lemma up_read: "up m0 t \<Longrightarrow> up m0 (t\<lparr>mach := exec (snoop_read6502MemoryLoc bd a) (mach t)\<rparr>)"
  using preservesD [OF pres_read [of m0 a]] by simp

lemma read_val: "up m0 t \<Longrightarrow> a \<in> mailbox_cells \<Longrightarrow> val_of (snoop_read6502MemoryLoc bd a) (mach t) = smem view t a"
  using r_val [of m0 "mach t"] by (simp add: sys_up_def smem_def)

lemma poll_looks:
  fixes t :: "('b, 'f, 'd, 'k) sys" and ff :: "('f, 'd, 'k) fatfs"
  assumes "up m0 t" and "pending view t" and "gMMUIOTrigger (mach t) \<or> \<not> lCount (mbx t) < 250"
  shows "\<exists>u. up m0 u \<and> waits view t u \<and> exec (poll_idle bd ff) t = exec (serve bd ff) u"
proof -
  define t1 where "t1 = t\<lparr>mach := (mach t)\<lparr>gMMUIOTrigger := False\<rparr>, mbx := (mbx t)\<lparr>gPollCount := gPollCount (mbx t) + 1,
    lCount := 0\<rparr>\<rparr>"
  have t1: "up m0 t1" "waits view t t1" "mach t1 = (mach t)\<lparr>gMMUIOTrigger := False\<rparr>" "mbx t1 = (mbx t)\<lparr>gPollCount := gPollCount (mbx t) + 1, lCount := 0\<rparr>"
    using assms(1) by (simp_all add: t1_def sys_up_def waits_def smem_def)
  define t2 where "t2 = t1\<lparr>mach := exec (snoop_read6502MemoryLoc bd RP_DOORBELL) (mach t1)\<rparr>"
  have t2: "up m0 t2" "waits view t t2" unfolding t2_def using up_read waits_read t1 by blast+
  define t3 where "t3 = (if smem view t RP_DOORBELL \<noteq> RP_DOORBELL_NONE then t2
      else t2\<lparr>mach := exec (snoop_read6502MemoryLoc bd RP_STATUS) (mach t2)\<rparr>)"
  have t3: "up m0 t3" "waits view t t3" unfolding t3_def using up_read [OF t2(1)] waits_read [OF t2] t2 by simp_all
  define u where "u = t3\<lparr>mbx := (mbx t3)\<lparr>gCommandCount := gCommandCount (mbx t3) + 1\<rparr>\<rparr>"
  have v: "val_of (snoop_read6502MemoryLoc bd RP_DOORBELL) (mach t1) = smem view t RP_DOORBELL"
    "val_of (snoop_read6502MemoryLoc bd RP_STATUS) (mach t2) = smem view t RP_STATUS"
    using read_val [OF t1(1)] read_val [OF t2(1)] waitsD [OF t1(2)] waitsD [OF t2(2)] by simp_all
  have "exec (poll_idle bd ff) t = exec (serve bd ff) u"
    using assms(2,3) v
    by (cases "gMMUIOTrigger (mach t)"; cases "smem view t RP_DOORBELL = RP_DOORBELL_NONE") (simp_all add: poll_idle_def serve_def u_def t3_def t2_def t1_def
        pending_def triggerMMUIO_def ackMMUIO_def when_do_def)
  then show ?thesis using t3 by (intro exI [of _ u]) (simp add: u_def)
qed

lemma poll_step:
  fixes s :: "('b, 'f, 'd, 'k) sys" and ff :: "('f, 'd, 'k) fatfs"
  assumes "up m0 s" and "pending view s" and "mailbox_state (mbx s) = mbIDLE" and "lCount (mbx s) \<le> 250"
  shows "(\<exists>u. up m0 u \<and> waits view s u \<and> exec (taskMailbox bd ff) s = exec (serve bd ff) u) \<or>
    (let t = exec (taskMailbox bd ff) s in up m0 t \<and> waits view s t \<and> mailbox_state (mbx t) = mbIDLE \<and>
       lCount (mbx s) < 250 \<and> lCount (mbx t) = lCount (mbx s) + 1)"
proof -
  define t where "t = exec (update_console_ready bd) s"
  note r = ready_run [OF assms(1), folded t_def]
  have m: "mailbox_state (mbx t) = mbIDLE" "lCount (mbx t) = lCount (mbx s)" using r(3) assms(3) by auto
  have task: "exec (taskMailbox bd ff) s = exec (poll_idle bd ff) t"
    using m by (simp add: taskMailbox_def t_def)
  show ?thesis
  proof (cases "gMMUIOTrigger (mach t) \<or> \<not> lCount (mbx t) < 250")
    case True
    obtain u where "up m0 u" "waits view t u" "exec (poll_idle bd ff) t = exec (serve bd ff) u"
      using poll_looks [OF r(1) _ True, of ff] waits_pending [OF r(2)] assms(2) by blast
    then show ?thesis unfolding task using waits_trans [OF r(2)] by blast
  next
    case False
    have "exec (poll_idle bd ff) t =
        t\<lparr>mbx := (mbx t)\<lparr>gPollCount := gPollCount (mbx t) + 1, lCount := lCount (mbx t) + 1\<rparr>\<rparr>"
      using False by (simp add: poll_idle_def triggerMMUIO_def)
    then show ?thesis using False r(1,2) m by (simp add: task Let_def)
  qed
qed

text \<open>Within 251 polls the mailbox looks.\<close>

lemma looks_in_time:
  fixes s :: "('b, 'f, 'd, 'k) sys" and ff :: "('f, 'd, 'k) fatfs"
  assumes "up m0 s" and "pending view s" and "mailbox_state (mbx s) = mbIDLE" and "lCount (mbx s) \<le> 250"
  shows "\<exists>n u. n \<le> 251 - unat (lCount (mbx s)) \<and> up m0 u \<and> waits view s u \<and>
    (exec (taskMailbox bd ff) ^^ n) s = exec (serve bd ff) u"
  using assms
proof (induction "250 - unat (lCount (mbx s))" arbitrary: s rule: less_induct)
  case less
  let ?f = "exec (taskMailbox bd ff)"
  let ?t = "?f s"
  from poll_step [OF less.prems, of ff] show ?case
  proof (elim disjE exE)
    fix u assume "up m0 u \<and> waits view s u \<and> ?t = exec (serve bd ff) u"
    moreover have "1 \<le> 251 - unat (lCount (mbx s))" using less.prems(4) by (simp add: word_le_nat_alt)
    ultimately show ?thesis by (intro exI [of _ 1] exI [of _ u]) simp
  next
    assume "let t = ?t in up m0 t \<and> waits view s t \<and> mailbox_state (mbx t) = mbIDLE \<and>
        lCount (mbx s) < 250 \<and> lCount (mbx t) = lCount (mbx s) + 1"
    then have t: "up m0 ?t" "waits view s ?t" "mailbox_state (mbx ?t) = mbIDLE" "lCount (mbx s) < 250"
        "lCount (mbx ?t) = lCount (mbx s) + 1" by (simp_all add: Let_def)
    have lt: "unat (lCount (mbx s)) < 250" using t(4) by (simp add: word_less_nat_alt)
    then have n: "unat (lCount (mbx ?t)) = Suc (unat (lCount (mbx s)))"
      unfolding t(5) by (subst unat_word_ariths(1)) simp
    have le: "lCount (mbx ?t) \<le> 250" using n lt by (simp add: word_le_nat_alt)
    have "pending view ?t" using waits_pending [OF t(2)] less.prems(2) by simp
    moreover have "250 - unat (lCount (mbx ?t)) < 250 - unat (lCount (mbx s))" using n lt by simp
    ultimately obtain k u where
      "k \<le> 251 - unat (lCount (mbx ?t))" "up m0 u" "waits view ?t u" "(?f ^^ k) ?t = exec (serve bd ff) u"
      using less.hyps [of ?t, OF _ t(1) _ t(3) le] by blast
    then show ?thesis
      using n lt waits_trans [OF t(2)]
      by (intro exI [of _ "Suc k"] exI [of _ u]) (simp add: funpow_swap1)
  qed
qed

lemma serve_run:
  fixes u :: "('b, 'f, 'd, 'k) sys" and ff :: "('f, 'd, 'k) fatfs"
  assumes "port_ok m0" and "up m0 u"
  defines "t \<equiv> exec (serve bd ff) u"
  shows "up m0 t" and "taken_up view (mailbox_state (mbx t)) t"
    and "smem view u RP_GROUP \<noteq> RP_GROUP_CONSOLE \<Longrightarrow> mailbox_state (mbx t) = mbDONE \<and> answered view t"
proof -
  let ?d = "rp_mailbox_dispatch_current_request bd ff :: (('b, 'f, 'd, 'k) sys, mailbox_state) state"
  define v where "v = exec ?d u"
  have t: "t = v\<lparr>mbx := (mbx v)\<lparr>mailbox_state := val_of ?d u\<rparr>\<rparr>"
    by (simp add: t_def serve_def set_state_def v_def)
  have e: "up m0 v" "taken_up view (val_of ?d u) v"
    using establishesD [OF est_dispatch [OF assms(1), of ff] assms(2)] by (simp_all add: v_def)
  then show "up m0 t" "taken_up view (mailbox_state (mbx t)) t" by (simp_all add: t taken_up_def)
  show "mailbox_state (mbx t) = mbDONE \<and> answered view t" if g: "smem view u RP_GROUP \<noteq> RP_GROUP_CONSOLE"
  proof -
    define u1 where "u1 = u\<lparr>mach := exec (snoop_read6502MemoryLoc bd RP_GROUP) (mach u)\<rparr>"
    define u2 where "u2 = u1\<lparr>mach := exec (snoop_read6502MemoryLoc bd RP_CMD) (mach u1)\<rparr>"
    have up: "up m0 u2" unfolding u2_def u1_def by (intro up_read assms(2))
    let ?h = "rp_dispatch_mailbox_command bd ff (smem view u RP_GROUP)
      (val_of (snoop_read6502MemoryLoc bd RP_CMD) (mach u1)) :: (('b, 'f, 'd, 'k) sys, mailbox_state) state"
    have "establishes (up m0) (\<lambda>v s. v = mbDONE \<and> answered view s) ?h"
      using g est_unknown establishes_bind [OF pres_clear_result est_handle_exec [OF assms(1)]]
      by (auto simp: rp_dispatch_mailbox_command_def rp_find_mailbox_command_def gMailboxCommands_def)
    from establishesD [OF this up] have "val_of ?h u2 = mbDONE" "answered view (exec ?h u2)" by simp_all
    moreover have "v = exec ?h u2" "val_of ?d u = val_of ?h u2"
      using read_val [OF assms(2), of RP_GROUP]
      by (simp_all add: v_def rp_mailbox_dispatch_current_request_def u1_def u2_def)
    ultimately show ?thesis by (simp add: t)
  qed
qed

lemma unknown_run:
  fixes u :: "('b, 'f, 'd, 'k) sys" and ff :: "('f, 'd, 'k) fatfs"
  assumes "up m0 u" and "rp_find_mailbox_command bd ff (smem view u RP_GROUP) (smem view u RP_CMD) =
     (None :: (u8 \<times> u8 \<times> (('b, 'f, 'd, 'k) sys, mailbox_state) state) option)"
  defines "t \<equiv> exec (serve bd ff) u"
  shows "mailbox_state (mbx t) = mbDONE" and "files t = files u" and "cwds t = cwds u" and "qs t = qs u"
    and "smem view t RP_STATUS = RP_ERROR" and "smem view t RP_ERR = RP_ERR_EINVAL"
    and "smem view t RP_DOORBELL = RP_DOORBELL_NONE"
    and "gUnknownCmdCount (mbx t) = gUnknownCmdCount (mbx u) + 1"
proof -
  define u1 where "u1 = u\<lparr>mach := exec (snoop_read6502MemoryLoc bd RP_GROUP) (mach u)\<rparr>"
  define u2 where "u2 = u1\<lparr>mach := exec (snoop_read6502MemoryLoc bd RP_CMD) (mach u1)\<rparr>"
  have up: "up m0 u1" "up m0 u2" unfolding u2_def u1_def by (intro up_read assms(1))+
  have v: "val_of (snoop_read6502MemoryLoc bd RP_GROUP) (mach u) = smem view u RP_GROUP"
    "val_of (snoop_read6502MemoryLoc bd RP_CMD) (mach u1) = smem view u RP_CMD"
    using read_val [OF assms(1), of RP_GROUP] read_val [OF up(1), of RP_CMD]
      waitsD(4) [OF waits_read [OF assms(1) waits_refl], of RP_GROUP]
    by (simp_all add: u1_def)
  define w where "w = u2\<lparr>mbx := (mbx u2)\<lparr>gUnknownCmdCount := gUnknownCmdCount (mbx u2) + 1\<rparr>\<rparr>"
  have sv: "served m0 (mach w)" using up(2) by (simp add: w_def sys_up_def)
  define e where "e = exec (rp_mailbox_set_error bd RP_ERR_EINVAL 0) w"
  note er = set_error_run [OF sv, where err = RP_ERR_EINVAL and partial = 0, folded e_def]
  have "t = e\<lparr>mbx := (mbx e)\<lparr>mailbox_state := mbDONE\<rparr>\<rparr>"
    using v assms(2)
    by (simp add: t_def serve_def rp_mailbox_dispatch_current_request_def rp_dispatch_mailbox_command_def
        rp_handle_unknown_command_def set_state_def u1_def [symmetric] u2_def [symmetric] w_def [symmetric] e_def)
  moreover have "files e = files w" "cwds e = cwds w" "qs e = qs w"
    "mbx e = (mbx w)\<lparr>gErrorCount := gErrorCount (mbx w) + 1\<rparr>"
    by (subst er(3), simp)+
  ultimately show "mailbox_state (mbx t) = mbDONE" "files t = files u" "cwds t = cwds u" "qs t = qs u"
    "gUnknownCmdCount (mbx t) = gUnknownCmdCount (mbx u) + 1"
    "smem view t RP_STATUS = RP_ERROR" "smem view t RP_ERR = RP_ERR_EINVAL"
    "smem view t RP_DOORBELL = RP_DOORBELL_NONE"
    using er(2) by (simp_all add: w_def u1_def u2_def smem_def reply_def abi_addresses mailbox_cells_def)
qed

end

section \<open>Console output\<close>

definition console_chunk :: "u16 \<Rightarrow> u16" where
  "console_chunk r = (if r > RP_CONSOLE_CHUNK_SIZE then RP_CONSOLE_CHUNK_SIZE else r)"

lemma console_chunk_bounds:
  assumes "r \<noteq> 0"
  shows "unat (console_chunk r) = min 256 (unat r)" and "unat (r - console_chunk r) = unat r - min 256 (unat r)"
    and "0 < unat r"
proof -
  show c: "unat (console_chunk r) = min 256 (unat r)"
    by (auto simp: console_chunk_def RP_CONSOLE_CHUNK_SIZE_def word_less_nat_alt)
  have "console_chunk r \<le> r" unfolding word_le_nat_alt c by simp
  then show "unat (r - console_chunk r) = unat r - min 256 (unat r)" by (simp add: unat_sub c)
  show "0 < unat r" using assms by (simp add: unat_gt_0)
qed

context mailbox_bus
begin

lemma write_chunk_run:
  fixes s :: "('b, 'f, 'd, 'k) sys"
  assumes "up m0 s" and "gConsoleRemaining (con s) \<noteq> 0"
  defines "t \<equiv> exec (rp_console_io_process_write bd) s" and "n \<equiv> console_chunk (gConsoleRemaining (con s))"
  shows "\<not> val_of (rp_console_io_process_write bd) s" and "up m0 t"
    and "con t = (con s)\<lparr>gConsoleCurrent := gConsoleCurrent (con s) + n,
      gConsoleRemaining := gConsoleRemaining (con s) - n, gConsoleWriteCount := gConsoleWriteCount (con s) + 1\<rparr>"
    and "mbx t = mbx s"
    and "(\<And>k. k < unat n \<Longrightarrow> gConsoleCurrent (con s) + of_nat k \<in> R) \<Longrightarrow>
      to_vdu (qs t) = take 127 (to_vdu (qs s) @ filter (\<lambda>b. b \<noteq> 0)
        (map (\<lambda>k. smem view s (gConsoleCurrent (con s) + of_nat k)) [0..<unat n]))"
proof -
  show "\<not> val_of (rp_console_io_process_write bd) s"
    using assms(2) by (simp add: rp_console_io_process_write_def Let_def)
  show "up m0 t" unfolding t_def by (rule preservesD [OF pres_console(1) assms(1)])
  have sv: "served m0 (mach s)" "queues_ok (qs s)" using assms(1) by (simp_all add: sys_up_def)
  note rd = snoop_read_block(1) [OF keeps_portD(1) [OF sv(1)], of n "gConsoleCurrent (con s)"]
  have t: "t = s\<lparr>mach := exec (snoop_read6502Memory bd (gConsoleCurrent (con s)) n) (mach s),
      qs := exec (rp_console_output_bytes (val_of (snoop_read6502Memory bd (gConsoleCurrent (con s)) n) (mach s))) (qs s),
      con := (con s)\<lparr>gConsoleCurrent := gConsoleCurrent (con s) + n,
        gConsoleRemaining := gConsoleRemaining (con s) - n,
        gConsoleWriteCount := gConsoleWriteCount (con s) + 1\<rparr>\<rparr>"
    using assms(2) unfolding t_def n_def by (simp add: rp_console_io_process_write_def Let_def console_chunk_def)
  show "con t = (con s)\<lparr>gConsoleCurrent := gConsoleCurrent (con s) + n,
      gConsoleRemaining := gConsoleRemaining (con s) - n, gConsoleWriteCount := gConsoleWriteCount (con s) + 1\<rparr>"
    "mbx t = mbx s" by (simp_all add: t)
  show "to_vdu (qs t) = take 127 (to_vdu (qs s) @ filter (\<lambda>b. b \<noteq> 0)
      (map (\<lambda>k. smem view s (gConsoleCurrent (con s) + of_nat k)) [0..<unat n]))"
    if "\<And>k. k < unat n \<Longrightarrow> gConsoleCurrent (con s) + of_nat k \<in> R"
    using rd [OF that] output_bytes_spec [OF sv(2)] by (simp add: t smem_def)
qed

lemma write_end_run:
  fixes s :: "('b, 'f, 'd, 'k) sys"
  assumes "up m0 s" and "gConsoleRemaining (con s) = 0"
  defines "t \<equiv> exec (rp_console_io_process_write bd) s"
  shows "val_of (rp_console_io_process_write bd) s" and "up m0 t" and "answered view t"
    and "smem view t RP_RES0L = ucast (gConsoleLen (con s))"
    and "smem view t (RP_RES0L + 1) = ucast (drop_bit 8 (gConsoleLen (con s)))"
proof -
  have sv: "served m0 (mach s)" using assms(1) by (simp add: sys_up_def)
  have t: "t = exec (on_mach (rp_mailbox_set_done bd (gConsoleLen (con s)) 0)) s"
    using assms(2) by (simp add: t_def rp_console_io_process_write_def)
  show "val_of (rp_console_io_process_write bd) s" using assms(2) by (simp add: rp_console_io_process_write_def)
  show "up m0 t" "answered view t" unfolding t using establishesD [OF est_set_done assms(1)] by blast+
  show "smem view t RP_RES0L = ucast (gConsoleLen (con s))"
    "smem view t (RP_RES0L + 1) = ucast (drop_bit 8 (gConsoleLen (con s)))"
    using set_done_run(2) [OF sv] by (simp_all add: t smem_def reply_def abi_addresses mailbox_cells_def)
qed

lemma write_poll:
  fixes s :: "('b, 'f, 'd, 'k) sys" and ff :: "('f, 'd, 'k) fatfs"
  assumes "up m0 s" and "mailbox_state (mbx s) = mbWRITE"
  obtains t where "up m0 t" "waits view s t" "mailbox_state (mbx t) = mbWRITE"
    "exec (taskMailbox bd ff) s =
      (if val_of (rp_console_io_process_write bd) t
       then (exec (rp_console_io_process_write bd) t)\<lparr>mbx := (mbx (exec (rp_console_io_process_write bd) t))\<lparr>mailbox_state := mbDONE\<rparr>\<rparr>
       else exec (rp_console_io_process_write bd) t)"
proof (rule that)
  let ?t = "exec (update_console_ready bd) s"
  note r = ready_run [OF assms(1)]
  show "up m0 ?t" "waits view s ?t" by (rule r)+
  show m: "mailbox_state (mbx ?t) = mbWRITE" using r(3) assms(2) by auto
  then show "exec (taskMailbox bd ff) s =
      (if val_of (rp_console_io_process_write bd) ?t
       then (exec (rp_console_io_process_write bd) ?t)\<lparr>mbx := (mbx (exec (rp_console_io_process_write bd) ?t))\<lparr>mailbox_state := mbDONE\<rparr>\<rparr>
       else exec (rp_console_io_process_write bd) ?t)"
    by (simp add: taskMailbox_def set_state_def)
qed

lemma write_ends:
  fixes s :: "('b, 'f, 'd, 'k) sys" and ff :: "('f, 'd, 'k) fatfs"
  assumes "up m0 s" and "mailbox_state (mbx s) = mbWRITE"
  shows "let t = (exec (taskMailbox bd ff) ^^ ((unat (gConsoleRemaining (con s)) + 255) div 256 + 1)) s in
    up m0 t \<and> mailbox_state (mbx t) = mbDONE \<and> answered view t \<and>
    smem view t RP_RES0L = ucast (gConsoleLen (con s)) \<and>
    smem view t (RP_RES0L + 1) = ucast (drop_bit 8 (gConsoleLen (con s)))"
  using assms
proof (induction "unat (gConsoleRemaining (con s))" arbitrary: s rule: less_induct)
  case less
  obtain t where t: "up m0 t" "waits view s t" "mailbox_state (mbx t) = mbWRITE"
    and run: "exec (taskMailbox bd ff) s =
      (if val_of (rp_console_io_process_write bd) t
       then (exec (rp_console_io_process_write bd) t)\<lparr>mbx := (mbx (exec (rp_console_io_process_write bd) t))\<lparr>mailbox_state := mbDONE\<rparr>\<rparr>
       else exec (rp_console_io_process_write bd) t)"
    using write_poll [OF less.prems] by blast
  have con: "con t = con s" by (rule waitsD(7) [OF t(2)])
  show ?case
  proof (cases "gConsoleRemaining (con s) = 0")
    case True
    then show ?thesis
      using write_end_run [OF t(1)] run con by (simp add: Let_def)
  next
    case False
    define r where "r = gConsoleRemaining (con s)"
    note b = console_chunk_bounds [OF False, folded r_def]
    let ?u = "exec (rp_console_io_process_write bd) t"
    have ne: "gConsoleRemaining (con t) \<noteq> 0" using False con by simp
    note w = write_chunk_run [OF t(1) ne]
    have u: "exec (taskMailbox bd ff) s = ?u" using run w(1) by simp
    have ru: "unat (gConsoleRemaining (con ?u)) = unat r - min 256 (unat r)" "gConsoleLen (con ?u) = gConsoleLen (con s)"
      using w(3) b(2) con by (simp_all add: r_def)
    have st: "mailbox_state (mbx ?u) = mbWRITE" using w(4) t(3) by simp
    have less_r: "unat (gConsoleRemaining (con ?u)) < unat (gConsoleRemaining (con s))"
      unfolding ru(1) using b(3) by (simp add: r_def [symmetric])
    have n: "(unat r + 255) div 256 = Suc ((unat (gConsoleRemaining (con ?u)) + 255) div 256)"
      unfolding ru(1) using b(3) by (cases "unat r \<le> 256") (simp_all add: div_eq_dividend_iff le_div_geq)
    show ?thesis
      unfolding r_def [symmetric] n using less.hyps [OF less_r w(2) st] by (simp add: u ru(2) funpow_swap1 Let_def)
  qed
qed

end

section \<open>The character registers\<close>

context mailbox_bus
begin

lemma simple_getchar_run:
  fixes s :: "('b, 'f, 'd, 'k) sys"
  assumes "up m0 s"
  defines "t \<equiv> exec (simple_getchar bd) s"
  shows "up m0 t"
    and "smem view t RP_GETCHAR = (if smem view s RP_GETCHAR \<noteq> 0 then smem view s RP_GETCHAR
      else case to_cpu (qs s) of [] \<Rightarrow> 0 | c # _ \<Rightarrow> c)"
    and "to_cpu (qs t) = (if smem view s RP_GETCHAR \<noteq> 0 then to_cpu (qs s) else tl (to_cpu (qs s)))"
    and "to_vdu (qs t) = to_vdu (qs s)"
proof -
  have "preserves (up m0) (simple_getchar bd)"
    unfolding simple_getchar_def by (rule pres queue_ops | assumption)+
  then show "up m0 t" unfolding t_def using assms(1) by (rule preservesD)
  have sv: "served m0 (mach s)" "queues_ok (qs s)" using assms(1) by (simp_all add: sys_up_def)
  note rd = bus_run [where ?m0.0 = m0]
  show "smem view t RP_GETCHAR = (if smem view s RP_GETCHAR \<noteq> 0 then smem view s RP_GETCHAR
      else case to_cpu (qs s) of [] \<Rightarrow> 0 | c # _ \<Rightarrow> c)"
    using sv rd readCPUQ_spec(1) [OF sv(2)] by (simp add: t_def simple_getchar_def smem_def split: list.splits)
  show "to_cpu (qs t) = (if smem view s RP_GETCHAR \<noteq> 0 then to_cpu (qs s) else tl (to_cpu (qs s)))"
    "to_vdu (qs t) = to_vdu (qs s)"
    using sv rd readCPUQ_spec [OF sv(2)] by (simp_all add: t_def simple_getchar_def smem_def)
qed

lemma simple_putchar_run:
  fixes s :: "('b, 'f, 'd, 'k) sys"
  assumes "up m0 s"
  defines "t \<equiv> exec (simple_putchar bd) s"
  shows "up m0 t"
    and "smem view t RP_PUTCHAR = (if length (to_vdu (qs s)) < 127 then 0 else smem view s RP_PUTCHAR)"
    and "to_vdu (qs t) = (if length (to_vdu (qs s)) < 127 \<and> smem view s RP_PUTCHAR \<noteq> 0
      then to_vdu (qs s) @ [smem view s RP_PUTCHAR] else to_vdu (qs s))"
    and "to_cpu (qs t) = to_cpu (qs s)"
proof -
  have "preserves (up m0) (simple_putchar bd)"
    unfolding simple_putchar_def by (rule pres queue_ops | assumption)+
  then show "up m0 t" unfolding t_def using assms(1) by (rule preservesD)
  have sv: "served m0 (mach s)" "queues_ok (qs s)" using assms(1) by (simp_all add: sys_up_def)
  note rd = bus_run [where ?m0.0 = m0]
  have q: "exec isFullVDUQ q = q" for q by (simp add: isFullVDUQ_def)
  have full: "val_of isFullVDUQ (qs s) \<longleftrightarrow> \<not> length (to_vdu (qs s)) < 127"
    using sv(2) isFull_contents [of "vdu_tx_fifo (qs s)"] ring.items_bound [of "vdu_tx_fifo (qs s)"]
    by (auto simp: isFullVDUQ_def queues_ok_def)
  show "smem view t RP_PUTCHAR = (if length (to_vdu (qs s)) < 127 then 0 else smem view s RP_PUTCHAR)"
    using sv rd full by (simp add: t_def simple_putchar_def smem_def q)
  show "to_vdu (qs t) = (if length (to_vdu (qs s)) < 127 \<and> smem view s RP_PUTCHAR \<noteq> 0
      then to_vdu (qs s) @ [smem view s RP_PUTCHAR] else to_vdu (qs s))"
    using sv rd full writeVDUQ_spec(2) [OF sv(2)]
    by (simp add: t_def simple_putchar_def smem_def q) (simp add: Suc_le_eq)
  show "to_cpu (qs t) = to_cpu (qs s)"
    using sv rd full writeVDUQ_spec(3) [OF sv(2)] by (simp add: t_def simple_putchar_def smem_def q)
qed

end

section \<open>Examples\<close>

definition request_mach :: "u8 \<Rightarrow> u8 \<Rightarrow> ref machine" where
  "request_mach grp cmd = exec (snoop_write6502MemoryLoc (ref_board id) RP_CMD cmd)
     (exec (snoop_write6502MemoryLoc (ref_board id) RP_GROUP grp)
       (exec (snoop_write6502MemoryLoc (ref_board id) RP_DOORBELL 1) (running id)))"

definition request_sys :: "u8 \<Rightarrow> u8 \<Rightarrow> (ref, unit, nat, unit) sys" where
  "request_sys grp cmd =
     (initial_sys (request_mach grp cmd))\<lparr>mbx := initial_mailbox\<lparr>mailbox_state := mbIDLE\<rparr>\<rparr>"

lemma request_sys_ok:
  "port_ok (absm id (mach (request_sys g c)))" "storage_ok (files (request_sys g c))"
  "cwds_ok (cwds (request_sys g c))" "queues_ok (qs (request_sys g c))"
  "mailbox_state (mbx (request_sys g c)) = mbIDLE" "lCount (mbx (request_sys g c)) \<le> 250"
  "pending id (request_sys g c)"
  "smem id (request_sys g c) RP_GROUP = g" "smem id (request_sys g c) RP_CMD = c"
proof -
  have k: "keeps_port UNIV (running id) (absm id (running id))"
    using keeps_port_refl [OF running_ok(1)] by simp
  note run = idle_mailbox.bus_run [where ?m0.0 = "running id"]
  have "keeps_port UNIV (running id) (absm id (request_mach g c))"
    unfolding request_mach_def using k by (intro run(2))
  then show "port_ok (absm id (mach (request_sys g c)))"
    using keeps_portD(1) by (simp add: request_sys_def initial_sys_def)
  show "storage_ok (files (request_sys g c))" "cwds_ok (cwds (request_sys g c))"
    "queues_ok (qs (request_sys g c))" "mailbox_state (mbx (request_sys g c)) = mbIDLE"
    "lCount (mbx (request_sys g c)) \<le> 250"
    by (simp_all add: request_sys_def initial_sys_def storage_ok_initial cwds_ok_initial queues_ok_initial
        initial_mailbox_def)
  have m: "smem id (request_sys g c) x = (if x = RP_CMD then c else if x = RP_GROUP then g
      else if x = RP_DOORBELL then 1 else mem (running id) x)" if "x \<in> mailbox_cells" for x
    using run(5) [OF _ that] run(2) k that
    by (simp add: smem_def request_sys_def initial_sys_def request_mach_def)
  show "smem id (request_sys g c) RP_GROUP = g" "smem id (request_sys g c) RP_CMD = c"
    "pending id (request_sys g c)"
    using m [of RP_GROUP] m [of RP_CMD] m [of RP_DOORBELL]
    by (simp_all add: pending_def) (simp_all add: abi_addresses RP_DOORBELL_NONE_def)
qed

section \<open>Properties\<close>

text \<open>
  C10: A request of the 6502 is served within 251 polls of the idle mailbox even when the interrupt that
  announced it was lost: it is answered, or, for a console command, its transfer has begun; and
  6502, bus and files are in order throughout.
\<close>

theorem request_served_in_time:
  fixes s :: "('b, 'f, 'd, 'k) sys" and ff :: "('f, 'd, 'k) fatfs"
  assumes "mailbox_bus bd view cpu R" and "port_ok (absm view (mach s))" and "storage_ok (files s)"
    and "cwds_ok (cwds s)" and "queues_ok (qs s)"
    and "pending view s" and "mailbox_state (mbx s) = mbIDLE" and "lCount (mbx s) \<le> 250"
  shows "\<exists>n\<le>251. let t = (exec (taskMailbox bd ff) ^^ n) s in
    sys_up view R (absm view (mach s)) t \<and>
    (mailbox_state (mbx t) = mbDONE \<and> answered view t \<or>
     mailbox_state (mbx t) \<in> {mbWRITE, mbREAD} \<and> smem view s RP_GROUP = RP_GROUP_CONSOLE)"
proof -
  note up = sys_up_refl [OF assms(2-5), of R]
  obtain n u where n: "n \<le> 251 - unat (lCount (mbx s))" and u: "sys_up view R (absm view (mach s)) u" "waits view s u"
      "(exec (taskMailbox bd ff) ^^ n) s = exec (serve bd ff) u"
    using mailbox_bus.looks_in_time [OF assms(1) up assms(6-8)] by blast
  note r = mailbox_bus.serve_run [OF assms(1,2) u(1), of ff]
  show ?thesis
    using n r waitsD(3) [OF u(2)] unfolding u(3) [symmetric] taken_up_def
    by (intro exI [of _ n]) (auto simp: Let_def)
qed

theorem request_served_in_time_witness:
  "\<exists>n\<le>251. mailbox_state (mbx ((exec (taskMailbox (ref_board id) null_fatfs) ^^ n) (request_sys 2 0x11))) = mbDONE"
proof -
  note ok = request_sys_ok [where g = 2 and c = "0x11"]
  have "smem id (request_sys 2 0x11) RP_GROUP \<noteq> RP_GROUP_CONSOLE"
    unfolding ok(8) by (simp add: RP_GROUP_CONSOLE_def)
  with request_served_in_time [where ff = null_fatfs, OF idle_mailbox.mailbox_bus_axioms ok(1-4,7,5,6)]
  show ?thesis by (auto simp: Let_def)
qed

text \<open>
  A request that names no command of the table is refused with EINVAL: status ERROR, doorbell
  cleared, counted as unknown, and files, directories and queues untouched.
\<close>

theorem unknown_command_refused:
  fixes s :: "('b, 'f, 'd, 'k) sys" and ff :: "('f, 'd, 'k) fatfs"
  assumes "mailbox_bus bd view cpu R" and "port_ok (absm view (mach s))" and "storage_ok (files s)"
    and "cwds_ok (cwds s)" and "queues_ok (qs s)"
    and "pending view s" and "mailbox_state (mbx s) = mbIDLE" and "lCount (mbx s) \<le> 250"
    and "(smem view s RP_GROUP, smem view s RP_CMD) \<notin>
      {(RP_GROUP_CONSOLE, RP_CON_CMD_WRITE), (RP_GROUP_CONSOLE, RP_CON_CMD_READ), (RP_GROUP_FS, RP_FS_CMD_EXEC)}"
  shows "\<exists>n\<le>251. let t = (exec (taskMailbox bd ff) ^^ n) s in
    mailbox_state (mbx t) = mbDONE \<and> smem view t RP_STATUS = RP_ERROR \<and> smem view t RP_ERR = RP_ERR_EINVAL \<and>
    smem view t RP_DOORBELL = RP_DOORBELL_NONE \<and> files t = files s \<and> cwds t = cwds s \<and> qs t = qs s"
proof -
  note up = sys_up_refl [OF assms(2-5), of R]
  obtain n u where n: "n \<le> 251 - unat (lCount (mbx s))" and u: "sys_up view R (absm view (mach s)) u" "waits view s u"
      "(exec (taskMailbox bd ff) ^^ n) s = exec (serve bd ff) u"
    using mailbox_bus.looks_in_time [OF assms(1) up assms(6-8)] by blast
  have "rp_find_mailbox_command bd ff (smem view u RP_GROUP) (smem view u RP_CMD) =
      (None :: (u8 \<times> u8 \<times> (('b, 'f, 'd, 'k) sys, mailbox_state) state) option)"
    using assms(9) waitsD(3,4) [OF u(2)] by (auto simp: rp_find_mailbox_command_def gMailboxCommands_def)
  note r = mailbox_bus.unknown_run [OF assms(1) u(1) this]
  show ?thesis
    using n r waitsD [OF u(2)] unfolding u(3) [symmetric]
    by (intro exI [of _ n]) (auto simp: Let_def)
qed

theorem unknown_command_refused_witness:
  "\<exists>n\<le>251. smem id ((exec (taskMailbox (ref_board id) null_fatfs) ^^ n) (request_sys 9 9)) RP_ERR = RP_ERR_EINVAL"
proof -
  note ok = request_sys_ok [where g = 9 and c = 9]
  have "(smem id (request_sys 9 9) RP_GROUP, smem id (request_sys 9 9) RP_CMD) \<notin>
      {(RP_GROUP_CONSOLE, RP_CON_CMD_WRITE), (RP_GROUP_CONSOLE, RP_CON_CMD_READ), (RP_GROUP_FS, RP_FS_CMD_EXEC)}"
    unfolding ok(8,9) by (simp add: RP_GROUP_CONSOLE_def RP_GROUP_FS_def)
  from unknown_command_refused [where ff = null_fatfs, OF idle_mailbox.mailbox_bus_axioms ok(1-4,7,5,6) this]
  show ?thesis by (auto simp: Let_def)
qed

text \<open>
  A console write of any length ends: after one poll per 256 bytes and one more the request is
  answered with the number of bytes asked for.
\<close>

theorem console_write_ends:
  fixes s :: "('b, 'f, 'd, 'k) sys" and ff :: "('f, 'd, 'k) fatfs"
  assumes "mailbox_bus bd view cpu R" and "port_ok (absm view (mach s))" and "storage_ok (files s)"
    and "cwds_ok (cwds s)" and "queues_ok (qs s)" and "mailbox_state (mbx s) = mbWRITE"
  shows "let t = (exec (taskMailbox bd ff) ^^ ((unat (gConsoleRemaining (con s)) + 255) div 256 + 1)) s in
    mailbox_state (mbx t) = mbDONE \<and> answered view t \<and>
    smem view t RP_RES0L = ucast (gConsoleLen (con s)) \<and>
    smem view t (RP_RES0L + 1) = ucast (drop_bit 8 (gConsoleLen (con s)))"
  using mailbox_bus.write_ends [OF assms(1) sys_up_refl [OF assms(2-5)] assms(6)] by (simp add: Let_def)

definition writing_sys :: "(ref, unit, nat, unit) sys" where
  "writing_sys = (request_sys 1 1)\<lparr>mbx := initial_mailbox\<lparr>mailbox_state := mbWRITE\<rparr>,
     con := initial_console\<lparr>gConsoleLen := 300, gConsoleRemaining := 300, gConsoleCurrent := 0x1000\<rparr>\<rparr>"

lemma writing_sys_ok:
  "port_ok (absm id (mach writing_sys))" "storage_ok (files writing_sys)" "cwds_ok (cwds writing_sys)"
  "queues_ok (qs writing_sys)" "mailbox_state (mbx writing_sys) = mbWRITE"
  "unat (gConsoleRemaining (con writing_sys)) = 300" "gConsoleCurrent (con writing_sys) = 0x1000"
  using request_sys_ok(1-4) [of 1 1] by (simp_all add: writing_sys_def)

theorem console_write_ends_witness:
  "answered id ((exec (taskMailbox (ref_board id) null_fatfs) ^^ 3) writing_sys)"
  using console_write_ends [where ff = null_fatfs, OF idle_mailbox.mailbox_bus_axioms writing_sys_ok(1-5)]
  by (simp add: Let_def writing_sys_ok(6))

text \<open>
  What one poll of a console write sends to the display: the non-zero bytes of the next 256 of the
  caller, as far as the output queue of 127 has room; the transfer moves on by the whole chunk.
\<close>

theorem console_write_chunk:
  fixes s :: "('b, 'f, 'd, 'k) sys"
  assumes "mailbox_bus bd view cpu R" and "port_ok (absm view (mach s))" and "storage_ok (files s)"
    and "cwds_ok (cwds s)" and "queues_ok (qs s)" and "gConsoleRemaining (con s) \<noteq> 0"
    and "\<And>k. k < min 256 (unat (gConsoleRemaining (con s))) \<Longrightarrow> gConsoleCurrent (con s) + of_nat k \<in> R"
  shows "let t = exec (rp_console_io_process_write bd) s; n = min 256 (unat (gConsoleRemaining (con s))) in
    to_vdu (qs t) = take 127 (to_vdu (qs s) @ filter (\<lambda>b. b \<noteq> 0)
      (map (\<lambda>k. smem view s (gConsoleCurrent (con s) + of_nat k)) [0..<n])) \<and>
    unat (gConsoleRemaining (con t)) = unat (gConsoleRemaining (con s)) - n"
proof -
  note b = console_chunk_bounds [OF assms(6)]
  note w = mailbox_bus.write_chunk_run [OF assms(1) sys_up_refl [OF assms(2-5)] assms(6), unfolded b(1)]
  show ?thesis using w(5) [OF assms(7)] w(3) b(2) by (simp add: Let_def)
qed

theorem console_write_chunk_witness:
  "length (to_vdu (qs (exec (rp_console_io_process_write (ref_board id)) writing_sys))) \<le> 127"
proof -
  have "gConsoleRemaining (con writing_sys) \<noteq> 0" using writing_sys_ok(6) by auto
  from console_write_chunk [OF idle_mailbox.mailbox_bus_axioms writing_sys_ok(1-4) this UNIV_I]
  show ?thesis by (simp add: Let_def)
qed

text \<open>
  The character registers lose nothing: a round of \<open>taskSimpleIO\<close> hands the 6502 the oldest
  waiting byte only once it has taken the previous one, and takes a byte from it only when the
  output queue has room for it.
\<close>

theorem simple_io_lossless:
  fixes s :: "('b, 'f, 'd, 'k) sys"
  assumes "mailbox_bus bd view cpu R" and "port_ok (absm view (mach s))" and "storage_ok (files s)"
    and "cwds_ok (cwds s)" and "queues_ok (qs s)"
  shows "(let t = exec (simple_getchar bd) s; w = smem view s RP_GETCHAR in
      to_vdu (qs t) = to_vdu (qs s) \<and>
      (if w \<noteq> 0 then smem view t RP_GETCHAR = w \<and> to_cpu (qs t) = to_cpu (qs s)
       else case to_cpu (qs s) of [] \<Rightarrow> smem view t RP_GETCHAR = 0 \<and> to_cpu (qs t) = []
         | c # cs \<Rightarrow> smem view t RP_GETCHAR = c \<and> to_cpu (qs t) = cs)) \<and>
    (let t = exec (simple_putchar bd) s; w = smem view s RP_PUTCHAR in
      to_cpu (qs t) = to_cpu (qs s) \<and>
      (if length (to_vdu (qs s)) < 127
       then smem view t RP_PUTCHAR = 0 \<and> to_vdu (qs t) = to_vdu (qs s) @ (if w = 0 then [] else [w])
       else smem view t RP_PUTCHAR = w \<and> to_vdu (qs t) = to_vdu (qs s)))"
  using mailbox_bus.simple_getchar_run [OF assms(1) sys_up_refl [OF assms(2-5)]]
    mailbox_bus.simple_putchar_run [OF assms(1) sys_up_refl [OF assms(2-5)]]
  by (simp add: Let_def split: list.splits)

theorem simple_io_lossless_witness:
  "smem id (exec (simple_putchar (ref_board id)) (request_sys 0 0)) RP_PUTCHAR = 0"
proof -
  have "to_vdu (qs (request_sys 0 0)) = []"
    by (simp add: request_sys_def initial_sys_def initial_queues_def empty_fifo_ok)
  then show ?thesis
    using simple_io_lossless [OF idle_mailbox.mailbox_bus_axioms request_sys_ok(1-4), of 0 0] by (simp add: Let_def)
qed

end
