(* ===== verification/Monitor_Spec.thy ===== *)
theory Monitor_Spec
  imports Monitor Vdu_Spec Disasm_Spec Mailbox_Spec
begin

text \<open>
  \<open>monitor.cpp\<close>: the command line as an editor of one bounded line, the way of a typed line over the screen to the
  6502, the break key, and what the commands for memory, pages and directories do.
\<close>

lemma on_sys_simps [simp]:
  "exec (on_sys p) m = m\<lparr>m_sys := exec p (m_sys m)\<rparr>" "val_of (on_sys p) m = val_of p (m_sys m)"
  by (simp_all add: on_sys_def)

lemma on_vdu_simps [simp]: "exec (on_vdu f) m = m\<lparr>m_vdu := f (m_vdu m)\<rparr>"
  by (simp add: on_vdu_def)

lemma on_disasm_simps [simp]:
  "exec (on_disasm p) m =
     (let d = exec p \<lparr>dis_machine = mach (m_sys m), dis_labels = m_labels m, serial_out = m_serial m\<rparr>
      in m\<lparr>m_sys := (m_sys m)\<lparr>mach := dis_machine d\<rparr>, m_labels := dis_labels d, m_serial := serial_out d\<rparr>)"
  by (simp add: on_disasm_def Let_def)

section \<open>The line editor\<close>

definition line_char :: "int \<Rightarrow> bool" where
  "line_char c \<longleftrightarrow> 0x20 \<le> c \<and> c \<le> 0x7E"

text \<open>The line as typed so far; \<open>None\<close> for a line that was too long.\<close>

fun edit_line :: "int \<Rightarrow> u8 list option \<Rightarrow> u8 list option" where
  "edit_line c None = None"
| "edit_line c (Some l) =
     (if c = 0x08 \<or> c = 0x7F then Some (butlast l)
      else if \<not> line_char c then Some l
      else if length l < 39 then Some (l @ [word_of_int c])
      else None)"

definition editor :: "('b, 'f, 'd, 'k) monitor \<Rightarrow> u8 list option" where
  "editor m = (if gInputOverflow m then None else Some (take (gInputIndex m) (gInputBuffer m)))"

definition input_ok :: "('b, 'f, 'd, 'k) monitor \<Rightarrow> bool" where
  "input_ok m \<longleftrightarrow> length (gInputBuffer m) = ICM_INPUT_BUFFER_SIZE \<and> gInputIndex m < ICM_INPUT_BUFFER_SIZE \<and>
     gInputBuffer m ! gInputIndex m = 0 \<and> (\<forall>c\<in>set (take (gInputIndex m) (gInputBuffer m)). 0x20 \<le> c \<and> c \<le> 0x7E) \<and>
     (gInputOverflow m \<longrightarrow> gInputIndex m = 0)"

text \<open>Nothing but the line differs.\<close>

definition same_but_line :: "('b, 'f, 'd, 'k) monitor \<Rightarrow> ('b, 'f, 'd, 'k) monitor \<Rightarrow> bool" where
  "same_but_line m m' \<longleftrightarrow>
     m' = m\<lparr>gInputIndex := gInputIndex m', gInputBuffer := gInputBuffer m', gInputOverflow := gInputOverflow m'\<rparr>"

lemma same_but_line_refl: "same_but_line m m"
  by (simp add: same_but_line_def)

lemma same_but_line_trans:
  assumes "same_but_line m m'" and "same_but_line m' m''"
  shows "same_but_line m m''"
proof -
  have "m'' = (m\<lparr>gInputIndex := gInputIndex m', gInputBuffer := gInputBuffer m', gInputOverflow := gInputOverflow m'\<rparr>)
      \<lparr>gInputIndex := gInputIndex m'', gInputBuffer := gInputBuffer m'', gInputOverflow := gInputOverflow m''\<rparr>"
    using assms unfolding same_but_line_def by simp
  then show ?thesis unfolding same_but_line_def by simp
qed

lemma same_but_lineD: "same_but_line m m' \<Longrightarrow> gInterface m' = gInterface m \<and> m_sys m' = m_sys m \<and> m_vdu m' = m_vdu m"
  unfolding same_but_line_def by (metis (no_types, lifting) monitor.ext_inject monitor.surjective monitor.update_convs(11-13))

lemma word_printable: "line_char c \<Longrightarrow> 0x20 \<le> (word_of_int c :: u8) \<and> (word_of_int c :: u8) \<le> 0x7E"
  by (simp add: line_char_def word_le_def uint_word_of_int)

lemma reset_input:
  assumes "length (gInputBuffer m) = ICM_INPUT_BUFFER_SIZE"
  shows "input_ok (exec resetMonitorInput m) \<and> editor (exec resetMonitorInput m) = Some [] \<and>
    same_but_line m (exec resetMonitorInput m)"
  using assms by (simp add: resetMonitorInput_def input_ok_def editor_def same_but_line_def ICM_INPUT_BUFFER_SIZE_def)

lemma take_snoc_update: "i < length xs \<Longrightarrow> take (Suc i) (xs[i := x]) = take i xs @ [x]"
  by (simp add: take_Suc_conv_app_nth)

lemma append_input:
  assumes "input_ok m" and "c \<noteq> 0x7F"
  defines "m' \<equiv> exec (appendMonitorInput c) m"
  shows "input_ok m' \<and> same_but_line m m' \<and> (c \<noteq> 0x08 \<longrightarrow> editor m' = edit_line c (editor m))"
proof (cases "gInputOverflow m \<or> \<not> line_char c")
  case True
  then show ?thesis using assms(1,2)
    by (auto simp: m'_def appendMonitorInput_def same_but_line_refl editor_def line_char_def)
next
  case False
  then have p: "line_char c" "\<not> c < 0x20" "\<not> c > 0x7E" "\<not> gInputOverflow m" by (auto simp: line_char_def)
  note b = assms(1) [unfolded input_ok_def ICM_INPUT_BUFFER_SIZE_def]
  show ?thesis
  proof (cases "gInputIndex m < 39")
    case True
    define i where "i = gInputIndex m"
    have m': "m' = m\<lparr>gInputBuffer := (gInputBuffer m)[i := word_of_int c, i + 1 := 0], gInputIndex := i + 1\<rparr>"
      using p True by (simp add: m'_def appendMonitorInput_def i_def ICM_INPUT_BUFFER_SIZE_def)
    have "take (i + 1) ((gInputBuffer m)[i := word_of_int c, i + 1 := 0]) = take i (gInputBuffer m) @ [word_of_int c]"
      using b True by (simp add: i_def take_snoc_update)
    then show ?thesis
      using b True p word_printable [OF p(1)] unfolding m'
      by (auto simp: input_ok_def ICM_INPUT_BUFFER_SIZE_def editor_def same_but_line_def i_def line_char_def)
  next
    case False
    then show ?thesis using b p
      by (auto simp: m'_def appendMonitorInput_def input_ok_def ICM_INPUT_BUFFER_SIZE_def editor_def same_but_line_def line_char_def)
  qed
qed

lemma task_edits:
  assumes "input_ok m" and "gInterface m = 0" and "c \<noteq> 0x0A"
  shows "\<exists>m'. taskICMonitor bd env (Some c) m = Some m' \<and> input_ok m' \<and> same_but_line m m' \<and>
    editor m' = edit_line c (editor m)"
proof -
  consider "c = 0x08 \<or> c = 0x7F" | "c = -1 \<or> c = 0x0D" | "c \<notin> {0x08, 0x7F, -1, 0x0D}" by blast
  then show ?thesis
  proof cases
    case 1
    show ?thesis
    proof (cases "gInputIndex m \<ge> 1")
      case True
      define i where "i = gInputIndex m - 1"
      have i: "gInputIndex m = Suc i" using True by (simp add: i_def)
      note b = assms(1) [unfolded input_ok_def ICM_INPUT_BUFFER_SIZE_def]
      have "take (Suc i) (gInputBuffer m) = take i (gInputBuffer m) @ [gInputBuffer m ! i]"
        using b i by (simp add: take_Suc_conv_app_nth)
      moreover have "\<not> gInputOverflow m" using b i by auto
      ultimately show ?thesis using 1 b assms(2)
        by (auto simp: taskICMonitor_def i input_ok_def ICM_INPUT_BUFFER_SIZE_def editor_def same_but_line_def)
    next
      case False
      then have "gInputIndex m = 0" by simp
      then show ?thesis using 1 assms by (auto simp: taskICMonitor_def editor_def same_but_line_refl)
    qed
  next
    case 2
    then show ?thesis using assms by (auto simp: taskICMonitor_def editor_def same_but_line_refl line_char_def)
  next
    case 3
    then show ?thesis using assms append_input [OF assms(1), of c] by (simp add: taskICMonitor_def)
  qed
qed

text \<open>No command touches the line.\<close>

definition line_of :: "('b, 'f, 'd, 'k) monitor \<Rightarrow> nat \<times> u8 list \<times> bool" where
  "line_of m = (gInputIndex m, gInputBuffer m, gInputOverflow m)"

lemma line_of_upd [simp]:
  "line_of (m\<lparr>m_sys := s\<rparr>) = line_of m" "line_of (m\<lparr>m_vdu := v\<rparr>) = line_of m" "line_of (m\<lparr>m_keymap := k\<rparr>) = line_of m"
  "line_of (m\<lparr>m_sys_config := t\<rparr>) = line_of m" "line_of (m\<lparr>m_labels := ls\<rparr>) = line_of m"
  "line_of (m\<lparr>m_serial := out\<rparr>) = line_of m" "line_of (m\<lparr>gInMonitor := b\<rparr>) = line_of m"
  "line_of (m\<lparr>gInterface := i\<rparr>) = line_of m"
  by (simp_all add: line_of_def)

lemmas command_defs = cmdBootCallback_def cmdClockCallback_def cmdMMUCallback_def cmdDisAsmCallback_def cmdGoCallback_def
  cmdIRQCallback_def cmdKeymapCallback_def cmdInfoCallback_def cmdDumpCallback_def
  cmdMonitorCallback_def cmdResetCallback_def cmdSCCallback_def cmdStopCallback_def cmdSysConfigCallback_def
  cmdCommandCallback_def cmdTimerCallback_def cmdPageCallback_def cmdZeroCallback_def

lemma command_line_for_each:
  assumes "\<And>i m. line_of (exec (f i) m) = line_of m"
  shows "line_of (exec (for_each is f) m) = line_of m"
  using assms by (induction "is" arbitrary: m) simp_all

lemma commands_keep_line:
  "line_of (exec (cmdBootCallback bd t) m) = line_of m" "line_of (exec (cmdClockCallback f) m) = line_of m"
  "line_of (exec (cmdMMUCallback bd) m) = line_of m" "line_of (exec (cmdDisAsmCallback bd a b) m) = line_of m"
  "line_of (exec (cmdGoCallback bd) m) = line_of m" "line_of (exec (cmdIRQCallback bd) m) = line_of m"
  "line_of (exec (cmdKeymapCallback a) m) = line_of m" "line_of (exec (cmdInfoCallback bd) m) = line_of m"
  "line_of (exec (cmdDumpCallback bd a b) m) = line_of m" "line_of (exec (cmdMonitorCallback bd) m) = line_of m"
  "line_of (exec (cmdResetCallback bd ff) m) = line_of m" "line_of (exec (cmdSCCallback bd a) m) = line_of m"
  "line_of (exec (cmdStopCallback bd) m) = line_of m" "line_of (exec (cmdSysConfigCallback bd ls) m) = line_of m"
  "line_of (exec (cmdCommandCallback bd a) m) = line_of m" "line_of (exec (cmdTimerCallback bd i t) m) = line_of m"
  "line_of (exec (cmdPageCallback bd a b) m) = line_of m" "line_of (exec (cmdZeroCallback bd) m) = line_of m"
  by (simp_all add: command_defs Let_def command_line_for_each)

lemma other_commands_keep_line:
  "line_of (exec (cmdSSCallback bd a) m) = line_of m"
  "line_of (exec (cmdFSBulkCallback bd ff a b) m) = line_of m"
  "cmdMemCallback bd args m = Some m' \<Longrightarrow> line_of m' = line_of m"
  "cmdFSTestCallback ff a m = Some m' \<Longrightarrow> line_of m' = line_of m"
  "cmdLSCallback ff a b m = Some (r, m') \<Longrightarrow> line_of m' = line_of m"
proof -
  show "line_of (exec (cmdSSCallback bd a) m) = line_of m"
    unfolding cmdSSCallback_def by (rule command_line_for_each) (simp add: Let_def)
  show "line_of (exec (cmdFSBulkCallback bd ff a b) m) = line_of m"
    by (simp add: cmdFSBulkCallback_def Let_def split: option.split)
  show "cmdMemCallback bd args m = Some m' \<Longrightarrow> line_of m' = line_of m"
    by (auto simp: cmdMemCallback_def Let_def command_line_for_each split: if_splits)
  show "cmdFSTestCallback ff a m = Some m' \<Longrightarrow> line_of m' = line_of m"
    by (auto simp: cmdFSTestCallback_def Let_def split: if_splits)
  show "cmdLSCallback ff a b m = Some (r, m') \<Longrightarrow> line_of m' = line_of m"
    by (auto simp: cmdLSCallback_def Let_def split: option.splits if_splits)
qed

lemma run_command_keeps_line:
  assumes "run_command bd env name args m = Some m'"
  shows "line_of m' = line_of m"
  using assms unfolding run_command_def
  by (auto simp: commands_keep_line other_commands_keep_line split: if_splits)

lemma parse_keeps_line: "parse_line bd env l m = Some m' \<Longrightarrow> line_of m' = line_of m"
  by (auto simp: parse_line_def split: option.splits dest: run_command_keeps_line)

text \<open>Rounds of the task with a byte each.\<close>

fun serial_input ::
  "'b board \<Rightarrow> ('f, 'd, 'k) monitor_env \<Rightarrow> int list \<Rightarrow> ('b, 'f, 'd, 'k) monitor \<Rightarrow> ('b, 'f, 'd, 'k) monitor option" where
  "serial_input bd env [] m = Some m"
| "serial_input bd env (c # cs) m =
     (case taskICMonitor bd env (Some c) m of None \<Rightarrow> None | Some m' \<Rightarrow> serial_input bd env cs m')"

lemma serial_input_edits:
  assumes "input_ok m" and "gInterface m = 0" and "0x0A \<notin> set cs"
  shows "\<exists>m'. (\<forall>ds. serial_input bd env (cs @ ds) m = serial_input bd env ds m') \<and> input_ok m' \<and> same_but_line m m' \<and>
    editor m' = fold edit_line cs (editor m)"
  using assms
proof (induction cs arbitrary: m)
  case Nil
  then show ?case by (auto intro: same_but_line_refl)
next
  case (Cons c cs)
  obtain m1 where m1: "taskICMonitor bd env (Some c) m = Some m1" "input_ok m1" "same_but_line m m1"
    "editor m1 = edit_line c (editor m)"
    using task_edits [OF Cons.prems(1,2), of c] Cons.prems(3) by auto
  then have "gInterface m1 = 0" using Cons.prems(2) same_but_lineD by metis
  then obtain m' where "\<forall>ds. serial_input bd env (cs @ ds) m1 = serial_input bd env ds m'" "input_ok m'"
    "same_but_line m1 m'" "editor m' = fold edit_line cs (editor m1)"
    using Cons.IH [OF m1(2)] Cons.prems(3) by auto
  then show ?case using m1 by (auto intro: same_but_line_trans)
qed

lemma input_line_editor:
  assumes "input_ok m" and "\<not> gInputOverflow m"
  shows "input_line m = take (gInputIndex m) (gInputBuffer m)"
proof -
  let ?i = "gInputIndex m" and ?b = "gInputBuffer m"
  have keep: "\<forall>c\<in>set (take ?i ?b). c \<noteq> 0" using assms(1) by (auto simp: input_ok_def)
  have "?b = take ?i ?b @ 0 # drop (Suc ?i) ?b"
    using assms(1) id_take_nth_drop [of ?i ?b] by (simp add: input_ok_def)
  then have "takeWhile (\<lambda>c. c \<noteq> 0) ?b = takeWhile (\<lambda>c. c \<noteq> 0) (take ?i ?b @ 0 # drop (Suc ?i) ?b)" by simp
  also have "\<dots> = take ?i ?b" using keep by (subst takeWhile_append2) auto
  finally show ?thesis by (simp add: input_line_def)
qed

lemma task_newline:
  assumes "input_ok m" and "gInterface m = 0"
  shows "taskICMonitor bd env (Some 0x0A) m =
    map_option (exec resetMonitorInput) (case editor m of None \<Rightarrow> Some m | Some l \<Rightarrow> parse_line bd env l m)"
  using assms input_line_editor [OF assms(1)]
  by (auto simp: taskICMonitor_def editor_def split: option.split)

lemma edit_all:
  assumes "\<forall>c\<in>set cs. line_char c" and "length l < 40"
  shows "fold edit_line cs (Some l) = (if length l + length cs < 40 then Some (l @ map word_of_int cs) else None)"
  using assms
proof (induction cs arbitrary: l)
  case (Cons c cs)
  have "fold edit_line xs None = None" for xs by (induction xs) simp_all
  then show ?case using Cons by (auto simp: line_char_def)
qed simp

text \<open>
  C27: The command line. Whatever bytes arrive before a newline, backspaces and control bytes included, the parser is
  called with the line a person would read, at most 39 printable characters, and not at all when the line was ever
  longer; the state the command sees differs from that before the line in the buffer alone, and afterwards the
  buffer is empty. A printable line of less than 40 characters is parsed as it was typed.
\<close>

theorem command_line_parsed:
  assumes "input_ok m" and "gInterface m = 0" and "editor m = Some []" and "0x0A \<notin> set cs"
  shows "\<exists>m'. same_but_line m m' \<and>
    serial_input bd env (cs @ [0x0A]) m =
      map_option (exec resetMonitorInput)
        (case fold edit_line cs (Some []) of None \<Rightarrow> Some m' | Some l \<Rightarrow> parse_line bd env l m') \<and>
    (\<forall>l. fold edit_line cs (Some []) = Some l \<longrightarrow> length l < 40 \<and> (\<forall>c\<in>set l. 0x20 \<le> c \<and> c \<le> 0x7E)) \<and>
    (\<forall>r. serial_input bd env (cs @ [0x0A]) m = Some r \<longrightarrow> input_ok r \<and> editor r = Some []) \<and>
    ((\<forall>c\<in>set cs. line_char c) \<longrightarrow>
      fold edit_line cs (Some []) = (if length cs < 40 then Some (map word_of_int cs) else None))"
proof -
  obtain m' where m': "\<forall>ds. serial_input bd env (cs @ ds) m = serial_input bd env ds m'" "input_ok m'"
    "same_but_line m m'" "editor m' = fold edit_line cs (Some [])"
    using serial_input_edits [OF assms(1,2,4), of bd env] assms(3) by auto
  have i: "gInterface m' = 0" using m'(3) assms(2) same_but_lineD by metis
  have run: "serial_input bd env (cs @ [0x0A]) m =
      map_option (exec resetMonitorInput)
        (case fold edit_line cs (Some []) of None \<Rightarrow> Some m' | Some l \<Rightarrow> parse_line bd env l m')"
    using m' task_newline [OF m'(2) i, of bd env] by (simp split: option.split)
  have line: "length l < 40 \<and> (\<forall>c\<in>set l. 0x20 \<le> c \<and> c \<le> 0x7E)" if "fold edit_line cs (Some []) = Some l" for l
    using that m'(2,4) by (auto simp: editor_def input_ok_def ICM_INPUT_BUFFER_SIZE_def split: if_splits)
  have after: "input_ok r \<and> editor r = Some []" if r: "serial_input bd env (cs @ [0x0A]) m = Some r" for r
  proof -
    obtain n where n: "r = exec resetMonitorInput n" "line_of n = line_of m'"
      using r unfolding run by (auto split: option.splits dest: parse_keeps_line)
    then show ?thesis using m'(2) reset_input [of n] by (simp add: line_of_def input_ok_def)
  qed
  show ?thesis using m'(3) run line after edit_all [of cs "[]"] by (intro exI [of _ m']) auto
qed

section \<open>Console input\<close>

lemma queue_line_spec:
  assumes "queues_ok q" and "0 \<notin> set w"
  shows "val_of (queue_line (w @ [0])) q \<longleftrightarrow> length (to_cpu q) + length w \<le> 127"
    and "queues_ok (exec (queue_line (w @ [0])) q)"
    and "to_cpu (exec (queue_line (w @ [0])) q) = take 127 (to_cpu q @ w)"
    and "to_vdu (exec (queue_line (w @ [0])) q) = to_vdu q"
proof -
  have "(val_of (queue_line (w @ [0])) q \<longleftrightarrow> length (to_cpu q) + length w \<le> 127) \<and>
      queues_ok (exec (queue_line (w @ [0])) q) \<and>
      to_cpu (exec (queue_line (w @ [0])) q) = take 127 (to_cpu q @ w) \<and>
      to_vdu (exec (queue_line (w @ [0])) q) = to_vdu q"
    using assms
  proof (induction w arbitrary: q)
    case Nil
    then show ?case using ring.items_bound [of "cpu_tx_fifo q"] by (simp add: queues_ok_def)
  next
    case (Cons c w)
    have b: "length (to_cpu q) \<le> 127"
      using Cons.prems(1) ring.items_bound [of "cpu_tx_fifo q"] by (simp add: queues_ok_def)
    note s = writeCPUQ_spec [OF Cons.prems(1), of c]
    have c: "c \<noteq> 0" "0 \<notin> set w" using Cons.prems(2) by auto
    show ?case
    proof (cases "length (to_cpu q) < 127")
      case True
      then have "to_cpu (exec (writeCPUQ c) q) = to_cpu q @ [c]" using s(3) by simp
      then show ?thesis using Cons.IH [OF s(2) c(2)] s c True by auto
    next
      case False
      then have "length (to_cpu q) = 127" using b by simp
      then show ?thesis using s c False by simp
    qed
  qed
  then show "val_of (queue_line (w @ [0])) q \<longleftrightarrow> length (to_cpu q) + length w \<le> 127"
    and "queues_ok (exec (queue_line (w @ [0])) q)"
    and "to_cpu (exec (queue_line (w @ [0])) q) = take 127 (to_cpu q @ w)"
    and "to_vdu (exec (queue_line (w @ [0])) q) = to_vdu q" by blast+
qed

text \<open>Output that may wait for a scroll: \<open>None\<close> is a wait without end.\<close>

definition vdu_output :: "u8 \<Rightarrow> vdu option \<Rightarrow> vdu option" where
  "vdu_output c v = Option.bind v (vduPutc c)"

text \<open>The part of a round of \<open>loop()\<close> that a key of the keyboard passes: the key, and the output task.\<close>

definition key_round :: "u8 \<Rightarrow> ('b, 'f, 'd, 'k) monitor \<Rightarrow> ('b, 'f, 'd, 'k) monitor option" where
  "key_round c m =
     (let m1 = exec (monitorConsoleInput c False) m in
      case taskInput vdu_output (qs (m_sys m1)) (Some (m_vdu m1)) of
        Some (q, Some v) \<Rightarrow> Some (m1\<lparr>m_sys := (m_sys m1)\<lparr>qs := q\<rparr>, m_vdu := v\<rparr>)
      | _ \<Rightarrow> None)"

fun key_rounds :: "u8 list \<Rightarrow> ('b, 'f, 'd, 'k) monitor \<Rightarrow> ('b, 'f, 'd, 'k) monitor option" where
  "key_rounds [] m = Some m"
| "key_rounds (c # cs) m = (case key_round c m of None \<Rightarrow> None | Some m' \<Rightarrow> key_rounds cs m')"

lemma key_round_prints:
  assumes "queues_ok (qs (m_sys m))" and "to_vdu (qs (m_sys m)) = []" and "gAsScreenMode (m_vdu m)"
    and "0x20 \<le> c" and "vduPutc c (m_vdu m) = Some v"
  shows "\<exists>m'. key_round c m = Some m' \<and> m_vdu m' = v \<and> queues_ok (qs (m_sys m')) \<and> to_vdu (qs (m_sys m')) = [] \<and>
    to_cpu (qs (m_sys m')) = to_cpu (qs (m_sys m))"
proof -
  let ?q = "exec (writeVDUQ c) (qs (m_sys m))"
  note w = writeVDUQ_spec [OF assms(1), of c]
  have c: "c \<noteq> 0" "c \<noteq> 0x03" "c \<noteq> 0x0A" "c \<noteq> 0x0D" using assms(4) by auto
  have m1: "exec (monitorConsoleInput c False) m = m\<lparr>m_sys := (m_sys m)\<lparr>qs := ?q\<rparr>\<rparr>"
    using c assms(3) by (simp add: monitorConsoleInput_def getAsScreenMode_def)
  obtain q' where q': "processVDUoutQ vdu_output (vdu_tx_fifo ?q) (Some (m_vdu m)) =
      Some (q', fold vdu_output (to_vdu ?q) (Some (m_vdu m)))" "fifo_ok q'" "contents q' = []"
      "capacity q' = capacity (vdu_tx_fifo ?q)"
    using processVDUoutQ_drains [of "vdu_tx_fifo ?q" vdu_output "Some (m_vdu m)"] w(1) unfolding queues_ok_def by blast
  have out: "fold vdu_output (to_vdu ?q) (Some (m_vdu m)) = Some v"
    using w(2) assms(2,5) c by (simp add: vdu_output_def)
  show ?thesis
    using q' out w(1,3) unfolding key_round_def m1
    by (simp add: taskInput_def queues_ok_def)
qed

lemma key_rounds_print:
  assumes "queues_ok (qs (m_sys m))" and "to_vdu (qs (m_sys m)) = []" and "gAsScreenMode (m_vdu m)"
    and "vdu_ok (m_vdu m)" and "textMode (vduMode (m_vdu m))" and "clock_runs (vdu_clock (m_vdu m))"
    and "\<not> scrollActive (m_vdu m)" and "printed w" and "cur_col (gCursor (m_vdu m)) + length w < 80"
  shows "\<exists>m'. key_rounds w m = Some m' \<and> vduPrintStr w (m_vdu m) = Some (m_vdu m') \<and>
    queues_ok (qs (m_sys m')) \<and> to_vdu (qs (m_sys m')) = [] \<and> to_cpu (qs (m_sys m')) = to_cpu (qs (m_sys m))"
  using assms
proof (induction w arbitrary: m)
  case (Cons c w)
  let ?s = "m_vdu m"
  have c: "0x20 \<le> c" "c \<noteq> 0x7F" "cur_col (gCursor ?s) < 79" "printed w"
    using Cons.prems(8,9) by (auto simp: printed_def)
  note still = put_keeps_still [OF c(1-3) Cons.prems(5)]
  have putc: "vduPutc c ?s = Some (put_now c ?s)" using Cons.prems(7) by (simp add: vduPutc_def wait_scroll.simps)
  have u: "vdu_ok (put_now c ?s)" "term_of (put_now c ?s) = t_put c (term_of ?s)" "vduMode (put_now c ?s) = vduMode ?s"
    "vdu_clock (put_now c ?s) = vdu_clock ?s"
    using putc_agrees [OF Cons.prems(4-6), of c] putc by auto
  have "gAsScreenMode (put_now c ?s) = gAsScreenMode ?s"
  proof -
    have "\<not> c < 0x20" "c \<notin> {0, 0x08, 0x0A, 0x0D, 0x7F}" using c(1,2) by auto
    then have "t_screen_mode (t_put c (term_of ?s)) = t_screen_mode (term_of ?s)"
      by (simp add: t_put_def t_edit_def t_advance_def t_newline_def t_scroll_def Let_def)
    then show ?thesis using arg_cong [OF u(2), of t_screen_mode] by (simp add: term_of_def)
  qed
  moreover obtain m1 where m1: "key_round c m = Some m1" "m_vdu m1 = put_now c ?s" "queues_ok (qs (m_sys m1))"
    "to_vdu (qs (m_sys m1)) = []" "to_cpu (qs (m_sys m1)) = to_cpu (qs (m_sys m))"
    using key_round_prints [OF Cons.prems(1-3) c(1) putc] by blast
  ultimately show ?case
    using Cons.IH [OF m1(3,4)] u still c Cons.prems by (auto simp: putc)
qed simp

text \<open>
  C28: A line typed in as-screen mode reaches the 6502. When up to 79 printable characters without a final space come
  from the keyboard, one in a round, on an empty screen line, each is echoed by the output task and none goes to
  the 6502; the Enter key then queues exactly this line and a carriage return for the 6502, behind what waits
  there, provided that this fits.
\<close>

theorem typed_line_delivered:
  fixes m :: "('b, 'f, 'd, 'k) monitor"
  assumes "queues_ok (qs (m_sys m))" and "to_vdu (qs (m_sys m)) = []" and "gAsScreenMode (m_vdu m)"
    and "vdu_ok (m_vdu m)" and "textMode (vduMode (m_vdu m))" and "clock_runs (vdu_clock (m_vdu m))"
    and "\<not> scrollActive (m_vdu m)" and "cur_col (gCursor (m_vdu m)) = 0" and "blank_line (term_of (m_vdu m))"
    and "\<not> gInsertMode (m_vdu m)" and "printed w" and "length w < 80" and "w \<noteq> []" and "last w \<noteq> SPACE_CHAR"
    and "length (to_cpu (qs (m_sys m))) + length w < 127"
  shows "\<exists>m1. key_rounds w m = Some m1 \<and> to_cpu (qs (m_sys m1)) = to_cpu (qs (m_sys m)) \<and>
    (let m2 = exec (monitorConsoleInput 0x0D allow) m1
     in val_of (monitorConsoleInput 0x0D allow) m1 \<and> queues_ok (qs (m_sys m2)) \<and>
        to_cpu (qs (m_sys m2)) = to_cpu (qs (m_sys m)) @ w @ [0x0D] \<and> to_vdu (qs (m_sys m2)) = [0x0D])"
proof -
  obtain v where v: "vduPrintStr w (m_vdu m) = Some v" "gAsScreenMode v" "vduGetCurrentScreenline v = w @ [0]"
    using line_read_back [OF assms(4-14)] assms(3) by auto
  obtain m1 where m1: "key_rounds w m = Some m1" "m_vdu m1 = v" "queues_ok (qs (m_sys m1))"
    "to_vdu (qs (m_sys m1)) = []" "to_cpu (qs (m_sys m1)) = to_cpu (qs (m_sys m))"
    using key_rounds_print [OF assms(1-7,11)] assms(8,12) v(1) by auto
  note e = writeVDUQ_spec [OF m1(3), of "0x0D"]
  let ?q = "exec (writeVDUQ 0x0D) (qs (m_sys m1))"
  have "0 \<notin> set w" using assms(11) by (auto simp: printed_def)
  note l = queue_line_spec [OF e(1) this]
  note r = writeCPUQ_spec [OF l(2), of "0x0D"]
  have screen: "gAsScreenMode (vduRestoreCursor v) = gAsScreenMode v"
    by (simp add: vduRestoreCursor_def Let_def moveCursor_def core_sel [OF show_cursor(1)] core_sel [OF hide_cursor(1)]
      cmdScrollUp_def rotate_text_def take_pending_row_def)
  have "val_of (monitorConsoleInput 0x0D allow) m1 \<and>
      qs (m_sys (exec (monitorConsoleInput 0x0D allow) m1)) = exec (writeCPUQ 0x0D) (exec (queue_line (w @ [0])) ?q)"
    using l r e(3) m1(2,5) v(2,3) assms(15) screen
    by (simp add: monitorConsoleInput_def getAsScreenMode_def)
  then show ?thesis using m1 l r e assms(15) by (auto simp: Let_def)
qed

text \<open>The monitor as its static initialisers leave it, on a machine and a terminal.\<close>

definition initial_monitor :: "'b machine \<Rightarrow> vdu \<Rightarrow> ('b, unit, nat, unit) monitor" where
  "initial_monitor mc v =
     \<lparr>m_sys = initial_sys mc, m_vdu = v,
      m_keymap = \<lparr>g_keyboardLocale = USB_KEYBOARD_LOCALE_US, g_activeLayout = None\<rparr>, m_files = Map.empty,
      m_memory_config = no_config, m_sys_config = resetTables, m_labels = [], m_serial = [], gInMonitor = False,
      gInterface = 0, gInputIndex = 0, gInputBuffer = replicate 40 0, gInputOverflow = False\<rparr>"

lemma initial_monitor_ok:
  "input_ok (initial_monitor mc v)" "gInterface (initial_monitor mc v) = 0" "editor (initial_monitor mc v) = Some []"
  "m_vdu (initial_monitor mc v) = v" "m_sys (initial_monitor mc v) = initial_sys mc"
  by (simp_all add: initial_monitor_def input_ok_def ICM_INPUT_BUFFER_SIZE_def editor_def)

lemma initial_sys_parts:
  "qs (initial_sys mc) = initial_queues" "mach (initial_sys mc) = mc" "to_cpu initial_queues = []" "to_vdu initial_queues = []"
  "files (initial_sys mc) = initial_fs () 0 ()" "sch (initial_sys mc) = initial_scheduler"
  by (simp_all add: initial_sys_def initial_queues_def empty_fifo_ok)

lemma typed_line_delivered_witness:
  "\<exists>m1. key_rounds [0x44, 0x49, 0x52] (initial_monitor (powered_up id) (setAsScreenMode True vdu_up)) = Some m1 \<and>
    to_cpu (qs (m_sys (exec (monitorConsoleInput 0x0D False) m1))) = [0x44, 0x49, 0x52, 0x0D]"
proof -
  let ?m = "initial_monitor (powered_up id) (setAsScreenMode True vdu_up)"
  have v: "m_vdu ?m = setAsScreenMode True vdu_up" "qs (m_sys ?m) = initial_queues"
    by (simp_all add: initial_monitor_ok initial_sys_parts)
  have s: "vdu_ok (m_vdu ?m)" "textMode (vduMode (m_vdu ?m))" "clock_runs (vdu_clock (m_vdu ?m))"
    "\<not> scrollActive (m_vdu ?m)" "cur_col (gCursor (m_vdu ?m)) = 0" "blank_line (term_of (m_vdu ?m))"
    "\<not> gInsertMode (m_vdu ?m)" "gAsScreenMode (m_vdu ?m)"
    unfolding v(1) using vdu_up vdu_ok_simple(4) [of True vdu_up]
    by (simp_all add: setAsScreenMode_def term_of_def blank_line_def)
  have q: "queues_ok (qs (m_sys ?m))" "to_vdu (qs (m_sys ?m)) = []" "to_cpu (qs (m_sys ?m)) = []"
    by (simp_all add: v initial_sys_parts queues_ok_initial)
  show ?thesis
    using typed_line_delivered [OF q(1,2) s(8,1-7), of "[0x44, 0x49, 0x52]" False] q(3)
    by (auto simp: Let_def printed_def)
qed

definition demo_env :: "(unit, nat, unit) monitor_env" where
  "demo_env = \<lparr>env_fatfs = null_fatfs, env_millis = 0, env_mhz = (\<lambda>_. 0), env_interval = (\<lambda>_. 0), env_menu_lines = [],
     env_parse = (\<lambda>l. if l = [0x67] then Some (''g/o'', []) else None)\<rparr>"

text \<open>A mistyped \<open>h\<close>, a backspace, and \<open>g\<close>: the processor runs.\<close>

lemma command_line_parsed_witness:
  "\<exists>m' r. same_but_line (initial_monitor (powered_up id) vdu_up) m' \<and>
    serial_input (ref_board id) demo_env [0x68, 0x08, 0x67, 0x0A] (initial_monitor (powered_up id) vdu_up) = Some r \<and>
    r = exec resetMonitorInput (exec (cmdGoCallback (ref_board id)) m') \<and> editor r = Some []"
proof -
  let ?m = "initial_monitor (powered_up id) vdu_up"
  have "fold edit_line [0x68, 0x08, 0x67] (Some []) = Some [0x67]" by (simp add: line_char_def)
  moreover have "parse_line (ref_board id) demo_env [0x67] m = Some (exec (cmdGoCallback (ref_board id)) m)" for m
    by (simp add: parse_line_def demo_env_def run_command_def)
  ultimately show ?thesis
    using command_line_parsed [OF initial_monitor_ok(1-3), of "[0x68, 0x08, 0x67]" "powered_up id" vdu_up "ref_board id" demo_env]
    by fastforce
qed

text \<open>
  C33: The break key. Ctrl-C is taken out of the input on every path, terminal or keyboard: queues, screen and command
  line stay as they are, and the next round of the interrupt task interrupts the 6502 with the source of a console
  break if the interrupt slot is free.
\<close>

theorem break_key_interrupts:
  fixes m :: "('b, 'f, 'd, 'k) monitor"
  assumes "mailbox_bus bd view cpu R" and "port_ok (absm view (mach (m_sys m)))"
    and "gSysState (mach (m_sys m)) \<notin> {sRESET, sBOOT}" and "irq_ok view (m_sys m)"
    and "\<not> gIntrPending (sch (m_sys m))"
  shows "let m1 = exec (monitorConsoleInput 0x03 allow) m;
             s' = exec (taskIRQTimer bd now now') (m_sys m1)
    in val_of (monitorConsoleInput 0x03 allow) m \<and> qs (m_sys m1) = qs (m_sys m) \<and> m_vdu m1 = m_vdu m \<and>
       gInterface m1 = gInterface m \<and> line_of m1 = line_of m \<and>
       smem view s' RP_IRQ_SOURCE = RP_SRC_CONSOLE_BREAK \<and> irq_asserted (absm view (mach s')) \<and>
       \<not> gConsoleBreakPending (sch s')"
proof -
  define s where "s = exec requestConsoleBreakIRQ (m_sys m)"
  have s: "mach s = mach (m_sys m)" "qs s = qs (m_sys m)" "irq_ok view s" "\<not> gIntrPending (sch s)" "gConsoleBreakPending (sch s)"
    using assms(4,5) by (simp_all add: s_def requestConsoleBreakIRQ_def irq_ok_def irq_abs_def)
  have m1: "exec (monitorConsoleInput 0x03 allow) m = m\<lparr>m_sys := s\<rparr>" "val_of (monitorConsoleInput 0x03 allow) m"
    by (simp_all add: monitorConsoleInput_def s_def)
  have "gSysState (absm view (mach s)) \<notin> {sRESET, sBOOT}" using assms(3) by (simp add: s)
  from mailbox_bus.taskIRQTimer_run [OF assms(1) keeps_port_refl this s(3), of now now'] assms(2)
  have "irq_ok view (exec (taskIRQTimer bd now now') s) \<and>
      irq_abs (exec (taskIRQTimer bd now now') s) = (irq_abs s)\<lparr>taken := True, brk := False\<rparr> \<and>
      smem view (exec (taskIRQTimer bd now now') s) RP_IRQ_SOURCE = RP_SRC_CONSOLE_BREAK"
    by (simp add: s arbitrate_def irq_abs_def)
  then show ?thesis by (simp add: m1 s Let_def irq_abs_def irq_ok_def)
qed

lemma break_key_interrupts_witness:
  "let m = (initial_monitor (powered_up id) vdu_up)\<lparr>m_sys := example_sched\<rparr>
   in smem id (exec (taskIRQTimer (ref_board example_cpu) 0 0) (m_sys (exec (monitorConsoleInput 0x03 True) m))) RP_IRQ_SOURCE =
      RP_SRC_CONSOLE_BREAK"
proof -
  let ?m = "(initial_monitor (powered_up id) vdu_up)\<lparr>m_sys := example_sched\<rparr>"
  note e = example_sched_ok
  have "\<not> gIntrPending (sch (m_sys ?m))" using e(4) by (simp add: irq_abs_def)
  then show ?thesis
    using break_key_interrupts [OF guarded_mailbox.mailbox_bus_axioms, where m = ?m and allow = True and now = 0 and now' = 0] e
    by (simp add: Let_def)
qed

end
