(* ===== verification/Monitor_Memory_Spec.thy ===== *)
theory Monitor_Memory_Spec
  imports Monitor_Spec
begin

text \<open>
  The commands of \<open>monitor.cpp\<close> for memory and pages: \<open>>\<close> with the texts of addresses and bytes, \<open>zero\<close>, and \<open>page\<close>
  with the index cache of the MMU.
\<close>

section \<open>Hexadecimal texts\<close>

lemma hex_value_char: "hex_value (hex_char n) = Some (n mod 16)"
proof -
  have "\<forall>k\<in>set [0..<16]. hex_value (''0123456789ABCDEF'' ! k) = Some k" by code_simp
  then have "hex_value (''0123456789ABCDEF'' ! (n mod 16)) = Some (n mod 16)" by (rule bspec) simp
  then show ?thesis by (simp add: hex_char_def)
qed

lemma nibbles16: "((((n div 4096 mod 16) * 16 + n div 256 mod 16) * 16 + n div 16 mod 16) * 16 + n mod 16) = n mod 65536"
  for n :: nat
proof -
  have "n mod 65536 = n mod (16 * 4096)" by simp
  also have "\<dots> = 16 * (n div 16 mod 4096) + n mod 16" by (simp only: mod_mult2_eq)
  also have "n div 16 mod 4096 = n div 16 mod (16 * 256)" by simp
  also have "\<dots> = 16 * (n div 16 div 16 mod 256) + n div 16 mod 16" by (simp only: mod_mult2_eq)
  also have "n div 16 div 16 mod 256 = n div 16 div 16 mod (16 * 16)" by simp
  also have "\<dots> = 16 * (n div 16 div 16 div 16 mod 16) + n div 16 div 16 mod 16" by (simp only: mod_mult2_eq)
  finally show ?thesis by (simp add: div_mult2_eq [symmetric])
qed

lemma word_back: "ucast (of_nat (unat a) :: u32) = a" "ucast (of_nat (unat b) :: u32) = b" for a :: u16 and b :: u8
  by (rule bit_word_eqI, simp add: bit_simps)+

lemma x2i_hex4: "ucast (x2i (hex4 a)) = a"
proof -
  let ?n = "unat a"
  have "x2i (hex4 a) = of_nat ((((?n div 4096 mod 16) * 16 + ?n div 256 mod 16) * 16 + ?n div 16 mod 16) * 16 + ?n mod 16)"
    by (simp add: x2i_def hex4_def hex_value_char)
  also have "\<dots> = of_nat ?n" unfolding nibbles16 using unsigned_less [of a, where 'a = nat] by simp
  finally show ?thesis by (simp only: word_back)
qed

lemma x2i_hex2: "ucast (x2i (hex2 b)) = b"
proof -
  let ?n = "unat b"
  have "?n < 16 * 16" using unsigned_less [of b, where 'a = nat] by simp
  then have q: "?n div 16 mod 16 = ?n div 16" by (simp add: div_less_iff_less_mult)
  have "x2i (hex2 b) = of_nat (?n div 16 mod 16 * 16 + ?n mod 16)"
    by (simp add: x2i_def hex2_def hex_value_char)
  also have "\<dots> = of_nat ?n" unfolding q by (simp only: div_mult_mod_eq)
  finally show ?thesis by (simp only: word_back)
qed

section \<open>Writing memory\<close>

context listing_bus
begin

lemma write_same:
  assumes "port_ok (absm view m)"
  shows "port_ok (absm view (exec (snoop_write6502Memory bd a vs) m)) \<and>
    keeps_port UNIV (absm view m) (absm view (exec (snoop_write6502Memory bd a vs) m)) \<and>
    mem (absm view (exec (snoop_write6502Memory bd a vs) m)) = store_bytes a vs (mem (absm view m))"
  using snoop_write_block [OF assms, where a = a and vs = vs] by (auto simp: fun_eq_iff dest: keeps_portD)

lemma mem_writes:
  fixes m :: "('b, 'f, 'd, 'k) monitor"
  assumes "port_ok (absm view (mach (m_sys m)))" and "k \<ge> 1"
  shows "\<exists>mc. exec (for_each [k..<k + n]
      (\<lambda>i. on_bus (snoop_write6502Memory bd (start + of_nat (i - 1)) [f i]))) m = m\<lparr>m_sys := (m_sys m)\<lparr>mach := mc\<rparr>\<rparr> \<and>
    keeps_port UNIV (absm view (mach (m_sys m))) (absm view mc) \<and>
    mem (absm view mc) = store_bytes (start + of_nat (k - 1)) (map f [k..<k + n]) (mem (absm view (mach (m_sys m))))"
  using assms
proof (induction n arbitrary: k m)
  case 0
  then show ?case by (intro exI [of _ "mach (m_sys m)"]) (simp add: keeps_port_refl)
next
  case (Suc n)
  define mc where "mc = exec (snoop_write6502Memory bd (start + of_nat (k - Suc 0)) [f k]) (mach (m_sys m))"
  note w = write_same [OF Suc.prems(1), of "start + of_nat (k - Suc 0)" "[f k]", folded mc_def]
  let ?p = "\<lambda>i. on_bus (snoop_write6502Memory bd (start + of_nat (i - 1)) [f i])"
  let ?m = "m\<lparr>m_sys := (m_sys m)\<lparr>mach := mc\<rparr>\<rparr>"
  obtain mc' where mc': "exec (for_each [Suc k..<Suc k + n] ?p) ?m = ?m\<lparr>m_sys := (m_sys ?m)\<lparr>mach := mc'\<rparr>\<rparr>"
    "keeps_port UNIV (absm view mc) (absm view mc')"
    "mem (absm view mc') = store_bytes (start + of_nat k) (map f [Suc k..<Suc k + n]) (mem (absm view mc))"
    using Suc.IH [of ?m "Suc k"] conjunct1 [OF w] by (auto simp del: upt_Suc)
  have range: "[k..<k + Suc n] = k # [Suc k..<Suc k + n]" by (simp add: upt_conv_Cons del: upt_Suc)
  have next_addr: "of_nat (k - Suc 0) + 1 = (of_nat k :: u16)" using Suc.prems(2) by (cases k) simp_all
  have run: "exec (for_each [k..<k + Suc n] ?p) m = m\<lparr>m_sys := (m_sys m)\<lparr>mach := mc'\<rparr>\<rparr>"
    unfolding range using mc'(1) by (simp add: mc_def del: upt_Suc)
  have written: "mem (absm view mc') =
      store_bytes (start + of_nat (k - Suc 0)) (map f [k..<k + Suc n]) (mem (absm view (mach (m_sys m))))"
    unfolding range using mc'(3) w by (simp add: add.assoc next_addr del: upt_Suc)
  show ?case using run written keeps_port_trans [OF _ mc'(2)] w by auto
qed

lemma mem_command:
  fixes m :: "('b, 'f, 'd, 'k) monitor" and a :: u16 and vs :: "u8 list"
  assumes "port_ok (absm view (mach (m_sys m)))" and "vs \<noteq> []" and "length vs < 255"
  defines "m' \<equiv> the (cmdMemCallback bd (hex4 a # map hex2 vs) m)"
    and "M \<equiv> store_bytes a vs (mem (absm view (mach (m_sys m))))"
    and "b \<equiv> a + of_nat (length vs) - 1"
  shows "cmdMemCallback bd (hex4 a # map hex2 vs) m = Some m'"
    and "keeps_port UNIV (absm view (mach (m_sys m))) (absm view (mach (m_sys m')))"
    and "mem (absm view (mach (m_sys m'))) = M"
    and "m_serial m' = m_serial m @ ''Dump '' @ hex4 a @ '' - '' @ hex4 b @ [CHR 0x0A] @
      concat (map (\<lambda>r. dump_line M (a + of_nat (r * 16))) [0..<dump_rows a b]) @ line_end"
proof -
  let ?args = "hex4 a # map hex2 vs"
  have range: "[1..<length ?args] = [1..<1 + length vs]" by simp
  have bytes: "map (\<lambda>i. ucast (x2i (?args ! i)) :: u8) [1..<1 + length vs] = vs"
    by (rule nth_equalityI) (simp_all add: x2i_hex2 del: upt_Suc)
  obtain mc where mc: "exec (for_each [1..<1 + length vs]
      (\<lambda>i. on_bus (snoop_write6502Memory bd (a + of_nat (i - 1)) [ucast (x2i (?args ! i))]))) m =
      m\<lparr>m_sys := (m_sys m)\<lparr>mach := mc\<rparr>\<rparr>"
    and k: "keeps_port UNIV (absm view (mach (m_sys m))) (absm view mc)" and M: "mem (absm view mc) = M"
    using mem_writes [OF assms(1), of 1 "length vs" a "\<lambda>i. ucast (x2i (?args ! i))"] unfolding bytes
    by (auto simp: M_def)
  define d where "d = \<lparr>dis_machine = mc, dis_labels = m_labels m,
    serial_out = m_serial m @ ''Dump '' @ hex4 a @ '' - '' @ hex4 b @ [CHR 0x0A]\<rparr>"
  have "port_ok (absm view (dis_machine d))" using keeps_portD(1) [OF k] by (simp add: d_def)
  note t = dump_memory_text [OF this, of a b]
  have len: "\<not> length ?args < 2" using assms(2) by (cases vs) simp_all
  have few: "\<not> 255 < length ?args" using assms(3) by simp
  have last: "ucast (x2i (?args ! 0)) + of_nat (length ?args - 1) - 1 = b" by (simp add: b_def x2i_hex4)
  have start: "ucast (x2i (?args ! 0)) = a" by (simp add: x2i_hex4)
  have m0: "cmdMemCallback bd ?args m = Some (let d' = exec (dumpMemory bd a b) d in
      m\<lparr>m_sys := (m_sys m)\<lparr>mach := dis_machine d'\<rparr>, m_labels := dis_labels d', m_serial := serial_out d'\<rparr>)"
    unfolding cmdMemCallback_def Let_def start
    by (simp only: if_not_P [OF len] if_not_P [OF few] exec_simps(4) range mc)
      (simp add: d_def Let_def b_def)
  note m' = m'_def [unfolded m0 option.sel]
  show "cmdMemCallback bd ?args m = Some m'" unfolding m' by (rule m0)
  show "keeps_port UNIV (absm view (mach (m_sys m))) (absm view (mach (m_sys m')))"
    "mem (absm view (mach (m_sys m'))) = M"
    using t k M unfolding m' by (auto simp: d_def Let_def same_memory_def intro: keeps_port_trans)
  show "m_serial m' = m_serial m @ ''Dump '' @ hex4 a @ '' - '' @ hex4 b @ [CHR 0x0A] @
      concat (map (\<lambda>r. dump_line M (a + of_nat (r * 16))) [0..<dump_rows a b]) @ line_end"
    using t M unfolding m' by (simp add: d_def Let_def)
qed

end

text \<open>C31: the monitor's command \<open>> ADDR BYTE...\<close> with an address and bytes printed as four and two hexadecimal
  digits ends and leaves exactly those bytes at that address (and nothing else changed in the 6502 memory, whatever
  the bank or index page it crosses into and with the address wrapping at the top), keeps the memory port
  serviceable, and answers with the dump of the range it has written, read back from the new memory.\<close>

theorem mem_command_writes:
  fixes bd :: "'b board" and m :: "('b, 'f, 'd, 'k) monitor" and a :: u16 and vs :: "u8 list"
  assumes "served_bus bd view cpu UNIV" and "port_ok (absm view (mach (m_sys m)))" and "vs \<noteq> []" and "length vs < 255"
  defines "M \<equiv> store_bytes a vs (mem (absm view (mach (m_sys m))))"
    and "b \<equiv> a + of_nat (length vs) - 1"
  shows "\<exists>m'. cmdMemCallback bd (hex4 a # map hex2 vs) m = Some m' \<and>
    keeps_port UNIV (absm view (mach (m_sys m))) (absm view (mach (m_sys m'))) \<and>
    mem (absm view (mach (m_sys m'))) = M \<and>
    m_serial m' = m_serial m @ ''Dump '' @ hex4 a @ '' - '' @ hex4 b @ [CHR 0x0A] @
      concat (map (\<lambda>r. dump_line M (a + of_nat (r * 16))) [0..<dump_rows a b]) @ line_end"
  unfolding M_def b_def
  using listing_bus.mem_command [OF listing_bus.intro [OF assms(1)] assms(2-4), of a] by blast

lemma mem_command_writes_witness:
  "\<exists>m'. cmdMemCallback (ref_board id) [hex4 0x0200, hex2 0xEA] (initial_monitor (powered_up id) vdu_up) = Some m' \<and>
   m_serial m' = ''Dump 0200 - 0200'' @ [CHR 0x0A] @ dump_line ((mem (powered_up id))(0x0200 := 0xEA)) 0x0200 @ line_end"
proof -
  have "dump_rows 0x0200 0x0200 = 1" "hex4 0x0200 = ''0200''" by code_simp+
  then show ?thesis
    using mem_command_writes [OF quiet_bus, where m = "initial_monitor (powered_up id) vdu_up" and a = "0x0200"
        and vs = "[0xEA]"] powered_up_ok(1)
    by (auto simp: initial_monitor_ok initial_sys_parts initial_monitor_def)
qed

section \<open>Clearing memory\<close>

lemma store_all:
  assumes "length vs = 65536"
  shows "store_bytes 0 vs M x = vs ! unat x"
proof -
  have "unat x < length vs" using assms unsigned_less [of x, where 'a = nat] by simp
  from store_bytes_at [OF this, of 0 M] show ?thesis using assms by simp
qed

lemma fill_is_block:
  "fillMemory bd v = for_each [0..<length (replicate 65536 v)]
    (\<lambda>i. write6502Memory bd (0 + of_nat i) (replicate 65536 v ! i))"
proof -
  have "for_each ks (\<lambda>m. write6502Memory bd (of_nat m) v) =
      for_each ks (\<lambda>i. write6502Memory bd (0 + of_nat i) (replicate n v ! i))" if "set ks \<subseteq> {..<n}" for ks n
    using that by (induction ks) simp_all
  from this [of "[0..<65536]" 65536] show ?thesis by (simp add: fillMemory_def atLeast0LessThan del: upt_rec_numeral)
qed

lemma fill_ref:
  fixes cpu :: cpu
  assumes "machine_ok m" and "rpi_owns m" and "pages_inj (hw m) (ctx_reg (hw m))"
  shows "bus_frame m (exec (fillMemory (ref_board cpu) v) m)"
    and "mem (exec (fillMemory (ref_board cpu) v) m) = (\<lambda>_. v)"
proof -
  note w = write_block [OF assms, where cpu = cpu and a = 0 and vs = "replicate 65536 v", folded fill_is_block]
  show "bus_frame m (exec (fillMemory (ref_board cpu) v) m)" by (rule w(1))
  show "mem (exec (fillMemory (ref_board cpu) v) m) = (\<lambda>_. v)"
  proof
    fix x :: u16
    have "unat x < 65536" using unsigned_less [of x, where 'a = nat] by simp
    moreover have "store_bytes 0 (replicate 65536 v) M x = replicate 65536 v ! unat x" for M
      by (rule store_all) simp
    ultimately show "mem (exec (fillMemory (ref_board cpu) v) m) x = v" unfolding w(2) by simp
  qed
qed


lemma zero_ref:
  fixes cpu :: cpu
  assumes "cpu_leaves cpu UNIV" and "port_ok m"
  defines "m' \<equiv> exec (zero_memory (ref_board cpu)) m"
  shows "keeps_port UNIV m m'" and "mem m' = (\<lambda>_. 0)"
proof -
  have ok: "machine_ok m" using assms(2) by (simp add: port_ok_def)
  define m0 where "m0 = exec (set6502State (ref_board cpu) sBOOT) m"
  define m1 where "m1 = exec (fillMemory (ref_board cpu) 0) m0"
  note s0 = set6502State_spec [OF ok, of cpu sBOOT, folded m0_def]
  have c0: "gCurrentContext m0 = gCurrentContext m" and b0: "gSysState m0 = sBOOT" and own: "rpi_owns m0"
    using s0(3,5) by (simp_all add: context_after_def rpi_owns_def)
  have r0: "ctx_reg (hw m0) = ctx_reg (hw m)"
    using s0(1) c0 assms(2) by (auto simp: machine_ok_def bus_ok_def port_ok_def)
  have inj: "pages_inj (hw m0) (ctx_reg (hw m0))"
    using assms(2) s0(4) r0 by (simp add: port_ok_def pages_inj_def bus_kept_def)
  note f = fill_ref [OF s0(1) own inj, where cpu = cpu and v = 0, folded m1_def]
  have ok1: "machine_ok m1" using f(1) by (simp add: bus_frame_def)
  note s1 = set6502State_spec [OF ok1, of cpu "gSysState m"]
  have m': "m' = exec (set6502State (ref_board cpu) (gSysState m)) m1"
    by (simp add: m'_def zero_memory_def get6502State_def m0_def [symmetric] m1_def)
  have ctx: "gCurrentContext m' = gCurrentContext m"
    using s1(5) f(1) c0 assms(2) by (auto simp: m' context_after_def port_ok_def bus_frame_def)
  have reg: "ctx_reg (hw m') = ctx_reg (hw m)"
    using s1(1) ctx assms(2) unfolding m' by (auto simp: machine_ok_def bus_ok_def port_ok_def)
  have mmu: "mmu_ram (hw m') = mmu_ram (hw m)"
    using s0(4) f(1) s1(4) by (simp add: m' bus_kept_def bus_frame_def)
  show "keeps_port UNIV m m'"
    using s0 s1 f(1) ctx reg mmu pages_inj_cong [OF mmu] assms(2)
    unfolding keeps_port_def by (auto simp: m' port_ok_def bus_kept_def bus_frame_def)
  have "mem m' x = mem m1 x" for x
    using set6502State_cell [OF assms(1), of x m1] ok1 reg r0 f(1)
    by (simp add: m' mem_def machine_ok_def bus_frame_def)
  then show "mem m' = (\<lambda>_. 0)" using f(2) by (simp add: fun_eq_iff)
qed

section \<open>Changing a page\<close>

text \<open>The entry that \<open>page\<close> changes: the one asked for, unless the index is the cached one.\<close>

definition page_hit :: "u8 \<Rightarrow> ref machine \<Rightarrow> u8" where
  "page_hit i m = (if gCurrentIndex m = uint i then latched_index (hw m) else i AND 0x0F)"

lemma page_hit_ok: "index_ok m \<Longrightarrow> page_hit i m = i AND 0x0F"
  by (auto simp: index_ok_def page_hit_def)

lemma change_page_ref:
  fixes cpu :: cpu and i v :: u8
  assumes "port_ok m"
  defines "m' \<equiv> exec (change_page (ref_board cpu) i v) m" and "c \<equiv> ctx_reg (hw m)" and "j \<equiv> page_hit i m"
  shows "val_of (change_page (ref_board cpu) i v) m = mmu_ram (hw m) c j"
    and "mmu_ram (hw m') = (mmu_ram (hw m))(c := (mmu_ram (hw m) c)(j := v))"
    and "machine_ok m'" and "gSysState m' = gSysState m" and "gCurrentContext m' = gCurrentContext m"
proof -
  have ok: "machine_ok m" and ctx: "gCurrentContext m = uint c" using assms(1) by (simp_all add: port_ok_def c_def)
  define m0 where "m0 = exec (set6502State (ref_board cpu) sRPI) m"
  note s0 = set6502State_spec [OF ok, of cpu sRPI, folded m0_def]
  have c0: "gCurrentContext m0 = uint c" using s0(5) ctx by (simp add: context_after_def)
  have ok0: "bus_ok m0" using s0(1) by (simp add: machine_ok_def)
  define m1 where "m1 = exec (writeMMUIndex (ref_board cpu) i) m0"
  have j: "latched_index (hw m1) = j" and i1: "gCurrentIndex m1 = uint i" and ok1: "bus_ok m1"
    and f1: "frame_of m1 = frame_of m0" "env_of (hw m1) = env_of (hw m0)" "mmu_ram (hw m1) = mmu_ram (hw m0)"
      "gCurrentContext m1 = gCurrentContext m0"
    using s0(4) ok0 bus_okD [OF ok0] unfolding m1_def writeMMUIndex_ref [OF ok0]
    by (auto simp: page_hit_def j_def bus_kept_def latched_index_def index_byte bus_ok_def dir_known_def
      simp del: push_bit_numeral push_bit_and drop_bit_and)
  have stay: "exec (setMMUContext (ref_board cpu) c) m0 = m0" using setMMUContext_ref [OF ok0] c0 by simp
  note r = readMMUPage_ref [OF ok0, of cpu c i, unfolded stay, folded m1_def]
  define m2 where "m2 = exec (readMMUPage (ref_board cpu) c i) m0"
  have m2: "bus_ok m2" "gCurrentIndex m2 = uint i" "latched_index (hw m2) = j" "mmu_ram (hw m2) = mmu_ram (hw m0)"
    "gCurrentContext m2 = uint c" "frame_of m2 = frame_of m0" "env_of (hw m2) = env_of (hw m0)"
    using i1 j ok1 f1 bus_okD [OF ok1] c0
    unfolding m2_def r(2) by (auto simp: latched_index_def bus_ok_def)
  define m3 where "m3 = exec (writeMMUPage (ref_board cpu) c i v) m2"
  have stay2: "exec (writeMMUIndex (ref_board cpu) i) (exec (setMMUContext (ref_board cpu) c) m2) = m2"
    using setMMUContext_ref [OF m2(1)] writeMMUIndex_ref [OF m2(1)] m2(2,5) by simp
  have m3: "bus_ok m3" "mmu_ram (hw m3) = (mmu_ram (hw m0))(c := (mmu_ram (hw m0) c)(j := v))"
    "gCurrentContext m3 = uint c" "frame_of m3 = frame_of m0" "env_of (hw m3) = env_of (hw m0)"
    using m2 bus_okD [OF m2(1)] unfolding m3_def writeMMUPage_ref(2) [OF m2(1)] stay2
    by (auto simp: bus_ok_def set_entry_def)
  have ok3: "machine_ok m3"
    using m3 s0(1) in_row_cong [of m3 m0] by (simp add: machine_ok_def frame_of_def env_of_def)
  note s1 = set6502State_spec [OF ok3, of cpu "gSysState m"]
  have word: "word_of_int (gCurrentContext m) = c" using ctx by simp
  have run: "val_of (change_page (ref_board cpu) i v) m = val_of (readMMUPage (ref_board cpu) c i) m0"
    "m' = exec (set6502State (ref_board cpu) (gSysState m)) m3"
    using word by (simp_all add: m'_def change_page_def getMMUContext_def get6502State_def m0_def [symmetric]
      m2_def [symmetric] m3_def [symmetric])
  show "val_of (change_page (ref_board cpu) i v) m = mmu_ram (hw m) c j"
    unfolding run r(1) j using s0(4) by (simp add: bus_kept_def)
  show "mmu_ram (hw m') = (mmu_ram (hw m))(c := (mmu_ram (hw m) c)(j := v))"
    using s1(4) m3(2) s0(4) by (simp add: run bus_kept_def)
  show "machine_ok m'" using s1(1) by (simp add: run)
  show "gSysState m' = gSysState m" using s1(3) assms(1) by (simp add: run port_ok_def)
  show "gCurrentContext m' = gCurrentContext m"
    using s1(5) m3(3) ctx assms(1) by (auto simp: run context_after_def port_ok_def)
qed

section \<open>On any board\<close>

context neo_bus
begin

lemma sim_zero_memory [sim_rules]: "sim view (zero_memory bd) (zero_memory (ref_board cpu))"
  unfolding zero_memory_def fillMemory_def by (intro sim_rules)

lemma sim_change_page [sim_rules]: "sim view (change_page bd i v) (change_page (ref_board cpu) i v)"
  unfolding change_page_def getMMUContext_def by (intro sim_rules) simp_all

end

text \<open>the command \<open>zero\<close> leaves a zero in every one of the 65536 cells the 6502 sees under its current context, and
  gives the bus back in the state, context and page table it found.\<close>

theorem zero_clears_memory:
  assumes "served_bus bd view cpu UNIV" and "port_ok (absm view (mach (m_sys m)))"
  shows "let m' = exec (cmdZeroCallback bd) m in
    mem (absm view (mach (m_sys m'))) = (\<lambda>_. 0) \<and>
    keeps_port UNIV (absm view (mach (m_sys m))) (absm view (mach (m_sys m')))"
proof -
  have nb: "neo_bus bd view cpu" and cl: "cpu_leaves cpu UNIV"
    using assms(1) by (simp_all add: served_bus_def served_bus_axioms_def)
  show ?thesis
    using zero_ref [OF cl assms(2)] simD(1) [OF neo_bus.sim_zero_memory [OF nb], of "mach (m_sys m)"]
    by (simp add: cmdZeroCallback_def Let_def)
qed

lemma zero_clears_memory_witness:
  "mem (mach (m_sys (exec (cmdZeroCallback (ref_board id)) (initial_monitor (powered_up id) vdu_up)))) 0xFFFF = 0"
  using zero_clears_memory [OF quiet_bus, where m = "initial_monitor (powered_up id) vdu_up"] powered_up_ok(1)
  by (simp add: initial_monitor_ok initial_sys_parts Let_def)

text \<open>C32: the command \<open>page INDEX PAGE\<close> reports and replaces one entry of the current context's page table and nothing
  else, and gives the bus back in its state and context. The entry is the one asked for as long as the index cache
  agrees with the latch; when the index is the cached one and a memory access has moved the latch on, it is the entry
  of that access's address.\<close>

theorem page_command:
  fixes m :: "('b, 'f, 'd, 'k) monitor" and i v :: u8
  assumes "neo_bus bd view cpu" and "port_ok (absm view (mach (m_sys m)))"
  defines "n \<equiv> absm view (mach (m_sys m))" and "p \<equiv> cmdPageCallback bd (hex2 i) (hex2 v)"
  defines "n' \<equiv> absm view (mach (m_sys (exec p m)))" and "c \<equiv> ctx_reg (hw n)" and "j \<equiv> page_hit i n"
  shows "val_of p m = mmu_ram (hw n) c j \<and>
    mmu_ram (hw n') = (mmu_ram (hw n))(c := (mmu_ram (hw n) c)(j := v)) \<and>
    machine_ok n' \<and> gSysState n' = gSysState n \<and> gCurrentContext n' = gCurrentContext n \<and>
    (index_ok n \<longrightarrow> j = i AND 0x0F)"
proof -
  have "port_ok n" using assms(2) by (simp add: n_def)
  from change_page_ref [OF this, of cpu i v] simD [OF neo_bus.sim_change_page [OF assms(1)], of i v "mach (m_sys m)"]
  show ?thesis
    by (simp add: p_def n'_def n_def c_def j_def cmdPageCallback_def x2i_hex2 page_hit_ok)
qed

text \<open>Page 9 of the context after power-up.\<close>

lemma page_command_witness:
  "mmu_ram (hw (mach (m_sys (exec (cmdPageCallback (ref_board id) (hex2 9) (hex2 0x42))
     (initial_monitor (powered_up id) vdu_up))))) (ctx_reg (hw (powered_up id))) 9 = 0x42"
  using page_command [OF ref_contract, where m = "initial_monitor (powered_up id) vdu_up" and i = 9 and v = "0x42"]
    powered_up_ok(1,4)
  by (simp add: initial_monitor_ok initial_sys_parts)

end
