(* ===== verification/Usb_Hid.thy ===== *)
theory Usb_Hid
  imports Keyboard_Layout
begin

text \<open>
  \<open>usb_hid_input.cpp\<close>: which HID interface is the keyboard and which the mouse, the hand-over of their
  reports, the translation of key transitions, and key repeat. What the module calls in other parts is
  recorded in order as its actions. Each reading of \<open>millis()\<close> and each answer of
  \<open>tuh_hid_receive_report\<close> is taken from a given sequence. TinyUSB runs the callbacks from the task that
  \<open>loop()\<close> calls, so they are steps between the rounds of \<open>taskUSBHIDInput\<close>.
\<close>

definition USB_HID_MAX_RECORDS :: nat where "USB_HID_MAX_RECORDS = 12"
definition USB_KEYBOARD_MAX_KEYS :: nat where "USB_KEYBOARD_MAX_KEYS = 6"
definition USB_HID_ARM_DELAY_MS :: u32 where "USB_HID_ARM_DELAY_MS = 1500"
definition USB_HID_REARM_DELAY_MS :: u32 where "USB_HID_REARM_DELAY_MS = 20"
definition USB_KEY_REPEAT_DELAY_MS :: u32 where "USB_KEY_REPEAT_DELAY_MS = 500"
definition USB_KEY_REPEAT_INTERVAL_MS :: u32 where "USB_KEY_REPEAT_INTERVAL_MS = 50"
definition USB_HID_KEY_F1 :: u8 where "USB_HID_KEY_F1 = 0x3A"
definition USB_HID_KEY_F9 :: u8 where "USB_HID_KEY_F9 = 0x42"
definition USB_HID_KEY_F10 :: u8 where "USB_HID_KEY_F10 = 0x43"
definition USB_HID_KEY_F12 :: u8 where "USB_HID_KEY_F12 = 0x45"
definition NEOX_CONSOLE_BREAK_KEYCODE :: u8 where "NEOX_CONSOLE_BREAK_KEYCODE = 0x06"
definition NEOX_CONSOLE_BREAK_MODIFIER_ANY_MASK :: u8 where "NEOX_CONSOLE_BREAK_MODIFIER_ANY_MASK = 0x11"
definition NEOX_CONSOLE_BREAK_MODIFIER_ALL_MASK :: u8 where "NEOX_CONSOLE_BREAK_MODIFIER_ALL_MASK = 0x00"

section \<open>State\<close>

datatype hid_role = USB_HID_ROLE_UNKNOWN | USB_HID_ROLE_KEYBOARD | USB_HID_ROLE_MOUSE | USB_HID_ROLE_GENERIC

record hid_record =
  rec_addr :: u8
  rec_instance :: u8
  rec_desc_len :: u16
  rec_role :: hid_role
  rec_mounted :: bool

record key_report =
  kr_modifier :: u8
  kr_reserved :: u8
  kr_keycode :: "u8 list"

record mouse_report =
  mr_buttons :: u8
  mr_x :: u8
  mr_y :: u8
  mr_wheel :: u8
  mr_pan :: u8

text \<open>The calls of other modules: \<open>monitorConsoleInput(c, false)\<close>, \<open>requestConsoleBreakIRQ()\<close>,
  \<open>setConsolePID(p)\<close>, \<open>vduMouseUpdate(x, y, b)\<close>.\<close>

datatype hid_action = Console_Input u8 | Console_Break | Console_PID u8 | Mouse_Update u8 u8 u8

record hid =
  g_hidRecords :: "hid_record list"
  g_lastKeyboardReport :: key_report
  g_pendingKeyboardReport :: key_report
  g_lastMouseReport :: mouse_report
  g_pendingMouseReport :: mouse_report
  g_keyboardReportPending :: bool
  g_keyboardReportActive :: bool
  g_keyboardRemovedNoticePending :: bool
  g_mouseReportPending :: bool
  g_mouseReportActive :: bool
  g_mouseRemovedNoticePending :: bool
  g_keyboardDevAddr :: u8
  g_keyboardInstance :: u8
  g_keyboardSelected :: bool
  g_keyboardActiveAnnounced :: bool
  g_lastKeyboardArmAttemptMs :: u32
  g_keyRepeatActive :: bool
  g_keyRepeatKeycode :: u8
  g_keyRepeatModifier :: u8
  g_keyRepeatAscii :: u8
  g_keyRepeatNextMs :: u32
  g_mouseDevAddr :: u8
  g_mouseInstance :: u8
  g_mouseSelected :: bool
  g_mouseActiveAnnounced :: bool
  g_lastMouseArmAttemptMs :: u32
  g_hidArmDelayStarted :: bool
  g_hidArmDelayStartMs :: u32
  layout :: layout_state
  actions :: "hid_action list"
  clock_readings :: "nat \<Rightarrow> u32"
  readings_taken :: nat
  receive_answers :: "nat \<Rightarrow> bool"
  receive_calls :: nat

definition no_record :: hid_record where
  "no_record = \<lparr>rec_addr = 0, rec_instance = 0, rec_desc_len = 0, rec_role = USB_HID_ROLE_UNKNOWN, rec_mounted = False\<rparr>"

definition no_keys :: key_report where
  "no_keys = \<lparr>kr_modifier = 0, kr_reserved = 0, kr_keycode = replicate USB_KEYBOARD_MAX_KEYS 0\<rparr>"

definition no_movement :: mouse_report where
  "no_movement = \<lparr>mr_buttons = 0, mr_x = 0, mr_y = 0, mr_wheel = 0, mr_pan = 0\<rparr>"

definition millis :: "hid \<Rightarrow> u32 \<times> hid" where
  "millis s = (clock_readings s (readings_taken s), s\<lparr>readings_taken := readings_taken s + 1\<rparr>)"

definition tuh_hid_receive_report :: "u8 \<Rightarrow> u8 \<Rightarrow> hid \<Rightarrow> bool \<times> hid" where
  "tuh_hid_receive_report dev inst s =
     (receive_answers s (receive_calls s), s\<lparr>receive_calls := receive_calls s + 1\<rparr>)"

definition emit :: "hid_action \<Rightarrow> hid \<Rightarrow> hid" where
  "emit a s = s\<lparr>actions := actions s @ [a]\<rparr>"

section \<open>Interfaces\<close>

definition usb_hid_find_record :: "u8 \<Rightarrow> u8 \<Rightarrow> hid \<Rightarrow> nat option" where
  "usb_hid_find_record dev inst s =
     find_index_from 0 (\<lambda>r. rec_mounted r \<and> rec_addr r = dev \<and> rec_instance r = inst) (g_hidRecords s)"

definition usb_hid_alloc_record :: "hid \<Rightarrow> nat option" where
  "usb_hid_alloc_record s = find_index_from 0 (\<lambda>r. \<not> rec_mounted r) (g_hidRecords s)"

text \<open>
  The scan of a report descriptor. Its positions are 16-bit sums; \<open>None\<close> is a scan that reads behind the
  descriptor or does not end.
\<close>

definition item_value :: "u8 list \<Rightarrow> u32" where
  "item_value bs = foldr (\<lambda>b v. push_bit 8 v OR ucast b) bs 0"

partial_function (option) usb_hid_scan :: "u8 list \<Rightarrow> u16 \<Rightarrow> u16 \<Rightarrow> u16 \<Rightarrow> bool option" where
  "usb_hid_scan desc wanted_usage usage_page i =
     (let desc_len = of_nat (length desc) :: u16 in
      if i < desc_len then
        let prefix = desc ! unat i in
        if prefix = 0xFE then
          (if i + 2 \<ge> desc_len then Some False
           else if unat i + 1 \<ge> length desc then None
           else usb_hid_scan desc wanted_usage usage_page (i + 3 + ucast (desc ! (unat i + 1))))
        else
          let size_code = prefix AND 0x03;
              data_size = (if size_code = 3 then 4 else size_code);
              item_type = drop_bit 2 prefix AND 0x03;
              item_tag = drop_bit 4 prefix AND 0x0F in
          if i + 1 + ucast data_size > desc_len then Some False
          else if unat i + 1 + unat data_size > length desc then None
          else
            let val = item_value (take (unat data_size) (drop (unat i + 1) desc));
                page = (if item_type = 1 \<and> item_tag = 0 then ucast val else usage_page) in
            if item_type = 2 \<and> item_tag = 0 \<and> page = 0x01 \<and> ucast val = wanted_usage then Some True
            else usb_hid_scan desc wanted_usage page (i + 1 + ucast data_size)
      else Some False)"

declare usb_hid_scan.simps [code]

definition usb_hid_descriptor_has_desktop_usage :: "u8 list \<Rightarrow> u16 \<Rightarrow> bool option" where
  "usb_hid_descriptor_has_desktop_usage desc wanted_usage =
     (if desc = [] then Some False else usb_hid_scan desc wanted_usage 0 0)"

definition usb_hid_classify_descriptor :: "u8 list \<Rightarrow> hid_role option" where
  "usb_hid_classify_descriptor desc =
     (if desc = [] then Some USB_HID_ROLE_GENERIC
      else case usb_hid_descriptor_has_desktop_usage desc 0x06 of
          None \<Rightarrow> None
        | Some True \<Rightarrow> Some USB_HID_ROLE_KEYBOARD
        | Some False \<Rightarrow>
            (case usb_hid_descriptor_has_desktop_usage desc 0x02 of
               None \<Rightarrow> None
             | Some True \<Rightarrow> Some USB_HID_ROLE_MOUSE
             | Some False \<Rightarrow> Some USB_HID_ROLE_UNKNOWN))"

section \<open>Keys\<close>

definition usb_keyboard_keycode_to_ascii :: "u8 \<Rightarrow> u8 \<Rightarrow> hid \<Rightarrow> u8 \<times> hid" where
  "usb_keyboard_keycode_to_ascii keycode modifier s =
     (let (c, l) = run_state (usb_keyboard_keycode_to_ascii_locale keycode modifier) (layout s)
      in (c, s\<lparr>layout := l\<rparr>))"

definition usb_keyboard_key_is_down :: "key_report \<Rightarrow> u8 \<Rightarrow> bool" where
  "usb_keyboard_key_is_down report keycode = (keycode \<in> set (take USB_KEYBOARD_MAX_KEYS (kr_keycode report)))"

definition usb_keyboard_is_route_key :: "u8 \<Rightarrow> bool" where
  "usb_keyboard_is_route_key keycode = (keycode \<ge> USB_HID_KEY_F1 \<and> keycode \<le> USB_HID_KEY_F12)"

definition usb_keyboard_is_console_break :: "u8 \<Rightarrow> u8 \<Rightarrow> bool" where
  "usb_keyboard_is_console_break keycode modifier =
     (let any_mask = NEOX_CONSOLE_BREAK_MODIFIER_ANY_MASK;
          all_mask = NEOX_CONSOLE_BREAK_MODIFIER_ALL_MASK in
      if keycode \<noteq> NEOX_CONSOLE_BREAK_KEYCODE then False
      else if any_mask \<noteq> 0 \<and> modifier AND any_mask = 0 then False
      else if all_mask \<noteq> 0 \<and> modifier AND all_mask \<noteq> all_mask then False
      else True)"

definition usb_keyboard_repeat_clear :: "hid \<Rightarrow> hid" where
  "usb_keyboard_repeat_clear s =
     s\<lparr>g_keyRepeatActive := False, g_keyRepeatKeycode := 0, g_keyRepeatModifier := 0,
       g_keyRepeatAscii := 0, g_keyRepeatNextMs := 0\<rparr>"

definition usb_keyboard_handle_console_break :: "u8 \<Rightarrow> u8 \<Rightarrow> hid \<Rightarrow> bool \<times> hid" where
  "usb_keyboard_handle_console_break keycode modifier s =
     (if \<not> usb_keyboard_is_console_break keycode modifier then (False, s)
      else (True, emit Console_Break (usb_keyboard_repeat_clear s)))"

definition usb_keyboard_handle_route_key_down :: "u8 \<Rightarrow> hid \<Rightarrow> bool \<times> hid" where
  "usb_keyboard_handle_route_key_down keycode s =
     (if \<not> usb_keyboard_is_route_key keycode then (False, s)
      else if keycode \<ge> USB_HID_KEY_F1 \<and> keycode \<le> USB_HID_KEY_F9 then
        (True, emit (Console_PID (keycode - USB_HID_KEY_F1 + 1)) (usb_keyboard_repeat_clear s))
      else if keycode = USB_HID_KEY_F10 then (True, emit (Console_PID 0) (usb_keyboard_repeat_clear s))
      else (True, usb_keyboard_repeat_clear s))"

definition usb_keyboard_repeat_start :: "u8 \<Rightarrow> u8 \<Rightarrow> u8 \<Rightarrow> hid \<Rightarrow> hid" where
  "usb_keyboard_repeat_start keycode modifier ascii s =
     (if ascii = 0 then usb_keyboard_repeat_clear s
      else
        let s = s\<lparr>g_keyRepeatActive := True, g_keyRepeatKeycode := keycode, g_keyRepeatModifier := modifier,
                  g_keyRepeatAscii := ascii\<rparr>;
            (now, s) = millis s
        in s\<lparr>g_keyRepeatNextMs := now + USB_KEY_REPEAT_DELAY_MS\<rparr>)"

definition usb_keyboard_repeat_update_from_report :: "key_report \<Rightarrow> hid \<Rightarrow> hid" where
  "usb_keyboard_repeat_update_from_report report s =
     (if \<not> g_keyRepeatActive s then s
      else if \<not> usb_keyboard_key_is_down report (g_keyRepeatKeycode s) then usb_keyboard_repeat_clear s
      else if kr_modifier report \<noteq> g_keyRepeatModifier s then
        let (c, s) = usb_keyboard_keycode_to_ascii (g_keyRepeatKeycode s) (kr_modifier report) s in
        if c = 0 then usb_keyboard_repeat_clear s
        else s\<lparr>g_keyRepeatModifier := kr_modifier report, g_keyRepeatAscii := c\<rparr>
      else s)"

definition usb_keyboard_repeat_task :: "hid \<Rightarrow> hid" where
  "usb_keyboard_repeat_task s =
     (if \<not> g_keyRepeatActive s \<or> g_keyRepeatAscii s = 0 then s
      else
        let (now, s) = millis s in
        if sint (now - g_keyRepeatNextMs s) < 0 then s
        else (emit (Console_Input (g_keyRepeatAscii s)) s)\<lparr>g_keyRepeatNextMs := now + USB_KEY_REPEAT_INTERVAL_MS\<rparr>)"

text \<open>One key code of a report, and the loop over all of them.\<close>

definition usb_keyboard_process_key :: "key_report \<Rightarrow> u8 \<Rightarrow> hid \<Rightarrow> hid" where
  "usb_keyboard_process_key report keycode s =
     (if keycode = 0 then s
      else if usb_keyboard_key_is_down (g_lastKeyboardReport s) keycode then s
      else
        let (consumed, s) = usb_keyboard_handle_console_break keycode (kr_modifier report) s in
        if consumed then s
        else
          let (consumed, s) = usb_keyboard_handle_route_key_down keycode s in
          if consumed then s
          else
            let (c, s) = usb_keyboard_keycode_to_ascii keycode (kr_modifier report) s in
            if c \<noteq> 0
            then usb_keyboard_repeat_start keycode (kr_modifier report) c (emit (Console_Input c) s)
            else s)"

definition usb_keyboard_process_report :: "key_report \<Rightarrow> hid \<Rightarrow> hid" where
  "usb_keyboard_process_report report s =
     (let s = fold (usb_keyboard_process_key report) (take USB_KEYBOARD_MAX_KEYS (kr_keycode report)) s;
          s = usb_keyboard_repeat_update_from_report report s
      in s\<lparr>g_lastKeyboardReport := report\<rparr>)"

section \<open>Mouse\<close>

definition usb_mouse_process_report :: "mouse_report \<Rightarrow> hid \<Rightarrow> hid" where
  "usb_mouse_process_report report s =
     (let movement = mr_x report \<noteq> 0 \<or> mr_y report \<noteq> 0 \<or> mr_wheel report \<noteq> 0 \<or> mr_pan report \<noteq> 0;
          buttons_changed = mr_buttons report \<noteq> mr_buttons (g_lastMouseReport s);
          s = (if movement \<or> buttons_changed
               then emit (Mouse_Update (mr_x report) (mr_y report) (mr_buttons report)) s else s)
      in s\<lparr>g_lastMouseReport := report\<rparr>)"

section \<open>The task of the main loop\<close>

definition usb_hid_select_keyboard :: "hid \<Rightarrow> hid" where
  "usb_hid_select_keyboard s =
     (if g_keyboardSelected s then s
      else case find_index_from 0 (\<lambda>r. rec_mounted r \<and> rec_role r = USB_HID_ROLE_KEYBOARD) (g_hidRecords s) of
          None \<Rightarrow> s
        | Some i \<Rightarrow>
            let r = g_hidRecords s ! i in
            let s = usb_keyboard_repeat_clear
                      (s\<lparr>g_keyboardDevAddr := rec_addr r, g_keyboardInstance := rec_instance r,
                         g_keyboardSelected := True, g_lastKeyboardReport := no_keys,
                         g_pendingKeyboardReport := no_keys\<rparr>);
                (_, l) = run_state usb_keyboard_get_locale_name (layout s)
            in s\<lparr>layout := l\<rparr>)"

definition usb_hid_select_mouse :: "hid \<Rightarrow> hid" where
  "usb_hid_select_mouse s =
     (if g_mouseSelected s then s
      else case find_index_from 0 (\<lambda>r. rec_mounted r \<and> rec_role r = USB_HID_ROLE_MOUSE) (g_hidRecords s) of
          None \<Rightarrow> s
        | Some i \<Rightarrow>
            let r = g_hidRecords s ! i in
            s\<lparr>g_mouseDevAddr := rec_addr r, g_mouseInstance := rec_instance r, g_mouseSelected := True,
              g_lastMouseReport := no_movement, g_pendingMouseReport := no_movement\<rparr>)"

definition usb_hid_process_pending_reports :: "hid \<Rightarrow> hid" where
  "usb_hid_process_pending_reports s =
     (let s = (if g_keyboardReportPending s
               then usb_keyboard_process_report (g_pendingKeyboardReport s) (s\<lparr>g_keyboardReportPending := False\<rparr>)
               else s)
      in if g_mouseReportPending s
         then usb_mouse_process_report (g_pendingMouseReport s) (s\<lparr>g_mouseReportPending := False\<rparr>)
         else s)"

definition usb_hid_arm_keyboard_report :: "hid \<Rightarrow> hid" where
  "usb_hid_arm_keyboard_report s =
     (if \<not> g_keyboardSelected s \<or> g_keyboardReportActive s \<or> g_keyboardReportPending s then s
      else
        let (now, s) = millis s in
        if now - g_lastKeyboardArmAttemptMs s < USB_HID_REARM_DELAY_MS then s
        else
          let s = s\<lparr>g_lastKeyboardArmAttemptMs := now\<rparr>;
              (ok, s) = tuh_hid_receive_report (g_keyboardDevAddr s) (g_keyboardInstance s) s
          in if ok then s\<lparr>g_keyboardReportActive := True, g_keyboardActiveAnnounced := True\<rparr> else s)"

definition usb_hid_arm_mouse_report :: "hid \<Rightarrow> hid" where
  "usb_hid_arm_mouse_report s =
     (if \<not> g_mouseSelected s \<or> g_mouseReportActive s \<or> g_mouseReportPending s then s
      else
        let (now, s) = millis s in
        if now - g_lastMouseArmAttemptMs s < USB_HID_REARM_DELAY_MS then s
        else
          let s = s\<lparr>g_lastMouseArmAttemptMs := now\<rparr>;
              (ok, s) = tuh_hid_receive_report (g_mouseDevAddr s) (g_mouseInstance s) s
          in if ok then s\<lparr>g_mouseReportActive := True, g_mouseActiveAnnounced := True\<rparr> else s)"

definition initUSBHIDInput :: "hid \<Rightarrow> hid" where
  "initUSBHIDInput s = emit (Console_PID 0) s"

definition start_arm_delay :: "hid \<Rightarrow> hid" where
  "start_arm_delay s =
     (if \<not> g_hidArmDelayStarted s \<and> (\<exists>r\<in>set (g_hidRecords s). rec_mounted r)
      then let (now, s) = millis (s\<lparr>g_hidArmDelayStarted := True\<rparr>) in s\<lparr>g_hidArmDelayStartMs := now\<rparr>
      else s)"

definition taskUSBHIDInput :: "hid \<Rightarrow> hid" where
  "taskUSBHIDInput s =
     (let s = (if g_keyboardRemovedNoticePending s
               then emit (Console_PID 0) (s\<lparr>g_keyboardRemovedNoticePending := False\<rparr>) else s);
          s = (if g_mouseRemovedNoticePending s then s\<lparr>g_mouseRemovedNoticePending := False\<rparr> else s);
          s = start_arm_delay s
      in if \<not> g_hidArmDelayStarted s then s
         else
           let (now, s) = millis s in
           if now - g_hidArmDelayStartMs s < USB_HID_ARM_DELAY_MS then s
           else
             let s = usb_hid_select_keyboard s;
                 s = usb_hid_select_mouse s;
                 s = usb_hid_process_pending_reports s;
                 s = usb_keyboard_repeat_task s;
                 s = usb_hid_arm_keyboard_report s
             in usb_hid_arm_mouse_report s)"

section \<open>Callbacks\<close>

definition tuh_hid_mount_cb :: "u8 \<Rightarrow> u8 \<Rightarrow> u8 list \<Rightarrow> hid \<Rightarrow> hid option" where
  "tuh_hid_mount_cb dev inst desc s =
     (case (case usb_hid_find_record dev inst s of Some i \<Rightarrow> Some i | None \<Rightarrow> usb_hid_alloc_record s) of
        None \<Rightarrow> Some s
      | Some i \<Rightarrow>
          (case usb_hid_classify_descriptor desc of
             None \<Rightarrow> None
           | Some role \<Rightarrow>
               Some (s\<lparr>g_hidRecords := (g_hidRecords s)
                 [i := \<lparr>rec_addr = dev, rec_instance = inst, rec_desc_len = of_nat (length desc),
                        rec_role = role, rec_mounted = True\<rparr>]\<rparr>)))"

definition forget_record :: "u8 \<Rightarrow> u8 \<Rightarrow> hid \<Rightarrow> hid" where
  "forget_record dev inst s =
     (case usb_hid_find_record dev inst s of
        None \<Rightarrow> s
      | Some i \<Rightarrow> s\<lparr>g_hidRecords := (g_hidRecords s)[i := no_record]\<rparr>)"

definition forget_keyboard :: "u8 \<Rightarrow> u8 \<Rightarrow> hid \<Rightarrow> hid" where
  "forget_keyboard dev inst s =
     (if g_keyboardSelected s \<and> dev = g_keyboardDevAddr s \<and> inst = g_keyboardInstance s
      then usb_keyboard_repeat_clear
             (s\<lparr>g_keyboardSelected := False, g_keyboardReportActive := False, g_keyboardReportPending := False,
                g_keyboardActiveAnnounced := False, g_keyboardRemovedNoticePending := True,
                g_keyboardDevAddr := 0, g_keyboardInstance := 0, g_lastKeyboardReport := no_keys,
                g_pendingKeyboardReport := no_keys\<rparr>)
      else s)"

definition forget_mouse :: "u8 \<Rightarrow> u8 \<Rightarrow> hid \<Rightarrow> hid" where
  "forget_mouse dev inst s =
     (if g_mouseSelected s \<and> dev = g_mouseDevAddr s \<and> inst = g_mouseInstance s
      then s\<lparr>g_mouseSelected := False, g_mouseReportActive := False, g_mouseReportPending := False,
             g_mouseActiveAnnounced := False, g_mouseRemovedNoticePending := True, g_mouseDevAddr := 0,
             g_mouseInstance := 0, g_lastMouseReport := no_movement, g_pendingMouseReport := no_movement\<rparr>
      else s)"

definition tuh_hid_umount_cb :: "u8 \<Rightarrow> u8 \<Rightarrow> hid \<Rightarrow> hid" where
  "tuh_hid_umount_cb dev inst s = forget_mouse dev inst (forget_keyboard dev inst (forget_record dev inst s))"

text \<open>The two C structures are overlaid on the bytes of a report; missing bytes of a mouse report are 0.\<close>

definition key_report_of :: "u8 list \<Rightarrow> key_report" where
  "key_report_of bs = \<lparr>kr_modifier = bs ! 0, kr_reserved = bs ! 1, kr_keycode = take USB_KEYBOARD_MAX_KEYS (drop 2 bs)\<rparr>"

definition mouse_report_of :: "u8 list \<Rightarrow> mouse_report" where
  "mouse_report_of bs =
     (let bs = take 5 bs @ replicate (5 - length bs) 0 in
      \<lparr>mr_buttons = bs ! 0, mr_x = bs ! 1, mr_y = bs ! 2, mr_wheel = bs ! 3, mr_pan = bs ! 4\<rparr>)"

definition tuh_hid_report_received_cb :: "u8 \<Rightarrow> u8 \<Rightarrow> u8 list \<Rightarrow> hid \<Rightarrow> hid" where
  "tuh_hid_report_received_cb dev inst report s =
     (if g_keyboardSelected s \<and> dev = g_keyboardDevAddr s \<and> inst = g_keyboardInstance s then
        let s = s\<lparr>g_keyboardReportActive := False\<rparr> in
        if length report \<ge> 8
        then s\<lparr>g_pendingKeyboardReport := key_report_of report, g_keyboardReportPending := True\<rparr>
        else s
      else if g_mouseSelected s \<and> dev = g_mouseDevAddr s \<and> inst = g_mouseInstance s then
        let s = s\<lparr>g_mouseReportActive := False, g_pendingMouseReport := no_movement\<rparr> in
        if report \<noteq> []
        then s\<lparr>g_pendingMouseReport := mouse_report_of report, g_mouseReportPending := True\<rparr>
        else s
      else s)"

end
