(* ===== verification/Usb_Hid_Spec.thy ===== *)
theory Usb_Hid_Spec
  imports Usb_Hid Memory_Parse_Spec
begin

text \<open>
  \<open>usb_hid_input.cpp\<close>: the descriptor scan against a parser of the items of a descriptor, the actions of
  a keyboard report, the invariant of the module over every order of callbacks and task rounds, and what
  follows when a keyboard is unplugged.
\<close>

section \<open>Report descriptors\<close>

text \<open>The short items of a descriptor, as (type, tag, value); a long item is skipped.\<close>

function hid_items :: "u8 list \<Rightarrow> (u8 \<times> u8 \<times> u32) list" where
  "hid_items [] = []"
| "hid_items (prefix # rest) =
     (if prefix = 0xFE then
        (case rest of long_size # tag # rst \<Rightarrow> hid_items (drop (unat long_size) rst) | _ \<Rightarrow> [])
      else
        let n = (if prefix AND 0x03 = 3 then 4 else unat (prefix AND 0x03)) in
        if length rest < n then []
        else (drop_bit 2 prefix AND 0x03, drop_bit 4 prefix AND 0x0F, item_value (take n rest))
               # hid_items (drop n rest))"
  by pat_completeness auto
termination by (relation "measure length") auto

text \<open>Whether a usage of the Generic Desktop page occurs, given the page in force before the items.\<close>

fun desktop_usage :: "u16 \<Rightarrow> u16 \<Rightarrow> (u8 \<times> u8 \<times> u32) list \<Rightarrow> bool" where
  "desktop_usage wanted page [] = False"
| "desktop_usage wanted page ((ty, tag, v) # items) =
     (if ty = 1 \<and> tag = 0 then desktop_usage wanted (ucast v) items
      else ty = 2 \<and> tag = 0 \<and> page = 1 \<and> ucast v = wanted \<or> desktop_usage wanted page items)"

lemma list_two_cases: "(xs = [] \<Longrightarrow> P) \<Longrightarrow> (\<And>x. xs = [x] \<Longrightarrow> P) \<Longrightarrow> (\<And>x y zs. xs = x # y # zs \<Longrightarrow> P) \<Longrightarrow> P"
  by (cases xs; cases "tl xs") auto

lemma short_item_size: "unat (if (p :: u8) AND 0x03 = 3 then 4 else p AND 0x03 :: u8) =
    (if p AND 0x03 = 3 then 4 else unat (p AND 0x03))"
  "unat (if (p :: u8) AND 0x03 = 3 then 4 else p AND 0x03 :: u8) \<le> 4"
proof -
  have "p AND 0x03 \<le> 0x03" by (rule word_and_le1)
  then have "unat (p AND 0x03) \<le> 3" by (simp add: word_le_nat_alt)
  then show "unat (if p AND 0x03 = 3 then 4 else p AND 0x03 :: u8) \<le> 4" by simp
qed simp

lemma usb_hid_scan_items:
  assumes "length desc \<le> 65280"
  shows "usb_hid_scan desc wanted page i = Some (desktop_usage wanted page (hid_items (drop (unat i) desc)))"
  using assms
proof (induction "length desc - unat i" arbitrary: page i rule: less_induct)
  case less
  let ?len = "of_nat (length desc) :: u16"
  have len: "unat ?len = length desc" using less.prems by (simp add: unat_of_nat)
  show ?case
  proof (cases "i < ?len")
    case False
    then have "drop (unat i) desc = []" using len by (simp add: word_less_nat_alt)
    then show ?thesis using False by (subst usb_hid_scan.simps) simp
  next
    case True
    then have i: "unat i < length desc" using len by (simp add: word_less_nat_alt)
    then have split: "drop (unat i) desc = desc ! unat i # drop (Suc (unat i)) desc"
      by (simp add: Cons_nth_drop_Suc)
    have add: "unat (i + of_nat n) = unat i + n" if "unat i + n < 65536" for n
      using that by (simp add: unat_word_ariths unat_of_nat)
    show ?thesis
    proof (cases "desc ! unat i = 0xFE")
      case long: True
      show ?thesis
      proof (cases "i + 2 \<ge> ?len")
        case True
        then have "length desc \<le> unat i + 2" using len i less.prems add [of 2] by (simp add: word_le_nat_alt)
        then have "drop (Suc (unat i)) desc = [] \<or> (\<exists>x. drop (Suc (unat i)) desc = [x])"
          by (cases "drop (Suc (unat i)) desc" rule: list_two_cases) (auto dest!: arg_cong [of _ _ length])
        then show ?thesis using True \<open>i < ?len\<close> long split by (subst usb_hid_scan.simps) (auto simp: Let_def)
      next
        case False
        then have more: "unat i + 2 < length desc" using len i less.prems add [of 2] by (simp add: word_le_nat_alt)
        let ?n = "unat (desc ! Suc (unat i))"
        have "?n < 2 ^ LENGTH(8)" by (rule unsigned_less)
        then have n: "?n \<le> 255" by simp
        have pos: "unat (i + 3 + ucast (desc ! Suc (unat i))) = unat i + 3 + ?n"
          using add [of "3 + ?n"] n more less.prems by (simp add: add.assoc)
        have rest: "drop (Suc (unat i)) desc =
            desc ! Suc (unat i) # desc ! Suc (Suc (unat i)) # drop (unat i + 3) desc"
          using more by (simp add: Cons_nth_drop_Suc numeral_3_eq_3)
        have items: "hid_items (drop (unat i) desc) = hid_items (drop (unat i + 3 + ?n) desc)"
          unfolding split hid_items.simps using long rest by (simp add: add.commute)
        have step: "usb_hid_scan desc wanted page (i + 3 + ucast (desc ! Suc (unat i))) =
            Some (desktop_usage wanted page (hid_items (drop (unat i + 3 + ?n) desc)))"
          unfolding pos [symmetric] by (rule less.hyps) (use pos i less.prems in auto)
        show ?thesis unfolding items using True False more long step
          by (subst usb_hid_scan.simps) (simp add: Let_def)
      qed
    next
      case short: False
      let ?p = "desc ! unat i"
      define d :: u8 where "d = (if ?p AND 0x03 = 3 then 4 else ?p AND 0x03)"
      define n where "n = (if ?p AND 0x03 = 3 then 4 else unat (?p AND 0x03))"
      have n: "unat d = n" "n \<le> 4" using short_item_size [of ?p] by (simp_all add: d_def n_def)
      have d: "of_nat n = (ucast d :: u16)" unfolding n(1) [symmetric] by simp
      have pos: "unat (i + 1 + ucast d) = unat i + 1 + n"
        using add [of "1 + n"] n(2) i less.prems by (simp add: add.assoc d)
      have stop: "i + 1 + ucast d > ?len \<longleftrightarrow> length desc < unat i + 1 + n"
        using len pos by (simp add: word_less_nat_alt)
      let ?tail = "drop (Suc (unat i)) desc"
      have items: "hid_items (drop (unat i) desc) =
          (if length desc < unat i + 1 + n then []
           else (drop_bit 2 ?p AND 0x03, drop_bit 4 ?p AND 0x0F, item_value (take n ?tail))
                # hid_items (drop (unat i + 1 + n) desc))"
        unfolding split hid_items.simps if_not_P [OF short] Let_def n_def [symmetric] using i
        by (auto simp: add.commute)
      have step: "usb_hid_scan desc wanted pg (i + 1 + ucast d) =
          Some (desktop_usage wanted pg (hid_items (drop (unat i + 1 + n) desc)))" for pg
        unfolding pos [symmetric] by (rule less.hyps) (use pos i less.prems in auto)
      have unfold: "usb_hid_scan desc wanted page i =
          (if i + 1 + ucast d > ?len then Some False
           else if unat i + 1 + unat d > length desc then None
           else
             let val = item_value (take (unat d) (drop (unat i + 1) desc));
                 pg = (if drop_bit 2 ?p AND 0x03 = 1 \<and> drop_bit 4 ?p AND 0x0F = 0 then ucast val else page) in
             if drop_bit 2 ?p AND 0x03 = 2 \<and> drop_bit 4 ?p AND 0x0F = 0 \<and> pg = 0x01 \<and> ucast val = wanted
             then Some True else usb_hid_scan desc wanted pg (i + 1 + ucast d))"
        by (subst usb_hid_scan.simps) (simp only: Let_def if_P [OF True] if_not_P [OF short] d_def)
      show ?thesis
        unfolding items unfold stop n(1) Let_def step by (auto simp del: hid_items.simps)
    qed
  qed
qed

text \<open>C21: For every descriptor of at most 65280 bytes the classification of a HID interface ends and agrees with
  the items of the descriptor: a keyboard has a Usage 6 under the Generic Desktop page, a mouse a Usage 2, and
  an empty descriptor is generic. Longer descriptors would wrap the 16-bit position of the scan.\<close>

theorem classification_follows_items:
  assumes "length desc \<le> 65280"
  shows "usb_hid_classify_descriptor desc = Some
     (if desc = [] then USB_HID_ROLE_GENERIC
      else if desktop_usage 6 0 (hid_items desc) then USB_HID_ROLE_KEYBOARD
      else if desktop_usage 2 0 (hid_items desc) then USB_HID_ROLE_MOUSE
      else USB_HID_ROLE_UNKNOWN)"
  by (auto simp: usb_hid_classify_descriptor_def usb_hid_descriptor_has_desktop_usage_def
      usb_hid_scan_items [OF assms] split: bool.split)

lemma classification_follows_items_witness:
  "usb_hid_classify_descriptor [0x05, 0x01, 0x09, 0x02, 0xA1, 0x01] = Some USB_HID_ROLE_MOUSE"
  by (subst classification_follows_items) (simp_all add: item_value_def)

section \<open>Keyboard reports\<close>

text \<open>The layout in force, which the first use installs.\<close>

definition table_in_force :: "layout_state \<Rightarrow> layout_table" where
  "table_in_force l = table_of (case g_activeLayout l of
     Some r \<Rightarrow> r | None \<Rightarrow> usb_keyboard_builtin_layout_for_locale (g_keyboardLocale l))"

abbreviation active_table :: "hid \<Rightarrow> layout_table" where
  "active_table s \<equiv> table_in_force (layout s)"

text \<open>What the press of one key does.\<close>

definition key_actions :: "layout_table \<Rightarrow> u8 \<Rightarrow> u8 \<Rightarrow> hid_action list" where
  "key_actions t modifier k =
     (if usb_keyboard_is_console_break k modifier then [Console_Break]
      else if usb_keyboard_is_route_key k then
        (if k \<le> USB_HID_KEY_F9 then [Console_PID (k - USB_HID_KEY_F1 + 1)]
         else if k = USB_HID_KEY_F10 then [Console_PID 0] else [])
      else if layout_char t k modifier = 0 then [] else [Console_Input (layout_char t k modifier)])"

definition pressed_keys :: "key_report \<Rightarrow> key_report \<Rightarrow> u8 list" where
  "pressed_keys before report =
     filter (\<lambda>k. k \<noteq> 0 \<and> \<not> usb_keyboard_key_is_down before k) (take USB_KEYBOARD_MAX_KEYS (kr_keycode report))"

lemma active_layout_keeps [simp]:
  "table_in_force (snd (run_state usb_keyboard_active_layout l)) = table_in_force l"
  "table_in_force (snd (run_state (usb_keyboard_keycode_to_ascii_locale k m) l)) = table_in_force l"
  "table_in_force (snd (run_state usb_keyboard_get_locale_name l)) = table_in_force l"
  "fst (run_state (usb_keyboard_keycode_to_ascii_locale k m) l) = layout_char (table_in_force l) k m"
  by (auto simp: usb_keyboard_keycode_to_ascii_locale_def usb_keyboard_get_locale_name_def
      usb_keyboard_active_layout_def table_in_force_def step_defs split: option.splits)

lemma keycode_to_ascii:
  obtains l where "usb_keyboard_keycode_to_ascii k m s = (layout_char (active_table s) k m, s\<lparr>layout := l\<rparr>)"
    and "table_in_force l = active_table s"
  by (rule that [of "snd (run_state (usb_keyboard_keycode_to_ascii_locale k m) (layout s))"])
    (simp_all add: usb_keyboard_keycode_to_ascii_def case_prod_beta)

text \<open>What the handling of keys leaves alone.\<close>

definition links where
  "links s = (g_hidRecords s, g_lastKeyboardReport s, g_pendingKeyboardReport s, g_keyboardReportPending s,
     g_keyboardReportActive s, g_keyboardSelected s, g_keyboardDevAddr s, g_keyboardInstance s,
     g_mouseReportPending s, g_mouseReportActive s, g_mouseSelected s, g_mouseDevAddr s, g_mouseInstance s,
     g_lastMouseReport s, g_pendingMouseReport s)"

lemma process_key:
  "actions (usb_keyboard_process_key report k s) = actions s @
     (if k \<noteq> 0 \<and> \<not> usb_keyboard_key_is_down (g_lastKeyboardReport s) k
      then key_actions (active_table s) (kr_modifier report) k else [])" (is ?acts)
  "active_table (usb_keyboard_process_key report k s) = active_table s" (is ?tab)
  "links (usb_keyboard_process_key report k s) = links s" (is ?links)
proof -
  obtain l where l: "usb_keyboard_keycode_to_ascii k (kr_modifier report) s =
      (layout_char (active_table s) k (kr_modifier report), s\<lparr>layout := l\<rparr>)"
    and t: "table_in_force l = active_table s"
    by (rule keycode_to_ascii)
  note d = usb_keyboard_process_key_def usb_keyboard_handle_console_break_def
    usb_keyboard_handle_route_key_down_def Let_def usb_keyboard_repeat_start_def millis_def emit_def
    usb_keyboard_repeat_clear_def key_actions_def links_def
  have f1: "USB_HID_KEY_F1 \<le> k" if "usb_keyboard_is_route_key k" using that by (simp add: usb_keyboard_is_route_key_def)
  show ?acts using f1 by (simp add: d l)
  show ?tab using t by (simp add: d l)
  show ?links by (simp add: d l)
qed

lemma links_same:
  assumes "links s = links s'"
  shows "g_hidRecords s = g_hidRecords s'" "g_lastKeyboardReport s = g_lastKeyboardReport s'"
    "g_pendingKeyboardReport s = g_pendingKeyboardReport s'" "g_keyboardReportPending s = g_keyboardReportPending s'"
    "g_keyboardReportActive s = g_keyboardReportActive s'" "g_keyboardSelected s = g_keyboardSelected s'"
    "g_keyboardDevAddr s = g_keyboardDevAddr s'" "g_keyboardInstance s = g_keyboardInstance s'"
    "g_mouseReportPending s = g_mouseReportPending s'" "g_mouseReportActive s = g_mouseReportActive s'"
    "g_mouseSelected s = g_mouseSelected s'" "g_mouseDevAddr s = g_mouseDevAddr s'"
    "g_mouseInstance s = g_mouseInstance s'" "g_lastMouseReport s = g_lastMouseReport s'"
    "g_pendingMouseReport s = g_pendingMouseReport s'"
  using assms by (simp_all add: links_def)

lemma process_keys:
  "actions (fold (usb_keyboard_process_key report) ks s) = actions s @
     concat (map (key_actions (active_table s) (kr_modifier report))
       (filter (\<lambda>k. k \<noteq> 0 \<and> \<not> usb_keyboard_key_is_down (g_lastKeyboardReport s) k) ks))"
  "active_table (fold (usb_keyboard_process_key report) ks s) = active_table s"
  "links (fold (usb_keyboard_process_key report) ks s) = links s"
proof (induction ks arbitrary: s)
  case (Cons k ks)
  have last: "g_lastKeyboardReport (usb_keyboard_process_key report k s) = g_lastKeyboardReport s" for k s
    using links_same(2) [OF process_key(3)] .
  { case 1 show ?case using Cons.IH(1) by (simp add: process_key(1,2) last) }
  { case 2 show ?case using Cons.IH(2) by (simp add: process_key(2)) }
  { case 3 show ?case using Cons.IH(3) by (simp add: process_key(3)) }
qed simp_all

lemma repeat_update:
  "actions (usb_keyboard_repeat_update_from_report report s) = actions s" (is ?acts)
  "active_table (usb_keyboard_repeat_update_from_report report s) = active_table s" (is ?tab)
  "links (usb_keyboard_repeat_update_from_report report s) = links s" (is ?links)
proof -
  obtain l where l: "usb_keyboard_keycode_to_ascii (g_keyRepeatKeycode s) (kr_modifier report) s =
      (layout_char (active_table s) (g_keyRepeatKeycode s) (kr_modifier report), s\<lparr>layout := l\<rparr>)"
    and t: "table_in_force l = active_table s"
    by (rule keycode_to_ascii)
  note d = usb_keyboard_repeat_update_from_report_def usb_keyboard_repeat_clear_def Let_def links_def
  show ?acts by (simp add: d l)
  show ?tab using t by (simp add: d l)
  show ?links by (simp add: d l)
qed

text \<open>C22: A keyboard report acts exactly on the keys that were not down in the report before, each once and in
  their order in the report: a break key requests a console break, a function key selects its console context,
  any other key types its character in the layout in force, or nothing where the layout has none.\<close>

theorem keyboard_report_actions:
  "actions (usb_keyboard_process_report report s) = actions s @
     concat (map (key_actions (active_table s) (kr_modifier report)) (pressed_keys (g_lastKeyboardReport s) report))"
  by (simp add: usb_keyboard_process_report_def Let_def repeat_update process_keys pressed_keys_def)

section \<open>The invariant\<close>

definition linked :: "hid_record list \<Rightarrow> u8 \<Rightarrow> u8 \<Rightarrow> bool" where
  "linked recs dev inst \<longleftrightarrow> (\<exists>r\<in>set recs. rec_mounted r \<and> rec_addr r = dev \<and> rec_instance r = inst)"

text \<open>No interface has two records.\<close>

definition single_records :: "hid_record list \<Rightarrow> bool" where
  "single_records recs \<longleftrightarrow> (\<forall>i<length recs. \<forall>j<length recs.
     rec_mounted (recs ! i) \<and> rec_mounted (recs ! j) \<and> rec_addr (recs ! i) = rec_addr (recs ! j) \<and>
     rec_instance (recs ! i) = rec_instance (recs ! j) \<longrightarrow> i = j)"

text \<open>The key that repeats is held in the last report, has a character and is no function key.\<close>

definition repeat_ok :: "hid \<Rightarrow> bool" where
  "repeat_ok s \<longleftrightarrow> (g_keyRepeatActive s \<longrightarrow>
     g_keyRepeatKeycode s \<noteq> 0 \<and> g_keyRepeatAscii s \<noteq> 0 \<and> \<not> usb_keyboard_is_route_key (g_keyRepeatKeycode s) \<and>
     usb_keyboard_key_is_down (g_lastKeyboardReport s) (g_keyRepeatKeycode s) \<and>
     g_keyRepeatModifier s = kr_modifier (g_lastKeyboardReport s))"

definition hid_ok :: "hid \<Rightarrow> bool" where
  "hid_ok s \<longleftrightarrow>
     length (g_hidRecords s) = USB_HID_MAX_RECORDS \<and> single_records (g_hidRecords s) \<and>
     (g_keyboardSelected s \<longrightarrow> linked (g_hidRecords s) (g_keyboardDevAddr s) (g_keyboardInstance s)) \<and>
     (g_mouseSelected s \<longrightarrow> linked (g_hidRecords s) (g_mouseDevAddr s) (g_mouseInstance s)) \<and>
     (g_keyboardReportPending s \<or> g_keyboardReportActive s \<or> g_keyRepeatActive s \<longrightarrow> g_keyboardSelected s) \<and>
     (g_mouseReportPending s \<or> g_mouseReportActive s \<longrightarrow> g_mouseSelected s) \<and>
     \<not> (g_keyboardReportPending s \<and> g_keyboardReportActive s) \<and>
     \<not> (g_mouseReportPending s \<and> g_mouseReportActive s) \<and>
     repeat_ok s"

text \<open>While a report is worked on.\<close>

definition repeat_mid :: "hid \<Rightarrow> bool" where
  "repeat_mid s \<longleftrightarrow> (g_keyRepeatActive s \<longrightarrow>
     g_keyRepeatKeycode s \<noteq> 0 \<and> g_keyRepeatAscii s \<noteq> 0 \<and> \<not> usb_keyboard_is_route_key (g_keyRepeatKeycode s))"

lemma repeat_mid_process_key: "repeat_mid s \<Longrightarrow> repeat_mid (usb_keyboard_process_key report k s)"
proof -
  obtain l where l: "usb_keyboard_keycode_to_ascii k (kr_modifier report) s =
      (layout_char (active_table s) k (kr_modifier report), s\<lparr>layout := l\<rparr>)"
    by (rule keycode_to_ascii)
  note d = usb_keyboard_process_key_def usb_keyboard_handle_console_break_def
    usb_keyboard_handle_route_key_down_def Let_def usb_keyboard_repeat_start_def millis_def emit_def
    usb_keyboard_repeat_clear_def
  show "repeat_mid s \<Longrightarrow> repeat_mid (usb_keyboard_process_key report k s)"
    by (auto simp: d l repeat_mid_def)
qed

lemma repeat_ok_process_report:
  assumes "repeat_ok s"
  shows "repeat_ok (usb_keyboard_process_report report s)"
proof -
  let ?s = "fold (usb_keyboard_process_key report) (take USB_KEYBOARD_MAX_KEYS (kr_keycode report)) s"
  have "repeat_mid s" using assms by (simp add: repeat_mid_def repeat_ok_def)
  then have "repeat_mid (fold (usb_keyboard_process_key report) ks s)" for ks
    by (induction ks arbitrary: s) (simp_all add: repeat_mid_process_key)
  then have mid: "repeat_mid ?s" .
  obtain l where l: "usb_keyboard_keycode_to_ascii (g_keyRepeatKeycode ?s) (kr_modifier report) ?s =
      (layout_char (active_table ?s) (g_keyRepeatKeycode ?s) (kr_modifier report), ?s\<lparr>layout := l\<rparr>)"
    by (rule keycode_to_ascii)
  show ?thesis using mid
    unfolding usb_keyboard_process_report_def Let_def usb_keyboard_repeat_update_from_report_def l prod.case
    by (auto simp: repeat_ok_def repeat_mid_def usb_keyboard_repeat_clear_def)
qed

subsection \<open>Records\<close>

lemma linked_nth: "linked recs d n \<longleftrightarrow>
    (\<exists>i<length recs. rec_mounted (recs ! i) \<and> rec_addr (recs ! i) = d \<and> rec_instance (recs ! i) = n)"
  unfolding linked_def by (metis in_set_conv_nth)

lemma find_record:
  "usb_hid_find_record d n s = Some i \<Longrightarrow> i < length (g_hidRecords s) \<and> rec_mounted (g_hidRecords s ! i) \<and>
     rec_addr (g_hidRecords s ! i) = d \<and> rec_instance (g_hidRecords s ! i) = n"
  "usb_hid_find_record d n s = None \<longleftrightarrow> \<not> linked (g_hidRecords s) d n"
  "usb_hid_alloc_record s = Some i \<Longrightarrow> i < length (g_hidRecords s) \<and> \<not> rec_mounted (g_hidRecords s ! i)"
  using find_index_from_Some [of 0 _ "g_hidRecords s" i]
  by (auto simp: usb_hid_find_record_def usb_hid_alloc_record_def find_index_None linked_def)

lemma linked_update:
  assumes "i < length recs"
  shows "linked (recs[i := r]) d n \<longleftrightarrow>
    rec_mounted r \<and> rec_addr r = d \<and> rec_instance r = n \<or>
    (\<exists>j<length recs. j \<noteq> i \<and> rec_mounted (recs ! j) \<and> rec_addr (recs ! j) = d \<and> rec_instance (recs ! j) = n)"
  using assms unfolding linked_nth by (auto simp: nth_list_update)

lemma single_update:
  assumes "single_records recs" and "i < length recs"
    and "\<And>j. rec_mounted r \<Longrightarrow> j < length recs \<Longrightarrow> rec_mounted (recs ! j) \<Longrightarrow> rec_addr (recs ! j) = rec_addr r \<Longrightarrow>
       rec_instance (recs ! j) = rec_instance r \<Longrightarrow> j = i"
  shows "single_records (recs[i := r])"
  using assms unfolding single_records_def by (auto simp: nth_list_update)

text \<open>A mount keeps every link; a removal ends exactly one.\<close>

lemma mount_records:
  assumes s: "single_records (g_hidRecords s)" and m: "tuh_hid_mount_cb dev inst desc s = Some t"
  obtains recs where "t = s\<lparr>g_hidRecords := recs\<rparr>" and "single_records recs"
    and "length recs = length (g_hidRecords s)" and "\<And>d n. linked (g_hidRecords s) d n \<Longrightarrow> linked recs d n"
proof (cases "usb_hid_find_record dev inst s")
  case (Some i)
  note i = find_record(1) [OF Some]
  obtain role where t: "t = s\<lparr>g_hidRecords := (g_hidRecords s)[i := \<lparr>rec_addr = dev, rec_instance = inst,
      rec_desc_len = of_nat (length desc), rec_role = role, rec_mounted = True\<rparr>]\<rparr>"
    using m Some by (auto simp: tuh_hid_mount_cb_def split: option.splits)
  show ?thesis
  proof (rule that [OF t])
    show "single_records ((g_hidRecords s)[i := \<lparr>rec_addr = dev, rec_instance = inst,
        rec_desc_len = of_nat (length desc), rec_role = role, rec_mounted = True\<rparr>])"
      by (rule single_update [OF s]) (use s i in \<open>auto simp: single_records_def\<close>)
    show "linked ((g_hidRecords s)[i := \<lparr>rec_addr = dev, rec_instance = inst,
        rec_desc_len = of_nat (length desc), rec_role = role, rec_mounted = True\<rparr>]) d n"
      if "linked (g_hidRecords s) d n" for d n
      using that i unfolding linked_update [OF conjunct1 [OF i]] by (auto simp: linked_nth)
  qed simp
next
  case None
  show ?thesis
  proof (cases "usb_hid_alloc_record s")
    case (Some i)
    note i = find_record(3) [OF Some]
    obtain role where t: "t = s\<lparr>g_hidRecords := (g_hidRecords s)[i := \<lparr>rec_addr = dev, rec_instance = inst,
        rec_desc_len = of_nat (length desc), rec_role = role, rec_mounted = True\<rparr>]\<rparr>"
      using m None Some by (auto simp: tuh_hid_mount_cb_def split: option.splits)
    show ?thesis
    proof (rule that [OF t])
      show "single_records ((g_hidRecords s)[i := \<lparr>rec_addr = dev, rec_instance = inst,
          rec_desc_len = of_nat (length desc), rec_role = role, rec_mounted = True\<rparr>])"
        by (rule single_update [OF s]) (use None i in \<open>auto simp: find_record(2) linked_nth\<close>)
      show "linked ((g_hidRecords s)[i := \<lparr>rec_addr = dev, rec_instance = inst,
          rec_desc_len = of_nat (length desc), rec_role = role, rec_mounted = True\<rparr>]) d n"
        if "linked (g_hidRecords s) d n" for d n
        using that i unfolding linked_update [OF conjunct1 [OF i]] by (auto simp: linked_nth)
    qed simp
  next
    case none: None
    with None m have "t = s" by (simp add: tuh_hid_mount_cb_def)
    then show ?thesis using s by (intro that [of "g_hidRecords s"]) simp_all
  qed
qed

lemma forget_record:
  assumes s: "single_records (g_hidRecords s)"
  obtains recs where "forget_record dev inst s = s\<lparr>g_hidRecords := recs\<rparr>" and "single_records recs"
    and "length recs = length (g_hidRecords s)"
    and "\<And>d n. linked recs d n \<longleftrightarrow> linked (g_hidRecords s) d n \<and> (d, n) \<noteq> (dev, inst)"
proof (cases "usb_hid_find_record dev inst s")
  case (Some i)
  note i = find_record(1) [OF Some]
  show ?thesis
  proof (rule that)
    show "forget_record dev inst s = s\<lparr>g_hidRecords := (g_hidRecords s)[i := no_record]\<rparr>"
      using Some by (simp add: forget_record_def)
    show "single_records ((g_hidRecords s)[i := no_record])"
      by (rule single_update [OF s]) (use i in \<open>auto simp: no_record_def\<close>)
    show "linked ((g_hidRecords s)[i := no_record]) d n \<longleftrightarrow>
        linked (g_hidRecords s) d n \<and> (d, n) \<noteq> (dev, inst)" for d n
      using i s unfolding linked_update [OF conjunct1 [OF i]]
      by (auto simp: linked_nth no_record_def single_records_def)
  qed simp
next
  case None
  then have "forget_record dev inst s = s" by (simp add: forget_record_def)
  moreover have "\<not> linked (g_hidRecords s) dev inst" using None by (simp add: find_record(2))
  ultimately show ?thesis by (intro that [of "g_hidRecords s"]) (use s in auto)
qed

subsection \<open>Steps\<close>

lemma hid_ok_links:
  assumes "hid_ok s" and "links t = links s" and "g_keyRepeatActive t \<longrightarrow> g_keyboardSelected s" and "repeat_ok t"
  shows "hid_ok t"
  using assms links_same [OF assms(2)] by (simp add: hid_ok_def)

lemma hid_ok_emit: "hid_ok (emit a s) = hid_ok s"
  by (simp add: hid_ok_def emit_def repeat_ok_def)

lemma process_report_links:
  "links (usb_keyboard_process_report report s) = links (s\<lparr>g_lastKeyboardReport := report\<rparr>)"
proof -
  let ?t = "usb_keyboard_repeat_update_from_report report
    (fold (usb_keyboard_process_key report) (take USB_KEYBOARD_MAX_KEYS (kr_keycode report)) s)"
  have "links ?t = links s" by (simp only: process_keys(3) repeat_update(3))
  then show ?thesis by (simp add: usb_keyboard_process_report_def Let_def links_def)
qed

lemma hid_ok_process_report:
  assumes "hid_ok s" and "g_keyboardSelected s"
  shows "hid_ok (usb_keyboard_process_report report s)"
  using assms repeat_ok_process_report [of s report] links_same [OF process_report_links [of report s]]
  by (simp add: hid_ok_def)

lemma hid_ok_process_mouse: "hid_ok (usb_mouse_process_report report s) = hid_ok s"
  by (simp add: hid_ok_def usb_mouse_process_report_def emit_def repeat_ok_def Let_def)

lemma hid_ok_flags:
  "hid_ok s \<Longrightarrow> hid_ok (s\<lparr>g_keyboardReportPending := False\<rparr>)"
  "hid_ok s \<Longrightarrow> hid_ok (s\<lparr>g_mouseReportPending := False\<rparr>)"
  "hid_ok (s\<lparr>g_keyboardRemovedNoticePending := b\<rparr>) = hid_ok s"
  "hid_ok (s\<lparr>g_mouseRemovedNoticePending := b\<rparr>) = hid_ok s"
  "hid_ok (snd (millis s)) = hid_ok s"
  "hid_ok (start_arm_delay s) = hid_ok s"
  by (auto simp: hid_ok_def repeat_ok_def millis_def start_arm_delay_def Let_def)

lemma hid_ok_process_pending: "hid_ok s \<Longrightarrow> hid_ok (usb_hid_process_pending_reports s)"
proof -
  assume s: "hid_ok s"
  then have "g_keyboardReportPending s \<longrightarrow> g_keyboardSelected s" by (simp add: hid_ok_def)
  then show ?thesis using s
    by (simp add: usb_hid_process_pending_reports_def Let_def hid_ok_process_report hid_ok_process_mouse hid_ok_flags)
qed

lemma found_linked:
  "find_index_from 0 (\<lambda>r. rec_mounted r \<and> Q r) recs = Some i \<Longrightarrow> linked recs (rec_addr (recs ! i)) (rec_instance (recs ! i))"
  using find_index_from_Some [of 0 "\<lambda>r. rec_mounted r \<and> Q r" recs i] unfolding linked_nth by auto

lemma hid_ok_select:
  "hid_ok s \<Longrightarrow> hid_ok (usb_hid_select_keyboard s)" "hid_ok s \<Longrightarrow> hid_ok (usb_hid_select_mouse s)"
  using found_linked [of "\<lambda>r. rec_role r = USB_HID_ROLE_KEYBOARD" "g_hidRecords s"]
    found_linked [of "\<lambda>r. rec_role r = USB_HID_ROLE_MOUSE" "g_hidRecords s"]
  by (auto simp: usb_hid_select_keyboard_def usb_hid_select_mouse_def hid_ok_def repeat_ok_def Let_def
      usb_keyboard_repeat_clear_def case_prod_beta split: option.split)

lemma hid_ok_repeat_task: "hid_ok s \<Longrightarrow> hid_ok (usb_keyboard_repeat_task s)"
  by (simp add: usb_keyboard_repeat_task_def millis_def emit_def hid_ok_def repeat_ok_def Let_def)

lemma hid_ok_arm:
  "hid_ok s \<Longrightarrow> hid_ok (usb_hid_arm_keyboard_report s)" "hid_ok s \<Longrightarrow> hid_ok (usb_hid_arm_mouse_report s)"
  by (simp_all add: usb_hid_arm_keyboard_report_def usb_hid_arm_mouse_report_def millis_def
      tuh_hid_receive_report_def hid_ok_def repeat_ok_def Let_def)

lemma hid_ok_task: "hid_ok s \<Longrightarrow> hid_ok (taskUSBHIDInput s)"
  by (simp add: taskUSBHIDInput_def Let_def case_prod_beta hid_ok_flags hid_ok_emit hid_ok_select hid_ok_arm
      hid_ok_repeat_task hid_ok_process_pending)

lemma hid_ok_mount: "hid_ok s \<Longrightarrow> tuh_hid_mount_cb dev inst desc s = Some t \<Longrightarrow> hid_ok t"
  by (rule mount_records [of s dev inst desc t]) (auto simp: hid_ok_def repeat_ok_def)

lemma hid_ok_umount:
  assumes "hid_ok s"
  shows "hid_ok (tuh_hid_umount_cb dev inst s)"
proof (rule forget_record [of s dev inst])
  show "single_records (g_hidRecords s)" using assms by (simp add: hid_ok_def)
  fix recs
  assume r: "forget_record dev inst s = s\<lparr>g_hidRecords := recs\<rparr>" "single_records recs"
    "length recs = length (g_hidRecords s)"
    "\<And>d n. linked recs d n \<longleftrightarrow> linked (g_hidRecords s) d n \<and> (d, n) \<noteq> (dev, inst)"
  show ?thesis
    using assms r(2,3) unfolding tuh_hid_umount_cb_def r(1)
    by (cases "g_keyboardSelected s \<and> dev = g_keyboardDevAddr s \<and> inst = g_keyboardInstance s";
        cases "g_mouseSelected s \<and> dev = g_mouseDevAddr s \<and> inst = g_mouseInstance s")
      (auto simp: hid_ok_def repeat_ok_def forget_mouse_def forget_keyboard_def usb_keyboard_repeat_clear_def r(4))
qed

lemma hid_ok_received: "hid_ok s \<Longrightarrow> hid_ok (tuh_hid_report_received_cb dev inst report s)"
  by (simp add: tuh_hid_report_received_cb_def hid_ok_def repeat_ok_def Let_def)

text \<open>Every order of callbacks, task rounds and changes of the layout after start-up.\<close>

definition hid_start :: "(nat \<Rightarrow> u32) \<Rightarrow> (nat \<Rightarrow> bool) \<Rightarrow> layout_state \<Rightarrow> hid" where
  "hid_start clock answers l =
     \<lparr>g_hidRecords = replicate USB_HID_MAX_RECORDS no_record, g_lastKeyboardReport = no_keys,
      g_pendingKeyboardReport = no_keys, g_lastMouseReport = no_movement, g_pendingMouseReport = no_movement,
      g_keyboardReportPending = False, g_keyboardReportActive = False, g_keyboardRemovedNoticePending = False,
      g_mouseReportPending = False, g_mouseReportActive = False, g_mouseRemovedNoticePending = False,
      g_keyboardDevAddr = 0, g_keyboardInstance = 0, g_keyboardSelected = False,
      g_keyboardActiveAnnounced = False, g_lastKeyboardArmAttemptMs = 0, g_keyRepeatActive = False,
      g_keyRepeatKeycode = 0, g_keyRepeatModifier = 0, g_keyRepeatAscii = 0, g_keyRepeatNextMs = 0,
      g_mouseDevAddr = 0, g_mouseInstance = 0, g_mouseSelected = False, g_mouseActiveAnnounced = False,
      g_lastMouseArmAttemptMs = 0, g_hidArmDelayStarted = False, g_hidArmDelayStartMs = 0, layout = l,
      actions = [], clock_readings = clock, readings_taken = 0, receive_answers = answers, receive_calls = 0\<rparr>"

inductive hid_reachable :: "hid \<Rightarrow> bool" where
  start: "hid_reachable (initUSBHIDInput (hid_start clock answers l))"
| mount: "hid_reachable s \<Longrightarrow> tuh_hid_mount_cb dev inst desc s = Some t \<Longrightarrow> hid_reachable t"
| umount: "hid_reachable s \<Longrightarrow> hid_reachable (tuh_hid_umount_cb dev inst s)"
| received: "hid_reachable s \<Longrightarrow> hid_reachable (tuh_hid_report_received_cb dev inst report s)"
| task: "hid_reachable s \<Longrightarrow> hid_reachable (taskUSBHIDInput s)"
| relayout: "hid_reachable s \<Longrightarrow> hid_reachable (s\<lparr>layout := l\<rparr>)"

lemma hid_reachable_ok: "hid_reachable s \<Longrightarrow> hid_ok s"
proof (induction rule: hid_reachable.induct)
  case (start clock answers l)
  show ?case
    by (simp add: initUSBHIDInput_def hid_start_def hid_ok_def repeat_ok_def single_records_def no_record_def emit_def
        USB_HID_MAX_RECORDS_def)
next
  case (relayout s l)
  then show ?case by (simp add: hid_ok_def repeat_ok_def)
qed (simp_all add: hid_ok_mount hid_ok_umount hid_ok_received hid_ok_task)

text \<open>A keyboard is mounted and found by the first round of the task.\<close>

definition keyboard_mounted :: hid where
  "keyboard_mounted = the (tuh_hid_mount_cb 1 0 [0x05, 0x01, 0x09, 0x06]
     (initUSBHIDInput (hid_start (\<lambda>n. 2000 * of_nat n) (\<lambda>n. True)
        \<lparr>g_keyboardLocale = USB_KEYBOARD_LOCALE_US, g_activeLayout = None\<rparr>)))"

lemma keyboard_classified: "usb_hid_classify_descriptor [0x05, 0x01, 0x09, 0x06] = Some USB_HID_ROLE_KEYBOARD"
proof -
  have "hid_items [0x05, 0x01, 0x09, 0x06] = [(1, 0, 1), (2, 0, 6)]" by (simp add: item_value_def)
  then show ?thesis
    by (simp add: usb_hid_classify_descriptor_def usb_hid_descriptor_has_desktop_usage_def usb_hid_scan_items
        del: hid_items.simps)
qed

lemma selected_stages:
  "g_keyboardSelected (usb_hid_select_mouse s) = g_keyboardSelected s"
  "g_keyboardSelected (usb_hid_process_pending_reports s) = g_keyboardSelected s"
  "g_keyboardSelected (usb_keyboard_repeat_task s) = g_keyboardSelected s"
  "g_keyboardSelected (usb_hid_arm_keyboard_report s) = g_keyboardSelected s"
  "g_keyboardSelected (usb_hid_arm_mouse_report s) = g_keyboardSelected s"
  using links_same(6) [OF process_report_links]
  by (simp_all add: usb_hid_select_mouse_def usb_hid_process_pending_reports_def usb_mouse_process_report_def
      usb_keyboard_repeat_task_def usb_hid_arm_keyboard_report_def usb_hid_arm_mouse_report_def millis_def
      tuh_hid_receive_report_def emit_def Let_def case_prod_beta split: option.split)

lemma first_round_selects:
  assumes "g_hidRecords s = r # recs" and "rec_mounted r" and "rec_role r = USB_HID_ROLE_KEYBOARD"
    and "\<not> g_hidArmDelayStarted s" and "\<not> g_keyboardRemovedNoticePending s" and "\<not> g_mouseRemovedNoticePending s"
    and "clock_readings s (Suc (readings_taken s)) - clock_readings s (readings_taken s) \<ge> USB_HID_ARM_DELAY_MS"
  shows "g_keyboardSelected (taskUSBHIDInput s)"
  using assms
  by (simp add: taskUSBHIDInput_def Let_def case_prod_beta selected_stages start_arm_delay_def millis_def
      usb_hid_select_keyboard_def usb_keyboard_repeat_clear_def linorder_not_less [symmetric])

lemma keyboard_mounted:
  "hid_reachable keyboard_mounted" "g_keyboardSelected (taskUSBHIDInput keyboard_mounted)"
proof -
  let ?s = "initUSBHIDInput (hid_start (\<lambda>n. 2000 * of_nat n) (\<lambda>n. True)
        \<lparr>g_keyboardLocale = USB_KEYBOARD_LOCALE_US, g_activeLayout = None\<rparr>)"
  let ?r = "\<lparr>rec_addr = 1, rec_instance = 0, rec_desc_len = 4, rec_role = USB_HID_ROLE_KEYBOARD, rec_mounted = True\<rparr>"
  have recs: "g_hidRecords ?s = no_record # replicate 11 no_record"
    by (simp add: initUSBHIDInput_def hid_start_def emit_def USB_HID_MAX_RECORDS_def numeral_eq_Suc)
  have none: "usb_hid_find_record 1 0 ?s = None"
    by (simp add: find_record(2) linked_def recs no_record_def)
  have free: "usb_hid_alloc_record ?s = Some 0"
    by (simp add: usb_hid_alloc_record_def recs no_record_def)
  have mount: "tuh_hid_mount_cb 1 0 [0x05, 0x01, 0x09, 0x06] ?s =
      Some (?s\<lparr>g_hidRecords := ?r # replicate 11 no_record\<rparr>)"
    by (simp add: tuh_hid_mount_cb_def none free keyboard_classified recs)
  then have km: "keyboard_mounted = ?s\<lparr>g_hidRecords := ?r # replicate 11 no_record\<rparr>"
    by (simp add: keyboard_mounted_def)
  show "hid_reachable keyboard_mounted"
    using hid_reachable.mount [OF hid_reachable.start mount] km by simp
  show "g_keyboardSelected (taskUSBHIDInput keyboard_mounted)"
    unfolding km
    by (rule first_round_selects [where r = ?r and recs = "replicate 11 no_record"])
      (simp_all add: initUSBHIDInput_def hid_start_def emit_def USB_HID_ARM_DELAY_MS_def)
qed

text \<open>C20: In every order of mounts, removals, reports and task rounds: a selected keyboard or mouse is a mounted
  interface with one record; a report is waiting or requested only for a selected interface, and never both;
  and a repeating key is held in the last report of the selected keyboard, types a character and is no
  function key.\<close>

theorem hid_invariant:
  assumes "hid_reachable s"
  shows "hid_ok s"
  by (rule hid_reachable_ok [OF assms])

lemma hid_invariant_witness: "hid_ok (taskUSBHIDInput keyboard_mounted)"
  by (rule hid_invariant [OF hid_reachable.task [OF keyboard_mounted(1)]])

section \<open>Removal of the keyboard\<close>

lemma quiet_stages:
  "actions (start_arm_delay s) = actions s" "g_keyRepeatActive (start_arm_delay s) = g_keyRepeatActive s"
  "g_keyboardReportPending (start_arm_delay s) = g_keyboardReportPending s"
  "actions (snd (millis s)) = actions s" "g_keyRepeatActive (snd (millis s)) = g_keyRepeatActive s"
  "g_keyboardReportPending (snd (millis s)) = g_keyboardReportPending s"
  "actions (usb_hid_select_keyboard s) = actions s"
  "\<not> g_keyRepeatActive s \<Longrightarrow> \<not> g_keyRepeatActive (usb_hid_select_keyboard s)"
  "g_keyboardReportPending (usb_hid_select_keyboard s) = g_keyboardReportPending s"
  "actions (usb_hid_select_mouse s) = actions s"
  "g_keyRepeatActive (usb_hid_select_mouse s) = g_keyRepeatActive s"
  "g_keyboardReportPending (usb_hid_select_mouse s) = g_keyboardReportPending s"
  "actions (usb_hid_arm_keyboard_report s) = actions s" "actions (usb_hid_arm_mouse_report s) = actions s"
  "\<not> g_keyRepeatActive s \<Longrightarrow> usb_keyboard_repeat_task s = s"
  by (auto simp: start_arm_delay_def millis_def usb_hid_select_keyboard_def usb_hid_select_mouse_def
      usb_keyboard_repeat_clear_def usb_hid_arm_keyboard_report_def usb_hid_arm_mouse_report_def
      tuh_hid_receive_report_def usb_keyboard_repeat_task_def Let_def case_prod_beta split: option.split)

lemma only_mouse_pending:
  assumes "\<not> g_keyboardReportPending s"
  shows "\<exists>ms. actions (usb_hid_process_pending_reports s) = actions s @ ms \<and> length ms \<le> 1 \<and>
      (\<forall>a\<in>set ms. \<exists>x y b. a = Mouse_Update x y b)"
    and "g_keyRepeatActive (usb_hid_process_pending_reports s) = g_keyRepeatActive s"
  using assms by (simp_all add: usb_hid_process_pending_reports_def usb_mouse_process_report_def emit_def Let_def)

lemma silent_task:
  assumes "\<not> g_keyboardReportPending s" and "\<not> g_keyRepeatActive s" and "g_keyboardRemovedNoticePending s"
  shows "\<exists>ms. actions (taskUSBHIDInput s) = actions s @ Console_PID 0 # ms \<and> length ms \<le> 1 \<and>
      (\<forall>a\<in>set ms. \<exists>x y b. a = Mouse_Update x y b)"
proof -
  define t where "t = (let s = emit (Console_PID 0) (s\<lparr>g_keyboardRemovedNoticePending := False\<rparr>);
     s = (if g_mouseRemovedNoticePending s then s\<lparr>g_mouseRemovedNoticePending := False\<rparr> else s) in start_arm_delay s)"
  have t: "actions t = actions s @ [Console_PID 0]" "\<not> g_keyboardReportPending t" "\<not> g_keyRepeatActive t"
    using assms by (simp_all add: t_def Let_def quiet_stages emit_def)
  define u where "u = usb_hid_select_mouse (usb_hid_select_keyboard (snd (millis t)))"
  have u: "actions u = actions t" "\<not> g_keyboardReportPending u" "\<not> g_keyRepeatActive u"
    using t by (simp_all add: u_def quiet_stages)
  obtain ms where ms: "actions (usb_hid_process_pending_reports u) = actions u @ ms" "length ms \<le> 1"
    "\<forall>a\<in>set ms. \<exists>x y b. a = Mouse_Update x y b"
    using only_mouse_pending(1) [OF u(2)] by blast
  have task: "taskUSBHIDInput s =
     (if \<not> g_hidArmDelayStarted t then t
      else if fst (millis t) - g_hidArmDelayStartMs (snd (millis t)) < USB_HID_ARM_DELAY_MS then snd (millis t)
      else usb_hid_arm_mouse_report (usb_hid_arm_keyboard_report
        (usb_keyboard_repeat_task (usb_hid_process_pending_reports u))))"
    using assms(3) by (simp add: taskUSBHIDInput_def t_def u_def Let_def case_prod_beta)
  have "actions (taskUSBHIDInput s) \<in> {actions t, actions u @ ms}"
    unfolding task using u only_mouse_pending(2) [OF u(2)] ms(1) by (simp add: quiet_stages)
  then show ?thesis using t(1) u(1) ms by (auto intro: exI [of _ "[]"] exI [of _ ms])
qed

text \<open>C23: When the selected keyboard is unplugged, its record is gone, nothing more of it is typed, not even a
  repeat or a report that already waits, and the next round of the task moves the console back to context 0
  before anything else it does, which is at most one mouse update.\<close>

theorem unplugged_keyboard_is_silent:
  fixes s :: hid
  assumes "hid_reachable s" and "g_keyboardSelected s"
  defines "t \<equiv> tuh_hid_umount_cb (g_keyboardDevAddr s) (g_keyboardInstance s) s"
  shows "\<not> linked (g_hidRecords t) (g_keyboardDevAddr s) (g_keyboardInstance s) \<and> actions t = actions s \<and>
    (\<exists>ms. actions (taskUSBHIDInput t) = actions s @ Console_PID 0 # ms \<and> length ms \<le> 1 \<and>
       (\<forall>a\<in>set ms. \<exists>x y b. a = Mouse_Update x y b))"
proof (rule forget_record [of s "g_keyboardDevAddr s" "g_keyboardInstance s"])
  show "single_records (g_hidRecords s)" using hid_reachable_ok [OF assms(1)] by (simp add: hid_ok_def)
  fix recs
  assume r: "forget_record (g_keyboardDevAddr s) (g_keyboardInstance s) s = s\<lparr>g_hidRecords := recs\<rparr>"
    "\<And>d n. linked recs d n \<longleftrightarrow>
       linked (g_hidRecords s) d n \<and> (d, n) \<noteq> (g_keyboardDevAddr s, g_keyboardInstance s)"
  have t: "g_hidRecords t = recs" "actions t = actions s" "\<not> g_keyboardReportPending t" "\<not> g_keyRepeatActive t"
    "g_keyboardRemovedNoticePending t"
    using assms(2) by (simp_all add: t_def tuh_hid_umount_cb_def r(1) forget_mouse_def forget_keyboard_def
        usb_keyboard_repeat_clear_def)
  show ?thesis using silent_task [OF t(3-5)] t(1,2) r(2) by simp
qed

lemma unplugged_keyboard_is_silent_witness:
  "\<not> linked (g_hidRecords (tuh_hid_umount_cb
       (g_keyboardDevAddr (taskUSBHIDInput keyboard_mounted)) (g_keyboardInstance (taskUSBHIDInput keyboard_mounted))
       (taskUSBHIDInput keyboard_mounted)))
     (g_keyboardDevAddr (taskUSBHIDInput keyboard_mounted)) (g_keyboardInstance (taskUSBHIDInput keyboard_mounted))"
  using unplugged_keyboard_is_silent [OF hid_reachable.task [OF keyboard_mounted(1)] keyboard_mounted(2)] by blast

section \<open>The break key\<close>

text \<open>A break is recognised when its key goes down. When C repeats and Ctrl is then pressed, the report has no
  new key, so no break is requested, and the repeat goes on with the character of Ctrl-C.\<close>

lemma held_key_repeats_etx:
  assumes r: "g_keyRepeatActive s" "g_keyRepeatKeycode s = 0x06" "g_keyRepeatModifier s = 0"
    and last: "g_lastKeyboardReport s = \<lparr>kr_modifier = 0, kr_reserved = 0, kr_keycode = [0x06, 0, 0, 0, 0, 0]\<rparr>"
    and us: "active_table s = g_usLayout"
  shows "actions (usb_keyboard_process_report
        \<lparr>kr_modifier = 0x01, kr_reserved = 0, kr_keycode = [0x06, 0, 0, 0, 0, 0]\<rparr> s) = actions s \<and>
    g_keyRepeatActive (usb_keyboard_process_report
        \<lparr>kr_modifier = 0x01, kr_reserved = 0, kr_keycode = [0x06, 0, 0, 0, 0, 0]\<rparr> s) \<and>
    g_keyRepeatAscii (usb_keyboard_process_report
        \<lparr>kr_modifier = 0x01, kr_reserved = 0, kr_keycode = [0x06, 0, 0, 0, 0, 0]\<rparr> s) = 0x03"
proof -
  let ?rep = "\<lparr>kr_modifier = 0x01, kr_reserved = 0, kr_keycode = [0x06, 0, 0, 0, 0, 0]\<rparr>"
  have down: "usb_keyboard_key_is_down (g_lastKeyboardReport s) 0x06"
    by (simp add: last usb_keyboard_key_is_down_def USB_KEYBOARD_MAX_KEYS_def)
  have keys: "fold (usb_keyboard_process_key ?rep) (take USB_KEYBOARD_MAX_KEYS [0x06, 0, 0, 0, 0, 0]) s = s"
    using down by (simp add: usb_keyboard_process_key_def USB_KEYBOARD_MAX_KEYS_def numeral_eq_Suc)
  obtain l where l: "usb_keyboard_keycode_to_ascii 0x06 0x01 s = (layout_char g_usLayout 0x06 0x01, s\<lparr>layout := l\<rparr>)"
    by (rule keycode_to_ascii [where k = "0x06" and m = "0x01" and s = s]) (simp add: us)
  have etx: "layout_char g_usLayout 0x06 0x01 = 0x03"
    by (simp add: layout_char_def g_usLayout_def usb_keyboard_ctrl_active_def KEYBOARD_MODIFIER_CTRL_def
        USB_KEYBOARD_LAYOUT_KEY_COUNT_def)
  show ?thesis using r
    unfolding usb_keyboard_process_report_def key_report.simps keys
    by (simp add: usb_keyboard_repeat_update_from_report_def l etx usb_keyboard_key_is_down_def
        USB_KEYBOARD_MAX_KEYS_def Let_def)
qed

end
