(* ===== verification/Context_Switch.thy ===== *)
theory Context_Switch
  imports Scheduler_Spec
begin

text \<open>
  The command of the 6502 to switch the MMU context (\<open>taskScheduler\<close>): the machine afterwards is the
  one before under the other context, and which command slot is acknowledged.
\<close>

section \<open>Single accesses seen from every context\<close>

lemma snoop_cells_ref:
  fixes a :: u16 and v :: u8
  assumes "cpu_leaves cpu R" and "port_ok m" and "x \<in> R"
  shows "cell (hw (exec (snoop_read6502MemoryLoc (ref_board cpu) a) m)) d x = cell (hw m) d x"
    and "cell (hw (exec (snoop_write6502MemoryLoc (ref_board cpu) a v) m)) d x =
      (if phys_page (hw m) (ctx_reg (hw m)) a = phys_page (hw m) d x \<and> page_offset a = page_offset x
       then v else cell (hw m) d x)"
proof -
  define m0 where "m0 = exec (set6502State (ref_board cpu) sRPI) m"
  note t = take_bus [OF assms(1,2), folded m0_def]
  have r: "exec (read6502Memory (ref_board cpu) a) m0 = m0\<lparr>hw := latched a (hw m0), gBusDir := 1\<rparr>"
    by (rule read6502Memory_ref(1) [OF t(1,3)])
  have w: "exec (write6502Memory (ref_board cpu) a v) m0 =
      m0\<lparr>hw := written a v (hw m0), gBusDir := 0, gMMUIOTrigger := False\<rparr>"
    by (rule write6502Memory_ref [OF t(1,3)])
  have ok: "bus_ok (m0\<lparr>hw := latched a (hw m0), gBusDir := 1\<rparr>)"
    "bus_ok (m0\<lparr>hw := written a v (hw m0), gBusDir := 0, gMMUIOTrigger := False\<rparr>)"
    using machine_ok_latched [OF t(1)] machine_ok_written [OF t(1)] by (simp_all add: machine_ok_def)
  note resumed = set6502State_cell [OF assms(1,3)]
  have pg: "phys_page (hw m0) = phys_page (hw m)"
    using t(6) by (simp add: fun_eq_iff phys_page_def bus_kept_def)
  have c0: "cell (hw m0) d x = cell (hw m) d x" by (rule t(7) [OF assms(3)])
  show "cell (hw (exec (snoop_read6502MemoryLoc (ref_board cpu) a) m)) d x = cell (hw m) d x"
    using resumed [OF ok(1)] c0
    by (simp add: snoop_read6502MemoryLoc_def get6502State_def m0_def [symmetric] r)
  have pg1: "phys_page ((latched a (hw m0))\<lparr>bus_out := True, bus_val := v\<rparr>) = phys_page (hw m)"
    using pg by (simp add: fun_eq_iff phys_page_def latched_def)
  have c1: "cell ((latched a (hw m0))\<lparr>bus_out := True, bus_val := v\<rparr>) d x = cell (hw m) d x"
    using c0 by (simp add: cell_def phys_page_def latched_def)
  have "cell (written a v (hw m0)) d x = (if phys_page (hw m) (ctx_reg (hw m)) a = phys_page (hw m) d x \<and>
      page_offset a = page_offset x then v else cell (hw m) d x)"
    unfolding written_def cell_poke_at pg1 c1 t(4) ..
  then show "cell (hw (exec (snoop_write6502MemoryLoc (ref_board cpu) a v) m)) d x =
      (if phys_page (hw m) (ctx_reg (hw m)) a = phys_page (hw m) d x \<and> page_offset a = page_offset x
       then v else cell (hw m) d x)"
    using resumed [OF ok(2)]
    by (simp add: snoop_write6502MemoryLoc_def get6502State_def m0_def [symmetric] w)
qed

section \<open>On any board\<close>

context neo_bus
begin

lemma sim_schedSwitchcontext [sim_rules]:
  "sim view (schedSwitchcontext bd c) (schedSwitchcontext (ref_board cpu) c)"
  unfolding schedSwitchcontext_def get6502State_def by (intro sim_rules) simp_all

lemma sim_cmd_slot [sim_rules]:
  "sim view (readCmdSlot bd v) (readCmdSlot (ref_board cpu) v)"
  "sim view (writeCmdSlot bd v d) (writeCmdSlot (ref_board cpu) v d)"
  unfolding readCmdSlot_def writeCmdSlot_def by (intro sim_rules)+

lemma sim_ackCommand [sim_rules]: "sim view (ackCommand6502 bd) (ackCommand6502 (ref_board cpu))"
  unfolding ackCommand6502_def by (intro sim_rules)

end

lemma switch_slot: "CMD_SLOT_BASE + ucast CMD_SLOT_CMD = 0xE002" "CMD_SLOT_BASE + ucast CMD_SLOT_PARAM = 0xE003"
  by (simp_all add: CMD_SLOT_BASE_def CMD_SLOT_CMD_def CMD_SLOT_PARAM_def)

text \<open>The part of the task that carries the command out.\<close>

definition switch_command :: "'b board \<Rightarrow> u8 \<Rightarrow> ('b machine, unit) state" where
  "switch_command bd c = do {
     low bd pDebug;
     schedSwitchcontext bd c;
     ackCommand6502 bd;
     high bd pDebug
   }"

lemma port_ok_inj: "port_ok m \<Longrightarrow> pages_inj (hw m) (ctx_reg (hw m))"
  by (simp add: port_ok_def)

lemma switch_command_ref:
  assumes "cpu_leaves cpu R" and "port_ok m" and "gSysState m \<noteq> sRESET" and "pages_inj (hw m) c"
    and "0xE002 \<in> R"
  defines "m' \<equiv> exec (switch_command (ref_board cpu) c) m"
  shows "port_ok m'" and "gSysState m' = gSysState m" and "gCurrentContext m' = uint c"
    and "mmu_ram (hw m') = mmu_ram (hw m)"
    and "cell (hw m') c 0xE002 = 0"
    and "x \<in> R \<Longrightarrow> \<not> (phys_page (hw m) c 0xE002 = phys_page (hw m) d x \<and> page_offset 0xE002 = page_offset x) \<Longrightarrow>
      cell (hw m') d x = cell (hw m) d x"
proof -
  define m1 where "m1 = exec (low (ref_board cpu) pDebug) m"
  obtain f where f: "m1 = m\<lparr>hw := (hw m)\<lparr>lv := f\<rparr>\<rparr>" using debug_ref(4) [OF assms(2)] by (auto simp: m1_def)
  have ok1: "port_ok m1" using debug_ref(2) [OF assms(2)] by (simp add: m1_def)
  have inj1: "pages_inj (hw m1) c" using assms(4) by (simp add: f pages_inj_def)
  have st1: "gSysState m1 \<noteq> sRESET" using assms(3) by (simp add: f)
  define m2 where "m2 = exec (schedSwitchcontext (ref_board cpu) c) m1"
  note s = switch_ref [OF assms(1) ok1 st1 inj1, folded m2_def]
  define m3 where "m3 = exec (snoop_read6502MemoryLoc (ref_board cpu) 0xE002) m2"
  note r = snoop_read_ref [OF assms(1) s(1), of "0xE002", folded m3_def]
  have ok3: "port_ok m3" using keeps_portD(1) [OF r(2)] .
  define v where "v = val_of (snoop_read6502MemoryLoc (ref_board cpu) 0xE002) m2"
  have v: "v = cell (hw m2) c 0xE002" using r(1) [OF assms(5)] s(4) by (simp add: v_def mem_def)
  define m4 where "m4 = (if v \<noteq> 0 then exec (snoop_write6502MemoryLoc (ref_board cpu) 0xE002 0) m3 else m3)"
  have k4: "keeps_port R m3 m4"
    using snoop_write_ref(1) [OF assms(1) ok3] keeps_port_refl [OF ok3] by (simp add: m4_def)
  have ok4: "port_ok m4" by (rule keeps_portD(1) [OF k4])
  obtain g where g: "exec (high (ref_board cpu) pDebug) m4 = m4\<lparr>hw := (hw m4)\<lparr>lv := g\<rparr>\<rparr>"
    using debug_ref(3) [OF ok4] by blast
  have m': "m' = m4\<lparr>hw := (hw m4)\<lparr>lv := g\<rparr>\<rparr>"
    unfolding g [symmetric]
    by (simp add: m'_def switch_command_def ackCommand6502_def readCmdSlot_def writeCmdSlot_def switch_slot
        m1_def [symmetric] m2_def [symmetric] m3_def [symmetric] v_def [symmetric] m4_def CMD6502_NONE_def)
  show "port_ok m'" unfolding m' g [symmetric] by (rule debug_ref(1) [OF ok4])
  have eq: "gSysState m4 = gSysState m" "gCurrentContext m4 = uint c" "mmu_ram (hw m4) = mmu_ram (hw m)"
    using keeps_portD(2-4) [OF k4] keeps_portD(2-4) [OF r(2)] s by (simp_all add: f)
  then show "gSysState m' = gSysState m" "gCurrentContext m' = uint c" "mmu_ram (hw m') = mmu_ram (hw m)"
    by (simp_all add: m')
  have reg3: "ctx_reg (hw m3) = c"
    using ok3 keeps_portD(3) [OF r(2)] s(3) by (simp add: port_ok_def)
  have pg: "phys_page (hw m3) = phys_page (hw m)"
    using keeps_portD(4) [OF r(2)] s(5) by (simp add: fun_eq_iff phys_page_def f)
  have c2: "cell (hw m2) d x = cell (hw m) d x" if "x \<in> R" for d x
    using s(7) [OF that] by (simp add: f cell_def phys_page_def)
  have c3: "cell (hw m3) d x = cell (hw m) d x" if "x \<in> R" for d x
    using snoop_cells_ref(1) [OF assms(1) s(1) that] c2 [OF that] by (simp add: m3_def)
  have c4: "cell (hw m4) d x = (if v \<noteq> 0 \<and> phys_page (hw m) c 0xE002 = phys_page (hw m) d x \<and>
      page_offset 0xE002 = page_offset x then 0 else cell (hw m) d x)" if "x \<in> R" for d x
    using snoop_cells_ref(2) [OF assms(1) ok3 that, of "0xE002" 0 d] c3 [OF that]
    by (simp add: m4_def reg3 pg)
  have c': "cell (hw m') = cell (hw m4)" by (simp add: m' fun_eq_iff cell_def phys_page_def)
  show "cell (hw m') c 0xE002 = 0" using c4 [OF assms(5)] v c2 [OF assms(5)] by (simp add: c')
  show "cell (hw m') d x = cell (hw m) d x"
    if "x \<in> R" "\<not> (phys_page (hw m) c 0xE002 = phys_page (hw m) d x \<and> page_offset 0xE002 = page_offset x)"
    using c4 [OF that(1)] that(2) by (auto simp: c')
qed

context mailbox_bus
begin

lemma sim_switch_command [sim_rules]: "sim view (switch_command bd c) (switch_command (ref_board cpu) c)"
  unfolding switch_command_def by (intro sim_rules)

lemma taskScheduler_run:
  fixes s :: "('b, 'f, 'd, 'k) sys"
  assumes "served m0 (mach s)" and "gMMUIOTrigger (mach s)"
    and "at (mach s) 0xE002 = CMD6502_CONTEXT_SWITCH"
  shows "\<exists>m1. served m0 m1 \<and> (\<forall>x\<in>R. \<forall>d. cell (hw (absm view m1)) d x = cell (hw (absm view (mach s))) d x) \<and>
    mach (exec (taskScheduler bd) s) = exec (switch_command bd (at (mach s) 0xE003)) m1"
proof -
  let ?m1 = "exec (snoop_read6502MemoryLoc bd 0xE002) (mach s)"
  let ?m2 = "exec (snoop_read6502MemoryLoc bd 0xE003) ?m1"
  let ?m3 = "?m2\<lparr>gMMUIOTrigger := False\<rparr>"
  note run = bus_run [where ?m0.0 = m0]
  have in_cells: "0xE002 \<in> mailbox_cells" "0xE003 \<in> mailbox_cells" by (simp_all add: mailbox_cells_def)
  have k1: "served m0 ?m1" by (rule run(1) [OF assms(1)])
  have k2: "served m0 ?m2" by (rule run(1) [OF k1])
  have cells: "cell (hw (absm view (exec (snoop_read6502MemoryLoc bd a) m))) d x = cell (hw (absm view m)) d x"
    if "served m0 m" "x \<in> R" for m a d x
    unfolding simD(1) [OF sim_snoop(1)] by (rule snoop_cells_ref(1) [OF leaves keeps_portD(1) [OF that(1)] that(2)])
  have "mach (exec (taskScheduler bd) s) = exec (switch_command bd (at (mach s) 0xE003)) ?m3"
    using assms run(3) [OF assms(1) in_cells(1)] run(3) [OF k1 in_cells(2)] run(4) [OF assms(1) in_cells(2)]
    by (simp add: taskScheduler_def getCommand6502_def triggerMMUIO_def readCmdSlot_def switch_slot
        CMD6502_CONTEXT_SWITCH_def CMD6502_NONE_def ackMMUIO_def switch_command_def)
  then show ?thesis
    using k2 cells [OF assms(1)] cells [OF k1] by (intro exI [of _ ?m3]) simp
qed

lemma context_switch_run:
  fixes s :: "('b, 'f, 'd, 'k) sys"
  assumes "port_ok (absm view (mach s))" and "gSysState (mach s) \<noteq> sRESET"
    and "gMMUIOTrigger (mach s)" and "smem view s 0xE002 = CMD6502_CONTEXT_SWITCH"
    and "pages_inj (hw (absm view (mach s))) (smem view s 0xE003)"
  defines "m' \<equiv> absm view (mach (exec (taskScheduler bd) s))" and "c \<equiv> smem view s 0xE003"
    and "r \<equiv> hw (absm view (mach s))"
  shows "port_ok m' \<and> gSysState m' = gSysState (mach s) \<and> gCurrentContext m' = uint c \<and>
      mmu_ram (hw m') = mmu_ram r \<and> cell (hw m') c 0xE002 = CMD6502_NONE"
    and "x \<in> R \<Longrightarrow> \<not> (phys_page r c 0xE002 = phys_page r d x \<and> page_offset 0xE002 = page_offset x) \<Longrightarrow>
      cell (hw m') d x = cell r d x"
proof -
  let ?m0 = "absm view (mach s)"
  obtain m1 where m1: "keeps_port R ?m0 (absm view m1)"
      "\<And>x d. x \<in> R \<Longrightarrow> cell (hw (absm view m1)) d x = cell r d x"
      "mach (exec (taskScheduler bd) s) = exec (switch_command bd c) m1"
    using taskScheduler_run [OF keeps_port_refl [OF assms(1)] assms(3)] assms(4)
    by (auto simp: smem_def c_def r_def)
  have k: "port_ok (absm view m1)" "gSysState (absm view m1) = gSysState (mach s)"
    "mmu_ram (hw (absm view m1)) = mmu_ram r"
    using keeps_portD [OF m1(1)] by (simp_all add: r_def)
  have inj: "pages_inj (hw (absm view m1)) c"
    using assms(5) pages_inj_cong [OF k(3)] by (simp add: r_def c_def)
  have E: "0xE002 \<in> R" by (rule cellI) (simp add: mailbox_cells_def)
  have st: "gSysState (absm view m1) \<noteq> sRESET" using k(2) assms(2) by simp
  note w = switch_command_ref [OF leaves k(1) st inj E]
  have m': "m' = exec (switch_command (ref_board cpu) c) (absm view m1)"
    unfolding m'_def m1(3) by (rule simD(1) [OF sim_switch_command])
  have pg: "phys_page (hw (absm view m1)) = phys_page r"
    using k(3) by (simp add: fun_eq_iff phys_page_def)
  show "port_ok m' \<and> gSysState m' = gSysState (mach s) \<and> gCurrentContext m' = uint c \<and>
      mmu_ram (hw m') = mmu_ram r \<and> cell (hw m') c 0xE002 = CMD6502_NONE"
    unfolding m' CMD6502_NONE_def k(2,3) [symmetric] by (intro conjI w(1-5))
  show "cell (hw m') d x = cell r d x"
    if "x \<in> R" "\<not> (phys_page r c 0xE002 = phys_page r d x \<and> page_offset 0xE002 = page_offset x)"
    using w(6) [OF that(1), unfolded pg, OF that(2)] m1(2) [OF that(1)] by (simp add: m')
qed

end

section \<open>Properties\<close>

text \<open>
  C11: A context-switch command leaves the 6502 in the state it was in, under the commanded context, with
  the MMU table untouched; no memory cell changes except the command slot as the new context
  sees it, which is cleared.
\<close>

theorem context_switch_command:
  fixes s :: "('b, 'f, 'd, 'k) sys"
  assumes "mailbox_bus bd view cpu R" and "port_ok (absm view (mach s))" and "gSysState (mach s) \<noteq> sRESET"
    and "gMMUIOTrigger (mach s)" and "smem view s 0xE002 = CMD6502_CONTEXT_SWITCH"
    and "pages_inj (hw (absm view (mach s))) (smem view s 0xE003)"
  shows "let s' = exec (taskScheduler bd) s; c = smem view s 0xE003;
      r = hw (absm view (mach s)); r' = hw (absm view (mach s')) in
    port_ok (absm view (mach s')) \<and> gSysState (mach s') = gSysState (mach s) \<and>
    gCurrentContext (mach s') = uint c \<and> mmu_ram r' = mmu_ram r \<and> cell r' c 0xE002 = CMD6502_NONE \<and>
    (\<forall>x\<in>R. \<forall>d. phys_page r c 0xE002 \<noteq> phys_page r d x \<or> page_offset 0xE002 \<noteq> page_offset x \<longrightarrow>
       cell r' d x = cell r d x)"
proof -
  note run = mailbox_bus.context_switch_run [OF assms]
  have "\<forall>x\<in>R. \<forall>d. phys_page (hw (absm view (mach s))) (smem view s 0xE003) 0xE002 \<noteq>
      phys_page (hw (absm view (mach s))) d x \<or> page_offset 0xE002 \<noteq> page_offset x \<longrightarrow>
      cell (hw (absm view (mach (exec (taskScheduler bd) s)))) d x = cell (hw (absm view (mach s))) d x"
    using run(2) by blast
  then show ?thesis using run(1) unfolding Let_def by (simp only: absm_simps)
qed

definition switch_sys :: "(ref, unit, nat, unit) sys" where
  "switch_sys = initial_sys ((exec (snoop_write6502Memory (ref_board id) 0xE002 [2, 5]) (running id))
     \<lparr>gMMUIOTrigger := True\<rparr>)"

lemma switch_sys_ok:
  "port_ok (absm id (mach switch_sys))" "gSysState (mach switch_sys) = sRUNNING" "gMMUIOTrigger (mach switch_sys)"
  "smem id switch_sys 0xE002 = 2" "smem id switch_sys 0xE003 = 5"
  "pages_inj (hw (absm id (mach switch_sys))) 5"
proof -
  define m where "m = exec (snoop_write6502Memory (ref_board id) 0xE002 [2, 5]) (running id)"
  have ok: "port_ok (absm id (running id))" using running_ok(1) by simp
  note w = idle_mailbox.snoop_write_block [OF ok, where a = "0xE002" and vs = "[2, 5]", folded m_def]
  have k: "keeps_port UNIV (running id) m" using w(1) by simp
  have s: "mach switch_sys = m\<lparr>gMMUIOTrigger := True\<rparr>" by (simp add: switch_sys_def m_def initial_sys_def)
  show "port_ok (absm id (mach switch_sys))" "gSysState (mach switch_sys) = sRUNNING"
    "gMMUIOTrigger (mach switch_sys)"
    using keeps_portD [OF k] running_ok(2) [of id] by (simp_all add: s port_ok_def)
  show "smem id switch_sys 0xE002 = 2" "smem id switch_sys 0xE003 = 5"
    using w(2) [where x = "0xE002", OF UNIV_I] w(2) [where x = "0xE003", OF UNIV_I] by (simp_all add: smem_def s)
  show "pages_inj (hw (absm id (mach switch_sys))) 5"
    using powered_up_table [of 5 _ id] running_ok(4) [of id] keeps_portD(4) [OF k]
    by (intro default_pages_inj) (simp add: s)
qed

theorem context_switch_command_witness:
  "gCurrentContext (mach (exec (taskScheduler (ref_board id)) switch_sys)) = 5"
proof -
  note k = switch_sys_ok
  have st: "gSysState (mach switch_sys) \<noteq> sRESET" using k(2) by simp
  have cmd: "smem id switch_sys 0xE002 = CMD6502_CONTEXT_SWITCH" using k(4) by (simp add: CMD6502_CONTEXT_SWITCH_def)
  have inj: "pages_inj (hw (absm id (mach switch_sys))) (smem id switch_sys 0xE003)" using k(5,6) by simp
  show ?thesis
    using context_switch_command [OF idle_mailbox.mailbox_bus_axioms k(1) st k(3) cmd inj] k(5)
    by (simp add: Let_def)
qed

text \<open>
  A context that maps page E elsewhere than the commanded one keeps the command in its own slot: it
  is executed again once that context is selected and polled.
\<close>

lemma switch_command_stays:
  fixes s :: "('b, 'f, 'd, 'k) sys"
  assumes "mailbox_bus bd view cpu R" and "port_ok (absm view (mach s))" and "gSysState (mach s) \<noteq> sRESET"
    and "gMMUIOTrigger (mach s)" and "smem view s 0xE002 = CMD6502_CONTEXT_SWITCH"
    and "pages_inj (hw (absm view (mach s))) (smem view s 0xE003)" and "0xE002 \<in> R"
    and "phys_page (hw (absm view (mach s))) (smem view s 0xE003) 0xE002 \<noteq>
      phys_page (hw (absm view (mach s))) (ctx_reg (hw (absm view (mach s)))) 0xE002"
  shows "cell (hw (absm view (mach (exec (taskScheduler bd) s)))) (ctx_reg (hw (absm view (mach s)))) 0xE002 =
    CMD6502_CONTEXT_SWITCH"
  using mailbox_bus.context_switch_run(2) [OF assms(1-7)] assms(5,8)
  by (simp add: smem_def mem_def)

end
