(* ===== verification/Indicator.thy ===== *)
theory Indicator
  imports Control
begin

text \<open>
  \<open>indicator.cpp\<close>: the light that shows the state of the system. The clock is an argument of a round, the level of
  the pulse width modulation is part of the state, and \<open>lastState\<close> is \<open>None\<close> before the first round.
\<close>

section \<open>Profiles\<close>

definition MAX_BRIGHTNESS :: u16 where "MAX_BRIGHTNESS = 80"

datatype led_mode = LED_OFF | LED_ON | LED_BLINK | LED_FADE

record led_profile =
  led_kind :: led_mode
  fadeUp :: u16
  fadeDown :: u16
  onTime :: u16
  offTime :: u16

definition led_profile_of :: "led_mode \<Rightarrow> u16 \<Rightarrow> u16 \<Rightarrow> u16 \<Rightarrow> u16 \<Rightarrow> led_profile" where
  "led_profile_of k up down on off = \<lparr>led_kind = k, fadeUp = up, fadeDown = down, onTime = on, offTime = off\<rparr>"

definition ledProfiles :: "led_profile list" where
  "ledProfiles =
     [led_profile_of LED_BLINK 0 0 50 20,
      led_profile_of LED_BLINK 0 0 50 20,
      led_profile_of LED_BLINK 0 0 50 50,
      led_profile_of LED_FADE 250 250 0 0,
      led_profile_of LED_FADE 500 500 0 0,
      led_profile_of LED_ON 0 0 0 0,
      led_profile_of LED_BLINK 0 0 100 1000]"

text \<open>The states in the order of their declaration.\<close>

fun state_number :: "sysstate \<Rightarrow> nat" where
  "state_number sSTARTUP = 0" | "state_number sBOOT = 1" | "state_number sRESET = 2" | "state_number sHALTED = 3"
| "state_number sRUNNING = 4" | "state_number sREAD = 5" | "state_number sRPI = 6"

section \<open>The task\<close>

record indicator =
  lastTime :: u32
  brightness :: u16
  led_rising :: bool
  blinkState :: bool
  lastState :: "sysstate option"
  led_level :: u16

definition initial_indicator :: indicator where
  "initial_indicator = \<lparr>lastTime = 0, brightness = 0, led_rising = True, blinkState = False, lastState = None, led_level = 0\<rparr>"

definition setBrightness :: "u16 \<Rightarrow> indicator \<Rightarrow> indicator" where
  "setBrightness v s = s\<lparr>led_level := v\<rparr>"

definition enter_state :: "u32 \<Rightarrow> sysstate \<Rightarrow> indicator \<Rightarrow> indicator" where
  "enter_state now current s =
     (if lastState s \<noteq> Some current
      then s\<lparr>brightness := 0, led_rising := True, blinkState := False, lastTime := now, lastState := Some current\<rparr>
      else s)"

definition blink :: "led_profile \<Rightarrow> u32 \<Rightarrow> indicator \<Rightarrow> indicator" where
  "blink p now s =
     (if now - lastTime s > ucast (if blinkState s then onTime p else offTime p)
      then (setBrightness (if \<not> blinkState s then MAX_BRIGHTNESS else 0) (s\<lparr>blinkState := \<not> blinkState s\<rparr>))\<lparr>lastTime := now\<rparr>
      else s)"

definition fade :: "led_profile \<Rightarrow> u32 \<Rightarrow> indicator \<Rightarrow> indicator" where
  "fade p now s =
     (let interval = (if led_rising s then fadeUp p else fadeDown p);
          interval = (if interval = 0 then 1 else interval);
          pace = (ucast (interval div MAX_BRIGHTNESS) :: u32);
          pace = (if pace = 0 then 1 else pace)
      in if now - lastTime s > pace then
           (let s = s\<lparr>brightness := (if led_rising s then brightness s + 1 else brightness s - 1)\<rparr>;
                s = (if brightness s \<ge> MAX_BRIGHTNESS then s\<lparr>led_rising := False\<rparr> else s);
                s = (if brightness s = 0 then s\<lparr>led_rising := True\<rparr> else s)
            in (setBrightness (brightness s) s)\<lparr>lastTime := now\<rparr>)
         else s)"

definition updateIndicator :: "u32 \<Rightarrow> sysstate \<Rightarrow> indicator \<Rightarrow> indicator" where
  "updateIndicator now current s =
     (let s = enter_state now current s; p = ledProfiles ! state_number current in
      case led_kind p of
        LED_OFF \<Rightarrow> setBrightness 0 s
      | LED_ON \<Rightarrow> setBrightness MAX_BRIGHTNESS s
      | LED_BLINK \<Rightarrow> blink p now s
      | LED_FADE \<Rightarrow> fade p now s)"

section \<open>Bounds\<close>

text \<open>The level and the brightness stay below the wrap value of the modulation, and a fade turns at both ends.\<close>

definition indicator_ok :: "indicator \<Rightarrow> bool" where
  "indicator_ok s \<longleftrightarrow> led_level s \<le> MAX_BRIGHTNESS \<and> brightness s \<le> MAX_BRIGHTNESS \<and>
     (led_rising s \<longrightarrow> brightness s < MAX_BRIGHTNESS) \<and> (\<not> led_rising s \<longrightarrow> brightness s \<noteq> 0)"

lemma u16_up: "unat b < 80 \<Longrightarrow> unat (b + 1) = unat b + 1" for b :: u16
  by (simp add: unat_word_ariths)

lemma u16_down: "b \<noteq> 0 \<Longrightarrow> unat (b - 1) = unat b - 1" for b :: u16
  by (simp add: unat_minus_one)

lemma u16_turn: "b < 80 \<Longrightarrow> b + 1 \<le> 80 \<and> b + 1 \<noteq> 0" "b \<noteq> 0 \<Longrightarrow> b \<le> 80 \<Longrightarrow> b - 1 < 80" for b :: u16
proof -
  assume "b < 80"
  then have "unat b < 80" by (simp add: word_less_nat_alt)
  then show "b + 1 \<le> 80 \<and> b + 1 \<noteq> 0" using u16_up [of b] by (auto simp: word_le_nat_alt)
next
  assume "b \<noteq> 0" and "b \<le> 80"
  moreover have "unat b \<noteq> 0" using \<open>b \<noteq> 0\<close> by (simp add: unat_eq_zero)
  ultimately show "b - 1 < 80" using u16_down [of b] by (simp add: word_le_nat_alt word_less_nat_alt)
qed

lemma enter_state_ok: "indicator_ok s \<Longrightarrow> indicator_ok (enter_state now st s)"
  by (simp add: indicator_ok_def enter_state_def MAX_BRIGHTNESS_def)

lemma blink_ok: "indicator_ok s \<Longrightarrow> indicator_ok (blink p now s)"
  by (simp add: indicator_ok_def blink_def setBrightness_def MAX_BRIGHTNESS_def)

lemma fade_ok: "indicator_ok s \<Longrightarrow> indicator_ok (fade p now s)"
  using u16_turn [of "brightness s"]
  by (auto simp: indicator_ok_def fade_def setBrightness_def MAX_BRIGHTNESS_def Let_def not_le)

lemma updateIndicator_ok: "indicator_ok s \<Longrightarrow> indicator_ok (updateIndicator now st s)"
  using enter_state_ok [of s now st] blink_ok fade_ok
  by (auto simp: updateIndicator_def Let_def setBrightness_def indicator_ok_def split: led_mode.split)

section \<open>Fading\<close>

text \<open>Up and down between 0 and 80.\<close>

definition triangle :: "nat \<Rightarrow> nat" where
  "triangle k = (let r = k mod 160 in if r \<le> 80 then r else 160 - r)"

definition fades :: "nat \<Rightarrow> sysstate \<Rightarrow> indicator \<Rightarrow> bool" where
  "fades k st s \<longleftrightarrow> lastState s = Some st \<and> unat (brightness s) = triangle k \<and> led_rising s = (k mod 160 < 80)"

lemma fade_next:
  fixes b :: u16
  assumes "unat b = triangle k"
  shows "k mod 160 < 80 \<Longrightarrow> unat (b + 1) = triangle (Suc k) \<and> (b + 1 \<ge> 80 \<longleftrightarrow> \<not> Suc k mod 160 < 80) \<and> b + 1 \<noteq> 0"
    and "\<not> k mod 160 < 80 \<Longrightarrow> unat (b - 1) = triangle (Suc k) \<and> (b - 1 = 0 \<longleftrightarrow> Suc k mod 160 < 80) \<and> b - 1 < 80"
proof -
  have r: "k mod 160 < 160" by simp
  { assume up: "k mod 160 < 80"
    then have b: "unat b = k mod 160" using assms by (simp add: triangle_def)
    then have b1: "unat (b + 1) = Suc (k mod 160)" using u16_up [of b] up by simp
    have k1: "Suc k mod 160 = Suc (k mod 160)" using up by (simp add: mod_Suc)
    have "b + 1 \<noteq> 0" using b1 by auto
    then show "unat (b + 1) = triangle (Suc k) \<and> (b + 1 \<ge> 80 \<longleftrightarrow> \<not> Suc k mod 160 < 80) \<and> b + 1 \<noteq> 0"
      using up b1 by (auto simp: triangle_def k1 word_le_nat_alt not_less) }
  { assume down: "\<not> k mod 160 < 80"
    then have b: "unat b = 160 - k mod 160" using assms by (auto simp: triangle_def Let_def)
    then have "b \<noteq> 0" using r by auto
    then have b1: "unat (b - 1) = 159 - k mod 160" using u16_down [of b] b by simp
    have "b - 1 = 0 \<longleftrightarrow> unat (b - 1) = 0" by (simp only: unat_eq_zero)
    then show "unat (b - 1) = triangle (Suc k) \<and> (b - 1 = 0 \<longleftrightarrow> Suc k mod 160 < 80) \<and> b - 1 < 80"
      using down b1 r by (auto simp: triangle_def mod_Suc word_less_nat_alt Let_def) }
qed

lemma fade_step:
  assumes "st \<in> {sHALTED, sRUNNING}" and "fades k st s" and "now - lastTime s > 6"
  defines "s' \<equiv> updateIndicator now st s"
  shows "fades (Suc k) st s'" and "lastTime s' = now" and "led_level s' = brightness s'"
proof -
  have late: "now - lastTime s > 3" using assms(3) by (rule less_trans [rotated]) simp
  have last: "lastState s = Some st" using assms(2) by (simp add: fades_def)
  have run: "s' = (let s = s\<lparr>brightness := (if led_rising s then brightness s + 1 else brightness s - 1)\<rparr>;
        s = (if brightness s \<ge> 80 then s\<lparr>led_rising := False\<rparr> else s);
        s = (if brightness s = 0 then s\<lparr>led_rising := True\<rparr> else s)
      in (setBrightness (brightness s) s)\<lparr>lastTime := now\<rparr>)"
    using assms(1,3) late last
    by (auto simp: s'_def updateIndicator_def enter_state_def fade_def ledProfiles_def led_profile_of_def
      MAX_BRIGHTNESS_def Let_def)
  show "lastTime s' = now" "led_level s' = brightness s'" unfolding run by (simp_all add: Let_def setBrightness_def)
  show "fades (Suc k) st s'"
    using assms(2) fade_next [of "brightness s" k] unfolding run
    by (cases "k mod 160 < 80") (auto simp: fades_def Let_def setBrightness_def not_le)
qed

text \<open>Rounds far enough apart.\<close>

fun due :: "u32 \<Rightarrow> u32 list \<Rightarrow> bool" where
  "due l [] = True"
| "due l (t # ts) = (t - l > 6 \<and> due t ts)"

definition led_rounds :: "sysstate \<Rightarrow> u32 list \<Rightarrow> indicator \<Rightarrow> indicator" where
  "led_rounds st ts s = fold (\<lambda>t. updateIndicator t st) ts s"

lemma fade_rounds:
  assumes "st \<in> {sHALTED, sRUNNING}" and "fades k st s" and "due (lastTime s) ts"
  shows "fades (k + length ts) st (led_rounds st ts s) \<and>
    (ts \<noteq> [] \<longrightarrow> led_level (led_rounds st ts s) = brightness (led_rounds st ts s))"
  using assms
proof (induction ts arbitrary: k s)
  case Nil
  then show ?case by (simp add: led_rounds_def)
next
  case (Cons t ts)
  note f = fade_step [OF Cons.prems(1,2), of t]
  show ?case
    using Cons.IH [OF Cons.prems(1), of "Suc k" "updateIndicator t st s"] f Cons.prems(3)
    by (cases ts) (auto simp: led_rounds_def)
qed

section \<open>Properties\<close>

text \<open>While the processor is halted or running the light fades up to the wrap value and down to dark again, one
  step with every round that is more than 6 ms later than the last, from dark when the state is entered, for ever, with
  a clock that wraps; in every state and at every time the level stays at most the wrap value.\<close>

theorem indicator_fades:
  assumes "indicator_ok s" and "st \<in> {sHALTED, sRUNNING}" and "lastState s \<noteq> Some st" and "due t ts"
  shows "unat (brightness (led_rounds st (t # ts) s)) = triangle (length ts) \<and>
    (ts \<noteq> [] \<longrightarrow> unat (led_level (led_rounds st (t # ts) s)) = triangle (length ts)) \<and>
    indicator_ok (led_rounds st' us (led_rounds st (t # ts) s))"
proof -
  have ok: "indicator_ok (led_rounds st us s)" if "indicator_ok s" for st us s
    using that unfolding led_rounds_def by (induction us arbitrary: s) (auto simp: updateIndicator_ok)
  define s1 where "s1 = updateIndicator t st s"
  have "fades 0 st s1 \<and> lastTime s1 = t"
    using assms(2,3) by (auto simp: s1_def updateIndicator_def enter_state_def fades_def fade_def triangle_def
      ledProfiles_def led_profile_of_def MAX_BRIGHTNESS_def Let_def)
  then have "fades (length ts) st (led_rounds st ts s1)" "ts \<noteq> [] \<Longrightarrow> led_level (led_rounds st ts s1) = brightness (led_rounds st ts s1)"
    using fade_rounds [OF assms(2), of 0 s1 ts] assms(4) by auto
  moreover have "led_rounds st (t # ts) s = led_rounds st ts s1" by (simp add: led_rounds_def s1_def)
  ultimately show ?thesis using ok [OF ok [OF assms(1)], of st' us st "t # ts"] by (auto simp: fades_def)
qed

lemma indicator_fades_witness:
  "unat (brightness (led_rounds sRUNNING [0xFFFFFFFC, 4, 12] initial_indicator)) = 2"
proof -
  have "due 0xFFFFFFFC [4, 12]" by simp
  then show ?thesis
    using indicator_fades [of initial_indicator sRUNNING "0xFFFFFFFC" "[4, 12]" sRUNNING "[]"]
    by (simp add: indicator_ok_def initial_indicator_def MAX_BRIGHTNESS_def triangle_def)
qed

end
