(* ===== verification/Main_Loop.thy ===== *)
theory Main_Loop
  imports Monitor_Spec Usb_Hid_Spec Context_Switch Indicator
begin

text \<open>
  \<open>loop()\<close> of \<open>NEO6502_MMU_V3.ino\<close>: one round of all tasks in their order, over the state of all components, and the
  invariant of the whole that every round keeps. What a round gets from outside are the callbacks TinyUSB makes, the
  readings of the clock, the character on \<open>Serial1\<close>, and the environment of the monitor.
\<close>

section \<open>State\<close>

record ('b, 'f, 'd, 'k) firmware =
  fw_monitor :: "('b, 'f, 'd, 'k) monitor"
  fw_hid :: hid
  fw_led :: indicator

datatype usb_callback = Storage_Event usb_event | Hid_Mount u8 u8 "u8 list" | Hid_Umount u8 u8 | Hid_Report u8 u8 "u8 list"

record ('f, 'd, 'k) round_env =
  rd_env :: "('f, 'd, 'k) monitor_env"
  rd_callbacks :: "usb_callback list"
  rd_storage :: "u32 \<times> u32 \<times> u32"
  rd_irq :: "u32 \<times> u32"
  rd_serial :: "int option"
  rd_led :: u32

section \<open>Tasks\<close>

text \<open>TinyUSB runs from \<open>taskUSBStorage\<close>; the callbacks of the two modules share no state.\<close>

fun storage_events :: "usb_callback list \<Rightarrow> usb_event list" where
  "storage_events [] = []"
| "storage_events (Storage_Event e # cs) = e # storage_events cs"
| "storage_events (_ # cs) = storage_events cs"

fun hid_callbacks :: "usb_callback list \<Rightarrow> hid \<Rightarrow> hid option" where
  "hid_callbacks [] h = Some h"
| "hid_callbacks (Storage_Event e # cs) h = hid_callbacks cs h"
| "hid_callbacks (Hid_Mount dev inst desc # cs) h = Option.bind (tuh_hid_mount_cb dev inst desc h) (hid_callbacks cs)"
| "hid_callbacks (Hid_Umount dev inst # cs) h = hid_callbacks cs (tuh_hid_umount_cb dev inst h)"
| "hid_callbacks (Hid_Report dev inst report # cs) h = hid_callbacks cs (tuh_hid_report_received_cb dev inst report h)"

definition usb_round ::
  "('f, 'd, 'k) round_env \<Rightarrow> ('b, 'f, 'd, 'k) firmware \<Rightarrow> ('b, 'f, 'd, 'k) firmware option" where
  "usb_round rd fw =
     (case rd_storage rd of (start, now, now') \<Rightarrow>
        let m = fw_monitor fw;
            fs = exec (taskUSBStorage (env_fatfs (rd_env rd)) start (storage_events (rd_callbacks rd)) now now') (files (m_sys m))
        in map_option (\<lambda>h. fw\<lparr>fw_monitor := m\<lparr>m_sys := (m_sys m)\<lparr>files := fs\<rparr>\<rparr>, fw_hid := h\<rparr>)
             (hid_callbacks (rd_callbacks rd) (fw_hid fw)))"

text \<open>The calls the keyboard and mouse module makes, on the modules it calls; it reads nothing back from them. The
  layout is a global of the layout module.\<close>

definition run_action :: "'b board \<Rightarrow> hid_action \<Rightarrow> (('b, 'f, 'd, 'k) monitor, unit) state" where
  "run_action bd a =
     (case a of
        Console_Input c \<Rightarrow> do { monitorConsoleInput c False; ret () }
      | Console_Break \<Rightarrow> on_sys requestConsoleBreakIRQ
      | Console_PID p \<Rightarrow> on_sys (setConsolePID bd p)
      | Mouse_Update x y b \<Rightarrow> on_vdu (vduMouseUpdate x y b))"

definition hid_round :: "'b board \<Rightarrow> ('b, 'f, 'd, 'k) firmware \<Rightarrow> ('b, 'f, 'd, 'k) firmware" where
  "hid_round bd fw =
     (let m = fw_monitor fw; h = taskUSBHIDInput ((fw_hid fw)\<lparr>layout := m_keymap m, actions := []\<rparr>)
      in fw\<lparr>fw_hid := h, fw_monitor := exec (for_each (actions h) (run_action bd)) (m\<lparr>m_keymap := layout h\<rparr>)\<rparr>)"

definition on_monitor ::
  "(('b, 'f, 'd, 'k) monitor, 'a) state \<Rightarrow> ('b, 'f, 'd, 'k) firmware \<Rightarrow> ('b, 'f, 'd, 'k) firmware" where
  "on_monitor p fw = fw\<lparr>fw_monitor := exec p (fw_monitor fw)\<rparr>"

definition input_round :: "('b, 'f, 'd, 'k) monitor \<Rightarrow> ('b, 'f, 'd, 'k) monitor option" where
  "input_round m =
     (case taskInput vdu_output (qs (m_sys m)) (Some (m_vdu m)) of
        Some (q, Some v) \<Rightarrow> Some (m\<lparr>m_sys := (m_sys m)\<lparr>qs := q\<rparr>, m_vdu := v\<rparr>)
      | _ \<Rightarrow> None)"

text \<open>\<open>None\<close> is a round without end.\<close>

definition main_loop ::
  "'b board \<Rightarrow> ('f, 'd, 'k) round_env \<Rightarrow> ('b, 'f, 'd, 'k) firmware \<Rightarrow> ('b, 'f, 'd, 'k) firmware option" where
  "main_loop bd rd fw =
     Option.bind (usb_round rd fw) (\<lambda>fw.
     let fw = hid_round bd fw;
         fw = on_monitor (on_sys (taskIRQTimer bd (fst (rd_irq rd)) (snd (rd_irq rd)))) fw;
         fw = on_monitor (on_sys (taskScheduler bd)) fw;
         fw = on_monitor (on_sys (taskSimpleIO bd)) fw
     in Option.bind (input_round (fw_monitor fw)) (\<lambda>m.
     let m = exec (on_sys (taskMailbox bd (env_fatfs (rd_env rd)))) m;
         m = exec (on_vdu taskVDU) m
     in Option.bind (taskICMonitor bd (rd_env rd) (rd_serial rd) m) (\<lambda>m.
     Some (fw\<lparr>fw_monitor := m, fw_led := updateIndicator (rd_led rd) (gSysState (mach (m_sys m))) (fw_led fw)\<rparr>))))"

text \<open>\<open>loop()\<close> called again and again.\<close>

fun loop_rounds ::
  "'b board \<Rightarrow> ('f, 'd, 'k) round_env list \<Rightarrow> ('b, 'f, 'd, 'k) firmware \<Rightarrow> ('b, 'f, 'd, 'k) firmware option" where
  "loop_rounds bd [] fw = Some fw"
| "loop_rounds bd (rd # rds) fw = Option.bind (main_loop bd rd fw) (loop_rounds bd rds)"

section \<open>The invariant\<close>

text \<open>Bus and processor are in a listed state, every context has sixteen different pages, and files, directories and queues
  are in order.\<close>

definition sys_fit :: "('b \<Rightarrow> ref) \<Rightarrow> ('b, 'f, 'd, 'k) sys \<Rightarrow> bool" where
  "sys_fit view s \<longleftrightarrow> port_ok (absm view (mach s)) \<and>
     (\<forall>c. pages_inj (hw (absm view (mach s))) c) \<and> storage_ok (files s) \<and> cwds_ok (cwds s) \<and> queues_ok (qs s)"

definition terminal_fit :: "vdu \<Rightarrow> bool" where
  "terminal_fit v \<longleftrightarrow> vdu_ok v \<and> textMode (vduMode v) \<and> clock_runs (vdu_clock v)"

definition monitor_fit :: "('b \<Rightarrow> ref) \<Rightarrow> ('b, 'f, 'd, 'k) monitor \<Rightarrow> bool" where
  "monitor_fit view m \<longleftrightarrow> sys_fit view (m_sys m) \<and> terminal_fit (m_vdu m) \<and> input_ok m"

definition firmware_fit :: "('b \<Rightarrow> ref) \<Rightarrow> ('b, 'f, 'd, 'k) firmware \<Rightarrow> bool" where
  "firmware_fit view fw \<longleftrightarrow> monitor_fit view (fw_monitor fw) \<and> hid_ok (fw_hid fw) \<and> indicator_ok (fw_led fw)"

subsection \<open>Terminal\<close>

lemma mouse_frame:
  "vduMode (vduMouseUpdate dx dy b s) = vduMode s" "vdu_clock (vduMouseUpdate dx dy b s) = vdu_clock s"
  by (simp_all add: vduMouseUpdate_def moveCursor_def Let_def)

lemma restore_frame:
  "vduMode (vduRestoreCursor s) = vduMode s" "vdu_clock (vduRestoreCursor s) = vdu_clock s"
  by (simp_all add: vduRestoreCursor_def moveCursor_def cmdScrollUp_def rotate_text_def take_pending_row_def Let_def)

lemma terminal_keeps:
  assumes "terminal_fit v"
  shows "terminal_fit (vduMouseUpdate dx dy b v)" and "terminal_fit (vduRestoreCursor v)" and "terminal_fit (taskVDU v)"
  using assms vdu_ok_mouse vdu_ok_restore task_step [of v]
  by (simp_all add: terminal_fit_def mouse_frame restore_frame)

lemma terminal_prints:
  assumes "terminal_fit v"
  shows "\<exists>v'. fold vdu_output cs (Some v) = Some v' \<and> terminal_fit v'"
  using assms
proof (induction cs arbitrary: v)
  case (Cons c cs)
  obtain u where "vduPutc c v = Some u" "terminal_fit u"
    using putc_agrees [of v c] Cons.prems by (auto simp: terminal_fit_def)
  then show ?case using Cons.IH [of u] by (simp add: vdu_output_def)
qed simp

subsection \<open>Bus, mailbox and queues\<close>

lemma queue_writes:
  "queues_ok q \<Longrightarrow> queues_ok (exec (writeCPUQ c) q)"
  "queues_ok q \<Longrightarrow> queues_ok (exec (queue_line cs) q)"
  using writeCPUQ_spec(2) by (induction cs arbitrary: q) auto

lemma port_ok_context:
  assumes "machine_ok m" and "gSysState m \<noteq> sSTARTUP" and "gSysState m = sRESET \<Longrightarrow> gCurrentContext m = 0"
    and "gCurrentContext m = uint c" and "pages_inj (hw m) c"
  shows "port_ok m"
  using assms by (auto simp: port_ok_def machine_ok_def bus_ok_def)

lemma switch_safe:
  fixes c :: u8 and cpu :: cpu
  assumes "port_ok m" and "\<And>d. pages_inj (hw m) d"
  defines "m' \<equiv> exec (schedSwitchcontext (ref_board cpu) c) m"
  shows "port_ok m'" and "mmu_ram (hw m') = mmu_ram (hw m)"
proof -
  define m1 where "m1 = m\<lparr>gMMUIOTrigger := False\<rparr>"
  have ok1: "machine_ok m1" "gSysState m1 = gSysState m" "hw m1 = hw m" using assms(1) by (simp_all add: m1_def port_ok_def)
  define m2 where "m2 = exec (set6502State (ref_board cpu) sHALTED) m1"
  note s2 = set6502State_spec [OF ok1(1), of cpu sHALTED, folded m2_def]
  have b2: "bus_ok m2" using s2(1) by (simp add: machine_ok_def)
  define m3 where "m3 = exec (setMMUContext (ref_board cpu) c) m2"
  note s3 = setMMUContext_spec [OF b2, of cpu c, folded m3_def]
  have "in_row m3 = in_row m2" using s3(4,10) by (intro in_row_cong) (simp_all add: frame_of_def)
  then have ok3: "machine_ok m3" "gSysState m3 = sHALTED" using s2(1,3) s3(1,4) by (simp_all add: machine_ok_def frame_of_def)
  define m4 where "m4 = exec (set6502State (ref_board cpu) (gSysState m)) m3"
  note s4 = set6502State_spec [OF ok3(1), of cpu "gSysState m", folded m4_def]
  have m': "m' = m4\<lparr>gMMUIOTrigger := False\<rparr>"
    by (simp add: m'_def schedSwitchcontext_def interrupts_ref get6502State_def m1_def [symmetric]
        m2_def [symmetric] m3_def [symmetric] m4_def [symmetric] ok1(2))
  show tab: "mmu_ram (hw m') = mmu_ram (hw m)" using s4(4) s3(6) s2(4) ok1 by (simp add: m' bus_kept_def)
  define d :: u8 where "d = (if gSysState m = sRESET then 0 else c)"
  have "gSysState m' = gSysState m" "gCurrentContext m' = uint d" "gSysState m \<noteq> sSTARTUP"
    using s4(3,5) s3(2) ok3(2) assms(1) by (simp_all add: m' d_def context_after_def port_ok_def)
  moreover have "machine_ok m'" using s4(1) by (simp add: m')
  ultimately show "port_ok m'"
    using assms(2) [of d] pages_inj_cong [OF tab] by (intro port_ok_context [of _ d]) (auto simp: d_def split: if_splits)
qed

lemma switch_command_safe:
  fixes c :: u8 and cpu :: cpu
  assumes "cpu_leaves cpu R" and "port_ok m" and "\<And>d. pages_inj (hw m) d"
  defines "m' \<equiv> exec (switch_command (ref_board cpu) c) m"
  shows "port_ok m'" and "mmu_ram (hw m') = mmu_ram (hw m)"
proof -
  define m1 where "m1 = exec (low (ref_board cpu) pDebug) m"
  obtain f where f: "m1 = m\<lparr>hw := (hw m)\<lparr>lv := f\<rparr>\<rparr>" using debug_ref(4) [OF assms(2)] by (auto simp: m1_def)
  have ok1: "port_ok m1" "\<And>d. pages_inj (hw m1) d"
    using debug_ref(2) [OF assms(2), of cpu, folded m1_def] assms(3) by (simp_all add: f pages_inj_def)
  define m2 where "m2 = exec (schedSwitchcontext (ref_board cpu) c) m1"
  note s = switch_safe [OF ok1, of cpu c, folded m2_def]
  define m3 where "m3 = exec (snoop_read6502MemoryLoc (ref_board cpu) 0xE002) m2"
  note k3 = keeps_portD [OF snoop_read_ref(2) [OF assms(1) s(1), where a = "0xE002"], folded m3_def]
  define v where "v = val_of (snoop_read6502MemoryLoc (ref_board cpu) 0xE002) m2"
  define m4 where "m4 = (if v \<noteq> 0 then exec (snoop_write6502MemoryLoc (ref_board cpu) 0xE002 0) m3 else m3)"
  note k4 = keeps_portD [OF snoop_write_ref(1) [OF assms(1) k3(1), where a = "0xE002" and v = 0]]
  have ok4: "port_ok m4" "mmu_ram (hw m4) = mmu_ram (hw m3)" using k3(1) k4(1,4) by (simp_all add: m4_def)
  obtain g where g: "exec (high (ref_board cpu) pDebug) m4 = m4\<lparr>hw := (hw m4)\<lparr>lv := g\<rparr>\<rparr>"
    using debug_ref(3) [OF ok4(1)] by blast
  have m': "m' = m4\<lparr>hw := (hw m4)\<lparr>lv := g\<rparr>\<rparr>"
    unfolding g [symmetric]
    by (simp add: m'_def switch_command_def ackCommand6502_def readCmdSlot_def writeCmdSlot_def switch_slot
        m1_def [symmetric] m2_def [symmetric] m3_def [symmetric] v_def [symmetric] m4_def CMD6502_NONE_def)
  show "port_ok m'" unfolding m' g [symmetric] by (rule debug_ref(1) [OF ok4(1)])
  show "mmu_ram (hw m') = mmu_ram (hw m)" using ok4(2) k3(4) s(2) by (simp add: m' f)
qed

context mailbox_bus
begin

lemma sys_fit_up:
  assumes "\<And>m0. port_ok m0 \<Longrightarrow> preserves (up m0) p" and "sys_fit view s"
  shows "sys_fit view (exec p s)"
proof -
  let ?m0 = "absm view (mach s)"
  have ok: "port_ok ?m0" using assms(2) by (simp add: sys_fit_def)
  have "up ?m0 s" using assms(2) by (auto simp: sys_fit_def intro: sys_up_refl)
  then have u: "up ?m0 (exec p s)" by (rule preservesD [OF assms(1) [OF ok]])
  note k = keeps_portD [OF sys_up_parts(5) [OF u]]
  show ?thesis
    using sys_up_parts [OF u] k(2) pages_inj_cong [OF k(4)] assms(2) by (simp add: sys_fit_def)
qed

lemma pres_irq_line [pres]:
  "preserves (up m0) (on_mach (high bd p6502IRQ))" "preserves (up m0) (on_mach (low bd p6502IRQ))"
  using irq_line(1,2) by (simp_all add: preserves_def sys_up_def)

lemma pres_genIRQ [pres]: "preserves (up m0) (genIRQ6502 bd src)"
  unfolding genIRQ6502_def by (intro pres)

lemma pres_count [pres]: "preserves (up m0) (modify (\<lambda>s. s\<lparr>inCount := inCount s + 1\<rparr>))"
  by (simp add: preserves_def)

lemma pres_tasks:
  "preserves (up m0) (taskIRQTimer bd now now')"
  "preserves (up m0) (getCommand6502 bd)"
  "preserves (up m0) (setConsolePID bd p)"
  "preserves (up m0) requestConsoleBreakIRQ"
  unfolding taskIRQTimer_def getCommand6502_def setConsolePID_def requestConsoleBreakIRQ_def by (intro pres)+

lemma pres_context [pres]: "preserves (up m0) (on_mach getMMUContext)"
  by (simp add: preserves_def getMMUContext_def)

lemma pres_simple_io: "preserves (up m0) (taskSimpleIO bd)"
  unfolding taskSimpleIO_def simple_getchar_def simple_putchar_def by (rule pres queue_ops | assumption)+

lemma pres_mailbox:
  fixes ff :: "('f, 'd, 'k) fatfs"
  assumes "port_ok m0"
  shows "preserves (up m0) (taskMailbox bd ff :: (('b, 'f, 'd, 'k) sys, unit) state)"
proof -
  note dispatch = establishes_preserves [OF est_dispatch [OF assms]]
  have idle: "preserves (up m0) (poll_idle bd ff :: (('b, 'f, 'd, 'k) sys, unit) state)"
    unfolding poll_idle_def by (rule pres dispatch)+
  have ready: "preserves (up m0) (update_console_ready bd :: (('b, 'f, 'd, 'k) sys, unit) state)"
    unfolding update_console_ready_def by (rule pres queue_ops | assumption)+
  have "preserves (up m0) ((case st of mbINIT \<Rightarrow> set_state mbIDLE | mbIDLE \<Rightarrow> poll_idle bd ff
      | mbWRITE \<Rightarrow> do { fin \<leftarrow> rp_console_io_process_write bd; when_do fin (set_state mbDONE) }
      | mbREAD \<Rightarrow> do { fin \<leftarrow> rp_console_io_process_read bd; when_do fin (set_state mbDONE) }
      | mbDONE \<Rightarrow> set_state mbIDLE) :: (('b, 'f, 'd, 'k) sys, unit) state)" for st
    using idle by (cases st) (simp_all add: pres)
  then show ?thesis unfolding taskMailbox_def by (intro preserves_bind ready preserves_gets)
qed

text \<open>The context switch: the commanded context has different pages too; a processor in reset stays in it, under context 0.\<close>

lemma scheduler_fit:
  fixes s :: "('b, 'f, 'd, 'k) sys"
  assumes "sys_fit view s"
  shows "sys_fit view (exec (taskScheduler bd) s)"
proof -
  define s1 where "s1 = exec (getCommand6502 bd) s"
  have f1: "sys_fit view s1" unfolding s1_def by (rule sys_fit_up [OF pres_tasks(2) assms])
  have sw: "sys_fit view (s1\<lparr>mach := exec (switch_command bd c) (mach s1)\<rparr>)" for c
  proof -
    have "port_ok (absm view (mach s1))" "\<And>d. pages_inj (hw (absm view (mach s1))) d" using f1 by (simp_all add: sys_fit_def)
    note w = switch_command_safe [OF leaves this, folded simD(1) [OF sim_switch_command]]
    show ?thesis using w(1) pages_inj_cong [OF w(2)] f1 by (simp add: sys_fit_def)
  qed
  show ?thesis
  proof (cases "val_of (getCommand6502 bd) s")
    case None
    then show ?thesis using f1 by (simp add: taskScheduler_def s1_def)
  next
    case (Some a)
    then show ?thesis using f1 sw [of "snd a"]
      by (cases a) (simp add: taskScheduler_def s1_def switch_command_def)
  qed
qed

end

subsection \<open>USB\<close>

lemma mount_ends:
  assumes "length desc \<le> 65280"
  shows "\<exists>t. tuh_hid_mount_cb dev inst desc s = Some t"
proof -
  have "\<exists>r. usb_hid_classify_descriptor desc = Some r"
    by (auto simp: usb_hid_classify_descriptor_def usb_hid_descriptor_has_desktop_usage_def usb_hid_scan_items [OF assms]
      split: bool.split)
  then show ?thesis by (auto simp: tuh_hid_mount_cb_def split: option.split)
qed

fun fits_scan :: "usb_callback \<Rightarrow> bool" where
  "fits_scan (Hid_Mount dev inst desc) \<longleftrightarrow> length desc \<le> 65280"
| "fits_scan _ \<longleftrightarrow> True"

lemma callbacks_keep:
  assumes "hid_ok h" and "\<forall>c\<in>set cs. fits_scan c"
  shows "\<exists>h'. hid_callbacks cs h = Some h' \<and> hid_ok h'"
  using assms
proof (induction cs arbitrary: h)
  case (Cons c cs)
  show ?case
  proof (cases c)
    case (Hid_Mount dev inst desc)
    then obtain t where t: "tuh_hid_mount_cb dev inst desc h = Some t" using mount_ends [of desc dev inst h] Cons.prems(2) by auto
    then show ?thesis using Cons.IH [of t] hid_ok_mount [OF Cons.prems(1) t] Cons.prems(2) Hid_Mount by simp
  qed (use Cons hid_ok_umount hid_ok_received in simp_all)
qed simp

lemma hid_ok_between: "hid_ok (h\<lparr>layout := l, actions := a\<rparr>) = hid_ok h"
  by (simp add: hid_ok_def repeat_ok_def)

subsection \<open>Console input\<close>

lemma monitor_fit_parts:
  "monitor_fit view m \<Longrightarrow> sys_fit view s \<Longrightarrow> monitor_fit view (m\<lparr>m_sys := s\<rparr>)"
  "monitor_fit view m \<Longrightarrow> terminal_fit v \<Longrightarrow> monitor_fit view (m\<lparr>m_vdu := v\<rparr>)"
  "monitor_fit view (m\<lparr>m_keymap := k\<rparr>) = monitor_fit view m"
  by (simp_all add: monitor_fit_def input_ok_def)

lemma fit_on_sys:
  "(\<And>s. sys_fit view s \<Longrightarrow> sys_fit view (exec p s)) \<Longrightarrow> preserves (monitor_fit view) (on_sys p)"
  by (simp add: preserves_def monitor_fit_def input_ok_def)

lemma fit_on_vdu:
  "(\<And>v. terminal_fit v \<Longrightarrow> terminal_fit (f v)) \<Longrightarrow> preserves (monitor_fit view) (on_vdu f)"
  by (simp add: preserves_def monitor_fit_def input_ok_def)

lemma fit_queues:
  "(\<And>q. queues_ok q \<Longrightarrow> queues_ok (exec p q)) \<Longrightarrow> preserves (monitor_fit view) (on_sys (on_qs p))"
  by (rule fit_on_sys) (simp add: sys_fit_def)

lemma fit_returnToICM: "preserves (monitor_fit view) returnToICM"
  using reset_input by (auto simp: preserves_def returnToICM_def resetMonitorInput_def monitor_fit_def input_ok_def ICM_INPUT_BUFFER_SIZE_def)

lemma fit_break: "preserves (monitor_fit view) (on_sys requestConsoleBreakIRQ)"
  by (rule fit_on_sys) (simp add: requestConsoleBreakIRQ_def sys_fit_def)

lemmas fit_steps = fit_returnToICM fit_break fit_queues [OF writeVDUQ_spec(1)] fit_queues [OF queue_writes(1)]
  fit_queues [OF queue_writes(2)] fit_on_vdu [OF terminal_keeps(2)]

lemma console_keeps: "preserves (monitor_fit view) (monitorConsoleInput c allow)"
  unfolding monitorConsoleInput_def by (rule pres fit_steps | assumption)+

lemma console_stays: "gInterface (exec (monitorConsoleInput c False) m) = gInterface m"
  by (simp add: monitorConsoleInput_def requestConsoleBreakIRQ_def)

subsection \<open>Rounds\<close>

lemma usb_keeps:
  assumes "firmware_fit view fw" and "\<forall>c\<in>set (rd_callbacks rd). fits_scan c"
  shows "\<exists>fw'. usb_round rd fw = Some fw' \<and> firmware_fit view fw' \<and> gInterface (fw_monitor fw') = gInterface (fw_monitor fw)"
proof -
  obtain h where h: "hid_callbacks (rd_callbacks rd) (fw_hid fw) = Some h" "hid_ok h"
    using callbacks_keep [OF _ assms(2), of "fw_hid fw"] assms(1) by (auto simp: firmware_fit_def)
  have "storage_ok (files (m_sys (fw_monitor fw)))" using assms(1) by (simp add: firmware_fit_def monitor_fit_def sys_fit_def)
  note t = storage_ok_task [OF this]
  obtain a b c where st: "rd_storage rd = (a, b, c)" by (rule prod_cases3)
  show ?thesis
    using assms(1) h t by (auto simp: usb_round_def st firmware_fit_def monitor_fit_def sys_fit_def input_ok_def Let_def)
qed

lemma input_keeps:
  assumes "monitor_fit view m"
  shows "\<exists>m'. input_round m = Some m' \<and> monitor_fit view m' \<and> gInterface m' = gInterface m \<and> to_vdu (qs (m_sys m')) = []"
proof -
  let ?q = "qs (m_sys m)"
  have q: "queues_ok ?q" using assms by (simp add: monitor_fit_def sys_fit_def)
  obtain q' where q': "processVDUoutQ vdu_output (vdu_tx_fifo ?q) (Some (m_vdu m)) =
      Some (q', fold vdu_output (to_vdu ?q) (Some (m_vdu m)))" "fifo_ok q'" "contents q' = []"
      "capacity q' = capacity (vdu_tx_fifo ?q)"
    using processVDUoutQ_drains [of "vdu_tx_fifo ?q" vdu_output "Some (m_vdu m)"] q unfolding queues_ok_def by blast
  obtain v where v: "fold vdu_output (to_vdu ?q) (Some (m_vdu m)) = Some v" "terminal_fit v"
    using terminal_prints [of "m_vdu m" "to_vdu ?q"] assms by (auto simp: monitor_fit_def)
  have "queues_ok (?q\<lparr>vdu_tx_fifo := q'\<rparr>)" using q q' by (simp add: queues_ok_def)
  then show ?thesis
    using q' v assms by (auto simp: input_round_def taskInput_def monitor_fit_def sys_fit_def input_ok_def)
qed

text \<open>The commands of the monitor aside.\<close>

lemma line_keeps:
  assumes "monitor_fit view m" and "rx \<noteq> Some 0x0A \<or> gInterface m \<noteq> 0"
  shows "\<exists>m'. taskICMonitor bd env rx m = Some m' \<and> monitor_fit view m' \<and> (gInterface m = 0 \<longrightarrow> gInterface m' = 0)"
proof (cases rx)
  case (Some c)
  show ?thesis
  proof (cases "gInterface m = 0")
    case True
    then obtain m' where "taskICMonitor bd env (Some c) m = Some m'" "input_ok m'" "same_but_line m m'"
      using task_edits [of m c bd env] assms Some by (auto simp: monitor_fit_def)
    then show ?thesis using same_but_lineD [of m m'] assms(1) Some True by (simp add: monitor_fit_def)
  next
    case False
    have "monitor_fit view (exec (normalInput (word_of_int c)) m)"
      using preservesD [OF console_keeps assms(1)] by (simp add: normalInput_def)
    then show ?thesis using False assms(1) Some by (simp add: taskICMonitor_def)
  qed
qed (use assms in \<open>simp add: taskICMonitor_def\<close>)

context mailbox_bus
begin

lemma action_keeps: "preserves (monitor_fit view) (run_action bd a)"
proof (cases a)
  case (Console_PID p)
  have "preserves (monitor_fit view) (on_sys (setConsolePID bd p))"
    by (rule fit_on_sys) (rule sys_fit_up [OF pres_tasks(3)])
  then show ?thesis using Console_PID by (simp add: run_action_def)
next
  case (Console_Input c)
  show ?thesis unfolding run_action_def Console_Input hid_action.case by (intro pres console_keeps)
qed (simp_all add: run_action_def fit_break fit_on_vdu terminal_keeps)

lemma action_stays: "gInterface (exec (run_action bd a) m) = gInterface m"
  by (cases a) (simp_all add: run_action_def console_stays)

lemma actions_keep:
  "monitor_fit view m \<Longrightarrow> monitor_fit view (exec (for_each as (run_action bd)) m)"
  "gInterface (exec (for_each as (run_action bd)) m) = gInterface m"
proof -
  show "gInterface (exec (for_each as (run_action bd)) m) = gInterface m"
    by (induction as arbitrary: m) (simp_all add: action_stays)
  show "monitor_fit view m \<Longrightarrow> monitor_fit view (exec (for_each as (run_action bd)) m)"
    by (rule exec_for_each_invariant [where I = "monitor_fit view"]) (auto intro: preservesD [OF action_keeps])
qed

lemma hid_round_keeps:
  assumes "firmware_fit view fw"
  shows "firmware_fit view (hid_round bd fw)" and "gInterface (fw_monitor (hid_round bd fw)) = gInterface (fw_monitor fw)"
  using assms by (simp_all add: hid_round_def Let_def firmware_fit_def actions_keep monitor_fit_parts(3) hid_ok_task hid_ok_between)

lemma step_keeps:
  assumes "firmware_fit view fw" and "\<And>s. sys_fit view s \<Longrightarrow> sys_fit view (exec p s)"
  shows "firmware_fit view (on_monitor (on_sys p) fw)"
    and "gInterface (fw_monitor (on_monitor (on_sys p) fw)) = gInterface (fw_monitor fw)"
  using assms preservesD [OF fit_on_sys [of view p]] by (simp_all add: on_monitor_def firmware_fit_def monitor_fit_def input_ok_def)

lemma mailbox_fit: "sys_fit view s \<Longrightarrow> sys_fit view (exec (taskMailbox bd ff) s)"
  by (rule sys_fit_up [OF pres_mailbox])

lemmas round_keeps = sys_fit_up [OF pres_tasks(1)] scheduler_fit sys_fit_up [OF pres_simple_io]

lemma main_loop_fit:
  fixes fw :: "('b, 'f, 'd, 'k) firmware"
  assumes "firmware_fit view fw" and "\<forall>c\<in>set (rd_callbacks rd). fits_scan c"
    and "rd_serial rd \<noteq> Some 0x0A \<or> gInterface (fw_monitor fw) \<noteq> 0"
  shows "\<exists>fw'. main_loop bd rd fw = Some fw' \<and> firmware_fit view fw'"
proof -
  obtain f1 where f1: "usb_round rd fw = Some f1" "firmware_fit view f1"
    "gInterface (fw_monitor f1) = gInterface (fw_monitor fw)" using usb_keeps [OF assms(1,2)] by blast
  define f2 where "f2 = hid_round bd f1"
  note h2 = hid_round_keeps [OF f1(2), folded f2_def]
  define f3 where "f3 = on_monitor (on_sys (taskIRQTimer bd (fst (rd_irq rd)) (snd (rd_irq rd)))) f2"
  note h3 = step_keeps [OF h2(1) round_keeps(1) [where now = "fst (rd_irq rd)" and now' = "snd (rd_irq rd)"], folded f3_def]
  define f4 where "f4 = on_monitor (on_sys (taskScheduler bd)) f3"
  note h4 = step_keeps [OF h3(1) round_keeps(2), folded f4_def]
  define f5 where "f5 = on_monitor (on_sys (taskSimpleIO bd)) f4"
  note h5 = step_keeps [OF h4(1) round_keeps(3), folded f5_def]
  obtain m6 where m6: "input_round (fw_monitor f5) = Some m6" "monitor_fit view m6" "gInterface m6 = gInterface (fw_monitor f5)"
    using input_keeps [of view "fw_monitor f5"] h5(1) by (auto simp: firmware_fit_def)
  define m7 where "m7 = exec (on_vdu taskVDU) (exec (on_sys (taskMailbox bd (env_fatfs (rd_env rd)))) m6)"
  have "monitor_fit view m7"
    unfolding m7_def
    by (rule preservesD [OF fit_on_vdu [OF terminal_keeps(3)] preservesD [OF fit_on_sys [OF mailbox_fit] m6(2)]])
  moreover have "gInterface m7 = gInterface (fw_monitor fw)" using m6(3) h5(2) h4(2) h3(2) h2(2) f1(3) by (simp add: m7_def)
  ultimately obtain m8 where m8: "taskICMonitor bd (rd_env rd) (rd_serial rd) m7 = Some m8" "monitor_fit view m8"
    using line_keeps [of view m7 "rd_serial rd" bd "rd_env rd"] assms(3) by auto
  have "main_loop bd rd fw = Some (f5\<lparr>fw_monitor := m8,
      fw_led := updateIndicator (rd_led rd) (gSysState (mach (m_sys m8))) (fw_led f5)\<rparr>)"
    unfolding main_loop_def f1(1) Option.bind.bind_lunit Let_def f2_def [symmetric] f3_def [symmetric] f4_def [symmetric]
      f5_def [symmetric] m6(1) m7_def [symmetric] m8(1) by (rule refl)
  then show ?thesis using m8(2) h5(1) updateIndicator_ok by (simp add: firmware_fit_def)
qed

lemma rounds_fit:
  fixes fw :: "('b, 'f, 'd, 'k) firmware"
  assumes "firmware_fit view fw" and "\<forall>rd\<in>set rds. (\<forall>c\<in>set (rd_callbacks rd). fits_scan c) \<and> rd_serial rd \<noteq> Some 0x0A"
  shows "\<exists>fw'. loop_rounds bd rds fw = Some fw' \<and> firmware_fit view fw'"
  using assms
proof (induction rds arbitrary: fw)
  case (Cons rd rds)
  obtain f1 where "main_loop bd rd fw = Some f1" "firmware_fit view f1"
    using main_loop_fit [OF Cons.prems(1), of rd] Cons.prems(2) by auto
  then show ?case using Cons.IH [of f1] Cons.prems(2) by simp
qed simp

end

section \<open>Properties\<close>


text \<open>A running board with the default map in all contexts, on which a keyboard is plugged in.\<close>

definition demo_machine :: "ref machine" where
  "demo_machine = (running id)\<lparr>hw := (hw (running id))\<lparr>mmu_ram := (\<lambda>c i. gDefaultMMU ! unat i)\<rparr>\<rparr>"

definition demo_firmware :: "(ref, unit, nat, unit) firmware" where
  "demo_firmware = \<lparr>fw_monitor = initial_monitor demo_machine vdu_up,
     fw_hid = initUSBHIDInput (hid_start (\<lambda>n. 2000 * of_nat n) (\<lambda>n. True)
       \<lparr>g_keyboardLocale = USB_KEYBOARD_LOCALE_US, g_activeLayout = None\<rparr>),
     fw_led = initial_indicator\<rparr>"

definition demo_round :: "(unit, nat, unit) round_env" where
  "demo_round = \<lparr>rd_env = demo_env, rd_callbacks = [Hid_Mount 1 0 [0x05, 0x01, 0x09, 0x06]], rd_storage = (0, 0, 0),
     rd_irq = (0, 0), rd_serial = Some 0x68, rd_led = 0\<rparr>"

lemma demo_machine_ok: "port_ok demo_machine" "gSysState demo_machine = sRUNNING" "pages_inj (hw demo_machine) c"
proof -
  show "gSysState demo_machine = sRUNNING" using running_ok(2) [of id] by (simp add: demo_machine_def)
  show p: "pages_inj (hw demo_machine) c" for c by (rule default_pages_inj) (simp add: demo_machine_def)
  show "port_ok demo_machine"
    using running_ok(1) [of id] p in_row_cong [of demo_machine "running id"] unfolding port_ok_def machine_ok_def bus_ok_def
    by (auto simp: demo_machine_def)
qed

lemma demo_firmware_fit: "firmware_fit id demo_firmware"
proof -
  have "hid_ok (fw_hid demo_firmware)" using hid_reachable_ok [OF hid_reachable.start] by (simp add: demo_firmware_def)
  then show ?thesis
    using demo_machine_ok vdu_up(1-3) initial_monitor_ok [of demo_machine vdu_up]
    by (simp add: firmware_fit_def monitor_fit_def sys_fit_def terminal_fit_def demo_firmware_def initial_sys_def
      storage_ok_initial cwds_ok_initial queues_ok_initial indicator_ok_def initial_indicator_def MAX_BRIGHTNESS_def)
qed


end
