(* ===== verification/Spec2Isabelle.thy ===== *)
theory Spec2Isabelle
  imports Context_Access_Spec Boot_Spec Gdu Monitor_Memory_Spec Main_Loop
begin

text \<open>
  Verification of the firmware of the NEO6502 MMU board (directory \<open>NEO6502_MMU_V3\<close>). An RP2350 drives a 65C02 over the
  NEO bus, maps its sixteen pages of 4 kB in 128 contexts through an external table, serves it files from USB storage
  over a mailbox in the 6502 memory, and is its keyboard, mouse and text terminal.

  Parts and interaction. \<open>setup()\<close> brings the bus up, reads \<open>/memory.ini\<close> and \<open>/system.ini\<close> from LittleFS, fills the MMU
  table, loads cartridges and releases the processor. \<open>loop()\<close> then calls ten tasks in turn: USB storage, USB keyboard
  and mouse, the interrupt slot, the command slot (context switch), the character registers, the output queue, the
  mailbox, the terminal, the monitor on \<open>Serial1\<close>, and the light. All accesses to the 6502 memory go through the
  \<open>snoop\<close> functions of \<open>neobus.cpp\<close>, which stop the processor, use the bus and let it go on.

  Theories and sources.
   \<^item> \<open>Prelude\<close>: machine words, the operations of the state monad, loops over lists and indices, rule collections.
   \<^item> \<open>Board\<close>, \<open>Control\<close>, \<open>Neobus_Latch\<close>, \<open>Mmu\<close>, \<open>P6502\<close>, \<open>Neobus_Memory\<close>: \<open>pins.h\<close>, \<open>control.cpp\<close>, \<open>neobus.cpp\<close>,
     \<open>mmu.cpp\<close>, \<open>p6502.cpp\<close>, statement by statement over the globals (record \<open>machine\<close>) and a board parameter: one
     function for the effect of a register access, one for the level read from a pin.
   \<^item> \<open>Mmu_Table\<close>, \<open>P6502_States\<close>, \<open>Memory_Port\<close>, \<open>Bring_Up\<close>, \<open>Bus_Properties\<close>: what these do on the reference board
     (latches, table, memory), the invariant \<open>port_ok\<close> of bus and processor state, and the memory as a map.
   \<^item> \<open>Fifo\<close>, \<open>Input\<close>: \<open>fifo.h\<close>, \<open>input.cpp\<close>. The ring buffer interprets the locale \<open>bounded_queue\<close>.
   \<^item> \<open>Rp_Fs_Path\<close>, \<open>Storage\<close>, \<open>Storage_Events\<close>, \<open>Rp_Fs\<close> and their \<open>_Spec\<close> theories: \<open>rp_fs_path.cpp\<close>, \<open>usb_storage.cpp\<close>,
     \<open>usb_fatfs.cpp\<close>, \<open>usb_msc_diskio.cpp\<close>, \<open>rp_fs.cpp\<close>.
   \<^item> \<open>System\<close>: the record \<open>sys\<close> of all globals above the bus and the rules for invariants and postconditions of programs.
   \<^item> \<open>Mailbox_Abi\<close>, \<open>Context_Access\<close>, \<open>Fs_Mailbox\<close>, \<open>Mailbox\<close>: \<open>mailbox.h\<close>, \<open>mailbox.cpp\<close>, \<open>rp_fs_mailbox.cpp\<close>,
     \<open>rp_console_io.cpp\<close>, \<open>simple_io.cpp\<close>; \<open>Scheduler\<close>, \<open>Context_Switch\<close>: \<open>scheduler.cpp\<close>, \<open>cmd.cpp\<close>.
   \<^item> \<open>Memory_Config\<close>, \<open>Sys_Config\<close>, \<open>Rom\<close> and their \<open>_Spec\<close> theories, \<open>Boot_Spec\<close>: \<open>memory_config.cpp\<close>,
     \<open>sys_config.cpp\<close>, \<open>rom.cpp\<close>, \<open>boot.cpp\<close>.
   \<^item> \<open>Keyboard_Layout\<close>, \<open>Usb_Hid\<close>: \<open>usb_keyboard_layout.cpp\<close>, \<open>usb_hid_input.cpp\<close>.
   \<^item> \<open>Vdu\<close>, \<open>Vdu_Terminal\<close>, \<open>Vdu_Spec\<close>, \<open>Gdu\<close>: \<open>vdu.cpp\<close>, \<open>palette.h\<close>, \<open>gdu.cpp\<close>.
   \<^item> \<open>Disasm\<close>, \<open>Debug_Neox\<close>, \<open>Monitor\<close>, \<open>Monitor_Spec\<close>, \<open>Monitor_Memory_Spec\<close>: \<open>disasm6502.cpp\<close>, \<open>ram.cpp\<close>,
     \<open>debug_neox.cpp\<close>, \<open>monitor.cpp\<close>. \<open>Indicator\<close>: \<open>indicator.cpp\<close>. \<open>Main_Loop\<close>: \<open>loop()\<close>.

  Form of the model. A C++ function that changes globals is a state-monad program of the same name (or, in \<open>Vdu\<close>,
  \<open>Gdu\<close>, \<open>Usb_Hid\<close> and \<open>Indicator\<close>, a function on the state); its statements, early returns and loops stand in their
  order. Integers have their width (\<open>u8\<close>, \<open>u16\<close>, \<open>u32\<close>), a char array is the list of the characters before its zero byte,
  a failing call gives an option or a result datatype. Loops that need not end are \<open>partial_function (option)\<close> or take
  fuel: directory scans have \<open>DIR_FUEL\<close> = 65537 entries, more than a FAT directory holds, and where a theorem
  says that a result is there it shows that the recursion ends. The text of \<open>Serial1\<close> is state where it is the result of a
  command (listings, dumps, tables), and left out elsewhere.

  Interfaces. The locale \<open>neo_bus\<close> is the contract of a board: a view of its hardware as latches, table and memory that
  every register access respects; \<open>served_bus\<close> adds that the processor does not write the cells of a set while the
  firmware holds the bus (\<open>cpu_leaves\<close>); \<open>mailbox_bus\<close> that these are at least the cells of the mailbox, and
  \<open>listing_bus\<close> that they are all. Each is interpreted on the reference board; \<open>guarded_mailbox\<close> for any processor
  that is kept away from the cells, \<open>idle_mailbox\<close> for one that stands still.

  What the lemmas show. Of the bus: every system state has the pins of its row of the table in \<open>p6502.h\<close>, table entries
  and memory read back as written, the memory of contexts is separate as far as their pages are. Of the configuration
  files: whatever they hold, what is accepted is in bounds and bootable, and the table realises it. Of the
  storage: handles live on mounted devices, paths stay inside the file system, transfers inside the device. Of the
  mailbox: each request is served within 251 polls (one trigger, or the fallback count of 250) and answered, on every
  path. Of the interrupt slot: it refines an arbiter with fixed priorities. Of the terminal: it refines a terminal of
  rows of characters in which a smooth scroll is one step. Of the keyboard: the descriptor scan agrees with an item parser,
  reports act once on each key. Of the monitor: the line editor refines a list, its commands act on the memory seen by the
  6502, listings are texts of the memory. Of the main loop: every round ends and keeps all of these invariants.

  Parameters of the model, since their code is not part of the repository's own sources or is hardware: FatFs (record
  \<open>fatfs\<close>; an answer of any kind is possible), TinyUSB (sequences of callbacks and answers), LittleFS (a map from
  names to contents), the display library (events), the command parser SimpleCLI, \<open>atof\<close>, \<open>millis()\<close> (readings that
  where needed run: \<open>clock_runs\<close>), and the 65C02 (\<open>cpu\<close>). Hypotheses that recur: \<open>port_ok\<close> (the bus is idle and the
  processor in a listed state after start-up), \<open>pages_inj\<close> (a context maps sixteen different pages), \<open>cpu_leaves\<close>.

  Not modelled. Fonts and the vendored \<open>fatfs_local\<close> are data and a library. \<open>delay.h\<close> waits, \<open>bios.h\<close> and
  \<open>tusb_config.h\<close> are constants. The commands help, status and usbdisks of the monitor and the dump functions not listed
  above only print; \<open>dumpPipes\<close>, \<open>dumpOpenFiles\<close> and \<open>dumpInterface\<close> are not called. The floating-point divider of
  \<open>set6502Clock\<close> is the event of starting the PWM. The main-loop theorem leaves out rounds in which a command line of the
  monitor is executed, since commands may rewrite memory and table at will, and asks for sixteen different pages in all 256
  rows of the table: the context-switch command takes any byte, although only 128 contexts are initialised. Two
  cores and interrupt handlers run as if between statements of the tasks: the handler of the I/O page only sets a flag,
  which the model takes as part of the state.
\<close>

end
